(* ===== verification/Sync_Prelude.thy ===== *)
theory Sync_Prelude
  imports Main "HOL-Library.List_Lexorder" "HOL-Library.Char_ord"
begin

text \<open>
  Shared vocabulary of the development: the error type of the server, the result
  combinator that stands for Rust's \<open>?\<close>, 32-bit signed arithmetic, text on the
  Latin-1 range of Unicode, time, and database tables as lists of rows.

  Contents, in order: the collections \<open>result_simps\<close> and \<open>row_simps\<close> that the component
  proofs pass to the simplifier; \<open>app_error\<close> (src/src/errors.rs); \<open>and_then\<close>;
  \<open>wrap_i32\<close> and truncating division; \<open>trim\<close>, \<open>to_lowercase\<close>, token splitting;
  calendar days; the table operations and the interface \<open>keyed_store\<close> that every table
  with a primary key provides; the interface \<open>machine\<close> of a step relation with an
  invariant.
\<close>

named_theorems result_simps "decomposition of successful results"
named_theorems row_simps "effect of the table operations"

section \<open>Errors and results\<close>

text \<open>
  The failures of the database that the handlers can provoke: the constraint violations
  declared by the migrations, a row that a query needed and did not find, and an
  arithmetic result outside the column's type.
\<close>

datatype db_error =
    UniqueViolation | ForeignKeyViolation | CheckViolation | RowNotFound | NumericOutOfRange

datatype app_error =
    Database db_error
  | Pool
  | NotFound
  | Unauthorized
  | Forbidden
  | BadRequest string
  | Conflict string
  | TooManyRequests string
  | Internal string

text \<open>The HTTP status of an error: the match of \<open>error_response\<close>.\<close>

fun error_response :: "app_error \<Rightarrow> nat" where
  "error_response NotFound = 404"
| "error_response Unauthorized = 401"
| "error_response Forbidden = 403"
| "error_response (BadRequest _) = 400"
| "error_response (Conflict _) = 409"
| "error_response (TooManyRequests _) = 429"
| "error_response _ = 500"

type_synonym 'a result = "app_error + 'a"

definition and_then :: "'e + 'a \<Rightarrow> ('a \<Rightarrow> 'e + 'b) \<Rightarrow> 'e + 'b" where
  "and_then r f = (case r of Inl e \<Rightarrow> Inl e | Inr x \<Rightarrow> f x)"

lemma and_then_simps [simp]:
  "and_then (Inl e) f = Inl e"
  "and_then (Inr x) f = f x"
  by (simp_all add: and_then_def)

lemma and_then_eq_Inr [result_simps]:
  "and_then r f = Inr y \<longleftrightarrow> (\<exists>x. r = Inr x \<and> f x = Inr y)"
  by (cases r) auto

lemma and_then_eq_Inl [result_simps]:
  "and_then r f = Inl e \<longleftrightarrow> r = Inl e \<or> (\<exists>x. r = Inr x \<and> f x = Inl e)"
  by (cases r) auto

lemma if_Inl_eq_Inr [result_simps]:
  "(if b then Inl e else r) = Inr x \<longleftrightarrow> \<not> b \<and> r = Inr x"
  "(if b then r else Inl e) = Inr x \<longleftrightarrow> b \<and> r = Inr x"
  by auto

text \<open>\<open>ok_or\<close>: an absent row becomes the given error.\<close>

definition ok_or :: "'e \<Rightarrow> 'a option \<Rightarrow> 'e + 'a" where
  "ok_or e x = (case x of None \<Rightarrow> Inl e | Some v \<Rightarrow> Inr v)"

lemma ok_or_simps [simp]: "ok_or e None = Inl e" "ok_or e (Some v) = Inr v"
  by (simp_all add: ok_or_def)

lemma ok_or_eq [result_simps]:
  "ok_or e x = Inr v \<longleftrightarrow> x = Some v" "ok_or e x = Inl e' \<longleftrightarrow> x = None \<and> e' = e"
  by (cases x; auto)+

definition guard_err :: "bool \<Rightarrow> 'e \<Rightarrow> 'e + unit" where
  "guard_err ok e = (if ok then Inr () else Inl e)"

lemma guard_err_eq [result_simps]:
  "guard_err b e = Inr u \<longleftrightarrow> b" "guard_err b e = Inl e' \<longleftrightarrow> \<not> b \<and> e' = e"
  by (auto simp: guard_err_def)

lemma guard_err_simps [simp]: "guard_err True e = Inr ()" "guard_err False e = Inl e"
  by (simp_all add: guard_err_def)

definition is_ok :: "'e + 'a \<Rightarrow> bool" where
  "is_ok r = (case r of Inl _ \<Rightarrow> False | Inr _ \<Rightarrow> True)"

lemma is_ok_iff: "is_ok r \<longleftrightarrow> (\<exists>x. r = Inr x)"
  by (cases r) (auto simp: is_ok_def)

lemma is_ok_simps [simp]: "is_ok (Inl e) = False" "is_ok (Inr x) = True"
  by (simp_all add: is_ok_def)

text \<open>Results whose only failures are client errors of kind \<open>BadRequest\<close>.\<close>

definition only_bad_request :: "app_error + 'a \<Rightarrow> bool" where
  "only_bad_request r \<longleftrightarrow> (case r of Inl e \<Rightarrow> error_response e = 400 | Inr _ \<Rightarrow> True)"

lemma only_bad_request_intros [simp]:
  "only_bad_request (Inr x)" "only_bad_request (Inl (BadRequest m))"
  "only_bad_request r1 \<Longrightarrow> only_bad_request r2 \<Longrightarrow> only_bad_request (if b then r1 else r2)"
  "only_bad_request r \<Longrightarrow> (\<And>x. r = Inr x \<Longrightarrow> only_bad_request (f x)) \<Longrightarrow> only_bad_request (and_then r f)"
  by (simp_all add: only_bad_request_def and_then_def split: sum.splits)

section \<open>Signed 32-bit arithmetic\<close>

text \<open>
  The release profile of Cargo.toml has no overflow checks, so \<open>i32\<close> arithmetic wraps.
  Values are kept as \<open>int\<close> and every operation that can overflow is followed by
  \<open>wrap_i32\<close>. Rust's integer division truncates towards zero.
\<close>

definition i32_max :: int where "i32_max = 2147483647"
definition i32_min :: int where "i32_min = -2147483648"

definition in_i32 :: "int \<Rightarrow> bool" where
  "in_i32 x \<longleftrightarrow> i32_min \<le> x \<and> x \<le> i32_max"

definition wrap_i32 :: "int \<Rightarrow> int" where
  "wrap_i32 x = (x + 2147483648) mod 4294967296 - 2147483648"

lemma wrap_i32_id [simp]: "in_i32 x \<Longrightarrow> wrap_i32 x = x"
  by (simp add: wrap_i32_def in_i32_def i32_min_def i32_max_def)

lemma in_i32_wrap [simp]: "in_i32 (wrap_i32 x)"
proof -
  have "0 \<le> (x + 2147483648) mod 4294967296" "(x + 2147483648) mod 4294967296 < 4294967296"
    by simp_all
  then show ?thesis
    unfolding wrap_i32_def in_i32_def i32_min_def i32_max_def by linarith
qed

definition div_i32 :: "int \<Rightarrow> int \<Rightarrow> int" where
  "div_i32 x y = (let q = abs x div abs y in if (x < 0) = (y < 0) then q else - q)"

lemma div_i32_nonneg: "0 \<le> a \<Longrightarrow> 0 < b \<Longrightarrow> div_i32 a b = a div b"
  by (simp add: div_i32_def)

definition saturating_add_i32 :: "int \<Rightarrow> int \<Rightarrow> int" where
  "saturating_add_i32 a b = max i32_min (min i32_max (a + b))"

definition saturating_sub_i32 :: "int \<Rightarrow> int \<Rightarrow> int" where
  "saturating_sub_i32 a b = max i32_min (min i32_max (a - b))"

definition clamp :: "int \<Rightarrow> int \<Rightarrow> int \<Rightarrow> int" where
  "clamp lo hi x = (if x < lo then lo else if hi < x then hi else x)"

lemma clamp_bounds: "lo \<le> hi \<Longrightarrow> clamp lo hi x \<in> {lo..hi}"
  by (simp add: clamp_def)

section \<open>Text\<close>

text \<open>
  A Rust \<open>char\<close> is modelled by an Isabelle \<open>char\<close>, the code points U+0000 to U+00FF. On
  that range \<open>is_whitespace\<close>, \<open>to_lowercase\<close> and \<open>is_control\<close> below are those of the
  Rust standard library. \<open>chars().count()\<close> is \<open>length\<close>; \<open>len()\<close> counts UTF-8 bytes.
\<close>

abbreviation code :: "char \<Rightarrow> nat" where "code c \<equiv> of_char c"

definition is_whitespace :: "char \<Rightarrow> bool" where
  "is_whitespace c \<longleftrightarrow> (9 \<le> code c \<and> code c \<le> 13) \<or> code c \<in> {32, 133, 160}"

definition is_control :: "char \<Rightarrow> bool" where
  "is_control c \<longleftrightarrow> code c < 32 \<or> (127 \<le> code c \<and> code c < 160)"

definition has_lower :: "nat \<Rightarrow> bool" where
  "has_lower n \<longleftrightarrow> (65 \<le> n \<and> n \<le> 90) \<or> (192 \<le> n \<and> n \<le> 222 \<and> n \<noteq> 215)"

definition lower_char :: "char \<Rightarrow> char" where
  "lower_char c = (if has_lower (code c) then char_of (code c + 32) else c)"

definition to_lowercase :: "string \<Rightarrow> string" where
  "to_lowercase s = map lower_char s"

definition is_ascii_alphanumeric :: "char \<Rightarrow> bool" where
  "is_ascii_alphanumeric c \<longleftrightarrow> (48 \<le> code c \<and> code c \<le> 57) \<or>
     (65 \<le> code c \<and> code c \<le> 90) \<or> (97 \<le> code c \<and> code c \<le> 122)"

definition trim :: "string \<Rightarrow> string" where
  "trim s = rev (dropWhile is_whitespace (rev (dropWhile is_whitespace s)))"

definition utf8_len :: "string \<Rightarrow> nat" where
  "utf8_len s = sum_list (map (\<lambda>c. if code c < 128 then 1 else 2) s)"

text \<open>\<open>Option<&str>\<close> trimmed, with the empty text dropped (\<open>map(trim).filter(!is_empty)\<close>).\<close>

definition trimmed_nonempty :: "string option \<Rightarrow> string option" where
  "trimmed_nonempty x = (case x of None \<Rightarrow> None
     | Some s \<Rightarrow> if trim s = [] then None else Some (trim s))"

definition is_prefix :: "string \<Rightarrow> string \<Rightarrow> bool" where
  "is_prefix p s \<longleftrightarrow> take (length p) s = p"

definition strip_prefix :: "string \<Rightarrow> string \<Rightarrow> string option" where
  "strip_prefix p s = (if is_prefix p s then Some (drop (length p) s) else None)"

text \<open>\<open>str::contains\<close> with a text pattern.\<close>

fun contains :: "string \<Rightarrow> string \<Rightarrow> bool" where
  "contains [] p \<longleftrightarrow> p = []"
| "contains (c # s) p \<longleftrightarrow> is_prefix p (c # s) \<or> contains s p"

text \<open>\<open>split(pred)\<close> followed by the removal of the empty pieces.\<close>

fun tokens_by :: "(char \<Rightarrow> bool) \<Rightarrow> string \<Rightarrow> string \<Rightarrow> string list" where
  "tokens_by sep [] acc = (if acc = [] then [] else [rev acc])"
| "tokens_by sep (c # s) acc =
     (if sep c then (if acc = [] then [] else [rev acc]) @ tokens_by sep s []
      else tokens_by sep s (c # acc))"

text \<open>\<open>split(c)\<close>, which keeps the empty pieces, \<open>join\<close>, \<open>lines\<close> and \<open>trim_matches(c)\<close>.\<close>

fun split_on :: "char \<Rightarrow> string \<Rightarrow> string list" where
  "split_on c [] = [[]]"
| "split_on c (x # s) =
     (if x = c then [] # split_on c s
      else (case split_on c s of [] \<Rightarrow> [[x]] | p # ps \<Rightarrow> (x # p) # ps))"

fun join :: "string \<Rightarrow> string list \<Rightarrow> string" where
  "join sep [] = []"
| "join sep [s] = s"
| "join sep (s # ss) = s @ sep @ join sep ss"

definition lines :: "string \<Rightarrow> string list" where
  "lines s =
    (let ls = split_on (CHR 0x0A) s;
         kept = (if last ls = [] then butlast ls else ls)
     in map (\<lambda>l. if l \<noteq> [] \<and> last l = CHR 0x0D then butlast l else l) kept)"

definition trim_matches :: "char \<Rightarrow> string \<Rightarrow> string" where
  "trim_matches c s = rev (dropWhile (\<lambda>x. x = c) (rev (dropWhile (\<lambda>x. x = c) s)))"

text \<open>\<open>str::ends_with\<close>, and decimal numbers: \<open>to_string\<close> and \<open>str::parse\<close> at the
  integer types of Rust (an optional sign, then digits; out of range is an error).\<close>

definition ends_with :: "string \<Rightarrow> string \<Rightarrow> bool" where
  "ends_with s p = is_prefix (rev p) (rev s)"

fun show_nat :: "nat \<Rightarrow> string" where
  "show_nat n = (if n < 10 then [char_of (48 + n)] else show_nat (n div 10) @ [char_of (48 + n mod 10)])"

declare show_nat.simps [simp del]

definition is_digit :: "char \<Rightarrow> bool" where
  "is_digit c \<longleftrightarrow> 48 \<le> code c \<and> code c \<le> 57"

definition digits_value :: "string \<Rightarrow> nat" where
  "digits_value s = foldl (\<lambda>n c. 10 * n + (code c - 48)) 0 s"

definition parse_unsigned :: "nat \<Rightarrow> string \<Rightarrow> nat option" where
  "parse_unsigned bits s =
    (let ds = (if s \<noteq> [] \<and> hd s = CHR ''+'' then tl s else s)
     in if ds \<noteq> [] \<and> list_all is_digit ds \<and> digits_value ds < 2 ^ bits then Some (digits_value ds)
        else None)"

definition parse_signed :: "nat \<Rightarrow> string \<Rightarrow> int option" where
  "parse_signed bits s =
    (let neg = (s \<noteq> [] \<and> hd s = CHR ''-'');
         ds = (if s \<noteq> [] \<and> (hd s = CHR ''-'' \<or> hd s = CHR ''+'') then tl s else s);
         v = (if neg then - int (digits_value ds) else int (digits_value ds))
     in if ds \<noteq> [] \<and> list_all is_digit ds \<and> - (2 ^ (bits - 1)) \<le> v \<and> v < 2 ^ (bits - 1) then Some v
        else None)"

abbreviation parse_u32 :: "string \<Rightarrow> nat option" where "parse_u32 \<equiv> parse_unsigned 32"

lemma digit_char: "d < 10 \<Longrightarrow> is_digit (char_of (48 + d)) \<and> code (char_of (48 + d)) = 48 + d"
  by (auto simp: is_digit_def)

lemma show_nat_digits: "show_nat n \<noteq> [] \<and> list_all is_digit (show_nat n) \<and> digits_value (show_nat n) = n"
proof (induction n rule: show_nat.induct)
  case (1 n)
  show ?case
  proof (cases "n < 10")
    case True
    then show ?thesis using digit_char [of n] by (simp add: show_nat.simps [of n] digits_value_def)
  next
    case False
    then have "digits_value (show_nat n) = 10 * (n div 10) + n mod 10"
      using 1 digit_char [of "n mod 10"] by (simp add: show_nat.simps [of n] digits_value_def)
    then show ?thesis
      using False 1 digit_char [of "n mod 10"] by (simp add: show_nat.simps [of n])
  qed
qed

lemma parse_show_nat: "n < 2 ^ bits \<Longrightarrow> parse_unsigned bits (show_nat n) = Some n"
proof -
  assume "n < 2 ^ bits"
  moreover have "is_digit (hd (show_nat n))"
    using show_nat_digits [of n] by (cases "show_nat n") auto
  then have "hd (show_nat n) \<noteq> CHR ''+''" by (auto simp: is_digit_def)
  ultimately show ?thesis using show_nat_digits [of n] by (simp add: parse_unsigned_def)
qed

lemma strip_prefix_eq: "strip_prefix p s = Some t \<longleftrightarrow> s = p @ t"
  by (auto simp: strip_prefix_def is_prefix_def) (metis append_take_drop_id)

lemma split_on_nonempty [simp]: "split_on c s \<noteq> []"
  by (induction s) (auto split: list.splits)

lemma split_on_id: "c \<notin> set s \<Longrightarrow> split_on c s = [s]"
  by (induction s) auto

lemma split_on_append: "c \<notin> set s \<Longrightarrow> split_on c (s @ c # t) = s # split_on c t"
  by (induction s) auto

lemma dropWhile_idem [simp]: "dropWhile P (dropWhile P xs) = dropWhile P xs"
  by (induction xs) auto

lemma hd_rev_dropWhile: "rev (dropWhile P (rev xs)) \<noteq> [] \<Longrightarrow> hd (rev (dropWhile P (rev xs))) = hd xs"
proof -
  assume ne: "rev (dropWhile P (rev xs)) \<noteq> []"
  have "xs = rev (dropWhile P (rev xs)) @ rev (takeWhile P (rev xs))"
    by (metis rev_append rev_rev_ident takeWhile_dropWhile_id)
  then show ?thesis
    using ne by (metis hd_append2)
qed

lemma trim_hd: "trim s \<noteq> [] \<Longrightarrow> \<not> is_whitespace (hd (trim s))"
  unfolding trim_def
  by (metis dropWhile_eq_Nil_conv hd_dropWhile hd_rev_dropWhile rev_is_Nil_conv dropWhile.simps(1))

lemma trim_last: "trim s \<noteq> [] \<Longrightarrow> \<not> is_whitespace (last (trim s))"
  unfolding trim_def by (simp add: hd_dropWhile last_rev)

lemma trim_idem [simp]: "trim (trim s) = trim s"
proof (cases "trim s = []")
  case True
  show ?thesis unfolding True by (simp add: trim_def)
next
  case False
  then have h: "dropWhile is_whitespace (trim s) = trim s"
    using trim_hd [OF False] by (cases "trim s") auto
  have l: "dropWhile is_whitespace (rev (trim s)) = rev (trim s)"
    using trim_last [OF False] False by (cases "rev (trim s)") (auto simp flip: hd_rev)
  show ?thesis
    unfolding trim_def [of "trim s"] h by (simp add: l)
qed

lemma lower_char_idem [simp]: "lower_char (lower_char c) = lower_char c"
proof (cases "has_lower (code c)")
  case True
  then have "code c + 32 < 256" by (auto simp: has_lower_def)
  then have "code (char_of (code c + 32)) = code c + 32" by simp
  moreover have "\<not> has_lower (code c + 32)" using True by (auto simp: has_lower_def)
  ultimately show ?thesis using True by (simp add: lower_char_def)
next
  case False
  then show ?thesis by (simp add: lower_char_def)
qed

lemma is_whitespace_lower_char [simp]: "is_whitespace (lower_char c) = is_whitespace c"
proof (cases "has_lower (code c)")
  case True
  then have "code c + 32 < 256" by (auto simp: has_lower_def)
  then have "code (char_of (code c + 32)) = code c + 32" by simp
  then show ?thesis using True by (auto simp: lower_char_def is_whitespace_def has_lower_def)
next
  case False
  then show ?thesis by (simp add: lower_char_def)
qed

lemma to_lowercase_idem [simp]: "to_lowercase (to_lowercase s) = to_lowercase s"
  by (simp add: to_lowercase_def)

lemma trim_to_lowercase: "trim (to_lowercase s) = to_lowercase (trim s)"
  by (simp add: trim_def to_lowercase_def dropWhile_map rev_map comp_def)

lemma to_lowercase_eq_Nil [simp]: "to_lowercase s = [] \<longleftrightarrow> s = []"
  by (simp add: to_lowercase_def)

lemma contains_iff: "contains s p \<longleftrightarrow> (\<exists>us vs. s = us @ p @ vs)"
proof (induction s)
  case Nil
  then show ?case by auto
next
  case (Cons c s)
  have "is_prefix p (c # s) \<longleftrightarrow> (\<exists>vs. c # s = p @ vs)"
    unfolding is_prefix_def by (metis append_take_drop_id append_eq_conv_conj)
  moreover have "(\<exists>us vs. c # s = us @ p @ vs) \<longleftrightarrow>
      (\<exists>vs. c # s = p @ vs) \<or> (\<exists>us vs. s = us @ p @ vs)"
    by (metis append_Cons append_Nil list.exhaust_sel list.sel(3))
  ultimately show ?case using Cons by simp
qed

section \<open>Ordered sets of Rust\<close>

text \<open>\<open>collect::<BTreeSet<_>>().into_iter().collect::<Vec<_>>()\<close>: sorted, no duplicates.\<close>

definition btree_set :: "'a::linorder list \<Rightarrow> 'a list" where
  "btree_set xs = sort (remdups xs)"

lemma btree_set_props [simp]:
  "set (btree_set xs) = set xs" "sorted (btree_set xs)" "distinct (btree_set xs)"
  by (simp_all add: btree_set_def)

lemma btree_set_idem [simp]: "btree_set (btree_set xs) = btree_set xs"
  by (metis btree_set_props btree_set_def distinct_remdups_id sorted_sort_id)

section \<open>Time\<close>

text \<open>
  An instant is a number of microseconds since the Unix epoch (the resolution at which
  PostgreSQL keeps a timestamp); a \<open>NaiveDate\<close> is a number of days since the epoch.
\<close>

type_synonym instant = int
type_synonym day = int

definition second_us :: int where "second_us = 1000000"
definition minutes :: "int \<Rightarrow> int" where "minutes n = n * 60000000"
definition hours :: "int \<Rightarrow> int" where "hours n = n * 3600000000"
definition days :: "int \<Rightarrow> int" where "days n = n * 86400000000"

definition date_naive :: "instant \<Rightarrow> day" where
  "date_naive t = t div 86400000000"

definition midnight :: "day \<Rightarrow> instant" where
  "midnight d = d * 86400000000"

definition hour_of :: "instant \<Rightarrow> int" where
  "hour_of t = (t mod 86400000000) div 3600000000"

definition timestamp :: "instant \<Rightarrow> int" where
  "timestamp t = t div 1000000"

lemma midnight_date_naive: "midnight (date_naive t) \<le> t" "t < midnight (date_naive t + 1)"
  unfolding midnight_def date_naive_def by (simp_all add: algebra_simps)

lemma date_naive_ge_iff: "d \<le> date_naive t \<longleftrightarrow> midnight d \<le> t"
  unfolding midnight_def date_naive_def by linarith

lemma date_naive_eqI: "midnight d \<le> t \<Longrightarrow> t < midnight (d + 1) \<Longrightarrow> date_naive t = d"
  using date_naive_ge_iff [of d t] date_naive_ge_iff [of "d + 1" t] by linarith

section \<open>Tables\<close>

text \<open>
  A table is the list of its rows in insertion order. \<open>find_row\<close> is
  \<open>table.find(k).first().optional()\<close>, \<open>update_rows\<close> is \<open>diesel::update(table.filter(P)).set(f)\<close>,
  \<open>delete_rows\<close> is \<open>diesel::delete(table.filter(P))\<close> and \<open>count_rows\<close> is \<open>count_star\<close>.
\<close>

definition find_row :: "('r \<Rightarrow> 'k) \<Rightarrow> 'r list \<Rightarrow> 'k \<Rightarrow> 'r option" where
  "find_row key rows k = List.find (\<lambda>r. key r = k) rows"

definition insert_row :: "'r \<Rightarrow> 'r list \<Rightarrow> 'r list" where
  "insert_row r rows = rows @ [r]"

definition update_rows :: "('r \<Rightarrow> bool) \<Rightarrow> ('r \<Rightarrow> 'r) \<Rightarrow> 'r list \<Rightarrow> 'r list" where
  "update_rows P f rows = map (\<lambda>r. if P r then f r else r) rows"

definition update_row :: "('r \<Rightarrow> 'k) \<Rightarrow> 'k \<Rightarrow> ('r \<Rightarrow> 'r) \<Rightarrow> 'r list \<Rightarrow> 'r list" where
  "update_row key k f rows = update_rows (\<lambda>r. key r = k) f rows"

text \<open>\<open>insert .. on_conflict(key).do_update().set(f)\<close>.\<close>

definition upsert_row :: "('r \<Rightarrow> 'k) \<Rightarrow> 'r \<Rightarrow> ('r \<Rightarrow> 'r) \<Rightarrow> 'r list \<Rightarrow> 'r list" where
  "upsert_row key r f rows =
     (if find_row key rows (key r) = None then insert_row r rows
      else update_row key (key r) f rows)"

definition delete_rows :: "('r \<Rightarrow> bool) \<Rightarrow> 'r list \<Rightarrow> 'r list" where
  "delete_rows P rows = filter (\<lambda>r. \<not> P r) rows"

definition count_rows :: "('r \<Rightarrow> bool) \<Rightarrow> 'r list \<Rightarrow> int" where
  "count_rows P rows = int (length (filter P rows))"

definition exists_row :: "('r \<Rightarrow> bool) \<Rightarrow> 'r list \<Rightarrow> bool" where
  "exists_row P rows = list_ex P rows"

definition distinct_key :: "('r \<Rightarrow> 'k) \<Rightarrow> 'r list \<Rightarrow> bool" where
  "distinct_key key rows = distinct (map key rows)"

lemma exists_row_iff [simp]: "exists_row P rows \<longleftrightarrow> (\<exists>r \<in> set rows. P r)"
  by (simp add: exists_row_def list_ex_iff)

lemma find_row_Some: "find_row key rows k = Some r \<Longrightarrow> r \<in> set rows \<and> key r = k"
  unfolding find_row_def by (auto simp: find_Some_iff)

lemma find_row_None: "find_row key rows k = None \<longleftrightarrow> k \<notin> key ` set rows"
  unfolding find_row_def by (auto simp: find_None_iff)

lemma find_row_insert [row_simps]:
  "find_row key (insert_row r rows) k =
     (case find_row key rows k of Some x \<Rightarrow> Some x | None \<Rightarrow> if key r = k then Some r else None)"
  by (induction rows) (auto simp: find_row_def insert_row_def)

lemma find_row_distinct:
  "distinct_key key rows \<Longrightarrow> r \<in> set rows \<Longrightarrow> find_row key rows (key r) = Some r"
  by (induction rows) (auto simp: distinct_key_def find_row_def)

lemma find_row_update [row_simps]:
  assumes "\<And>r. key (f r) = key r"
  shows "find_row key (update_row key k f rows) k' =
     (if k' = k then map_option f (find_row key rows k') else find_row key rows k')"
  by (induction rows) (auto simp: find_row_def update_row_def update_rows_def assms)

lemma find_row_update_rows [row_simps]:
  assumes "\<And>r. key (f r) = key r"
  shows "find_row key (update_rows P f rows) k =
     map_option (\<lambda>r. if P r then f r else r) (find_row key rows k)"
  by (induction rows) (auto simp: find_row_def update_rows_def assms)

lemma distinct_key_insert [row_simps]:
  "distinct_key key (insert_row r rows) \<longleftrightarrow> distinct_key key rows \<and> find_row key rows (key r) = None"
  by (auto simp: distinct_key_def insert_row_def find_row_None)

lemma map_key_update_rows:
  "(\<And>r. key (f r) = key r) \<Longrightarrow> map key (update_rows P f rows) = map key rows"
  by (simp add: update_rows_def)

lemma image_key_update_rows:
  "(\<And>r. key (f r) = key r) \<Longrightarrow> key ` set (update_rows P f rows) = key ` set rows"
  by (metis map_key_update_rows set_map)

lemma distinct_key_update_rows [row_simps]:
  "(\<And>r. key (f r) = key r) \<Longrightarrow> distinct_key key (update_rows P f rows) = distinct_key key rows"
  by (simp add: distinct_key_def map_key_update_rows)

lemma distinct_key_update_row [row_simps]:
  "(\<And>r. key (f r) = key r) \<Longrightarrow> distinct_key key (update_row key k f rows) = distinct_key key rows"
  by (simp add: update_row_def distinct_key_update_rows)

lemma distinct_key_delete: "distinct_key key rows \<Longrightarrow> distinct_key key (delete_rows P rows)"
  by (simp add: distinct_key_def delete_rows_def distinct_map_filter)

lemma find_row_delete [row_simps]:
  "find_row key (delete_rows (\<lambda>r. key r = k) rows) k' =
     (if k' = k then None else find_row key rows k')"
  by (induction rows) (auto simp: find_row_def delete_rows_def)

lemma set_insert_row [simp]: "set (insert_row r rows) = insert r (set rows)"
  by (simp add: insert_row_def)

lemma set_update_rows: "set (update_rows P f rows) = (\<lambda>r. if P r then f r else r) ` set rows"
  by (simp add: update_rows_def)

lemma ball_update_rows:
  "(\<forall>r \<in> set (update_rows P f rows). Q r) \<longleftrightarrow> (\<forall>r \<in> set rows. if P r then Q (f r) else Q r)"
  by (auto simp: set_update_rows)

lemma set_delete_rows [simp]: "set (delete_rows P rows) = {r \<in> set rows. \<not> P r}"
  by (auto simp: delete_rows_def)

lemma count_rows_nonneg [simp]: "0 \<le> count_rows P rows"
  by (simp add: count_rows_def)

lemma count_rows_insert [row_simps]:
  "count_rows P (insert_row r rows) = count_rows P rows + (if P r then 1 else 0)"
  by (simp add: count_rows_def insert_row_def)

lemma count_rows_update:
  "(\<And>r. P (f r) = P r) \<Longrightarrow> count_rows P (update_rows Q f rows) = count_rows P rows"
  by (induction rows) (auto simp: count_rows_def update_rows_def)

lemma count_rows_0_iff: "count_rows P rows = 0 \<longleftrightarrow> (\<forall>r \<in> set rows. \<not> P r)"
  by (auto simp: count_rows_def filter_empty_conv)

subsection \<open>The interface of a table with a primary key\<close>

text \<open>
  What a client of a keyed table may rely on: the row found after an insertion, after an
  update of the row of one key and after a deletion, and that the operations keep the
  keys distinct. The client lemmas (insert-or-update, idempotence) are proved here once
  and used at every table of the schema.
\<close>

locale keyed_store =
  fixes key :: "'r \<Rightarrow> 'k"
    and lookup :: "'t \<Rightarrow> 'k \<Rightarrow> 'r option"
    and ins :: "'r \<Rightarrow> 't \<Rightarrow> 't"
    and modify :: "'k \<Rightarrow> ('r \<Rightarrow> 'r) \<Rightarrow> 't \<Rightarrow> 't"
    and upsert :: "'r \<Rightarrow> ('r \<Rightarrow> 'r) \<Rightarrow> 't \<Rightarrow> 't"
    and remove :: "'k \<Rightarrow> 't \<Rightarrow> 't"
    and valid :: "'t \<Rightarrow> bool"
  assumes lookup_key: "lookup t k = Some r \<Longrightarrow> key r = k"
    and lookup_ins: "lookup t (key r) = None \<Longrightarrow>
        lookup (ins r t) k = (if k = key r then Some r else lookup t k)"
    and lookup_modify: "(\<And>r. key (f r) = key r) \<Longrightarrow>
        lookup (modify k f t) k' = (if k' = k then map_option f (lookup t k') else lookup t k')"
    and upsert_cases: "upsert r f t =
        (if lookup t (key r) = None then ins r t else modify (key r) f t)"
    and lookup_remove: "lookup (remove k t) k' = (if k' = k then None else lookup t k')"
    and valid_ins: "valid t \<Longrightarrow> lookup t (key r) = None \<Longrightarrow> valid (ins r t)"
    and valid_modify: "valid t \<Longrightarrow> (\<And>r. key (f r) = key r) \<Longrightarrow> valid (modify k f t)"
    and valid_remove: "valid t \<Longrightarrow> valid (remove k t)"
begin

lemma lookup_upsert:
  assumes "\<And>r. key (f r) = key r"
  shows "lookup (upsert r f t) k =
    (if k = key r then Some (case lookup t k of None \<Rightarrow> r | Some x \<Rightarrow> f x) else lookup t k)"
  using assms by (auto simp: upsert_cases lookup_ins lookup_modify split: option.splits)

lemma valid_upsert:
  "valid t \<Longrightarrow> (\<And>r. key (f r) = key r) \<Longrightarrow> valid (upsert r f t)"
  by (auto simp: upsert_cases intro: valid_ins valid_modify)

lemma modify_other: "(\<And>r. key (f r) = key r) \<Longrightarrow> k' \<noteq> k \<Longrightarrow> lookup (modify k f t) k' = lookup t k'"
  by (simp add: lookup_modify)

lemma remove_ins: "lookup t (key r) = None \<Longrightarrow> lookup (remove (key r) (ins r t)) k = lookup t k"
  by (simp add: lookup_remove lookup_ins)

end

lemma keyed_store_rows:
  "keyed_store key (find_row key) insert_row (update_row key) (upsert_row key)
     (\<lambda>k. delete_rows (\<lambda>r. key r = k)) (distinct_key key)"
  by unfold_locales
    (auto simp: row_simps upsert_row_def dest: find_row_Some intro: distinct_key_delete split: option.splits)

section \<open>Machines with an invariant\<close>

text \<open>
  A component that is driven by a sequence of requests: a relation \<open>step\<close> between its
  states, a set of initial states and an invariant. Every state that a run can reach
  satisfies the invariant.
\<close>

locale machine =
  fixes initial :: "'s \<Rightarrow> bool"
    and step :: "'s \<Rightarrow> 's \<Rightarrow> bool"
    and inv :: "'s \<Rightarrow> bool"
  assumes inv_initial: "initial s \<Longrightarrow> inv s"
    and inv_step: "inv s \<Longrightarrow> step s s' \<Longrightarrow> inv s'"
begin

lemma inv_steps: "step\<^sup>*\<^sup>* s s' \<Longrightarrow> inv s \<Longrightarrow> inv s'"
  by (induction rule: rtranclp_induct) (auto intro: inv_step)

lemma inv_reachable: "initial s \<Longrightarrow> step\<^sup>*\<^sup>* s s' \<Longrightarrow> inv s'"
  by (blast intro: inv_initial inv_steps)

end

end
