(* ===== verification/Guild_Policy.thy ===== *)
theory Guild_Policy
  imports Sync_Prelude
begin

text \<open>
  The guild policy: the configuration of src/src/models/guild.rs, the default policy, its
  validation and the pure lookups of src/src/services/guild_service.rs. \<open>bands\<close> is the
  interface shared by the level table and the rank table: a list of ranges, selected by
  the number of active days or by the contribution score.
\<close>

section \<open>Configuration\<close>

record level_policy =
  lp_level :: nat
  lp_min_active_days :: int
  lp_max_active_days :: "int option"
  lp_daily_outbound_messages_limit :: "int option"
  lp_daily_friend_add_limit :: "int option"
  lp_daily_attachment_send_limit :: "int option"

record rank_policy =
  rp_rank :: string
  rp_min_score :: int
  rp_max_score :: "int option"
  rp_outbound_messages_multiplier_percent :: "int option"
  rp_friend_add_multiplier_percent :: "int option"
  rp_attachment_send_multiplier_percent :: "int option"
  rp_overrides_level_limits :: bool

record guild_enforcement_config =
  ge_enabled :: bool
  ge_outbound_messages_enabled :: bool
  ge_friend_adds_enabled :: bool
  ge_attachment_sends_enabled :: bool
  ge_rank_engine_enabled :: bool

record guild_policy_config =
  gp_enforcement :: guild_enforcement_config
  gp_daily_counter_retention_days :: int
  gp_score_event_retention_days :: int
  gp_level_policies :: "level_policy list"
  gp_rank_policies :: "rank_policy list"
  gp_community_upvote_daily_cap :: int
  gp_safe_attachment_types :: "string list"

definition default_enforcement :: guild_enforcement_config where
  "default_enforcement = \<lparr>ge_enabled = True, ge_outbound_messages_enabled = True,
     ge_friend_adds_enabled = True, ge_attachment_sends_enabled = True,
     ge_rank_engine_enabled = True\<rparr>"

definition DEFAULT_SAFE_ATTACHMENT_TYPES :: "string list" where
  "DEFAULT_SAFE_ATTACHMENT_TYPES =
     [''application/pdf'', ''image/gif'', ''image/jpeg'', ''image/png'', ''image/webp'',
      ''text/plain'', ''video/mp4'']"

definition default_level_policies :: "level_policy list" where
  "default_level_policies =
    [\<lparr>lp_level = 1, lp_min_active_days = 0, lp_max_active_days = Some 6,
       lp_daily_outbound_messages_limit = Some 50, lp_daily_friend_add_limit = Some 5,
       lp_daily_attachment_send_limit = Some 5\<rparr>,
     \<lparr>lp_level = 2, lp_min_active_days = 7, lp_max_active_days = Some 13,
       lp_daily_outbound_messages_limit = Some 100, lp_daily_friend_add_limit = Some 10,
       lp_daily_attachment_send_limit = Some 5\<rparr>,
     \<lparr>lp_level = 3, lp_min_active_days = 14, lp_max_active_days = Some 29,
       lp_daily_outbound_messages_limit = Some 200, lp_daily_friend_add_limit = Some 20,
       lp_daily_attachment_send_limit = Some 10\<rparr>,
     \<lparr>lp_level = 4, lp_min_active_days = 30, lp_max_active_days = Some 59,
       lp_daily_outbound_messages_limit = Some 500, lp_daily_friend_add_limit = Some 30,
       lp_daily_attachment_send_limit = None\<rparr>,
     \<lparr>lp_level = 5, lp_min_active_days = 60, lp_max_active_days = Some 89,
       lp_daily_outbound_messages_limit = Some 1000, lp_daily_friend_add_limit = Some 30,
       lp_daily_attachment_send_limit = None\<rparr>,
     \<lparr>lp_level = 6, lp_min_active_days = 90, lp_max_active_days = Some 119,
       lp_daily_outbound_messages_limit = None, lp_daily_friend_add_limit = Some 30,
       lp_daily_attachment_send_limit = None\<rparr>,
     \<lparr>lp_level = 7, lp_min_active_days = 120, lp_max_active_days = Some 179,
       lp_daily_outbound_messages_limit = None, lp_daily_friend_add_limit = Some 50,
       lp_daily_attachment_send_limit = None\<rparr>,
     \<lparr>lp_level = 8, lp_min_active_days = 180, lp_max_active_days = None,
       lp_daily_outbound_messages_limit = None, lp_daily_friend_add_limit = Some 50,
       lp_daily_attachment_send_limit = None\<rparr>]"

definition default_rank_policies :: "rank_policy list" where
  "default_rank_policies =
    [\<lparr>rp_rank = ''F'', rp_min_score = 0, rp_max_score = Some 99,
       rp_outbound_messages_multiplier_percent = None, rp_friend_add_multiplier_percent = None,
       rp_attachment_send_multiplier_percent = None, rp_overrides_level_limits = False\<rparr>,
     \<lparr>rp_rank = ''E'', rp_min_score = 100, rp_max_score = Some 499,
       rp_outbound_messages_multiplier_percent = None, rp_friend_add_multiplier_percent = None,
       rp_attachment_send_multiplier_percent = None, rp_overrides_level_limits = False\<rparr>,
     \<lparr>rp_rank = ''D'', rp_min_score = 500, rp_max_score = Some 999,
       rp_outbound_messages_multiplier_percent = Some 120,
       rp_friend_add_multiplier_percent = Some 120,
       rp_attachment_send_multiplier_percent = Some 120, rp_overrides_level_limits = False\<rparr>,
     \<lparr>rp_rank = ''C'', rp_min_score = 1000, rp_max_score = Some 2499,
       rp_outbound_messages_multiplier_percent = None, rp_friend_add_multiplier_percent = None,
       rp_attachment_send_multiplier_percent = None, rp_overrides_level_limits = False\<rparr>,
     \<lparr>rp_rank = ''B'', rp_min_score = 2500, rp_max_score = Some 4999,
       rp_outbound_messages_multiplier_percent = Some 150,
       rp_friend_add_multiplier_percent = Some 150,
       rp_attachment_send_multiplier_percent = Some 150, rp_overrides_level_limits = False\<rparr>,
     \<lparr>rp_rank = ''A'', rp_min_score = 5000, rp_max_score = Some 9999,
       rp_outbound_messages_multiplier_percent = None, rp_friend_add_multiplier_percent = None,
       rp_attachment_send_multiplier_percent = None, rp_overrides_level_limits = True\<rparr>,
     \<lparr>rp_rank = ''S'', rp_min_score = 10000, rp_max_score = None,
       rp_outbound_messages_multiplier_percent = None, rp_friend_add_multiplier_percent = None,
       rp_attachment_send_multiplier_percent = None, rp_overrides_level_limits = True\<rparr>]"

definition default_guild_policy :: guild_policy_config where
  "default_guild_policy = \<lparr>gp_enforcement = default_enforcement,
     gp_daily_counter_retention_days = 45, gp_score_event_retention_days = 180,
     gp_level_policies = default_level_policies, gp_rank_policies = default_rank_policies,
     gp_community_upvote_daily_cap = 100,
     gp_safe_attachment_types = DEFAULT_SAFE_ATTACHMENT_TYPES\<rparr>"

section \<open>Validation\<close>

text \<open>
  The two loops of \<open>normalize_guild_policy\<close>. \<open>policy.level_policies.get(index + 1)\<close> is the
  head of the remaining list, and \<open>index + 1 != len\<close> says that it is not empty.
\<close>

fun check_level_policies :: "nat list \<Rightarrow> level_policy list \<Rightarrow> unit result" where
  "check_level_policies seen [] = Inr ()"
| "check_level_policies seen (e # rest) =
     (if lp_level e = 0 \<or> lp_level e > 10
      then Inl (BadRequest ''level policy level must be between 1 and 10'')
      else if lp_level e \<in> set seen
      then Inl (BadRequest ''level policy levels must be unique'')
      else if lp_min_active_days e < 0
      then Inl (BadRequest ''level policy min_active_days must be >= 0'')
      else and_then
        (case lp_max_active_days e of
           Some m \<Rightarrow>
             if m < lp_min_active_days e
             then Inl (BadRequest ''level policy max_active_days must be >= min_active_days'')
             else (case rest of
                 n # _ \<Rightarrow> if lp_min_active_days n \<le> m
                   then Inl (BadRequest ''level policy day ranges must not overlap'')
                   else Inr ()
               | [] \<Rightarrow> Inr ())
         | None \<Rightarrow>
             if rest \<noteq> [] then Inl (BadRequest ''only the final level policy may be open-ended'')
             else Inr ())
        (\<lambda>_. if list_ex (\<lambda>l. case l of Some v \<Rightarrow> v < 0 | None \<Rightarrow> False)
                [lp_daily_outbound_messages_limit e, lp_daily_friend_add_limit e,
                 lp_daily_attachment_send_limit e]
             then Inl (BadRequest ''level policy limits must be >= 0'')
             else check_level_policies (lp_level e # seen) rest))"

definition RANKS :: "string list" where
  "RANKS = [''F'', ''E'', ''D'', ''C'', ''B'', ''A'', ''S'']"

fun check_rank_policies :: "string list \<Rightarrow> rank_policy list \<Rightarrow> unit result" where
  "check_rank_policies seen [] = Inr ()"
| "check_rank_policies seen (e # rest) =
     (if rp_rank e \<notin> set RANKS
      then Inl (BadRequest ''rank policy rank must be one of F, E, D, C, B, A, S'')
      else if rp_rank e \<in> set seen
      then Inl (BadRequest ''rank policy ranks must be unique'')
      else if rp_min_score e < 0
      then Inl (BadRequest ''rank policy min_score must be >= 0'')
      else and_then
        (case rp_max_score e of
           Some m \<Rightarrow>
             if m < rp_min_score e
             then Inl (BadRequest ''rank policy max_score must be >= min_score'')
             else (case rest of
                 n # _ \<Rightarrow> if rp_min_score n \<le> m
                   then Inl (BadRequest ''rank policy score ranges must not overlap'')
                   else Inr ()
               | [] \<Rightarrow> Inr ())
         | None \<Rightarrow>
             if rest \<noteq> [] then Inl (BadRequest ''only the final rank policy may be open-ended'')
             else Inr ())
        (\<lambda>_. if list_ex (\<lambda>l. case l of Some v \<Rightarrow> v \<le> 0 | None \<Rightarrow> False)
                [rp_outbound_messages_multiplier_percent e, rp_friend_add_multiplier_percent e,
                 rp_attachment_send_multiplier_percent e]
             then Inl (BadRequest ''rank policy multiplier percent must be > 0'')
             else check_rank_policies (rp_rank e # seen) rest))"

definition normalize_attachment_types :: "string list \<Rightarrow> string list" where
  "normalize_attachment_types ts =
     btree_set (filter (\<lambda>v. v \<noteq> []) (map (\<lambda>v. to_lowercase (trim v)) ts))"

definition normalize_guild_policy :: "guild_policy_config \<Rightarrow> guild_policy_config result" where
  "normalize_guild_policy p =
    (if gp_level_policies p = []
     then Inl (BadRequest ''guild policy must define at least one level policy'')
     else if gp_rank_policies p = []
     then Inl (BadRequest ''guild policy must define at least one rank policy'')
     else if gp_community_upvote_daily_cap p < 0
     then Inl (BadRequest ''community_upvote_daily_cap must be >= 0'')
     else if gp_daily_counter_retention_days p \<le> 0
     then Inl (BadRequest ''daily_counter_retention_days must be > 0'')
     else if gp_score_event_retention_days p \<le> 0
     then Inl (BadRequest ''score_event_retention_days must be > 0'')
     else
       let levels = sort_key lp_min_active_days (gp_level_policies p);
           ranks = sort_key rp_min_score (gp_rank_policies p)
       in and_then (check_level_policies [] levels) (\<lambda>_.
          if lp_min_active_days (hd levels) \<noteq> 0
          then Inl (BadRequest ''the first level policy must start at 0 active days'')
          else and_then (check_rank_policies [] ranks) (\<lambda>_.
            if rp_min_score (hd ranks) \<noteq> 0
            then Inl (BadRequest ''the first rank policy must start at 0 score'')
            else Inr (p\<lparr>gp_safe_attachment_types :=
                          normalize_attachment_types (gp_safe_attachment_types p),
                        gp_level_policies := levels, gp_rank_policies := ranks\<rparr>))))"

section \<open>Lookups\<close>

definition in_band :: "('e \<Rightarrow> int) \<Rightarrow> ('e \<Rightarrow> int option) \<Rightarrow> int \<Rightarrow> 'e \<Rightarrow> bool" where
  "in_band lo hi x e \<longleftrightarrow> x \<ge> lo e \<and> (case hi e of Some m \<Rightarrow> x \<le> m | None \<Rightarrow> True)"

text \<open>
  \<open>iter().find(..).unwrap_or_else(|| last().expect(..))\<close>: the first entry whose range
  holds the value, else the last entry. The \<open>expect\<close> cannot fail on a policy that
  \<open>load_guild_policy_conn\<close> returns, because such a policy is never empty.
\<close>

definition level_policy_for_active_days :: "guild_policy_config \<Rightarrow> int \<Rightarrow> level_policy" where
  "level_policy_for_active_days p active_days =
     (case List.find (in_band lp_min_active_days lp_max_active_days active_days)
             (gp_level_policies p) of
        Some e \<Rightarrow> e | None \<Rightarrow> last (gp_level_policies p))"

definition rank_policy_for_score :: "guild_policy_config \<Rightarrow> int \<Rightarrow> rank_policy" where
  "rank_policy_for_score p score =
     (case List.find (in_band rp_min_score rp_max_score score) (gp_rank_policies p) of
        Some e \<Rightarrow> e | None \<Rightarrow> last (gp_rank_policies p))"

definition next_level_active_days :: "guild_policy_config \<Rightarrow> nat \<Rightarrow> int option" where
  "next_level_active_days p lvl =
     map_option lp_min_active_days (List.find (\<lambda>e. lp_level e > lvl) (gp_level_policies p))"

definition neutral_rank_policy :: rank_policy where
  "neutral_rank_policy = \<lparr>rp_rank = [], rp_min_score = 0, rp_max_score = None,
     rp_outbound_messages_multiplier_percent = None, rp_friend_add_multiplier_percent = None,
     rp_attachment_send_multiplier_percent = None, rp_overrides_level_limits = False\<rparr>"

definition rank_policy_for_limits :: "guild_policy_config \<Rightarrow> int \<Rightarrow> rank_policy" where
  "rank_policy_for_limits p score =
     (if ge_rank_engine_enabled (gp_enforcement p) then rank_policy_for_score p score
      else neutral_rank_policy)"

definition rank_order :: "string \<Rightarrow> nat option" where
  "rank_order r =
     (if r = ''F'' then Some 0 else if r = ''E'' then Some 1 else if r = ''D'' then Some 2
      else if r = ''C'' then Some 3 else if r = ''B'' then Some 4 else if r = ''A'' then Some 5
      else if r = ''S'' then Some 6 else None)"

definition rank_at_least :: "string \<Rightarrow> string \<Rightarrow> bool" where
  "rank_at_least rank threshold \<longleftrightarrow>
     (case rank_order rank of None \<Rightarrow> 0 | Some n \<Rightarrow> n) \<ge>
     (case rank_order threshold of None \<Rightarrow> 0 | Some n \<Rightarrow> n)"

fun effective_daily_limit :: "int option \<Rightarrow> int option \<Rightarrow> bool \<Rightarrow> int option" where
  "effective_daily_limit None _ _ = None"
| "effective_daily_limit (Some l) None True = None"
| "effective_daily_limit (Some limit) (Some percent) _ =
     Some (div_i32 (wrap_i32 (limit * percent)) 100)"
| "effective_daily_limit limit _ _ = limit"

definition effective_daily_outbound_messages_limit ::
  "level_policy \<Rightarrow> rank_policy \<Rightarrow> int option" where
  "effective_daily_outbound_messages_limit l r =
     effective_daily_limit (lp_daily_outbound_messages_limit l)
       (rp_outbound_messages_multiplier_percent r) (rp_overrides_level_limits r)"

definition effective_daily_friend_add_limit :: "level_policy \<Rightarrow> rank_policy \<Rightarrow> int option" where
  "effective_daily_friend_add_limit l r =
     effective_daily_limit (lp_daily_friend_add_limit l)
       (rp_friend_add_multiplier_percent r) (rp_overrides_level_limits r)"

definition effective_daily_attachment_send_limit ::
  "level_policy \<Rightarrow> rank_policy \<Rightarrow> int option" where
  "effective_daily_attachment_send_limit l r =
     effective_daily_limit (lp_daily_attachment_send_limit l)
       (rp_attachment_send_multiplier_percent r) (rp_overrides_level_limits r)"

definition level_progress_percent :: "int \<Rightarrow> int \<Rightarrow> int option \<Rightarrow> int" where
  "level_progress_percent active_days min_active_days next =
     (case next of None \<Rightarrow> 100
      | Some n \<Rightarrow>
          let span = max (wrap_i32 (n - min_active_days)) 1;
              progressed = clamp 0 span (wrap_i32 (active_days - min_active_days))
          in div_i32 (wrap_i32 (progressed * 100)) span mod 256)"

definition seconds_until_next_utc_day :: "instant \<Rightarrow> int" where
  "seconds_until_next_utc_day now =
     max ((midnight (date_naive now + 1) - now) div second_us) 1"

definition outbound_message_limit_enforced :: "guild_policy_config \<Rightarrow> bool" where
  "outbound_message_limit_enforced p \<longleftrightarrow>
     ge_enabled (gp_enforcement p) \<and> ge_outbound_messages_enabled (gp_enforcement p)"

definition attachment_send_limit_enforced :: "guild_policy_config \<Rightarrow> bool" where
  "attachment_send_limit_enforced p \<longleftrightarrow>
     ge_enabled (gp_enforcement p) \<and> ge_attachment_sends_enabled (gp_enforcement p)"

definition friend_add_limit_enforced :: "guild_policy_config \<Rightarrow> bool" where
  "friend_add_limit_enforced p \<longleftrightarrow>
     ge_enabled (gp_enforcement p) \<and> ge_friend_adds_enabled (gp_enforcement p)"

definition attachment_type_allowed :: "guild_policy_config \<Rightarrow> string \<Rightarrow> bool" where
  "attachment_type_allowed p mime \<longleftrightarrow> mime \<in> set (gp_safe_attachment_types p)"

section \<open>Ranges: the contract of the level table and the rank table\<close>

fun band_chain :: "('e \<Rightarrow> int) \<Rightarrow> ('e \<Rightarrow> int option) \<Rightarrow> 'e list \<Rightarrow> bool" where
  "band_chain lo hi [] \<longleftrightarrow> True"
| "band_chain lo hi [e] \<longleftrightarrow> (case hi e of None \<Rightarrow> True | Some m \<Rightarrow> lo e \<le> m)"
| "band_chain lo hi (e # e' # es) \<longleftrightarrow>
     (case hi e of None \<Rightarrow> False | Some m \<Rightarrow> lo e \<le> m \<and> m < lo e') \<and> band_chain lo hi (e' # es)"

fun gapless :: "('e \<Rightarrow> int) \<Rightarrow> ('e \<Rightarrow> int option) \<Rightarrow> 'e list \<Rightarrow> bool" where
  "gapless lo hi [] \<longleftrightarrow> True"
| "gapless lo hi [e] \<longleftrightarrow> hi e = None"
| "gapless lo hi (e # e' # es) \<longleftrightarrow> hi e = Some (lo e' - 1) \<and> gapless lo hi (e' # es)"

lemma band_chain_tl: "band_chain lo hi (e # es) \<Longrightarrow> band_chain lo hi es"
  by (cases es) auto

lemma band_chain_above:
  "band_chain lo hi (e # es) \<Longrightarrow> e' \<in> set es \<Longrightarrow>
     lo e < lo e' \<and> (\<exists>m. hi e = Some m \<and> m < lo e')"
proof (induction es arbitrary: e)
  case Nil
  then show ?case by simp
next
  case (Cons a es)
  from Cons.prems(1) obtain m where m: "hi e = Some m" "lo e \<le> m" "m < lo a"
    by (auto split: option.splits)
  show ?case
  proof (cases "e' = a")
    case True
    with m show ?thesis by auto
  next
    case False
    with Cons.prems(2) have "e' \<in> set es" by simp
    moreover have "band_chain lo hi (a # es)" using Cons.prems(1) by (rule band_chain_tl)
    ultimately have "lo a < lo e'" using Cons.IH by blast
    with m show ?thesis by auto
  qed
qed

lemma band_chain_sorted: "band_chain lo hi es \<Longrightarrow> sorted (map lo es)"
proof (induction es)
  case (Cons e es)
  then have "sorted (map lo es)" by (blast dest: band_chain_tl)
  moreover have "\<forall>x \<in> set es. lo e \<le> lo x" using Cons.prems band_chain_above by fastforce
  ultimately show ?case by auto
qed simp

lemma in_band_unique:
  "band_chain lo hi es \<Longrightarrow> e \<in> set es \<Longrightarrow> e' \<in> set es \<Longrightarrow>
     in_band lo hi x e \<Longrightarrow> in_band lo hi x e' \<Longrightarrow> e = e'"
proof (induction es)
  case (Cons a es)
  have disj: "\<not> in_band lo hi x b" if "b \<in> set es" "in_band lo hi x a" for b
    using band_chain_above [OF Cons.prems(1) that(1)] that(2) by (auto simp: in_band_def)
  show ?case
    using Cons.prems Cons.IH [OF band_chain_tl [OF Cons.prems(1)]] disj by auto
qed simp

lemma gapless_covers:
  "gapless lo hi es \<Longrightarrow> es \<noteq> [] \<Longrightarrow> lo (hd es) \<le> x \<Longrightarrow> \<exists>e \<in> set es. in_band lo hi x e"
proof (induction lo hi es rule: gapless.induct)
  case (3 lo hi e e' es)
  show ?case
  proof (cases "lo e' \<le> x")
    case True
    with 3 show ?thesis by auto
  next
    case False
    with 3 show ?thesis by (auto simp: in_band_def)
  qed
qed (auto simp: in_band_def)

text \<open>
  The contract of a range table: entries with bounds, and a selection that returns an
  entry whose range holds the value when there is one and the last entry otherwise.
\<close>

locale bands =
  fixes lo :: "'e \<Rightarrow> int"
    and hi :: "'e \<Rightarrow> int option"
    and entries :: "'p \<Rightarrow> 'e list"
    and select :: "'p \<Rightarrow> int \<Rightarrow> 'e"
  assumes select_hit: "e \<in> set (entries p) \<Longrightarrow> in_band lo hi x e \<Longrightarrow>
      select p x \<in> set (entries p) \<and> in_band lo hi x (select p x)"
    and select_miss: "\<forall>e \<in> set (entries p). \<not> in_band lo hi x e \<Longrightarrow> select p x = last (entries p)"
begin

lemma select_mem: "entries p \<noteq> [] \<Longrightarrow> select p x \<in> set (entries p)"
  by (metis last_in_set select_hit select_miss)

lemma select_unique:
  "band_chain lo hi (entries p) \<Longrightarrow> e \<in> set (entries p) \<Longrightarrow> in_band lo hi x e \<Longrightarrow> select p x = e"
  by (blast intro: in_band_unique dest: select_hit)

lemma select_covered:
  "gapless lo hi (entries p) \<Longrightarrow> entries p \<noteq> [] \<Longrightarrow> lo (hd (entries p)) \<le> x \<Longrightarrow>
     in_band lo hi x (select p x)"
  by (meson gapless_covers select_hit)

lemma select_mono:
  assumes g: "gapless lo hi (entries p)" "band_chain lo hi (entries p)" "entries p \<noteq> []"
    and x: "lo (hd (entries p)) \<le> x" "x \<le> y"
  shows "lo (select p x) \<le> lo (select p y)"
proof (rule ccontr)
  assume "\<not> ?thesis"
  then have lt: "lo (select p y) < lo (select p x)" by simp
  have bx: "in_band lo hi x (select p x)" and b_y: "in_band lo hi y (select p y)"
    using g x by (auto intro: select_covered)
  have "in_band lo hi x (select p y)"
    using bx b_y lt x(2) by (auto simp: in_band_def split: option.splits)
  then have "select p x = select p y"
    using g(2,3) by (blast intro: select_unique select_mem)
  with lt show False by simp
qed

end

interpretation levels: bands lp_min_active_days lp_max_active_days gp_level_policies
    level_policy_for_active_days
  by unfold_locales
    (auto simp: level_policy_for_active_days_def find_Some_iff find_None_iff split: option.splits)

interpretation ranks: bands rp_min_score rp_max_score gp_rank_policies rank_policy_for_score
  by unfold_locales
    (auto simp: rank_policy_for_score_def find_Some_iff find_None_iff split: option.splits)

section \<open>What the validation accepts\<close>

definition opt_all :: "('a \<Rightarrow> bool) \<Rightarrow> 'a option \<Rightarrow> bool" where
  "opt_all P x = (case x of None \<Rightarrow> True | Some v \<Rightarrow> P v)"

definition level_entry_ok :: "level_policy \<Rightarrow> bool" where
  "level_entry_ok e \<longleftrightarrow> 1 \<le> lp_level e \<and> lp_level e \<le> 10 \<and> 0 \<le> lp_min_active_days e \<and>
     opt_all (\<lambda>l. 0 \<le> l) (lp_daily_outbound_messages_limit e) \<and>
     opt_all (\<lambda>l. 0 \<le> l) (lp_daily_friend_add_limit e) \<and>
     opt_all (\<lambda>l. 0 \<le> l) (lp_daily_attachment_send_limit e)"

definition rank_entry_ok :: "rank_policy \<Rightarrow> bool" where
  "rank_entry_ok e \<longleftrightarrow> rp_rank e \<in> set RANKS \<and> 0 \<le> rp_min_score e \<and>
     opt_all (\<lambda>l. 0 < l) (rp_outbound_messages_multiplier_percent e) \<and>
     opt_all (\<lambda>l. 0 < l) (rp_friend_add_multiplier_percent e) \<and>
     opt_all (\<lambda>l. 0 < l) (rp_attachment_send_multiplier_percent e)"

definition wf_levels :: "level_policy list \<Rightarrow> bool" where
  "wf_levels ls \<longleftrightarrow> ls \<noteq> [] \<and> lp_min_active_days (hd ls) = 0 \<and>
     band_chain lp_min_active_days lp_max_active_days ls \<and> distinct (map lp_level ls) \<and>
     list_all level_entry_ok ls"

definition wf_ranks :: "rank_policy list \<Rightarrow> bool" where
  "wf_ranks rs \<longleftrightarrow> rs \<noteq> [] \<and> rp_min_score (hd rs) = 0 \<and>
     band_chain rp_min_score rp_max_score rs \<and> distinct (map rp_rank rs) \<and>
     list_all rank_entry_ok rs"

definition wf_policy :: "guild_policy_config \<Rightarrow> bool" where
  "wf_policy p \<longleftrightarrow> wf_levels (gp_level_policies p) \<and> wf_ranks (gp_rank_policies p) \<and>
     0 \<le> gp_community_upvote_daily_cap p \<and> 0 < gp_daily_counter_retention_days p \<and>
     0 < gp_score_event_retention_days p"

definition band_link :: "('e \<Rightarrow> int) \<Rightarrow> ('e \<Rightarrow> int option) \<Rightarrow> 'e \<Rightarrow> 'e list \<Rightarrow> bool" where
  "band_link lo hi e rest \<longleftrightarrow> (case hi e of
       None \<Rightarrow> rest = []
     | Some m \<Rightarrow> lo e \<le> m \<and> (case rest of [] \<Rightarrow> True | n # _ \<Rightarrow> m < lo n))"

lemma band_chain_Cons:
  "band_chain lo hi (e # rest) \<longleftrightarrow> band_link lo hi e rest \<and> band_chain lo hi rest"
  by (cases rest) (auto simp: band_link_def split: option.splits)

lemma check_level_policies_Cons:
  "check_level_policies seen (e # rest) = Inr () \<longleftrightarrow>
     level_entry_ok e \<and> lp_level e \<notin> set seen \<and>
     band_link lp_min_active_days lp_max_active_days e rest \<and>
     check_level_policies (lp_level e # seen) rest = Inr ()"
  by (simp only: check_level_policies.simps(2) result_simps)
    (cases "lp_max_active_days e"; cases rest; cases "lp_daily_outbound_messages_limit e";
      cases "lp_daily_friend_add_limit e"; cases "lp_daily_attachment_send_limit e";
      simp add: result_simps level_entry_ok_def band_link_def opt_all_def not_less not_le; linarith)

lemma check_level_policies_iff:
  "check_level_policies seen ls = Inr () \<longleftrightarrow>
     band_chain lp_min_active_days lp_max_active_days ls \<and> distinct (map lp_level ls) \<and>
     set (map lp_level ls) \<inter> set seen = {} \<and> list_all level_entry_ok ls"
proof (induction ls arbitrary: seen)
  case (Cons e ls)
  show ?case
    unfolding check_level_policies_Cons Cons.IH band_chain_Cons by auto
qed simp

lemma check_rank_policies_Cons:
  "check_rank_policies seen (e # rest) = Inr () \<longleftrightarrow>
     rank_entry_ok e \<and> rp_rank e \<notin> set seen \<and> band_link rp_min_score rp_max_score e rest \<and>
     check_rank_policies (rp_rank e # seen) rest = Inr ()"
  by (simp only: check_rank_policies.simps(2) result_simps)
    (cases "rp_max_score e"; cases rest; cases "rp_outbound_messages_multiplier_percent e";
      cases "rp_friend_add_multiplier_percent e"; cases "rp_attachment_send_multiplier_percent e";
      simp add: result_simps rank_entry_ok_def band_link_def opt_all_def not_less not_le; linarith)

lemma check_rank_policies_iff:
  "check_rank_policies seen rs = Inr () \<longleftrightarrow>
     band_chain rp_min_score rp_max_score rs \<and> distinct (map rp_rank rs) \<and>
     set (map rp_rank rs) \<inter> set seen = {} \<and> list_all rank_entry_ok rs"
proof (induction rs arbitrary: seen)
  case (Cons e rs)
  show ?case
    unfolding check_rank_policies_Cons Cons.IH band_chain_Cons by auto
qed simp

definition sorted_policy :: "guild_policy_config \<Rightarrow> guild_policy_config" where
  "sorted_policy p = p\<lparr>
     gp_safe_attachment_types := normalize_attachment_types (gp_safe_attachment_types p),
     gp_level_policies := sort_key lp_min_active_days (gp_level_policies p),
     gp_rank_policies := sort_key rp_min_score (gp_rank_policies p)\<rparr>"

lemma normalize_guild_policy_eq:
  "normalize_guild_policy p = Inr q \<longleftrightarrow> wf_policy (sorted_policy p) \<and> q = sorted_policy p"
proof -
  have ne: "sort_key f xs = [] \<longleftrightarrow> xs = []" for f :: "'b \<Rightarrow> int" and xs
    by (metis length_0_conv length_sort)
  show ?thesis
    unfolding normalize_guild_policy_def Let_def
    by (auto simp: result_simps check_level_policies_iff check_rank_policies_iff wf_policy_def
        wf_levels_def wf_ranks_def sorted_policy_def ne)
qed

lemma sort_key_band_chain: "band_chain lo hi xs \<Longrightarrow> sort_key lo xs = xs"
  by (simp add: band_chain_sorted sort_key_id_if_sorted)

lemma normalize_attachment_types_idem:
  "normalize_attachment_types (normalize_attachment_types ts) = normalize_attachment_types ts"
proof -
  let ?ns = "normalize_attachment_types ts"
  have "\<forall>v \<in> set ?ns. v \<noteq> [] \<and> to_lowercase (trim v) = v"
    by (auto simp: normalize_attachment_types_def trim_to_lowercase)
  then have "filter (\<lambda>v. v \<noteq> []) (map (\<lambda>v. to_lowercase (trim v)) ?ns) = ?ns"
    by (simp add: map_idI)
  then show ?thesis
    by (metis btree_set_idem normalize_attachment_types_def)
qed

lemma sorted_policy_wf: "wf_policy p \<Longrightarrow>
    sorted_policy p = p\<lparr>gp_safe_attachment_types :=
      normalize_attachment_types (gp_safe_attachment_types p)\<rparr>"
  unfolding sorted_policy_def wf_policy_def wf_levels_def wf_ranks_def
  by (cases p) (auto simp: sort_key_band_chain [where hi = lp_max_active_days]
      sort_key_band_chain [where hi = rp_max_score])

lemma check_level_policies_bad_request: "only_bad_request (check_level_policies seen ls)"
  by (induction ls arbitrary: seen) (auto split: option.split list.split)

lemma check_rank_policies_bad_request: "only_bad_request (check_rank_policies seen rs)"
  by (induction rs arbitrary: seen) (auto split: option.split list.split)

lemma normalize_guild_policy_bad_request: "only_bad_request (normalize_guild_policy p)"
  by (simp add: normalize_guild_policy_def Let_def check_level_policies_bad_request
      check_rank_policies_bad_request)

lemma wf_policy_nonempty:
  "wf_policy p \<Longrightarrow> gp_level_policies p \<noteq> [] \<and> gp_rank_policies p \<noteq> []"
  by (simp add: wf_policy_def wf_levels_def wf_ranks_def)

lemma distinct_singleton: "distinct xs \<Longrightarrow> set xs = {x} \<Longrightarrow> xs = [x]"
  by (cases xs) (auto simp: subset_singleton_iff)

lemma wf_default_guild_policy: "wf_policy default_guild_policy"
  by (simp add: wf_policy_def wf_levels_def wf_ranks_def default_guild_policy_def
      default_level_policies_def default_rank_policies_def level_entry_ok_def rank_entry_ok_def
      opt_all_def RANKS_def)

lemma normalize_guild_policy_default:
  "normalize_guild_policy default_guild_policy = Inr default_guild_policy"
proof -
  have "sorted_policy default_guild_policy = default_guild_policy"
    unfolding sorted_policy_wf [OF wf_default_guild_policy]
    by (simp add: default_guild_policy_def normalize_attachment_types_def btree_set_def
        DEFAULT_SAFE_ATTACHMENT_TYPES_def trim_def to_lowercase_def lower_char_def
        has_lower_def is_whitespace_def)
  then show ?thesis
    using wf_default_guild_policy by (simp add: normalize_guild_policy_eq)
qed

lemma level_policy_ok:
  "wf_policy p \<Longrightarrow> level_entry_ok (level_policy_for_active_days p d)"
  using levels.select_mem [of p d]
  by (auto simp: wf_policy_def wf_levels_def list_all_iff)

lemma rank_policy_ok: "wf_policy p \<Longrightarrow> rank_entry_ok (rank_policy_for_score p d)"
  using ranks.select_mem [of p d]
  by (auto simp: wf_policy_def wf_ranks_def list_all_iff)

lemma normalize_accepted:
  assumes "normalize_guild_policy p = Inr q"
  shows "normalize_guild_policy q = Inr q"
proof -
  from assms have wf: "wf_policy (sorted_policy p)" and q: "q = sorted_policy p"
    by (simp_all add: normalize_guild_policy_eq)
  have "sorted_policy q = q"
    using sorted_policy_wf [OF wf] unfolding q
    by (simp add: sorted_policy_def normalize_attachment_types_idem)
  with wf q show ?thesis by (simp add: normalize_guild_policy_eq)
qed

section \<open>Properties of the policy\<close>

text \<open>
  The validation accepts exactly the well-formed policies: \<open>normalize_guild_policy\<close>
  succeeds if and only if, after sorting, the level ranges start at 0, do not overlap,
  only the last one is open, the levels are distinct and in 1..10, the limits are not
  negative, likewise for the ranks, and the scalar settings are in range. The result is
  the sorted policy with normalised attachment types.
\<close>

theorem normalize_guild_policy_exact:
  "case normalize_guild_policy p of
     Inl e \<Rightarrow> \<not> wf_policy (sorted_policy p) \<and> error_response e = 400
   | Inr q \<Rightarrow> wf_policy (sorted_policy p) \<and> q = sorted_policy p"
proof (cases "normalize_guild_policy p")
  case (Inl e)
  then have "\<not> wf_policy (sorted_policy p)"
    by (metis normalize_guild_policy_eq sum.distinct(1))
  moreover have "error_response e = 400"
    using normalize_guild_policy_bad_request [of p] by (simp add: Inl only_bad_request_def)
  ultimately show ?thesis using Inl by simp
next
  case (Inr q)
  then show ?thesis using normalize_guild_policy_eq [of p q] by simp
qed

text \<open>
  A validated policy is a fixed point of the validation: what \<open>save_guild_policy\<close> stores
  is read back unchanged by \<open>load_guild_policy_conn\<close>, which validates again.
\<close>

theorem normalize_guild_policy_idem:
  assumes "normalize_guild_policy p = Inr q"
  shows "normalize_guild_policy q = Inr q"
  by (rule normalize_accepted [OF assms])

theorem normalize_guild_policy_idem_witness:
  "normalize_guild_policy default_guild_policy = Inr default_guild_policy"
  by (rule normalize_guild_policy_idem [OF normalize_guild_policy_default])

text \<open>
  On an accepted policy the level of a user is determined by the ranges: the selected
  entry belongs to the policy; it is the only entry whose range holds the number of active
  days when there is one, and the last entry when the days fall in a gap between ranges.
\<close>

theorem level_lookup_exact:
  assumes "normalize_guild_policy p0 = Inr p"
  shows "level_policy_for_active_days p d \<in> set (gp_level_policies p) \<and>
    (if list_ex (in_band lp_min_active_days lp_max_active_days d) (gp_level_policies p)
     then filter (in_band lp_min_active_days lp_max_active_days d) (gp_level_policies p)
            = [level_policy_for_active_days p d]
     else level_policy_for_active_days p d = last (gp_level_policies p))"
proof -
  from assms have wf: "wf_policy p" by (auto simp: normalize_guild_policy_eq)
  then have chain: "band_chain lp_min_active_days lp_max_active_days (gp_level_policies p)"
    and ne: "gp_level_policies p \<noteq> []" and dist: "distinct (gp_level_policies p)"
    by (auto simp: wf_policy_def wf_levels_def distinct_map)
  let ?b = "in_band lp_min_active_days lp_max_active_days d" and ?l = "gp_level_policies p"
  have "filter ?b ?l = [level_policy_for_active_days p d]" if "list_ex ?b ?l"
  proof (rule distinct_singleton)
    show "distinct (filter ?b ?l)" using dist by simp
    show "set (filter ?b ?l) = {level_policy_for_active_days p d}"
      using that levels.select_hit [of _ p d] levels.select_unique [OF chain]
      by (auto simp: list_ex_iff)
  qed
  moreover have "level_policy_for_active_days p d = last ?l" if "\<not> list_ex ?b ?l"
    using that levels.select_miss [of p d] by (simp add: list_ex_iff)
  ultimately show ?thesis using levels.select_mem [OF ne] by simp
qed

theorem level_lookup_exact_witness:
  "level_policy_for_active_days default_guild_policy 8 \<in> set (gp_level_policies default_guild_policy)
   \<and> lp_level (level_policy_for_active_days default_guild_policy 8) = 2"
  using level_lookup_exact [OF normalize_guild_policy_default, of 8]
  by (simp add: level_policy_for_active_days_def default_guild_policy_def
      default_level_policies_def in_band_def)

text \<open>
  Under the default policy more activity never lowers a user: the level is monotone in
  the number of active days and the rank is monotone in the contribution score.
\<close>

theorem default_progression_mono:
  assumes "0 \<le> d" "d \<le> d'"
  shows "lp_level (level_policy_for_active_days default_guild_policy d)
         \<le> lp_level (level_policy_for_active_days default_guild_policy d') \<and>
       rank_order (rp_rank (rank_policy_for_score default_guild_policy d)) \<noteq> None \<and>
       the (rank_order (rp_rank (rank_policy_for_score default_guild_policy d)))
         \<le> the (rank_order (rp_rank (rank_policy_for_score default_guild_policy d')))"
proof -
  let ?p = default_guild_policy
  have "\<forall>e \<in> set (gp_level_policies ?p). \<forall>e' \<in> set (gp_level_policies ?p).
      lp_min_active_days e \<le> lp_min_active_days e' \<longrightarrow> lp_level e \<le> lp_level e'"
    by code_simp
  then have lv: "\<lbrakk>e \<in> set (gp_level_policies ?p); e' \<in> set (gp_level_policies ?p);
      lp_min_active_days e \<le> lp_min_active_days e'\<rbrakk> \<Longrightarrow> lp_level e \<le> lp_level e'" for e e'
    by blast
  have "\<forall>e \<in> set (gp_rank_policies ?p). \<forall>e' \<in> set (gp_rank_policies ?p).
      rp_min_score e \<le> rp_min_score e' \<longrightarrow> rank_order (rp_rank e) \<noteq> None \<and>
      the (rank_order (rp_rank e)) \<le> the (rank_order (rp_rank e'))"
    by code_simp
  then have rk: "\<lbrakk>e \<in> set (gp_rank_policies ?p); e' \<in> set (gp_rank_policies ?p);
      rp_min_score e \<le> rp_min_score e'\<rbrakk> \<Longrightarrow>
      rank_order (rp_rank e) \<noteq> None \<and>
      the (rank_order (rp_rank e)) \<le> the (rank_order (rp_rank e'))" for e e'
    by blast
  have gl: "gapless lp_min_active_days lp_max_active_days (gp_level_policies ?p)"
    and gr: "gapless rp_min_score rp_max_score (gp_rank_policies ?p)"
    and hl: "lp_min_active_days (hd (gp_level_policies ?p)) = 0"
    and hr: "rp_min_score (hd (gp_rank_policies ?p)) = 0"
    by (simp_all add: default_guild_policy_def default_level_policies_def
        default_rank_policies_def)
  have cl: "band_chain lp_min_active_days lp_max_active_days (gp_level_policies ?p)"
    and cr: "band_chain rp_min_score rp_max_score (gp_rank_policies ?p)"
    and nl: "gp_level_policies ?p \<noteq> []" and nr: "gp_rank_policies ?p \<noteq> []"
    using wf_default_guild_policy by (auto simp: wf_policy_def wf_levels_def wf_ranks_def)
  show ?thesis
    using lv [OF levels.select_mem [OF nl] levels.select_mem [OF nl]
        levels.select_mono [OF gl cl nl _ assms(2)]]
      rk [OF ranks.select_mem [OF nr] ranks.select_mem [OF nr]
        ranks.select_mono [OF gr cr nr _ assms(2)]] hl hr assms(1) by simp
qed

theorem default_progression_mono_witness:
  "lp_level (level_policy_for_active_days default_guild_policy 6)
     \<le> lp_level (level_policy_for_active_days default_guild_policy 200)"
  using default_progression_mono [of 6 200] by simp

definition gap_policy :: guild_policy_config where
  "gap_policy = default_guild_policy\<lparr>gp_level_policies :=
     [(hd default_level_policies)\<lparr>lp_level := 1, lp_min_active_days := 0, lp_max_active_days := Some 5\<rparr>,
      (hd default_level_policies)\<lparr>lp_level := 2, lp_min_active_days := 10, lp_max_active_days := Some 20\<rparr>,
      (hd default_level_policies)\<lparr>lp_level := 3, lp_min_active_days := 21, lp_max_active_days := None\<rparr>]\<rparr>"

text \<open>
  The validation does not require the ranges to be contiguous, and a number of active
  days that falls in a gap selects the last entry: an accepted policy gives a user with 7
  active days level 3 and takes it back to level 2 at 10 active days.
\<close>

theorem level_gap_promotes:
  "\<exists>p d d'. (\<exists>p0. normalize_guild_policy p0 = Inr p) \<and> 0 \<le> d \<and> d < d' \<and>
     lp_level (level_policy_for_active_days p d') < lp_level (level_policy_for_active_days p d)"
proof -
  have wf: "wf_policy gap_policy"
    using wf_default_guild_policy
    by (simp add: gap_policy_def wf_policy_def wf_levels_def level_entry_ok_def opt_all_def
        default_level_policies_def)
  then have wf': "wf_policy (sorted_policy gap_policy)"
    by (simp add: sorted_policy_wf wf_policy_def)
  have "lp_level (level_policy_for_active_days (sorted_policy gap_policy) 7) = 3"
    "lp_level (level_policy_for_active_days (sorted_policy gap_policy) 10) = 2"
    unfolding sorted_policy_wf [OF wf]
    by (simp_all add: gap_policy_def level_policy_for_active_days_def in_band_def)
  then show ?thesis
    using wf' by (intro exI [of _ "sorted_policy gap_policy"] exI [of _ 7] exI [of _ 10])
      (auto simp: normalize_guild_policy_eq)
qed

text \<open>
  The effective daily limit on an accepted policy: absent when the level has no limit or
  the rank overrides it without a multiplier; otherwise the level's limit scaled by the
  rank's percentage, rounded down and never negative, as long as the product stays within
  32 bits.
\<close>

theorem effective_daily_limit_exact:
  assumes "opt_all (\<lambda>l. 0 \<le> l \<and> in_i32 l) level_limit" "opt_all (\<lambda>q. 0 < q) percent"
    and "\<forall>l q. level_limit = Some l \<and> percent = Some q \<longrightarrow> l * q \<le> i32_max"
  shows "effective_daily_limit level_limit percent overrides =
      (case level_limit of None \<Rightarrow> None
       | Some l \<Rightarrow> (case percent of
            None \<Rightarrow> if overrides then None else Some l
          | Some q \<Rightarrow> Some (l * q div 100))) \<and>
    opt_all (\<lambda>v. 0 \<le> v \<and> in_i32 v) (effective_daily_limit level_limit percent overrides)"
proof (cases level_limit)
  case None
  then show ?thesis by (simp add: opt_all_def)
next
  case (Some l)
  show ?thesis
  proof (cases percent)
    case None
    then show ?thesis using Some assms by (cases overrides) (auto simp: opt_all_def)
  next
    case (Some q)
    then have b: "0 \<le> l" "0 < q" "l * q \<le> i32_max"
      using \<open>level_limit = Some l\<close> assms by (auto simp: opt_all_def)
    then have nn: "0 \<le> l * q" by simp
    then have i: "in_i32 (l * q)" using b unfolding in_i32_def i32_min_def by linarith
    have "l * q div 100 \<le> l * q" using nn by linarith
    then have "in_i32 (l * q div 100)" "0 \<le> l * q div 100"
      using nn b by (auto simp: in_i32_def i32_min_def pos_imp_zdiv_nonneg_iff)
    then show ?thesis
      using Some \<open>level_limit = Some l\<close> i nn by (simp add: opt_all_def div_i32_nonneg)
  qed
qed

theorem effective_daily_limit_exact_witness:
  "effective_daily_limit (Some 50) (Some 150) False = Some 75"
  using effective_daily_limit_exact [of "Some 50" "Some 150" False]
  by (simp add: opt_all_def in_i32_def i32_min_def i32_max_def)

definition overflow_policy :: guild_policy_config where
  "overflow_policy = default_guild_policy\<lparr>
     gp_level_policies := [(hd default_level_policies)\<lparr>lp_max_active_days := None,
       lp_daily_outbound_messages_limit := Some 30000000\<rparr>],
     gp_rank_policies := [(hd default_rank_policies)\<lparr>rp_max_score := None,
       rp_outbound_messages_multiplier_percent := Some 100\<rparr>]\<rparr>"

text \<open>
  The scaling is done in 32 bits and the validation puts no upper bound on limits and
  percentages: an accepted policy whose limit of 30000000 messages is scaled by 100 percent
  has a negative effective limit, which the comparison with the count of the day always
  exceeds.
\<close>

theorem effective_limit_overflow:
  "\<exists>p d score l. (\<exists>p0. normalize_guild_policy p0 = Inr p) \<and>
     lp_daily_outbound_messages_limit (level_policy_for_active_days p d) = Some 30000000 \<and>
     effective_daily_outbound_messages_limit (level_policy_for_active_days p d)
       (rank_policy_for_limits p score) = Some l \<and> l < 0"
proof -
  have wf: "wf_policy overflow_policy"
    using wf_default_guild_policy
    by (simp add: overflow_policy_def wf_policy_def wf_levels_def wf_ranks_def level_entry_ok_def
        rank_entry_ok_def opt_all_def default_level_policies_def default_rank_policies_def RANKS_def)
  then have wf': "wf_policy (sorted_policy overflow_policy)"
    by (simp add: sorted_policy_wf wf_policy_def)
  have "effective_daily_outbound_messages_limit
      (level_policy_for_active_days (sorted_policy overflow_policy) 0)
      (rank_policy_for_limits (sorted_policy overflow_policy) 0) = Some (-12949672)"
    "lp_daily_outbound_messages_limit
      (level_policy_for_active_days (sorted_policy overflow_policy) 0) = Some 30000000"
    unfolding sorted_policy_wf [OF wf]
    by (simp_all add: overflow_policy_def default_guild_policy_def
        default_enforcement_def default_level_policies_def default_rank_policies_def
        level_policy_for_active_days_def rank_policy_for_limits_def rank_policy_for_score_def
        in_band_def effective_daily_outbound_messages_limit_def wrap_i32_def div_i32_def)
  then show ?thesis
    using wf' by (intro exI [of _ "sorted_policy overflow_policy"] exI [of _ 0]
        exI [of _ "-12949672"] conjI exI [of _ overflow_policy])
      (simp_all add: normalize_guild_policy_eq)
qed

text \<open>
  The progress shown to a user is a percentage: between 0 and 100, equal to the share of
  the level's span already walked, and 100 exactly from the day the next level starts, for
  spans up to 21474836 days (beyond, the 32-bit product overflows).
\<close>

theorem level_progress_percent_exact:
  assumes "0 \<le> min_d" "min_d < next_d" "next_d \<le> i32_max" "next_d - min_d \<le> 21474836"
    and "0 \<le> active" "active \<le> i32_max"
  shows "level_progress_percent active min_d (Some next_d) =
      (if active \<le> min_d then 0 else if next_d \<le> active then 100
       else (active - min_d) * 100 div (next_d - min_d)) \<and>
    0 \<le> level_progress_percent active min_d (Some next_d) \<and>
    level_progress_percent active min_d (Some next_d) \<le> 100"
proof -
  let ?s = "next_d - min_d" and ?a = "active - min_d"
  have s: "in_i32 ?s" "in_i32 ?a" "1 \<le> ?s"
    using assms by (auto simp: in_i32_def i32_min_def i32_max_def)
  let ?c = "clamp 0 ?s ?a"
  have c: "0 \<le> ?c" "?c \<le> ?s" using clamp_bounds [of 0 ?s ?a] s(3) by auto
  have i: "in_i32 (?c * 100)" using c assms(4) by (auto simp: in_i32_def i32_min_def i32_max_def)
  have q: "0 \<le> ?c * 100 div ?s" using c s(3) by (simp add: pos_imp_zdiv_nonneg_iff)
  have "?c * 100 div ?s \<le> ?s * 100 div ?s"
    using c s(3) by (intro zdiv_mono1) auto
  moreover have full: "?s * 100 div ?s = 100" using s(3) by (intro nonzero_mult_div_cancel_left) simp
  ultimately have u: "?c * 100 div ?s \<le> 100" by linarith
  have e: "level_progress_percent active min_d (Some next_d) = ?c * 100 div ?s"
    using s i c q u by (simp add: level_progress_percent_def Let_def max_absorb1 div_i32_nonneg)
  show ?thesis
    unfolding e using q u s(3) full by (auto simp: clamp_def)
qed

theorem level_progress_percent_exact_witness:
  "level_progress_percent 10 7 (Some 14) = 42"
  using level_progress_percent_exact [of 7 14 10] by (simp add: i32_max_def)

text \<open>
  The retry delay reported with a refused action is between 1 second and one day, and one
  second after it has passed the next UTC day, with fresh counters, has begun.
\<close>

theorem seconds_until_next_utc_day_bounds:
  "1 \<le> seconds_until_next_utc_day now \<and> seconds_until_next_utc_day now \<le> 86400 \<and>
   date_naive (now + (seconds_until_next_utc_day now + 1) * second_us) = date_naive now + 1"
proof -
  let ?d = "midnight (date_naive now + 1) - now"
  have d: "0 < ?d" "?d \<le> 86400000000"
    using midnight_date_naive [of now] by (auto simp: midnight_def)
  have s: "seconds_until_next_utc_day now = max (?d div 1000000) 1"
    by (simp add: seconds_until_next_utc_day_def second_us_def)
  let ?t = "now + (seconds_until_next_utc_day now + 1) * second_us"
  have "midnight (date_naive now + 1) \<le> ?t \<and> ?t < midnight (date_naive now + 2)"
    using d unfolding s second_us_def midnight_def max_def by auto
  then have "date_naive ?t = date_naive now + 1"
    by (intro date_naive_eqI) (simp_all add: add.assoc)
  moreover have "seconds_until_next_utc_day now \<le> 86400" using d unfolding s by linarith
  moreover have "1 \<le> seconds_until_next_utc_day now" unfolding s by simp
  ultimately show ?thesis by blast
qed

end
