(* ===== verification/Schema.thy ===== *)
theory Schema
  imports Sync_Prelude
begin

text \<open>
  The database of the server: one record per table of src/src/schema.rs, with the columns
  of the model structs under src/src/models, and the record \<open>db\<close> of all tables. The
  constraints (keys, foreign keys, defaults, cascades) are those of src/migrations.
  Every table with a primary key is an interpretation of \<open>keyed_store\<close>.
\<close>

type_synonym uuid = nat

datatype json =
    JNull | JBool bool | JInt int | JStr string | JArr "json list" | JObj "(string \<times> json) list"

text \<open>\<open>serde_json::Map::insert\<close> and \<open>Value::get\<close> on an object.\<close>

fun json_insert :: "string \<Rightarrow> json \<Rightarrow> (string \<times> json) list \<Rightarrow> (string \<times> json) list" where
  "json_insert k v [] = [(k, v)]"
| "json_insert k v (e # m) = (if fst e = k then (k, v) # m else e # json_insert k v m)"

fun json_get :: "string \<Rightarrow> json \<Rightarrow> json option" where
  "json_get k (JObj m) = map_of m k"
| "json_get k _ = None"

fun json_as_str :: "json \<Rightarrow> string option" where
  "json_as_str (JStr s) = Some s"
| "json_as_str _ = None"

definition json_opt_int :: "int option \<Rightarrow> json" where
  "json_opt_int x = (case x of None \<Rightarrow> JNull | Some v \<Rightarrow> JInt v)"

definition json_opt_str :: "string option \<Rightarrow> json" where
  "json_opt_str x = (case x of None \<Rightarrow> JNull | Some v \<Rightarrow> JStr v)"

lemma map_of_json_insert [simp]: "map_of (json_insert k v m) = (map_of m)(k \<mapsto> v)"
  by (induction m) (auto simp: fun_eq_iff)

record user =
  u_id :: uuid
  u_username :: string
  u_email :: string
  u_password_hash :: string
  u_avatar_base64 :: "string option"
  u_description :: "string option"
  u_message_public_key :: "string option"
  u_role :: string
  u_is_active :: bool
  u_created_at :: instant
  u_updated_at :: instant
  u_last_seen_at :: "instant option"
  u_device_auth_pubkey :: "string option"
  u_is_approved :: bool
  u_ugc_terms_accepted_at :: "instant option"
  u_ugc_terms_version :: int
  u_dm_restricted_until :: "instant option"
  u_safety_warning_count :: int
  u_yellow_card_expires_at :: "instant option"

record new_user =
  nu_id :: uuid
  nu_username :: string
  nu_email :: string
  nu_password_hash :: string
  nu_role :: string
  nu_device_auth_pubkey :: "string option"
  nu_is_approved :: bool

record user_guild_stats =
  gs_user_id :: uuid
  gs_active_days :: int
  gs_contribution_score :: int
  gs_derived_level :: int
  gs_derived_rank :: string
  gs_last_active_day :: "day option"
  gs_last_human_activity_at :: "instant option"
  gs_suspicious_activity_streak :: int
  gs_automation_review_state :: string
  gs_created_at :: instant
  gs_updated_at :: instant

record daily_action_counter =
  dac_user_id :: uuid
  dac_action_key :: string
  dac_day_bucket :: day
  dac_count :: int
  dac_updated_at :: instant

record guild_score_event =
  gse_id :: uuid
  gse_user_id :: uuid
  gse_granter_user_id :: "uuid option"
  gse_event_type :: string
  gse_delta :: int
  gse_reference_id :: "string option"
  gse_metadata :: json
  gse_created_at :: instant

record admin_audit_log =
  aal_actor_user_id :: "uuid option"
  aal_action :: string
  aal_target :: "string option"
  aal_details :: json
  aal_created_at :: instant

record admin_setting =
  as_key :: string
  as_value :: string
  as_updated_at :: instant

record message =
  m_id :: uuid
  m_sender_id :: uuid
  m_recipient_id :: uuid
  m_content :: string
  m_delivered_at :: "instant option"
  m_read_at :: "instant option"
  m_deleted_at :: "instant option"
  m_created_at :: instant

record user_block =
  ub_blocker_user_id :: uuid
  ub_blocked_user_id :: uuid
  ub_report_id :: "uuid option"
  ub_reason_code :: "string option"
  ub_reporter_note :: "string option"
  ub_created_at :: instant

record moderation_report =
  mr_id :: uuid
  mr_reporter_user_id :: uuid
  mr_reported_user_id :: uuid
  mr_source :: string
  mr_content_kind :: string
  mr_content_id :: "string option"
  mr_reason_code :: string
  mr_reporter_note :: "string option"
  mr_content_excerpt :: "string option"
  mr_status :: string
  mr_resolution_action :: "string option"
  mr_resolution_notes :: "string option"
  mr_metadata :: json
  mr_review_due_at :: instant
  mr_reviewed_by_user_id :: "uuid option"
  mr_reviewed_at :: "instant option"
  mr_created_at :: instant
  mr_updated_at :: instant

record room =
  r_id :: uuid
  r_name :: string
  r_created_by :: uuid
  r_created_at :: instant
  r_updated_at :: instant

record room_member =
  rm_room_id :: uuid
  rm_user_id :: uuid
  rm_role :: string
  rm_joined_at :: instant
  rm_last_read_at :: "instant option"

record room_message =
  rmsg_id :: uuid
  rmsg_room_id :: uuid
  rmsg_sender_id :: uuid
  rmsg_content :: string
  rmsg_deleted_at :: "instant option"
  rmsg_created_at :: instant

record refresh_token =
  rt_id :: uuid
  rt_user_id :: uuid
  rt_token_hash :: string
  rt_family :: uuid
  rt_revoked :: bool
  rt_issued_at :: instant
  rt_expires_at :: instant

record sticker =
  st_id :: uuid
  st_uploader_id :: uuid
  st_group_name :: string
  st_name :: string
  st_mime_type :: string
  st_content_base64 :: string
  st_size_bytes :: int
  st_status :: string
  st_created_at :: instant
  st_updated_at :: instant
  st_group_author :: "string option"

record agent_token =
  ag_id :: uuid
  ag_name :: string
  ag_token_hash :: string
  ag_token_prefix :: string
  ag_created_by :: uuid
  ag_created_at :: instant
  ag_expires_at :: "instant option"
  ag_last_used_at :: "instant option"
  ag_revoked_at :: "instant option"

record device_push_token =
  dpt_id :: uuid
  dpt_user_id :: uuid
  dpt_platform :: string
  dpt_token :: string
  dpt_created_at :: instant
  dpt_updated_at :: instant
  dpt_last_seen_at :: "instant option"
  dpt_token_kind :: string

record encrypted_backup =
  eb_user_id :: uuid
  eb_encrypted_blob :: string
  eb_created_at :: instant
  eb_updated_at :: instant

record server_news_item =
  sn_id :: uuid
  sn_title :: string
  sn_summary :: "string option"
  sn_markdown_content :: string
  sn_created_by :: "uuid option"
  sn_published_at :: instant
  sn_updated_at :: instant

record call_record =
  cr_id :: uuid
  cr_caller_id :: uuid
  cr_callee_id :: uuid
  cr_call_type :: string
  cr_status :: string
  cr_started_at :: instant
  cr_answered_at :: "instant option"
  cr_ended_at :: "instant option"

record federation_actor_key =
  fak_id :: uuid
  fak_actor_username :: string
  fak_key_id :: string
  fak_public_key_pem :: string
  fak_private_key_pkcs8 :: string
  fak_created_at :: instant

record federation_inbox_activity =
  fia_id :: uuid
  fia_activity_id :: string
  fia_actor :: string
  fia_recipient_username :: string
  fia_activity_type :: string
  fia_payload :: json
  fia_received_at :: instant

record federation_delivery =
  fd_id :: uuid
  fd_activity_id :: string
  fd_sender_username :: string
  fd_destination :: string
  fd_status :: string
  fd_attempts :: int
  fd_last_error :: "string option"
  fd_next_attempt_at :: "instant option"
  fd_delivered_at :: "instant option"
  fd_created_at :: instant
  fd_updated_at :: instant

record federation_remote_message =
  frm_id :: uuid
  frm_activity_id :: string
  frm_object_id :: "string option"
  frm_actor :: string
  frm_recipient_username :: string
  frm_content :: string
  frm_received_at :: instant

record db =
  users :: "user list"
  guild_stats :: "user_guild_stats list"
  daily_action_counters :: "daily_action_counter list"
  guild_score_events :: "guild_score_event list"
  admin_audit_logs :: "admin_audit_log list"
  admin_settings :: "admin_setting list"
  messages :: "message list"
  user_blocks :: "user_block list"
  moderation_reports :: "moderation_report list"
  rooms :: "room list"
  room_members :: "room_member list"
  room_messages :: "room_message list"
  refresh_tokens :: "refresh_token list"
  stickers :: "sticker list"
  agent_tokens :: "agent_token list"
  device_push_tokens :: "device_push_token list"
  encrypted_backups :: "encrypted_backup list"
  server_news :: "server_news_item list"
  call_records :: "call_record list"
  federation_actor_keys :: "federation_actor_key list"
  federation_inbox_activities :: "federation_inbox_activity list"
  federation_deliveries :: "federation_delivery list"
  federation_remote_messages :: "federation_remote_message list"

definition empty_db :: db where
  "empty_db = \<lparr>users = [], guild_stats = [], daily_action_counters = [], guild_score_events = [],
     admin_audit_logs = [], admin_settings = [], messages = [], user_blocks = [],
     moderation_reports = [], rooms = [], room_members = [], room_messages = [],
     refresh_tokens = [], stickers = [], agent_tokens = [], device_push_tokens = [],
     encrypted_backups = [], server_news = [], call_records = [], federation_actor_keys = [],
     federation_inbox_activities = [], federation_deliveries = [], federation_remote_messages = []\<rparr>"

definition find_user :: "db \<Rightarrow> uuid \<Rightarrow> user option" where
  "find_user db k = find_row u_id (users db) k"

definition user_exists :: "db \<Rightarrow> uuid \<Rightarrow> bool" where
  "user_exists db k \<longleftrightarrow> find_user db k \<noteq> None"

text \<open>
  An update of one account. The trigger \<open>users_set_updated_at\<close> of the first migration stamps
  the row.
\<close>

definition update_user :: "uuid \<Rightarrow> (user \<Rightarrow> user) \<Rightarrow> instant \<Rightarrow> db \<Rightarrow> db" where
  "update_user k f now db =
     db\<lparr>users := update_row u_id k (\<lambda>u. (f u)\<lparr>u_updated_at := now\<rparr>) (users db)\<rparr>"

definition yellow_card_active :: "user \<Rightarrow> instant \<Rightarrow> bool" where
  "yellow_card_active u now =
     (case u_yellow_card_expires_at u of None \<Rightarrow> False | Some t \<Rightarrow> t > now)"

text \<open>
  Appending an audit entry: \<open>append_audit_log\<close> of src/src/services/admin_service.rs and
  \<open>insert_system_audit_log\<close> of src/src/services/guild_service.rs. The actor must be a user.
\<close>

definition append_audit_log ::
  "uuid option \<Rightarrow> string \<Rightarrow> string option \<Rightarrow> json \<Rightarrow> instant \<Rightarrow> db \<Rightarrow> db result" where
  "append_audit_log actor action target details now db =
     (if (case actor of None \<Rightarrow> True | Some a \<Rightarrow> user_exists db a)
      then Inr (db\<lparr>admin_audit_logs := insert_row
             \<lparr>aal_actor_user_id = actor, aal_action = action, aal_target = target,
              aal_details = details, aal_created_at = now\<rparr> (admin_audit_logs db)\<rparr>)
      else Inl (Database ForeignKeyViolation))"

definition insert_system_audit_log ::
  "string \<Rightarrow> string option \<Rightarrow> json \<Rightarrow> instant \<Rightarrow> db \<Rightarrow> db" where
  "insert_system_audit_log action target details now db =
     db\<lparr>admin_audit_logs := insert_row
          \<lparr>aal_actor_user_id = None, aal_action = action, aal_target = target,
           aal_details = details, aal_created_at = now\<rparr> (admin_audit_logs db)\<rparr>"

interpretation user_table: keyed_store u_id "find_row u_id" insert_row "update_row u_id"
    "upsert_row u_id"
    "\<lambda>k. delete_rows (\<lambda>r. u_id r = k)" "distinct_key u_id"
  by (rule keyed_store_rows)

interpretation stats_table: keyed_store gs_user_id "find_row gs_user_id" insert_row
    "update_row gs_user_id" "upsert_row gs_user_id"
    "\<lambda>k. delete_rows (\<lambda>r. gs_user_id r = k)" "distinct_key gs_user_id"
  by (rule keyed_store_rows)

definition counter_key :: "daily_action_counter \<Rightarrow> uuid \<times> string \<times> day" where
  "counter_key c = (dac_user_id c, dac_action_key c, dac_day_bucket c)"

interpretation counter_table: keyed_store counter_key "find_row counter_key" insert_row
    "update_row counter_key" "upsert_row counter_key"
    "\<lambda>k. delete_rows (\<lambda>r. counter_key r = k)" "distinct_key counter_key"
  by (rule keyed_store_rows)

interpretation setting_table: keyed_store as_key "find_row as_key" insert_row
    "update_row as_key" "upsert_row as_key"
    "\<lambda>k. delete_rows (\<lambda>r. as_key r = k)" "distinct_key as_key"
  by (rule keyed_store_rows)

interpretation report_table: keyed_store mr_id "find_row mr_id" insert_row "update_row mr_id"
    "upsert_row mr_id"
    "\<lambda>k. delete_rows (\<lambda>r. mr_id r = k)" "distinct_key mr_id"
  by (rule keyed_store_rows)

section \<open>A small database\<close>

text \<open>Three active accounts and nothing else: the state the examples start from.\<close>

definition sample_user :: "uuid \<Rightarrow> user" where
  "sample_user i = \<lparr>u_id = i, u_username = ''user'', u_email = ''user@example.org'',
     u_password_hash = [], u_avatar_base64 = None, u_description = None,
     u_message_public_key = None, u_role = ''user'', u_is_active = True, u_created_at = 0,
     u_updated_at = 0, u_last_seen_at = None, u_device_auth_pubkey = None, u_is_approved = True,
     u_ugc_terms_accepted_at = None, u_ugc_terms_version = 0, u_dm_restricted_until = None,
     u_safety_warning_count = 0, u_yellow_card_expires_at = None\<rparr>"

definition sample_db :: db where
  "sample_db = empty_db\<lparr>users := [sample_user 1, sample_user 2, sample_user 3]\<rparr>"

end
