(* ===== verification/Keyset.thy ===== *)
theory Keyset
  imports Schema
begin

text \<open>
  Keyset pagination as the message services use it: rows are ordered newest first by
  creation time and identifier, a page holds at most 100 rows, and the next page is asked for
  by the identifier of the last row seen. The interface \<open>paginated\<close> states what a service
  promises; its client \<open>browse\<close> walks through the pages.
\<close>

section \<open>Positions\<close>

datatype cursor = Cursor (cur_at: instant) (cur_id: uuid)

instantiation cursor :: linorder
begin

definition less_cursor :: "cursor \<Rightarrow> cursor \<Rightarrow> bool" where
  "less_cursor a b \<longleftrightarrow> cur_at a < cur_at b \<or> cur_at a = cur_at b \<and> cur_id a < cur_id b"

definition less_eq_cursor :: "cursor \<Rightarrow> cursor \<Rightarrow> bool" where
  "less_eq_cursor a b \<longleftrightarrow> a = b \<or> a < (b :: cursor)"

instance
proof
  fix x y z :: cursor
  show "(x < y) = (x \<le> y \<and> \<not> y \<le> x)"
    by (auto simp: less_cursor_def less_eq_cursor_def)
  show "x \<le> x" by (simp add: less_eq_cursor_def)
  show "x \<le> y \<Longrightarrow> y \<le> z \<Longrightarrow> x \<le> z"
    by (auto simp: less_cursor_def less_eq_cursor_def)
  show "x \<le> y \<Longrightarrow> y \<le> x \<Longrightarrow> x = y"
    by (auto simp: less_cursor_def less_eq_cursor_def)
  show "x \<le> y \<or> y \<le> x"
    by (cases x; cases y) (auto simp: less_cursor_def less_eq_cursor_def)
qed

end

section \<open>Pages\<close>

text \<open>\<open>order((created_at.desc(), id.desc()))\<close>.\<close>

definition newest_first :: "('r \<Rightarrow> cursor) \<Rightarrow> 'r list \<Rightarrow> 'r list" where
  "newest_first key rows = rev (sort_key key rows)"

definition page :: "('r \<Rightarrow> cursor) \<Rightarrow> cursor option \<Rightarrow> nat \<Rightarrow> 'r list \<Rightarrow> 'r list" where
  "page key before limit rows =
     take limit (newest_first key
       (case before of None \<Rightarrow> rows | Some c \<Rightarrow> filter (\<lambda>r. key r < c) rows))"

lemma set_newest_first [simp]: "set (newest_first key rows) = set rows"
  by (simp add: newest_first_def)

lemma newest_first_filter: "newest_first key (filter P rows) = filter P (newest_first key rows)"
  unfolding newest_first_def by (metis filter_sort rev_filter)

lemma sorted_newest_first:
  "distinct (map key rows) \<Longrightarrow> sorted_wrt (\<lambda>a b. key b < key a) (newest_first key rows)"
proof -
  assume d: "distinct (map key rows)"
  have "distinct (map key (sort_key key rows))"
    using d by (metis distinct_map distinct_sort set_sort)
  then have "sorted_wrt (<) (map key (sort_key key rows))"
    by (simp add: strict_sorted_iff)
  then show ?thesis by (simp add: newest_first_def sorted_wrt_rev sorted_wrt_map)
qed

lemma last_take_nth:
  assumes "take l xs \<noteq> []"
  shows "last (take l xs) = xs ! (length (take l xs) - 1)"
proof -
  have "length (take l xs) - 1 < l" using assms by (cases l) auto
  then show ?thesis using assms by (simp add: last_conv_nth)
qed

lemma filter_below_nth:
  fixes key :: "'r \<Rightarrow> cursor"
  assumes "sorted_wrt (\<lambda>a b. key b < key a) xs" "i < length xs"
  shows "filter (\<lambda>r. key r < key (xs ! i)) xs = drop (Suc i) xs"
  using assms
proof (induction xs arbitrary: i)
  case (Cons x xs)
  show ?case
  proof (cases i)
    case 0
    with Cons.prems show ?thesis by (auto simp: filter_id_conv)
  next
    case (Suc j)
    with Cons.prems have j: "j < length xs" and x: "key (xs ! j) < key x"
      and srt: "sorted_wrt (\<lambda>a b. key b < key a) xs"
      by simp_all
    then have "\<not> key x < key (xs ! j)" by (simp add: not_less_iff_gr_or_eq)
    then show ?thesis using Suc Cons.IH [OF srt j] by simp
  qed
qed simp

section \<open>Walking through the pages\<close>

text \<open>
  A client that fetches \<open>n\<close> pages of \<open>l\<close> rows, each before the last row it has seen, and
  stops early at an empty page.
\<close>

fun browse ::
  "(uuid option \<Rightarrow> nat \<Rightarrow> 'r list result) \<Rightarrow> ('r \<Rightarrow> uuid) \<Rightarrow> nat \<Rightarrow> uuid option \<Rightarrow> nat \<Rightarrow>
     'r list result" where
  "browse fetch rid l before 0 = Inr []"
| "browse fetch rid l before (Suc n) =
     and_then (fetch before l) (\<lambda>p.
     if p = [] then Inr []
     else and_then (browse fetch rid l (Some (rid (last p))) n) (\<lambda>rest. Inr (p @ rest)))"

locale paginated =
  fixes key :: "'r \<Rightarrow> cursor"
    and rid :: "'r \<Rightarrow> uuid"
    and ok :: "'s \<Rightarrow> bool"
    and listing :: "'s \<Rightarrow> 'r list"
    and fetch :: "'s \<Rightarrow> uuid option \<Rightarrow> nat \<Rightarrow> 'r list result"
  assumes first_page: "ok s \<Longrightarrow> fetch s None l = Inr (take (min l 100) (listing s))"
    and next_page: "ok s \<Longrightarrow> r \<in> set (listing s) \<Longrightarrow>
      fetch s (Some (rid r)) l = Inr (take (min l 100) (filter (\<lambda>x. key x < key r) (listing s)))"
    and listing_sorted: "ok s \<Longrightarrow> sorted_wrt (\<lambda>a b. key b < key a) (listing s)"
begin

lemma page_after:
  assumes "ok s" "i < length (listing s)"
  shows "fetch s (Some (rid (listing s ! i))) l = Inr (take (min l 100) (drop (Suc i) (listing s)))"
  using next_page [OF assms(1) nth_mem [OF assms(2)]]
    filter_below_nth [OF listing_sorted [OF assms(1)] assms(2)] by simp

lemma browse_after:
  assumes "ok s" "0 < l" "l \<le> 100" "i < length (listing s)"
  shows "browse (fetch s) rid l (Some (rid (listing s ! i))) n =
    Inr (take (n * l) (drop (Suc i) (listing s)))"
  using assms(4)
proof (induction n arbitrary: i)
  case (Suc n)
  let ?p = "take l (drop (Suc i) (listing s))"
  have f: "fetch s (Some (rid (listing s ! i))) l = Inr ?p"
    using page_after [OF assms(1) Suc.prems, of l] assms(3) by (simp add: min_absorb1)
  show ?case
  proof (cases "?p = []")
    case True
    then show ?thesis using f assms(2) by simp
  next
    case False
    let ?k = "i + length ?p"
    have k: "?k < length (listing s)" using False assms(2) Suc.prems by simp
    have last: "last ?p = listing s ! ?k"
    proof -
      have "last ?p = drop (Suc i) (listing s) ! (length ?p - 1)" by (rule last_take_nth [OF False])
      also have "\<dots> = listing s ! (Suc i + (length ?p - 1))" using Suc.prems by simp
      also have "Suc i + (length ?p - 1) = ?k" using False by (cases ?p) auto
      finally show ?thesis .
    qed
    have "take (n * l) (drop (Suc ?k) (listing s)) = take (n * l) (drop (length ?p) (drop (Suc i) (listing s)))"
      by (simp add: add.commute)
    then have "?p @ take (n * l) (drop (Suc ?k) (listing s)) = take (l + n * l) (drop (Suc i) (listing s))"
      by (cases "l \<le> length (drop (Suc i) (listing s))") (auto simp: take_add min_def)
    then show ?thesis using f False Suc.IH [OF k] last by simp
  qed
qed simp

lemma browse_complete:
  assumes "ok s" "0 < l" "l \<le> 100"
  shows "browse (fetch s) rid l None n = Inr (take (n * l) (listing s))"
proof (cases n)
  case (Suc m)
  let ?p = "take l (listing s)"
  have f: "fetch s None l = Inr ?p"
    using first_page [OF assms(1), of l] assms(3) by (simp add: min_absorb1)
  show ?thesis
  proof (cases "listing s = []")
    case True
    then show ?thesis using f Suc by simp
  next
    case False
    let ?k = "length ?p - 1"
    have p: "?p \<noteq> []" using False assms(2) by simp
    have k: "?k < length (listing s)" using False by (cases "listing s") auto
    have last: "last ?p = listing s ! ?k"
      by (rule last_take_nth [OF p])
    have "Suc ?k = length ?p" using p by (cases ?p) auto
    then have "?p @ take (m * l) (drop (Suc ?k) (listing s)) = take (l + m * l) (listing s)"
      by (cases "l \<le> length (listing s)") (auto simp: take_add min_def)
    then show ?thesis using f p browse_after [OF assms k, of m] last Suc by simp
  qed
qed simp

end

end
