(* ===== verification/Moderation_Service.thy ===== *)
theory Moderation_Service
  imports Schema
begin

text \<open>
  Moderation, src/src/services/moderation_service.rs: the safety terms, blocks between
  users, reports and their resolution, the automatic review of overdue reports, the filter
  on objectionable text and the guard on direct messages. \<open>Uuid::parse_str\<close> and the
  printing of a UUID are the parameters \<open>parse_uuid\<close> and \<open>show_uuid\<close>; the identifier of a
  new report is the argument \<open>rid\<close>.
\<close>

section \<open>Constants\<close>

definition CURRENT_SAFETY_TERMS_VERSION :: int where "CURRENT_SAFETY_TERMS_VERSION = 1"

definition BLOCKED_TERMS :: "string list" where
  "BLOCKED_TERMS = [''child porn'', ''cp'', ''cunt'', ''faggot'', ''fuck'', ''fucker'', ''fucking'',
     ''kill yourself'', ''kike'', ''nigger'', ''nigga'', ''rape'', ''rapist'', ''retard'', ''shit'']"

definition REPORT_SOURCE_USER :: string where "REPORT_SOURCE_USER = ''user_report''"
definition REPORT_SOURCE_BLOCK :: string where "REPORT_SOURCE_BLOCK = ''block_action''"
definition REPORT_KIND_USER_PROFILE :: string where "REPORT_KIND_USER_PROFILE = ''user_profile''"
definition REPORT_KIND_DIRECT_MESSAGE :: string where "REPORT_KIND_DIRECT_MESSAGE = ''direct_message''"
definition REPORT_KIND_ROOM_MESSAGE :: string where "REPORT_KIND_ROOM_MESSAGE = ''room_message''"
definition REPORT_STATUS_OPEN :: string where "REPORT_STATUS_OPEN = ''open''"
definition REPORT_STATUS_RESOLVED :: string where "REPORT_STATUS_RESOLVED = ''resolved''"
definition REPORT_STATUS_DISMISSED :: string where "REPORT_STATUS_DISMISSED = ''dismissed''"
definition RESOLUTION_DISMISS :: string where "RESOLUTION_DISMISS = ''dismiss''"
definition RESOLUTION_REMOVE_CONTENT :: string where "RESOLUTION_REMOVE_CONTENT = ''remove_content''"
definition RESOLUTION_REMOVE_AND_LIMIT_NEW_DMS :: string where
  "RESOLUTION_REMOVE_AND_LIMIT_NEW_DMS = ''remove_content_and_limit_new_direct_messages''"
definition RESOLUTION_SUSPEND_USER :: string where "RESOLUTION_SUSPEND_USER = ''suspend_user''"
definition RESOLUTION_REMOVE_AND_SUSPEND :: string where
  "RESOLUTION_REMOVE_AND_SUSPEND = ''remove_content_and_suspend_user''"

lemmas kind_defs = REPORT_KIND_USER_PROFILE_def REPORT_KIND_DIRECT_MESSAGE_def
  REPORT_KIND_ROOM_MESSAGE_def
lemmas status_defs = REPORT_STATUS_OPEN_def REPORT_STATUS_RESOLVED_def REPORT_STATUS_DISMISSED_def
lemmas resolution_defs = RESOLUTION_DISMISS_def RESOLUTION_REMOVE_CONTENT_def
  RESOLUTION_REMOVE_AND_LIMIT_NEW_DMS_def RESOLUTION_SUSPEND_USER_def
  RESOLUTION_REMOVE_AND_SUSPEND_def

section \<open>Normalisation of the inputs\<close>

definition normalize_optional_text :: "string option \<Rightarrow> string option" where
  "normalize_optional_text raw = trimmed_nonempty raw"

definition normalize_reason_code :: "string option \<Rightarrow> string \<Rightarrow> string" where
  "normalize_reason_code raw fallback =
     (case Option.bind raw (\<lambda>v. normalize_optional_text (Some v)) of
        None \<Rightarrow> fallback | Some v \<Rightarrow> v)"

definition normalize_report_excerpt :: "string option \<Rightarrow> string option" where
  "normalize_report_excerpt raw = (case normalize_optional_text raw of
       None \<Rightarrow> None
     | Some s \<Rightarrow> if length s \<le> 2000 then Some s else Some (take 2000 s @ ''...''))"

definition one_of :: "string list \<Rightarrow> string \<Rightarrow> string \<Rightarrow> string result" where
  "one_of allowed err raw =
     (if trim raw \<in> set allowed then Inr (trim raw) else Inl (BadRequest err))"

definition normalize_report_source :: "string \<Rightarrow> string result" where
  "normalize_report_source raw =
     one_of [REPORT_SOURCE_USER, REPORT_SOURCE_BLOCK] ''Invalid report source'' raw"

definition normalize_content_kind :: "string \<Rightarrow> string result" where
  "normalize_content_kind raw =
     one_of [REPORT_KIND_USER_PROFILE, REPORT_KIND_DIRECT_MESSAGE, REPORT_KIND_ROOM_MESSAGE]
       ''Invalid report content kind'' raw"

definition normalize_resolution_action :: "string \<Rightarrow> string result" where
  "normalize_resolution_action raw =
     one_of [RESOLUTION_DISMISS, RESOLUTION_REMOVE_CONTENT, RESOLUTION_REMOVE_AND_LIMIT_NEW_DMS,
        RESOLUTION_SUSPEND_USER, RESOLUTION_REMOVE_AND_SUSPEND]
       ''action must be one of dismiss, remove_content, remove_content_and_limit_new_direct_messages, suspend_user, remove_content_and_suspend_user'' raw"

datatype moderation_report_status_filter = Open | Resolved | Dismissed | Any

definition parse_status_filter :: "string option \<Rightarrow> moderation_report_status_filter result" where
  "parse_status_filter raw =
     (case map_option (\<lambda>v. to_lowercase (trim v)) raw of
        None \<Rightarrow> Inr Open
      | Some v \<Rightarrow>
          if v = [] \<or> v = REPORT_STATUS_OPEN then Inr Open
          else if v = REPORT_STATUS_RESOLVED then Inr Resolved
          else if v = REPORT_STATUS_DISMISSED then Inr Dismissed
          else if v = ''all'' then Inr Any
          else Inl (BadRequest ''status must be one of open, resolved, dismissed, all''))"

section \<open>Objectionable text\<close>

definition blocked_term_in :: "string \<Rightarrow> string list \<Rightarrow> string \<Rightarrow> bool" where
  "blocked_term_in lowercase tokens term =
     (if contains term '' '' then contains lowercase term else term \<in> set tokens)"

definition detect_blocked_term :: "string \<Rightarrow> string option" where
  "detect_blocked_term v =
    (let lowercase = to_lowercase (trim v) in
     if lowercase = [] then None
     else let tokens = tokens_by (\<lambda>c. \<not> is_ascii_alphanumeric c) lowercase []
          in find (blocked_term_in lowercase tokens) BLOCKED_TERMS)"

definition ensure_text_is_allowed :: "string \<Rightarrow> string \<Rightarrow> unit result" where
  "ensure_text_is_allowed field_name v =
     (case detect_blocked_term v of
        Some t \<Rightarrow> Inl (BadRequest (field_name @ '' contains objectionable content ('' @
                    [CHR 0x27] @ t @ [CHR 0x27] @ '')''))
      | None \<Rightarrow> Inr ())"

section \<open>Safety terms\<close>

record user_safety_state_public =
  ss_current_terms_version :: int
  ss_accepted_terms_version :: int
  ss_terms_accepted_at :: "instant option"
  ss_requires_terms_acceptance :: bool

definition requires_terms_acceptance :: "user \<Rightarrow> bool" where
  "requires_terms_acceptance u \<longleftrightarrow>
     u_ugc_terms_accepted_at u = None \<or> u_ugc_terms_version u < CURRENT_SAFETY_TERMS_VERSION"

definition safety_state_for_user :: "user \<Rightarrow> user_safety_state_public" where
  "safety_state_for_user u =
     \<lparr>ss_current_terms_version = CURRENT_SAFETY_TERMS_VERSION,
      ss_accepted_terms_version = u_ugc_terms_version u,
      ss_terms_accepted_at = u_ugc_terms_accepted_at u,
      ss_requires_terms_acceptance = requires_terms_acceptance u\<rparr>"

definition record_terms_acceptance_conn ::
  "uuid \<Rightarrow> int \<Rightarrow> instant \<Rightarrow> db \<Rightarrow> (user \<times> db) result" where
  "record_terms_acceptance_conn uid accepted_version now db =
    (if accepted_version \<noteq> CURRENT_SAFETY_TERMS_VERSION
     then Inl (BadRequest ''accepted_terms_version is not the current policy version'')
     else
       let db' = update_user uid (\<lambda>u. u\<lparr>u_ugc_terms_version := CURRENT_SAFETY_TERMS_VERSION,
              u_ugc_terms_accepted_at := Some now\<rparr>) now db
       in and_then (ok_or (Database RowNotFound) (find_user db' uid)) (\<lambda>u. Inr (u, db')))"

definition record_terms_acceptance ::
  "uuid \<Rightarrow> int \<Rightarrow> instant \<Rightarrow> db \<Rightarrow> (user_safety_state_public \<times> db) result" where
  "record_terms_acceptance uid accepted_version now db =
     and_then (record_terms_acceptance_conn uid accepted_version now db) (\<lambda>(u, db).
     Inr (safety_state_for_user u, db))"

section \<open>Blocks\<close>

record blocked_user_view =
  bv_user_id :: uuid
  bv_username :: string
  bv_avatar_base64 :: "string option"
  bv_blocked_at :: instant

definition list_blocked_user_ids :: "db \<Rightarrow> uuid \<Rightarrow> uuid set" where
  "list_blocked_user_ids db blocker =
     set (map ub_blocked_user_id (filter (\<lambda>b. ub_blocker_user_id b = blocker) (user_blocks db)))"

definition list_blocked_users :: "db \<Rightarrow> uuid \<Rightarrow> blocked_user_view list" where
  "list_blocked_users db blocker =
     List.map_filter (\<lambda>b. map_option (\<lambda>u. \<lparr>bv_user_id = ub_blocked_user_id b,
           bv_username = u_username u, bv_avatar_base64 = u_avatar_base64 u,
           bv_blocked_at = ub_created_at b\<rparr>) (find_user db (ub_blocked_user_id b)))
       (sort_key (\<lambda>b. - ub_created_at b)
          (filter (\<lambda>b. ub_blocker_user_id b = blocker) (user_blocks db)))"

definition is_user_blocked :: "db \<Rightarrow> uuid \<Rightarrow> uuid \<Rightarrow> bool" where
  "is_user_blocked db blocker blocked =
     exists_row (\<lambda>b. ub_blocker_user_id b = blocker \<and> ub_blocked_user_id b = blocked) (user_blocks db)"

definition is_block_active_between :: "db \<Rightarrow> uuid \<Rightarrow> uuid \<Rightarrow> bool" where
  "is_block_active_between db a b =
     exists_row (\<lambda>r. ub_blocker_user_id r = a \<and> ub_blocked_user_id r = b \<or>
                     ub_blocker_user_id r = b \<and> ub_blocked_user_id r = a) (user_blocks db)"

definition ensure_no_block_between :: "db \<Rightarrow> uuid \<Rightarrow> uuid \<Rightarrow> unit result" where
  "ensure_no_block_between db a b = guard_err (\<not> is_block_active_between db a b) Forbidden"

section \<open>Reports\<close>

record report_input =
  ri_reported_user_id :: uuid
  ri_source :: string
  ri_content_kind :: string
  ri_content_id :: "string option"
  ri_reason_code :: string
  ri_reporter_note :: "string option"
  ri_content_excerpt_override :: "string option"

text \<open>
  The reported text, read from the reported profile or message. A message must exist, be
  the reported user's and not be deleted.
\<close>

definition content_excerpt_conn ::
  "(string \<Rightarrow> uuid option) \<Rightarrow> db \<Rightarrow> uuid \<Rightarrow> string \<Rightarrow> string option \<Rightarrow> string option result" where
  "content_excerpt_conn parse_uuid db reported kind content_id =
    (if kind = REPORT_KIND_USER_PROFILE then
       and_then (ok_or NotFound (find_user db reported)) (\<lambda>u.
       Inr (Some (trim (''username: '' @ u_username u @ [CHR 0x0A] @ ''description: '' @
         (case u_description u of None \<Rightarrow> [] | Some d \<Rightarrow> d)))))
     else if kind = REPORT_KIND_DIRECT_MESSAGE then
       and_then (ok_or (BadRequest ''content_id is required for direct_message reports'') content_id)
         (\<lambda>raw.
       and_then (ok_or (BadRequest ''content_id must be a UUID'') (parse_uuid raw)) (\<lambda>mid.
       and_then (ok_or NotFound (find_row m_id (messages db) mid)) (\<lambda>m.
       if m_sender_id m \<noteq> reported \<or> m_deleted_at m \<noteq> None then Inl NotFound
       else Inr (Some (m_content m)))))
     else if kind = REPORT_KIND_ROOM_MESSAGE then
       and_then (ok_or (BadRequest ''content_id is required for room_message reports'') content_id)
         (\<lambda>raw.
       and_then (ok_or (BadRequest ''content_id must be a UUID'') (parse_uuid raw)) (\<lambda>mid.
       and_then (ok_or NotFound (find_row rmsg_id (room_messages db) mid)) (\<lambda>m.
       if rmsg_sender_id m \<noteq> reported \<or> rmsg_deleted_at m \<noteq> None then Inl NotFound
       else Inr (Some (rmsg_content m)))))
     else Inl (BadRequest ''Unsupported report content kind''))"

definition create_report_conn ::
  "(string \<Rightarrow> uuid option) \<Rightarrow> uuid \<Rightarrow> uuid \<Rightarrow> report_input \<Rightarrow> instant \<Rightarrow> db \<Rightarrow>
     (moderation_report \<times> db) result" where
  "create_report_conn parse_uuid rid reporter inp now db =
    (if reporter = ri_reported_user_id inp
     then Inl (BadRequest ''You cannot report your own account'')
     else
       and_then (ok_or NotFound (find_user db (ri_reported_user_id inp))) (\<lambda>_.
       and_then (normalize_report_source (ri_source inp)) (\<lambda>source.
       and_then (normalize_content_kind (ri_content_kind inp)) (\<lambda>content_kind.
       let content_id = normalize_optional_text (ri_content_id inp);
           reason_code = normalize_reason_code (Some (ri_reason_code inp)) ''other'';
           reporter_note = normalize_optional_text (ri_reporter_note inp)
       in and_then (content_excerpt_conn parse_uuid db (ri_reported_user_id inp) content_kind content_id)
            (\<lambda>validated_excerpt.
          let excerpt = (case normalize_report_excerpt (ri_content_excerpt_override inp) of
                 Some e \<Rightarrow> Some e | None \<Rightarrow> validated_excerpt);
              report = \<lparr>mr_id = rid, mr_reporter_user_id = reporter,
                 mr_reported_user_id = ri_reported_user_id inp, mr_source = source,
                 mr_content_kind = content_kind, mr_content_id = content_id,
                 mr_reason_code = reason_code, mr_reporter_note = reporter_note,
                 mr_content_excerpt = excerpt, mr_status = REPORT_STATUS_OPEN,
                 mr_resolution_action = None, mr_resolution_notes = None, mr_metadata = JObj [],
                 mr_review_due_at = now + hours 24, mr_reviewed_by_user_id = None,
                 mr_reviewed_at = None, mr_created_at = now, mr_updated_at = now\<rparr>
          in if find_row mr_id (moderation_reports db) rid \<noteq> None then Inl (Database UniqueViolation)
             else if \<not> user_exists db reporter then Inl (Database ForeignKeyViolation)
             else Inr (report,
               db\<lparr>moderation_reports := insert_row report (moderation_reports db)\<rparr>))))))"

definition create_report ::
  "(string \<Rightarrow> uuid option) \<Rightarrow> uuid \<Rightarrow> uuid \<Rightarrow> report_input \<Rightarrow> instant \<Rightarrow> db \<Rightarrow>
     (moderation_report \<times> db) result" where
  "create_report parse_uuid rid reporter inp now db = create_report_conn parse_uuid rid reporter inp now db"

definition block_user ::
  "(string \<Rightarrow> uuid option) \<Rightarrow> uuid \<Rightarrow> uuid \<Rightarrow> uuid \<Rightarrow> string option \<Rightarrow> string option \<Rightarrow> instant \<Rightarrow>
     db \<Rightarrow> (blocked_user_view \<times> db) result" where
  "block_user parse_uuid rid blocker blocked reason note now db =
    (if blocker = blocked then Inl (BadRequest ''You cannot block your own account'')
     else
       and_then (ok_or NotFound (find_user db blocked)) (\<lambda>u.
       let view = \<lparr>bv_user_id = u_id u, bv_username = u_username u,
                   bv_avatar_base64 = u_avatar_base64 u, bv_blocked_at = now\<rparr>
       in if is_user_blocked db blocker blocked then Inr (view, db)
          else
            and_then (create_report_conn parse_uuid rid blocker
               \<lparr>ri_reported_user_id = blocked, ri_source = REPORT_SOURCE_BLOCK,
                ri_content_kind = REPORT_KIND_USER_PROFILE, ri_content_id = None,
                ri_reason_code = normalize_reason_code reason ''abusive_user'',
                ri_reporter_note = normalize_optional_text note,
                ri_content_excerpt_override = None\<rparr> now db) (\<lambda>(report, db).
            Inr (view, db\<lparr>user_blocks := insert_row
              \<lparr>ub_blocker_user_id = blocker, ub_blocked_user_id = blocked,
               ub_report_id = Some (mr_id report), ub_reason_code = Some (mr_reason_code report),
               ub_reporter_note = mr_reporter_note report, ub_created_at = now\<rparr>
              (user_blocks db)\<rparr>))))"

definition unblock_user :: "uuid \<Rightarrow> uuid \<Rightarrow> db \<Rightarrow> db" where
  "unblock_user blocker blocked db = db\<lparr>user_blocks := delete_rows
     (\<lambda>b. ub_blocker_user_id b = blocker \<and> ub_blocked_user_id b = blocked) (user_blocks db)\<rparr>"

section \<open>Resolution\<close>

definition remove_reported_content_conn ::
  "(string \<Rightarrow> uuid option) \<Rightarrow> moderation_report \<Rightarrow> instant \<Rightarrow> db \<Rightarrow> db result" where
  "remove_reported_content_conn parse_uuid report now db =
    (if mr_content_kind report = REPORT_KIND_USER_PROFILE then
       Inr (update_user (mr_reported_user_id report)
         (\<lambda>u. u\<lparr>u_avatar_base64 := None, u_description := None\<rparr>) now db)
     else if mr_content_kind report = REPORT_KIND_DIRECT_MESSAGE then
       and_then (ok_or (BadRequest ''Report content_id is missing'') (mr_content_id report)) (\<lambda>raw.
       and_then (ok_or (BadRequest ''Report content_id is invalid'') (parse_uuid raw)) (\<lambda>mid.
       Inr (db\<lparr>messages := update_row m_id mid (\<lambda>m. m\<lparr>m_deleted_at := Some now\<rparr>) (messages db)\<rparr>)))
     else if mr_content_kind report = REPORT_KIND_ROOM_MESSAGE then
       and_then (ok_or (BadRequest ''Report content_id is missing'') (mr_content_id report)) (\<lambda>raw.
       and_then (ok_or (BadRequest ''Report content_id is invalid'') (parse_uuid raw)) (\<lambda>mid.
       Inr (db\<lparr>room_messages := update_row rmsg_id mid (\<lambda>m. m\<lparr>rmsg_deleted_at := Some now\<rparr>)
         (room_messages db)\<rparr>)))
     else Inl (BadRequest ''Unsupported report content kind''))"

definition apply_temporary_dm_restriction_conn :: "uuid \<Rightarrow> instant \<Rightarrow> db \<Rightarrow> db result" where
  "apply_temporary_dm_restriction_conn uid now db =
     and_then (ok_or NotFound (find_user db uid)) (\<lambda>u.
     let restriction_until = now + days 7;
         effective_until = (case u_dm_restricted_until u of
             Some current \<Rightarrow> if current > restriction_until then current else restriction_until
           | None \<Rightarrow> restriction_until);
         warnings = wrap_i32 (u_safety_warning_count u + 1)
     in Inr (update_user uid (\<lambda>x. x\<lparr>u_dm_restricted_until := Some effective_until,
               u_safety_warning_count := warnings\<rparr>) now db))"

text \<open>
  A resolution in two stages: the measures against the content and the account, then the
  update of the report's own row.
\<close>

definition apply_resolution ::
  "(string \<Rightarrow> uuid option) \<Rightarrow> moderation_report \<Rightarrow> string \<Rightarrow> instant \<Rightarrow> db \<Rightarrow> db result" where
  "apply_resolution parse_uuid report act now db =
     and_then (if act = RESOLUTION_REMOVE_CONTENT \<or> act = RESOLUTION_REMOVE_AND_LIMIT_NEW_DMS \<or>
                 act = RESOLUTION_REMOVE_AND_SUSPEND
               then remove_reported_content_conn parse_uuid report now db else Inr db) (\<lambda>db.
     and_then (if act = RESOLUTION_REMOVE_AND_LIMIT_NEW_DMS
               then apply_temporary_dm_restriction_conn (mr_reported_user_id report) now db
               else Inr db) (\<lambda>db.
     Inr (if act = RESOLUTION_SUSPEND_USER \<or> act = RESOLUTION_REMOVE_AND_SUSPEND
          then update_user (mr_reported_user_id report) (\<lambda>u. u\<lparr>u_is_active := False\<rparr>) now db
          else db)))"

definition resolved_row ::
  "string \<Rightarrow> uuid option \<Rightarrow> string option \<Rightarrow> instant \<Rightarrow> moderation_report \<Rightarrow> moderation_report" where
  "resolved_row act reviewer notes now r = r\<lparr>
     mr_status := (if act = RESOLUTION_DISMISS then REPORT_STATUS_DISMISSED else REPORT_STATUS_RESOLVED),
     mr_resolution_action := Some act, mr_resolution_notes := normalize_optional_text notes,
     mr_reviewed_by_user_id := reviewer, mr_reviewed_at := Some now, mr_updated_at := now\<rparr>"

definition resolve_report_conn ::
  "(string \<Rightarrow> uuid option) \<Rightarrow> moderation_report \<Rightarrow> uuid option \<Rightarrow> string \<Rightarrow> string option \<Rightarrow> instant \<Rightarrow>
     db \<Rightarrow> (moderation_report \<times> db) result" where
  "resolve_report_conn parse_uuid report reviewer action notes now db =
     and_then (normalize_resolution_action action) (\<lambda>act.
     and_then (apply_resolution parse_uuid report act now db) (\<lambda>db.
     and_then (guard_err (case reviewer of None \<Rightarrow> True | Some a \<Rightarrow> user_exists db a)
         (Database ForeignKeyViolation)) (\<lambda>_.
     and_then (ok_or (Database RowNotFound) (find_row mr_id (moderation_reports db) (mr_id report)))
       (\<lambda>row. Inr (resolved_row act reviewer notes now row,
          db\<lparr>moderation_reports := update_row mr_id (mr_id report)
            (resolved_row act reviewer notes now) (moderation_reports db)\<rparr>)))))"

record admin_moderation_report_view =
  rv_report :: moderation_report
  rv_reporter_username :: string
  rv_reported_username :: string

definition username_or_id :: "(uuid \<Rightarrow> string) \<Rightarrow> db \<Rightarrow> uuid \<Rightarrow> string" where
  "username_or_id show_uuid db k = (case find_user db k of None \<Rightarrow> show_uuid k | Some u \<Rightarrow> u_username u)"

definition reports_to_admin_views ::
  "(uuid \<Rightarrow> string) \<Rightarrow> db \<Rightarrow> moderation_report list \<Rightarrow> admin_moderation_report_view list" where
  "reports_to_admin_views show_uuid db reports =
     map (\<lambda>r. \<lparr>rv_report = r,
        rv_reporter_username = username_or_id show_uuid db (mr_reporter_user_id r),
        rv_reported_username = username_or_id show_uuid db (mr_reported_user_id r)\<rparr>) reports"

definition status_filter_matches :: "moderation_report_status_filter \<Rightarrow> moderation_report \<Rightarrow> bool" where
  "status_filter_matches flt r = (case flt of
       Open \<Rightarrow> mr_status r = REPORT_STATUS_OPEN
     | Resolved \<Rightarrow> mr_status r = REPORT_STATUS_RESOLVED
     | Dismissed \<Rightarrow> mr_status r = REPORT_STATUS_DISMISSED
     | Any \<Rightarrow> True)"

definition list_reports ::
  "(uuid \<Rightarrow> string) \<Rightarrow> moderation_report_status_filter \<Rightarrow> int \<Rightarrow> db \<Rightarrow>
     admin_moderation_report_view list" where
  "list_reports show_uuid flt limit db =
     reports_to_admin_views show_uuid db (take (nat (clamp 1 200 limit))
       (sort_key mr_status (sort_key (\<lambda>r. - mr_created_at r)
          (filter (status_filter_matches flt) (moderation_reports db)))))"

definition resolve_report ::
  "(string \<Rightarrow> uuid option) \<Rightarrow> (uuid \<Rightarrow> string) \<Rightarrow> uuid \<Rightarrow> uuid \<Rightarrow> string \<Rightarrow> string option \<Rightarrow>
     instant \<Rightarrow> db \<Rightarrow> (admin_moderation_report_view \<times> db) result" where
  "resolve_report parse_uuid show_uuid rid reviewer action notes now db =
     and_then (ok_or NotFound (find_row mr_id (moderation_reports db) rid)) (\<lambda>report.
     if mr_status report \<noteq> REPORT_STATUS_OPEN
     then Inl (Conflict ''Report has already been reviewed'')
     else
       and_then (resolve_report_conn parse_uuid report (Some reviewer) action notes now db)
         (\<lambda>(updated, db).
       Inr (hd (reports_to_admin_views show_uuid db [updated]), db)))"

section \<open>The automatic review\<close>

definition auto_decision :: "moderation_report list \<Rightarrow> moderation_report \<Rightarrow> string \<times> string" where
  "auto_decision reports report =
    (let high_risk = (case mr_content_excerpt report of None \<Rightarrow> False
             | Some e \<Rightarrow> detect_blocked_term e \<noteq> None);
         user_overdue_count =
           count_rows (\<lambda>r. mr_reported_user_id r = mr_reported_user_id report) reports
     in if high_risk \<or> user_overdue_count \<ge> 3
        then (RESOLUTION_REMOVE_AND_SUSPEND,
          ''Automatic moderation: overdue report escalated by high-risk content or repeat offense'')
        else (RESOLUTION_REMOVE_AND_LIMIT_NEW_DMS,
          ''Automatic moderation: overdue report content removed and new direct messages limited for follow-up''))"

fun resolve_all ::
  "(string \<Rightarrow> uuid option) \<Rightarrow> moderation_report list \<Rightarrow> moderation_report list \<Rightarrow> instant \<Rightarrow> db \<Rightarrow>
     db result" where
  "resolve_all parse_uuid all_reports [] now db = Inr db"
| "resolve_all parse_uuid all_reports (r # rs) now db =
     and_then (resolve_report_conn parse_uuid r None (fst (auto_decision all_reports r))
        (Some (snd (auto_decision all_reports r))) now db) (\<lambda>(_, db).
     resolve_all parse_uuid all_reports rs now db)"

definition overdue_reports :: "instant \<Rightarrow> db \<Rightarrow> moderation_report list" where
  "overdue_reports now db = sort_key mr_created_at
     (filter (\<lambda>r. mr_status r = REPORT_STATUS_OPEN \<and> mr_review_due_at r \<le> now)
        (moderation_reports db))"

definition run_automatic_review_pass ::
  "(string \<Rightarrow> uuid option) \<Rightarrow> instant \<Rightarrow> db \<Rightarrow> (nat \<times> db) result" where
  "run_automatic_review_pass parse_uuid now db =
    (let reports = overdue_reports now db in
     and_then (resolve_all parse_uuid reports reports now db) (\<lambda>db. Inr (length reports, db)))"

text \<open>
  The scheduler's tick. The day of the last run is the process-wide mutex
  \<open>LAST_DAILY_AUTO_REVIEW_DAY\<close>; a failed pass rolls back and leaves it unchanged.
\<close>

definition maybe_run_daily_automatic_review ::
  "(string \<Rightarrow> uuid option) \<Rightarrow> instant \<Rightarrow> day option \<times> db \<Rightarrow> bool result \<times> (day option \<times> db)" where
  "maybe_run_daily_automatic_review parse_uuid now s = (case s of (last_run, db) \<Rightarrow>
     if hour_of now \<noteq> 2 then (Inr False, (last_run, db))
     else if last_run = Some (date_naive now) then (Inr False, (last_run, db))
     else (case run_automatic_review_pass parse_uuid now db of
         Inl e \<Rightarrow> (Inl e, (last_run, db))
       | Inr (_, db') \<Rightarrow> (Inr True, (Some (date_naive now), db'))))"

section \<open>The guard on direct messages\<close>

definition ensure_no_yellow_card :: "db \<Rightarrow> uuid \<Rightarrow> instant \<Rightarrow> unit result" where
  "ensure_no_yellow_card db uid now =
     and_then (ok_or NotFound (find_user db uid)) (\<lambda>u.
     guard_err (\<not> yellow_card_active u now) (BadRequest
       ''Your account has a temporary restriction and cannot send messages at this time.''))"

definition has_prior_contact :: "db \<Rightarrow> uuid \<Rightarrow> uuid \<Rightarrow> bool" where
  "has_prior_contact db a b =
     exists_row (\<lambda>m. m_deleted_at m = None \<and>
        (m_sender_id m = a \<and> m_recipient_id m = b \<or> m_sender_id m = b \<and> m_recipient_id m = a))
       (messages db)"

definition is_new_dm_contact_restricted :: "db \<Rightarrow> uuid \<Rightarrow> uuid \<Rightarrow> instant \<Rightarrow> bool result" where
  "is_new_dm_contact_restricted db sender recipient now =
     and_then (ok_or NotFound (find_user db sender)) (\<lambda>u.
     let explicit = (case u_dm_restricted_until u of None \<Rightarrow> False | Some t \<Rightarrow> t > now);
         open_report_count = count_rows (\<lambda>r. mr_reported_user_id r = sender \<and>
            mr_status r = REPORT_STATUS_OPEN \<and> mr_created_at r \<ge> now - days 7) (moderation_reports db)
     in if \<not> explicit \<and> open_report_count < 2 then Inr False
        else Inr (\<not> has_prior_contact db sender recipient))"

definition ensure_direct_message_allowed :: "db \<Rightarrow> uuid \<Rightarrow> uuid \<Rightarrow> instant \<Rightarrow> unit result" where
  "ensure_direct_message_allowed db sender recipient now =
     and_then (ensure_no_yellow_card db sender now) (\<lambda>_.
     and_then (ensure_no_block_between db sender recipient) (\<lambda>_.
     and_then (is_new_dm_contact_restricted db sender recipient now) (\<lambda>restricted.
     guard_err (\<not> restricted) (BadRequest
       ''Private messages are temporarily limited to existing contacts while your account is under safety review''))))"

end
