(* ===== verification/Message_Service.thy ===== *)
theory Message_Service
  imports Keyset Moderation_Service
begin

text \<open>
  Direct messages, src/src/services/message_service.rs: sending, the paginated conversation,
  read receipts and unread counts. The identifier of a new message is the argument \<open>mid\<close>.
\<close>

section \<open>Operations\<close>

definition new_message :: "uuid \<Rightarrow> uuid \<Rightarrow> uuid \<Rightarrow> string \<Rightarrow> instant \<Rightarrow> message" where
  "new_message mid sender recipient body now =
     \<lparr>m_id = mid, m_sender_id = sender, m_recipient_id = recipient, m_content = body,
      m_delivered_at = None, m_read_at = None, m_deleted_at = None, m_created_at = now\<rparr>"

definition insert_message_conn ::
  "uuid \<Rightarrow> uuid \<Rightarrow> uuid \<Rightarrow> string \<Rightarrow> instant \<Rightarrow> db \<Rightarrow> (message \<times> db) result" where
  "insert_message_conn mid sender recipient body now db =
     (if find_row m_id (messages db) mid \<noteq> None then Inl (Database UniqueViolation)
      else if \<not> user_exists db sender \<or> \<not> user_exists db recipient
      then Inl (Database ForeignKeyViolation)
      else let msg = new_message mid sender recipient body now
           in Inr (msg, db\<lparr>messages := insert_row msg (messages db)\<rparr>))"

definition send_message ::
  "uuid \<Rightarrow> uuid \<Rightarrow> uuid \<Rightarrow> string \<Rightarrow> instant \<Rightarrow> db \<Rightarrow> (message \<times> db) result" where
  "send_message mid sender recipient body now db = insert_message_conn mid sender recipient body now db"

definition between :: "uuid \<Rightarrow> uuid \<Rightarrow> message \<Rightarrow> bool" where
  "between a b m \<longleftrightarrow> (m_sender_id m = a \<and> m_recipient_id m = b \<or>
     m_sender_id m = b \<and> m_recipient_id m = a) \<and> m_deleted_at m = None"

definition message_cursor :: "message \<Rightarrow> cursor" where
  "message_cursor m = Cursor (m_created_at m) (m_id m)"

definition get_conversation ::
  "db \<Rightarrow> uuid \<Rightarrow> uuid \<Rightarrow> uuid option \<Rightarrow> nat \<Rightarrow> message list result" where
  "get_conversation db a b before_id limit =
    (if is_block_active_between db a b then Inr []
     else
       let base = filter (between a b) (messages db); limit = min limit 100
       in case before_id of
            Some cursor_id \<Rightarrow>
              and_then (ok_or NotFound (find_row m_id (messages db) cursor_id)) (\<lambda>cursor_msg.
              Inr (page message_cursor (Some (Cursor (m_created_at cursor_msg) cursor_id)) limit base))
          | None \<Rightarrow> Inr (page message_cursor None limit base))"

definition unread_from :: "uuid \<Rightarrow> uuid \<Rightarrow> message \<Rightarrow> bool" where
  "unread_from partner viewer m \<longleftrightarrow>
     m_sender_id m = partner \<and> m_recipient_id m = viewer \<and> m_read_at m = None"

definition mark_read :: "uuid \<Rightarrow> uuid \<Rightarrow> instant \<Rightarrow> db \<Rightarrow> int \<times> db" where
  "mark_read viewer partner now db =
    (if is_block_active_between db viewer partner then (0, db)
     else
       let ms1 = update_rows (\<lambda>m. unread_from partner viewer m \<and> m_delivered_at m = None)
                   (\<lambda>m. m\<lparr>m_delivered_at := Some now\<rparr>) (messages db);
           count = count_rows (unread_from partner viewer) ms1;
           ms2 = update_rows (unread_from partner viewer) (\<lambda>m. m\<lparr>m_read_at := Some now\<rparr>) ms1
       in (count, db\<lparr>messages := ms2\<rparr>))"

definition blocked_partner_ids_conn :: "db \<Rightarrow> uuid \<Rightarrow> uuid list" where
  "blocked_partner_ids_conn db viewer =
     map (\<lambda>b. if ub_blocker_user_id b = viewer then ub_blocked_user_id b else ub_blocker_user_id b)
       (filter (\<lambda>b. ub_blocker_user_id b = viewer \<or> ub_blocked_user_id b = viewer) (user_blocks db))"

text \<open>The loop of \<open>unread_counts\<close> over the senders, with the map it fills.\<close>

fun count_senders :: "uuid list \<Rightarrow> (uuid \<rightharpoonup> int) \<Rightarrow> (uuid \<rightharpoonup> int)" where
  "count_senders [] counts = counts"
| "count_senders (s # rows) counts =
     count_senders rows (counts(s \<mapsto> (case counts s of None \<Rightarrow> 0 | Some n \<Rightarrow> n) + 1))"

definition unread_counts :: "db \<Rightarrow> uuid \<Rightarrow> (uuid \<rightharpoonup> int)" where
  "unread_counts db viewer =
    (let blocked = blocked_partner_ids_conn db viewer;
         rows = filter (\<lambda>m. m_recipient_id m = viewer \<and> m_read_at m = None \<and> m_deleted_at m = None \<and>
                  (blocked = [] \<or> m_sender_id m \<notin> set blocked)) (messages db)
     in count_senders (map m_sender_id rows) Map.empty)"

section \<open>Lemmas\<close>

lemma insert_message_conn_eq [result_simps]:
  "insert_message_conn mid s r c now db = Inr (m, db') \<longleftrightarrow>
     find_row m_id (messages db) mid = None \<and> user_exists db s \<and> user_exists db r \<and>
     m = new_message mid s r c now \<and> db' = db\<lparr>messages := insert_row m (messages db)\<rparr>"
  by (auto simp: insert_message_conn_def Let_def)

lemma message_cursor_inj:
  "distinct_key m_id rows \<Longrightarrow> distinct (map message_cursor (filter P rows))"
  by (induction rows) (auto simp: distinct_key_def message_cursor_def image_iff)

definition conversation :: "db \<times> uuid \<times> uuid \<Rightarrow> message list" where
  "conversation s = (case s of (db, a, b) \<Rightarrow>
     newest_first message_cursor (filter (between a b) (messages db)))"

definition conversation_ok :: "db \<times> uuid \<times> uuid \<Rightarrow> bool" where
  "conversation_ok s = (case s of (db, a, b) \<Rightarrow>
     distinct_key m_id (messages db) \<and> \<not> is_block_active_between db a b)"

interpretation conversation: paginated message_cursor m_id conversation_ok conversation
    "\<lambda>(db, a, b). get_conversation db a b"
proof unfold_locales
  fix s :: "db \<times> uuid \<times> uuid" and l :: nat and r :: message
  obtain db a b where s: "s = (db, a, b)" by (cases s)
  assume "conversation_ok s"
  then have d: "distinct_key m_id (messages db)" and nb: "\<not> is_block_active_between db a b"
    by (simp_all add: s conversation_ok_def)
  show "(case s of (db, a, b) \<Rightarrow> get_conversation db a b) None l =
      Inr (take (min l 100) (conversation s))"
    using nb by (simp add: s get_conversation_def conversation_def page_def Let_def)
  show "sorted_wrt (\<lambda>a b. message_cursor b < message_cursor a) (conversation s)"
    using message_cursor_inj [OF d] by (simp add: s conversation_def sorted_newest_first)
  assume "r \<in> set (conversation s)"
  then have "r \<in> set (messages db)" by (simp add: s conversation_def)
  then have "find_row m_id (messages db) (m_id r) = Some r" by (rule find_row_distinct [OF d])
  then show "(case s of (db, a, b) \<Rightarrow> get_conversation db a b) (Some (m_id r)) l =
      Inr (take (min l 100) (filter (\<lambda>x. message_cursor x < message_cursor r) (conversation s)))"
    using nb newest_first_filter [of message_cursor _ "filter (between a b) (messages db)"]
    by (simp add: s get_conversation_def conversation_def page_def Let_def message_cursor_def [of r])
qed

lemma count_senders_apply:
  "count_senders xs m k = (if count_list xs k = 0 then m k
     else Some ((case m k of None \<Rightarrow> 0 | Some n \<Rightarrow> n) + int (count_list xs k)))"
  by (induction xs arbitrary: m) (auto split: option.splits)

lemma count_list_map_filter:
  "count_list (map f (filter P xs)) k = length (filter (\<lambda>x. P x \<and> f x = k) xs)"
  by (induction xs) auto

lemma blocked_partner_iff:
  "p \<in> set (blocked_partner_ids_conn db v) \<Longrightarrow> is_block_active_between db v p"
  "p \<noteq> v \<Longrightarrow> is_block_active_between db v p \<Longrightarrow> p \<in> set (blocked_partner_ids_conn db v)"
  by (auto simp: blocked_partner_ids_conn_def is_block_active_between_def image_iff split: if_splits)

section \<open>Properties\<close>

text \<open>
  [C32] Scrolling through a conversation shows every message exactly once, newest first: asking
  for \<open>n\<close> pages of \<open>l\<close> messages, each before the last message of the page before, returns
  the \<open>n * l\<close> newest messages between the two users that are not deleted, without gap or
  repetition.
\<close>

theorem conversation_pages_complete:
  assumes "distinct_key m_id (messages db)" "\<not> is_block_active_between db a b" "0 < l" "l \<le> 100"
  shows "browse (get_conversation db a b) m_id l None n =
    Inr (take (n * l) (newest_first message_cursor (filter (between a b) (messages db))))"
  using conversation.browse_complete [of "(db, a, b)" l n] assms
  by (simp add: conversation_ok_def conversation_def)

definition sample_messages :: db where
  "sample_messages = sample_db\<lparr>messages := [new_message 11 1 2 ''a'' 5, new_message 12 2 1 ''b'' 5,
     new_message 13 1 3 ''c'' 6, new_message 14 1 2 ''d'' 7]\<rparr>"

theorem conversation_pages_complete_witness:
  "browse (get_conversation sample_messages 1 2) m_id 2 None 2 =
    Inr [new_message 14 1 2 ''d'' 7, new_message 12 2 1 ''b'' 5, new_message 11 1 2 ''a'' 5]"
proof -
  have a: "distinct_key m_id (messages sample_messages)" "\<not> is_block_active_between sample_messages 1 2"
    "take (2 * 2) (newest_first message_cursor (filter (between 1 2) (messages sample_messages)))
      = [new_message 14 1 2 ''d'' 7, new_message 12 2 1 ''b'' 5, new_message 11 1 2 ''a'' 5]"
    by code_simp+
  show ?thesis using conversation_pages_complete [OF a(1,2), of 2 2] a(3) by simp
qed

text \<open>
  The unread counter of a partner is the number of their undeleted messages to the viewer
  without a read receipt; partners with none, and partners with whom a block is active in
  either direction, do not appear.
\<close>

theorem unread_counts_exact:
  assumes "p \<noteq> v"
  shows "unread_counts db v p =
    (let n = length (filter (\<lambda>m. unread_from p v m \<and> m_deleted_at m = None) (messages db))
     in if is_block_active_between db v p \<or> n = 0 then None else Some (int n))"
proof -
  let ?bl = "blocked_partner_ids_conn db v"
  have b: "p \<in> set ?bl \<longleftrightarrow> is_block_active_between db v p"
    using blocked_partner_iff assms by blast
  have f: "length (filter (\<lambda>m. (m_recipient_id m = v \<and> m_read_at m = None \<and> m_deleted_at m = None \<and>
        (?bl = [] \<or> m_sender_id m \<notin> set ?bl)) \<and> m_sender_id m = p) (messages db)) =
      (if p \<in> set ?bl then 0
       else length (filter (\<lambda>m. unread_from p v m \<and> m_deleted_at m = None) (messages db)))"
  proof (cases "p \<in> set ?bl")
    case True
    then have "?bl \<noteq> []" by auto
    with True show ?thesis by (auto simp: filter_empty_conv)
  next
    case False
    then show ?thesis by (auto simp: unread_from_def intro!: arg_cong [where f = length] filter_cong)
  qed
  show ?thesis
    unfolding unread_counts_def Let_def count_senders_apply count_list_map_filter f b by simp
qed

theorem unread_counts_exact_witness:
  "unread_counts sample_messages 2 1 = Some 2"
proof -
  have "length (filter (\<lambda>m. unread_from 1 2 m \<and> m_deleted_at m = None) (messages sample_messages)) = 2"
    "\<not> is_block_active_between sample_messages 2 1"
    by code_simp+
  then show ?thesis using unread_counts_exact [of 1 2 sample_messages] by (simp add: Let_def)
qed

lemma unread_from_delivered [simp]:
  "unread_from p v (m\<lparr>m_delivered_at := t\<rparr>) = unread_from p v m"
  by (simp add: unread_from_def)

text \<open>What reading does to one message of the partner.\<close>

definition read_message :: "instant \<Rightarrow> message \<Rightarrow> message" where
  "read_message now m = m\<lparr>m_delivered_at := (case m_delivered_at m of None \<Rightarrow> Some now | Some t \<Rightarrow> Some t),
     m_read_at := Some now\<rparr>"

text \<open>
  Marking a conversation read, when no block is active, gives exactly the partner's unread
  messages a read time, keeps a delivery time they already have and sets it otherwise,
  touches no other message and reports how many there were; afterwards the partner has no
  unread message and a second call changes nothing.
\<close>

theorem mark_read_exact:
  assumes "\<not> is_block_active_between db v p" "mark_read v p now db = (n, db')"
  shows "db' = db\<lparr>messages := map (\<lambda>m. if unread_from p v m then read_message now m else m) (messages db)\<rparr> \<and>
    n = int (length (filter (unread_from p v) (messages db))) \<and>
    unread_counts db' v p = None \<and> mark_read v p now2 db' = (0, db')"
proof -
  let ?f = "\<lambda>m. if unread_from p v m then read_message now m else m"
  let ?d = "\<lambda>m. if unread_from p v m \<and> m_delivered_at m = None then m\<lparr>m_delivered_at := Some now\<rparr> else m"
  have split: "(if unread_from p v (?d m) then (?d m)\<lparr>m_read_at := Some now\<rparr> else ?d m) = ?f m" for m
    by (auto simp: read_message_def split: option.splits)
  have db': "db' = db\<lparr>messages := map ?f (messages db)\<rparr>"
    using assms by (simp add: mark_read_def Let_def update_rows_def o_def split)
  have n: "n = int (length (filter (unread_from p v) (messages db)))"
  proof -
    have "n = count_rows (unread_from p v) (update_rows (\<lambda>m. unread_from p v m \<and> m_delivered_at m = None)
        (\<lambda>m. m\<lparr>m_delivered_at := Some now\<rparr>) (messages db))"
      using assms by (simp add: mark_read_def Let_def)
    also have "\<dots> = count_rows (unread_from p v) (messages db)"
      by (rule count_rows_update) simp
    finally show ?thesis by (simp add: count_rows_def)
  qed
  have none: "\<not> unread_from p v m" if "m \<in> set (messages db')" for m
  proof -
    have "m \<in> ?f ` set (messages db)" using that unfolding db' by simp
    then obtain x where m: "m = ?f x" by (rule imageE)
    have "\<not> unread_from p v (read_message now x)" by (simp add: unread_from_def read_message_def)
    then show ?thesis unfolding m by simp
  qed
  have "is_block_active_between db' v p = is_block_active_between db v p"
    by (simp add: db' is_block_active_between_def)
  moreover have
    "update_rows (\<lambda>m. unread_from p v m \<and> m_delivered_at m = None) g (messages db') = messages db'"
    "update_rows (unread_from p v) g (messages db') = messages db'" for g
    unfolding update_rows_def using none by (auto intro!: map_idI)
  ultimately have "mark_read v p now2 db' = (0, db')"
    using assms(1) none by (simp add: mark_read_def Let_def count_rows_0_iff)
  moreover have "unread_counts db' v p = None"
  proof -
    have "count_list (map m_sender_id (filter (\<lambda>m. m_recipient_id m = v \<and> m_read_at m = None \<and>
        m_deleted_at m = None \<and> (blocked_partner_ids_conn db' v = [] \<or>
          m_sender_id m \<notin> set (blocked_partner_ids_conn db' v))) (messages db'))) p = 0"
      using none by (auto simp: count_list_map_filter filter_empty_conv unread_from_def)
    then show ?thesis by (simp add: unread_counts_def Let_def count_senders_apply)
  qed
  ultimately show ?thesis using db' n by simp
qed

theorem mark_read_exact_witness:
  "fst (mark_read 2 1 9 sample_messages) = 2 \<and>
     unread_counts (snd (mark_read 2 1 9 sample_messages)) 2 1 = None"
proof -
  have a: "\<not> is_block_active_between sample_messages 2 1"
    "int (length (filter (unread_from 1 2) (messages sample_messages))) = 2"
    by code_simp+
  show ?thesis
    using mark_read_exact [OF a(1) prod.collapse [symmetric], of 9 0] unfolding a(2) by blast
qed

end
