(* ===== verification/Guild_Service.thy ===== *)
theory Guild_Service
  imports Guild_Policy Message_Service
begin

text \<open>
  Guild progression, src/src/services/guild_service.rs: the statistics row of a user, the
  assessment of human activity, the daily counters and the three actions that the quotas
  guard (sending a message, sending an attachment, adding a contact). The decoding of the
  stored policy (serde_json) is the parameter \<open>dec\<close> of the operations that read it.
\<close>

section \<open>Constants\<close>

definition ACTION_OUTBOUND_MESSAGE :: string where "ACTION_OUTBOUND_MESSAGE = ''outbound_message''"
definition ACTION_ATTACHMENT_SEND :: string where "ACTION_ATTACHMENT_SEND = ''attachment_send''"
definition ACTION_FRIEND_ADD :: string where "ACTION_FRIEND_ADD = ''friend_add''"
definition CLEAR :: string where "CLEAR = ''clear''"
definition CHALLENGED :: string where "CHALLENGED = ''challenged''"
definition FROZEN :: string where "FROZEN = ''frozen''"
definition SETTING_TRUST_POLICY :: string where "SETTING_TRUST_POLICY = ''guild_policy''"

lemma review_states_distinct [simp]:
  "CLEAR \<noteq> CHALLENGED" "CLEAR \<noteq> FROZEN" "CHALLENGED \<noteq> FROZEN"
  "CHALLENGED \<noteq> CLEAR" "FROZEN \<noteq> CLEAR" "FROZEN \<noteq> CHALLENGED"
  by (simp_all add: CLEAR_def CHALLENGED_def FROZEN_def)

lemma action_keys_distinct [simp]:
  "ACTION_OUTBOUND_MESSAGE \<noteq> ACTION_ATTACHMENT_SEND" "ACTION_OUTBOUND_MESSAGE \<noteq> ACTION_FRIEND_ADD"
  "ACTION_ATTACHMENT_SEND \<noteq> ACTION_FRIEND_ADD" "ACTION_ATTACHMENT_SEND \<noteq> ACTION_OUTBOUND_MESSAGE"
  "ACTION_FRIEND_ADD \<noteq> ACTION_OUTBOUND_MESSAGE" "ACTION_FRIEND_ADD \<noteq> ACTION_ATTACHMENT_SEND"
  by (simp_all add: ACTION_OUTBOUND_MESSAGE_def ACTION_ATTACHMENT_SEND_def ACTION_FRIEND_ADD_def)

section \<open>The stored policy\<close>

definition load_guild_policy_conn ::
  "(string \<Rightarrow> guild_policy_config option) \<Rightarrow> db \<Rightarrow> guild_policy_config" where
  "load_guild_policy_conn dec db =
     (case find_row as_key (admin_settings db) SETTING_TRUST_POLICY of
        None \<Rightarrow> default_guild_policy
      | Some s \<Rightarrow> (case dec (as_value s) of
            None \<Rightarrow> default_guild_policy
          | Some p \<Rightarrow> (case normalize_guild_policy p of
                Inl _ \<Rightarrow> default_guild_policy | Inr q \<Rightarrow> q)))"

text \<open>\<open>set_setting\<close> of src/src/services/admin_service.rs: insert, or update on conflict.\<close>

definition set_setting :: "string \<Rightarrow> string \<Rightarrow> instant \<Rightarrow> db \<Rightarrow> db" where
  "set_setting k v now db = db\<lparr>admin_settings :=
     upsert_row as_key \<lparr>as_key = k, as_value = v, as_updated_at = now\<rparr>
       (\<lambda>s. s\<lparr>as_value := v, as_updated_at := now\<rparr>) (admin_settings db)\<rparr>"

definition save_guild_policy ::
  "(guild_policy_config \<Rightarrow> string option) \<Rightarrow> guild_policy_config \<Rightarrow> instant \<Rightarrow> db \<Rightarrow>
     (guild_policy_config \<times> db) result" where
  "save_guild_policy enc policy now db =
     and_then (normalize_guild_policy policy) (\<lambda>normalized.
     and_then (ok_or (Internal ''guild policy encode'') (enc normalized)) (\<lambda>encoded.
     Inr (normalized, set_setting SETTING_TRUST_POLICY encoded now db)))"

section \<open>The statistics row\<close>

definition ensure_user_guild_stats ::
  "guild_policy_config \<Rightarrow> uuid \<Rightarrow> instant \<Rightarrow> db \<Rightarrow> (user_guild_stats \<times> db) result" where
  "ensure_user_guild_stats policy uid now db =
     (case find_row gs_user_id (guild_stats db) uid of
        Some row \<Rightarrow> Inr (row, db)
      | None \<Rightarrow>
          if \<not> user_exists db uid then Inl (Database ForeignKeyViolation)
          else let row =
              \<lparr>gs_user_id = uid, gs_active_days = 0, gs_contribution_score = 0,
               gs_derived_level = int (lp_level (level_policy_for_active_days policy 0)),
               gs_derived_rank = rp_rank (rank_policy_for_score policy 0),
               gs_last_active_day = None, gs_last_human_activity_at = None,
               gs_suspicious_activity_streak = 0, gs_automation_review_state = CLEAR,
               gs_created_at = now, gs_updated_at = now\<rparr>
            in Inr (row, db\<lparr>guild_stats := insert_row row (guild_stats db)\<rparr>))"

text \<open>\<open>diesel::update(user_guild_stats.find(k)).set(f).get_result()\<close>.\<close>

definition update_stats ::
  "uuid \<Rightarrow> (user_guild_stats \<Rightarrow> user_guild_stats) \<Rightarrow> db \<Rightarrow> (user_guild_stats \<times> db) result" where
  "update_stats k f db =
     (case find_row gs_user_id (guild_stats db) k of
        None \<Rightarrow> Inl (Database RowNotFound)
      | Some row \<Rightarrow>
          Inr (f row, db\<lparr>guild_stats := update_row gs_user_id k f (guild_stats db)\<rparr>))"

definition sync_derived_state ::
  "guild_policy_config \<Rightarrow> user_guild_stats \<Rightarrow> instant \<Rightarrow> db \<Rightarrow> (user_guild_stats \<times> db) result" where
  "sync_derived_state policy stats now db =
     (let l = level_policy_for_active_days policy (gs_active_days stats);
          r = rank_policy_for_score policy (gs_contribution_score stats)
      in if gs_derived_level stats = int (lp_level l) \<and> gs_derived_rank stats = rp_rank r
         then Inr (stats, db)
         else update_stats (gs_user_id stats)
           (\<lambda>s. s\<lparr>gs_derived_level := int (lp_level l), gs_derived_rank := rp_rank r,
                  gs_updated_at := now\<rparr>) db)"

section \<open>Human activity\<close>

record human_activity_assessment =
  ha_should_advance_active_day :: bool
  ha_suspicious_activity_streak :: int
  ha_automation_review_state :: string

definition assess_human_activity ::
  "user_guild_stats \<Rightarrow> day \<Rightarrow> instant \<Rightarrow> human_activity_assessment" where
  "assess_human_activity stats today now =
    (if gs_automation_review_state stats = FROZEN then
       let can_recover_from_frozen =
             (case gs_last_human_activity_at stats of
                None \<Rightarrow> True | Some t \<Rightarrow> now - t \<ge> hours 24) \<and>
             gs_last_active_day stats \<noteq> Some today
       in if can_recover_from_frozen
          then \<lparr>ha_should_advance_active_day = True, ha_suspicious_activity_streak = 0,
                ha_automation_review_state = CLEAR\<rparr>
          else \<lparr>ha_should_advance_active_day = False,
                ha_suspicious_activity_streak = gs_suspicious_activity_streak stats,
                ha_automation_review_state = FROZEN\<rparr>
     else
       let attempting_new_day = gs_last_active_day stats \<noteq> Some today;
           suspicious_new_day_attempt = attempting_new_day \<and>
             (case gs_last_human_activity_at stats of
                None \<Rightarrow> False | Some t \<Rightarrow> now - t < minutes 10);
           streak =
             (if suspicious_new_day_attempt
              then saturating_add_i32 (gs_suspicious_activity_streak stats) 1
              else if attempting_new_day
              then max (saturating_sub_i32 (gs_suspicious_activity_streak stats) 1) 0
              else gs_suspicious_activity_streak stats)
       in \<lparr>ha_should_advance_active_day = attempting_new_day \<and> \<not> suspicious_new_day_attempt,
           ha_suspicious_activity_streak = streak,
           ha_automation_review_state =
             (if streak \<ge> 3 then FROZEN else if streak > 0 then CHALLENGED else CLEAR)\<rparr>)"

definition update_human_activity_state ::
  "(uuid \<Rightarrow> string) \<Rightarrow> user_guild_stats \<Rightarrow> day \<Rightarrow> instant \<Rightarrow> db \<Rightarrow>
     ((user_guild_stats \<times> human_activity_assessment) \<times> db) result" where
  "update_human_activity_state show_uuid stats today now db =
    (let a = assess_human_activity stats today now in
     and_then (update_stats (gs_user_id stats)
        (\<lambda>s. s\<lparr>gs_last_human_activity_at := Some now,
               gs_suspicious_activity_streak := ha_suspicious_activity_streak a,
               gs_automation_review_state := ha_automation_review_state a,
               gs_updated_at := now\<rparr>) db) (\<lambda>(updated, db).
     Inr ((updated, a),
       if gs_automation_review_state stats \<noteq> gs_automation_review_state updated
       then insert_system_audit_log ''guild.review_state.changed''
              (Some (show_uuid (gs_user_id stats)))
              (JObj [(''previous_state'', JStr (gs_automation_review_state stats)),
                     (''new_state'', JStr (gs_automation_review_state updated)),
                     (''suspicious_activity_streak'', JInt (gs_suspicious_activity_streak updated)),
                     (''active_days'', JInt (gs_active_days updated))]) now db
       else db)))"

definition advance_active_day_if_needed ::
  "guild_policy_config \<Rightarrow> user_guild_stats \<Rightarrow> day \<Rightarrow> instant \<Rightarrow> db \<Rightarrow>
     (user_guild_stats \<times> db) result" where
  "advance_active_day_if_needed policy stats today now db =
    (if gs_last_active_day stats = Some today then Inr (stats, db)
     else
       let next_active_days = wrap_i32 (gs_active_days stats + 1);
           l = level_policy_for_active_days policy next_active_days;
           r = rank_policy_for_score policy (gs_contribution_score stats)
       in and_then (guard_err (0 \<le> next_active_days) (Database CheckViolation)) (\<lambda>_.
          update_stats (gs_user_id stats)
            (\<lambda>s. s\<lparr>gs_active_days := next_active_days,
                   gs_derived_level := int (lp_level l), gs_derived_rank := rp_rank r,
                   gs_last_active_day := Some today, gs_updated_at := now\<rparr>) db))"

section \<open>Daily counters\<close>

definition daily_action_count :: "db \<Rightarrow> uuid \<Rightarrow> string \<Rightarrow> day \<Rightarrow> int" where
  "daily_action_count db uid action today =
     (case find_row counter_key (daily_action_counters db) (uid, action, today) of
        None \<Rightarrow> 0 | Some c \<Rightarrow> dac_count c)"

definition increment_daily_counter ::
  "uuid \<Rightarrow> string \<Rightarrow> day \<Rightarrow> instant \<Rightarrow> db \<Rightarrow> db result" where
  "increment_daily_counter uid action today now db =
     (if daily_action_count db uid action today = i32_max then Inl (Database NumericOutOfRange)
      else Inr (db\<lparr>daily_action_counters := upsert_row counter_key
        \<lparr>dac_user_id = uid, dac_action_key = action, dac_day_bucket = today, dac_count = 1,
         dac_updated_at = now\<rparr>
        (\<lambda>c. c\<lparr>dac_count := dac_count c + 1, dac_updated_at := now\<rparr>)
        (daily_action_counters db)\<rparr>))"

section \<open>The snapshot\<close>

datatype milestone_kind = LevelUp | RankUp | UnlockAttachmentType

record guild_milestone_notification =
  mn_kind :: milestone_kind
  mn_badge_label :: string
  mn_headline_key :: string
  mn_detail_key :: string
  mn_unlocked_value :: "string option"
  mn_new_value :: string

record guild_snapshot =
  sn_active_days :: int
  sn_level :: nat
  sn_contribution_score :: int
  sn_rank :: string
  sn_next_level_active_days :: "int option"
  sn_level_progress_percent :: int
  sn_daily_outbound_messages_enforced :: bool
  sn_daily_outbound_messages_limit :: "int option"
  sn_daily_outbound_messages_sent :: int
  sn_daily_outbound_messages_remaining :: "int option"
  sn_daily_attachment_sends_enforced :: bool
  sn_daily_attachment_send_limit :: "int option"
  sn_daily_attachment_sends_sent :: int
  sn_daily_attachment_sends_remaining :: "int option"
  sn_allowed_attachment_types :: "string list"
  sn_daily_friend_adds_enforced :: bool
  sn_daily_friend_add_limit :: "int option"
  sn_daily_friend_adds_sent :: int
  sn_daily_friend_adds_remaining :: "int option"
  sn_challenge_state :: string
  sn_pending_milestone_notification :: "guild_milestone_notification option"

definition challenge_state_for_client :: "string \<Rightarrow> string" where
  "challenge_state_for_client s =
     (if s = FROZEN then ''frozen'' else if s = CHALLENGED then ''challenged'' else ''none'')"

definition snapshot_level :: "user_guild_stats \<Rightarrow> nat" where
  "snapshot_level stats = nat (clamp 1 10 (gs_derived_level stats))"

text \<open>\<open>Option<u8>\<close> comparison of Rust: \<open>None\<close> is below every \<open>Some\<close>.\<close>

definition opt_greater :: "nat option \<Rightarrow> nat option \<Rightarrow> bool" where
  "opt_greater a b = (case a of None \<Rightarrow> False
     | Some x \<Rightarrow> (case b of None \<Rightarrow> True | Some y \<Rightarrow> x > y))"

definition remaining_of :: "int option \<Rightarrow> int \<Rightarrow> int option" where
  "remaining_of limit sent = map_option (\<lambda>l. max (wrap_i32 (l - sent)) 0) limit"

definition milestone_notification ::
  "nat \<Rightarrow> string \<Rightarrow> nat \<Rightarrow> string \<Rightarrow> guild_milestone_notification option" where
  "milestone_notification current_level current_rank prev_level prev_rank =
    (if current_level > prev_level then
       Some \<lparr>mn_kind = LevelUp, mn_badge_label = ''Level '' @ show_nat current_level,
             mn_headline_key = ''guild.milestone.level_up'',
             mn_detail_key = ''guild.milestone.level_'' @ show_nat current_level @ ''_detail'',
             mn_unlocked_value = None, mn_new_value = show_nat current_level\<rparr>
     else if opt_greater (rank_order current_rank) (rank_order prev_rank) then
       Some \<lparr>mn_kind = RankUp, mn_badge_label = ''Rank '' @ current_rank,
             mn_headline_key = ''guild.milestone.rank_up'',
             mn_detail_key = ''guild.milestone.rank_'' @ to_lowercase current_rank @ ''_detail'',
             mn_unlocked_value = None, mn_new_value = current_rank\<rparr>
     else None)"

definition build_snapshot ::
  "guild_policy_config \<Rightarrow> user_guild_stats \<Rightarrow> int \<Rightarrow> int \<Rightarrow> int \<Rightarrow> nat \<Rightarrow> string \<Rightarrow>
     guild_snapshot" where
  "build_snapshot policy stats outbound attachments friend_adds prev_level prev_rank =
    (let level_policy = level_policy_for_active_days policy (gs_active_days stats);
         rank_policy = rank_policy_for_limits policy (gs_contribution_score stats);
         outbound_limit = effective_daily_outbound_messages_limit level_policy rank_policy;
         attachment_limit = effective_daily_attachment_send_limit level_policy rank_policy;
         friend_limit = effective_daily_friend_add_limit level_policy rank_policy;
         next_days = next_level_active_days policy (lp_level level_policy)
     in \<lparr>sn_active_days = gs_active_days stats, sn_level = snapshot_level stats,
         sn_contribution_score = gs_contribution_score stats, sn_rank = gs_derived_rank stats,
         sn_next_level_active_days = next_days,
         sn_level_progress_percent = level_progress_percent (gs_active_days stats)
           (lp_min_active_days level_policy) next_days,
         sn_daily_outbound_messages_enforced = outbound_message_limit_enforced policy,
         sn_daily_outbound_messages_limit = outbound_limit,
         sn_daily_outbound_messages_sent = outbound,
         sn_daily_outbound_messages_remaining = remaining_of outbound_limit outbound,
         sn_daily_attachment_sends_enforced = attachment_send_limit_enforced policy,
         sn_daily_attachment_send_limit = attachment_limit,
         sn_daily_attachment_sends_sent = attachments,
         sn_daily_attachment_sends_remaining = remaining_of attachment_limit attachments,
         sn_allowed_attachment_types = gp_safe_attachment_types policy,
         sn_daily_friend_adds_enforced = friend_add_limit_enforced policy,
         sn_daily_friend_add_limit = friend_limit,
         sn_daily_friend_adds_sent = friend_adds,
         sn_daily_friend_adds_remaining = remaining_of friend_limit friend_adds,
         sn_challenge_state = challenge_state_for_client (gs_automation_review_state stats),
         sn_pending_milestone_notification = milestone_notification (snapshot_level stats)
           (gs_derived_rank stats) prev_level prev_rank\<rparr>)"

section \<open>Operations\<close>

text \<open>
  The opening statements that \<open>record_human_activity\<close>, \<open>send_message_with_guild\<close>,
  \<open>run_attachment_action_with_guild\<close> and \<open>resolve_contact_with_guild\<close> share: load the
  policy, make sure the row exists, bring the derived columns up to date, record the
  activity and count the day when the assessment says so.
\<close>

definition guild_activity ::
  "(string \<Rightarrow> guild_policy_config option) \<Rightarrow> (uuid \<Rightarrow> string) \<Rightarrow> uuid \<Rightarrow> day \<Rightarrow> instant \<Rightarrow> db \<Rightarrow>
     ((guild_policy_config \<times> user_guild_stats) \<times> db) result" where
  "guild_activity dec show_uuid uid today now db =
    (let policy = load_guild_policy_conn dec db in
     and_then (ensure_user_guild_stats policy uid now db) (\<lambda>(stats, db).
     and_then (sync_derived_state policy stats now db) (\<lambda>(stats, db).
     and_then (update_human_activity_state show_uuid stats today now db)
       (\<lambda>((stats, assessment), db).
     if ha_should_advance_active_day assessment
     then and_then (advance_active_day_if_needed policy stats today now db)
       (\<lambda>(stats, db). Inr ((policy, stats), db))
     else Inr ((policy, stats), db)))))"

definition record_human_activity ::
  "(string \<Rightarrow> guild_policy_config option) \<Rightarrow> (uuid \<Rightarrow> string) \<Rightarrow> uuid \<Rightarrow> day \<Rightarrow> instant \<Rightarrow> db \<Rightarrow>
     db result" where
  "record_human_activity dec show_uuid uid today now db =
     and_then (guild_activity dec show_uuid uid today now db) (\<lambda>(_, db). Inr db)"

definition get_guild_snapshot ::
  "(string \<Rightarrow> guild_policy_config option) \<Rightarrow> uuid \<Rightarrow> day \<Rightarrow> instant \<Rightarrow> db \<Rightarrow>
     (guild_snapshot \<times> db) result" where
  "get_guild_snapshot dec uid today now db =
    (let policy = load_guild_policy_conn dec db in
     and_then (ensure_user_guild_stats policy uid now db) (\<lambda>(before, db).
     and_then (sync_derived_state policy before now db) (\<lambda>(stats, db).
     Inr (build_snapshot policy stats
            (daily_action_count db uid ACTION_OUTBOUND_MESSAGE today)
            (daily_action_count db uid ACTION_ATTACHMENT_SEND today)
            (daily_action_count db uid ACTION_FRIEND_ADD today)
            (snapshot_level before) (gs_derived_rank before), db))))"

text \<open>The snapshot of a refused action, built from the state the action has read.\<close>

definition limited_snapshot ::
  "guild_policy_config \<Rightarrow> user_guild_stats \<Rightarrow> uuid \<Rightarrow> day \<Rightarrow> db \<Rightarrow> guild_snapshot" where
  "limited_snapshot policy stats uid today db =
     build_snapshot policy stats
       (daily_action_count db uid ACTION_OUTBOUND_MESSAGE today)
       (daily_action_count db uid ACTION_ATTACHMENT_SEND today)
       (daily_action_count db uid ACTION_FRIEND_ADD today)
       (snapshot_level stats) (gs_derived_rank stats)"

definition limit_reached :: "int option \<Rightarrow> int \<Rightarrow> bool" where
  "limit_reached limit sent = (case limit of None \<Rightarrow> False | Some l \<Rightarrow> sent \<ge> l)"

datatype send_message_result =
    Sent message
  | SendLimited guild_snapshot int

definition send_message_with_guild ::
  "(string \<Rightarrow> guild_policy_config option) \<Rightarrow> (uuid \<Rightarrow> string) \<Rightarrow> uuid \<Rightarrow> uuid \<Rightarrow> uuid \<Rightarrow> string \<Rightarrow>
     instant \<Rightarrow> db \<Rightarrow> (send_message_result \<times> db) result" where
  "send_message_with_guild dec show_uuid mid sender recipient content now db =
    (let today = date_naive now in
     and_then (guild_activity dec show_uuid sender today now db) (\<lambda>((policy, stats), db).
     let limit = effective_daily_outbound_messages_limit
           (level_policy_for_active_days policy (gs_active_days stats))
           (rank_policy_for_limits policy (gs_contribution_score stats))
     in if outbound_message_limit_enforced policy \<and>
           limit_reached limit (daily_action_count db sender ACTION_OUTBOUND_MESSAGE today)
        then Inr (SendLimited (limited_snapshot policy stats sender today db)
               (seconds_until_next_utc_day now), db)
        else
          and_then (insert_message_conn mid sender recipient content now db) (\<lambda>(msg, db).
          and_then (increment_daily_counter sender ACTION_OUTBOUND_MESSAGE today now db) (\<lambda>db.
          Inr (Sent msg, db)))))"

datatype 't attachment_action_result =
    Completed 't
  | AttachmentLimited guild_snapshot int
  | UnsupportedMime guild_snapshot

definition run_attachment_action_with_guild ::
  "(string \<Rightarrow> guild_policy_config option) \<Rightarrow> (uuid \<Rightarrow> string) \<Rightarrow> uuid \<Rightarrow> string \<Rightarrow>
     (db \<Rightarrow> ('t \<times> db) result) \<Rightarrow> instant \<Rightarrow> db \<Rightarrow> ('t attachment_action_result \<times> db) result" where
  "run_attachment_action_with_guild dec show_uuid uid mime_type operation now db =
    (let today = date_naive now; mime = to_lowercase (trim mime_type) in
     and_then (guild_activity dec show_uuid uid today now db) (\<lambda>((policy, stats), db).
     if attachment_send_limit_enforced policy \<and> \<not> attachment_type_allowed policy mime
     then Inr (UnsupportedMime (limited_snapshot policy stats uid today db), db)
     else
       let limit = effective_daily_attachment_send_limit
             (level_policy_for_active_days policy (gs_active_days stats))
             (rank_policy_for_limits policy (gs_contribution_score stats))
       in if attachment_send_limit_enforced policy \<and>
             limit_reached limit (daily_action_count db uid ACTION_ATTACHMENT_SEND today)
          then Inr (AttachmentLimited (limited_snapshot policy stats uid today db)
                 (seconds_until_next_utc_day now), db)
          else
            and_then (operation db) (\<lambda>(v, db).
            and_then (increment_daily_counter uid ACTION_ATTACHMENT_SEND today now db) (\<lambda>db.
            Inr (Completed v, db)))))"

datatype resolve_contact_result =
    Allowed
  | ContactLimited guild_snapshot int

definition resolve_contact_with_guild ::
  "(string \<Rightarrow> guild_policy_config option) \<Rightarrow> (uuid \<Rightarrow> string) \<Rightarrow> uuid \<Rightarrow> instant \<Rightarrow> db \<Rightarrow>
     (resolve_contact_result \<times> db) result" where
  "resolve_contact_with_guild dec show_uuid uid now db =
    (let today = date_naive now in
     and_then (guild_activity dec show_uuid uid today now db) (\<lambda>((policy, stats), db).
     and_then (ok_or NotFound (find_user db uid)) (\<lambda>user.
     if yellow_card_active user now
     then Inl (BadRequest ''Your account has a temporary restriction and cannot add contacts at this time.'')
     else
       let limit = effective_daily_friend_add_limit
             (level_policy_for_active_days policy (gs_active_days stats))
             (rank_policy_for_limits policy (gs_contribution_score stats))
       in if friend_add_limit_enforced policy \<and>
             limit_reached limit (daily_action_count db uid ACTION_FRIEND_ADD today)
          then Inr (ContactLimited (limited_snapshot policy stats uid today db)
                 (seconds_until_next_utc_day now), db)
          else
            and_then (increment_daily_counter uid ACTION_FRIEND_ADD today now db) (\<lambda>db.
            Inr (Allowed, db)))))"

text \<open>
  The administrative freeze and unfreeze run two statements without a transaction: the
  update of the row stays when the audit entry is refused.
\<close>

definition set_review_state ::
  "uuid \<Rightarrow> (user_guild_stats \<Rightarrow> user_guild_stats) \<Rightarrow> db \<Rightarrow> db" where
  "set_review_state target f db = db\<lparr>guild_stats := update_row gs_user_id target f (guild_stats db)\<rparr>"

definition freeze_guild_progression ::
  "(uuid \<Rightarrow> string) \<Rightarrow> uuid option \<Rightarrow> uuid \<Rightarrow> string \<Rightarrow> instant \<Rightarrow> db \<Rightarrow> unit result \<times> db" where
  "freeze_guild_progression show_uuid admin target reason now db =
    (let db1 = set_review_state target
           (\<lambda>s. s\<lparr>gs_automation_review_state := FROZEN, gs_updated_at := now\<rparr>) db
     in case admin of
          Some a \<Rightarrow>
            (case append_audit_log (Some a) ''guild.admin.freeze_guild_progression''
                    (Some (show_uuid target))
                    (JObj [(''reason'', JStr reason), (''target_user_id'', JStr (show_uuid target)),
                           (''admin_user_id'', JStr (show_uuid a))]) now db1 of
               Inl e \<Rightarrow> (Inl e, db1) | Inr db2 \<Rightarrow> (Inr (), db2))
        | None \<Rightarrow>
            (Inr (), insert_system_audit_log ''guild.system.freeze_guild_progression''
               (Some (show_uuid target)) (JObj [(''reason'', JStr reason)]) now db1))"

definition unfreeze_guild_progression ::
  "(uuid \<Rightarrow> string) \<Rightarrow> uuid \<Rightarrow> uuid \<Rightarrow> string \<Rightarrow> instant \<Rightarrow> db \<Rightarrow> unit result \<times> db" where
  "unfreeze_guild_progression show_uuid admin target reason now db =
    (let db1 = set_review_state target
           (\<lambda>s. s\<lparr>gs_automation_review_state := CLEAR, gs_suspicious_activity_streak := 0,
                  gs_updated_at := now\<rparr>) db
     in case append_audit_log (Some admin) ''guild.admin.unfreeze_guild_progression''
               (Some (show_uuid target)) (JObj [(''reason'', JStr reason)]) now db1 of
          Inl e \<Rightarrow> (Inl e, db1) | Inr db2 \<Rightarrow> (Inr (), db2))"

record guild_history_prune_result =
  pr_daily_counter_retention_days :: int
  pr_score_event_retention_days :: int
  pr_pruned_before_day :: day
  pr_pruned_before_timestamp :: instant
  pr_daily_action_counters_deleted :: int
  pr_guild_score_events_deleted :: int

definition prune_guild_history ::
  "(string \<Rightarrow> guild_policy_config option) \<Rightarrow> instant \<Rightarrow> db \<Rightarrow>
     guild_history_prune_result \<times> db" where
  "prune_guild_history dec now db =
    (let policy = load_guild_policy_conn dec db;
         before_day = date_naive now - gp_daily_counter_retention_days policy;
         before_ts = now - days (gp_score_event_retention_days policy);
         old_counter = (\<lambda>c. dac_day_bucket c < before_day);
         old_event = (\<lambda>e. gse_created_at e < before_ts)
     in (\<lparr>pr_daily_counter_retention_days = gp_daily_counter_retention_days policy,
          pr_score_event_retention_days = gp_score_event_retention_days policy,
          pr_pruned_before_day = before_day, pr_pruned_before_timestamp = before_ts,
          pr_daily_action_counters_deleted = count_rows old_counter (daily_action_counters db),
          pr_guild_score_events_deleted = count_rows old_event (guild_score_events db)\<rparr>,
         db\<lparr>daily_action_counters := delete_rows old_counter (daily_action_counters db),
            guild_score_events := delete_rows old_event (guild_score_events db)\<rparr>))"

section \<open>What an activity does to the statistics row\<close>

text \<open>
  The specification of \<open>guild_activity\<close> on the row alone: the row an activity starts from,
  the synchronised row, the row with the assessment recorded and the row with the day
  counted.
\<close>

definition base_row :: "guild_policy_config \<Rightarrow> uuid \<Rightarrow> instant \<Rightarrow> db \<Rightarrow> user_guild_stats" where
  "base_row p uid now db = (case find_row gs_user_id (guild_stats db) uid of
       Some r \<Rightarrow> r
     | None \<Rightarrow> \<lparr>gs_user_id = uid, gs_active_days = 0, gs_contribution_score = 0,
         gs_derived_level = int (lp_level (level_policy_for_active_days p 0)),
         gs_derived_rank = rp_rank (rank_policy_for_score p 0),
         gs_last_active_day = None, gs_last_human_activity_at = None,
         gs_suspicious_activity_streak = 0, gs_automation_review_state = CLEAR,
         gs_created_at = now, gs_updated_at = now\<rparr>)"

definition derive_row :: "guild_policy_config \<Rightarrow> user_guild_stats \<Rightarrow> user_guild_stats" where
  "derive_row p r = r\<lparr>
     gs_derived_level := int (lp_level (level_policy_for_active_days p (gs_active_days r))),
     gs_derived_rank := rp_rank (rank_policy_for_score p (gs_contribution_score r))\<rparr>"

definition synced_row :: "guild_policy_config \<Rightarrow> instant \<Rightarrow> user_guild_stats \<Rightarrow> user_guild_stats" where
  "synced_row p now r = (if derive_row p r = r then r else (derive_row p r)\<lparr>gs_updated_at := now\<rparr>)"

definition assessed_row :: "day \<Rightarrow> instant \<Rightarrow> user_guild_stats \<Rightarrow> user_guild_stats" where
  "assessed_row today now r = (let a = assess_human_activity r today now in
     r\<lparr>gs_last_human_activity_at := Some now,
       gs_suspicious_activity_streak := ha_suspicious_activity_streak a,
       gs_automation_review_state := ha_automation_review_state a, gs_updated_at := now\<rparr>)"

definition advanced_row ::
  "guild_policy_config \<Rightarrow> day \<Rightarrow> instant \<Rightarrow> user_guild_stats \<Rightarrow> user_guild_stats" where
  "advanced_row p today now r =
     derive_row p (r\<lparr>gs_active_days := wrap_i32 (gs_active_days r + 1),
       gs_last_active_day := Some today, gs_updated_at := now\<rparr>)"

definition activity_row ::
  "guild_policy_config \<Rightarrow> day \<Rightarrow> instant \<Rightarrow> user_guild_stats \<Rightarrow> user_guild_stats" where
  "activity_row p today now r =
    (let r1 = synced_row p now r; r2 = assessed_row today now r1
     in if ha_should_advance_active_day (assess_human_activity r1 today now)
        then advanced_row p today now r2 else r2)"

text \<open>
  \<open>stats_written uid row db db'\<close>: the step from \<open>db\<close> to \<open>db'\<close> wrote the row of \<open>uid\<close>,
  possibly appended audit entries, and touched nothing else.
\<close>

definition core :: "db \<Rightarrow> db" where
  "core db = db\<lparr>guild_stats := [], admin_audit_logs := []\<rparr>"

definition stats_written :: "uuid \<Rightarrow> user_guild_stats \<Rightarrow> db \<Rightarrow> db \<Rightarrow> bool" where
  "stats_written uid row db db' \<longleftrightarrow>
     find_row gs_user_id (guild_stats db') uid = Some row \<and>
     (\<forall>k. k \<noteq> uid \<longrightarrow>
        find_row gs_user_id (guild_stats db') k = find_row gs_user_id (guild_stats db) k) \<and>
     core db' = core db \<and>
     (distinct_key gs_user_id (guild_stats db) \<longrightarrow> distinct_key gs_user_id (guild_stats db'))"

lemma core_eqD:
  assumes "core db' = core db"
  shows "users db' = users db" "daily_action_counters db' = daily_action_counters db"
    "guild_score_events db' = guild_score_events db" "admin_settings db' = admin_settings db"
    "messages db' = messages db" "user_blocks db' = user_blocks db"
    "moderation_reports db' = moderation_reports db" "rooms db' = rooms db"
    "room_members db' = room_members db" "room_messages db' = room_messages db"
    "refresh_tokens db' = refresh_tokens db" "stickers db' = stickers db"
  using assms by (cases db; cases db'; simp add: core_def)+

lemma stats_written_trans:
  "stats_written uid r db db1 \<Longrightarrow> stats_written uid r' db1 db2 \<Longrightarrow> stats_written uid r' db db2"
  by (auto simp: stats_written_def)

lemma stats_written_refl:
  "find_row gs_user_id (guild_stats db) uid = Some r \<Longrightarrow> stats_written uid r db db"
  by (simp add: stats_written_def)

lemma stats_written_core: "stats_written uid r db db' \<Longrightarrow> core db' = core db"
  by (simp add: stats_written_def)

lemma stats_written_find:
  "stats_written uid r db db' \<Longrightarrow> find_row gs_user_id (guild_stats db') uid = Some r"
  by (simp add: stats_written_def)

lemma ensure_user_guild_stats_spec:
  assumes "ensure_user_guild_stats p uid now db = Inr (row, db')"
  shows "row = base_row p uid now db" "gs_user_id row = uid" "stats_written uid row db db'"
  using assms
  by (auto simp: ensure_user_guild_stats_def base_row_def stats_written_def core_def row_simps
      Let_def result_simps dest: find_row_Some split: option.splits if_splits)

lemma update_stats_spec:
  assumes "update_stats uid f db = Inr (row', db')"
    and "find_row gs_user_id (guild_stats db) uid = Some row"
    and "\<And>r. gs_user_id (f r) = gs_user_id r"
  shows "row' = f row" "stats_written uid row' db db'"
  using assms by (auto simp: update_stats_def stats_written_def core_def row_simps)

lemma derive_row_eq_iff:
  "derive_row p r = r \<longleftrightarrow>
     gs_derived_level r = int (lp_level (level_policy_for_active_days p (gs_active_days r))) \<and>
     gs_derived_rank r = rp_rank (rank_policy_for_score p (gs_contribution_score r))"
  by (cases r) (auto simp: derive_row_def)

lemma sync_derived_state_spec:
  assumes "sync_derived_state p stats now db = Inr (row, db')"
    and "gs_user_id stats = uid" "find_row gs_user_id (guild_stats db) uid = Some stats"
  shows "row = synced_row p now stats" "stats_written uid row db db'"
proof -
  show "row = synced_row p now stats"
  proof (cases "derive_row p stats = stats")
    case True
    with assms(1) show ?thesis
      by (simp add: synced_row_def derive_row_eq_iff sync_derived_state_def Let_def)
  next
    case False
    then have n: "\<not> (gs_derived_level stats
        = int (lp_level (level_policy_for_active_days p (gs_active_days stats))) \<and>
      gs_derived_rank stats = rp_rank (rank_policy_for_score p (gs_contribution_score stats)))"
      by (simp add: derive_row_eq_iff)
    have "synced_row p now stats = (derive_row p stats)\<lparr>gs_updated_at := now\<rparr>"
      using False by (simp add: synced_row_def)
    with n assms show ?thesis
      by (auto simp: sync_derived_state_def Let_def update_stats_def derive_row_def)
  qed
  show "stats_written uid row db db'"
    using assms by (auto simp: sync_derived_state_def Let_def stats_written_refl
        split: if_splits intro!: update_stats_spec(2))
qed

lemma synced_row_user_id [simp]: "gs_user_id (synced_row p now r) = gs_user_id r"
  by (simp add: synced_row_def derive_row_def)

lemma assessed_row_user_id [simp]: "gs_user_id (assessed_row today now r) = gs_user_id r"
  by (simp add: assessed_row_def Let_def)

lemma update_human_activity_state_spec:
  assumes "update_human_activity_state sh stats today now db = Inr ((row, a), db')"
    and "gs_user_id stats = uid" "find_row gs_user_id (guild_stats db) uid = Some stats"
  shows "row = assessed_row today now stats" "a = assess_human_activity stats today now"
    "stats_written uid row db db'"
proof -
  let ?f = "\<lambda>s. s\<lparr>gs_last_human_activity_at := Some now,
      gs_suspicious_activity_streak :=
        ha_suspicious_activity_streak (assess_human_activity stats today now),
      gs_automation_review_state :=
        ha_automation_review_state (assess_human_activity stats today now), gs_updated_at := now\<rparr>"
  from assms obtain db1 where u: "update_stats uid ?f db = Inr (row, db1)"
    and a: "a = assess_human_activity stats today now"
    and gs: "guild_stats db' = guild_stats db1" "core db' = core db1"
    by (auto simp: update_human_activity_state_def Let_def result_simps core_def
        insert_system_audit_log_def split: if_splits)
  show "a = assess_human_activity stats today now" by (fact a)
  show "row = assessed_row today now stats"
    using update_stats_spec(1) [OF u assms(3)] by (simp add: assessed_row_def Let_def)
  have "stats_written uid row db db1" by (rule update_stats_spec(2) [OF u assms(3)]) simp
  then show "stats_written uid row db db'" using gs by (simp add: stats_written_def)
qed

lemma advance_active_day_if_needed_spec:
  assumes "advance_active_day_if_needed p stats today now db = Inr (row, db')"
    and "gs_user_id stats = uid" "find_row gs_user_id (guild_stats db) uid = Some stats"
    and "gs_last_active_day stats \<noteq> Some today"
  shows "row = advanced_row p today now stats" "stats_written uid row db db'"
    "0 \<le> wrap_i32 (gs_active_days stats + 1)"
proof -
  let ?n = "wrap_i32 (gs_active_days stats + 1)"
  let ?f = "\<lambda>s. s\<lparr>gs_active_days := ?n,
      gs_derived_level := int (lp_level (level_policy_for_active_days p ?n)),
      gs_derived_rank := rp_rank (rank_policy_for_score p (gs_contribution_score stats)),
      gs_last_active_day := Some today, gs_updated_at := now\<rparr>"
  from assms have u: "update_stats uid ?f db = Inr (row, db')" and "0 \<le> ?n"
    by (auto simp: advance_active_day_if_needed_def Let_def result_simps)
  then show "0 \<le> ?n" by simp
  show "row = advanced_row p today now stats"
    using update_stats_spec(1) [OF u assms(3)] by (simp add: advanced_row_def derive_row_def)
  show "stats_written uid row db db'" by (rule update_stats_spec(2) [OF u assms(3)]) simp
qed

lemma assess_advance_new_day:
  "ha_should_advance_active_day (assess_human_activity r today now) \<Longrightarrow>
     gs_last_active_day r \<noteq> Some today"
  by (auto simp: assess_human_activity_def Let_def split: if_splits)

lemma guild_activity_spec:
  assumes "guild_activity dec sh uid today now db = Inr ((p, stats), db')"
  shows "p = load_guild_policy_conn dec db"
    "stats = activity_row p today now (base_row p uid now db)"
    "stats_written uid stats db db'"
proof -
  let ?p = "load_guild_policy_conn dec db"
  let ?r0 = "base_row ?p uid now db"
  let ?r1 = "synced_row ?p now ?r0"
  let ?r2 = "assessed_row today now ?r1"
  from assms obtain r0 db0 r1 db1 r2 a db2 where
    e: "ensure_user_guild_stats ?p uid now db = Inr (r0, db0)" and
    s: "sync_derived_state ?p r0 now db0 = Inr (r1, db1)" and
    u: "update_human_activity_state sh r1 today now db1 = Inr ((r2, a), db2)" and
    f: "if ha_should_advance_active_day a
        then and_then (advance_active_day_if_needed ?p r2 today now db2)
               (\<lambda>(stats, db). Inr ((?p, stats), db)) = Inr ((p, stats), db')
        else p = ?p \<and> stats = r2 \<and> db' = db2"
    unfolding guild_activity_def Let_def
    by (auto simp: result_simps split: prod.splits if_splits)
  show p: "p = ?p"
    using f by (auto simp: result_simps split: if_splits)
  note e' = ensure_user_guild_stats_spec [OF e]
  note s' = sync_derived_state_spec [OF s e'(2) stats_written_find [OF e'(3)]]
  have id1: "gs_user_id r1 = uid" using s'(1) e'(2) by simp
  note u' = update_human_activity_state_spec [OF u id1 stats_written_find [OF s'(2)]]
  have id2: "gs_user_id r2 = uid" using u'(1) id1 by simp
  have w2: "stats_written uid r2 db db2"
    using e'(3) s'(2) u'(3) by (blast intro: stats_written_trans)
  have "stats = activity_row ?p today now ?r0 \<and> stats_written uid stats db db'"
  proof (cases "ha_should_advance_active_day a")
    case True
    with f have adv: "advance_active_day_if_needed ?p r2 today now db2 = Inr (stats, db')"
      by (auto simp: result_simps)
    have nd: "gs_last_active_day r2 \<noteq> Some today"
      using True assess_advance_new_day [of r1 today now] u'(1,2)
      by (simp add: assessed_row_def Let_def)
    note adv' = advance_active_day_if_needed_spec [OF adv id2 stats_written_find [OF w2] nd]
    show ?thesis
      using True adv'(1) u'(1,2) s'(1) e'(1) stats_written_trans [OF w2 adv'(2)]
      by (simp add: activity_row_def Let_def)
  next
    case False
    with f u'(1,2) s'(1) e'(1) w2 show ?thesis by (simp add: activity_row_def Let_def)
  qed
  then show "stats = activity_row p today now (base_row p uid now db)"
    and "stats_written uid stats db db'"
    using p by blast+
qed

end
