(* ===== verification/Contribution.thy ===== *)
theory Contribution
  imports Guild_Service
begin

text \<open>
  The contribution score of a user, src/src/services/guild_service.rs: the append-only
  ledger \<open>guild_score_events\<close>, the rules that suppress a vote (self votes, reciprocal
  votes, clustered votes, ineligible granters, the daily cap) and the operations that
  award or take points. The random identifier of a new event is the argument \<open>eid\<close>.
\<close>

section \<open>Constants\<close>

definition VALIDATED_MODERATION_ACTION_POINTS :: int where "VALIDATED_MODERATION_ACTION_POINTS = 50"
definition VERIFIED_ABUSE_REPORT_POINTS :: int where "VERIFIED_ABUSE_REPORT_POINTS = 25"
definition FALSE_REPORT_PENALTY_POINTS :: int where "FALSE_REPORT_PENALTY_POINTS = -10"
definition HELPFUL_ANSWER_VOTE_POINTS :: int where "HELPFUL_ANSWER_VOTE_POINTS = 5"
definition EVENT_VALIDATED_MODERATION_STICKER_REVIEW :: string where
  "EVENT_VALIDATED_MODERATION_STICKER_REVIEW = ''validated_moderation_action.sticker_review''"
definition EVENT_VALIDATED_MODERATION_USER_SUSPEND :: string where
  "EVENT_VALIDATED_MODERATION_USER_SUSPEND = ''validated_moderation_action.user_suspend''"
definition EVENT_VERIFIED_ABUSE_REPORT :: string where
  "EVENT_VERIFIED_ABUSE_REPORT = ''verified_abuse_report''"
definition EVENT_FALSE_REPORT_PENALTY :: string where
  "EVENT_FALSE_REPORT_PENALTY = ''false_report_penalty''"
definition EVENT_HELPFUL_ANSWER_VOTE :: string where
  "EVENT_HELPFUL_ANSWER_VOTE = ''helpful_answer_vote''"
definition EVENT_SCORE_CLAWBACK :: string where
  "EVENT_SCORE_CLAWBACK = ''admin.score_clawback''"

section \<open>The ledger\<close>

text \<open>
  The insertion into \<open>guild_score_events\<close>: the primary key and the two foreign keys of
  the migration.
\<close>

definition insert_score_event :: "guild_score_event \<Rightarrow> db \<Rightarrow> (guild_score_event \<times> db) result" where
  "insert_score_event e db =
     (if find_row gse_id (guild_score_events db) (gse_id e) \<noteq> None
      then Inl (Database UniqueViolation)
      else if \<not> user_exists db (gse_user_id e) \<or>
        (case gse_granter_user_id e of None \<Rightarrow> False | Some g \<Rightarrow> \<not> user_exists db g)
      then Inl (Database ForeignKeyViolation)
      else Inr (e, db\<lparr>guild_score_events := insert_row e (guild_score_events db)\<rparr>))"

definition record_score_event ::
  "uuid \<Rightarrow> uuid \<Rightarrow> uuid option \<Rightarrow> string \<Rightarrow> int \<Rightarrow> string option \<Rightarrow> json \<Rightarrow> instant \<Rightarrow> db \<Rightarrow>
     (guild_score_event \<times> db) result" where
  "record_score_event eid uid granter event_type delta reference_id metadata now db =
     insert_score_event
       \<lparr>gse_id = eid, gse_user_id = uid, gse_granter_user_id = granter,
        gse_event_type = trim event_type, gse_delta = delta, gse_reference_id = reference_id,
        gse_metadata = metadata, gse_created_at = now\<rparr> db"

text \<open>The three queries on the ledger.\<close>

definition is_reciprocal_vote ::
  "db \<Rightarrow> uuid \<Rightarrow> uuid option \<Rightarrow> string \<Rightarrow> instant \<Rightarrow> bool" where
  "is_reciprocal_vote db uid granter event_type now =
     (case granter of None \<Rightarrow> False
      | Some g \<Rightarrow> exists_row (\<lambda>e. gse_user_id e = g \<and> gse_granter_user_id e = Some uid \<and>
           gse_event_type e = event_type \<and> gse_delta e > 0 \<and>
           gse_created_at e \<ge> now - days 30) (guild_score_events db))"

definition positive_today :: "uuid \<Rightarrow> string \<Rightarrow> instant \<Rightarrow> guild_score_event \<Rightarrow> bool" where
  "positive_today uid event_type now e \<longleftrightarrow>
     gse_user_id e = uid \<and> gse_event_type e = event_type \<and>
     gse_created_at e \<ge> midnight (date_naive now) \<and> gse_delta e > 0"

definition CLUSTERED_VOTE_GRANTER_DAILY_THRESHOLD :: nat where
  "CLUSTERED_VOTE_GRANTER_DAILY_THRESHOLD = 10"

definition distinct_grantors :: "db \<Rightarrow> uuid \<Rightarrow> string \<Rightarrow> instant \<Rightarrow> uuid list" where
  "distinct_grantors db uid event_type now = remdups (List.map_filter gse_granter_user_id
     (filter (positive_today uid event_type now) (guild_score_events db)))"

definition is_clustered_vote :: "db \<Rightarrow> uuid \<Rightarrow> string \<Rightarrow> instant \<Rightarrow> bool" where
  "is_clustered_vote db uid event_type now \<longleftrightarrow>
     length (distinct_grantors db uid event_type now) \<ge> CLUSTERED_VOTE_GRANTER_DAILY_THRESHOLD"

definition positive_points_earned_today :: "db \<Rightarrow> uuid \<Rightarrow> string \<Rightarrow> instant \<Rightarrow> int" where
  "positive_points_earned_today db uid event_type now =
     clamp 0 i32_max (\<Sum>e\<leftarrow>filter (positive_today uid event_type now) (guild_score_events db).
       gse_delta e)"

text \<open>The eligibility of the granter; it creates the granter's statistics row when missing.\<close>

definition granter_is_meaningful ::
  "guild_policy_config \<Rightarrow> uuid option \<Rightarrow> instant \<Rightarrow> db \<Rightarrow> (bool \<times> db) result" where
  "granter_is_meaningful policy granter now db =
     (case granter of None \<Rightarrow> Inr (False, db)
      | Some g \<Rightarrow> (case find_user db g of None \<Rightarrow> Inr (False, db)
         | Some u \<Rightarrow>
             if u_role u \<noteq> ''user'' then Inr (True, db)
             else and_then (ensure_user_guild_stats policy g now db) (\<lambda>(stats, db).
                  and_then (sync_derived_state policy stats now db) (\<lambda>(stats, db).
                  Inr (gs_derived_level stats \<ge> 4 \<or>
                       rank_at_least (gs_derived_rank stats) ''E'', db)))))"

definition enrich_contribution_event_metadata ::
  "json \<Rightarrow> int \<Rightarrow> int \<Rightarrow> string option \<Rightarrow> json" where
  "enrich_contribution_event_metadata metadata requested applied reason =
    (let object = (case metadata of JObj m \<Rightarrow> m | other \<Rightarrow> [(''input'', other)]);
         object = json_insert ''requested_delta'' (JInt requested) object;
         object = json_insert ''applied_delta'' (JInt applied) object;
         object = (case reason of None \<Rightarrow> object
                   | Some r \<Rightarrow> json_insert ''suppressed_reason'' (JStr r) object)
     in JObj object)"

section \<open>Recording a contribution\<close>

record contribution_event_options =
  co_requires_meaningful_granter :: bool
  co_daily_positive_cap :: "int option"

definition default_options :: contribution_event_options where
  "default_options = \<lparr>co_requires_meaningful_granter = False, co_daily_positive_cap = None\<rparr>"

record contribution_event_outcome =
  oc_event :: "guild_score_event option"
  oc_contribution_score :: int
  oc_derived_rank :: string
  oc_applied_delta :: int
  oc_duplicate :: bool
  oc_suppressed_reason :: "string option"

definition normalize_reference_id :: "string option \<Rightarrow> string option" where
  "normalize_reference_id r = (case r of None \<Rightarrow> None
     | Some s \<Rightarrow> if trim s = [] then None else Some (trim s))"

definition already_recorded :: "db \<Rightarrow> uuid \<Rightarrow> string \<Rightarrow> string option \<Rightarrow> bool" where
  "already_recorded db uid event_type reference_id =
     (case reference_id of None \<Rightarrow> False
      | Some ref \<Rightarrow> exists_row (\<lambda>e. gse_user_id e = uid \<and> gse_event_type e = event_type \<and>
           gse_reference_id e = Some ref) (guild_score_events db))"

text \<open>The checks on the granter of a positive vote: the delta left and the reason.\<close>

definition granter_checks ::
  "guild_policy_config \<Rightarrow> uuid \<Rightarrow> uuid option \<Rightarrow> string \<Rightarrow> int \<Rightarrow> contribution_event_options \<Rightarrow>
     instant \<Rightarrow> db \<Rightarrow> ((int \<times> string option) \<times> db) result" where
  "granter_checks policy uid granter event_type requested options now db =
    (if requested > 0 \<and> co_requires_meaningful_granter options then
       if granter = Some uid then Inr ((0, Some ''self_vote''), db)
       else if is_reciprocal_vote db uid granter event_type now
       then Inr ((0, Some ''reciprocal_vote''), db)
       else if is_clustered_vote db uid event_type now
       then Inr ((0, Some ''clustered_vote''), db)
       else and_then (granter_is_meaningful policy granter now db) (\<lambda>(ok, db).
            Inr (if ok then (requested, None) else (0, Some ''granter_not_eligible''), db))
     else Inr ((requested, None), db))"

definition daily_cap_check ::
  "uuid \<Rightarrow> string \<Rightarrow> int \<Rightarrow> contribution_event_options \<Rightarrow> instant \<Rightarrow> db \<Rightarrow> int \<times> string option \<Rightarrow>
     int \<times> string option" where
  "daily_cap_check uid event_type requested options now db x =
    (case x of (applied, reason) \<Rightarrow>
     case co_daily_positive_cap options of
       None \<Rightarrow> (applied, reason)
     | Some daily_cap \<Rightarrow>
         if requested > 0 then
           let remaining =
                 max (wrap_i32 (daily_cap - positive_points_earned_today db uid event_type now)) 0
           in if remaining = 0 then (0, Some ''daily_cap_reached'')
              else if applied > remaining then (remaining, Some ''daily_cap_truncated'')
              else (applied, reason)
         else (applied, reason))"

text \<open>
  The transaction of \<open>record_contribution_event\<close> after the statistics row has been read:
  the duplicate check, the suppression rules, the event and the new score.
\<close>

definition apply_contribution_event ::
  "guild_policy_config \<Rightarrow> user_guild_stats \<Rightarrow> uuid \<Rightarrow> uuid \<Rightarrow> uuid option \<Rightarrow> string \<Rightarrow> int \<Rightarrow>
     string option \<Rightarrow> json \<Rightarrow> contribution_event_options \<Rightarrow> instant \<Rightarrow> db \<Rightarrow>
     (contribution_event_outcome \<times> db) result" where
  "apply_contribution_event policy stats eid uid granter event_type requested reference_id metadata
     options now db =
    (if already_recorded db uid event_type reference_id
     then Inr (\<lparr>oc_event = None, oc_contribution_score = gs_contribution_score stats,
               oc_derived_rank = gs_derived_rank stats, oc_applied_delta = 0,
               oc_duplicate = True, oc_suppressed_reason = Some ''duplicate_reference''\<rparr>, db)
     else
       and_then (granter_checks policy uid granter event_type requested options now db)
         (\<lambda>(checked, db).
       let (applied, reason) = daily_cap_check uid event_type requested options now db checked;
           next_score = max (wrap_i32 (gs_contribution_score stats + applied)) 0;
           next_rank = rp_rank (rank_policy_for_score policy next_score)
       in and_then (insert_score_event
            \<lparr>gse_id = eid, gse_user_id = uid, gse_granter_user_id = granter,
             gse_event_type = event_type, gse_delta = applied, gse_reference_id = reference_id,
             gse_metadata = enrich_contribution_event_metadata metadata requested applied reason,
             gse_created_at = now\<rparr> db) (\<lambda>(event, db).
          Inr (\<lparr>oc_event = Some event, oc_contribution_score = next_score,
                oc_derived_rank = next_rank, oc_applied_delta = applied, oc_duplicate = False,
                oc_suppressed_reason = reason\<rparr>,
               db\<lparr>guild_stats := update_row gs_user_id uid
                 (\<lambda>s. s\<lparr>gs_contribution_score := next_score, gs_derived_rank := next_rank,
                        gs_updated_at := now\<rparr>) (guild_stats db)\<rparr>))))"

definition record_contribution_event ::
  "(string \<Rightarrow> guild_policy_config option) \<Rightarrow> uuid \<Rightarrow> uuid \<Rightarrow> uuid option \<Rightarrow> string \<Rightarrow> int \<Rightarrow>
     string option \<Rightarrow> json \<Rightarrow> contribution_event_options \<Rightarrow> instant \<Rightarrow> db \<Rightarrow>
     (contribution_event_outcome \<times> db) result" where
  "record_contribution_event dec eid uid granter event_type requested reference_id metadata
     options now db =
    (let event_type = trim event_type; reference_id = normalize_reference_id reference_id in
     if event_type = [] then Inl (BadRequest ''event_type cannot be empty'')
     else
       let policy = load_guild_policy_conn dec db in
       and_then (ensure_user_guild_stats policy uid now db) (\<lambda>(stats, db).
       and_then (sync_derived_state policy stats now db) (\<lambda>(stats, db).
       apply_contribution_event policy stats eid uid granter event_type requested reference_id
         metadata options now db)))"

section \<open>Awards and penalties\<close>

definition award_validated_moderation_action ::
  "(string \<Rightarrow> guild_policy_config option) \<Rightarrow> uuid \<Rightarrow> uuid \<Rightarrow> string \<Rightarrow> string option \<Rightarrow> json \<Rightarrow>
     instant \<Rightarrow> db \<Rightarrow> (contribution_event_outcome \<times> db) result" where
  "award_validated_moderation_action dec eid actor event_type reference_id metadata now db =
     record_contribution_event dec eid actor None event_type VALIDATED_MODERATION_ACTION_POINTS
       reference_id metadata default_options now db"

definition award_verified_abuse_report ::
  "(string \<Rightarrow> guild_policy_config option) \<Rightarrow> uuid \<Rightarrow> uuid \<Rightarrow> string option \<Rightarrow> json \<Rightarrow>
     instant \<Rightarrow> db \<Rightarrow> (contribution_event_outcome \<times> db) result" where
  "award_verified_abuse_report dec eid uid reference_id metadata now db =
     record_contribution_event dec eid uid None EVENT_VERIFIED_ABUSE_REPORT
       VERIFIED_ABUSE_REPORT_POINTS reference_id metadata default_options now db"

definition penalize_false_report ::
  "(string \<Rightarrow> guild_policy_config option) \<Rightarrow> uuid \<Rightarrow> uuid \<Rightarrow> string option \<Rightarrow> json \<Rightarrow>
     instant \<Rightarrow> db \<Rightarrow> (contribution_event_outcome \<times> db) result" where
  "penalize_false_report dec eid uid reference_id metadata now db =
     record_contribution_event dec eid uid None EVENT_FALSE_REPORT_PENALTY
       FALSE_REPORT_PENALTY_POINTS reference_id metadata default_options now db"

definition award_community_upvote ::
  "(string \<Rightarrow> guild_policy_config option) \<Rightarrow> uuid \<Rightarrow> uuid \<Rightarrow> uuid option \<Rightarrow> string option \<Rightarrow> json \<Rightarrow>
     int \<Rightarrow> instant \<Rightarrow> db \<Rightarrow> (contribution_event_outcome \<times> db) result" where
  "award_community_upvote dec eid uid granter reference_id metadata daily_cap now db =
     record_contribution_event dec eid uid granter EVENT_HELPFUL_ANSWER_VOTE
       HELPFUL_ANSWER_VOTE_POINTS reference_id metadata
       \<lparr>co_requires_meaningful_granter = True, co_daily_positive_cap = Some daily_cap\<rparr> now db"

definition clawback_contribution_score ::
  "(string \<Rightarrow> guild_policy_config option) \<Rightarrow> uuid \<Rightarrow> uuid \<Rightarrow> int \<Rightarrow> string option \<Rightarrow> json \<Rightarrow>
     instant \<Rightarrow> db \<Rightarrow> (contribution_event_outcome \<times> db) result" where
  "clawback_contribution_score dec eid uid delta reference_id metadata now db =
     record_contribution_event dec eid uid None EVENT_SCORE_CLAWBACK (min delta 0)
       reference_id metadata default_options now db"

end
