(* ===== verification/Guild_Invariants.thy ===== *)
theory Guild_Invariants
  imports Contribution
begin

text \<open>
  What the guild operations keep true of the database: the invariant of the statistics
  rows, the step relation of all operations that write them, the refinement of an
  activity by a function of the row, the daily quotas and the contribution rules.
\<close>

section \<open>The invariant of a statistics row\<close>

text \<open>
  The review state follows the streak of suspicious attempts, unless progression is frozen.
\<close>

definition review_ok :: "user_guild_stats \<Rightarrow> bool" where
  "review_ok r \<longleftrightarrow> 0 \<le> gs_suspicious_activity_streak r \<and> gs_suspicious_activity_streak r \<le> 3 \<and>
     (gs_automation_review_state r = FROZEN \<or>
      gs_suspicious_activity_streak r < 3 \<and>
      gs_automation_review_state r =
        (if gs_suspicious_activity_streak r > 0 then CHALLENGED else CLEAR))"

definition stats_row_ok :: "user_guild_stats \<Rightarrow> bool" where
  "stats_row_ok r \<longleftrightarrow> review_ok r \<and> 0 \<le> gs_active_days r \<and> gs_active_days r \<le> i32_max \<and>
     0 \<le> gs_contribution_score r \<and> gs_contribution_score r \<le> i32_max \<and>
     1 \<le> gs_derived_level r \<and> gs_derived_level r \<le> 10 \<and> gs_derived_rank r \<in> set RANKS"

definition guild_inv :: "db \<Rightarrow> bool" where
  "guild_inv db \<longleftrightarrow> distinct_key gs_user_id (guild_stats db) \<and>
     (\<forall>k r. find_row gs_user_id (guild_stats db) k = Some r \<longrightarrow> stats_row_ok r)"

lemma wf_load_guild_policy [simp]: "wf_policy (load_guild_policy_conn dec db)"
  by (auto simp: load_guild_policy_conn_def wf_default_guild_policy normalize_guild_policy_eq
      split: option.splits sum.splits)

lemma derive_row_ok: "stats_row_ok r \<Longrightarrow> wf_policy p \<Longrightarrow> stats_row_ok (derive_row p r)"
  using level_policy_ok [of p "gs_active_days r"] rank_policy_ok [of p "gs_contribution_score r"]
  by (simp add: stats_row_ok_def review_ok_def derive_row_def level_entry_ok_def rank_entry_ok_def)

lemma stats_row_ok_updated_at [simp]: "stats_row_ok (r\<lparr>gs_updated_at := t\<rparr>) = stats_row_ok r"
  by (simp add: stats_row_ok_def review_ok_def)

lemma synced_row_ok: "stats_row_ok r \<Longrightarrow> wf_policy p \<Longrightarrow> stats_row_ok (synced_row p now r)"
  by (simp add: synced_row_def derive_row_ok)

lemma assess_review_ok:
  assumes "review_ok r"
  shows "review_ok (assessed_row today now r)"
  using assms
  by (auto simp: review_ok_def assessed_row_def assess_human_activity_def Let_def
      saturating_add_i32_def saturating_sub_i32_def i32_min_def i32_max_def)

lemma assessed_row_ok: "stats_row_ok r \<Longrightarrow> stats_row_ok (assessed_row today now r)"
  using assess_review_ok [of r today now]
  by (simp add: stats_row_ok_def assessed_row_def Let_def)

lemma advanced_row_ok:
  assumes "stats_row_ok r" "wf_policy p" "0 \<le> wrap_i32 (gs_active_days r + 1)"
  shows "stats_row_ok (advanced_row p today now r)"
  unfolding advanced_row_def using assms in_i32_wrap [of "gs_active_days r + 1"]
  by (intro derive_row_ok) (auto simp: stats_row_ok_def review_ok_def in_i32_def)

lemma base_row_ok:
  assumes "guild_inv db" "wf_policy p"
  shows "stats_row_ok (base_row p uid now db)"
proof (cases "find_row gs_user_id (guild_stats db) uid")
  case None
  then show ?thesis
    using level_policy_ok [OF assms(2), of 0] rank_policy_ok [OF assms(2), of 0]
    by (simp add: base_row_def stats_row_ok_def review_ok_def level_entry_ok_def
        rank_entry_ok_def i32_max_def)
next
  case (Some r)
  with assms(1) show ?thesis by (auto simp: base_row_def guild_inv_def)
qed

lemma guild_inv_written:
  "guild_inv db \<Longrightarrow> stats_written uid r db db' \<Longrightarrow> stats_row_ok r \<Longrightarrow> guild_inv db'"
  unfolding guild_inv_def stats_written_def by (metis option.inject)

lemma guild_inv_cong: "guild_stats db' = guild_stats db \<Longrightarrow> guild_inv db' = guild_inv db"
  by (simp add: guild_inv_def)

lemma guild_inv_update:
  assumes "guild_inv db" "\<And>r. gs_user_id (f r) = gs_user_id r" "\<And>r. stats_row_ok r \<Longrightarrow> stats_row_ok (f r)"
  shows "guild_inv (db\<lparr>guild_stats := update_row gs_user_id k f (guild_stats db)\<rparr>)"
  using assms unfolding guild_inv_def
  by (auto simp: stats_table.lookup_modify stats_table.valid_modify split: if_splits)

lemma ensure_keeps_inv:
  "ensure_user_guild_stats p uid now db = Inr (row, db') \<Longrightarrow> wf_policy p \<Longrightarrow> guild_inv db \<Longrightarrow>
     guild_inv db' \<and> stats_row_ok row"
  using ensure_user_guild_stats_spec [of p uid now db row db'] base_row_ok [of db p uid now]
  by (auto intro: guild_inv_written)

lemma ensure_sync_spec:
  assumes "ensure_user_guild_stats p uid now db = Inr (r0, db0)"
    and "sync_derived_state p r0 now db0 = Inr (r1, db1)"
  shows "r0 = base_row p uid now db" "r1 = synced_row p now (base_row p uid now db)"
    "stats_written uid r1 db db1" "gs_user_id r1 = uid"
proof -
  note e = ensure_user_guild_stats_spec [OF assms(1)]
  note s = sync_derived_state_spec [OF assms(2) e(2) stats_written_find [OF e(3)]]
  show "r0 = base_row p uid now db" by (fact e(1))
  show "r1 = synced_row p now (base_row p uid now db)" using e(1) s(1) by simp
  show "stats_written uid r1 db db1" by (rule stats_written_trans [OF e(3) s(2)])
  show "gs_user_id r1 = uid" using s(1) e(2) by simp
qed

lemma ensure_sync_keeps_inv:
  assumes "ensure_user_guild_stats p uid now db = Inr (r0, db0)"
    and "sync_derived_state p r0 now db0 = Inr (r1, db1)"
    and "guild_inv db" "wf_policy p"
  shows "guild_inv db1" "stats_row_ok r1"
proof -
  note s = ensure_sync_spec [OF assms(1,2)]
  show "stats_row_ok r1" using s(2) assms(3,4) by (simp add: synced_row_ok base_row_ok)
  then show "guild_inv db1" by (rule guild_inv_written [OF assms(3) s(3)])
qed

lemma synced_row_active_days [simp]: "gs_active_days (synced_row p now r) = gs_active_days r"
  and assessed_row_active_days [simp]: "gs_active_days (assessed_row t now r) = gs_active_days r"
  by (simp_all add: synced_row_def derive_row_def assessed_row_def Let_def)

lemma guild_activity_guard:
  assumes "guild_activity dec sh uid today now db = Inr ((p, stats), db')"
    and "ha_should_advance_active_day
           (assess_human_activity (synced_row p now (base_row p uid now db)) today now)"
  shows "0 \<le> wrap_i32 (gs_active_days (base_row p uid now db) + 1)"
proof -
  let ?p = "load_guild_policy_conn dec db"
  from assms obtain r0 db0 r1 db1 r2 a db2 where
    e: "ensure_user_guild_stats ?p uid now db = Inr (r0, db0)" and
    s: "sync_derived_state ?p r0 now db0 = Inr (r1, db1)" and
    u: "update_human_activity_state sh r1 today now db1 = Inr ((r2, a), db2)" and
    p: "p = ?p" and
    f: "ha_should_advance_active_day a \<longrightarrow>
        (\<exists>st d. advance_active_day_if_needed ?p r2 today now db2 = Inr (st, d))"
    unfolding guild_activity_def Let_def
    by (auto simp: result_simps split: prod.splits if_splits)
  note es = ensure_sync_spec [OF e s]
  note u' = update_human_activity_state_spec [OF u es(4) stats_written_find [OF es(3)]]
  have id2: "gs_user_id r2 = uid" using u'(1) es(4) by simp
  from f u'(2) es(2) p assms(2) obtain st d where
    adv: "advance_active_day_if_needed ?p r2 today now db2 = Inr (st, d)" by auto
  have nd: "gs_last_active_day r2 \<noteq> Some today"
    using assms(2) assess_advance_new_day [of r1 today now] u'(1) es(2) p
    by (simp add: assessed_row_def Let_def)
  have "gs_active_days r2 = gs_active_days (base_row ?p uid now db)"
    using u'(1) es(2) by simp
  then show ?thesis
    using advance_active_day_if_needed_spec(3) [OF adv id2 stats_written_find [OF u'(3)] nd] p
    by simp
qed

lemma guild_activity_keeps_inv:
  assumes "guild_activity dec sh uid today now db = Inr ((p, stats), db')" "guild_inv db"
  shows "guild_inv db'" "stats_row_ok stats"
proof -
  note g = guild_activity_spec [OF assms(1)]
  have wf: "wf_policy p" using g(1) by simp
  show "stats_row_ok stats"
    unfolding g(2) activity_row_def Let_def
    using base_row_ok [OF assms(2) wf] wf guild_activity_guard [OF assms(1)]
    by (auto intro!: advanced_row_ok assessed_row_ok synced_row_ok)
  then show "guild_inv db'" by (rule guild_inv_written [OF assms(2) g(3)])
qed


section \<open>Contributions\<close>

text \<open>
  What the eligibility check of a granter may change: the granter's own statistics row.
\<close>

definition only_stats_of :: "uuid option \<Rightarrow> db \<Rightarrow> db \<Rightarrow> bool" where
  "only_stats_of g db db' \<longleftrightarrow> core db' = core db \<and> (guild_inv db \<longrightarrow> guild_inv db') \<and>
     (\<forall>k. g \<noteq> Some k \<longrightarrow>
        find_row gs_user_id (guild_stats db') k = find_row gs_user_id (guild_stats db) k)"

lemma only_stats_of_refl [simp]: "only_stats_of g db db"
  by (simp add: only_stats_of_def)

lemma granter_is_meaningful_spec:
  assumes "granter_is_meaningful p g now db = Inr (b, db')" "wf_policy p"
  shows "only_stats_of g db db'"
  using assms
  by (auto simp: granter_is_meaningful_def result_simps only_stats_of_def
      split: option.splits if_splits
      dest: ensure_sync_keeps_inv(1) ensure_sync_spec(3) simp: stats_written_def)

lemma granter_checks_spec:
  assumes "granter_checks p uid g ty d opts now db = Inr ((a, reason), db')" "wf_policy p"
  shows "only_stats_of g db db'" "find_row gs_user_id (guild_stats db') uid = find_row gs_user_id (guild_stats db) uid"
    "a = d \<and> reason = None \<or> a = 0 \<and> d > 0 \<and> reason \<noteq> None"
proof -
  have *: "only_stats_of g db db' \<and> (a = d \<and> reason = None \<or> a = 0 \<and> d > 0 \<and> reason \<noteq> None) \<and>
      (g \<noteq> Some uid \<or> db' = db)"
    using assms
    by (auto simp: granter_checks_def result_simps intro: granter_is_meaningful_spec
        split: if_splits)
  then show "only_stats_of g db db'"
    and "a = d \<and> reason = None \<or> a = 0 \<and> d > 0 \<and> reason \<noteq> None" by auto
  show "find_row gs_user_id (guild_stats db') uid = find_row gs_user_id (guild_stats db) uid"
    using * by (auto simp: only_stats_of_def)
qed

lemma insert_score_event_eq [result_simps]:
  "insert_score_event e db = Inr (e', db') \<longleftrightarrow> e' = e \<and>
     find_row gse_id (guild_score_events db) (gse_id e) = None \<and> user_exists db (gse_user_id e) \<and>
     (case gse_granter_user_id e of None \<Rightarrow> True | Some g \<Rightarrow> user_exists db g) \<and>
     db' = db\<lparr>guild_score_events := insert_row e (guild_score_events db)\<rparr>"
  by (auto simp: insert_score_event_def split: option.splits)

text \<open>
  The two ways a contribution can succeed, over the row \<open>r\<close> it starts from: a replayed
  reference leaves the ledger and the score alone; otherwise one event is appended and the
  score and the rank of the row follow it.
\<close>

definition contribution_recorded ::
  "guild_policy_config \<Rightarrow> uuid \<Rightarrow> string \<Rightarrow> instant \<Rightarrow> user_guild_stats \<Rightarrow>
     contribution_event_outcome \<Rightarrow> db \<Rightarrow> db \<Rightarrow> bool" where
  "contribution_recorded p uid ty now r oc db db' \<longleftrightarrow>
     (\<exists>e. oc_event oc = Some e \<and> gse_user_id e = uid \<and> gse_event_type e = ty \<and>
        gse_delta e = oc_applied_delta oc \<and> gse_created_at e = now \<and>
        guild_score_events db' = insert_row e (guild_score_events db)) \<and>
     \<not> oc_duplicate oc \<and>
     oc_contribution_score oc = max (wrap_i32 (gs_contribution_score r + oc_applied_delta oc)) 0 \<and>
     oc_derived_rank oc = rp_rank (rank_policy_for_score p (oc_contribution_score oc)) \<and>
     find_row gs_user_id (guild_stats db') uid =
       Some (r\<lparr>gs_contribution_score := oc_contribution_score oc,
               gs_derived_rank := oc_derived_rank oc, gs_updated_at := now\<rparr>)"

definition contribution_replayed ::
  "uuid \<Rightarrow> user_guild_stats \<Rightarrow> contribution_event_outcome \<Rightarrow> db \<Rightarrow> db \<Rightarrow> bool" where
  "contribution_replayed uid r oc db db' \<longleftrightarrow>
     oc_event oc = None \<and> oc_duplicate oc \<and> oc_applied_delta oc = 0 \<and>
     oc_contribution_score oc = gs_contribution_score r \<and> oc_derived_rank oc = gs_derived_rank r \<and>
     stats_written uid r db db'"

lemma record_contribution_event_cases:
  assumes "record_contribution_event dec eid uid g ty d ref meta opts now db = Inr (oc, db')"
  obtains r0 db0 r1 db1 where "trim ty \<noteq> []"
    "ensure_user_guild_stats (load_guild_policy_conn dec db) uid now db = Inr (r0, db0)"
    "sync_derived_state (load_guild_policy_conn dec db) r0 now db0 = Inr (r1, db1)"
    "apply_contribution_event (load_guild_policy_conn dec db) r1 eid uid g (trim ty) d
       (normalize_reference_id ref) meta opts now db1 = Inr (oc, db')"
  using assms unfolding record_contribution_event_def Let_def
  by (auto simp: result_simps split: if_splits)

lemma apply_contribution_event_cases:
  assumes "apply_contribution_event p r eid uid g ty d ref meta opts now db = Inr (oc, db')"
  obtains
    (replay) "already_recorded db uid ty ref" "db' = db"
      "oc = \<lparr>oc_event = None, oc_contribution_score = gs_contribution_score r,
         oc_derived_rank = gs_derived_rank r, oc_applied_delta = 0,
         oc_duplicate = True, oc_suppressed_reason = Some ''duplicate_reference''\<rparr>"
  | (fresh) checked db2 reason e where "\<not> already_recorded db uid ty ref"
      "granter_checks p uid g ty d opts now db = Inr (checked, db2)"
      "daily_cap_check uid ty d opts now db2 checked = (oc_applied_delta oc, reason)"
      "e = \<lparr>gse_id = eid, gse_user_id = uid, gse_granter_user_id = g,
         gse_event_type = ty, gse_delta = oc_applied_delta oc, gse_reference_id = ref,
         gse_metadata = enrich_contribution_event_metadata meta d (oc_applied_delta oc) reason,
         gse_created_at = now\<rparr>"
      "oc_event oc = Some e" "\<not> oc_duplicate oc" "oc_suppressed_reason oc = reason"
      "oc_contribution_score oc = max (wrap_i32 (gs_contribution_score r + oc_applied_delta oc)) 0"
      "oc_derived_rank oc = rp_rank (rank_policy_for_score p (oc_contribution_score oc))"
      "db' = db2\<lparr>guild_score_events := insert_row e (guild_score_events db2),
         guild_stats := update_row gs_user_id uid
           (\<lambda>s. s\<lparr>gs_contribution_score := oc_contribution_score oc,
                  gs_derived_rank := oc_derived_rank oc, gs_updated_at := now\<rparr>)
           (guild_stats db2)\<rparr>"
proof (cases "already_recorded db uid ty ref")
  case True
  then show thesis using assms by (intro replay) (auto simp: apply_contribution_event_def)
next
  case False
  with assms obtain checked db2 where
    c: "granter_checks p uid g ty d opts now db = Inr (checked, db2)"
    by (auto simp: apply_contribution_event_def result_simps)
  obtain a reason where k: "daily_cap_check uid ty d opts now db2 checked = (a, reason)"
    by fastforce
  show thesis
    using assms False c k
    by (intro fresh [of checked db2 reason])
      (auto simp: apply_contribution_event_def result_simps Let_def)
qed

lemma record_contribution_event_spec:
  assumes "record_contribution_event dec eid uid g ty d ref meta opts now db = Inr (oc, db')"
    and "p = load_guild_policy_conn dec db" and "r = synced_row p now (base_row p uid now db)"
  shows "contribution_recorded p uid (trim ty) now r oc db db' \<or> contribution_replayed uid r oc db db'"
    and "guild_inv db \<Longrightarrow> guild_inv db'"
proof -
  obtain r0 db0 r1 db1 where
    e: "ensure_user_guild_stats p uid now db = Inr (r0, db0)" and
    s: "sync_derived_state p r0 now db0 = Inr (r1, db1)" and
    b: "apply_contribution_event p r1 eid uid g (trim ty) d
       (normalize_reference_id ref) meta opts now db1 = Inr (oc, db')"
    using assms(1,2) by (auto elim: record_contribution_event_cases)
  note es = ensure_sync_spec [OF e s]
  have r1: "r1 = r" using es(2) assms(3) by simp
  have wf: "wf_policy p" using assms(2) by simp
  have "(contribution_recorded p uid (trim ty) now r oc db db' \<or> contribution_replayed uid r oc db db') \<and>
      (guild_inv db \<longrightarrow> guild_inv db')"
    using b
  proof (cases rule: apply_contribution_event_cases)
    case replay
    then show ?thesis
      using es(3) r1 ensure_sync_keeps_inv(1) [OF e s _ wf]
      by (auto simp: contribution_replayed_def)
  next
    case (fresh checked db2 reason e)
    obtain a rs where c: "checked = (a, rs)" by fastforce
    note gc = granter_checks_spec [OF fresh(2) [unfolded c] wf]
    have "core db2 = core db"
      using gc(1) stats_written_core [OF es(3)] by (simp add: only_stats_of_def)
    then have ev: "guild_score_events db2 = guild_score_events db" by (rule core_eqD)
    have row: "find_row gs_user_id (guild_stats db2) uid = Some r"
      using gc(2) stats_written_find [OF es(3)] r1 by simp
    have inv: "guild_inv db \<Longrightarrow> guild_inv db2"
      using gc(1) ensure_sync_keeps_inv(1) [OF e s _ wf] by (simp add: only_stats_of_def)
    have rec: "contribution_recorded p uid (trim ty) now r oc db db'"
      using fresh ev row r1 by (simp add: contribution_recorded_def row_simps)
    have sc: "0 \<le> oc_contribution_score oc" "oc_contribution_score oc \<le> i32_max"
      unfolding fresh(8) using in_i32_wrap [of "gs_contribution_score r1 + oc_applied_delta oc"]
      by (simp_all add: in_i32_def i32_max_def)
    have rk: "oc_derived_rank oc \<in> set RANKS"
      unfolding fresh(9) using rank_policy_ok [OF wf] by (simp add: rank_entry_ok_def)
    have ok: "stats_row_ok (x\<lparr>gs_contribution_score := oc_contribution_score oc,
        gs_derived_rank := oc_derived_rank oc, gs_updated_at := now\<rparr>)" if "stats_row_ok x" for x
      using that sc rk by (simp add: stats_row_ok_def review_ok_def)
    have "guild_inv db'" if "guild_inv db"
      using guild_inv_update [OF inv [OF that], of "\<lambda>s. s\<lparr>gs_contribution_score := oc_contribution_score oc,
        gs_derived_rank := oc_derived_rank oc, gs_updated_at := now\<rparr>" uid] ok fresh(10)
      by (simp add: guild_inv_def)
    with rec show ?thesis by simp
  qed
  then show "contribution_recorded p uid (trim ty) now r oc db db' \<or> contribution_replayed uid r oc db db'"
    and "guild_inv db \<Longrightarrow> guild_inv db'" by auto
qed

end
