(* ===== verification/Guild_Properties.thy ===== *)
theory Guild_Properties
  imports Guild_Invariants
begin

text \<open>
  The properties of guild progression: the reachable states of the statistics table, the
  refinement of an activity by a function of the row, the review state machine, the daily
  quotas, the contribution rules, the stored policy and the pruning of old rows.
\<close>

section \<open>Reachable states\<close>

text \<open>
  One step is one successful call of an operation of the service, by any user at any time.
  The operation that \<open>run_attachment_action_with_guild\<close> runs is one that leaves the
  statistics table alone.
\<close>

inductive guild_step ::
  "(string \<Rightarrow> guild_policy_config option) \<Rightarrow> (uuid \<Rightarrow> string) \<Rightarrow> db \<Rightarrow> db \<Rightarrow> bool" for dec sh where
  activity: "record_human_activity dec sh uid today now db = Inr db' \<Longrightarrow> guild_step dec sh db db'"
| snapshot: "get_guild_snapshot dec uid today now db = Inr (sn, db') \<Longrightarrow> guild_step dec sh db db'"
| send: "send_message_with_guild dec sh mid s r c now db = Inr (res, db') \<Longrightarrow> guild_step dec sh db db'"
| attach: "run_attachment_action_with_guild dec sh uid mime oper now db = Inr (res, db') \<Longrightarrow>
    (\<And>d x d'. oper d = Inr (x :: nat, d') \<Longrightarrow> guild_stats d' = guild_stats d) \<Longrightarrow> guild_step dec sh db db'"
| contact: "resolve_contact_with_guild dec sh uid now db = Inr (cres, db') \<Longrightarrow> guild_step dec sh db db'"
| contribution: "record_contribution_event dec eid uid g ty d ref meta opts now db = Inr (oc, db') \<Longrightarrow>
    guild_step dec sh db db'"
| freeze: "snd (freeze_guild_progression sh adm target reason now db) = db' \<Longrightarrow> guild_step dec sh db db'"
| unfreeze: "snd (unfreeze_guild_progression sh admin target reason now db) = db' \<Longrightarrow>
    guild_step dec sh db db'"
| save_policy: "save_guild_policy enc pol now db = Inr (q, db') \<Longrightarrow> guild_step dec sh db db'"
| prune: "snd (prune_guild_history dec now db) = db' \<Longrightarrow> guild_step dec sh db db'"

inductive_cases guild_stepE: "guild_step dec sh db db'"

lemma increment_daily_counter_stats:
  "increment_daily_counter uid a t now db = Inr db' \<Longrightarrow> guild_stats db' = guild_stats db"
  by (auto simp: increment_daily_counter_def split: if_splits)

lemma insert_message_conn_stats:
  "insert_message_conn mid s r c now db = Inr (m, db') \<Longrightarrow> guild_stats db' = guild_stats db"
  by (auto simp: insert_message_conn_def Let_def split: if_splits)

lemma append_audit_log_stats:
  "append_audit_log a act t d now db = Inr db' \<Longrightarrow> guild_stats db' = guild_stats db"
  by (auto simp: append_audit_log_def split: if_splits)

lemma activity_then_inv:
  assumes "and_then (guild_activity dec sh uid today now db) f = Inr (x, db')" "guild_inv db"
    and "\<And>p st d x d'. f ((p, st), d) = Inr (x, d') \<Longrightarrow> guild_stats d' = guild_stats d"
  shows "guild_inv db'"
proof -
  from assms(1) obtain p st d where g: "guild_activity dec sh uid today now db = Inr ((p, st), d)"
    and f: "f ((p, st), d) = Inr (x, db')"
    by (auto simp: result_simps)
  show ?thesis
    using guild_activity_keeps_inv(1) [OF g assms(2)] guild_inv_cong [OF assms(3) [OF f]] by simp
qed

lemma review_update_ok:
  "stats_row_ok r \<Longrightarrow> stats_row_ok (r\<lparr>gs_automation_review_state := FROZEN, gs_updated_at := now\<rparr>)"
  "stats_row_ok r \<Longrightarrow> stats_row_ok (r\<lparr>gs_automation_review_state := CLEAR,
     gs_suspicious_activity_streak := 0, gs_updated_at := now\<rparr>)"
  by (auto simp: stats_row_ok_def review_ok_def)

lemma freeze_stats:
  "guild_stats (snd (freeze_guild_progression sh adm t reason now db)) =
     update_row gs_user_id t (\<lambda>s. s\<lparr>gs_automation_review_state := FROZEN, gs_updated_at := now\<rparr>)
       (guild_stats db)"
  "guild_stats (snd (unfreeze_guild_progression sh a t reason now db)) =
     update_row gs_user_id t (\<lambda>s. s\<lparr>gs_automation_review_state := CLEAR,
       gs_suspicious_activity_streak := 0, gs_updated_at := now\<rparr>) (guild_stats db)"
  by (auto simp: freeze_guild_progression_def unfreeze_guild_progression_def Let_def
      set_review_state_def insert_system_audit_log_def dest!: append_audit_log_stats
      split: option.splits sum.splits)

lemma guild_step_inv:
  assumes "guild_inv db" "guild_step dec sh db db'"
  shows "guild_inv db'"
  using assms(2)
proof cases
  case (activity uid today now)
  then show ?thesis
    using assms(1) guild_activity_keeps_inv(1) [of dec sh uid today now db]
    by (auto simp: record_human_activity_def result_simps)
next
  case (snapshot uid today now sn)
  then show ?thesis
    using assms(1) ensure_sync_keeps_inv(1) [of "load_guild_policy_conn dec db"]
    by (auto simp: get_guild_snapshot_def result_simps Let_def)
next
  case (send mid s r c now res)
  show ?thesis
    using send [unfolded send_message_with_guild_def Let_def] assms(1)
    by (rule activity_then_inv)
      (auto simp: Let_def result_simps dest!: insert_message_conn_stats increment_daily_counter_stats
        split: if_splits)
next
  case (attach uid mime oper now res)
  show ?thesis
    using attach(1) [unfolded run_attachment_action_with_guild_def Let_def] assms(1)
    by (rule activity_then_inv)
      (auto simp: Let_def result_simps dest!: attach(2) increment_daily_counter_stats
        split: if_splits)
next
  case (contact uid now cres)
  show ?thesis
    using contact [unfolded resolve_contact_with_guild_def Let_def] assms(1)
    by (rule activity_then_inv)
      (auto simp: Let_def result_simps dest!: increment_daily_counter_stats split: if_splits)
next
  case contribution
  then show ?thesis using assms(1) record_contribution_event_spec(2) [OF _ refl refl] by blast
next
  case (freeze adm target reason now)
  then show ?thesis
    using guild_inv_update [OF assms(1) _ review_update_ok(1)] freeze_stats(1)
    by (auto simp: guild_inv_def)
next
  case (unfreeze admin target reason now)
  then show ?thesis
    using guild_inv_update [OF assms(1) _ review_update_ok(2)] freeze_stats(2)
    by (auto simp: guild_inv_def)
next
  case (save_policy enc pol now q)
  then show ?thesis
    using assms(1) by (auto simp: save_guild_policy_def result_simps set_setting_def guild_inv_def)
next
  case (prune now)
  then show ?thesis using assms(1) by (auto simp: prune_guild_history_def Let_def guild_inv_def)
qed

interpretation guild: machine "\<lambda>db. guild_stats db = []" "guild_step dec sh" guild_inv
  for dec sh
proof unfold_locales
  show "guild_stats s = [] \<Longrightarrow> guild_inv s" for s
    by (simp add: guild_inv_def find_row_def distinct_key_def)
qed (rule guild_step_inv)

text \<open>
  [C1] Whatever requests arrive in whatever order, every statistics row the server can reach
  is well-formed: one row per user; an account that is not frozen has fewer than three
  suspicious attempts and is challenged exactly when it has one; active days and
  contribution score stay within the non-negative 32-bit range; the stored level is
  between 1 and 10 and the stored rank is one of the seven ranks.
\<close>

theorem guild_states_well_formed:
  assumes "guild_stats db = []" "(guild_step dec sh)\<^sup>*\<^sup>* db db'"
  shows "distinct (map gs_user_id (guild_stats db')) \<and>
    (\<forall>r \<in> set (guild_stats db').
       (gs_automation_review_state r \<noteq> FROZEN \<longrightarrow>
          gs_suspicious_activity_streak r < 3 \<and>
          gs_automation_review_state r =
            (if gs_suspicious_activity_streak r > 0 then CHALLENGED else CLEAR)) \<and>
       0 \<le> gs_active_days r \<and> gs_active_days r \<le> i32_max \<and>
       0 \<le> gs_contribution_score r \<and> gs_contribution_score r \<le> i32_max \<and>
       1 \<le> gs_derived_level r \<and> gs_derived_level r \<le> 10 \<and> gs_derived_rank r \<in> set RANKS)"
proof -
  have inv: "guild_inv db'" by (rule guild.inv_reachable [OF assms])
  have ok: "stats_row_ok r" if "r \<in> set (guild_stats db')" for r
    using inv that find_row_distinct [of gs_user_id "guild_stats db'" r] by (auto simp: guild_inv_def)
  have "distinct (map gs_user_id (guild_stats db'))"
    using inv by (simp add: guild_inv_def distinct_key_def)
  then show ?thesis
    using ok unfolding stats_row_ok_def review_ok_def by blast
qed

theorem guild_states_well_formed_witness:
  "\<exists>db'. (guild_step (\<lambda>_. None) (\<lambda>_. ''u''))\<^sup>*\<^sup>* sample_db db' \<and> length (guild_stats db') = 1 \<and>
     (\<forall>r \<in> set (guild_stats db'). gs_derived_rank r \<in> set RANKS)"
proof -
  let ?d = "(\<lambda>_. None) :: string \<Rightarrow> guild_policy_config option"
  obtain db' where r: "record_human_activity ?d (\<lambda>_. ''u'') 1 0 0 sample_db = Inr db'"
    and l: "length (guild_stats db') = 1"
  proof -
    have "case record_human_activity ?d (\<lambda>_. ''u'') 1 0 0 sample_db of
        Inl _ \<Rightarrow> False | Inr db' \<Rightarrow> length (guild_stats db') = 1" by code_simp
    then show thesis by (auto split: sum.splits intro: that)
  qed
  have s: "(guild_step ?d (\<lambda>_. ''u''))\<^sup>*\<^sup>* sample_db db'"
    using guild_step.activity [OF r] by blast
  show ?thesis
    using guild_states_well_formed [OF _ s] s l by (auto simp: sample_db_def empty_db_def)
qed

section \<open>What an activity does\<close>

lemma ensure_user_guild_stats_total:
  "user_exists db uid \<Longrightarrow> \<exists>db0. ensure_user_guild_stats p uid now db = Inr (base_row p uid now db, db0)"
  by (auto simp: ensure_user_guild_stats_def base_row_def Let_def split: option.splits)

lemma sync_derived_state_total:
  assumes "find_row gs_user_id (guild_stats db) (gs_user_id r) = Some r"
  shows "\<exists>r' db'. sync_derived_state p r now db = Inr (r', db')"
  using assms by (auto simp: sync_derived_state_def Let_def update_stats_def)

lemma ensure_sync_total:
  assumes "user_exists db uid"
  obtains r0 db0 r1 db1 where "ensure_user_guild_stats p uid now db = Inr (r0, db0)"
    "sync_derived_state p r0 now db0 = Inr (r1, db1)"
proof -
  obtain r0 db0 where e: "ensure_user_guild_stats p uid now db = Inr (r0, db0)"
    using ensure_user_guild_stats_total [OF assms] by blast
  note sp = ensure_user_guild_stats_spec [OF e]
  show thesis
    using sync_derived_state_total [of db0 r0 p now] sp(2) stats_written_find [OF sp(3)] that [OF e]
    by auto
qed

lemma update_human_activity_state_total:
  assumes "find_row gs_user_id (guild_stats db) (gs_user_id r) = Some r"
  shows "\<exists>r' a db'. update_human_activity_state sh r today now db = Inr ((r', a), db')"
  using assms
  by (auto simp: update_human_activity_state_def Let_def result_simps update_stats_def)

lemma advance_active_day_total:
  assumes "find_row gs_user_id (guild_stats db) (gs_user_id r) = Some r"
    and "0 \<le> gs_active_days r" "gs_active_days r < i32_max"
  shows "\<exists>r' db'. advance_active_day_if_needed p r today now db = Inr (r', db')"
proof -
  have "wrap_i32 (gs_active_days r + 1) = gs_active_days r + 1"
    using assms(2,3) by (intro wrap_i32_id) (simp add: in_i32_def i32_min_def i32_max_def)
  then show ?thesis
    using assms by (auto simp: advance_active_day_if_needed_def Let_def update_stats_def)
qed

lemma guild_activity_total:
  assumes "user_exists db uid" "0 \<le> gs_active_days (base_row (load_guild_policy_conn dec db) uid now db)"
    and "gs_active_days (base_row (load_guild_policy_conn dec db) uid now db) < i32_max"
  shows "\<exists>p st db'. guild_activity dec sh uid today now db = Inr ((p, st), db')"
proof -
  let ?p = "load_guild_policy_conn dec db"
  obtain r0 db0 r1 db1 where e: "ensure_user_guild_stats ?p uid now db = Inr (r0, db0)"
    and s: "sync_derived_state ?p r0 now db0 = Inr (r1, db1)"
    by (rule ensure_sync_total [OF assms(1)])
  note es = ensure_sync_spec [OF e s]
  have f1: "find_row gs_user_id (guild_stats db1) (gs_user_id r1) = Some r1"
    using stats_written_find [OF es(3)] es(4) by simp
  then obtain r2 a db2 where u: "update_human_activity_state sh r1 today now db1 = Inr ((r2, a), db2)"
    using update_human_activity_state_total by blast
  note us = update_human_activity_state_spec [OF u es(4) stats_written_find [OF es(3)]]
  have "find_row gs_user_id (guild_stats db2) (gs_user_id r2) = Some r2"
    using stats_written_find [OF us(3)] us(1) es(4) by simp
  moreover have "gs_active_days r2 = gs_active_days (base_row ?p uid now db)"
    using us(1) es(2) by simp
  ultimately obtain r3 db3 where "advance_active_day_if_needed ?p r2 today now db2 = Inr (r3, db3)"
    using advance_active_day_total assms(2,3) by metis
  with e s u show ?thesis by (simp add: guild_activity_def Let_def)
qed

text \<open>
  [C5] Recording an activity of a registered user succeeds, and its effect on the database is
  exactly the function \<open>activity_row\<close> on the user's statistics row: the derived columns are
  recomputed from the policy, the assessment is stored and the day is counted when the
  assessment allows it. Other users' rows and every other table but the audit log are
  untouched.
\<close>

theorem record_human_activity_refines:
  assumes "guild_inv db" "user_exists db uid" "p = load_guild_policy_conn dec db"
    and "gs_active_days (base_row p uid now db) < i32_max"
  shows "\<exists>db'. record_human_activity dec sh uid today now db = Inr db' \<and>
     find_row gs_user_id (guild_stats db') uid = Some (activity_row p today now (base_row p uid now db)) \<and>
     (\<forall>k. k \<noteq> uid \<longrightarrow>
        find_row gs_user_id (guild_stats db') k = find_row gs_user_id (guild_stats db) k) \<and>
     core db' = core db"
proof -
  have "0 \<le> gs_active_days (base_row p uid now db)"
    using base_row_ok [OF assms(1), of p uid now] assms(3) by (simp add: stats_row_ok_def)
  then obtain p' st db' where g: "guild_activity dec sh uid today now db = Inr ((p', st), db')"
    using guild_activity_total [OF assms(2)] assms(3,4) by blast
  show ?thesis
    using guild_activity_spec [OF g] g assms(3)
    by (auto simp: record_human_activity_def stats_written_def)
qed

lemma guild_inv_sample_db: "guild_inv sample_db"
  by (simp add: guild_inv_def sample_db_def empty_db_def find_row_def distinct_key_def)

theorem record_human_activity_refines_witness:
  "\<exists>db'. record_human_activity (\<lambda>_. None) (\<lambda>_. ''u'') 2 0 5 sample_db = Inr db' \<and>
     map_option gs_active_days (find_row gs_user_id (guild_stats db') 2) = Some 1"
proof -
  let ?r = "base_row default_guild_policy 2 5 sample_db"
  have u: "user_exists sample_db 2" by code_simp
  have p: "default_guild_policy = load_guild_policy_conn (\<lambda>_. None) sample_db"
    by (simp add: load_guild_policy_conn_def sample_db_def empty_db_def find_row_def)
  have "gs_active_days ?r < i32_max" "gs_active_days (activity_row default_guild_policy 0 5 ?r) = 1"
    by code_simp+
  then show ?thesis
    using record_human_activity_refines [OF guild_inv_sample_db u p, of 5 "\<lambda>_. ''u''" 0] by auto
qed

text \<open>
  A frozen account recovers exactly by pausing: the first activity of a new day at least
  24 hours after the last recorded one clears the state, resets the streak and counts the
  day; any other activity leaves it frozen and counts nothing.
\<close>

theorem frozen_recovery_exact:
  assumes "gs_automation_review_state r = FROZEN" "r' = activity_row p today now r"
  shows "if gs_last_active_day r \<noteq> Some today \<and>
            (case gs_last_human_activity_at r of None \<Rightarrow> True | Some t \<Rightarrow> now - t \<ge> hours 24)
         then gs_automation_review_state r' = CLEAR \<and> gs_suspicious_activity_streak r' = 0 \<and>
              gs_active_days r' = wrap_i32 (gs_active_days r + 1) \<and> gs_last_active_day r' = Some today
         else gs_automation_review_state r' = FROZEN \<and>
              gs_suspicious_activity_streak r' = gs_suspicious_activity_streak r \<and>
              gs_active_days r' = gs_active_days r \<and> gs_last_active_day r' = gs_last_active_day r"
  using assms
  by (auto simp: activity_row_def Let_def synced_row_def derive_row_def assessed_row_def
      advanced_row_def assess_human_activity_def split: option.splits)

definition frozen_row :: user_guild_stats where
  "frozen_row = \<lparr>gs_user_id = 1, gs_active_days = 4, gs_contribution_score = 0, gs_derived_level = 1,
     gs_derived_rank = ''F'', gs_last_active_day = Some 3, gs_last_human_activity_at = Some (days 3),
     gs_suspicious_activity_streak = 3, gs_automation_review_state = FROZEN,
     gs_created_at = 0, gs_updated_at = 0\<rparr>"

theorem frozen_recovery_exact_witness:
  "gs_active_days (activity_row default_guild_policy 4 (days 4) frozen_row) = 5"
  using frozen_recovery_exact [of frozen_row "activity_row default_guild_policy 4 (days 4) frozen_row"
      default_guild_policy 4 "days 4"]
  by (simp add: frozen_row_def wrap_i32_def days_def hours_def)

text \<open>Activities of one user on one UTC day, one after the other.\<close>

fun run_activities ::
  "(string \<Rightarrow> guild_policy_config option) \<Rightarrow> (uuid \<Rightarrow> string) \<Rightarrow> uuid \<Rightarrow> day \<Rightarrow> instant list \<Rightarrow>
     db \<Rightarrow> db result" where
  "run_activities dec sh uid today [] db = Inr db"
| "run_activities dec sh uid today (now # ns) db =
     and_then (record_human_activity dec sh uid today now db) (run_activities dec sh uid today ns)"

lemma activity_row_day:
  "let r' = activity_row p today now r in
     gs_active_days r' = gs_active_days r \<and> gs_last_active_day r' = gs_last_active_day r \<or>
     gs_last_active_day r \<noteq> Some today \<and> gs_last_active_day r' = Some today \<and>
     gs_active_days r' = wrap_i32 (gs_active_days r + 1)"
  by (auto simp: activity_row_def Let_def synced_row_def derive_row_def assessed_row_def
      advanced_row_def assess_human_activity_def)

lemma record_human_activity_day:
  assumes "record_human_activity dec sh uid today now db = Inr db'" "guild_inv db"
    and "find_row gs_user_id (guild_stats db) uid = Some r"
  shows "\<exists>r'. find_row gs_user_id (guild_stats db') uid = Some r' \<and> guild_inv db' \<and>
     (gs_active_days r' = gs_active_days r \<and> gs_last_active_day r' = gs_last_active_day r \<or>
      gs_last_active_day r \<noteq> Some today \<and> gs_last_active_day r' = Some today \<and>
      gs_active_days r' = gs_active_days r + 1)"
proof -
  from assms(1) obtain p st where g: "guild_activity dec sh uid today now db = Inr ((p, st), db')"
    by (auto simp: record_human_activity_def result_simps)
  note sp = guild_activity_spec [OF g]
  note inv = guild_activity_keeps_inv [OF g assms(2)]
  have b: "base_row p uid now db = r" using assms(3) by (simp add: base_row_def)
  have ok: "stats_row_ok r" using assms(2,3) by (auto simp: guild_inv_def)
  have "gs_active_days st = gs_active_days r + 1" if "gs_active_days st = wrap_i32 (gs_active_days r + 1)"
  proof (cases "gs_active_days r = i32_max")
    case True
    then show ?thesis
      using inv(2) that by (simp add: stats_row_ok_def wrap_i32_def i32_max_def)
  next
    case False
    then show ?thesis
      using ok that by (simp add: stats_row_ok_def in_i32_def i32_min_def i32_max_def)
  qed
  then show ?thesis
    using activity_row_day [of p today now r] sp(2) b inv(1) stats_written_find [OF sp(3)]
    by (auto simp: Let_def)
qed

text \<open>
  However many activities a user records on one day, the day is counted at most once, and
  not at all when it had already been counted.
\<close>

theorem active_day_counted_once:
  assumes "run_activities dec sh uid today ns db = Inr db'" "guild_inv db"
    and "find_row gs_user_id (guild_stats db) uid = Some r"
  shows "\<exists>r'. find_row gs_user_id (guild_stats db') uid = Some r' \<and>
     (gs_active_days r' = gs_active_days r \<or>
      gs_last_active_day r \<noteq> Some today \<and> gs_active_days r' = gs_active_days r + 1)"
  using assms
proof (induction ns arbitrary: db r)
  case Nil
  then show ?case by auto
next
  case (Cons now ns)
  from Cons.prems(1) obtain db1 where
    a: "record_human_activity dec sh uid today now db = Inr db1" and
    b: "run_activities dec sh uid today ns db1 = Inr db'"
    by (auto simp: result_simps)
  obtain r1 where r1: "find_row gs_user_id (guild_stats db1) uid = Some r1" "guild_inv db1"
    and d: "gs_active_days r1 = gs_active_days r \<and> gs_last_active_day r1 = gs_last_active_day r \<or>
      gs_last_active_day r \<noteq> Some today \<and> gs_last_active_day r1 = Some today \<and>
      gs_active_days r1 = gs_active_days r + 1"
    using record_human_activity_day [OF a Cons.prems(2,3)] by blast
  show ?case using Cons.IH [OF b r1(2,1)] d by auto
qed

theorem active_day_counted_once_witness:
  "\<exists>db'. run_activities (\<lambda>_. None) (\<lambda>_. ''u'') 1 4 [days 4, days 4 + hours 1]
       (sample_db\<lparr>guild_stats := [frozen_row]\<rparr>) = Inr db' \<and>
     map_option gs_active_days (find_row gs_user_id (guild_stats db') 1) \<in> {Some 4, Some 5}"
proof -
  let ?db = "sample_db\<lparr>guild_stats := [frozen_row]\<rparr>"
  have "is_ok (run_activities (\<lambda>_. None) (\<lambda>_. ''u'') 1 4 [days 4, days 4 + hours 1] ?db)" by code_simp
  then obtain db' where
    r: "run_activities (\<lambda>_. None) (\<lambda>_. ''u'') 1 4 [days 4, days 4 + hours 1] ?db = Inr db'"
    by (auto simp: is_ok_iff)
  have f: "find_row gs_user_id (guild_stats ?db) 1 = Some frozen_row"
    by (simp add: find_row_def frozen_row_def)
  have "stats_row_ok frozen_row" by code_simp
  then have i: "guild_inv ?db" by (auto simp: guild_inv_def find_row_def distinct_key_def)
  show ?thesis
    using active_day_counted_once [OF r i f] r by (auto simp: frozen_row_def)
qed

section \<open>Quotas\<close>

lemma increment_daily_counter_spec:
  assumes "increment_daily_counter uid a t now db = Inr db'"
  shows "daily_action_count db' k b u =
      (if (k, b, u) = (uid, a, t) then daily_action_count db uid a t + 1 else daily_action_count db k b u)"
    and "messages db' = messages db" "users db' = users db" "guild_stats db' = guild_stats db"
proof -
  let ?new = "\<lparr>dac_user_id = uid, dac_action_key = a, dac_day_bucket = t, dac_count = 1,
         dac_updated_at = now\<rparr>"
  from assms have db': "db' = db\<lparr>daily_action_counters := upsert_row counter_key ?new
        (\<lambda>c. c\<lparr>dac_count := dac_count c + 1, dac_updated_at := now\<rparr>) (daily_action_counters db)\<rparr>"
    by (auto simp: increment_daily_counter_def split: if_splits)
  have k: "counter_key ?new = (uid, a, t)" by (simp add: counter_key_def)
  have f: "counter_key (c\<lparr>dac_count := dac_count c + 1, dac_updated_at := now\<rparr>) = counter_key c" for c
    by (simp add: counter_key_def)
  have l: "find_row counter_key (daily_action_counters db') x = (if x = (uid, a, t)
      then Some (case find_row counter_key (daily_action_counters db) x of None \<Rightarrow> ?new
        | Some c \<Rightarrow> c\<lparr>dac_count := dac_count c + 1, dac_updated_at := now\<rparr>)
      else find_row counter_key (daily_action_counters db) x)" for x
    using counter_table.lookup_upsert [OF f, of ?new "daily_action_counters db" x] k db' by simp
  show "daily_action_count db' k b u =
      (if (k, b, u) = (uid, a, t) then daily_action_count db uid a t + 1 else daily_action_count db k b u)"
    using l by (cases "find_row counter_key (daily_action_counters db) (uid, a, t)")
      (auto simp: daily_action_count_def)
  show "messages db' = messages db" "users db' = users db" "guild_stats db' = guild_stats db"
    by (simp_all add: db')
qed

lemma daily_action_count_core: "core db' = core db \<Longrightarrow> daily_action_count db' = daily_action_count db"
  using core_eqD(2) [of db' db] by (simp add: daily_action_count_def fun_eq_iff)

text \<open>The daily limit of outbound messages that applies to a row.\<close>

definition outbound_limit :: "guild_policy_config \<Rightarrow> user_guild_stats \<Rightarrow> int option" where
  "outbound_limit p r = effective_daily_outbound_messages_limit
     (level_policy_for_active_days p (gs_active_days r))
     (rank_policy_for_limits p (gs_contribution_score r))"

text \<open>
  [C13] The outbound quota: a message is stored only while the sender's counter of the day is
  below the limit of the sender's level and rank (or the limit is not enforced), the counter
  then grows by exactly one and exactly that message is appended; at the limit nothing is
  stored, no counter moves and the client gets the delay until the next UTC day.
\<close>

theorem send_message_quota:
  assumes "send_message_with_guild dec sh mid s rcp body now db = Inr (res, db')"
    and "p = load_guild_policy_conn dec db" "today = date_naive now"
    and "row = activity_row p today now (base_row p s now db)"
    and "n = daily_action_count db s ACTION_OUTBOUND_MESSAGE today"
  shows "case res of
      Sent m \<Rightarrow> (outbound_message_limit_enforced p \<longrightarrow>
            (case outbound_limit p row of None \<Rightarrow> True | Some l \<Rightarrow> n < l)) \<and>
          m = new_message mid s rcp body now \<and> messages db' = insert_row m (messages db) \<and>
          daily_action_count db' s ACTION_OUTBOUND_MESSAGE today = n + 1 \<and>
          (\<forall>k a u. (k, a, u) \<noteq> (s, ACTION_OUTBOUND_MESSAGE, today) \<longrightarrow>
             daily_action_count db' k a u = daily_action_count db k a u)
    | SendLimited sn retry \<Rightarrow> outbound_message_limit_enforced p \<and>
          (\<exists>l. outbound_limit p row = Some l \<and> l \<le> n) \<and> retry = seconds_until_next_utc_day now \<and>
          sn_daily_outbound_messages_sent sn = n \<and>
          messages db' = messages db \<and> daily_action_counters db' = daily_action_counters db"
proof -
  from assms(1) obtain p' st d where
    g: "guild_activity dec sh s (date_naive now) now db = Inr ((p', st), d)"
    by (auto simp: send_message_with_guild_def Let_def result_simps)
  note sp = guild_activity_spec [OF g]
  have pp: "p' = p" and row: "st = row" using sp(1,2) assms(2-4) by auto
  note cr = stats_written_core [OF sp(3)]
  have n: "daily_action_count d = daily_action_count db" by (rule daily_action_count_core [OF cr])
  let ?limited = "outbound_message_limit_enforced p \<and> limit_reached (outbound_limit p row) n"
  show ?thesis
  proof (cases ?limited)
    case True
    then have "res = SendLimited (limited_snapshot p row s today d) (seconds_until_next_utc_day now)"
      "db' = d"
      using assms(1,3,5) g pp row n
      by (auto simp: send_message_with_guild_def Let_def outbound_limit_def)
    then show ?thesis
      using True n core_eqD(2,5) [OF cr] assms(5)
      by (auto simp: limit_reached_def limited_snapshot_def build_snapshot_def Let_def
          split: option.splits)
  next
    case False
    then have "and_then (insert_message_conn mid s rcp body now d) (\<lambda>(msg, db).
        and_then (increment_daily_counter s ACTION_OUTBOUND_MESSAGE today now db) (\<lambda>db.
        Inr (Sent msg, db))) = Inr (res, db')"
      using assms(1,3,5) g pp row n
      by (auto simp: send_message_with_guild_def Let_def outbound_limit_def)
    then obtain d1 where d1: "d1 = d\<lparr>messages := insert_row (new_message mid s rcp body now) (messages d)\<rparr>"
      and inc: "increment_daily_counter s ACTION_OUTBOUND_MESSAGE today now d1 = Inr db'"
      and res: "res = Sent (new_message mid s rcp body now)"
      by (auto simp: result_simps)
    have c1: "daily_action_count d1 = daily_action_count db"
      using n d1 by (simp add: daily_action_count_def fun_eq_iff)
    have "messages db' = messages d1" by (rule increment_daily_counter_spec(2) [OF inc])
    then show ?thesis
      using False res d1 core_eqD(5) [OF cr] increment_daily_counter_spec(1) [OF inc] c1 assms(5)
      by (auto simp: limit_reached_def split: option.splits)
  qed
qed

theorem send_message_quota_witness:
  "\<exists>m db'. send_message_with_guild (\<lambda>_. None) (\<lambda>_. ''u'') 9 1 2 ''hi'' 0 sample_db = Inr (Sent m, db') \<and>
     messages db' = [m] \<and> daily_action_count db' 1 ACTION_OUTBOUND_MESSAGE 0 = 1"
proof -
  have "case send_message_with_guild (\<lambda>_. None) (\<lambda>_. ''u'') 9 1 2 ''hi'' 0 sample_db of
      Inr (Sent m, db') \<Rightarrow> True | _ \<Rightarrow> False" by code_simp
  then obtain m db' where
    r: "send_message_with_guild (\<lambda>_. None) (\<lambda>_. ''u'') 9 1 2 ''hi'' 0 sample_db = Inr (Sent m, db')"
    by (auto split: sum.splits prod.splits send_message_result.splits)
  have "daily_action_count sample_db 1 ACTION_OUTBOUND_MESSAGE (date_naive 0) = 0" "date_naive 0 = 0"
    "messages sample_db = []"
    by code_simp+
  then show ?thesis
    using send_message_quota [OF r refl refl refl refl] r by (auto simp: insert_row_def)
qed

text \<open>
  An attachment action runs only for an accepted file type and below the attachment quota:
  when the limit is enforced and the trimmed, lower-cased type is not in the policy's list, or
  the day's counter has reached the limit, the operation is not called and no counter moves;
  when it completes, the operation ran once on the state the activity left, and the
  counter grew by one.
\<close>

theorem attachment_action_guarded:
  assumes "run_attachment_action_with_guild dec sh uid mime operation now db = Inr (res, db')"
    and "p = load_guild_policy_conn dec db" "today = date_naive now"
    and "row = activity_row p today now (base_row p uid now db)"
    and "n = daily_action_count db uid ACTION_ATTACHMENT_SEND today"
    and "\<And>d v d'. operation d = Inr (v, d') \<Longrightarrow> daily_action_counters d' = daily_action_counters d"
    and "lim = effective_daily_attachment_send_limit
           (level_policy_for_active_days p (gs_active_days row))
           (rank_policy_for_limits p (gs_contribution_score row))"
  shows "case res of
      UnsupportedMime sn \<Rightarrow> attachment_send_limit_enforced p \<and>
          \<not> attachment_type_allowed p (to_lowercase (trim mime)) \<and> core db' = core db
    | AttachmentLimited sn retry \<Rightarrow> attachment_send_limit_enforced p \<and>
          (\<exists>l. lim = Some l \<and> l \<le> n) \<and> core db' = core db \<and>
          retry = seconds_until_next_utc_day now
    | Completed v \<Rightarrow>
          (attachment_send_limit_enforced p \<longrightarrow>
             attachment_type_allowed p (to_lowercase (trim mime)) \<and>
             (case lim of None \<Rightarrow> True | Some l \<Rightarrow> n < l)) \<and>
          (\<exists>d d'. stats_written uid row db d \<and> operation d = Inr (v, d')) \<and>
          daily_action_count db' uid ACTION_ATTACHMENT_SEND today = n + 1"
proof -
  from assms(1) obtain p' st d where
    g: "guild_activity dec sh uid (date_naive now) now db = Inr ((p', st), d)"
    by (auto simp: run_attachment_action_with_guild_def Let_def result_simps)
  note sp = guild_activity_spec [OF g]
  have pp: "p' = p" and row: "st = row" using sp(1,2) assms(2-4) by auto
  note cr = stats_written_core [OF sp(3)]
  have n: "daily_action_count d = daily_action_count db" by (rule daily_action_count_core [OF cr])
  let ?e = "attachment_send_limit_enforced p"
  let ?m = "attachment_type_allowed p (to_lowercase (trim mime))"
  consider (mime) "?e" "\<not> ?m" | (limit) "?e" "?m" "limit_reached lim n"
    | (run) "?e \<longrightarrow> ?m \<and> \<not> limit_reached lim n" by blast
  then show ?thesis
  proof cases
    case mime
    then have "res = UnsupportedMime (limited_snapshot p row uid today d) \<and> db' = d"
      using assms(1,3) g pp row by (auto simp: run_attachment_action_with_guild_def Let_def)
    then show ?thesis using mime cr by simp
  next
    case limit
    then have "res = AttachmentLimited (limited_snapshot p row uid today d)
        (seconds_until_next_utc_day now) \<and> db' = d"
      using assms(1,3,5,7) g pp row n
      by (auto simp: run_attachment_action_with_guild_def Let_def)
    then show ?thesis using limit cr by (auto simp: limit_reached_def split: option.splits)
  next
    case run
    then have "and_then (operation d) (\<lambda>(v, db).
        and_then (increment_daily_counter uid ACTION_ATTACHMENT_SEND today now db) (\<lambda>db.
        Inr (Completed v, db))) = Inr (res, db')"
      using assms(1,3,5,7) g pp row n
      by (auto simp: run_attachment_action_with_guild_def Let_def split: if_splits)
    then obtain v d1 where op: "operation d = Inr (v, d1)" and res: "res = Completed v"
      and inc: "increment_daily_counter uid ACTION_ATTACHMENT_SEND today now d1 = Inr db'"
      by (auto simp: result_simps)
    have "daily_action_count d1 = daily_action_count d"
      using assms(6) [OF op] by (simp add: daily_action_count_def fun_eq_iff)
    then show ?thesis
      using run res op sp(3) row n assms(5) increment_daily_counter_spec(1) [OF inc]
      by (auto simp: limit_reached_def split: option.splits)
  qed
qed

theorem attachment_action_guarded_witness:
  "\<exists>db'. run_attachment_action_with_guild (\<lambda>_. None) (\<lambda>_. ''u'') 1 ''image/png ''
       (\<lambda>d. Inr (7 :: nat, d)) 0 sample_db = Inr (Completed 7, db') \<and>
     daily_action_count db' 1 ACTION_ATTACHMENT_SEND 0 = 1"
proof -
  let ?op = "\<lambda>d. Inr (7 :: nat, d) :: (nat \<times> db) result"
  have "case run_attachment_action_with_guild (\<lambda>_. None) (\<lambda>_. ''u'') 1 ''image/png '' ?op 0 sample_db of
      Inr (Completed v, db') \<Rightarrow> v = 7 | _ \<Rightarrow> False" by code_simp
  then obtain db' where
    r: "run_attachment_action_with_guild (\<lambda>_. None) (\<lambda>_. ''u'') 1 ''image/png '' ?op 0 sample_db
        = Inr (Completed 7, db')"
    by (auto split: sum.splits prod.splits attachment_action_result.splits)
  have "daily_action_count sample_db 1 ACTION_ATTACHMENT_SEND (date_naive 0) = 0" "date_naive 0 = 0"
    by code_simp+
  then show ?thesis
    using attachment_action_guarded [OF r refl refl refl refl _ refl] r by auto
qed

text \<open>
  Adding a contact: an account under a yellow card is refused with a client error and
  nothing is recorded; otherwise the contact is allowed exactly below the friend-add quota,
  and an allowed contact costs one unit of it.
\<close>

theorem resolve_contact_guarded:
  assumes "guild_inv db" "find_user db uid = Some u" "p = load_guild_policy_conn dec db"
    and "today = date_naive now" "row = activity_row p today now (base_row p uid now db)"
    and "gs_active_days (base_row p uid now db) < i32_max"
    and "n = daily_action_count db uid ACTION_FRIEND_ADD today" "n < i32_max"
    and "lim = effective_daily_friend_add_limit
           (level_policy_for_active_days p (gs_active_days row))
           (rank_policy_for_limits p (gs_contribution_score row))"
  shows "case resolve_contact_with_guild dec sh uid now db of
      Inl e \<Rightarrow> yellow_card_active u now \<and> error_response e = 400
    | Inr (res, db') \<Rightarrow> \<not> yellow_card_active u now \<and>
        (res = Allowed \<longleftrightarrow> \<not> (friend_add_limit_enforced p \<and> (\<exists>l. lim = Some l \<and> l \<le> n))) \<and>
        daily_action_count db' uid ACTION_FRIEND_ADD today = (if res = Allowed then n + 1 else n)"
proof -
  have ue: "user_exists db uid" using assms(2) by (simp add: user_exists_def)
  have "0 \<le> gs_active_days (base_row p uid now db)"
    using base_row_ok [OF assms(1), of p uid now] assms(3) by (simp add: stats_row_ok_def)
  then obtain p' st d where g: "guild_activity dec sh uid today now db = Inr ((p', st), d)"
    using guild_activity_total [OF ue] assms(3,6) by blast
  note sp = guild_activity_spec [OF g]
  have pp: "p' = p" and row: "st = row" using sp(1,2) assms(3-5) by auto
  note cr = stats_written_core [OF sp(3)]
  have n: "daily_action_count d = daily_action_count db" by (rule daily_action_count_core [OF cr])
  have fu: "find_user d uid = Some u" using core_eqD(1) [OF cr] assms(2) by (simp add: find_user_def)
  obtain d1 where inc: "increment_daily_counter uid ACTION_FRIEND_ADD today now d = Inr d1"
    using assms(7,8) n by (simp add: increment_daily_counter_def)
  have "daily_action_count d1 uid ACTION_FRIEND_ADD today = n + 1"
    using increment_daily_counter_spec(1) [OF inc] n assms(7) by simp
  then show ?thesis
    using g inc fu pp row n assms(4,7,9)
    by (auto simp: resolve_contact_with_guild_def Let_def limit_reached_def split: option.splits)
qed

theorem resolve_contact_guarded_witness:
  "\<exists>res db'. resolve_contact_with_guild (\<lambda>_. None) (\<lambda>_. ''u'') 2 0 sample_db = Inr (res, db') \<and>
     (res = Allowed \<longrightarrow> daily_action_count db' 2 ACTION_FRIEND_ADD 0 = 1)"
proof -
  have p: "default_guild_policy = load_guild_policy_conn (\<lambda>_. None) sample_db"
    by (simp add: load_guild_policy_conn_def sample_db_def empty_db_def find_row_def)
  have f: "find_user sample_db 2 = Some (sample_user 2)" by code_simp
  have c: "gs_active_days (base_row default_guild_policy 2 0 sample_db) < i32_max"
    "daily_action_count sample_db 2 ACTION_FRIEND_ADD (date_naive 0) = 0" "date_naive 0 = 0"
    "\<not> yellow_card_active (sample_user 2) 0" "0 < i32_max"
    by code_simp+
  show ?thesis
    using resolve_contact_guarded [OF guild_inv_sample_db f p refl refl c(1) refl _ refl,
        of "\<lambda>_. ''u''"] c
    by (cases "resolve_contact_with_guild (\<lambda>_. None) (\<lambda>_. ''u'') 2 0 sample_db") auto
qed

end
