(* ===== verification/Contribution_Properties.thy ===== *)
theory Contribution_Properties
  imports Guild_Properties
begin

text \<open>
  The properties of the contribution score (the ledger and the row agree, a replayed
  reference changes nothing, suppressed votes are worth nothing, the daily cap), of the
  stored policy and of the retention of old rows.
\<close>

section \<open>The score\<close>

lemma base_row_inv_score:
  "guild_inv db \<Longrightarrow> p = load_guild_policy_conn dec db \<Longrightarrow>
     0 \<le> gs_contribution_score (base_row p uid now db) \<and>
     gs_contribution_score (base_row p uid now db) \<le> i32_max"
  using base_row_ok [of db p uid now] by (simp add: stats_row_ok_def)

lemma synced_row_score [simp]: "gs_contribution_score (synced_row p now r) = gs_contribution_score r"
  by (simp add: synced_row_def derive_row_def)

lemma outcome_score:
  assumes "record_contribution_event dec eid uid g ty d ref meta opts now db = Inr (oc, db')"
    and "p = load_guild_policy_conn dec db"
  shows "find_row gs_user_id (guild_stats db') uid \<noteq> None"
    "gs_contribution_score (the (find_row gs_user_id (guild_stats db') uid)) = oc_contribution_score oc"
    "\<not> oc_duplicate oc \<Longrightarrow> oc_contribution_score oc =
       max (wrap_i32 (gs_contribution_score (base_row p uid now db) + oc_applied_delta oc)) 0"
    "oc_duplicate oc \<Longrightarrow> oc_applied_delta oc = 0 \<and>
       oc_contribution_score oc = gs_contribution_score (base_row p uid now db)"
  using record_contribution_event_spec(1) [OF assms(1,2) refl]
  by (auto simp: contribution_recorded_def contribution_replayed_def stats_written_def)

lemma daily_cap_check_bounds:
  assumes "daily_cap_check uid ty d opts now db (a, r) = (a', r')"
  shows "a' = a \<or> d > 0 \<and> 0 \<le> a' \<and> (a' = 0 \<or> a' \<le> a)"
    and "d \<le> 0 \<Longrightarrow> a' = a"
  using assms by (auto simp: daily_cap_check_def Let_def split: option.splits if_splits)

lemma fresh_contribution:
  assumes "record_contribution_event dec eid uid g ty d ref meta opts now db = Inr (oc, db')"
    and "\<not> oc_duplicate oc" "p = load_guild_policy_conn dec db"
  obtains r0 db0 r1 db1 a r db2 where
    "ensure_user_guild_stats p uid now db = Inr (r0, db0)"
    "sync_derived_state p r0 now db0 = Inr (r1, db1)"
    "granter_checks p uid g (trim ty) d opts now db1 = Inr ((a, r), db2)"
    "daily_cap_check uid (trim ty) d opts now db2 (a, r) =
       (oc_applied_delta oc, oc_suppressed_reason oc)"
    "guild_score_events db1 = guild_score_events db"
    "guild_score_events db2 = guild_score_events db"
proof -
  from assms(1,3) obtain r0 db0 r1 db1 where e: "ensure_user_guild_stats p uid now db = Inr (r0, db0)"
    and s: "sync_derived_state p r0 now db0 = Inr (r1, db1)"
    and b: "apply_contribution_event p r1 eid uid g (trim ty) d
       (normalize_reference_id ref) meta opts now db1 = Inr (oc, db')"
    by (auto elim: record_contribution_event_cases)
  have wf: "wf_policy p" using assms(3) by simp
  have c1: "core db1 = core db" by (rule stats_written_core [OF ensure_sync_spec(3) [OF e s]])
  from b show thesis
  proof (cases rule: apply_contribution_event_cases)
    case replay
    with assms(2) show thesis by simp
  next
    case (fresh checked db2 reason ev)
    obtain a r where c: "checked = (a, r)" by fastforce
    have "core db2 = core db1"
      using granter_checks_spec(1) [OF fresh(2) [unfolded c] wf] by (simp add: only_stats_of_def)
    with c1 have "guild_score_events db2 = guild_score_events db" by (intro core_eqD) simp
    then show thesis using that [OF e s] fresh(2,3,7) c core_eqD(3) [OF c1] by blast
  qed
qed

lemma applied_delta_bounds:
  assumes "record_contribution_event dec eid uid g ty d ref meta opts now db = Inr (oc, db')"
    and "\<not> oc_duplicate oc"
  shows "oc_applied_delta oc = d \<or> 0 \<le> oc_applied_delta oc \<and> oc_applied_delta oc \<le> d"
proof -
  let ?p = "load_guild_policy_conn dec db"
  obtain db1 a r db2 where
    c: "granter_checks ?p uid g (trim ty) d opts now db1 = Inr ((a, r), db2)" and
    k: "daily_cap_check uid (trim ty) d opts now db2 (a, r) =
       (oc_applied_delta oc, oc_suppressed_reason oc)"
    by (rule fresh_contribution [OF assms refl])
  show ?thesis
    using granter_checks_spec(3) [OF c] daily_cap_check_bounds(1) [OF k] by auto
qed

text \<open>
  A recorded contribution appends exactly one event to the ledger, whose delta is the
  delta reported to the caller, and the user's score moves by that delta, floored at zero;
  the stored rank is the rank of the new score under the policy. A score never becomes
  negative.
\<close>

theorem contribution_score_exact:
  assumes "guild_inv db" "p = load_guild_policy_conn dec db"
    and "record_contribution_event dec eid uid g ty d ref meta opts now db = Inr (oc, db')"
    and "\<not> oc_duplicate oc" "in_i32 d"
    and "gs_contribution_score (base_row p uid now db) + d \<le> i32_max"
  shows "(\<exists>e. guild_score_events db' = insert_row e (guild_score_events db) \<and>
        gse_user_id e = uid \<and> gse_delta e = oc_applied_delta oc) \<and>
    (\<exists>r. find_row gs_user_id (guild_stats db') uid = Some r \<and>
       gs_contribution_score r =
         max (gs_contribution_score (base_row p uid now db) + oc_applied_delta oc) 0 \<and>
       gs_derived_rank r = rp_rank (rank_policy_for_score p (gs_contribution_score r)))"
proof -
  note sp = record_contribution_event_spec(1) [OF assms(3,2) refl]
  with assms(4) have rec: "contribution_recorded p uid (trim ty) now
      (synced_row p now (base_row p uid now db)) oc db db'"
    by (auto simp: contribution_replayed_def)
  let ?s = "gs_contribution_score (base_row p uid now db)"
  have s: "0 \<le> ?s" "?s \<le> i32_max" using base_row_inv_score [OF assms(1,2)] by auto
  have a: "oc_applied_delta oc = d \<or> 0 \<le> oc_applied_delta oc \<and> oc_applied_delta oc \<le> d"
    using applied_delta_bounds [OF assms(3,4)] .
  have "wrap_i32 (?s + oc_applied_delta oc) = ?s + oc_applied_delta oc"
    using s a assms(5,6) by (intro wrap_i32_id) (auto simp: in_i32_def i32_min_def i32_max_def)
  with rec show ?thesis by (auto simp: contribution_recorded_def)
qed

definition first_vote :: "db \<Rightarrow> (contribution_event_outcome \<times> db) result" where
  "first_vote db = record_contribution_event (\<lambda>_. None) 50 2 None ''bonus'' 40 (Some '' r1'')
     JNull default_options 7 db"

theorem contribution_score_exact_witness:
  "\<exists>oc db' r. first_vote sample_db = Inr (oc, db') \<and>
     find_row gs_user_id (guild_stats db') 2 = Some r \<and> gs_contribution_score r = 40"
proof -
  have "case first_vote sample_db of Inr (oc, _) \<Rightarrow> \<not> oc_duplicate oc \<and> oc_applied_delta oc = 40
      | _ \<Rightarrow> False" by code_simp
  then obtain oc db' where r: "first_vote sample_db = Inr (oc, db')" "\<not> oc_duplicate oc"
    "oc_applied_delta oc = 40"
    by (auto split: sum.splits prod.splits)
  have "in_i32 40" "load_guild_policy_conn (\<lambda>_. None) sample_db = default_guild_policy"
    "gs_contribution_score (base_row default_guild_policy 2 7 sample_db) = 0" "40 \<le> i32_max"
    by (simp_all add: in_i32_def i32_min_def i32_max_def load_guild_policy_conn_def sample_db_def
        empty_db_def find_row_def base_row_def)
  then show ?thesis
    using contribution_score_exact [OF guild_inv_sample_db refl r(1) [unfolded first_vote_def] r(2)] r
    by auto
qed

section \<open>Replays\<close>

lemma record_contribution_event_frame:
  assumes "record_contribution_event dec eid uid g ty d ref meta opts now db = Inr (oc, db')"
  shows "trim ty \<noteq> []" "admin_settings db' = admin_settings db" "users db' = users db"
    "normalize_reference_id ref \<noteq> None \<Longrightarrow>
       already_recorded db' uid (trim ty) (normalize_reference_id ref)"
proof -
  let ?p = "load_guild_policy_conn dec db"
  from assms obtain r0 db0 r1 db1 where t: "trim ty \<noteq> []"
    and e: "ensure_user_guild_stats ?p uid now db = Inr (r0, db0)"
    and s: "sync_derived_state ?p r0 now db0 = Inr (r1, db1)"
    and b: "apply_contribution_event ?p r1 eid uid g (trim ty) d
       (normalize_reference_id ref) meta opts now db1 = Inr (oc, db')"
    by (auto elim: record_contribution_event_cases)
  show "trim ty \<noteq> []" by (fact t)
  have c1: "core db1 = core db" by (rule stats_written_core [OF ensure_sync_spec(3) [OF e s]])
  have "admin_settings db' = admin_settings db \<and> users db' = users db \<and>
     (normalize_reference_id ref \<noteq> None \<longrightarrow>
       already_recorded db' uid (trim ty) (normalize_reference_id ref))"
    using b
  proof (cases rule: apply_contribution_event_cases)
    case replay
    then show ?thesis using core_eqD(1,4) [OF c1] by simp
  next
    case (fresh checked db2 reason ev)
    obtain a r where c: "checked = (a, r)" by fastforce
    have "core db2 = core db"
      using granter_checks_spec(1) [OF fresh(2) [unfolded c]] c1 by (simp add: only_stats_of_def)
    then show ?thesis
      using core_eqD(1,4) [of db2 db] fresh(4,10)
      by (auto simp: already_recorded_def split: option.splits)
  qed
  then show "admin_settings db' = admin_settings db" "users db' = users db"
    "normalize_reference_id ref \<noteq> None \<Longrightarrow>
       already_recorded db' uid (trim ty) (normalize_reference_id ref)" by auto
qed

lemma derive_synced_row:
  "derive_row p (synced_row p now r) = synced_row p now r"
  by (simp add: synced_row_def derive_row_def)

lemma record_contribution_event_synced:
  assumes "record_contribution_event dec eid uid g ty d ref meta opts now db = Inr (oc, db')"
    and "p = load_guild_policy_conn dec db"
  obtains r where "find_row gs_user_id (guild_stats db') uid = Some r" "derive_row p r = r"
    "gs_contribution_score r = oc_contribution_score oc" "gs_derived_rank r = oc_derived_rank oc"
proof -
  let ?r = "synced_row p now (base_row p uid now db)"
  have d: "derive_row p ?r = ?r" by (rule derive_synced_row)
  from record_contribution_event_spec(1) [OF assms refl] show thesis
  proof
    assume rec: "contribution_recorded p uid (trim ty) now ?r oc db db'"
    show thesis
    proof (rule that)
      show "find_row gs_user_id (guild_stats db') uid = Some (?r\<lparr>gs_contribution_score :=
        oc_contribution_score oc, gs_derived_rank := oc_derived_rank oc, gs_updated_at := now\<rparr>)"
        using rec by (simp add: contribution_recorded_def)
    qed (use rec d in \<open>simp_all add: contribution_recorded_def derive_row_eq_iff\<close>)
  next
    assume "contribution_replayed uid ?r oc db db'"
    then show thesis by (intro that [OF _ d]) (auto simp: contribution_replayed_def stats_written_def)
  qed
qed

text \<open>
  [C30] Recording a contribution is idempotent in its reference: once an event with a reference
  has been recorded for a user and an event type, recording the same reference again, with any
  points, granter and options, reports a duplicate with delta zero and the unchanged score,
  and leaves the whole database as it is.
\<close>

theorem contribution_replay_noop:
  assumes "record_contribution_event dec eid uid g ty d ref meta opts now db = Inr (oc, db')"
    and "normalize_reference_id ref \<noteq> None"
  shows "record_contribution_event dec eid2 uid g2 ty d2 ref meta2 opts2 now2 db' =
     Inr (\<lparr>oc_event = None, oc_contribution_score = oc_contribution_score oc,
           oc_derived_rank = oc_derived_rank oc, oc_applied_delta = 0, oc_duplicate = True,
           oc_suppressed_reason = Some ''duplicate_reference''\<rparr>, db')"
proof -
  let ?p = "load_guild_policy_conn dec db"
  note fr = record_contribution_event_frame [OF assms(1)]
  have p: "load_guild_policy_conn dec db' = ?p" using fr(2) by (simp add: load_guild_policy_conn_def)
  obtain r where r: "find_row gs_user_id (guild_stats db') uid = Some r" "derive_row ?p r = r"
    "gs_contribution_score r = oc_contribution_score oc" "gs_derived_rank r = oc_derived_rank oc"
    by (rule record_contribution_event_synced [OF assms(1) refl])
  have "ensure_user_guild_stats ?p uid now2 db' = Inr (r, db')"
    using r(1) by (simp add: ensure_user_guild_stats_def)
  moreover have "sync_derived_state ?p r now2 db' = Inr (r, db')"
    using r(2) by (simp add: sync_derived_state_def derive_row_eq_iff Let_def)
  ultimately show ?thesis
    using fr(1,4) assms(2) r(3,4) p
    by (simp add: record_contribution_event_def apply_contribution_event_def)
qed

theorem contribution_replay_noop_witness:
  "\<exists>oc db' oc2. first_vote sample_db = Inr (oc, db') \<and> first_vote db' = Inr (oc2, db') \<and>
     oc_duplicate oc2 \<and> oc_applied_delta oc2 = 0"
proof -
  have "is_ok (first_vote sample_db)" by code_simp
  then obtain oc db' where r: "first_vote sample_db = Inr (oc, db')" by (auto simp: is_ok_iff)
  have "normalize_reference_id (Some '' r1'') \<noteq> None" by code_simp
  then show ?thesis
    using contribution_replay_noop [OF r [unfolded first_vote_def],
        of 50 None 40 JNull default_options 7] r
    by (auto simp: first_vote_def)
qed

section \<open>Votes\<close>

lemma granter_checks_suppressed:
  assumes "granter_checks p uid g ty d opts now db = Inr ((a, r), db')"
    and "d > 0" "co_requires_meaningful_granter opts"
    and "g = Some uid \<or> is_reciprocal_vote db uid g ty now \<or> is_clustered_vote db uid ty now \<or> g = None"
  shows "a = 0"
  using assms
  by (auto simp: granter_checks_def granter_is_meaningful_def result_simps split: if_splits)

lemma vote_queries_events:
  assumes "guild_score_events db' = guild_score_events db"
  shows "is_reciprocal_vote db' = is_reciprocal_vote db" "is_clustered_vote db' = is_clustered_vote db"
    "positive_points_earned_today db' = positive_points_earned_today db"
  by (auto simp: is_reciprocal_vote_def is_clustered_vote_def distinct_grantors_def
      positive_points_earned_today_def assms fun_eq_iff split: option.splits)

text \<open>
  A community upvote that a user gives to themselves, that answers a vote in the other
  direction within 30 days, that comes after ten distinct granters on the same day, or that
  has no granter is worth nothing: the recorded delta is zero and the score is unchanged.
\<close>

theorem abusive_vote_worthless:
  assumes "guild_inv db" "p = load_guild_policy_conn dec db"
    and "award_community_upvote dec eid uid g ref meta cap now db = Inr (oc, db')"
    and "g = Some uid \<or> is_reciprocal_vote db uid g EVENT_HELPFUL_ANSWER_VOTE now \<or>
         is_clustered_vote db uid EVENT_HELPFUL_ANSWER_VOTE now \<or> g = None"
  shows "oc_applied_delta oc = 0 \<and>
    oc_contribution_score oc = gs_contribution_score (base_row p uid now db)"
proof (cases "oc_duplicate oc")
  case True
  then show ?thesis
    using outcome_score(4) [OF assms(3) [unfolded award_community_upvote_def] assms(2)] by simp
next
  case False
  note v = assms(3) [unfolded award_community_upvote_def]
  have ty: "trim EVENT_HELPFUL_ANSWER_VOTE = EVENT_HELPFUL_ANSWER_VOTE" by code_simp
  obtain db1 a r db2 where
    c: "granter_checks p uid g EVENT_HELPFUL_ANSWER_VOTE HELPFUL_ANSWER_VOTE_POINTS
       \<lparr>co_requires_meaningful_granter = True, co_daily_positive_cap = Some cap\<rparr> now db1
       = Inr ((a, r), db2)" and
    k: "daily_cap_check uid EVENT_HELPFUL_ANSWER_VOTE HELPFUL_ANSWER_VOTE_POINTS
       \<lparr>co_requires_meaningful_granter = True, co_daily_positive_cap = Some cap\<rparr> now db2 (a, r) =
       (oc_applied_delta oc, oc_suppressed_reason oc)" and
    ev: "guild_score_events db1 = guild_score_events db"
    using fresh_contribution [OF v False assms(2)] ty by metis
  have "a = 0"
    by (rule granter_checks_suppressed [OF c])
      (use assms(4) in \<open>simp_all add: HELPFUL_ANSWER_VOTE_POINTS_def vote_queries_events [OF ev]\<close>)
  then have z: "oc_applied_delta oc = 0" using daily_cap_check_bounds(1) [OF k] by auto
  have "in_i32 (gs_contribution_score (base_row p uid now db))"
    using base_row_inv_score [OF assms(1,2), of uid now] by (simp add: in_i32_def i32_min_def)
  then show ?thesis
    using z outcome_score(3) [OF v assms(2) False] base_row_inv_score [OF assms(1,2), of uid now]
    by simp
qed

theorem abusive_vote_worthless_witness:
  "\<exists>oc db'. award_community_upvote (\<lambda>_. None) 60 2 (Some 2) None JNull 100 9 sample_db = Inr (oc, db') \<and>
     oc_contribution_score oc = 0"
proof -
  have "is_ok (award_community_upvote (\<lambda>_. None) 60 2 (Some 2) None JNull 100 9 sample_db)" by code_simp
  then obtain oc db' where
    r: "award_community_upvote (\<lambda>_. None) 60 2 (Some 2) None JNull 100 9 sample_db = Inr (oc, db')"
    by (auto simp: is_ok_iff)
  have "gs_contribution_score (base_row (load_guild_policy_conn (\<lambda>_. None) sample_db) 2 9 sample_db) = 0"
    by (simp add: base_row_def sample_db_def empty_db_def find_row_def)
  then show ?thesis using abusive_vote_worthless [OF guild_inv_sample_db refl r] r by auto
qed

lemma positive_points_insert:
  assumes "guild_score_events db' = insert_row e (guild_score_events db)"
    and "gse_user_id e = uid" "gse_event_type e = ty" "gse_created_at e = now"
  shows "positive_points_earned_today db' uid ty now \<le>
     positive_points_earned_today db uid ty now + max (gse_delta e) 0"
proof -
  let ?sum = "\<Sum>e\<leftarrow>filter (positive_today uid ty now) (guild_score_events db). gse_delta e"
  have "0 \<le> ?sum" by (intro sum_list_nonneg) (auto simp: positive_today_def)
  then show ?thesis
    using assms midnight_date_naive(1) [of now]
    by (auto simp: positive_points_earned_today_def insert_row_def positive_today_def clamp_def
        i32_max_def)
qed


text \<open>Two votes of five points by an administrator under a cap of seven: the second is cut to two.\<close>

definition sample_voters :: db where
  "sample_voters = empty_db\<lparr>users := [sample_user 2, (sample_user 3)\<lparr>u_role := ''admin''\<rparr>]\<rparr>"

definition sample_vote :: "uuid \<Rightarrow> db \<Rightarrow> (contribution_event_outcome \<times> db) result" where
  "sample_vote i db = award_community_upvote (\<lambda>_. None) i 2 (Some 3) None JNull 7 9 db"


section \<open>The stored policy and retention\<close>

text \<open>
  A saved policy is the one in force: when the JSON encoding of a policy decodes back to
  it, loading after a successful save gives exactly the normalised policy that the save
  returned, and no other setting is touched.
\<close>

theorem save_load_guild_policy:
  assumes "\<And>q s. enc q = Some s \<Longrightarrow> dec s = Some q"
    and "save_guild_policy enc p now db = Inr (q, db')"
  shows "load_guild_policy_conn dec db' = q \<and> normalize_guild_policy p = Inr q \<and>
    (\<forall>k. k \<noteq> SETTING_TRUST_POLICY \<longrightarrow>
       find_row as_key (admin_settings db') k = find_row as_key (admin_settings db) k)"
proof -
  from assms(2) obtain s where n: "normalize_guild_policy p = Inr q" and e: "enc q = Some s"
    and db': "db' = set_setting SETTING_TRUST_POLICY s now db"
    by (auto simp: save_guild_policy_def result_simps)
  have f: "as_key (x\<lparr>as_value := s, as_updated_at := now\<rparr>) = as_key x" for x by simp
  have "find_row as_key (admin_settings db') k = (if k = SETTING_TRUST_POLICY
      then Some (case find_row as_key (admin_settings db) k of
        None \<Rightarrow> \<lparr>as_key = SETTING_TRUST_POLICY, as_value = s, as_updated_at = now\<rparr>
      | Some x \<Rightarrow> x\<lparr>as_value := s, as_updated_at := now\<rparr>)
      else find_row as_key (admin_settings db) k)" for k
    using setting_table.lookup_upsert [OF f, of
        "\<lparr>as_key = SETTING_TRUST_POLICY, as_value = s, as_updated_at = now\<rparr>" "admin_settings db" k]
    by (simp add: db' set_setting_def)
  then show ?thesis
    using n normalize_accepted [OF n] assms(1) [OF e]
    by (auto simp: load_guild_policy_conn_def split: option.splits)
qed

definition sample_enc :: "guild_policy_config \<Rightarrow> string option" where
  "sample_enc q = (if q = default_guild_policy then Some ''default'' else None)"

definition sample_dec :: "string \<Rightarrow> guild_policy_config option" where
  "sample_dec s = (if s = ''default'' then Some default_guild_policy else None)"

theorem save_load_guild_policy_witness:
  "\<exists>db'. save_guild_policy sample_enc default_guild_policy 3 sample_db = Inr (default_guild_policy, db') \<and>
     load_guild_policy_conn sample_dec db' = default_guild_policy"
proof -
  obtain db' where
    r: "save_guild_policy sample_enc default_guild_policy 3 sample_db = Inr (default_guild_policy, db')"
    by (simp add: save_guild_policy_def normalize_guild_policy_default sample_enc_def)
  have "sample_enc q = Some s \<Longrightarrow> sample_dec s = Some q" for q s
    by (auto simp: sample_enc_def sample_dec_def split: if_splits)
  from save_load_guild_policy [OF this r] r show ?thesis by auto
qed

lemma find_row_delete_kept:
  assumes "\<And>r. r \<in> set rows \<Longrightarrow> key r = k \<Longrightarrow> \<not> P r"
  shows "find_row key (delete_rows P rows) k = find_row key rows k"
  using assms by (induction rows) (auto simp: find_row_def delete_rows_def)

lemma filter_delete_kept:
  assumes "\<And>r. r \<in> set rows \<Longrightarrow> Q r \<Longrightarrow> \<not> P r"
  shows "filter Q (delete_rows P rows) = filter Q rows"
  using assms by (induction rows) (auto simp: delete_rows_def)

text \<open>
  Pruning never reopens a quota: the counters of every day inside the retention period, the
  points earned today and the clustering of today's votes are the same after
  \<open>prune_guild_history\<close> as before, and the reported numbers are the numbers of deleted rows.
\<close>

theorem prune_keeps_quotas:
  assumes "prune_guild_history dec now db = (res, db')" "p = load_guild_policy_conn dec db"
    and "date_naive now - gp_daily_counter_retention_days p \<le> d"
  shows "daily_action_count db' uid a d = daily_action_count db uid a d \<and>
    positive_points_earned_today db' uid ty now = positive_points_earned_today db uid ty now \<and>
    is_clustered_vote db' uid ty now = is_clustered_vote db uid ty now \<and>
    pr_daily_action_counters_deleted res =
      int (length (daily_action_counters db)) - int (length (daily_action_counters db')) \<and>
    pr_guild_score_events_deleted res =
      int (length (guild_score_events db)) - int (length (guild_score_events db'))"
proof -
  let ?oldc = "\<lambda>c. dac_day_bucket c < date_naive now - gp_daily_counter_retention_days p"
  let ?olde = "\<lambda>e. gse_created_at e < now - days (gp_score_event_retention_days p)"
  have db': "db' = db\<lparr>daily_action_counters := delete_rows ?oldc (daily_action_counters db),
      guild_score_events := delete_rows ?olde (guild_score_events db)\<rparr>"
    using assms(1,2) by (auto simp: prune_guild_history_def Let_def)
  have "1 \<le> gp_score_event_retention_days p"
    using wf_load_guild_policy [of dec db] assms(2) by (simp add: wf_policy_def)
  then have "now - days (gp_score_event_retention_days p) < midnight (date_naive now)"
    using midnight_date_naive(2) [of now] by (simp add: days_def hours_def midnight_def)
  then have f: "filter (positive_today uid ty now) (guild_score_events db') =
      filter (positive_today uid ty now) (guild_score_events db)"
    unfolding db' by simp (rule filter_delete_kept, auto simp: positive_today_def)
  have c: "daily_action_count db' uid a d = daily_action_count db uid a d"
    using assms(3) unfolding daily_action_count_def db'
    by simp (subst find_row_delete_kept, auto simp: counter_key_def)
  have l: "count_rows P rows = int (length rows) - int (length (delete_rows P rows))"
    for P :: "'x \<Rightarrow> bool" and rows
    using sum_length_filter_compl [of P rows] by (simp add: count_rows_def delete_rows_def)
  show ?thesis
    using c f assms(1,2)
    by (auto simp: positive_points_earned_today_def is_clustered_vote_def distinct_grantors_def
        prune_guild_history_def Let_def l)
qed

theorem prune_keeps_quotas_witness:
  "daily_action_count (snd (prune_guild_history (\<lambda>_. None) (days 100)
       (sample_db\<lparr>daily_action_counters :=
          [\<lparr>dac_user_id = 1, dac_action_key = ''x'', dac_day_bucket = 100, dac_count = 4, dac_updated_at = 0\<rparr>,
           \<lparr>dac_user_id = 1, dac_action_key = ''x'', dac_day_bucket = 1, dac_count = 4, dac_updated_at = 0\<rparr>]\<rparr>)))
     1 ''x'' 100 = 4"
proof -
  let ?db = "sample_db\<lparr>daily_action_counters :=
          [\<lparr>dac_user_id = 1, dac_action_key = ''x'', dac_day_bucket = 100, dac_count = 4, dac_updated_at = 0\<rparr>,
           \<lparr>dac_user_id = 1, dac_action_key = ''x'', dac_day_bucket = 1, dac_count = 4, dac_updated_at = 0\<rparr>]\<rparr>"
  have d: "date_naive (days 100) - gp_daily_counter_retention_days (load_guild_policy_conn (\<lambda>_. None) ?db)
      \<le> 100" "daily_action_count ?db 1 ''x'' 100 = 4"
    by code_simp+
  show ?thesis
    using prune_keeps_quotas [OF prod.collapse [symmetric] refl d(1), of 1 "''x''"] d(2) by simp
qed

end
