(* ===== verification/Moderation_Properties.thy ===== *)
theory Moderation_Properties
  imports Moderation_Service
begin

text \<open>
  The properties of moderation: the text filter against its specification, the guard on
  direct messages, blocks, the life cycle of a report and the automatic review.
\<close>

section \<open>Words of a text\<close>

definition word_of :: "(char \<Rightarrow> bool) \<Rightarrow> string \<Rightarrow> string \<Rightarrow> bool" where
  "word_of sep s t \<longleftrightarrow> t \<noteq> [] \<and> (\<forall>c \<in> set t. \<not> sep c) \<and>
     (\<exists>us vs. s = us @ t @ vs \<and> (us = [] \<or> sep (last us)) \<and> (vs = [] \<or> sep (hd vs)))"

lemma word_of_no_sep:
  assumes "\<forall>c \<in> set w. \<not> sep c"
  shows "word_of sep w t \<longleftrightarrow> w \<noteq> [] \<and> t = w"
proof
  assume "word_of sep w t"
  then obtain us vs where w: "w = us @ t @ vs" "us = [] \<or> sep (last us)" "vs = [] \<or> sep (hd vs)"
    and t: "t \<noteq> []"
    by (auto simp: word_of_def)
  have "us = []"
  proof (rule ccontr)
    assume "us \<noteq> []"
    then have "last us \<in> set w" using w(1) by simp
    with assms w(2) \<open>us \<noteq> []\<close> show False by blast
  qed
  moreover have "vs = []"
  proof (rule ccontr)
    assume "vs \<noteq> []"
    then have "hd vs \<in> set w" using w(1) by simp
    with assms w(3) \<open>vs \<noteq> []\<close> show False by blast
  qed
  ultimately show "w \<noteq> [] \<and> t = w" using w(1) t by simp
next
  assume a: "w \<noteq> [] \<and> t = w"
  then have "w = [] @ t @ []" by simp
  with a assms show "word_of sep w t" unfolding word_of_def by blast
qed

lemma word_of_split:
  assumes w: "\<forall>c \<in> set w. \<not> sep c" and c: "sep c"
  shows "word_of sep (w @ c # s) t \<longleftrightarrow> w \<noteq> [] \<and> t = w \<or> word_of sep s t"
proof
  assume "word_of sep (w @ c # s) t"
  then obtain us vs where eq: "w @ c # s = us @ t @ vs" and u: "us = [] \<or> sep (last us)"
    and v: "vs = [] \<or> sep (hd vs)" and t: "t \<noteq> []" "\<forall>c \<in> set t. \<not> sep c"
    by (auto simp: word_of_def)
  show "w \<noteq> [] \<and> t = w \<or> word_of sep s t"
  proof (cases "length us \<le> length w")
    case True
    have "take (length us) (w @ c # s) = us" by (simp add: eq)
    with True have "w = us @ drop (length us) w" by (metis append_take_drop_id diff_is_0_eq
        take0 take_append append_Nil2)
    then obtain x where x: "w = us @ x" "x @ c # s = t @ vs"
      using eq by (metis append.assoc same_append_eq)
    have us: "us = []"
    proof (rule ccontr)
      assume "us \<noteq> []"
      then have "last us \<in> set w" using x(1) by simp
      with w u \<open>us \<noteq> []\<close> show False by blast
    qed
    have "length t \<le> length w"
    proof (rule ccontr)
      assume "\<not> ?thesis"
      then have "c \<in> set t"
        using x us by (auto simp: append_eq_append_conv2 Cons_eq_append_conv)
      with t(2) c show False by blast
    qed
    then obtain y where y: "w = t @ y" "vs = y @ c # s"
      using x us by (auto simp: append_eq_append_conv2)
    have "y = []"
    proof (rule ccontr)
      assume "y \<noteq> []"
      then have "hd vs \<in> set w" "vs \<noteq> []" using y by simp_all
      with w v show False by blast
    qed
    with y t show ?thesis by simp
  next
    case False
    then obtain us' where us': "us = w @ c # us'" "s = us' @ t @ vs"
      using eq by (auto simp: append_eq_append_conv2 Cons_eq_append_conv)
    then show ?thesis
      using u v t unfolding word_of_def by (metis append_is_Nil_conv last_append last.simps list.distinct(1))
  qed
next
  assume "w \<noteq> [] \<and> t = w \<or> word_of sep s t"
  then show "word_of sep (w @ c # s) t"
  proof
    assume a: "w \<noteq> [] \<and> t = w"
    then have "w @ c # s = [] @ t @ c # s" by simp
    with a assms show ?thesis unfolding word_of_def by (metis list.sel(1))
  next
    assume "word_of sep s t"
    then obtain us vs where s: "s = us @ t @ vs" "us = [] \<or> sep (last us)" "vs = [] \<or> sep (hd vs)"
      and t: "t \<noteq> []" "\<forall>c \<in> set t. \<not> sep c"
      by (auto simp: word_of_def)
    have "w @ c # s = (w @ c # us) @ t @ vs" "sep (last (w @ c # us))"
      using s(1,2) c by auto
    with s(3) t show ?thesis unfolding word_of_def by blast
  qed
qed

lemma set_tokens_by:
  "\<forall>c \<in> set acc. \<not> sep c \<Longrightarrow> t \<in> set (tokens_by sep s acc) \<longleftrightarrow> word_of sep (rev acc @ s) t"
proof (induction s arbitrary: acc)
  case Nil
  then show ?case using word_of_no_sep [of "rev acc" sep t] by auto
next
  case (Cons c s)
  show ?case
  proof (cases "sep c")
    case True
    then show ?thesis
      using Cons.IH [of "[]"] word_of_split [of "rev acc" sep c s t] Cons.prems by auto
  next
    case False
    then show ?thesis using Cons.IH [of "c # acc"] Cons.prems by simp
  qed
qed

section \<open>The text filter\<close>

text \<open>
  A term is objectionable in a text when, ignoring case, a phrase occurs in it anywhere, or a
  single word occurs in it delimited by characters that are not ASCII letters or digits.
\<close>

definition mentions :: "string \<Rightarrow> string \<Rightarrow> bool" where
  "mentions v term \<longleftrightarrow> (let s = to_lowercase (trim v) in
     if CHR 0x20 \<in> set term then (\<exists>us vs. s = us @ term @ vs)
     else word_of (\<lambda>c. \<not> is_ascii_alphanumeric c) s term)"

lemma contains_space: "contains s '' '' \<longleftrightarrow> CHR 0x20 \<in> set s"
  by (auto simp: contains_iff in_set_conv_decomp)

lemma blocked_term_in_iff:
  assumes "lowercase = to_lowercase (trim v)"
  shows "blocked_term_in lowercase (tokens_by (\<lambda>c. \<not> is_ascii_alphanumeric c) lowercase []) t
     \<longleftrightarrow> mentions v t"
  using set_tokens_by [of "[]" "\<lambda>c. \<not> is_ascii_alphanumeric c" t lowercase] assms
  by (cases "CHR 0x20 \<in> set t")
    (simp_all add: blocked_term_in_def mentions_def contains_space contains_iff [of "to_lowercase (trim v)"] Let_def)

lemma detect_blocked_term_None:
  "detect_blocked_term v = None \<longleftrightarrow> (\<forall>t \<in> set BLOCKED_TERMS. \<not> mentions v t)"
proof (cases "to_lowercase (trim v) = []")
  case True
  have "[] \<notin> set BLOCKED_TERMS" by code_simp
  then show ?thesis
    using True by (auto simp: detect_blocked_term_def mentions_def word_of_def Let_def to_lowercase_def)
next
  case False
  then show ?thesis
    using blocked_term_in_iff [OF refl, of v]
    by (auto simp: detect_blocked_term_def Let_def find_None_iff)
qed

text \<open>
  The text filter refuses exactly the texts that mention a blocked term: a phrase anywhere,
  a single word only as a whole word, in any letter case. The refusal is a client error, and
  a term inside a longer word does not trigger it.
\<close>

theorem text_filter_exact:
  "case ensure_text_is_allowed field v of
     Inl e \<Rightarrow> error_response e = 400 \<and> (\<exists>t \<in> set BLOCKED_TERMS. mentions v t)
   | Inr _ \<Rightarrow> \<not> (\<exists>t \<in> set BLOCKED_TERMS. mentions v t)"
  using detect_blocked_term_None [of v]
  by (auto simp: ensure_text_is_allowed_def split: option.splits)

section \<open>Direct messages and blocks\<close>

text \<open>
  [C18] A direct message passes the safety guard exactly when the sender exists and has no
  active yellow card, neither user blocks the other, and, if the sender is under a temporary
  restriction or has two open reports from the last seven days, the two have exchanged a
  message before.
\<close>

theorem direct_message_guard_exact:
  "ensure_direct_message_allowed db s r now = Inr () \<longleftrightarrow>
     (case find_user db s of None \<Rightarrow> False
      | Some u \<Rightarrow> \<not> yellow_card_active u now \<and>
          \<not> is_user_blocked db s r \<and> \<not> is_user_blocked db r s \<and>
          (has_prior_contact db s r \<or>
           (case u_dm_restricted_until u of None \<Rightarrow> True | Some t \<Rightarrow> t \<le> now) \<and>
           length (filter (\<lambda>q. mr_reported_user_id q = s \<and> mr_status q = REPORT_STATUS_OPEN \<and>
             now - days 7 \<le> mr_created_at q) (moderation_reports db)) < 2))"
proof -
  have b: "is_block_active_between db s r \<longleftrightarrow> is_user_blocked db s r \<or> is_user_blocked db r s"
    by (auto simp: is_block_active_between_def is_user_blocked_def)
  let ?n = "length (filter (\<lambda>q. mr_reported_user_id q = s \<and> mr_status q = REPORT_STATUS_OPEN \<and>
             now - days 7 \<le> mr_created_at q) (moderation_reports db))"
  show ?thesis
  proof (cases "find_user db s")
    case None
    then show ?thesis by (simp add: ensure_direct_message_allowed_def ensure_no_yellow_card_def)
  next
    case (Some u)
    have "is_new_dm_contact_restricted db s r now =
        Inr (\<not> (has_prior_contact db s r \<or>
           (case u_dm_restricted_until u of None \<Rightarrow> True | Some t \<Rightarrow> t \<le> now) \<and> ?n < 2))"
      using Some by (cases "u_dm_restricted_until u")
        (auto simp: is_new_dm_contact_restricted_def count_rows_def)
    then show ?thesis
      using Some b
      by (simp add: ensure_direct_message_allowed_def ensure_no_yellow_card_def
          ensure_no_block_between_def result_simps)
  qed
qed

lemma block_user_blocks:
  assumes "block_user pu rid a b reason note now db = Inr (v, db')"
  shows "is_user_blocked db' a b" "a \<noteq> b"
  using assms
  by (auto simp: block_user_def Let_def result_simps is_user_blocked_def split: if_splits)

lemma blocked_dm_refused:
  "is_user_blocked db a b \<Longrightarrow> \<not> is_ok (ensure_direct_message_allowed db a b now) \<and>
     \<not> is_ok (ensure_direct_message_allowed db b a now)"
  by (auto simp: is_ok_iff ensure_direct_message_allowed_def ensure_no_block_between_def
      is_block_active_between_def is_user_blocked_def result_simps)

lemma unblock_user_blocked [simp]:
  "is_user_blocked (unblock_user a b db) x y \<longleftrightarrow> is_user_blocked db x y \<and> (x, y) \<noteq> (a, b)"
  by (auto simp: is_user_blocked_def unblock_user_def)

text \<open>
  Blocking is effective at once and in both directions: after \<open>block_user\<close> neither user
  can send the other a direct message; blocking again is accepted and changes nothing; and
  unblocking lifts exactly this block.
\<close>

theorem block_effective:
  assumes "block_user pu rid a b reason note now db = Inr (v, db')"
  shows "(\<forall>t. \<not> is_ok (ensure_direct_message_allowed db' a b t) \<and>
             \<not> is_ok (ensure_direct_message_allowed db' b a t)) \<and>
    (\<exists>v'. block_user pu rid2 a b reason2 note2 now2 db' = Inr (v', db')) \<and>
    (\<forall>x y. is_user_blocked (unblock_user a b db') x y \<longleftrightarrow>
       is_user_blocked db x y \<and> (x, y) \<noteq> (a, b))"
proof -
  note bl = block_user_blocks [OF assms]
  have u: "users db' = users db" and
    o: "(x, y) \<noteq> (a, b) \<Longrightarrow> is_user_blocked db' x y = is_user_blocked db x y" for x y
    using assms
    by (auto simp: block_user_def Let_def result_simps is_user_blocked_def create_report_conn_def
        split: if_splits)
  obtain bu where "find_user db b = Some bu"
    using assms by (auto simp: block_user_def Let_def result_simps split: if_splits)
  then have "find_user db' b = Some bu" by (simp add: find_user_def u)
  with bl have "\<exists>v'. block_user pu rid2 a b reason2 note2 now2 db' = Inr (v', db')"
    by (simp add: block_user_def)
  with blocked_dm_refused [OF bl(1)] o show ?thesis by auto
qed

theorem block_effective_witness:
  "\<exists>v db'. block_user (\<lambda>_. None) 70 1 2 None None 5 sample_db = Inr (v, db') \<and>
     \<not> is_ok (ensure_direct_message_allowed db' 2 1 6)"
proof -
  have "is_ok (block_user (\<lambda>_. None) 70 1 2 None None 5 sample_db)" by code_simp
  then obtain v db' where r: "block_user (\<lambda>_. None) 70 1 2 None None 5 sample_db = Inr (v, db')"
    by (auto simp: is_ok_iff)
  show ?thesis using block_effective [OF r] r by blast
qed

section \<open>The life cycle of a report\<close>

definition report_row_ok :: "(string \<Rightarrow> uuid option) \<Rightarrow> db \<Rightarrow> moderation_report \<Rightarrow> bool" where
  "report_row_ok pu db r \<longleftrightarrow> user_exists db (mr_reported_user_id r) \<and>
     mr_reporter_user_id r \<noteq> mr_reported_user_id r \<and>
     mr_content_kind r \<in> {REPORT_KIND_USER_PROFILE, REPORT_KIND_DIRECT_MESSAGE, REPORT_KIND_ROOM_MESSAGE} \<and>
     (mr_content_kind r \<noteq> REPORT_KIND_USER_PROFILE \<longrightarrow>
        (\<exists>c m. mr_content_id r = Some c \<and> pu c = Some m)) \<and>
     (if mr_status r = REPORT_STATUS_OPEN
      then mr_resolution_action r = None \<and> mr_reviewed_at r = None
      else mr_reviewed_at r \<noteq> None \<and> mr_status r =
        (if mr_resolution_action r = Some RESOLUTION_DISMISS then REPORT_STATUS_DISMISSED
         else REPORT_STATUS_RESOLVED))"

definition reports_inv :: "(string \<Rightarrow> uuid option) \<Rightarrow> db \<Rightarrow> bool" where
  "reports_inv pu db \<longleftrightarrow> distinct_key mr_id (moderation_reports db) \<and>
     (\<forall>k r. find_row mr_id (moderation_reports db) k = Some r \<longrightarrow> report_row_ok pu db r)"

lemma status_distinct [simp]:
  "REPORT_STATUS_OPEN \<noteq> REPORT_STATUS_RESOLVED" "REPORT_STATUS_OPEN \<noteq> REPORT_STATUS_DISMISSED"
  "REPORT_STATUS_RESOLVED \<noteq> REPORT_STATUS_OPEN" "REPORT_STATUS_DISMISSED \<noteq> REPORT_STATUS_OPEN"
  by (simp_all add: status_defs)

lemma user_exists_update_user [simp]:
  assumes "\<And>u. u_id (f u) = u_id u"
  shows "user_exists (update_user k f now db) x = user_exists db x"
  using user_table.lookup_modify [of "\<lambda>u. (f u)\<lparr>u_updated_at := now\<rparr>" k "users db" x] assms
  by (simp add: user_exists_def find_user_def update_user_def)

lemma create_report_conn_eq:
  assumes "create_report_conn pu rid reporter inp now db = Inr (r, db')"
  shows "db' = db\<lparr>moderation_reports := insert_row r (moderation_reports db)\<rparr>"
    "find_row mr_id (moderation_reports db) (mr_id r) = None" "report_row_ok pu db r"
    "mr_status r = REPORT_STATUS_OPEN" "mr_id r = rid"
  using assms
  by (auto simp: create_report_conn_def Let_def result_simps report_row_ok_def one_of_def
      normalize_content_kind_def content_excerpt_conn_def user_exists_def split: if_splits)

lemma report_row_ok_cong:
  "(\<And>x. user_exists db' x = user_exists db x) \<Longrightarrow> report_row_ok pu db' r = report_row_ok pu db r"
  by (simp add: report_row_ok_def)

lemma user_exists_reports [simp]: "user_exists (db\<lparr>moderation_reports := rs\<rparr>) x = user_exists db x"
  by (simp add: user_exists_def find_user_def)

lemma reports_inv_insert:
  assumes "reports_inv pu db" "find_row mr_id (moderation_reports db) (mr_id r) = None"
    and "report_row_ok pu db r"
  shows "reports_inv pu (db\<lparr>moderation_reports := insert_row r (moderation_reports db)\<rparr>)"
  using assms report_row_ok_cong [of "db\<lparr>moderation_reports := insert_row r (moderation_reports db)\<rparr>" db pu]
  by (auto simp: reports_inv_def row_simps split: option.splits if_splits)

lemma create_report_inv:
  assumes "create_report_conn pu rid reporter inp now db = Inr (r, db')" "reports_inv pu db"
  shows "reports_inv pu db'"
  using create_report_conn_eq [OF assms(1)] reports_inv_insert [OF assms(2)] by simp

lemma resolved_row_simps [simp]:
  "mr_id (resolved_row act v n now r) = mr_id r"
  "mr_status (resolved_row act v n now r) \<noteq> REPORT_STATUS_OPEN"
  by (simp_all add: resolved_row_def)

lemma resolved_row_ok: "report_row_ok pu db r \<Longrightarrow> report_row_ok pu db (resolved_row act v n now r)"
  by (auto simp: report_row_ok_def resolved_row_def)

text \<open>Sanctions are only ever added: a suspension stays, a restriction is never shortened.\<close>

definition sanctions_kept :: "db \<Rightarrow> db \<Rightarrow> bool" where
  "sanctions_kept db db' \<longleftrightarrow> (\<forall>k u. find_user db k = Some u \<longrightarrow>
     (\<exists>u'. find_user db' k = Some u' \<and> (u_is_active u' \<longrightarrow> u_is_active u) \<and>
       (\<forall>t. u_dm_restricted_until u = Some t \<longrightarrow>
          (\<exists>t'. u_dm_restricted_until u' = Some t' \<and> t \<le> t'))))"

lemma sanctions_kept_refl [simp]: "users db' = users db \<Longrightarrow> sanctions_kept db db'"
  by (simp add: sanctions_kept_def find_user_def)

lemma sanctions_kept_trans: "sanctions_kept a b \<Longrightarrow> sanctions_kept b c \<Longrightarrow> sanctions_kept a c"
  unfolding sanctions_kept_def by (meson order_trans)

lemma find_user_update:
  assumes "\<And>u. u_id (f u) = u_id u"
  shows "find_user (update_user k f now db) x =
    (if x = k then map_option (\<lambda>u. (f u)\<lparr>u_updated_at := now\<rparr>) (find_user db x) else find_user db x)"
  using user_table.lookup_modify [of "\<lambda>u. (f u)\<lparr>u_updated_at := now\<rparr>" k "users db" x] assms
  by (simp add: find_user_def update_user_def)

lemma sanctions_kept_update:
  assumes "\<And>u. u_id (f u) = u_id u"
    and "\<And>u. find_user db k = Some u \<Longrightarrow> (u_is_active (f u) \<longrightarrow> u_is_active u) \<and>
       (\<forall>t. u_dm_restricted_until u = Some t \<longrightarrow>
          (\<exists>t'. u_dm_restricted_until (f u) = Some t' \<and> t \<le> t'))"
  shows "sanctions_kept db (update_user k f now db)"
  using assms(2) unfolding sanctions_kept_def by (auto simp: find_user_update [OF assms(1)])

definition sanctioned :: "instant \<Rightarrow> uuid \<Rightarrow> db \<Rightarrow> bool" where
  "sanctioned now k db \<longleftrightarrow> (case find_user db k of None \<Rightarrow> False
     | Some u \<Rightarrow> \<not> u_is_active u \<or>
         (case u_dm_restricted_until u of None \<Rightarrow> False | Some t \<Rightarrow> now + days 7 \<le> t))"

lemma sanctioned_kept: "sanctioned now k db \<Longrightarrow> sanctions_kept db db' \<Longrightarrow> sanctioned now k db'"
  unfolding sanctioned_def sanctions_kept_def
  by (auto split: option.splits) (metis option.distinct(1) option.inject order_trans)+

text \<open>The two stages of a resolution that touch content and accounts.\<close>

lemma remove_content_spec:
  assumes "remove_reported_content_conn pu r now db = Inr db'"
  shows "moderation_reports db' = moderation_reports db" "user_exists db' x = user_exists db x"
    "sanctions_kept db db'"
  using assms
  by (auto simp: remove_reported_content_conn_def result_simps update_user_def user_exists_def
      find_user_def row_simps split: if_splits intro!: sanctions_kept_update [unfolded update_user_def])

lemma remove_content_total:
  "report_row_ok pu d r \<Longrightarrow> \<exists>db'. remove_reported_content_conn pu r now db = Inr db'"
  by (auto simp: report_row_ok_def remove_reported_content_conn_def kind_defs)

lemma restriction_spec:
  assumes "apply_temporary_dm_restriction_conn k now db = Inr db'"
  shows "moderation_reports db' = moderation_reports db" "user_exists db' x = user_exists db x"
    "sanctions_kept db db'" "sanctioned now k db'"
proof -
  from assms obtain u where u: "find_user db k = Some u" and db': "db' = update_user k
      (\<lambda>x. x\<lparr>u_dm_restricted_until := Some (case u_dm_restricted_until u of
             Some c \<Rightarrow> if c > now + days 7 then c else now + days 7 | None \<Rightarrow> now + days 7),
          u_safety_warning_count := wrap_i32 (u_safety_warning_count u + 1)\<rparr>) now db"
    by (auto simp: apply_temporary_dm_restriction_conn_def result_simps Let_def)
  show "moderation_reports db' = moderation_reports db" by (simp add: db' update_user_def)
  show "user_exists db' x = user_exists db x" by (simp add: db')
  show "sanctions_kept db db'" unfolding db' using u by (intro sanctions_kept_update) auto
  show "sanctioned now k db'"
    using u by (auto simp: db' sanctioned_def find_user_update split: option.splits)
qed

lemma suspend_spec:
  assumes "db' = update_user k (\<lambda>u. u\<lparr>u_is_active := False\<rparr>) now db"
  shows "moderation_reports db' = moderation_reports db" "user_exists db' x = user_exists db x"
    "sanctions_kept db db'" "user_exists db k \<Longrightarrow> sanctioned now k db'"
proof -
  show "moderation_reports db' = moderation_reports db" by (simp add: assms update_user_def)
  show "user_exists db' x = user_exists db x" by (simp add: assms)
  show "sanctions_kept db db'" unfolding assms by (intro sanctions_kept_update) auto
  show "user_exists db k \<Longrightarrow> sanctioned now k db'"
    by (auto simp: assms sanctioned_def find_user_update user_exists_def)
qed

text \<open>What every stage of a resolution keeps.\<close>

definition stage_kept :: "db \<Rightarrow> db \<Rightarrow> bool" where
  "stage_kept db db' \<longleftrightarrow> moderation_reports db' = moderation_reports db \<and>
     (\<forall>x. user_exists db' x = user_exists db x) \<and> sanctions_kept db db'"

lemma stage_kept_refl [simp]: "stage_kept db db"
  by (simp add: stage_kept_def)

lemma stage_kept_trans: "stage_kept a b \<Longrightarrow> stage_kept b c \<Longrightarrow> stage_kept a c"
  unfolding stage_kept_def by (metis sanctions_kept_trans)

lemma stages_kept:
  "remove_reported_content_conn pu r now db = Inr db' \<Longrightarrow> stage_kept db db'"
  "apply_temporary_dm_restriction_conn k now db = Inr db' \<Longrightarrow> stage_kept db db'"
  "stage_kept db (update_user k (\<lambda>u. u\<lparr>u_is_active := False\<rparr>) now db)"
  unfolding stage_kept_def
  by (simp_all add: remove_content_spec restriction_spec suspend_spec [OF refl]
      del: sanctions_kept_refl user_exists_update_user)

definition punishes :: "string \<Rightarrow> bool" where
  "punishes act \<longleftrightarrow> act \<in> {RESOLUTION_REMOVE_AND_LIMIT_NEW_DMS, RESOLUTION_SUSPEND_USER,
     RESOLUTION_REMOVE_AND_SUSPEND}"

lemma apply_resolution_spec:
  assumes "apply_resolution pu r act now db = Inr db'"
  shows "moderation_reports db' = moderation_reports db" "user_exists db' x = user_exists db x"
    "sanctions_kept db db'"
    "user_exists db (mr_reported_user_id r) \<Longrightarrow> punishes act \<Longrightarrow> sanctioned now (mr_reported_user_id r) db'"
proof -
  let ?k = "mr_reported_user_id r"
  from assms obtain db1 db2 where
    1: "(if act = RESOLUTION_REMOVE_CONTENT \<or> act = RESOLUTION_REMOVE_AND_LIMIT_NEW_DMS \<or>
         act = RESOLUTION_REMOVE_AND_SUSPEND
        then remove_reported_content_conn pu r now db else Inr db) = Inr db1" and
    2: "(if act = RESOLUTION_REMOVE_AND_LIMIT_NEW_DMS
        then apply_temporary_dm_restriction_conn ?k now db1 else Inr db1) = Inr db2" and
    3: "db' = (if act = RESOLUTION_SUSPEND_USER \<or> act = RESOLUTION_REMOVE_AND_SUSPEND
        then update_user ?k (\<lambda>u. u\<lparr>u_is_active := False\<rparr>) now db2 else db2)"
    unfolding apply_resolution_def by (auto simp only: result_simps sum.inject)
  have s1: "stage_kept db db1" using 1 stages_kept(1) by (metis stage_kept_refl sum.inject(2))
  have s2: "stage_kept db1 db2" using 2 stages_kept(2) by (metis stage_kept_refl sum.inject(2))
  have s3: "stage_kept db2 db'" unfolding 3 using stages_kept(3) by simp
  have "stage_kept db db'" using s1 s2 s3 by (blast intro: stage_kept_trans)
  then show "moderation_reports db' = moderation_reports db" "user_exists db' x = user_exists db x"
    "sanctions_kept db db'"
    by (simp_all add: stage_kept_def)
  show "sanctioned now ?k db'" if u: "user_exists db ?k" and p: "punishes act"
  proof (cases "act = RESOLUTION_REMOVE_AND_LIMIT_NEW_DMS")
    case True
    then have "sanctioned now ?k db2" using 2 restriction_spec(4) by simp
    then show ?thesis using s3 by (auto simp: stage_kept_def intro: sanctioned_kept)
  next
    case False
    moreover have "user_exists db2 ?k" using u s1 s2 by (simp add: stage_kept_def)
    ultimately show ?thesis
      using p suspend_spec(4) [OF refl, of db2 ?k now] by (auto simp: punishes_def 3)
  qed
qed

lemma resolve_report_conn_spec:
  assumes "resolve_report_conn pu r reviewer action notes now db = Inr (r', db')"
  shows "\<exists>row. find_row mr_id (moderation_reports db) (mr_id r) = Some row \<and>
       r' = resolved_row (trim action) reviewer notes now row \<and>
       moderation_reports db' = update_row mr_id (mr_id r)
         (resolved_row (trim action) reviewer notes now) (moderation_reports db)"
    and "user_exists db' x = user_exists db x" and "sanctions_kept db db'"
    and "user_exists db (mr_reported_user_id r) \<Longrightarrow> punishes (trim action) \<Longrightarrow>
      sanctioned now (mr_reported_user_id r) db'"
proof -
  from assms obtain db1 row where a: "apply_resolution pu r (trim action) now db = Inr db1"
    and row: "find_row mr_id (moderation_reports db1) (mr_id r) = Some row"
      "r' = resolved_row (trim action) reviewer notes now row"
    and db': "db' = db1\<lparr>moderation_reports := update_row mr_id (mr_id r)
         (resolved_row (trim action) reviewer notes now) (moderation_reports db1)\<rparr>"
    by (auto simp: resolve_report_conn_def normalize_resolution_action_def one_of_def result_simps)
  note sp = apply_resolution_spec [OF a]
  have u: "users db' = users db1" by (simp add: db')
  show "\<exists>row. find_row mr_id (moderation_reports db) (mr_id r) = Some row \<and>
       r' = resolved_row (trim action) reviewer notes now row \<and>
       moderation_reports db' = update_row mr_id (mr_id r)
         (resolved_row (trim action) reviewer notes now) (moderation_reports db)"
    using row db' sp(1) by simp
  show "user_exists db' x = user_exists db x" using sp(2) db' by simp
  show "sanctions_kept db db'" using sp(3) u by (blast intro: sanctions_kept_trans sanctions_kept_refl)
  show "user_exists db (mr_reported_user_id r) \<Longrightarrow> punishes (trim action) \<Longrightarrow>
      sanctioned now (mr_reported_user_id r) db'"
    using sp(4) u by (simp add: sanctioned_def find_user_def)
qed

lemma resolve_report_conn_inv:
  assumes "resolve_report_conn pu r reviewer action notes now db = Inr (r', db')" "reports_inv pu db"
  shows "reports_inv pu db'"
proof -
  note sp = resolve_report_conn_spec [OF assms(1)]
  have c: "report_row_ok pu db' x = report_row_ok pu db x" for x
    by (rule report_row_ok_cong) (rule sp(2))
  from sp(1) obtain act where
    m: "moderation_reports db' = update_row mr_id (mr_id r)
         (resolved_row act reviewer notes now) (moderation_reports db)" by blast
  show ?thesis
    using assms(2) unfolding reports_inv_def m c
    by (auto simp: report_table.lookup_modify row_simps resolved_row_ok split: if_splits)
qed

section \<open>The automatic review\<close>

lemma apply_resolution_total:
  assumes "report_row_ok pu db r"
  shows "\<exists>db'. apply_resolution pu r act now db = Inr db'"
proof -
  obtain db1 where r: "remove_reported_content_conn pu r now db = Inr db1"
    using remove_content_total [OF assms] by blast
  have u: "user_exists db (mr_reported_user_id r)" using assms by (simp add: report_row_ok_def)
  then have u1: "user_exists db1 (mr_reported_user_id r)"
    using remove_content_spec(2) [OF r] by simp
  have "\<exists>db'. apply_temporary_dm_restriction_conn (mr_reported_user_id r) now d = Inr db'"
    if "user_exists d (mr_reported_user_id r)" for d
    using that by (auto simp: apply_temporary_dm_restriction_conn_def user_exists_def Let_def)
  with r u u1 show ?thesis unfolding apply_resolution_def by fastforce
qed

lemma resolve_report_conn_total:
  assumes "report_row_ok pu db r" "find_row mr_id (moderation_reports db) (mr_id r) \<noteq> None"
    and "\<exists>act. normalize_resolution_action action = Inr act"
  shows "\<exists>r' db'. resolve_report_conn pu r None action notes now db = Inr (r', db')"
proof -
  obtain act where n: "normalize_resolution_action action = Inr act" using assms(3) by blast
  obtain db1 where a: "apply_resolution pu r act now db = Inr db1"
    using apply_resolution_total [OF assms(1)] by blast
  obtain row where "find_row mr_id (moderation_reports db1) (mr_id r) = Some row"
    using assms(2) apply_resolution_spec(1) [OF a] by auto
  with n a show ?thesis by (simp add: resolve_report_conn_def)
qed

lemma auto_decision_action:
  "trim (fst (auto_decision rs r)) = fst (auto_decision rs r)"
  "normalize_resolution_action (fst (auto_decision rs r)) = Inr (fst (auto_decision rs r))"
  "punishes (fst (auto_decision rs r))"
proof -
  have "trim RESOLUTION_REMOVE_AND_SUSPEND = RESOLUTION_REMOVE_AND_SUSPEND"
    "trim RESOLUTION_REMOVE_AND_LIMIT_NEW_DMS = RESOLUTION_REMOVE_AND_LIMIT_NEW_DMS" by code_simp+
  then show "trim (fst (auto_decision rs r)) = fst (auto_decision rs r)"
    "normalize_resolution_action (fst (auto_decision rs r)) = Inr (fst (auto_decision rs r))"
    "punishes (fst (auto_decision rs r))"
    by (simp_all add: auto_decision_def Let_def normalize_resolution_action_def one_of_def punishes_def)
qed

definition closed_in :: "uuid \<Rightarrow> db \<Rightarrow> bool" where
  "closed_in k db \<longleftrightarrow> (case find_row mr_id (moderation_reports db) k of
       None \<Rightarrow> False | Some r \<Rightarrow> mr_status r \<noteq> REPORT_STATUS_OPEN)"

lemma auto_step:
  assumes "reports_inv pu db" "report_row_ok pu db r"
    and "find_row mr_id (moderation_reports db) (mr_id r) \<noteq> None"
  shows "\<exists>r' db'. resolve_report_conn pu r None (fst (auto_decision rs r))
       (Some (snd (auto_decision rs r))) now db = Inr (r', db') \<and>
     reports_inv pu db' \<and> sanctions_kept db db' \<and> sanctioned now (mr_reported_user_id r) db' \<and>
     closed_in (mr_id r) db' \<and> (\<forall>k. closed_in k db \<longrightarrow> closed_in k db') \<and>
     (\<forall>x. user_exists db' x = user_exists db x) \<and>
     (\<forall>k. k \<noteq> mr_id r \<longrightarrow>
        find_row mr_id (moderation_reports db') k = find_row mr_id (moderation_reports db) k)"
proof -
  have "\<exists>act. normalize_resolution_action (fst (auto_decision rs r)) = Inr act"
    using auto_decision_action(2) by blast
  then obtain r' db' where res: "resolve_report_conn pu r None (fst (auto_decision rs r))
       (Some (snd (auto_decision rs r))) now db = Inr (r', db')"
    using resolve_report_conn_total [OF assms(2,3)] by blast
  note sp = resolve_report_conn_spec [OF res]
  have u: "user_exists db (mr_reported_user_id r)" using assms(2) by (simp add: report_row_ok_def)
  from sp(1) obtain act n where m: "moderation_reports db' =
      update_row mr_id (mr_id r) (resolved_row act None n now) (moderation_reports db)" by blast
  have look: "find_row mr_id (moderation_reports db') k =
      (if k = mr_id r then map_option (resolved_row act None n now)
         (find_row mr_id (moderation_reports db) k)
       else find_row mr_id (moderation_reports db) k)" for k
    by (simp add: m report_table.lookup_modify)
  have "closed_in (mr_id r) db'" and "\<forall>k. closed_in k db \<longrightarrow> closed_in k db'"
    using assms(3) by (auto simp: closed_in_def look split: option.splits)
  moreover have "sanctioned now (mr_reported_user_id r) db'"
    using sp(4) [OF u] auto_decision_action by metis
  ultimately show ?thesis
    using res resolve_report_conn_inv [OF res assms(1)] sp(2,3) look by simp
qed

lemma resolve_all_spec:
  assumes "reports_inv pu db" "\<forall>r \<in> set rs. report_row_ok pu db r \<and>
      find_row mr_id (moderation_reports db) (mr_id r) \<noteq> None"
  shows "\<exists>db'. resolve_all pu all rs now db = Inr db' \<and> reports_inv pu db' \<and> sanctions_kept db db' \<and>
     (\<forall>r \<in> set rs. sanctioned now (mr_reported_user_id r) db' \<and> closed_in (mr_id r) db') \<and>
     (\<forall>k. closed_in k db \<longrightarrow> closed_in k db') \<and>
     (\<forall>k. k \<notin> mr_id ` set rs \<longrightarrow>
        find_row mr_id (moderation_reports db') k = find_row mr_id (moderation_reports db) k)"
  using assms
proof (induction rs arbitrary: db)
  case Nil
  then show ?case by simp
next
  case (Cons r rs)
  obtain r1 db1 where
    s: "resolve_report_conn pu r None (fst (auto_decision all r)) (Some (snd (auto_decision all r)))
        now db = Inr (r1, db1)" and
    k: "reports_inv pu db1" "sanctions_kept db db1" "sanctioned now (mr_reported_user_id r) db1"
      "closed_in (mr_id r) db1" "\<forall>k. closed_in k db \<longrightarrow> closed_in k db1"
      "\<forall>x. user_exists db1 x = user_exists db x" and
    o: "\<forall>k. k \<noteq> mr_id r \<longrightarrow>
        find_row mr_id (moderation_reports db1) k = find_row mr_id (moderation_reports db) k"
    using auto_step [OF Cons.prems(1), of r all now] Cons.prems(2) by auto
  have "\<forall>x \<in> set rs. report_row_ok pu db1 x \<and> find_row mr_id (moderation_reports db1) (mr_id x) \<noteq> None"
  proof
    fix x assume x: "x \<in> set rs"
    have "report_row_ok pu db1 x = report_row_ok pu db x"
      using k(6) by (intro report_row_ok_cong) simp
    moreover have "find_row mr_id (moderation_reports db1) (mr_id x) \<noteq> None"
      using x Cons.prems(2) k(4) o by (cases "mr_id x = mr_id r") (auto simp: closed_in_def split: option.splits)
    ultimately show "report_row_ok pu db1 x \<and> find_row mr_id (moderation_reports db1) (mr_id x) \<noteq> None"
      using x Cons.prems(2) by simp
  qed
  from Cons.IH [OF k(1) this] obtain db' where
    i: "resolve_all pu all rs now db1 = Inr db'" "reports_inv pu db'" "sanctions_kept db1 db'"
      "\<forall>r \<in> set rs. sanctioned now (mr_reported_user_id r) db' \<and> closed_in (mr_id r) db'"
      "\<forall>k. closed_in k db1 \<longrightarrow> closed_in k db'"
      "\<forall>k. k \<notin> mr_id ` set rs \<longrightarrow>
        find_row mr_id (moderation_reports db') k = find_row mr_id (moderation_reports db1) k"
    by blast
  have "sanctioned now (mr_reported_user_id r) db'" by (rule sanctioned_kept [OF k(3) i(3)])
  then show ?case
    using s i k o sanctions_kept_trans [OF k(2) i(3)] by auto
qed

text \<open>
  [C15] The automatic review cannot get stuck: on every well-formed database the nightly pass
  succeeds, resolves every overdue open report and no other, leaves no open report overdue,
  and the reported user of each of them ends up suspended or barred from new direct messages
  for at least seven days.
\<close>

theorem automatic_review_complete:
  assumes "reports_inv pu db"
  shows "\<exists>db'. run_automatic_review_pass pu now db = Inr (length (overdue_reports now db), db') \<and>
     overdue_reports now db' = [] \<and>
     (\<forall>r \<in> set (overdue_reports now db). sanctioned now (mr_reported_user_id r) db') \<and>
     (\<forall>r \<in> set (moderation_reports db). r \<notin> set (overdue_reports now db) \<longrightarrow>
        find_row mr_id (moderation_reports db') (mr_id r) = Some r)"
proof -
  let ?rs = "overdue_reports now db"
  have dk: "distinct_key mr_id (moderation_reports db)" using assms by (simp add: reports_inv_def)
  have in_db: "r \<in> set (moderation_reports db)" if "r \<in> set ?rs" for r
    using that by (simp add: overdue_reports_def)
  have found: "find_row mr_id (moderation_reports db) (mr_id r) = Some r"
    if "r \<in> set (moderation_reports db)" for r
    by (rule find_row_distinct [OF dk that])
  have "\<forall>r \<in> set ?rs. report_row_ok pu db r \<and>
      find_row mr_id (moderation_reports db) (mr_id r) \<noteq> None"
    using found in_db assms by (auto simp: reports_inv_def)
  from resolve_all_spec [OF assms this] obtain db' where
    i: "resolve_all pu ?rs ?rs now db = Inr db'" "reports_inv pu db'"
      "\<forall>r \<in> set ?rs. sanctioned now (mr_reported_user_id r) db' \<and> closed_in (mr_id r) db'"
      "\<forall>k. k \<notin> mr_id ` set ?rs \<longrightarrow>
        find_row mr_id (moderation_reports db') k = find_row mr_id (moderation_reports db) k"
    by blast
  have "r \<notin> set (overdue_reports now db')" for r
  proof
    assume "r \<in> set (overdue_reports now db')"
    then have r: "r \<in> set (moderation_reports db')" "mr_status r = REPORT_STATUS_OPEN"
      "mr_review_due_at r \<le> now"
      by (auto simp: overdue_reports_def)
    have f: "find_row mr_id (moderation_reports db') (mr_id r) = Some r"
      using i(2) r(1) by (auto simp: reports_inv_def intro: find_row_distinct)
    show False
    proof (cases "mr_id r \<in> mr_id ` set ?rs")
      case True
      with i(3) f r(2) show False by (auto simp: closed_in_def)
    next
      case False
      then have "r \<in> set ?rs" using i(4) f r by (auto simp: overdue_reports_def dest!: find_row_Some)
      with False show False by blast
    qed
  qed
  then have "overdue_reports now db' = []" by (metis list.set_intros(1) neq_Nil_conv)
  moreover have "find_row mr_id (moderation_reports db') (mr_id r) = Some r"
    if "r \<in> set (moderation_reports db)" "r \<notin> set ?rs" for r
  proof -
    have "mr_id r \<notin> mr_id ` set ?rs"
      using that found in_db by (metis (no_types, lifting) imageE option.inject)
    with i(4) found that(1) show ?thesis by simp
  qed
  ultimately show ?thesis
    using i(1,3) by (simp add: run_automatic_review_pass_def Let_def)
qed

definition sample_report :: moderation_report where
  "sample_report = \<lparr>mr_id = 80, mr_reporter_user_id = 1, mr_reported_user_id = 2,
     mr_source = REPORT_SOURCE_USER, mr_content_kind = REPORT_KIND_USER_PROFILE, mr_content_id = None,
     mr_reason_code = ''spam'', mr_reporter_note = None, mr_content_excerpt = Some ''hello'',
     mr_status = REPORT_STATUS_OPEN, mr_resolution_action = None, mr_resolution_notes = None,
     mr_metadata = JObj [], mr_review_due_at = 10, mr_reviewed_by_user_id = None,
     mr_reviewed_at = None, mr_created_at = 0, mr_updated_at = 0\<rparr>"

lemma sample_reports_inv: "reports_inv pu (sample_db\<lparr>moderation_reports := [sample_report]\<rparr>)"
proof -
  have u: "user_exists (sample_db\<lparr>moderation_reports := [sample_report]\<rparr>) 2" by code_simp
  show ?thesis
    using u by (auto simp: reports_inv_def report_row_ok_def find_row_def distinct_key_def sample_report_def)
qed

theorem automatic_review_complete_witness:
  "\<exists>db'. run_automatic_review_pass (\<lambda>_. None) 20 (sample_db\<lparr>moderation_reports := [sample_report]\<rparr>)
       = Inr (1, db') \<and> overdue_reports 20 db' = [] \<and> sanctioned 20 2 db'"
proof -
  let ?db = "sample_db\<lparr>moderation_reports := [sample_report]\<rparr>"
  have o: "overdue_reports 20 ?db = [sample_report]"
    by (simp add: overdue_reports_def sample_report_def)
  have r: "mr_reported_user_id sample_report = 2" by (simp add: sample_report_def)
  show ?thesis
    using automatic_review_complete [OF sample_reports_inv, of "\<lambda>_. None" 20] o r by auto
qed

section \<open>Reachable states of the reports\<close>

inductive moderation_step :: "(string \<Rightarrow> uuid option) \<Rightarrow> db \<Rightarrow> db \<Rightarrow> bool" for pu where
  create: "create_report pu rid reporter inp now db = Inr (r, db') \<Longrightarrow> moderation_step pu db db'"
| block: "block_user pu rid a b reason note now db = Inr (v, db') \<Longrightarrow> moderation_step pu db db'"
| unblock: "moderation_step pu db (unblock_user a b db)"
| resolve: "resolve_report pu sh rid reviewer action notes now db = Inr (view, db') \<Longrightarrow>
    moderation_step pu db db'"
| tick: "maybe_run_daily_automatic_review pu now (last_run, db) = (res, (last_run', db')) \<Longrightarrow>
    moderation_step pu db db'"
| accept_terms: "record_terms_acceptance uid version now db = Inr (st, db') \<Longrightarrow> moderation_step pu db db'"

lemma reports_inv_cong:
  assumes "moderation_reports db' = moderation_reports db" "\<And>x. user_exists db' x = user_exists db x"
  shows "reports_inv pu db' = reports_inv pu db"
  using report_row_ok_cong [OF assms(2)] by (simp add: reports_inv_def assms(1))

lemma moderation_step_inv:
  assumes "reports_inv pu db" "moderation_step pu db db'"
  shows "reports_inv pu db'"
  using assms(2)
proof cases
  case create
  then show ?thesis using create_report_inv assms(1) by (simp add: create_report_def)
next
  case (block rid a b reason remark now v)
  have "user_exists (d\<lparr>user_blocks := bs\<rparr>) x = user_exists d x" for d :: db and bs x
    by (simp add: user_exists_def find_user_def)
  then have c: "reports_inv pu (d\<lparr>user_blocks := bs\<rparr>) = reports_inv pu d" for d bs
    by (intro reports_inv_cong) simp_all
  show ?thesis
    using block assms(1)
    by (auto simp: block_user_def Let_def result_simps c split: if_splits dest: create_report_inv)
next
  case (unblock a b)
  have "user_exists (unblock_user a b db) x = user_exists db x" for x
    by (simp add: user_exists_def find_user_def unblock_user_def)
  moreover have "moderation_reports (unblock_user a b db) = moderation_reports db"
    by (simp add: unblock_user_def)
  ultimately show ?thesis using assms(1) reports_inv_cong unblock by metis
next
  case resolve
  then show ?thesis
    using assms(1) resolve_report_conn_inv
    by (auto simp: resolve_report_def result_simps split: if_splits)
next
  case (tick now last_run res last_run')
  have ok: "\<forall>r \<in> set (overdue_reports now db). report_row_ok pu db r \<and>
      find_row mr_id (moderation_reports db) (mr_id r) \<noteq> None"
  proof
    fix r assume "r \<in> set (overdue_reports now db)"
    then have "find_row mr_id (moderation_reports db) (mr_id r) = Some r"
      using assms(1) by (auto simp: overdue_reports_def reports_inv_def intro: find_row_distinct)
    with assms(1) show "report_row_ok pu db r \<and> find_row mr_id (moderation_reports db) (mr_id r) \<noteq> None"
      by (auto simp: reports_inv_def)
  qed
  show ?thesis
    using tick resolve_all_spec [OF assms(1) ok, of "overdue_reports now db" now] assms(1)
    by (auto simp: maybe_run_daily_automatic_review_def run_automatic_review_pass_def Let_def
        split: if_splits)
next
  case (accept_terms uid version now st)
  have "reports_inv pu (update_user uid (\<lambda>u. u\<lparr>u_ugc_terms_version := CURRENT_SAFETY_TERMS_VERSION,
      u_ugc_terms_accepted_at := Some now\<rparr>) now db) = reports_inv pu db"
    by (rule reports_inv_cong) (simp add: update_user_def, simp)
  with accept_terms assms(1) show ?thesis
    by (auto simp: record_terms_acceptance_def record_terms_acceptance_conn_def Let_def result_simps
        split: if_splits)
qed

interpretation reports: machine "\<lambda>db. moderation_reports db = []" "moderation_step pu" "reports_inv pu"
  for pu
proof unfold_locales
  show "moderation_reports s = [] \<Longrightarrow> reports_inv pu s" for s
    by (simp add: reports_inv_def find_row_def distinct_key_def)
qed (rule moderation_step_inv)

text \<open>
  Every report the server can reach is in a consistent state: it is open and unreviewed, or
  it carries a review time and the status that its resolution action stands for; nobody
  reports themselves; a report on a message names a message by a valid identifier.
\<close>

theorem reports_well_formed:
  assumes "moderation_reports db = []" "(moderation_step pu)\<^sup>*\<^sup>* db db'"
    and "r \<in> set (moderation_reports db')"
  shows "mr_reporter_user_id r \<noteq> mr_reported_user_id r \<and>
     (if mr_status r = REPORT_STATUS_OPEN
      then mr_resolution_action r = None \<and> mr_reviewed_at r = None
      else mr_reviewed_at r \<noteq> None \<and> mr_status r =
        (if mr_resolution_action r = Some RESOLUTION_DISMISS then REPORT_STATUS_DISMISSED
         else REPORT_STATUS_RESOLVED)) \<and>
     (mr_content_kind r = REPORT_KIND_USER_PROFILE \<or>
        (\<exists>c m. mr_content_id r = Some c \<and> pu c = Some m))"
proof -
  have inv: "reports_inv pu db'" by (rule reports.inv_reachable [OF assms(1,2)])
  then have "find_row mr_id (moderation_reports db') (mr_id r) = Some r"
    using assms(3) by (auto simp: reports_inv_def intro: find_row_distinct)
  with inv have "report_row_ok pu db' r" by (auto simp: reports_inv_def)
  then show ?thesis unfolding report_row_ok_def by blast
qed

theorem reports_well_formed_witness:
  "\<exists>db' r. (moderation_step (\<lambda>_. None))\<^sup>*\<^sup>* sample_db db' \<and> moderation_reports db' = [r] \<and>
     mr_reporter_user_id r \<noteq> mr_reported_user_id r"
proof -
  let ?b = "block_user (\<lambda>_. None) 70 1 2 None None 5 sample_db"
  have "case ?b of Inl _ \<Rightarrow> False | Inr (_, db') \<Rightarrow> length (moderation_reports db') = 1" by code_simp
  then obtain v db' where b: "?b = Inr (v, db')" "length (moderation_reports db') = 1"
    by (auto split: sum.splits)
  then obtain r where r: "moderation_reports db' = [r]" by (auto simp: length_Suc_conv)
  have s: "(moderation_step (\<lambda>_. None))\<^sup>*\<^sup>* sample_db db'"
    using moderation_step.block [OF b(1)] by blast
  have e: "moderation_reports sample_db = []" by (simp add: sample_db_def empty_db_def)
  show ?thesis using reports_well_formed [OF e s, of r] r s by auto
qed

text \<open>
  A report is resolved at most once: after a resolution every further attempt, with any
  action and by any reviewer, is refused as a conflict.
\<close>

theorem report_resolved_once:
  assumes "resolve_report pu sh rid reviewer action notes now db = Inr (view, db')"
  shows "resolve_report pu sh rid reviewer2 action2 notes2 now2 db' =
    Inl (Conflict ''Report has already been reviewed'')"
proof -
  from assms obtain r r' where
    r: "find_row mr_id (moderation_reports db) rid = Some r" and
    c: "resolve_report_conn pu r (Some reviewer) action notes now db = Inr (r', db')"
    by (auto simp: resolve_report_def result_simps split: if_splits)
  have rid: "mr_id r = rid" using find_row_Some [OF r] by simp
  from resolve_report_conn_spec(1) [OF c] have
    m: "moderation_reports db' = update_row mr_id rid
         (resolved_row (trim action) (Some reviewer) notes now) (moderation_reports db)"
    by (auto simp: rid)
  have "find_row mr_id (moderation_reports db') rid =
      Some (resolved_row (trim action) (Some reviewer) notes now r)"
    using r by (simp add: m report_table.lookup_modify)
  then show ?thesis by (simp add: resolve_report_def)
qed

theorem report_resolved_once_witness:
  "\<exists>v db'. resolve_report (\<lambda>_. None) (\<lambda>_. ''u'') 80 3 ''dismiss'' None 15
       (sample_db\<lparr>moderation_reports := [sample_report]\<rparr>) = Inr (v, db') \<and>
     resolve_report (\<lambda>_. None) (\<lambda>_. ''u'') 80 3 ''suspend_user'' None 16 db' =
       Inl (Conflict ''Report has already been reviewed'')"
proof -
  let ?r = "resolve_report (\<lambda>_. None) (\<lambda>_. ''u'') 80 3 ''dismiss'' None 15
       (sample_db\<lparr>moderation_reports := [sample_report]\<rparr>)"
  have "is_ok ?r" by code_simp
  then obtain v db' where r: "?r = Inr (v, db')" by (auto simp: is_ok_iff)
  show ?thesis using report_resolved_once [OF r] r by blast
qed

end
