(* ===== verification/Room_Service.thy ===== *)
theory Room_Service
  imports Keyset Moderation_Service
begin

text \<open>
  Group rooms, src/src/services/room_service.rs: creation, membership, messages, read marks
  and deletion. The identifiers of a new room and of a new message are arguments. Every
  operation but the listings runs in one transaction.
\<close>

section \<open>Tables\<close>

definition member_key :: "room_member \<Rightarrow> uuid \<times> uuid" where
  "member_key m = (rm_room_id m, rm_user_id m)"

interpretation room_table: keyed_store r_id "find_row r_id" insert_row "update_row r_id"
    "upsert_row r_id"
    "\<lambda>k. delete_rows (\<lambda>r. r_id r = k)" "distinct_key r_id"
  by (rule keyed_store_rows)

interpretation member_table: keyed_store member_key "find_row member_key" insert_row
    "update_row member_key" "upsert_row member_key"
    "\<lambda>k. delete_rows (\<lambda>r. member_key r = k)" "distinct_key member_key"
  by (rule keyed_store_rows)

abbreviation find_room :: "db \<Rightarrow> uuid \<Rightarrow> room option" where
  "find_room db k \<equiv> find_row r_id (rooms db) k"

abbreviation find_member :: "db \<Rightarrow> uuid \<Rightarrow> uuid \<Rightarrow> room_member option" where
  "find_member db room u \<equiv> find_row member_key (room_members db) (room, u)"

section \<open>Views\<close>

record room_member_profile =
  pf_user_id :: uuid
  pf_username :: string
  pf_avatar_base64 :: "string option"
  pf_role :: string
  pf_joined_at :: instant

record room_summary =
  rs_id :: uuid
  rs_name :: string
  rs_created_by :: uuid
  rs_created_at :: instant
  rs_updated_at :: instant
  rs_member_count :: int
  rs_unread_count :: int
  rs_last_message_preview :: "string option"
  rs_last_message_at :: "instant option"

record room_detail = room_summary +
  rd_members :: "room_member_profile list"

definition truncate_preview :: "string \<Rightarrow> string" where
  "truncate_preview content =
    (let trimmed = trim content in
     if length trimmed \<le> 120 then trimmed else take 120 trimmed @ ''...'')"

definition room_message_cursor :: "room_message \<Rightarrow> cursor" where
  "room_message_cursor m = Cursor (rmsg_created_at m) (rmsg_id m)"

text \<open>The messages of a room that a viewer sees: not deleted, not by a user the viewer blocks.\<close>

definition visible_messages :: "db \<Rightarrow> uuid \<Rightarrow> uuid \<Rightarrow> room_message list" where
  "visible_messages db room viewer =
     filter (\<lambda>m. rmsg_room_id m = room \<and> rmsg_deleted_at m = None \<and>
        rmsg_sender_id m \<notin> list_blocked_user_ids db viewer) (room_messages db)"

definition room_unread_count_conn :: "db \<Rightarrow> uuid \<Rightarrow> uuid \<Rightarrow> instant option \<Rightarrow> int" where
  "room_unread_count_conn db room viewer last_read_at =
     count_rows (\<lambda>m. rmsg_room_id m = room \<and> rmsg_sender_id m \<noteq> viewer \<and> rmsg_deleted_at m = None \<and>
        rmsg_sender_id m \<notin> list_blocked_user_ids db viewer \<and>
        (case last_read_at of None \<Rightarrow> True | Some t \<Rightarrow> rmsg_created_at m > t)) (room_messages db)"

definition room_summary_conn :: "db \<Rightarrow> room \<Rightarrow> room_member \<Rightarrow> uuid \<Rightarrow> room_summary" where
  "room_summary_conn db room membership viewer =
    (let latest = page room_message_cursor None 1 (visible_messages db (r_id room) viewer);
         latest_message = (case latest of [] \<Rightarrow> None | m # _ \<Rightarrow> Some m)
     in \<lparr>rs_id = r_id room, rs_name = r_name room, rs_created_by = r_created_by room,
         rs_created_at = r_created_at room, rs_updated_at = r_updated_at room,
         rs_member_count = count_rows (\<lambda>m. rm_room_id m = r_id room) (room_members db),
         rs_unread_count = room_unread_count_conn db (r_id room) viewer (rm_last_read_at membership),
         rs_last_message_preview = map_option (\<lambda>m. truncate_preview (rmsg_content m)) latest_message,
         rs_last_message_at = map_option rmsg_created_at latest_message\<rparr>)"

definition room_member_profiles_conn :: "db \<Rightarrow> uuid \<Rightarrow> room_member_profile list" where
  "room_member_profiles_conn db room =
     List.map_filter (\<lambda>m. map_option (\<lambda>u. \<lparr>pf_user_id = rm_user_id m, pf_username = u_username u,
          pf_avatar_base64 = u_avatar_base64 u, pf_role = rm_role m, pf_joined_at = rm_joined_at m\<rparr>)
        (find_user db (rm_user_id m)))
       (sort_key rm_joined_at (filter (\<lambda>m. rm_room_id m = room) (room_members db)))"

definition room_detail_conn :: "db \<Rightarrow> room \<Rightarrow> uuid \<Rightarrow> room_detail result" where
  "room_detail_conn db room viewer =
     and_then (ok_or (Database RowNotFound) (find_member db (r_id room) viewer)) (\<lambda>membership.
     Inr (room_summary.extend (room_summary_conn db room membership viewer)
       (room_detail.fields (room_member_profiles_conn db (r_id room)))))"

section \<open>Guards\<close>

definition normalize_room_name :: "string \<Rightarrow> string result" where
  "normalize_room_name raw =
    (let normalized = trim raw in
     if normalized = [] then Inl (BadRequest ''Room name cannot be empty'')
     else if length normalized > 80 then Inl (BadRequest ''Room name must be <= 80 characters'')
     else and_then (ensure_text_is_allowed ''room name'' normalized) (\<lambda>_. Inr normalized))"

definition normalize_member_ids :: "uuid \<Rightarrow> uuid list \<Rightarrow> uuid list" where
  "normalize_member_ids creator member_ids = btree_set (creator # member_ids)"

definition ensure_users_exist_conn :: "db \<Rightarrow> uuid list \<Rightarrow> unit result" where
  "ensure_users_exist_conn db member_ids =
     guard_err (length (filter (\<lambda>u. u_id u \<in> set member_ids) (users db)) = length member_ids)
       (BadRequest ''One or more room members do not exist'')"

definition ensure_room_member_conn :: "db \<Rightarrow> uuid \<Rightarrow> uuid \<Rightarrow> room result" where
  "ensure_room_member_conn db room_id viewer =
     and_then (ok_or NotFound (find_room db room_id)) (\<lambda>room.
     if find_member db room_id viewer = None then Inl Forbidden else Inr room)"

definition room_access_error :: "db \<Rightarrow> uuid \<Rightarrow> app_error" where
  "room_access_error db room_id = (case find_room db room_id of Some _ \<Rightarrow> Forbidden | None \<Rightarrow> NotFound)"

text \<open>\<open>insert_into(room_members).values(records)\<close>: the key must be new and the references valid.\<close>

definition insert_members :: "room_member list \<Rightarrow> db \<Rightarrow> db result" where
  "insert_members records db =
     (if list_ex (\<lambda>m. find_row member_key (room_members db) (member_key m) \<noteq> None) records \<or>
         \<not> distinct (map member_key records)
      then Inl (Database UniqueViolation)
      else if list_ex (\<lambda>m. find_room db (rm_room_id m) = None \<or> \<not> user_exists db (rm_user_id m)) records
      then Inl (Database ForeignKeyViolation)
      else Inr (db\<lparr>room_members := room_members db @ records\<rparr>))"

definition touch_room :: "uuid \<Rightarrow> instant \<Rightarrow> db \<Rightarrow> db" where
  "touch_room room_id now db =
     db\<lparr>rooms := update_row r_id room_id (\<lambda>r. r\<lparr>r_updated_at := now\<rparr>) (rooms db)\<rparr>"

section \<open>Operations\<close>

definition create_room ::
  "uuid \<Rightarrow> uuid \<Rightarrow> string \<Rightarrow> uuid list \<Rightarrow> instant \<Rightarrow> db \<Rightarrow> (room_detail \<times> db) result" where
  "create_room rid creator name member_ids now db =
     and_then (normalize_room_name name) (\<lambda>room_name.
     let member_ids = normalize_member_ids creator member_ids in
     and_then (ensure_users_exist_conn db member_ids) (\<lambda>_.
     if find_room db rid \<noteq> None then Inl (Database UniqueViolation)
     else if \<not> user_exists db creator then Inl (Database ForeignKeyViolation)
     else
       let room = \<lparr>r_id = rid, r_name = room_name, r_created_by = creator, r_created_at = now,
                   r_updated_at = now\<rparr>;
           db = db\<lparr>rooms := insert_row room (rooms db)\<rparr>;
           records = map (\<lambda>u. \<lparr>rm_room_id = rid, rm_user_id = u,
              rm_role = (if u = creator then ''owner'' else ''member''), rm_joined_at = now,
              rm_last_read_at = Some now\<rparr>) member_ids
       in and_then (insert_members records db) (\<lambda>db.
          and_then (room_detail_conn db room creator) (\<lambda>detail. Inr (detail, db)))))"

definition summary_time :: "room_summary \<Rightarrow> instant" where
  "summary_time s = (case rs_last_message_at s of Some t \<Rightarrow> t | None \<Rightarrow> rs_updated_at s)"

definition list_rooms :: "db \<Rightarrow> uuid \<Rightarrow> room_summary list" where
  "list_rooms db viewer =
    (let memberships = sort_key (\<lambda>m. - rm_joined_at m)
           (filter (\<lambda>m. rm_user_id m = viewer) (room_members db));
         summaries = List.map_filter (\<lambda>m. map_option (\<lambda>room. room_summary_conn db room m viewer)
             (find_room db (rm_room_id m))) memberships
     in sort_key (\<lambda>s. - summary_time s) summaries)"

definition get_room :: "db \<Rightarrow> uuid \<Rightarrow> uuid \<Rightarrow> room_detail result" where
  "get_room db room_id viewer =
     and_then (ensure_room_member_conn db room_id viewer) (\<lambda>room. room_detail_conn db room viewer)"

definition rename_room ::
  "uuid \<Rightarrow> uuid \<Rightarrow> string \<Rightarrow> instant \<Rightarrow> db \<Rightarrow> (room_detail \<times> db) result" where
  "rename_room room_id owner name now db =
     and_then (ensure_room_member_conn db room_id owner) (\<lambda>room.
     if r_created_by room \<noteq> owner then Inl Forbidden
     else
       and_then (normalize_room_name name) (\<lambda>room_name.
       let (updated, db) =
             (if r_name room = room_name then (room, db)
              else (room\<lparr>r_name := room_name, r_updated_at := now\<rparr>,
                    db\<lparr>rooms := update_row r_id room_id
                      (\<lambda>r. r\<lparr>r_name := room_name, r_updated_at := now\<rparr>) (rooms db)\<rparr>))
       in and_then (room_detail_conn db updated owner) (\<lambda>detail. Inr (detail, db))))"

definition add_room_members ::
  "uuid \<Rightarrow> uuid \<Rightarrow> uuid list \<Rightarrow> instant \<Rightarrow> db \<Rightarrow> (room_detail \<times> db) result" where
  "add_room_members room_id owner member_ids now db =
     and_then (ensure_room_member_conn db room_id owner) (\<lambda>room.
     if r_created_by room \<noteq> owner then Inl Forbidden
     else
       let requested = btree_set (filter (\<lambda>u. u \<noteq> owner) member_ids) in
       if requested = [] then and_then (room_detail_conn db room owner) (\<lambda>detail. Inr (detail, db))
       else
         and_then (ensure_users_exist_conn db requested) (\<lambda>_.
         let fresh = filter (\<lambda>u. find_member db room_id u = None) requested;
             records = map (\<lambda>u. \<lparr>rm_room_id = room_id, rm_user_id = u, rm_role = ''member'',
                rm_joined_at = now, rm_last_read_at = Some now\<rparr>) fresh
         in and_then (if fresh = [] then Inr db
                      else and_then (insert_members records db) (\<lambda>db. Inr (touch_room room_id now db)))
              (\<lambda>db. and_then (room_detail_conn db room owner) (\<lambda>detail. Inr (detail, db)))))"

definition delete_member :: "uuid \<Rightarrow> uuid \<Rightarrow> db \<Rightarrow> db" where
  "delete_member room_id u db =
     db\<lparr>room_members := delete_rows (\<lambda>m. member_key m = (room_id, u)) (room_members db)\<rparr>"

definition remove_room_member ::
  "uuid \<Rightarrow> uuid \<Rightarrow> uuid \<Rightarrow> instant \<Rightarrow> db \<Rightarrow> (room_detail \<times> db) result" where
  "remove_room_member room_id owner member now db =
     and_then (ensure_room_member_conn db room_id owner) (\<lambda>room.
     if r_created_by room \<noteq> owner then Inl Forbidden
     else if member = r_created_by room then Inl (BadRequest ''Room owner cannot be removed'')
     else if find_member db room_id member = None then Inl NotFound
     else
       let db = touch_room room_id now (delete_member room_id member db)
       in and_then (room_detail_conn db room owner) (\<lambda>detail. Inr (detail, db)))"

definition get_room_messages ::
  "db \<Rightarrow> uuid \<Rightarrow> uuid \<Rightarrow> uuid option \<Rightarrow> nat \<Rightarrow> room_message list result" where
  "get_room_messages db room_id viewer before_id limit =
     and_then (ensure_room_member_conn db room_id viewer) (\<lambda>_.
     let base = visible_messages db room_id viewer; limit = min limit 100
     in case before_id of
          Some cursor_id \<Rightarrow>
            and_then (ok_or NotFound (find_row rmsg_id (room_messages db) cursor_id)) (\<lambda>cursor.
            if rmsg_room_id cursor \<noteq> room_id then Inl NotFound
            else Inr (page room_message_cursor (Some (Cursor (rmsg_created_at cursor) cursor_id)) limit base))
        | None \<Rightarrow> Inr (page room_message_cursor None limit base))"

definition set_last_read :: "uuid \<Rightarrow> uuid \<Rightarrow> instant \<Rightarrow> db \<Rightarrow> db" where
  "set_last_read room_id u now db =
     db\<lparr>room_members := update_row member_key (room_id, u)
        (\<lambda>m. m\<lparr>rm_last_read_at := Some now\<rparr>) (room_members db)\<rparr>"

definition send_room_message ::
  "uuid \<Rightarrow> uuid \<Rightarrow> uuid \<Rightarrow> string \<Rightarrow> instant \<Rightarrow> db \<Rightarrow> (room_message \<times> db) result" where
  "send_room_message mid room_id sender body now db =
     and_then (ensure_room_member_conn db room_id sender) (\<lambda>_.
     let trimmed = trim body in
     if trimmed = [] then Inl (BadRequest ''Message content cannot be empty'')
     else
       and_then (ensure_text_is_allowed ''room message'' trimmed) (\<lambda>_.
       if find_row rmsg_id (room_messages db) mid \<noteq> None then Inl (Database UniqueViolation)
       else if \<not> user_exists db sender then Inl (Database ForeignKeyViolation)
       else
         let message = \<lparr>rmsg_id = mid, rmsg_room_id = room_id, rmsg_sender_id = sender,
               rmsg_content = trimmed, rmsg_deleted_at = None, rmsg_created_at = now\<rparr>;
             db = db\<lparr>room_messages := insert_row message (room_messages db)\<rparr>
         in Inr (message, set_last_read room_id sender now (touch_room room_id now db))))"

definition mark_room_read :: "uuid \<Rightarrow> uuid \<Rightarrow> instant \<Rightarrow> db \<Rightarrow> (int \<times> db) result" where
  "mark_room_read room_id viewer now db =
     (case find_member db room_id viewer of
        None \<Rightarrow> Inl (room_access_error db room_id)
      | Some membership \<Rightarrow>
          Inr (room_unread_count_conn db room_id viewer (rm_last_read_at membership),
               set_last_read room_id viewer now db))"

definition list_room_member_ids :: "db \<Rightarrow> uuid \<Rightarrow> uuid \<Rightarrow> uuid list result" where
  "list_room_member_ids db room_id viewer =
     and_then (ensure_room_member_conn db room_id viewer) (\<lambda>_.
     Inr (map rm_user_id (filter (\<lambda>m. rm_room_id m = room_id) (room_members db))))"

definition drop_room :: "uuid \<Rightarrow> db \<Rightarrow> db" where
  "drop_room room_id db =
     db\<lparr>room_messages := delete_rows (\<lambda>m. rmsg_room_id m = room_id) (room_messages db),
        rooms := delete_rows (\<lambda>r. r_id r = room_id) (rooms db)\<rparr>"

definition leave_room :: "uuid \<Rightarrow> uuid \<Rightarrow> db \<Rightarrow> db result" where
  "leave_room room_id u db =
     (case find_member db room_id u of
        None \<Rightarrow> Inl (room_access_error db room_id)
      | Some _ \<Rightarrow>
          let db = delete_member room_id u db;
              remaining = count_rows (\<lambda>m. rm_room_id m = room_id) (room_members db)
          in Inr (if remaining = 0 then drop_room room_id db else db))"

definition delete_room :: "uuid \<Rightarrow> uuid \<Rightarrow> db \<Rightarrow> db result" where
  "delete_room room_id u db =
     and_then (ok_or NotFound (find_room db room_id)) (\<lambda>room.
     if r_created_by room \<noteq> u then Inl Forbidden
     else Inr (drop_room room_id
       (db\<lparr>room_members := delete_rows (\<lambda>m. rm_room_id m = room_id) (room_members db)\<rparr>)))"

end
