(* ===== verification/Room_Properties.thy ===== *)
theory Room_Properties
  imports Room_Service
begin

text \<open>
  The properties of rooms: the invariant of the three tables, access control, the
  pagination of room messages, read marks, and what happens when members leave.
\<close>

section \<open>The invariant\<close>

definition owner_of :: "db \<Rightarrow> uuid \<Rightarrow> uuid option" where
  "owner_of db k = map_option r_created_by (find_room db k)"

definition is_member :: "db \<Rightarrow> uuid \<Rightarrow> uuid \<Rightarrow> bool" where
  "is_member db room u \<longleftrightarrow> find_member db room u \<noteq> None"

definition member_ok :: "db \<Rightarrow> room_member \<Rightarrow> bool" where
  "member_ok db m \<longleftrightarrow> (case owner_of db (rm_room_id m) of None \<Rightarrow> False
     | Some c \<Rightarrow> rm_role m = (if rm_user_id m = c then ''owner'' else ''member''))"

text \<open>
  Keys are unique, members and messages belong to existing rooms, no room is empty, and the
  role \<open>owner\<close> is held exactly by the creator.
\<close>

definition room_inv :: "db \<Rightarrow> bool" where
  "room_inv db \<longleftrightarrow>
     distinct_key r_id (rooms db) \<and> distinct_key member_key (room_members db) \<and>
     distinct_key rmsg_id (room_messages db) \<and>
     (\<forall>m \<in> set (room_members db). member_ok db m) \<and>
     (\<forall>m \<in> set (room_messages db). owner_of db (rmsg_room_id m) \<noteq> None) \<and>
     (\<forall>k. owner_of db k \<noteq> None \<longrightarrow> (\<exists>m \<in> set (room_members db). rm_room_id m = k))"

lemma is_member_iff:
  "is_member db room u \<longleftrightarrow> (\<exists>m \<in> set (room_members db). member_key m = (room, u))"
  unfolding is_member_def find_row_None by (auto simp: image_iff) metis

lemma owner_of_update:
  assumes "\<And>r. r_id (f r) = r_id r" "\<And>r. r_created_by (f r) = r_created_by r"
  shows "owner_of (db\<lparr>rooms := update_row r_id k f (rooms db)\<rparr>) x = owner_of db x"
  using assms by (simp add: owner_of_def room_table.lookup_modify option.map_comp o_def)

lemma owner_of_irrelevant [simp]:
  "owner_of (db\<lparr>room_members := ms\<rparr>) = owner_of db"
  "owner_of (db\<lparr>room_messages := msgs\<rparr>) = owner_of db"
  by (simp_all add: owner_of_def fun_eq_iff)

lemma member_ok_cong: "(\<And>k. owner_of db' k = owner_of db k) \<Longrightarrow> member_ok db' = member_ok db"
  by (simp add: member_ok_def fun_eq_iff)

lemma member_ok_irrelevant [simp]:
  "member_ok (db\<lparr>room_members := ms\<rparr>) = member_ok db"
  "member_ok (db\<lparr>room_messages := msgs\<rparr>) = member_ok db"
  by (simp_all add: member_ok_def fun_eq_iff)

lemma room_inv_update_room:
  assumes "\<And>r. r_id (f r) = r_id r" "\<And>r. r_created_by (f r) = r_created_by r"
  shows "room_inv (db\<lparr>rooms := update_row r_id k f (rooms db)\<rparr>) = room_inv db"
  using assms owner_of_update [OF assms] member_ok_cong [OF owner_of_update [OF assms]]
  by (simp add: room_inv_def row_simps)

lemma room_inv_touch [simp]: "room_inv (touch_room k now db) = room_inv db"
  unfolding touch_room_def by (rule room_inv_update_room) simp_all

lemma room_inv_set_last_read [simp]: "room_inv (set_last_read k u now db) = room_inv db"
proof -
  let ?f = "\<lambda>m. m\<lparr>rm_last_read_at := Some now\<rparr>"
  let ?g = "\<lambda>m. if member_key m = (k, u) then ?f m else m"
  have d: "distinct_key member_key (update_row member_key (k, u) ?f (room_members db)) =
      distinct_key member_key (room_members db)"
    by (rule distinct_key_update_row) (simp add: member_key_def)
  obtain g where s: "set (update_row member_key (k, u) ?f (room_members db)) = g ` set (room_members db)"
    and g: "\<And>m. member_ok db (g m) = member_ok db m" "\<And>m. rm_room_id (g m) = rm_room_id m"
  proof (rule that [of ?g])
    show "set (update_row member_key (k, u) ?f (room_members db)) = ?g ` set (room_members db)"
      unfolding update_row_def by (rule set_update_rows)
  qed (simp_all add: member_ok_def split: option.split)
  show ?thesis by (simp add: room_inv_def set_last_read_def d s g)
qed

lemma room_inv_members:
  assumes "room_inv db" "distinct_key member_key (room_members db @ records)"
    and "\<And>m. m \<in> set records \<Longrightarrow> member_ok db m"
  shows "room_inv (db\<lparr>room_members := room_members db @ records\<rparr>)"
  using assms by (auto simp: room_inv_def)

lemma insert_members_eq:
  assumes "insert_members records db = Inr db'"
  shows "db' = db\<lparr>room_members := room_members db @ records\<rparr>"
    "distinct_key member_key (room_members db) \<Longrightarrow> distinct_key member_key (room_members db @ records)"
  using assms
  by (auto simp: insert_members_def distinct_key_def list_ex_iff find_row_None split: if_splits)

lemma room_inv_delete_member:
  assumes "room_inv db" "\<exists>m \<in> set (room_members db). rm_room_id m = k \<and> rm_user_id m \<noteq> u"
  shows "room_inv (delete_member k u db)"
proof -
  have "\<exists>m \<in> set (delete_rows (\<lambda>m. member_key m = (k, u)) (room_members db)). rm_room_id m = x"
    if "\<exists>m \<in> set (room_members db). rm_room_id m = x" for x
    using that assms(2) by (cases "x = k") (auto simp: member_key_def)
  then show ?thesis
    using assms(1) by (auto simp: room_inv_def delete_member_def intro: distinct_key_delete)
qed

lemma owner_of_drop: "owner_of (drop_room k db) x = (if x = k then None else owner_of db x)"
  by (simp add: owner_of_def drop_room_def row_simps)

lemma room_inv_drop:
  assumes "room_inv db"
  shows "room_inv (drop_room k
    (db\<lparr>room_members := delete_rows (\<lambda>m. rm_room_id m = k) (room_members db)\<rparr>))"
proof -
  let ?db = "drop_room k (db\<lparr>room_members := delete_rows (\<lambda>m. rm_room_id m = k) (room_members db)\<rparr>)"
  have "member_ok ?db m = member_ok db m" if "rm_room_id m \<noteq> k" for m
    using that by (simp add: member_ok_def owner_of_drop)
  then show ?thesis
    using assms unfolding room_inv_def owner_of_drop
    by (auto simp: drop_room_def intro: distinct_key_delete)
qed

section \<open>Access\<close>

lemma ensure_room_member_eq [result_simps]:
  "ensure_room_member_conn db k u = Inr r \<longleftrightarrow> find_room db k = Some r \<and> is_member db k u"
  by (auto simp: ensure_room_member_conn_def is_member_def result_simps)

lemma ensure_room_member_outsider:
  "\<not> is_member db k u \<Longrightarrow> ensure_room_member_conn db k u = Inl (room_access_error db k)"
  by (auto simp: ensure_room_member_conn_def is_member_def room_access_error_def split: option.splits)


definition sample_rooms :: db where
  "sample_rooms = sample_db\<lparr>
     rooms := [\<lparr>r_id = 30, r_name = ''tea'', r_created_by = 1, r_created_at = 0, r_updated_at = 0\<rparr>],
     room_members :=
       [\<lparr>rm_room_id = 30, rm_user_id = 1, rm_role = ''owner'', rm_joined_at = 0, rm_last_read_at = Some 0\<rparr>,
        \<lparr>rm_room_id = 30, rm_user_id = 2, rm_role = ''member'', rm_joined_at = 0, rm_last_read_at = Some 0\<rparr>]\<rparr>"


text \<open>
  Only the creator manages a room: for any other user renaming it, adding or removing
  members and deleting it fail with \<open>Forbidden\<close>, or \<open>NotFound\<close> when there is no such room.
\<close>

theorem room_managed_by_creator:
  assumes "owner_of db k \<noteq> Some u"
  shows "let e = (if find_room db k = None then NotFound else Forbidden) in
    rename_room k u name now db = Inl e \<and> add_room_members k u us now db = Inl e \<and>
    remove_room_member k u v now db = Inl e \<and> delete_room k u db = Inl e"
proof (cases "find_room db k")
  case None
  then show ?thesis
    by (simp add: rename_room_def add_room_members_def remove_room_member_def delete_room_def
        ensure_room_member_conn_def)
next
  case (Some r)
  then have "r_created_by r \<noteq> u" using assms by (simp add: owner_of_def)
  with Some show ?thesis
    by (simp add: rename_room_def add_room_members_def remove_room_member_def delete_room_def
        ensure_room_member_conn_def)
qed

theorem room_managed_by_creator_witness:
  "rename_room 30 2 ''coffee'' 5 sample_rooms = Inl Forbidden \<and> delete_room 30 2 sample_rooms = Inl Forbidden"
proof -
  have "owner_of sample_rooms 30 \<noteq> Some 2" "find_room sample_rooms 30 \<noteq> None" by code_simp+
  then show ?thesis using room_managed_by_creator [of sample_rooms 30 2] by (simp add: Let_def)
qed

section \<open>Reachable states\<close>

inductive room_step :: "db \<Rightarrow> db \<Rightarrow> bool" where
  create: "create_room rid u name ids now db = Inr (d, db') \<Longrightarrow> room_step db db'"
| rename: "rename_room k u name now db = Inr (d, db') \<Longrightarrow> room_step db db'"
| add: "add_room_members k u ids now db = Inr (d, db') \<Longrightarrow> room_step db db'"
| remove: "remove_room_member k u v now db = Inr (d, db') \<Longrightarrow> room_step db db'"
| send: "send_room_message mid k u body now db = Inr (m, db') \<Longrightarrow> room_step db db'"
| mark: "mark_room_read k u now db = Inr (n, db') \<Longrightarrow> room_step db db'"
| leave: "leave_room k u db = Inr db' \<Longrightarrow> room_step db db'"
| delete: "delete_room k u db = Inr db' \<Longrightarrow> room_step db db'"

lemma create_room_inv:
  assumes "create_room rid u name ids now db = Inr (d, db')" "room_inv db"
  shows "room_inv db'"
proof -
  let ?ids = "normalize_member_ids u ids"
  let ?rec = "map (\<lambda>x. \<lparr>rm_room_id = rid, rm_user_id = x,
      rm_role = (if x = u then ''owner'' else ''member''), rm_joined_at = now,
      rm_last_read_at = Some now\<rparr>) ?ids"
  from assms(1) obtain nm where new: "find_room db rid = None"
    and ins: "insert_members ?rec (db\<lparr>rooms := insert_row \<lparr>r_id = rid, r_name = nm, r_created_by = u,
        r_created_at = now, r_updated_at = now\<rparr> (rooms db)\<rparr>) = Inr db'"
    by (auto simp: create_room_def result_simps Let_def split: if_splits)
  let ?db = "db\<lparr>rooms := insert_row \<lparr>r_id = rid, r_name = nm, r_created_by = u,
        r_created_at = now, r_updated_at = now\<rparr> (rooms db)\<rparr>"
  have own: "owner_of ?db x = (if x = rid then Some u else owner_of db x)" for x
    using new by (simp add: owner_of_def row_simps split: option.splits)
  have db': "db' = ?db\<lparr>room_members := room_members db @ ?rec\<rparr>"
    using insert_members_eq(1) [OF ins] by simp
  have dk: "distinct_key member_key (room_members db @ ?rec)"
    using insert_members_eq(2) [OF ins] assms(2) by (simp add: room_inv_def)
  have "owner_of db rid = None" using new by (simp add: owner_of_def)
  then have old: "member_ok ?db m" if "member_ok db m" for m
    using that by (auto simp: member_ok_def own split: option.splits)
  have "u \<in> set ?ids" by (simp add: normalize_member_ids_def)
  then have "\<exists>m \<in> set ?rec. rm_room_id m = rid" by auto
  moreover have "member_ok ?db m" if "m \<in> set ?rec" for m
    using that by (auto simp: member_ok_def own)
  moreover obtain ms where ms: "ms = ?rec" by simp
  ultimately have "\<exists>m \<in> set ms. rm_room_id m = rid" "\<And>m. m \<in> set ms \<Longrightarrow> member_ok ?db m" by simp_all
  then show ?thesis
    using assms(2) dk old new unfolding room_inv_def db' ms [symmetric]
    by (auto simp: own row_simps)
qed

lemma add_room_members_inv:
  assumes "add_room_members k u ids now db = Inr (d, db')" "room_inv db"
  shows "room_inv db'"
proof -
  from assms(1) have own: "owner_of db k = Some u"
    by (auto simp: add_room_members_def owner_of_def result_simps split: if_splits)
  let ?fresh = "filter (\<lambda>x. find_member db k x = None) (btree_set (filter (\<lambda>x. x \<noteq> u) ids))"
  let ?rec = "map (\<lambda>x. \<lparr>rm_room_id = k, rm_user_id = x, rm_role = ''member'',
                rm_joined_at = now, rm_last_read_at = Some now\<rparr>) ?fresh"
  from assms(1) consider "db' = db" | db1 where "insert_members ?rec db = Inr db1"
    "db' = touch_room k now db1"
    by (auto simp: add_room_members_def Let_def result_simps split: if_splits)
  then show ?thesis
  proof cases
    case 1
    with assms(2) show ?thesis by simp
  next
    case 2
    have "room_inv (db\<lparr>room_members := room_members db @ ?rec\<rparr>)"
      using insert_members_eq(2) [OF 2(1)] assms(2) own
      by (intro room_inv_members) (auto simp: room_inv_def member_ok_def)
    then show ?thesis using 2(2) insert_members_eq(1) [OF 2(1)] by simp
  qed
qed

lemma leave_room_inv:
  assumes "leave_room k u db = Inr db'" "room_inv db"
  shows "room_inv db'"
proof (cases "\<exists>m \<in> set (room_members db). rm_room_id m = k \<and> rm_user_id m \<noteq> u")
  case True
  then have "count_rows (\<lambda>m. rm_room_id m = k) (room_members (delete_member k u db)) \<noteq> 0"
    by (auto simp: count_rows_0_iff delete_member_def member_key_def)
  then have "db' = delete_member k u db"
    using assms(1) by (auto simp: leave_room_def Let_def split: option.splits)
  then show ?thesis using room_inv_delete_member [OF assms(2) True] by simp
next
  case False
  then have "delete_rows (\<lambda>m. member_key m = (k, u)) (room_members db) =
      delete_rows (\<lambda>m. rm_room_id m = k) (room_members db)"
    unfolding delete_rows_def by (intro filter_cong) (auto simp: member_key_def)
  moreover have "count_rows (\<lambda>m. rm_room_id m = k) (room_members (delete_member k u db)) = 0"
    using False by (auto simp: count_rows_0_iff delete_member_def member_key_def)
  ultimately show ?thesis
    using assms room_inv_drop [OF assms(2), of k]
    by (auto simp: leave_room_def Let_def delete_member_def split: option.splits)
qed

lemma send_room_message_inv:
  assumes "send_room_message mid k u body now db = Inr (m, db')" "room_inv db"
  shows "room_inv db'"
proof -
  from assms(1) have own: "owner_of db k \<noteq> None" and
    new: "find_row rmsg_id (room_messages db) mid = None" and
    db': "db' = set_last_read k u now (touch_room k now
      (db\<lparr>room_messages := insert_row m (room_messages db)\<rparr>))" and m: "rmsg_id m = mid" "rmsg_room_id m = k"
    by (auto simp: send_room_message_def owner_of_def result_simps Let_def split: if_splits)
  have "room_inv (db\<lparr>room_messages := insert_row m (room_messages db)\<rparr>)"
    using assms(2) own new m by (auto simp: room_inv_def row_simps)
  then show ?thesis by (simp add: db')
qed

lemma remove_room_member_inv:
  assumes "remove_room_member k u v now db = Inr (d, db')" "room_inv db"
  shows "room_inv db'"
proof -
  from assms(1) have m: "is_member db k u" "v \<noteq> u" and db': "db' = touch_room k now (delete_member k v db)"
    by (auto simp: remove_room_member_def result_simps Let_def split: if_splits)
  have "\<exists>m \<in> set (room_members db). rm_room_id m = k \<and> rm_user_id m \<noteq> v"
    using m by (auto simp: is_member_iff member_key_def)
  then show ?thesis using room_inv_delete_member [OF assms(2)] by (simp add: db')
qed

lemma room_step_inv:
  assumes "room_inv db" "room_step db db'"
  shows "room_inv db'"
  using assms(2)
proof cases
  case create then show ?thesis using create_room_inv assms(1) by blast
next
  case add then show ?thesis using add_room_members_inv assms(1) by blast
next
  case (rename k u name now d)
  have "room_inv (db\<lparr>rooms := update_row r_id k (\<lambda>r. r\<lparr>r_name := nm, r_updated_at := now\<rparr>) (rooms db)\<rparr>)"
    for nm
    using assms(1) by (simp add: room_inv_update_room)
  with rename assms(1) show ?thesis
    by (auto simp: rename_room_def result_simps Let_def split: if_splits)
next
  case remove then show ?thesis using remove_room_member_inv assms(1) by blast
next
  case send then show ?thesis using send_room_message_inv assms(1) by blast
next
  case mark then show ?thesis using assms(1) by (auto simp: mark_room_read_def split: option.splits)
next
  case leave then show ?thesis using leave_room_inv assms(1) by blast
next
  case delete
  then show ?thesis
    using room_inv_drop [OF assms(1)] by (auto simp: delete_room_def result_simps split: if_splits)
qed

interpretation room_machine: machine
    "\<lambda>db. rooms db = [] \<and> room_members db = [] \<and> room_messages db = []" room_step room_inv
proof unfold_locales
  show "rooms s = [] \<and> room_members s = [] \<and> room_messages s = [] \<Longrightarrow> room_inv s" for s
    by (simp add: room_inv_def distinct_key_def owner_of_def find_row_def)
qed (rule room_step_inv)

text \<open>
  [C17] The room tables stay consistent under every sequence of room operations: every
  membership and every message belongs to an existing room, a user is a member of a room at
  most once, no room is ever left without members, and the role \<open>owner\<close> is held by the
  creator and nobody else.
\<close>

theorem room_tables_consistent:
  assumes "rooms db = [] \<and> room_members db = [] \<and> room_messages db = []" "room_step\<^sup>*\<^sup>* db db'"
  shows "(\<forall>m \<in> set (room_members db'). \<exists>r \<in> set (rooms db'). r_id r = rm_room_id m \<and>
       (rm_role m = ''owner'' \<longleftrightarrow> rm_user_id m = r_created_by r)) \<and>
    (\<forall>m \<in> set (room_messages db'). \<exists>r \<in> set (rooms db'). r_id r = rmsg_room_id m) \<and>
    (\<forall>r \<in> set (rooms db'). \<exists>m \<in> set (room_members db'). rm_room_id m = r_id r) \<and>
    distinct (map (\<lambda>m. (rm_room_id m, rm_user_id m)) (room_members db')) \<and>
    distinct (map r_id (rooms db'))"
proof -
  have inv: "room_inv db'" by (rule room_machine.inv_reachable [OF assms])
  have own: "owner_of db' k = Some c \<Longrightarrow> \<exists>r \<in> set (rooms db'). r_id r = k \<and> r_created_by r = c" for k c
    by (auto simp: owner_of_def dest: find_row_Some)
  have own': "r \<in> set (rooms db') \<Longrightarrow> owner_of db' (r_id r) \<noteq> None" for r
    using inv by (auto simp: owner_of_def room_inv_def dest: find_row_distinct)
  have "\<exists>r \<in> set (rooms db'). r_id r = rm_room_id m \<and> (rm_role m = ''owner'' \<longleftrightarrow> rm_user_id m = r_created_by r)"
    if "m \<in> set (room_members db')" for m
  proof -
    from inv that obtain c where "owner_of db' (rm_room_id m) = Some c"
      "rm_role m = (if rm_user_id m = c then ''owner'' else ''member'')"
      by (auto simp: room_inv_def member_ok_def split: option.splits)
    with own [of "rm_room_id m" c] show ?thesis by (auto split: if_splits)
  qed
  moreover have "\<exists>r \<in> set (rooms db'). r_id r = rmsg_room_id m" if "m \<in> set (room_messages db')" for m
  proof -
    from inv that obtain c where "owner_of db' (rmsg_room_id m) = Some c" by (auto simp: room_inv_def)
    from own [OF this] show ?thesis by blast
  qed
  ultimately show ?thesis
    using inv own' by (auto simp: room_inv_def distinct_key_def member_key_def [abs_def])
qed

theorem room_tables_consistent_witness:
  "\<exists>db'. room_step\<^sup>*\<^sup>* sample_db db' \<and> length (rooms db') = 1 \<and>
     (\<forall>r \<in> set (rooms db'). \<exists>m \<in> set (room_members db'). rm_room_id m = r_id r)"
proof -
  let ?c = "create_room 30 1 '' tea '' [2, 2, 1] 5 sample_db"
  have "case ?c of Inl _ \<Rightarrow> False | Inr (_, db') \<Rightarrow> length (rooms db') = 1" by code_simp
  then obtain d db' where c: "?c = Inr (d, db')" "length (rooms db') = 1" by (auto split: sum.splits)
  have s: "room_step\<^sup>*\<^sup>* sample_db db'" using room_step.create [OF c(1)] by blast
  have "rooms sample_db = [] \<and> room_members sample_db = [] \<and> room_messages sample_db = []"
    by (simp add: sample_db_def empty_db_def)
  from room_tables_consistent [OF this s] s c(2) show ?thesis by blast
qed

section \<open>Messages of a room\<close>

definition room_listing :: "db \<times> uuid \<times> uuid \<Rightarrow> room_message list" where
  "room_listing s = (case s of (db, room, viewer) \<Rightarrow>
     newest_first room_message_cursor (visible_messages db room viewer))"

definition room_listing_ok :: "db \<times> uuid \<times> uuid \<Rightarrow> bool" where
  "room_listing_ok s = (case s of (db, room, viewer) \<Rightarrow>
     distinct_key rmsg_id (room_messages db) \<and> find_room db room \<noteq> None \<and> is_member db room viewer)"

lemma room_cursor_inj:
  "distinct_key rmsg_id rows \<Longrightarrow> distinct (map room_message_cursor (filter P rows))"
  by (induction rows) (auto simp: distinct_key_def room_message_cursor_def image_iff)

interpretation room_pages: paginated room_message_cursor rmsg_id room_listing_ok room_listing
    "\<lambda>(db, room, viewer). get_room_messages db room viewer"
proof unfold_locales
  fix s :: "db \<times> uuid \<times> uuid" and l :: nat and r :: room_message
  obtain db k u where s: "s = (db, k, u)" by (cases s)
  assume "room_listing_ok s"
  then obtain room where d: "distinct_key rmsg_id (room_messages db)"
    and e: "ensure_room_member_conn db k u = Inr room"
    by (auto simp: s room_listing_ok_def result_simps)
  show "(case s of (db, room, viewer) \<Rightarrow> get_room_messages db room viewer) None l =
      Inr (take (min l 100) (room_listing s))"
    using e by (simp add: s get_room_messages_def room_listing_def page_def Let_def)
  show "sorted_wrt (\<lambda>a b. room_message_cursor b < room_message_cursor a) (room_listing s)"
    using room_cursor_inj [OF d] by (simp add: s room_listing_def visible_messages_def sorted_newest_first)
  assume "r \<in> set (room_listing s)"
  then have "r \<in> set (room_messages db)" "rmsg_room_id r = k"
    by (simp_all add: s room_listing_def visible_messages_def)
  moreover have "find_row rmsg_id (room_messages db) (rmsg_id r) = Some r"
    using calculation(1) by (rule find_row_distinct [OF d])
  ultimately show "(case s of (db, room, viewer) \<Rightarrow> get_room_messages db room viewer) (Some (rmsg_id r)) l =
      Inr (take (min l 100) (filter (\<lambda>x. room_message_cursor x < room_message_cursor r) (room_listing s)))"
    using e newest_first_filter [of room_message_cursor _ "visible_messages db k u"]
    by (simp add: s get_room_messages_def room_listing_def page_def Let_def room_message_cursor_def [of r])
qed

text \<open>
  Scrolling through a room shows a member every visible message exactly once, newest first,
  page by page, where deleted messages and those of users the viewer blocks are not visible.
\<close>

theorem room_pages_complete:
  assumes "distinct_key rmsg_id (room_messages db)" "find_room db k \<noteq> None" "is_member db k u"
    and "0 < l" "l \<le> 100"
  shows "browse (get_room_messages db k u) rmsg_id l None n =
    Inr (take (n * l) (newest_first room_message_cursor (visible_messages db k u)))"
  using room_pages.browse_complete [of "(db, k, u)" l n] assms
  by (simp add: room_listing_ok_def room_listing_def)

definition two_messages :: db where
  "two_messages = sample_rooms\<lparr>room_messages :=
     [\<lparr>rmsg_id = 50, rmsg_room_id = 30, rmsg_sender_id = 1, rmsg_content = ''x'', rmsg_deleted_at = None,
       rmsg_created_at = 3\<rparr>,
      \<lparr>rmsg_id = 51, rmsg_room_id = 30, rmsg_sender_id = 2, rmsg_content = ''y'', rmsg_deleted_at = None,
       rmsg_created_at = 4\<rparr>]\<rparr>"

theorem room_pages_complete_witness:
  "browse (get_room_messages two_messages 30 2) rmsg_id 1 None 5 =
    Inr (rev (room_messages two_messages))"
proof -
  have a: "distinct_key rmsg_id (room_messages two_messages)" "find_room two_messages 30 \<noteq> None"
    "is_member two_messages 30 2"
    "take (5 * 1) (newest_first room_message_cursor (visible_messages two_messages 30 2))
      = rev (room_messages two_messages)"
    by code_simp+
  show ?thesis using room_pages_complete [OF a(1-3), of 1 5] a(4) by simp
qed

section \<open>Read marks and leaving\<close>

lemma find_member_set_last_read:
  "find_member (set_last_read k u now db) k x = (if x = u then map_option (\<lambda>m. m\<lparr>rm_last_read_at := Some now\<rparr>)
      (find_member db k x) else find_member db k x)"
proof -
  have "member_key (m\<lparr>rm_last_read_at := Some now\<rparr>) = member_key m" for m by (simp add: member_key_def)
  from member_table.lookup_modify [of "\<lambda>m. m\<lparr>rm_last_read_at := Some now\<rparr>", OF this] show ?thesis
    by (simp add: set_last_read_def)
qed

text \<open>
  A new room message is unread for every other member who does not block its sender and
  read for the sender: after \<open>send_room_message\<close> at a time after the member's last read mark,
  the member's unread count grew by one and the sender's is zero when no later message exists;
  after \<open>mark_room_read\<close> the reader's count is zero.
\<close>

theorem room_unread_exact:
  assumes "send_room_message mid k s body now db = Inr (m, db')" "find_member db k v = Some mem"
    and "v \<noteq> s" "\<forall>x \<in> set (room_messages db). rmsg_created_at x \<le> now"
    and "(case rm_last_read_at mem of None \<Rightarrow> True | Some t \<Rightarrow> t < now)"
  shows "room_unread_count_conn db' k v (rm_last_read_at mem) =
      room_unread_count_conn db k v (rm_last_read_at mem) +
        (if s \<in> list_blocked_user_ids db v then 0 else 1) \<and>
    (\<exists>ms. find_member db' k s = Some ms \<and> room_unread_count_conn db' k s (rm_last_read_at ms) = 0) \<and>
    (\<exists>mv n db''. mark_room_read k v now db' = Inr (n, db'') \<and> find_member db'' k v = Some mv \<and>
       n = room_unread_count_conn db' k v (rm_last_read_at mem) \<and>
       room_unread_count_conn db'' k v (rm_last_read_at mv) = 0)"
proof -
  from assms(1) have m: "rmsg_room_id m = k" "rmsg_sender_id m = s" "rmsg_deleted_at m = None"
      "rmsg_created_at m = now"
    and db': "db' = set_last_read k s now (touch_room k now
      (db\<lparr>room_messages := insert_row m (room_messages db)\<rparr>))"
    and s: "is_member db k s"
    by (auto simp: send_room_message_def result_simps Let_def split: if_splits)
  have msgs: "room_messages db' = insert_row m (room_messages db)"
    and blocks: "list_blocked_user_ids db' = list_blocked_user_ids db"
    by (simp_all add: db' set_last_read_def touch_room_def list_blocked_user_ids_def fun_eq_iff)
  have late: "room_unread_count_conn db' k x (Some now) = 0" for x
    unfolding room_unread_count_conn_def count_rows_0_iff using assms(4) by (auto simp: msgs m)
  have look: "find_member db' k x = (if x = s then map_option (\<lambda>y. y\<lparr>rm_last_read_at := Some now\<rparr>)
      (find_member db k x) else find_member db k x)" for x
    using find_member_set_last_read by (simp add: db' touch_room_def)
  obtain ms where ms: "find_member db' k s = Some ms" "rm_last_read_at ms = Some now"
    using s look [of s] by (auto simp: is_member_def)
  have v: "find_member db' k v = Some mem" using look [of v] assms(2,3) by simp
  have "room_unread_count_conn db' k v (rm_last_read_at mem) =
      room_unread_count_conn db k v (rm_last_read_at mem) + (if s \<in> list_blocked_user_ids db v then 0 else 1)"
    using assms(3,5) by (auto simp: room_unread_count_conn_def msgs blocks count_rows_insert m split: option.splits)
  moreover have "room_unread_count_conn (set_last_read k v now db') k v (Some now) = 0"
    using late [of v] by (simp add: room_unread_count_conn_def set_last_read_def list_blocked_user_ids_def)
  ultimately show ?thesis
    using ms late [of s] v find_member_set_last_read [of k v now db' v] by (auto simp: mark_room_read_def)
qed

theorem room_unread_exact_witness:
  "\<exists>m db'. send_room_message 60 30 1 '' hello '' 9 two_messages = Inr (m, db') \<and>
     room_unread_count_conn db' 30 2 (Some 0) = 2"
proof -
  have "is_ok (send_room_message 60 30 1 '' hello '' 9 two_messages)" by code_simp
  then obtain m db' where r: "send_room_message 60 30 1 '' hello '' 9 two_messages = Inr (m, db')"
    by (auto simp: is_ok_iff)
  let ?mem = "\<lparr>rm_room_id = 30, rm_user_id = 2, rm_role = ''member'', rm_joined_at = 0, rm_last_read_at = Some 0\<rparr>"
  have a: "find_member two_messages 30 2 = Some ?mem"
    "list_all (\<lambda>x. rmsg_created_at x \<le> 9) (room_messages two_messages)"
    "room_unread_count_conn two_messages 30 2 (Some 0) = 1" "1 \<notin> list_blocked_user_ids two_messages 2"
    by code_simp+
  show ?thesis using room_unread_exact [OF r a(1)] a(2-4) r by (auto simp: list_all_iff)
qed

text \<open>
  When the creator leaves a room that has other members, the room survives without anyone
  who can manage it: no user can rename it or change its members any more, while the creator,
  now an outsider, can still delete it.
\<close>

theorem creator_leaves_room_unmanaged:
  assumes "leave_room k c db = Inr db'" "owner_of db k = Some c" "is_member db k v" "v \<noteq> c"
  shows "is_member db' k v \<and> \<not> is_member db' k c \<and>
    (\<forall>u name us w t. \<not> is_ok (rename_room k u name t db') \<and> \<not> is_ok (add_room_members k u us t db') \<and>
       \<not> is_ok (remove_room_member k u w t db')) \<and>
    is_ok (delete_room k c db')"
proof -
  have "\<exists>m \<in> set (room_members db). rm_room_id m = k \<and> rm_user_id m \<noteq> c"
    using assms(3,4) by (auto simp: is_member_iff member_key_def)
  then have "count_rows (\<lambda>m. rm_room_id m = k) (room_members (delete_member k c db)) \<noteq> 0"
    by (auto simp: count_rows_0_iff delete_member_def member_key_def)
  then have db': "db' = delete_member k c db"
    using assms(1) by (auto simp: leave_room_def Let_def split: option.splits)
  have mem: "is_member db' k x \<longleftrightarrow> is_member db k x \<and> x \<noteq> c" for x
    by (auto simp: db' delete_member_def is_member_iff)
  have own: "owner_of db' k = Some c" using assms(2) by (simp add: db' delete_member_def)
  have no: "ensure_room_member_conn db' k u = Inr r \<Longrightarrow> r_created_by r \<noteq> u" for u r
    using own mem by (auto simp: result_simps owner_of_def)
  have "\<not> is_ok (rename_room k u name t db') \<and> \<not> is_ok (add_room_members k u us t db') \<and>
       \<not> is_ok (remove_room_member k u w t db')" for u name us w t
    using no by (cases "ensure_room_member_conn db' k u")
      (auto simp: rename_room_def add_room_members_def remove_room_member_def)
  moreover have "is_ok (delete_room k c db')"
    using own by (auto simp: delete_room_def owner_of_def)
  ultimately show ?thesis using mem assms(3,4) by blast
qed

theorem creator_leaves_room_unmanaged_witness:
  "\<exists>db'. leave_room 30 1 sample_rooms = Inr db' \<and> is_member db' 30 2 \<and>
     \<not> is_ok (rename_room 30 2 ''mine'' 5 db')"
proof -
  have a: "is_ok (leave_room 30 1 sample_rooms)" "owner_of sample_rooms 30 = Some 1"
    "is_member sample_rooms 30 2"
    by code_simp+
  then obtain db' where "leave_room 30 1 sample_rooms = Inr db'" by (auto simp: is_ok_iff)
  with creator_leaves_room_unmanaged [OF this a(2,3)] show ?thesis by auto
qed

end
