(* ===== verification/User_Service.thy ===== *)
theory User_Service
  imports Schema
begin

text \<open>
  Accounts: src/src/services/user_service.rs and src/src/models/user.rs. Lookups, creation
  under the user cap, the shadow accounts of federated contacts, profile updates and the
  deletion of an account with the cascades that the migrations declare.

  SHA-256 in hexadecimal (\<open>sha256_hex\<close>) and the URL parser of \<open>reqwest\<close> (\<open>parse_url\<close>: the
  error text, or the host if the URL has one) are parameters.
\<close>

section \<open>Public views\<close>

record user_public =
  up_id :: uuid
  up_username :: string
  up_email :: string
  up_avatar_base64 :: "string option"
  up_role :: string
  up_is_active :: bool
  up_is_approved :: bool
  up_created_at :: instant

definition user_public_of :: "user \<Rightarrow> user_public" where
  "user_public_of u =
     \<lparr>up_id = u_id u, up_username = u_username u, up_email = u_email u,
      up_avatar_base64 = u_avatar_base64 u, up_role = u_role u, up_is_active = u_is_active u,
      up_is_approved = u_is_approved u, up_created_at = u_created_at u\<rparr>"

section \<open>Federated identities\<close>

record federated_identity =
  fi_remote_user_id :: string
  fi_remote_host :: string

definition FEDERATED_SHADOW_EMAIL_DOMAIN :: string where
  "FEDERATED_SHADOW_EMAIL_DOMAIN = ''federated.sync.invalid''"

definition FEDERATED_DISABLED_PASSWORD_HASH :: string where
  "FEDERATED_DISABLED_PASSWORD_HASH =
     ''$2b$12$rMj14yi8T5IeDV.9xR4Lxehx2Y8M7vY4QfPh6UfZIe8TVfEfHE7Ni''"

definition user_id_char :: "char \<Rightarrow> bool" where
  "user_id_char c \<longleftrightarrow> is_ascii_alphanumeric c \<or> c = CHR ''.'' \<or> c = CHR ''_'' \<or> c = CHR ''-''"

definition host_char :: "char \<Rightarrow> bool" where
  "host_char c \<longleftrightarrow> is_ascii_alphanumeric c \<or> c = CHR ''.'' \<or> c = CHR ''-''"

definition normalize_remote_user_id :: "string \<Rightarrow> string result" where
  "normalize_remote_user_id raw =
    (let normalized = to_lowercase (trim raw)
     in if normalized = [] then Inl (BadRequest ''recipient_id cannot be empty'')
        else if \<not> list_all user_id_char normalized
        then Inl (BadRequest ''recipient_id contains unsupported characters'')
        else Inr normalized)"

definition normalize_remote_host :: "(string \<Rightarrow> string + string option) \<Rightarrow> string \<Rightarrow> string result" where
  "normalize_remote_host parse_url server_url =
    (case parse_url (trim server_url) of
       Inl e \<Rightarrow> Inl (BadRequest (''Invalid recipient_server_url: '' @ e))
     | Inr None \<Rightarrow> Inl (BadRequest ''recipient_server_url must include host'')
     | Inr (Some host) \<Rightarrow> Inr (to_lowercase host))"

definition federated_shadow_username :: "string \<Rightarrow> string \<Rightarrow> string" where
  "federated_shadow_username remote_user_id remote_host = remote_user_id @ ''@'' @ remote_host"

definition federated_shadow_email :: "(string \<Rightarrow> string) \<Rightarrow> string \<Rightarrow> string" where
  "federated_shadow_email sha256_hex username =
     ''fed+'' @ take 32 (sha256_hex username) @ ''@'' @ FEDERATED_SHADOW_EMAIL_DOMAIN"

text \<open>\<open>split_once\<close> cuts at the first occurrence of the separator.\<close>

definition split_once :: "char \<Rightarrow> string \<Rightarrow> (string \<times> string) option" where
  "split_once c s =
     (if c \<in> set s then Some (takeWhile (\<lambda>x. x \<noteq> c) s, tl (dropWhile (\<lambda>x. x \<noteq> c) s)) else None)"

definition parse_federated_shadow_username :: "string \<Rightarrow> federated_identity option" where
  "parse_federated_shadow_username username =
    (case split_once CHR ''@'' username of
       None \<Rightarrow> None
     | Some (remote_user_id, remote_host) \<Rightarrow>
         if remote_user_id = [] \<or> remote_host = [] then None
         else if \<not> list_all user_id_char remote_user_id then None
         else if \<not> list_all host_char remote_host then None
         else Some \<lparr>fi_remote_user_id = remote_user_id, fi_remote_host = remote_host\<rparr>)"

definition federated_identity_for_user :: "user \<Rightarrow> federated_identity option" where
  "federated_identity_for_user u =
     (if \<not> ends_with (u_email u) FEDERATED_SHADOW_EMAIL_DOMAIN then None
      else parse_federated_shadow_username (u_username u))"

section \<open>Lookups\<close>

definition find_by_email :: "db \<Rightarrow> string \<Rightarrow> user option" where
  "find_by_email db email = List.find (\<lambda>u. u_email u = email \<and> u_is_active u) (users db)"

definition find_by_username :: "db \<Rightarrow> string \<Rightarrow> user option" where
  "find_by_username db username = find_row u_username (users db) username"

definition find_by_device_auth_pubkey :: "db \<Rightarrow> string \<Rightarrow> user option" where
  "find_by_device_auth_pubkey db pubkey = find_row u_device_auth_pubkey (users db) (Some pubkey)"

section \<open>Creation\<close>

text \<open>
  \<open>insert_into(users)\<close>: the columns that \<open>NewUser\<close> leaves out take the defaults of the
  migrations; the role is checked, then the keys (the public key only where there is one).
\<close>

definition user_of_new :: "new_user \<Rightarrow> instant \<Rightarrow> user" where
  "user_of_new n now =
     \<lparr>u_id = nu_id n, u_username = nu_username n, u_email = nu_email n,
      u_password_hash = nu_password_hash n, u_avatar_base64 = None, u_description = None,
      u_message_public_key = None, u_role = nu_role n, u_is_active = True, u_created_at = now,
      u_updated_at = now, u_last_seen_at = None, u_device_auth_pubkey = nu_device_auth_pubkey n,
      u_is_approved = nu_is_approved n, u_ugc_terms_accepted_at = None, u_ugc_terms_version = 0,
      u_dm_restricted_until = None, u_safety_warning_count = 0, u_yellow_card_expires_at = None\<rparr>"

definition user_key_clash :: "user \<Rightarrow> user \<Rightarrow> bool" where
  "user_key_clash a b \<longleftrightarrow> u_id a = u_id b \<or> u_username a = u_username b \<or> u_email a = u_email b \<or>
     (u_device_auth_pubkey a \<noteq> None \<and> u_device_auth_pubkey a = u_device_auth_pubkey b)"

definition insert_user :: "new_user \<Rightarrow> instant \<Rightarrow> db \<Rightarrow> (user \<times> db) result" where
  "insert_user n now db =
    (let u = user_of_new n now
     in if nu_role n \<notin> {''admin'', ''user'', ''moderator''} then Inl (Database CheckViolation)
        else if exists_row (user_key_clash u) (users db) then Inl (Database UniqueViolation)
        else Inr (u, db\<lparr>users := insert_row u (users db)\<rparr>))"

definition create_user :: "new_user \<Rightarrow> nat option \<Rightarrow> instant \<Rightarrow> db \<Rightarrow> (user \<times> db) result" where
  "create_user n max_users now db =
    (if (case max_users of None \<Rightarrow> False | Some cap \<Rightarrow> length (users db) \<ge> cap)
     then Inl (Conflict (''Instance user limit reached (max_users='' @ show_nat (the max_users) @ '')''))
     else case insert_user n now db of
         Inl (Database UniqueViolation) \<Rightarrow> Inl (Conflict ''Email or username already taken'')
       | r \<Rightarrow> r)"

definition ensure_federated_shadow_user ::
  "(string \<Rightarrow> string) \<Rightarrow> (string \<Rightarrow> string + string option) \<Rightarrow> uuid \<Rightarrow> string \<Rightarrow> string \<Rightarrow> instant \<Rightarrow> db \<Rightarrow>
     (user \<times> db) result" where
  "ensure_federated_shadow_user sha256_hex parse_url fresh_id remote_user_id remote_server_url now db =
     and_then (normalize_remote_user_id remote_user_id) (\<lambda>rid.
     and_then (normalize_remote_host parse_url remote_server_url) (\<lambda>host.
     let shadow_username = federated_shadow_username rid host
     in case find_by_username db shadow_username of
          Some existing \<Rightarrow> Inr (existing, db)
        | None \<Rightarrow>
            (case insert_user \<lparr>nu_id = fresh_id, nu_username = shadow_username,
                  nu_email = federated_shadow_email sha256_hex shadow_username,
                  nu_password_hash = FEDERATED_DISABLED_PASSWORD_HASH, nu_role = ''user'',
                  nu_device_auth_pubkey = None, nu_is_approved = True\<rparr> now db of
               Inr (inserted, db') \<Rightarrow>
                 let db'' = update_user (u_id inserted) (\<lambda>u. u\<lparr>u_is_active := False\<rparr>) now db'
                 in and_then (ok_or (Database RowNotFound) (find_user db'' (u_id inserted)))
                      (\<lambda>updated. Inr (updated, db''))
             | Inl (Database UniqueViolation) \<Rightarrow>
                 and_then (ok_or NotFound (find_by_username db shadow_username)) (\<lambda>u. Inr (u, db))
             | Inl other \<Rightarrow> Inl other)))"

section \<open>Deletion\<close>

text \<open>
  \<open>diesel::delete(users.find(id))\<close> with the foreign keys of src/migrations. Rows that belong
  to the account go with it (\<open>ON DELETE CASCADE\<close>), also through the rooms it created and the
  inbox activities addressed to it; columns that only mention it become null
  (\<open>ON DELETE SET NULL\<close>). Setting the reviewer of a report to null is an update of the row, so
  the trigger \<open>moderation_reports_set_updated_at\<close> stamps it.
\<close>

definition forget :: "uuid \<Rightarrow> uuid option \<Rightarrow> uuid option" where
  "forget k x = (if x = Some k then None else x)"

definition reports_about :: "uuid \<Rightarrow> moderation_report \<Rightarrow> bool" where
  "reports_about k r \<longleftrightarrow> mr_reporter_user_id r = k \<or> mr_reported_user_id r = k"

definition created_rooms :: "uuid \<Rightarrow> db \<Rightarrow> uuid set" where
  "created_rooms k db = r_id ` set (filter (\<lambda>r. r_created_by r = k) (rooms db))"

definition delete_owned_rows :: "uuid \<Rightarrow> db \<Rightarrow> db" where
  "delete_owned_rows k db = db\<lparr>
     users := delete_rows (\<lambda>u. u_id u = k) (users db),
     guild_stats := delete_rows (\<lambda>g. gs_user_id g = k) (guild_stats db),
     daily_action_counters := delete_rows (\<lambda>c. dac_user_id c = k) (daily_action_counters db),
     messages := delete_rows (\<lambda>m. m_sender_id m = k \<or> m_recipient_id m = k) (messages db),
     rooms := delete_rows (\<lambda>r. r_created_by r = k) (rooms db),
     room_members := delete_rows
       (\<lambda>m. rm_user_id m = k \<or> rm_room_id m \<in> created_rooms k db) (room_members db),
     room_messages := delete_rows
       (\<lambda>m. rmsg_sender_id m = k \<or> rmsg_room_id m \<in> created_rooms k db) (room_messages db),
     refresh_tokens := delete_rows (\<lambda>t. rt_user_id t = k) (refresh_tokens db),
     stickers := delete_rows (\<lambda>s. st_uploader_id s = k) (stickers db),
     agent_tokens := delete_rows (\<lambda>t. ag_created_by t = k) (agent_tokens db),
     device_push_tokens := delete_rows (\<lambda>t. dpt_user_id t = k) (device_push_tokens db),
     encrypted_backups := delete_rows (\<lambda>b. eb_user_id b = k) (encrypted_backups db),
     call_records := delete_rows (\<lambda>c. cr_caller_id c = k \<or> cr_callee_id c = k) (call_records db)\<rparr>"

definition delete_safety_rows :: "uuid \<Rightarrow> instant \<Rightarrow> db \<Rightarrow> db" where
  "delete_safety_rows k now db =
    (let gone = mr_id ` set (filter (reports_about k) (moderation_reports db))
     in db\<lparr>
       moderation_reports := update_rows (\<lambda>r. mr_reviewed_by_user_id r = Some k)
         (\<lambda>r. r\<lparr>mr_reviewed_by_user_id := None, mr_updated_at := now\<rparr>)
         (delete_rows (reports_about k) (moderation_reports db)),
       user_blocks := update_rows (\<lambda>b. ub_report_id b \<in> Some ` gone) (\<lambda>b. b\<lparr>ub_report_id := None\<rparr>)
         (delete_rows (\<lambda>b. ub_blocker_user_id b = k \<or> ub_blocked_user_id b = k) (user_blocks db)),
       guild_score_events := map (\<lambda>e. e\<lparr>gse_granter_user_id := forget k (gse_granter_user_id e)\<rparr>)
         (delete_rows (\<lambda>e. gse_user_id e = k) (guild_score_events db)),
       admin_audit_logs := map (\<lambda>a. a\<lparr>aal_actor_user_id := forget k (aal_actor_user_id a)\<rparr>)
         (admin_audit_logs db),
       server_news := map (\<lambda>n. n\<lparr>sn_created_by := forget k (sn_created_by n)\<rparr>) (server_news db)\<rparr>)"

definition delete_federation_rows :: "string \<Rightarrow> db \<Rightarrow> db" where
  "delete_federation_rows username db =
    (let gone = fia_activity_id ` set
           (filter (\<lambda>a. fia_recipient_username a = username) (federation_inbox_activities db))
     in db\<lparr>
       federation_actor_keys :=
         delete_rows (\<lambda>f. fak_actor_username f = username) (federation_actor_keys db),
       federation_inbox_activities :=
         delete_rows (\<lambda>a. fia_recipient_username a = username) (federation_inbox_activities db),
       federation_deliveries :=
         delete_rows (\<lambda>d. fd_sender_username d = username) (federation_deliveries db),
       federation_remote_messages := delete_rows
         (\<lambda>m. frm_recipient_username m = username \<or> frm_activity_id m \<in> gone)
         (federation_remote_messages db)\<rparr>)"

definition delete_user :: "uuid \<Rightarrow> instant \<Rightarrow> db \<Rightarrow> db result" where
  "delete_user k now db =
    (case find_user db k of
       None \<Rightarrow> Inl NotFound
     | Some u \<Rightarrow> Inr (delete_federation_rows (u_username u)
         (delete_safety_rows k now (delete_owned_rows k db))))"

section \<open>Updates\<close>

definition update_last_seen :: "uuid \<Rightarrow> instant \<Rightarrow> db \<Rightarrow> db" where
  "update_last_seen k now db = update_user k (\<lambda>u. u\<lparr>u_last_seen_at := Some now\<rparr>) now db"

text \<open>
  An update of the user name runs into three constraints: the length of the avatar, the
  uniqueness of the name, and the federation tables, which refer to the name without
  \<open>ON UPDATE CASCADE\<close>.
\<close>

definition username_referenced :: "db \<Rightarrow> string \<Rightarrow> bool" where
  "username_referenced db name \<longleftrightarrow>
     exists_row (\<lambda>f. fak_actor_username f = name) (federation_actor_keys db) \<or>
     exists_row (\<lambda>a. fia_recipient_username a = name) (federation_inbox_activities db) \<or>
     exists_row (\<lambda>d. fd_sender_username d = name) (federation_deliveries db) \<or>
     exists_row (\<lambda>m. frm_recipient_username m = name) (federation_remote_messages db)"

definition update_profile ::
  "uuid \<Rightarrow> string option \<Rightarrow> string option option \<Rightarrow> string option option \<Rightarrow> string option option \<Rightarrow>
     instant \<Rightarrow> db \<Rightarrow> (user \<times> db) result" where
  "update_profile k next_username next_avatar next_description next_key now db =
     and_then (ok_or NotFound (find_user db k)) (\<lambda>existing.
     let username = (case next_username of None \<Rightarrow> u_username existing | Some v \<Rightarrow> v);
         avatar = (case next_avatar of None \<Rightarrow> u_avatar_base64 existing | Some v \<Rightarrow> v);
         description = (case next_description of None \<Rightarrow> u_description existing | Some v \<Rightarrow> v);
         pubkey = (case next_key of None \<Rightarrow> u_message_public_key existing | Some v \<Rightarrow> v);
         db' = update_user k (\<lambda>u. u\<lparr>u_username := username, u_avatar_base64 := avatar,
                 u_description := description, u_message_public_key := pubkey\<rparr>) now db
     in if (case avatar of None \<Rightarrow> False | Some a \<Rightarrow> length a > 400000) then Inl (Database CheckViolation)
        else if exists_row (\<lambda>u. u_id u \<noteq> k \<and> u_username u = username) (users db)
        then Inl (Conflict ''Username already taken'')
        else if username \<noteq> u_username existing \<and> username_referenced db (u_username existing)
        then Inl (Database ForeignKeyViolation)
        else and_then (ok_or (Database RowNotFound) (find_user db' k)) (\<lambda>u. Inr (u, db')))"

end
