(* ===== verification/Admin_Service.thy ===== *)
theory Admin_Service
  imports Guild_Service User_Service
begin

text \<open>
  Administration: src/src/services/admin_service.rs. The settings table and what is derived
  from it, the overview and the lists of the dashboard, the actions on accounts and the
  statistics over the audit log. \<open>set_setting\<close> is in Guild\_Service and \<open>append_audit_log\<close>
  in Schema, because the services below this one use them.

  The JSON decoder of the linked planets (\<open>dec_list\<close>) is a parameter; the limit of users from
  the environment (\<open>Config::max_users\<close>) is an argument.
\<close>

section \<open>Patterns\<close>

text \<open>
  The SQL operators \<open>LIKE\<close> and \<open>ILIKE\<close>: a percent sign stands for any text, an underscore for
  any character, and a backslash takes the next character literally.
\<close>

function (sequential) like :: "string \<Rightarrow> string \<Rightarrow> bool" where
  "like [] s = (s = [])"
| "like (p # ps) s =
     (if p = CHR ''%'' then like ps s \<or> (if s = [] then False else like (p # ps) (tl s))
      else if s = [] then False
      else if p = CHR ''_'' then like ps (tl s)
      else if p = char_of (92 :: nat) \<and> ps \<noteq> [] then hd s = hd ps \<and> like (tl ps) (tl s)
      else hd s = p \<and> like ps (tl s))"
  by pat_completeness auto
termination
  by (relation "measure (\<lambda>(p, s). length p + length s)") (auto simp: neq_Nil_conv)

definition ilike :: "string \<Rightarrow> string \<Rightarrow> bool" where
  "ilike s p = like (to_lowercase p) (to_lowercase s)"

section \<open>Settings\<close>

definition SETTING_MAX_USERS :: string where "SETTING_MAX_USERS = ''max_users''"
definition SETTING_WEBHOOK_URL :: string where "SETTING_WEBHOOK_URL = ''notification_webhook_url''"
definition SETTING_PLANET_NAME :: string where "SETTING_PLANET_NAME = ''planet_name''"
definition SETTING_PLANET_DESCRIPTION :: string where
  "SETTING_PLANET_DESCRIPTION = ''planet_description''"
definition SETTING_PLANET_IMAGE_BASE64 :: string where
  "SETTING_PLANET_IMAGE_BASE64 = ''planet_image_base64''"
definition SETTING_LINKED_PLANETS :: string where "SETTING_LINKED_PLANETS = ''linked_planets''"
definition SETTING_REQUIRE_APPROVAL :: string where
  "SETTING_REQUIRE_APPROVAL = ''registration_requires_approval''"

definition get_setting :: "db \<Rightarrow> string \<Rightarrow> admin_setting option" where
  "get_setting db key = find_row as_key (admin_settings db) key"

definition clear_setting :: "string \<Rightarrow> db \<Rightarrow> db" where
  "clear_setting key db =
     db\<lparr>admin_settings := delete_rows (\<lambda>s. as_key s = key) (admin_settings db)\<rparr>"

definition setting_value :: "db \<Rightarrow> string \<Rightarrow> string option" where
  "setting_value db key = map_option as_value (get_setting db key)"

definition is_approval_required :: "db \<Rightarrow> bool" where
  "is_approval_required db = (setting_value db SETTING_REQUIRE_APPROVAL = Some ''true'')"

definition max_users_override :: "db \<Rightarrow> nat option" where
  "max_users_override db = Option.bind (setting_value db SETTING_MAX_USERS) parse_u32"

definition effective_max_users :: "nat option \<Rightarrow> db \<Rightarrow> nat option" where
  "effective_max_users config_max db =
     (case max_users_override db of Some n \<Rightarrow> Some n | None \<Rightarrow> config_max)"

definition trim_end_slashes :: "string \<Rightarrow> string" where
  "trim_end_slashes s = rev (dropWhile (\<lambda>c. c = CHR ''/'') (rev s))"

definition read_linked_planets :: "(string \<Rightarrow> string list option) \<Rightarrow> db \<Rightarrow> string list" where
  "read_linked_planets dec_list db =
    (case setting_value db SETTING_LINKED_PLANETS of
       None \<Rightarrow> []
     | Some raw \<Rightarrow> filter (\<lambda>x. x \<noteq> []) (map (\<lambda>x. trim_end_slashes (trim x))
         (case dec_list raw of None \<Rightarrow> [] | Some xs \<Rightarrow> xs)))"

record admin_config_view =
  acv_max_users_override :: "nat option"
  acv_effective_max_users :: "nat option"
  acv_notification_webhook_url :: "string option"
  acv_planet_name :: "string option"
  acv_planet_description :: "string option"
  acv_planet_image_base64 :: "string option"
  acv_linked_planets :: "string list"
  acv_require_approval :: bool

definition read_admin_config ::
  "(string \<Rightarrow> string list option) \<Rightarrow> nat option \<Rightarrow> db \<Rightarrow> admin_config_view" where
  "read_admin_config dec_list config_max db =
     \<lparr>acv_max_users_override = max_users_override db,
      acv_effective_max_users =
        (case max_users_override db of Some n \<Rightarrow> Some n | None \<Rightarrow> config_max),
      acv_notification_webhook_url = setting_value db SETTING_WEBHOOK_URL,
      acv_planet_name = setting_value db SETTING_PLANET_NAME,
      acv_planet_description = setting_value db SETTING_PLANET_DESCRIPTION,
      acv_planet_image_base64 = setting_value db SETTING_PLANET_IMAGE_BASE64,
      acv_linked_planets = read_linked_planets dec_list db,
      acv_require_approval =
        (case setting_value db SETTING_REQUIRE_APPROVAL of Some v \<Rightarrow> v = ''true'' | None \<Rightarrow> False)\<rparr>"

definition resolved_max_users :: "nat option \<Rightarrow> db \<Rightarrow> nat option" where
  "resolved_max_users config_max db = effective_max_users config_max db"

section \<open>Actions on accounts\<close>

definition change_user :: "uuid \<Rightarrow> (user \<Rightarrow> user) \<Rightarrow> instant \<Rightarrow> db \<Rightarrow> db result" where
  "change_user k f now db = (if user_exists db k then Inr (update_user k f now db) else Inl NotFound)"

definition approve_user :: "uuid \<Rightarrow> instant \<Rightarrow> db \<Rightarrow> db result" where
  "approve_user k now db = change_user k (\<lambda>u. u\<lparr>u_is_approved := True, u_is_active := True\<rparr>) now db"

definition reject_user :: "uuid \<Rightarrow> instant \<Rightarrow> db \<Rightarrow> db result" where
  "reject_user k now db = delete_user k now db"

definition set_user_active :: "uuid \<Rightarrow> bool \<Rightarrow> instant \<Rightarrow> db \<Rightarrow> db result" where
  "set_user_active k active now db = change_user k (\<lambda>u. u\<lparr>u_is_active := active\<rparr>) now db"

definition issue_yellow_card :: "uuid \<Rightarrow> int \<Rightarrow> instant \<Rightarrow> db \<Rightarrow> db result" where
  "issue_yellow_card k n now db =
     change_user k (\<lambda>u. u\<lparr>u_yellow_card_expires_at := Some (now + days n)\<rparr>) now db"

definition clear_yellow_card :: "uuid \<Rightarrow> instant \<Rightarrow> db \<Rightarrow> db result" where
  "clear_yellow_card k now db = change_user k (\<lambda>u. u\<lparr>u_yellow_card_expires_at := None\<rparr>) now db"

section \<open>The dashboard\<close>

record admin_overview =
  ao_system_status :: string
  ao_total_users :: int
  ao_active_users :: int
  ao_admin_users :: int
  ao_pending_approval :: int
  ao_guild_challenged :: int
  ao_guild_frozen :: int
  ao_federation_pending :: int
  ao_federation_failed :: int
  ao_federation_dead_letter :: int

definition count_deliveries :: "federation_delivery list \<Rightarrow> int \<times> int \<times> int" where
  "count_deliveries ds = foldl (\<lambda>acc d. case acc of (pending, failed, dead) \<Rightarrow>
       if fd_status d \<in> {''pending'', ''retrying''} then (pending + 1, failed, dead)
       else if fd_status d = ''failed'' then (pending, failed + 1, dead)
       else if fd_status d = ''dead_letter'' then (pending, failed, dead + 1)
       else (pending, failed, dead)) (0, 0, 0) ds"

definition admin_overview_of :: "db \<Rightarrow> admin_overview" where
  "admin_overview_of db =
    (let (pending, failed, dead) = count_deliveries (federation_deliveries db)
     in \<lparr>ao_system_status = ''ok'',
         ao_total_users = count_rows (\<lambda>_. True) (users db),
         ao_active_users = count_rows u_is_active (users db),
         ao_admin_users = count_rows (\<lambda>u. u_role u = ''admin'') (users db),
         ao_pending_approval = count_rows (\<lambda>u. \<not> u_is_approved u) (users db),
         ao_guild_challenged =
           count_rows (\<lambda>g. gs_automation_review_state g = ''challenged'') (guild_stats db),
         ao_guild_frozen =
           count_rows (\<lambda>g. gs_automation_review_state g = ''frozen'') (guild_stats db),
         ao_federation_pending = pending, ao_federation_failed = failed,
         ao_federation_dead_letter = dead\<rparr>)"

record admin_trust_review_view =
  trv_active_days :: int
  trv_derived_level :: int
  trv_derived_rank :: string
  trv_automation_review_state :: string
  trv_suspicious_activity_streak :: int
  trv_last_human_activity_at :: "instant option"
  trv_last_active_day :: "day option"

record admin_user_view =
  auv_id :: uuid
  auv_username :: string
  auv_email :: string
  auv_role :: string
  auv_is_active :: bool
  auv_is_approved :: bool
  auv_created_at :: instant
  auv_last_seen_at :: "instant option"
  auv_guild :: "admin_trust_review_view option"
  auv_yellow_card_expires_at :: "instant option"
  auv_yellow_card_active :: bool

definition admin_user_view_from_parts ::
  "instant \<Rightarrow> user \<Rightarrow> user_guild_stats option \<Rightarrow> admin_user_view" where
  "admin_user_view_from_parts now u guild =
     \<lparr>auv_id = u_id u, auv_username = u_username u, auv_email = u_email u, auv_role = u_role u,
      auv_is_active = u_is_active u, auv_is_approved = u_is_approved u,
      auv_created_at = u_created_at u, auv_last_seen_at = u_last_seen_at u,
      auv_guild = Some (case guild of
          Some g \<Rightarrow> \<lparr>trv_active_days = gs_active_days g, trv_derived_level = gs_derived_level g,
             trv_derived_rank = gs_derived_rank g,
             trv_automation_review_state = gs_automation_review_state g,
             trv_suspicious_activity_streak = gs_suspicious_activity_streak g,
             trv_last_human_activity_at = gs_last_human_activity_at g,
             trv_last_active_day = gs_last_active_day g\<rparr>
        | None \<Rightarrow> \<lparr>trv_active_days = 0, trv_derived_level = 0, trv_derived_rank = ''F'',
             trv_automation_review_state = ''clear'', trv_suspicious_activity_streak = 0,
             trv_last_human_activity_at = None, trv_last_active_day = None\<rparr>),
      auv_yellow_card_expires_at = u_yellow_card_expires_at u,
      auv_yellow_card_active = yellow_card_active u now\<rparr>"

definition stats_of :: "db \<Rightarrow> user \<Rightarrow> user_guild_stats option" where
  "stats_of db u = find_row gs_user_id (guild_stats db) (u_id u)"

definition user_search_matches :: "string option \<Rightarrow> user \<Rightarrow> bool" where
  "user_search_matches query u =
    (case query of
       None \<Rightarrow> True
     | Some raw \<Rightarrow>
         let needle = ''%'' @ to_lowercase (trim raw) @ ''%''
         in trim raw = [] \<or> ilike (u_username u) needle \<or> ilike (u_email u) needle)"

definition review_state_filter ::
  "string option \<Rightarrow> (user_guild_stats option \<Rightarrow> bool) result" where
  "review_state_filter raw_state =
    (case raw_state of
       None \<Rightarrow> Inr (\<lambda>_. True)
     | Some raw \<Rightarrow>
         let state = to_lowercase (trim raw)
         in if state = [] then Inr (\<lambda>_. True)
            else if state = ''clear''
            then Inr (\<lambda>g. case g of None \<Rightarrow> True | Some g \<Rightarrow> gs_automation_review_state g = ''clear'')
            else if state \<in> {''challenged'', ''frozen''}
            then Inr (\<lambda>g. case g of None \<Rightarrow> False | Some g \<Rightarrow> gs_automation_review_state g = state)
            else Inl (BadRequest ''automation_review_state must be one of clear, challenged, frozen''))"

definition list_users ::
  "instant \<Rightarrow> db \<Rightarrow> string option \<Rightarrow> string option \<Rightarrow> admin_user_view list result" where
  "list_users now db query raw_state =
     and_then (review_state_filter raw_state) (\<lambda>state_ok.
     Inr (map (\<lambda>u. admin_user_view_from_parts now u (stats_of db u))
       (sort_key (\<lambda>u. - u_created_at u)
         (filter (\<lambda>u. user_search_matches query u \<and> state_ok (stats_of db u)) (users db)))))"

datatype trust_review_state_filter = Challenged | Frozen | AnyFlagged

definition parse_trust_review_state_filter :: "string option \<Rightarrow> trust_review_state_filter result" where
  "parse_trust_review_state_filter raw =
    (case raw of
       None \<Rightarrow> Inr AnyFlagged
     | Some value \<Rightarrow>
         let state = to_lowercase (trim value)
         in if state = [] \<or> state = ''flagged'' then Inr AnyFlagged
            else if state = ''challenged'' then Inr Challenged
            else if state = ''frozen'' then Inr Frozen
            else Inl (BadRequest
              ''automation_review_state must be one of challenged, frozen, flagged''))"

fun review_filter_matches :: "trust_review_state_filter \<Rightarrow> string \<Rightarrow> bool" where
  "review_filter_matches Challenged s \<longleftrightarrow> s = ''challenged''"
| "review_filter_matches Frozen s \<longleftrightarrow> s = ''frozen''"
| "review_filter_matches AnyFlagged s \<longleftrightarrow> s = ''challenged'' \<or> s = ''frozen''"

definition list_guild_review_users ::
  "instant \<Rightarrow> db \<Rightarrow> string option \<Rightarrow> int \<Rightarrow> admin_user_view list result" where
  "list_guild_review_users now db raw_state limit =
     and_then (parse_trust_review_state_filter raw_state) (\<lambda>review_state.
     let joined = List.map_filter (\<lambda>u. map_option (\<lambda>g. (u, g)) (stats_of db u)) (users db);
         flagged = filter (\<lambda>(u, g). review_filter_matches review_state (gs_automation_review_state g))
           joined
     in Inr (map (\<lambda>(u, g). admin_user_view_from_parts now u (Some g))
          (take (nat (clamp 1 200 limit))
            (sort_key (\<lambda>(u, g). - gs_suspicious_activity_streak g)
              (sort_key (\<lambda>(u, g). - u_created_at u) flagged)))))"

section \<open>The audit log\<close>

definition list_audit_logs :: "db \<Rightarrow> int \<Rightarrow> admin_audit_log list" where
  "list_audit_logs db limit = take (nat (clamp 1 200 limit))
     (sort_key (\<lambda>a. - aal_created_at a) (admin_audit_logs db))"

definition list_guild_score_events ::
  "db \<Rightarrow> uuid option \<Rightarrow> string option \<Rightarrow> int \<Rightarrow> guild_score_event list" where
  "list_guild_score_events db uid event_type limit = take (nat (clamp 1 200 limit))
     (sort_key (\<lambda>e. - gse_created_at e)
       (filter (\<lambda>e. (case uid of None \<Rightarrow> True | Some k \<Rightarrow> gse_user_id e = k) \<and>
          (case trimmed_nonempty event_type of None \<Rightarrow> True | Some t \<Rightarrow> gse_event_type e = t))
         (guild_score_events db)))"

definition BLOCKED_ACTION_PREFIX :: string where "BLOCKED_ACTION_PREFIX = ''guild.blocked_action.''"

definition strip_blocked_prefix :: "string \<Rightarrow> string" where
  "strip_blocked_prefix a =
     (if is_prefix BLOCKED_ACTION_PREFIX a then drop (length BLOCKED_ACTION_PREFIX) a else a)"

record admin_blocked_action_count =
  bac_action :: string
  bac_count :: int

definition list_guild_blocked_action_counts :: "db \<Rightarrow> int \<Rightarrow> admin_blocked_action_count list" where
  "list_guild_blocked_action_counts db limit =
    (let actions = map (\<lambda>a. strip_blocked_prefix (aal_action a))
           (filter (\<lambda>a. like ''guild.blocked_action.%'' (aal_action a)) (admin_audit_logs db));
         summary = map (\<lambda>a. \<lparr>bac_action = a, bac_count = count_rows (\<lambda>x. x = a) actions\<rparr>)
           (btree_set actions)
     in take (nat (clamp 1 50 limit)) (sort_key (\<lambda>c. - bac_count c) summary))"

record admin_trust_review_metrics =
  trm_current_challenged_users :: int
  trm_current_frozen_users :: int
  trm_challenged_transitions :: int
  trm_frozen_transitions :: int
  trm_recovery_transitions :: int
  trm_likely_false_positive_recoveries :: int

definition json_text :: "string \<Rightarrow> json \<Rightarrow> string" where
  "json_text k j = (case Option.bind (json_get k j) json_as_str of None \<Rightarrow> [] | Some s \<Rightarrow> s)"

definition count_transitions :: "admin_audit_log list \<Rightarrow> int \<times> int \<times> int" where
  "count_transitions rows = foldl (\<lambda>acc row. case acc of (challenged, frozen, recovery) \<Rightarrow>
     let new_state = json_text ''new_state'' (aal_details row);
         previous_state = json_text ''previous_state'' (aal_details row)
     in if new_state = ''challenged'' then (challenged + 1, frozen, recovery)
        else if new_state = ''frozen'' then (challenged, frozen + 1, recovery)
        else if new_state = ''clear'' \<and> previous_state \<in> {''challenged'', ''frozen''}
        then (challenged, frozen, recovery + 1)
        else (challenged, frozen, recovery)) (0, 0, 0) rows"

definition guild_review_metrics :: "db \<Rightarrow> admin_trust_review_metrics" where
  "guild_review_metrics db =
    (let rows = sort_key (\<lambda>a. - aal_created_at a)
           (filter (\<lambda>a. aal_action a = ''guild.review_state.changed'') (admin_audit_logs db));
         (challenged, frozen, recovery) = count_transitions rows
     in \<lparr>trm_current_challenged_users =
           count_rows (\<lambda>g. gs_automation_review_state g = ''challenged'') (guild_stats db),
         trm_current_frozen_users =
           count_rows (\<lambda>g. gs_automation_review_state g = ''frozen'') (guild_stats db),
         trm_challenged_transitions = challenged, trm_frozen_transitions = frozen,
         trm_recovery_transitions = recovery,
         trm_likely_false_positive_recoveries = recovery\<rparr>)"

end
