(* ===== verification/Server_Config.thy ===== *)
theory Server_Config
  imports Sync_Prelude
begin

text \<open>
  The configuration of the server: src/src/config.rs. The environment is a function from
  names to values; \<open>from_env\<close> reads it in the order of the struct, and the first variable that
  is missing or unreadable is the error.
\<close>

datatype push_delivery_mode = Relay | Direct | Hybrid

definition parse_push_delivery_mode :: "string \<Rightarrow> string + push_delivery_mode" where
  "parse_push_delivery_mode raw =
    (let m = to_lowercase (trim raw)
     in if m = ''relay'' then Inr Relay else if m = ''direct'' then Inr Direct
        else if m = ''hybrid'' then Inr Hybrid
        else Inl ''PUSH_DELIVERY_MODE must be one of: relay, direct, hybrid'')"

record config =
  cf_app_env :: string
  cf_enforce_https :: bool
  cf_database_url :: string
  cf_redis_url :: string
  cf_jwt_secret :: string
  cf_jwt_access_expiry_secs :: nat
  cf_jwt_refresh_expiry_secs :: nat
  cf_server_host :: string
  cf_server_port :: nat
  cf_instance_name :: string
  cf_instance_domain :: string
  cf_admin_email :: string
  cf_max_users :: "nat option"
  cf_federation_denylist :: "string list"
  cf_federation_signature_window_secs :: int
  cf_federation_max_delivery_attempts :: int
  cf_federation_key_cache_ttl_secs :: int
  cf_federation_inbox_rps :: nat
  cf_federation_inbox_burst :: nat
  cf_resend_api_key :: "string option"
  cf_resend_from_email :: string
  cf_apns_team_id :: "string option"
  cf_apns_key_id :: "string option"
  cf_apns_bundle_id :: "string option"
  cf_apns_private_key_p8 :: "string option"
  cf_apns_use_sandbox :: bool
  cf_push_delivery_mode :: push_delivery_mode
  cf_push_relay_shared_secret :: "string option"
  cf_altcha_hmac_key :: "string option"
  cf_turn_secret :: "string option"

definition var_or :: "(string \<Rightarrow> string option) \<Rightarrow> string \<Rightarrow> string \<Rightarrow> string" where
  "var_or env name dflt = (case env name of None \<Rightarrow> dflt | Some v \<Rightarrow> v)"

definition var_flag :: "(string \<Rightarrow> string option) \<Rightarrow> string \<Rightarrow> bool" where
  "var_flag env name = (case env name of None \<Rightarrow> False
     | Some v \<Rightarrow> v \<in> {''1'', ''true'', ''TRUE'', ''yes'', ''YES''})"

definition var_nonblank :: "(string \<Rightarrow> string option) \<Rightarrow> string \<Rightarrow> string option" where
  "var_nonblank env name = (case env name of None \<Rightarrow> None | Some v \<Rightarrow> if trim v = [] then None else Some v)"

definition required :: "(string \<Rightarrow> string option) \<Rightarrow> string \<Rightarrow> string + string" where
  "required env name = ok_or (name @ '' must be set'') (env name)"

definition number :: "(string \<Rightarrow> 'n option) \<Rightarrow> (string \<Rightarrow> string option) \<Rightarrow> string \<Rightarrow> string \<Rightarrow> string + 'n" where
  "number parse env name dflt = ok_or (name @ '' must be a valid number'') (parse (var_or env name dflt))"

text \<open>\<open>split(',')\<close> with the pieces trimmed and the empty ones dropped.\<close>

definition comma_list :: "string \<Rightarrow> string list" where
  "comma_list s = filter (\<lambda>x. x \<noteq> []) (map trim (tokens_by (\<lambda>c. c = CHR '','') s []))"

definition from_env :: "(string \<Rightarrow> string option) \<Rightarrow> string + config" where
  "from_env env =
     and_then (required env ''DATABASE_URL'') (\<lambda>database_url.
     and_then (required env ''REDIS_URL'') (\<lambda>redis_url.
     and_then (required env ''JWT_SECRET'') (\<lambda>jwt_secret.
     and_then (number (parse_unsigned 64) env ''JWT_ACCESS_EXPIRY_SECS'' ''3600'') (\<lambda>access_secs.
     and_then (number (parse_unsigned 64) env ''JWT_REFRESH_EXPIRY_SECS'' ''2592000'') (\<lambda>refresh_secs.
     and_then (ok_or ''SERVER_PORT must be a valid port number''
        (parse_unsigned 16 (var_or env ''SERVER_PORT'' ''8080''))) (\<lambda>port.
     and_then (required env ''ADMIN_EMAIL'') (\<lambda>admin_email.
     and_then (number (parse_signed 64) env ''FEDERATION_SIGNATURE_WINDOW_SECS'' ''300'') (\<lambda>window.
     and_then (number (parse_signed 32) env ''FEDERATION_MAX_DELIVERY_ATTEMPTS'' ''5'') (\<lambda>attempts.
     and_then (number (parse_signed 64) env ''FEDERATION_KEY_CACHE_TTL_SECS'' ''300'') (\<lambda>ttl.
     and_then (number (parse_unsigned 64) env ''FEDERATION_INBOX_RPS'' ''20'') (\<lambda>rps.
     and_then (number (parse_unsigned 32) env ''FEDERATION_INBOX_BURST'' ''40'') (\<lambda>burst.
     and_then (parse_push_delivery_mode (var_or env ''PUSH_DELIVERY_MODE'' ''relay'')) (\<lambda>mode.
     Inr \<lparr>cf_app_env = var_or env ''APP_ENV'' ''development'',
          cf_enforce_https = var_flag env ''ENFORCE_HTTPS'',
          cf_database_url = database_url, cf_redis_url = redis_url, cf_jwt_secret = jwt_secret,
          cf_jwt_access_expiry_secs = access_secs, cf_jwt_refresh_expiry_secs = refresh_secs,
          cf_server_host = var_or env ''SERVER_HOST'' ''0.0.0.0'', cf_server_port = port,
          cf_instance_name = var_or env ''INSTANCE_NAME'' ''sync-planet'',
          cf_instance_domain = var_or env ''INSTANCE_DOMAIN'' ''localhost'',
          cf_admin_email = admin_email,
          cf_max_users = Option.bind (env ''MAX_USERS'') (parse_unsigned 32),
          cf_federation_denylist = comma_list (var_or env ''FEDERATION_DENYLIST'' []),
          cf_federation_signature_window_secs = window,
          cf_federation_max_delivery_attempts = attempts,
          cf_federation_key_cache_ttl_secs = ttl, cf_federation_inbox_rps = rps,
          cf_federation_inbox_burst = burst, cf_resend_api_key = env ''RESEND_API_KEY'',
          cf_resend_from_email = var_or env ''RESEND_FROM_EMAIL'' ''noreply@localhost'',
          cf_apns_team_id = var_nonblank env ''APNS_TEAM_ID'',
          cf_apns_key_id = var_nonblank env ''APNS_KEY_ID'',
          cf_apns_bundle_id = var_nonblank env ''APNS_BUNDLE_ID'',
          cf_apns_private_key_p8 = var_nonblank env ''APNS_PRIVATE_KEY_P8'',
          cf_apns_use_sandbox = var_flag env ''APNS_USE_SANDBOX'',
          cf_push_delivery_mode = mode,
          cf_push_relay_shared_secret = var_nonblank env ''PUSH_RELAY_SHARED_SECRET'',
          cf_altcha_hmac_key = var_nonblank env ''ALTCHA_HMAC_KEY'',
          cf_turn_secret = var_nonblank env ''TURN_SECRET''\<rparr>)))))))))))))"

text \<open>\<open>eq_ignore_ascii_case\<close> folds the ASCII letters only.\<close>

definition ascii_lower :: "string \<Rightarrow> string" where
  "ascii_lower s = map (\<lambda>c. if 65 \<le> code c \<and> code c \<le> 90 then char_of (code c + 32) else c) s"

definition eq_ignore_ascii_case :: "string \<Rightarrow> string \<Rightarrow> bool" where
  "eq_ignore_ascii_case a b \<longleftrightarrow> ascii_lower a = ascii_lower b"

definition validate_security_defaults :: "config \<Rightarrow> string + unit" where
  "validate_security_defaults cf =
    (if eq_ignore_ascii_case (cf_app_env cf) ''production''
     then if \<not> cf_enforce_https cf
       then Inl ''ENFORCE_HTTPS=true is required when APP_ENV=production''
       else if utf8_len (cf_jwt_secret cf) < 32 \<or> contains (cf_jwt_secret cf) ''change-me''
       then Inl ''JWT_SECRET must be a strong non-default value in production''
       else if eq_ignore_ascii_case (cf_instance_domain cf) ''localhost''
       then Inl ''INSTANCE_DOMAIN must be a public domain in production''
       else Inr ()
     else Inr ())"

text \<open>
  The suggested cap of users: the casts to 32 bits truncate, the product saturates.
\<close>

definition suggest_max_users :: "nat \<Rightarrow> nat \<Rightarrow> nat" where
  "suggest_max_users cpu_count total_mem_mb =
    (let by_cpu = min ((cpu_count mod 2 ^ 32) * 100) (2 ^ 32 - 1);
         by_mem = (total_mem_mb div 50) mod 2 ^ 32
     in max (min by_cpu by_mem) 10)"

section \<open>A small configuration\<close>

definition sample_config :: config where
  "sample_config = \<lparr>cf_app_env = ''development'', cf_enforce_https = False,
     cf_database_url = ''postgres://db'', cf_redis_url = ''redis://r'', cf_jwt_secret = ''secret'',
     cf_jwt_access_expiry_secs = 60, cf_jwt_refresh_expiry_secs = 600, cf_server_host = ''0.0.0.0'',
     cf_server_port = 80, cf_instance_name = ''planet'', cf_instance_domain = ''localhost'',
     cf_admin_email = ''admin@example.org'', cf_max_users = None, cf_federation_denylist = [],
     cf_federation_signature_window_secs = 300, cf_federation_max_delivery_attempts = 5,
     cf_federation_key_cache_ttl_secs = 300, cf_federation_inbox_rps = 20,
     cf_federation_inbox_burst = 40, cf_resend_api_key = None,
     cf_resend_from_email = ''noreply@localhost'', cf_apns_team_id = None, cf_apns_key_id = None,
     cf_apns_bundle_id = None, cf_apns_private_key_p8 = None, cf_apns_use_sandbox = False,
     cf_push_delivery_mode = Relay, cf_push_relay_shared_secret = None,
     cf_altcha_hmac_key = None, cf_turn_secret = None\<rparr>"

end
