(* ===== verification/Auth.thy ===== *)
theory Auth
  imports Admin_Service Moderation_Service Server_Config
begin

text \<open>
  Authentication: src/src/auth (claims, tokens, passwords, request extractors) and the
  account handlers of src/src/routes/auth.rs (registration with its rate limiter, first
  administrator, password and device login, refresh token rotation, logout). The QR and
  password reset handlers, which use Redis, are in Auth\_Redis.

  The record \<open>externals\<close> holds the third-party code the handlers call: SHA-256 in hexadecimal,
  the JWT library, bcrypt (with the salt of the call), base64 and UTF-8 decoding, the ALTCHA
  verifier and the text form of UUIDs. Random ids, salts and tokens are arguments. The
  process-wide statics of routes/auth.rs are the record \<open>auth_memory\<close>. Handlers that issue
  several statements outside a transaction return the result and the state they leave behind,
  also when they fail.
\<close>

record claims =
  cl_sub :: string
  cl_role :: string
  cl_iat :: int
  cl_exp :: int

record externals =
  ex_sha256_hex :: "string \<Rightarrow> string"
  ex_encode_jwt :: "claims \<Rightarrow> string \<Rightarrow> string option"
  ex_decode_jwt :: "instant \<Rightarrow> string \<Rightarrow> string \<Rightarrow> claims option"
  ex_bcrypt_hash :: "nat \<Rightarrow> string \<Rightarrow> string option"
  ex_bcrypt_verify :: "string \<Rightarrow> string \<Rightarrow> bool option"
  ex_base64_text :: "string \<Rightarrow> string option"
  ex_verify_solution :: "instant \<Rightarrow> string \<Rightarrow> string \<Rightarrow> bool"
  ex_show_uuid :: "uuid \<Rightarrow> string"
  ex_parse_uuid :: "string \<Rightarrow> uuid option"

section \<open>Claims, tokens and passwords\<close>

definition claims_new :: "externals \<Rightarrow> uuid \<Rightarrow> string \<Rightarrow> int \<Rightarrow> int \<Rightarrow> claims" where
  "claims_new ex uid role iat exp =
     \<lparr>cl_sub = ex_show_uuid ex uid, cl_role = role, cl_iat = iat, cl_exp = exp\<rparr>"

definition claims_user_id :: "externals \<Rightarrow> claims \<Rightarrow> uuid result" where
  "claims_user_id ex c = ok_or (Internal ''Invalid user_id in token'') (ex_parse_uuid ex (cl_sub c))"

definition hash_token :: "externals \<Rightarrow> string \<Rightarrow> string" where
  "hash_token ex raw = ex_sha256_hex ex raw"

text \<open>The generator returns the drawn token and its hash; the token is drawn by the caller.\<close>

definition generate_refresh_token :: "externals \<Rightarrow> string \<Rightarrow> string \<times> string" where
  "generate_refresh_token ex raw = (raw, hash_token ex raw)"

definition issue_access_token :: "externals \<Rightarrow> claims \<Rightarrow> string \<Rightarrow> string result" where
  "issue_access_token ex c secret = ok_or (Internal ''Failed to encode JWT'') (ex_encode_jwt ex c secret)"

definition verify_access_token :: "externals \<Rightarrow> instant \<Rightarrow> string \<Rightarrow> string \<Rightarrow> claims option" where
  "verify_access_token ex now token secret = ex_decode_jwt ex now token secret"

definition hash_password :: "externals \<Rightarrow> nat \<Rightarrow> string \<Rightarrow> string result" where
  "hash_password ex salt password = ok_or (Internal ''bcrypt hash error'') (ex_bcrypt_hash ex salt password)"

definition verify_password :: "externals \<Rightarrow> string \<Rightarrow> string \<Rightarrow> bool result" where
  "verify_password ex password hash =
     ok_or (Internal ''bcrypt verify error'') (ex_bcrypt_verify ex password hash)"

section \<open>Process memory\<close>

record qr_login_session_record =
  qr_secret :: string
  qr_status :: string
  qr_access_token :: "string option"
  qr_refresh_token :: "string option"
  qr_expires_in :: "nat option"

record auth_memory =
  registration_limiter :: "string \<Rightarrow> int list"
  admin_setup_token :: "string option"
  qr_login_fallback :: "string \<rightharpoonup> qr_login_session_record \<times> int"

definition empty_memory :: auth_memory where
  "empty_memory = \<lparr>registration_limiter = (\<lambda>_. []), admin_setup_token = None,
     qr_login_fallback = (\<lambda>_. None)\<rparr>"

section \<open>The registration limiter\<close>

definition REGISTRATION_MAX_PER_HOUR :: nat where "REGISTRATION_MAX_PER_HOUR = 5"

text \<open>
  The headers are given when they are present and readable. \<open>split(',').next()\<close> is the text
  before the first comma.
\<close>

definition extract_client_ip :: "string option \<Rightarrow> string option \<Rightarrow> string option \<Rightarrow> string" where
  "extract_client_ip x_forwarded_for x_real_ip peer_addr =
    (case x_forwarded_for of
       Some v \<Rightarrow> trim (takeWhile (\<lambda>c. c \<noteq> CHR '','') v)
     | None \<Rightarrow> (case x_real_ip of
         Some v \<Rightarrow> trim v
       | None \<Rightarrow> (case peer_addr of Some a \<Rightarrow> a | None \<Rightarrow> ''unknown'')))"

definition is_registration_rate_limited ::
  "string \<Rightarrow> instant \<Rightarrow> auth_memory \<Rightarrow> bool \<times> auth_memory" where
  "is_registration_rate_limited ip now mem =
    (let timestamps = filter (\<lambda>ts. timestamp now - ts < 3600) (registration_limiter mem ip)
     in (length timestamps \<ge> REGISTRATION_MAX_PER_HOUR,
         mem\<lparr>registration_limiter := (registration_limiter mem)(ip := timestamps)\<rparr>))"

definition record_registration :: "string \<Rightarrow> instant \<Rightarrow> auth_memory \<Rightarrow> auth_memory" where
  "record_registration ip now mem =
     mem\<lparr>registration_limiter :=
       (registration_limiter mem)(ip := registration_limiter mem ip @ [timestamp now])\<rparr>"

section \<open>Helpers\<close>

definition is_valid_username :: "string \<Rightarrow> bool" where
  "is_valid_username value =
    (let normalized = trim value
     in 2 \<le> length normalized \<and> length normalized \<le> 32 \<and> list_all (\<lambda>c. \<not> is_control c) normalized)"

definition verify_altcha :: "externals \<Rightarrow> instant \<Rightarrow> string \<Rightarrow> string \<Rightarrow> bool" where
  "verify_altcha ex now payload hmac_key =
    (case ex_base64_text ex (trim payload) of
       None \<Rightarrow> False | Some json \<Rightarrow> ex_verify_solution ex now json hmac_key)"

text \<open>The block that \<open>register\<close>, \<open>login\<close> and \<open>device_login\<close> share.\<close>

definition check_altcha :: "externals \<Rightarrow> config \<Rightarrow> string option \<Rightarrow> instant \<Rightarrow> unit result" where
  "check_altcha ex cf altcha_payload now =
    (case cf_altcha_hmac_key cf of
       None \<Rightarrow> Inr ()
     | Some hmac_key \<Rightarrow>
         let payload = (case altcha_payload of None \<Rightarrow> [] | Some p \<Rightarrow> p)
         in if payload = [] then Inl (BadRequest ''altcha_payload is required'')
            else guard_err (verify_altcha ex now payload hmac_key) Unauthorized)"

definition accept_terms :: "int option \<Rightarrow> uuid \<Rightarrow> instant \<Rightarrow> db \<Rightarrow> db result" where
  "accept_terms accepted_version uid now db =
    (if accepted_version = Some CURRENT_SAFETY_TERMS_VERSION
     then and_then (record_terms_acceptance_conn uid CURRENT_SAFETY_TERMS_VERSION now db)
       (\<lambda>(_, db). Inr db)
     else Inr db)"

record token_response =
  tr_access_token :: string
  tr_refresh_token :: string
  tr_expires_in :: nat

text \<open>\<open>insert_into(refresh_tokens)\<close>: the account must exist, id and hash must be new.\<close>

definition insert_refresh_token :: "refresh_token \<Rightarrow> db \<Rightarrow> db result" where
  "insert_refresh_token t db =
    (if exists_row (\<lambda>x. rt_id x = rt_id t \<or> rt_token_hash x = rt_token_hash t) (refresh_tokens db)
     then Inl (Database UniqueViolation)
     else if \<not> user_exists db (rt_user_id t) then Inl (Database ForeignKeyViolation)
     else Inr (db\<lparr>refresh_tokens := insert_row t (refresh_tokens db)\<rparr>))"

text \<open>The id of the new row and the raw refresh token are drawn by the caller.\<close>

definition mint_tokens ::
  "externals \<Rightarrow> config \<Rightarrow> uuid \<Rightarrow> string \<Rightarrow> uuid \<Rightarrow> uuid \<times> string \<Rightarrow> instant \<Rightarrow> db \<Rightarrow>
     (token_response \<times> db) result" where
  "mint_tokens ex cf uid role family fresh now db =
    (let exp = timestamp now + int (cf_jwt_access_expiry_secs cf);
         claims = claims_new ex uid role (timestamp now) exp
     in and_then (issue_access_token ex claims (cf_jwt_secret cf)) (\<lambda>access_token.
        let (raw_refresh, hash) = generate_refresh_token ex (snd fresh);
            expires_at = now + second_us * int (cf_jwt_refresh_expiry_secs cf)
        in and_then (insert_refresh_token
              \<lparr>rt_id = fst fresh, rt_user_id = uid, rt_token_hash = hash, rt_family = family,
               rt_revoked = False, rt_issued_at = now, rt_expires_at = expires_at\<rparr> db) (\<lambda>db.
           Inr (\<lparr>tr_access_token = access_token, tr_refresh_token = raw_refresh,
                 tr_expires_in = cf_jwt_access_expiry_secs cf\<rparr>, db))))"

section \<open>Registration\<close>

record register_request =
  rq_username :: string
  rq_email :: string
  rq_password :: string
  rq_altcha_payload :: "string option"
  rq_accepted_terms_version :: "int option"

datatype register_response = Pending | Registered user_public

text \<open>
  The validation of \<open>register\<close> up to the hashed password. The source writes the second half of
  the first message with the sign for greater-or-equal.
\<close>

definition validate_registration ::
  "externals \<Rightarrow> config \<Rightarrow> register_request \<Rightarrow> nat \<Rightarrow> instant \<Rightarrow> string result" where
  "validate_registration ex cf body salt now =
    (if trim (rq_username body) = [] \<or> trim (rq_email body) = [] \<or> utf8_len (rq_password body) < 8
     then Inl (BadRequest ''username, email required; password must be >=8 chars'')
     else if \<not> is_valid_username (rq_username body)
     then Inl (BadRequest ''username must be 2-32 characters (no control characters)'')
     else and_then (check_altcha ex cf (rq_altcha_payload body) now) (\<lambda>_.
       hash_password ex salt (rq_password body)))"

text \<open>
  The hashing of the password is awaited: other requests run between the check of the limiter and
  the creation of the account, which are definitions of their own.
\<close>

definition register_check ::
  "externals \<Rightarrow> config \<Rightarrow> string \<Rightarrow> register_request \<Rightarrow> nat \<Rightarrow> instant \<Rightarrow> auth_memory \<Rightarrow> string result \<times> auth_memory" where
  "register_check ex cf client_ip body salt now mem =
    (case is_registration_rate_limited client_ip now mem of (limited, mem) \<Rightarrow>
     if limited then (Inl (TooManyRequests ''Too many accounts created from this IP. Try again later.''), mem)
     else (validate_registration ex cf body salt now, mem))"

definition register_create ::
  "config \<Rightarrow> string \<Rightarrow> register_request \<Rightarrow> string \<Rightarrow> uuid \<Rightarrow> instant \<Rightarrow> auth_memory \<times> db \<Rightarrow>
     register_response result \<times> (auth_memory \<times> db)" where
  "register_create cf client_ip body pw_hash fresh_id now s = (case s of (mem, db) \<Rightarrow>
     let approval_required = is_approval_required db;
         new_user = \<lparr>nu_id = fresh_id, nu_username = rq_username body,
           nu_email = to_lowercase (rq_email body), nu_password_hash = pw_hash,
           nu_role = ''user'', nu_device_auth_pubkey = None,
           nu_is_approved = \<not> approval_required\<rparr>
     in (case create_user new_user (resolved_max_users (cf_max_users cf) db) now db of
           Inl e \<Rightarrow> (Inl e, (mem, db))
         | Inr (user, db) \<Rightarrow>
             (case accept_terms (rq_accepted_terms_version body) (u_id user) now db of
                Inl e \<Rightarrow> (Inl e, (mem, db))
              | Inr db \<Rightarrow>
                  (Inr (if approval_required then Pending else Registered (user_public_of user)),
                   (record_registration client_ip now mem, db)))))"

definition register ::
  "externals \<Rightarrow> config \<Rightarrow> string \<Rightarrow> register_request \<Rightarrow> nat \<Rightarrow> uuid \<Rightarrow> instant \<Rightarrow> auth_memory \<times> db \<Rightarrow>
     register_response result \<times> (auth_memory \<times> db)" where
  "register ex cf client_ip body salt fresh_id now s = (case s of (mem, db) \<Rightarrow>
    (case register_check ex cf client_ip body salt now mem of
       (Inl e, mem) \<Rightarrow> (Inl e, (mem, db))
     | (Inr pw_hash, mem) \<Rightarrow> register_create cf client_ip body pw_hash fresh_id now (mem, db)))"

definition me :: "externals \<Rightarrow> claims \<Rightarrow> db \<Rightarrow> user_public result" where
  "me ex auth db =
     and_then (claims_user_id ex auth) (\<lambda>uid.
     and_then (ok_or Unauthorized (find_user db uid)) (\<lambda>user. Inr (user_public_of user)))"

section \<open>The first administrator\<close>

definition SETUP_ALPHABET :: string where
  "SETUP_ALPHABET = ''abcdefghijklmnopqrstuvwxyz0123456789''"

text \<open>\<open>random_setup_token\<close> on the random bytes \<open>raw\<close>: a dash before every fourth letter but the first.\<close>

fun setup_token_chars :: "nat \<Rightarrow> nat list \<Rightarrow> string" where
  "setup_token_chars idx [] = []"
| "setup_token_chars idx (b # raw) =
     (if idx > 0 \<and> idx mod 4 = 0 then ''-'' else []) @
     (SETUP_ALPHABET ! (b mod length SETUP_ALPHABET)) # setup_token_chars (idx + 1) raw"

definition random_setup_token :: "nat list \<Rightarrow> string" where
  "random_setup_token raw = setup_token_chars 0 raw"

definition set_setup_token :: "string option \<Rightarrow> auth_memory \<Rightarrow> auth_memory" where
  "set_setup_token t mem = mem\<lparr>admin_setup_token := t\<rparr>"

definition is_setup_token_valid :: "string \<Rightarrow> auth_memory \<Rightarrow> bool" where
  "is_setup_token_valid token mem =
     (case admin_setup_token mem of None \<Rightarrow> False | Some expected \<Rightarrow> expected = token)"

definition clear_setup_token :: "auth_memory \<Rightarrow> auth_memory" where
  "clear_setup_token mem = set_setup_token None mem"

definition admin_count :: "db \<Rightarrow> int" where
  "admin_count db = count_rows (\<lambda>u. u_role u = ''admin'') (users db)"

definition initialize_first_admin_setup_link :: "nat list \<Rightarrow> db \<Rightarrow> auth_memory \<Rightarrow> auth_memory" where
  "initialize_first_admin_setup_link raw db mem =
    (if admin_count db > 0 then clear_setup_token mem
     else set_setup_token (Some (random_setup_token raw)) mem)"

text \<open>The one-time address that the server prints.\<close>

definition setup_url :: "config \<Rightarrow> string \<Rightarrow> string" where
  "setup_url cf token = (if cf_enforce_https cf then ''https'' else ''http'') @ ''://'' @
     cf_instance_domain cf @ ''/setup-admin/'' @ token"

definition setup_status :: "auth_memory \<times> db \<Rightarrow> bool \<times> (auth_memory \<times> db)" where
  "setup_status s = (case s of (mem, db) \<Rightarrow>
     (admin_count db = 0, (if admin_count db > 0 then clear_setup_token mem else mem, db)))"

record setup_admin_request =
  sa_username :: string
  sa_email :: string
  sa_password :: string
  sa_setup_token :: "string option"

definition setup_admin ::
  "externals \<Rightarrow> setup_admin_request \<Rightarrow> nat \<Rightarrow> uuid \<Rightarrow> instant \<Rightarrow> auth_memory \<times> db \<Rightarrow>
     user_public result \<times> (auth_memory \<times> db)" where
  "setup_admin ex body salt fresh_id now s = (case s of (mem, db) \<Rightarrow>
    (let username = trim (sa_username body); email = to_lowercase (trim (sa_email body));
         password = sa_password body;
         setup_token = trim (case sa_setup_token body of None \<Rightarrow> [] | Some t \<Rightarrow> t)
     in if username = [] \<or> email = [] \<or> utf8_len password < 8
        then (Inl (BadRequest ''username, email required; password must be >=8 chars''), (mem, db))
        else if \<not> is_valid_username username
        then (Inl (BadRequest ''username must be 2-32 characters (no control characters)''), (mem, db))
        else if admin_count db > 0
        then (Inl (Conflict ''Admin account is already configured''), (clear_setup_token mem, db))
        else if setup_token = [] \<or> \<not> is_setup_token_valid setup_token mem
        then (Inl Forbidden, (mem, db))
        else (case hash_password ex salt password of
            Inl e \<Rightarrow> (Inl e, (mem, db))
          | Inr pw_hash \<Rightarrow>
              (case create_user \<lparr>nu_id = fresh_id, nu_username = username, nu_email = email,
                    nu_password_hash = pw_hash, nu_role = ''admin'', nu_device_auth_pubkey = None,
                    nu_is_approved = True\<rparr> None now db of
                 Inl e \<Rightarrow> (Inl e, (mem, db))
               | Inr (user, db) \<Rightarrow> (Inr (user_public_of user), (clear_setup_token mem, db))))))"

section \<open>Login\<close>

record login_request =
  lq_email :: string
  lq_password :: string
  lq_altcha_payload :: "string option"
  lq_accepted_terms_version :: "int option"

text \<open>
  The end of both logins: the terms, then a token pair in a new family. The drawn values are
  the family, the row id and the raw token.
\<close>

definition open_session ::
  "externals \<Rightarrow> config \<Rightarrow> user \<Rightarrow> int option \<Rightarrow> uuid \<times> uuid \<times> string \<Rightarrow> instant \<Rightarrow> db \<Rightarrow>
     token_response result \<times> db" where
  "open_session ex cf user accepted_version fresh now db =
    (case accept_terms accepted_version (u_id user) now db of
       Inl e \<Rightarrow> (Inl e, db)
     | Inr db \<Rightarrow>
         (case mint_tokens ex cf (u_id user) (u_role user) (fst fresh) (snd fresh) now db of
            Inl e \<Rightarrow> (Inl e, db) | Inr (tokens, db) \<Rightarrow> (Inr tokens, db)))"

definition check_login ::
  "externals \<Rightarrow> config \<Rightarrow> login_request \<Rightarrow> instant \<Rightarrow> db \<Rightarrow> user result" where
  "check_login ex cf body now db =
     and_then (ok_or Unauthorized (find_by_email db (to_lowercase (lq_email body)))) (\<lambda>user.
     and_then (verify_password ex (lq_password body) (u_password_hash user)) (\<lambda>pw_ok.
     if \<not> pw_ok then Inl Unauthorized
     else if \<not> u_is_approved user then Inl Forbidden
     else and_then (check_altcha ex cf (lq_altcha_payload body) now) (\<lambda>_. Inr user)))"

definition login ::
  "externals \<Rightarrow> config \<Rightarrow> login_request \<Rightarrow> uuid \<times> uuid \<times> string \<Rightarrow> instant \<Rightarrow> db \<Rightarrow>
     token_response result \<times> db" where
  "login ex cf body fresh now db =
    (case check_login ex cf body now db of
       Inl e \<Rightarrow> (Inl e, db)
     | Inr user \<Rightarrow> open_session ex cf user (lq_accepted_terms_version body) fresh now db)"

record device_login_request =
  dq_device_auth_pubkey :: string
  dq_altcha_payload :: "string option"
  dq_accepted_terms_version :: "int option"

datatype device_login_response = DevicePending | DeviceSession token_response

definition check_device_account :: "user \<Rightarrow> user result" where
  "check_device_account existing =
    (if \<not> u_is_active existing then Inl Unauthorized
     else if \<not> u_is_approved existing then Inl Forbidden else Inr existing)"

definition device_user :: "externals \<Rightarrow> string \<Rightarrow> string \<Rightarrow> uuid \<Rightarrow> bool \<Rightarrow> new_user" where
  "device_user ex pubkey pw_hash fresh_id approved =
    (let pubkey_hash = ex_sha256_hex ex pubkey
     in \<lparr>nu_id = fresh_id, nu_username = ''u'' @ take 15 pubkey_hash,
         nu_email = ''device+'' @ take 32 pubkey_hash @ ''@device.sync.invalid'',
         nu_password_hash = pw_hash, nu_role = ''user'', nu_device_auth_pubkey = Some pubkey,
         nu_is_approved = approved\<rparr>)"

text \<open>
  The account of a device key: found, or created under the registration limiter. \<open>None\<close> is the
  answer that the new account awaits approval.
\<close>

text \<open>A new device, before and after the awaited hashing of its random password.\<close>

definition device_check :: "externals \<Rightarrow> string \<Rightarrow> nat \<times> string \<Rightarrow> instant \<Rightarrow> auth_memory \<Rightarrow> string result \<times> auth_memory" where
  "device_check ex client_ip pw now mem =
    (case is_registration_rate_limited client_ip now mem of (limited, mem) \<Rightarrow>
     if limited then (Inl (TooManyRequests ''Too many accounts created from this IP. Try again later.''), mem)
     else (hash_password ex (fst pw) (snd pw), mem))"

definition device_create ::
  "externals \<Rightarrow> config \<Rightarrow> string \<Rightarrow> string \<Rightarrow> string \<Rightarrow> uuid \<Rightarrow> instant \<Rightarrow> auth_memory \<times> db \<Rightarrow>
     user option result \<times> (auth_memory \<times> db)" where
  "device_create ex cf client_ip pubkey pw_hash fresh_id now s = (case s of (mem, db) \<Rightarrow>
     let approval_required = is_approval_required db
     in (case create_user (device_user ex pubkey pw_hash fresh_id (\<not> approval_required))
              (resolved_max_users (cf_max_users cf) db) now db of
           Inr (created, db) \<Rightarrow>
             (Inr (if approval_required then None else Some created),
              (record_registration client_ip now mem, db))
         | Inl (Conflict _) \<Rightarrow>
             (and_then (ok_or Unauthorized (find_by_device_auth_pubkey db pubkey)) (\<lambda>existing.
              and_then (check_device_account existing) (\<lambda>u. Inr (Some u))), (mem, db))
         | Inl other \<Rightarrow> (Inl other, (mem, db))))"

definition device_account ::
  "externals \<Rightarrow> config \<Rightarrow> string \<Rightarrow> string \<Rightarrow> nat \<times> string \<Rightarrow> uuid \<Rightarrow> instant \<Rightarrow> auth_memory \<times> db \<Rightarrow>
     user option result \<times> (auth_memory \<times> db)" where
  "device_account ex cf client_ip pubkey pw fresh_id now s = (case s of (mem, db) \<Rightarrow>
    (case find_by_device_auth_pubkey db pubkey of
       Some existing \<Rightarrow> (and_then (check_device_account existing) (\<lambda>u. Inr (Some u)), (mem, db))
     | None \<Rightarrow>
        (case device_check ex client_ip pw now mem of
           (Inl e, mem) \<Rightarrow> (Inl e, (mem, db))
         | (Inr pw_hash, mem) \<Rightarrow> device_create ex cf client_ip pubkey pw_hash fresh_id now (mem, db))))"

lemmas register_parts = register_def register_check_def register_create_def
lemmas device_parts = device_account_def device_check_def device_create_def

definition device_login ::
  "externals \<Rightarrow> config \<Rightarrow> string \<Rightarrow> device_login_request \<Rightarrow> nat \<times> string \<Rightarrow> uuid \<Rightarrow>
     uuid \<times> uuid \<times> string \<Rightarrow> instant \<Rightarrow> auth_memory \<times> db \<Rightarrow>
     device_login_response result \<times> (auth_memory \<times> db)" where
  "device_login ex cf client_ip body pw fresh_id fresh now s =
    (let pubkey = trim (dq_device_auth_pubkey body)
     in if pubkey = [] then (Inl (BadRequest ''device_auth_pubkey is required''), s)
        else (case check_altcha ex cf (dq_altcha_payload body) now of
            Inl e \<Rightarrow> (Inl e, s)
          | Inr _ \<Rightarrow>
             (case device_account ex cf client_ip pubkey pw fresh_id now s of
                (Inl e, s) \<Rightarrow> (Inl e, s)
              | (Inr None, s) \<Rightarrow> (Inr DevicePending, s)
              | (Inr (Some user), (mem, db)) \<Rightarrow>
                 (case open_session ex cf user (dq_accepted_terms_version body) fresh now db of
                    (Inl e, db) \<Rightarrow> (Inl e, (mem, db))
                  | (Inr tokens, db) \<Rightarrow> (Inr (DeviceSession tokens), (mem, db))))))"

section \<open>Refresh and logout\<close>

definition find_refresh_token :: "externals \<Rightarrow> string \<Rightarrow> db \<Rightarrow> refresh_token option" where
  "find_refresh_token ex raw db = find_row rt_token_hash (refresh_tokens db) (hash_token ex raw)"

definition revoke_family :: "uuid \<Rightarrow> db \<Rightarrow> db" where
  "revoke_family family db =
     db\<lparr>refresh_tokens := update_rows (\<lambda>t. rt_family t = family) (\<lambda>t. t\<lparr>rt_revoked := True\<rparr>)
          (refresh_tokens db)\<rparr>"

definition revoke_token :: "uuid \<Rightarrow> db \<Rightarrow> db" where
  "revoke_token k db =
     db\<lparr>refresh_tokens := update_row rt_id k (\<lambda>t. t\<lparr>rt_revoked := True\<rparr>) (refresh_tokens db)\<rparr>"

text \<open>
  \<open>refresh\<close> reads the stored row, checks its copy and revokes the token, and then mints the new pair:
  three statements without a transaction or a lock. The halves after the read are definitions of
  their own, because other requests can run in between. The check answers the error that ends the
  request, if any.
\<close>

definition refresh_check :: "refresh_token \<Rightarrow> instant \<Rightarrow> db \<Rightarrow> app_error option \<times> db" where
  "refresh_check stored now db =
    (if rt_revoked stored then (Some Unauthorized, revoke_family (rt_family stored) db)
     else if rt_expires_at stored < now then (Some Unauthorized, db)
     else (None, revoke_token (rt_id stored) db))"

definition refresh_issue ::
  "externals \<Rightarrow> config \<Rightarrow> refresh_token \<Rightarrow> uuid \<times> string \<Rightarrow> instant \<Rightarrow> db \<Rightarrow> token_response result \<times> db" where
  "refresh_issue ex cf stored fresh now db =
    (case find_user db (rt_user_id stored) of
       None \<Rightarrow> (Inl Unauthorized, db)
     | Some user \<Rightarrow>
         (case mint_tokens ex cf (u_id user) (u_role user) (rt_family stored) fresh now db of
            Inl e \<Rightarrow> (Inl e, db) | Inr (tokens, db) \<Rightarrow> (Inr tokens, db)))"

definition refresh_stored ::
  "externals \<Rightarrow> config \<Rightarrow> refresh_token \<Rightarrow> uuid \<times> string \<Rightarrow> instant \<Rightarrow> db \<Rightarrow> token_response result \<times> db" where
  "refresh_stored ex cf stored fresh now db =
    (case refresh_check stored now db of
       (Some e, db) \<Rightarrow> (Inl e, db)
     | (None, db) \<Rightarrow> refresh_issue ex cf stored fresh now db)"

lemma refresh_stored_cases:
  "refresh_stored ex cf stored fresh now db =
    (if rt_revoked stored then (Inl Unauthorized, revoke_family (rt_family stored) db)
     else if rt_expires_at stored < now then (Inl Unauthorized, db)
     else refresh_issue ex cf stored fresh now (revoke_token (rt_id stored) db))"
  by (simp add: refresh_stored_def refresh_check_def)

definition refresh ::
  "externals \<Rightarrow> config \<Rightarrow> string \<Rightarrow> uuid \<times> string \<Rightarrow> instant \<Rightarrow> db \<Rightarrow> token_response result \<times> db" where
  "refresh ex cf raw fresh now db =
    (case find_refresh_token ex raw db of
       None \<Rightarrow> (Inl Unauthorized, db)
     | Some stored \<Rightarrow> refresh_stored ex cf stored fresh now db)"

definition logout :: "externals \<Rightarrow> string \<Rightarrow> db \<Rightarrow> db" where
  "logout ex raw db =
    (case find_refresh_token ex raw db of
       None \<Rightarrow> db | Some rt \<Rightarrow> revoke_family (rt_family rt) db)"

section \<open>Stand-ins for the external code\<close>

text \<open>
  A concrete choice of the external functions, for the examples: hashing prefixes a mark, a
  JWT is its subject and its role, and passwords are stored with a mark.
\<close>

definition sample_externals :: externals where
  "sample_externals =
     \<lparr>ex_sha256_hex = (\<lambda>s. ''h'' @ s),
      ex_encode_jwt = (\<lambda>c secret. Some (cl_sub c @ ''|'' @ cl_role c)),
      ex_decode_jwt = (\<lambda>now token secret. map_option
          (\<lambda>(a, b). \<lparr>cl_sub = a, cl_role = b, cl_iat = 0, cl_exp = 0\<rparr>) (split_once CHR ''|'' token)),
      ex_bcrypt_hash = (\<lambda>salt p. Some (''b'' @ p)),
      ex_bcrypt_verify = (\<lambda>p h. Some (h = ''b'' @ p)),
      ex_base64_text = Some,
      ex_verify_solution = (\<lambda>now json key. json = key),
      ex_show_uuid = show_nat,
      ex_parse_uuid = parse_unsigned 8\<rparr>"

text \<open>An account with a password.\<close>

definition sample_account :: "uuid \<Rightarrow> string \<Rightarrow> string \<Rightarrow> user" where
  "sample_account i name role = (sample_user i)\<lparr>u_username := name, u_email := name @ ''@example.org'',
     u_password_hash := ''bpassword'', u_role := role\<rparr>"

definition sample_server :: db where
  "sample_server = empty_db\<lparr>users := [sample_account 2 ''ann'' ''user'', sample_account 3 ''bob'' ''admin'']\<rparr>"

definition sample_login :: login_request where
  "sample_login = \<lparr>lq_email = ''Ann@example.org'', lq_password = ''password'', lq_altcha_payload = None,
     lq_accepted_terms_version = None\<rparr>"

end
