(* ===== verification/User_Properties.thy ===== *)
theory User_Properties
  imports User_Service
begin

text \<open>
  Correctness of the account operations: referential integrity of the whole database and its
  preservation by the deletion of an account, uniqueness of the account keys, the user cap,
  and the identities of federated contacts.
\<close>

section \<open>Referential integrity\<close>

text \<open>The user ids, user names, room ids, report ids and activity ids that the tables refer to.\<close>

definition owned_refs :: "db \<Rightarrow> uuid set" where
  "owned_refs db =
     gs_user_id ` set (guild_stats db) \<union> dac_user_id ` set (daily_action_counters db) \<union>
     m_sender_id ` set (messages db) \<union> m_recipient_id ` set (messages db) \<union>
     r_created_by ` set (rooms db) \<union> rm_user_id ` set (room_members db) \<union>
     rmsg_sender_id ` set (room_messages db) \<union> rt_user_id ` set (refresh_tokens db) \<union>
     st_uploader_id ` set (stickers db) \<union> ag_created_by ` set (agent_tokens db) \<union>
     dpt_user_id ` set (device_push_tokens db) \<union> eb_user_id ` set (encrypted_backups db) \<union>
     cr_caller_id ` set (call_records db) \<union> cr_callee_id ` set (call_records db)"

definition safety_refs :: "db \<Rightarrow> uuid set" where
  "safety_refs db =
     gse_user_id ` set (guild_score_events db) \<union>
     (\<Union>e \<in> set (guild_score_events db). set_option (gse_granter_user_id e)) \<union>
     (\<Union>a \<in> set (admin_audit_logs db). set_option (aal_actor_user_id a)) \<union>
     ub_blocker_user_id ` set (user_blocks db) \<union> ub_blocked_user_id ` set (user_blocks db) \<union>
     mr_reporter_user_id ` set (moderation_reports db) \<union>
     mr_reported_user_id ` set (moderation_reports db) \<union>
     (\<Union>r \<in> set (moderation_reports db). set_option (mr_reviewed_by_user_id r)) \<union>
     (\<Union>n \<in> set (server_news db). set_option (sn_created_by n))"

definition user_refs :: "db \<Rightarrow> uuid set" where
  "user_refs db = owned_refs db \<union> safety_refs db"

definition name_refs :: "db \<Rightarrow> string set" where
  "name_refs db =
     fak_actor_username ` set (federation_actor_keys db) \<union>
     fia_recipient_username ` set (federation_inbox_activities db) \<union>
     fd_sender_username ` set (federation_deliveries db) \<union>
     frm_recipient_username ` set (federation_remote_messages db)"

definition room_refs :: "db \<Rightarrow> uuid set" where
  "room_refs db = rm_room_id ` set (room_members db) \<union> rmsg_room_id ` set (room_messages db)"

definition report_refs :: "db \<Rightarrow> uuid set" where
  "report_refs db = (\<Union>b \<in> set (user_blocks db). set_option (ub_report_id b))"

definition activity_refs :: "db \<Rightarrow> string set" where
  "activity_refs db = frm_activity_id ` set (federation_remote_messages db)"

definition referential_integrity :: "db \<Rightarrow> bool" where
  "referential_integrity db \<longleftrightarrow>
     user_refs db \<subseteq> u_id ` set (users db) \<and>
     name_refs db \<subseteq> u_username ` set (users db) \<and>
     room_refs db \<subseteq> r_id ` set (rooms db) \<and>
     report_refs db \<subseteq> mr_id ` set (moderation_reports db) \<and>
     activity_refs db \<subseteq> fia_activity_id ` set (federation_inbox_activities db)"

lemma set_option_forget [simp]: "set_option (forget k x) = set_option x - {k}"
  by (auto simp: forget_def)

lemmas delete_user_defs = delete_owned_rows_def delete_safety_rows_def delete_federation_rows_def Let_def

lemma owned_refs_delete: "owned_refs (delete_owned_rows k db) \<subseteq> owned_refs db - {k}"
  unfolding owned_refs_def delete_owned_rows_def by (auto simp del: image_Un)

lemma safety_refs_delete: "safety_refs (delete_safety_rows k now db) \<subseteq> safety_refs db - {k}"
  unfolding safety_refs_def delete_safety_rows_def Let_def
  by (auto simp: set_update_rows reports_about_def split: if_splits)

lemma delete_user_user_refs:
  "user_refs (delete_federation_rows n (delete_safety_rows k now (delete_owned_rows k db))) \<subseteq>
     user_refs db - {k}"
proof -
  let ?o = "delete_owned_rows k db" and ?s = "delete_safety_rows k now (delete_owned_rows k db)"
  have "owned_refs (delete_federation_rows n ?s) = owned_refs ?o"
    by (simp add: owned_refs_def delete_federation_rows_def delete_safety_rows_def Let_def)
  moreover have "safety_refs (delete_federation_rows n ?s) = safety_refs ?s" "safety_refs ?o = safety_refs db"
    by (simp_all add: safety_refs_def delete_federation_rows_def delete_owned_rows_def Let_def)
  ultimately show ?thesis
    using owned_refs_delete [of k db] safety_refs_delete [of k now ?o] by (auto simp: user_refs_def)
qed

lemma delete_user_name_refs:
  "name_refs (delete_federation_rows n (delete_safety_rows k now (delete_owned_rows k db))) \<subseteq>
     name_refs db - {n}"
  unfolding name_refs_def delete_user_defs by auto

lemma delete_user_room_refs:
  assumes "room_refs db \<subseteq> r_id ` set (rooms db)"
  shows "room_refs (delete_owned_rows k db) \<subseteq> r_id ` set (rooms (delete_owned_rows k db))"
  using assms unfolding room_refs_def delete_owned_rows_def created_rooms_def by force

lemma delete_user_report_refs:
  assumes "report_refs db \<subseteq> mr_id ` set (moderation_reports db)"
  shows "report_refs (delete_safety_rows k now db) \<subseteq>
    mr_id ` set (moderation_reports (delete_safety_rows k now db))"
proof
  fix i assume "i \<in> report_refs (delete_safety_rows k now db)"
  then obtain b where b: "b \<in> set (user_blocks db)" "ub_report_id b = Some i"
    and live: "i \<notin> mr_id ` set (filter (reports_about k) (moderation_reports db))"
    by (auto simp: report_refs_def delete_safety_rows_def Let_def set_update_rows split: if_splits)
  then obtain r where "r \<in> set (moderation_reports db)" "mr_id r = i"
    using assms by (force simp: report_refs_def)
  then show "i \<in> mr_id ` set (moderation_reports (delete_safety_rows k now db))"
    using live by (auto simp: delete_safety_rows_def Let_def image_key_update_rows)
qed

lemma delete_user_activity_refs:
  assumes "activity_refs db \<subseteq> fia_activity_id ` set (federation_inbox_activities db)"
  shows "activity_refs (delete_federation_rows n db) \<subseteq>
    fia_activity_id ` set (federation_inbox_activities (delete_federation_rows n db))"
  using assms unfolding activity_refs_def delete_federation_rows_def Let_def by force

lemma delete_user_users:
  "users (delete_federation_rows n (delete_safety_rows k now (delete_owned_rows k db))) =
     delete_rows (\<lambda>u. u_id u = k) (users db)"
  by (simp add: delete_user_defs)

lemma delete_user_integrity:
  assumes ok: "referential_integrity db" and ids: "distinct_key u_id (users db)"
    and del: "delete_user k now db = Inr db'"
  shows "referential_integrity db'"
proof -
  obtain u where u: "find_user db k = Some u"
    and db': "db' = delete_federation_rows (u_username u)
        (delete_safety_rows k now (delete_owned_rows k db))"
    using del by (auto simp: delete_user_def split: option.splits)
  have u_row: "u \<in> set (users db)" "u_id u = k"
    using u by (auto simp: find_user_def dest: find_row_Some)
  have same: "x = u" if "x \<in> set (users db)" "u_id x = k" for x
    using that u_row ids by (auto simp: distinct_key_def distinct_map inj_on_def)
  have "user_refs db' \<subseteq> u_id ` set (users db')"
    using delete_user_user_refs [of "u_username u" k now db] ok
    unfolding db' delete_user_users referential_integrity_def by force
  moreover have "name_refs db' \<subseteq> u_username ` set (users db')"
    using delete_user_name_refs [of "u_username u" k now db] ok same
    unfolding db' delete_user_users referential_integrity_def by force
  moreover have "room_refs db' = room_refs (delete_owned_rows k db)"
      "rooms db' = rooms (delete_owned_rows k db)"
    by (simp_all add: db' room_refs_def delete_federation_rows_def delete_safety_rows_def Let_def)
  then have "room_refs db' \<subseteq> r_id ` set (rooms db')"
    using delete_user_room_refs [of db k] ok by (simp add: referential_integrity_def)
  moreover have "report_refs db' \<subseteq> mr_id ` set (moderation_reports db')"
    using delete_user_report_refs [of "delete_owned_rows k db" k now] ok
    by (simp add: db' referential_integrity_def report_refs_def delete_federation_rows_def
        delete_owned_rows_def Let_def)
  moreover have "activity_refs db' \<subseteq> fia_activity_id ` set (federation_inbox_activities db')"
    using delete_user_activity_refs
        [of "delete_safety_rows k now (delete_owned_rows k db)" "u_username u"] ok
    by (simp add: db' referential_integrity_def activity_refs_def delete_safety_rows_def
        delete_owned_rows_def Let_def)
  ultimately show ?thesis by (simp add: referential_integrity_def)
qed



section \<open>Federated contacts\<close>

lemma split_once_append:
  "c \<notin> set a \<Longrightarrow> split_once c (a @ c # b) = Some (a, b)"
  unfolding split_once_def
  by (subst takeWhile_append2, force, subst dropWhile_append2, force) simp

lemma user_id_char_at: "\<not> user_id_char CHR ''@''"
  by (simp add: user_id_char_def is_ascii_alphanumeric_def)

lemma shadow_username_roundtrip:
  assumes "rid \<noteq> []" "host \<noteq> []" "list_all user_id_char rid" "list_all host_char host"
  shows "parse_federated_shadow_username (federated_shadow_username rid host) =
    Some \<lparr>fi_remote_user_id = rid, fi_remote_host = host\<rparr>"
proof -
  have "CHR ''@'' \<notin> set rid" using assms(3) user_id_char_at by (auto simp: list_all_iff)
  then show ?thesis using assms
    by (simp add: parse_federated_shadow_username_def federated_shadow_username_def split_once_append)
qed

lemma normalize_remote_user_id_ok:
  "normalize_remote_user_id raw = Inr rid \<Longrightarrow> rid \<noteq> [] \<and> list_all user_id_char rid"
  by (auto simp: normalize_remote_user_id_def Let_def split: if_splits)

lemma shadow_email: "ends_with (federated_shadow_email sha name) FEDERATED_SHADOW_EMAIL_DOMAIN"
  by (simp add: ends_with_def is_prefix_def federated_shadow_email_def)

lemma ensure_shadow_cases:
  assumes "ensure_federated_shadow_user sha parse_url i raw_id url now db = Inr (u, db')"
  obtains rid host where "normalize_remote_user_id raw_id = Inr rid"
    "normalize_remote_host parse_url url = Inr host" "u_username u = rid @ ''@'' @ host"
    "find_by_username db (rid @ ''@'' @ host) = Some u \<and> db' = db \<or>
     find_by_username db (rid @ ''@'' @ host) = None \<and> \<not> u_is_active u \<and> u_role u = ''user'' \<and>
     u_email u = federated_shadow_email sha (rid @ ''@'' @ host) \<and> u_id u = i \<and>
     users db' = users db @ [u] \<and> list_all (\<lambda>x. \<not> user_key_clash u x) (users db)"
proof -
  obtain rid host where n: "normalize_remote_user_id raw_id = Inr rid"
      "normalize_remote_host parse_url url = Inr host"
    using assms by (auto simp: ensure_federated_shadow_user_def result_simps)
  let ?name = "federated_shadow_username rid host"
  let ?new = "\<lparr>nu_id = i, nu_username = ?name, nu_email = federated_shadow_email sha ?name,
      nu_password_hash = FEDERATED_DISABLED_PASSWORD_HASH, nu_role = ''user'',
      nu_device_auth_pubkey = None, nu_is_approved = True\<rparr>"
  have name: "?name = rid @ ''@'' @ host" by (simp add: federated_shadow_username_def)
  show thesis
  proof (cases "find_by_username db ?name")
    case (Some v)
    then have "u = v" "db' = db" using assms n by (auto simp: ensure_federated_shadow_user_def Let_def)
    then show thesis using that [OF n] Some name
      by (auto simp: find_by_username_def dest: find_row_Some)
  next
    case None
    let ?u = "user_of_new ?new now"
    have uid: "u_id ?u = i" by (simp add: user_of_new_def)
    have clash: "\<not> exists_row (user_key_clash ?u) (users db)"
      using assms n None
      by (auto simp: ensure_federated_shadow_user_def insert_user_def Let_def split: if_splits)
    then have ids: "\<forall>x \<in> set (users db). u_id x \<noteq> i"
      by (auto simp: user_key_clash_def user_of_new_def)
    then have upd: "update_row u_id i f (users db @ [?u]) = users db @ [f ?u]" for f
      by (auto simp: update_row_def update_rows_def user_of_new_def intro: map_idI)
    have find: "find_row u_id (users db @ [x]) i = Some x" if "u_id x = i" for x
      using ids that find_row_insert [of u_id x "users db" i]
      by (auto simp: insert_row_def dest: find_row_Some split: option.splits)
    have "users db' = users db @ [u] \<and> u = ?u\<lparr>u_is_active := False, u_updated_at := now\<rparr>"
      using assms n None clash
      by (auto simp: ensure_federated_shadow_user_def insert_user_def Let_def result_simps
          update_user_def upd insert_row_def find_user_def find uid split: if_splits)
    then show thesis using that [OF n] None clash name
      by (auto simp: user_of_new_def user_key_clash_def list_all_iff)
  qed
qed

text \<open>
  The account of a remote contact: it has the contact's name and host as its user name; when it
  had to be created it is a new inactive account from which the identity of the contact can
  be read back; and asking again returns the same account and changes nothing.
\<close>

theorem shadow_user_roundtrip:
  assumes "ensure_federated_shadow_user sha parse_url i raw_id url now db = Inr (u, db')"
    and "normalize_remote_user_id raw_id = Inr rid" "normalize_remote_host parse_url url = Inr host"
    and "host \<noteq> []" "list_all host_char host"
  shows "u_username u = rid @ ''@'' @ host \<and>
    (find_by_username db (rid @ ''@'' @ host) = None \<longrightarrow>
       users db' = users db @ [u] \<and> \<not> u_is_active u \<and>
       federated_identity_for_user u = Some \<lparr>fi_remote_user_id = rid, fi_remote_host = host\<rparr>) \<and>
    ensure_federated_shadow_user sha parse_url i' raw_id url now' db' = Inr (u, db')"
proof -
  have name: "federated_shadow_username rid host = rid @ ''@'' @ host"
    by (simp add: federated_shadow_username_def)
  obtain rid' host' where n: "normalize_remote_user_id raw_id = Inr rid'"
      "normalize_remote_host parse_url url = Inr host'" and u': "u_username u = rid' @ ''@'' @ host'" and
      c': "find_by_username db (rid' @ ''@'' @ host') = Some u \<and> db' = db \<or>
       find_by_username db (rid' @ ''@'' @ host') = None \<and> \<not> u_is_active u \<and> u_role u = ''user'' \<and>
       u_email u = federated_shadow_email sha (rid' @ ''@'' @ host') \<and> u_id u = i \<and>
       users db' = users db @ [u] \<and> list_all (\<lambda>x. \<not> user_key_clash u x) (users db)"
    by (rule ensure_shadow_cases [OF assms(1)])
  have "rid' = rid" "host' = host" using n assms(2,3) by simp_all
  note u = u' [unfolded this] and c = c' [unfolded this]
  have "find_by_username db' (rid @ ''@'' @ host) = Some u"
    using c find_row_insert [of u_username u "users db" "rid @ ''@'' @ host"] u
    by (auto simp: find_by_username_def insert_row_def)
  then have again: "ensure_federated_shadow_user sha parse_url i' raw_id url now' db' = Inr (u, db')"
    using assms(2,3) by (simp add: ensure_federated_shadow_user_def name)
  have "federated_identity_for_user u = Some \<lparr>fi_remote_user_id = rid, fi_remote_host = host\<rparr>"
    if "find_by_username db (rid @ ''@'' @ host) = None"
    using that c u normalize_remote_user_id_ok [OF assms(2)] assms(4,5)
      shadow_username_roundtrip [of rid host] shadow_email [of sha "rid @ ''@'' @ host"]
    by (simp add: federated_identity_for_user_def name)
  then show ?thesis using u c again by auto
qed

theorem shadow_user_roundtrip_witness:
  "\<exists>u db'. ensure_federated_shadow_user (\<lambda>s. s) (\<lambda>u. Inr (Some ''Remote.org'')) 9 '' Eve '' ''x'' 0 sample_db
      = Inr (u, db') \<and> u_username u = ''eve@remote.org'' \<and> users db' = users sample_db @ [u]"
proof -
  let ?e = "ensure_federated_shadow_user (\<lambda>s. s) (\<lambda>u. Inr (Some ''Remote.org'')) 9 '' Eve '' ''x'' 0 sample_db"
  have "is_ok ?e" by code_simp
  then obtain u db' where e: "?e = Inr (u, db')" by (auto simp: is_ok_iff)
  have "normalize_remote_user_id '' Eve '' = Inr ''eve''"
    "normalize_remote_host (\<lambda>u. Inr (Some ''Remote.org'')) ''x'' = Inr ''remote.org''"
    "list_all host_char ''remote.org''" "find_by_username sample_db (''eve'' @ ''@'' @ ''remote.org'') = None"
    by code_simp+
  then show ?thesis using shadow_user_roundtrip [OF e] e by fastforce
qed

section \<open>Unique accounts\<close>

definition accounts_ok :: "db \<Rightarrow> bool" where
  "accounts_ok db \<longleftrightarrow> sorted_wrt (\<lambda>a b. \<not> user_key_clash a b) (users db) \<and>
     list_all (\<lambda>u. u_role u \<in> {''admin'', ''user'', ''moderator''}) (users db)"

lemma user_key_clash_sym: "user_key_clash a b \<longleftrightarrow> user_key_clash b a"
  unfolding user_key_clash_def by metis

lemma accounts_ok_distinct:
  assumes "accounts_ok db"
  shows "distinct (map u_id (users db))" "distinct (map u_username (users db))"
    "distinct (map u_email (users db))"
proof -
  have "sorted_wrt (\<lambda>a b. \<not> user_key_clash a b) us \<Longrightarrow>
      distinct (map u_id us) \<and> distinct (map u_username us) \<and> distinct (map u_email us)" for us
    by (induction us) (force simp: user_key_clash_def)+
  then show "distinct (map u_id (users db))" "distinct (map u_username (users db))"
      "distinct (map u_email (users db))"
    using assms by (auto simp: accounts_ok_def)
qed

lemma accounts_ok_insert:
  assumes "accounts_ok db" "users db' = users db @ [u]"
    and "u_role u \<in> {''admin'', ''user'', ''moderator''}" "list_all (\<lambda>x. \<not> user_key_clash u x) (users db)"
  shows "accounts_ok db'"
  using assms by (auto simp: accounts_ok_def sorted_wrt_append list_all_iff user_key_clash_sym)

lemma accounts_ok_map:
  assumes "accounts_ok db" "users db' = map g (users db)"
    and "\<And>a b. a \<in> set (users db) \<Longrightarrow> b \<in> set (users db) \<Longrightarrow> \<not> user_key_clash a b \<Longrightarrow>
      \<not> user_key_clash (g a) (g b)"
    and "\<And>u. u_role (g u) = u_role u"
  shows "accounts_ok db'"
  using assms sorted_wrt_mono_rel [of "users db" "\<lambda>a b. \<not> user_key_clash a b"
      "\<lambda>a b. \<not> user_key_clash (g a) (g b)"]
  by (auto simp: accounts_ok_def sorted_wrt_map list_all_iff)

lemma accounts_ok_update_user:
  assumes "accounts_ok db"
    and "\<And>u. u_id (f u) = u_id u \<and> u_username (f u) = u_username u \<and> u_email (f u) = u_email u \<and>
      u_device_auth_pubkey (f u) = u_device_auth_pubkey u \<and> u_role (f u) = u_role u"
  shows "accounts_ok (update_user k f now db)"
  by (rule accounts_ok_map [OF assms(1), where g = "\<lambda>u. if u_id u = k then (f u)\<lparr>u_updated_at := now\<rparr> else u"])
    (auto simp: update_user_def update_row_def update_rows_def user_key_clash_def assms(2))

lemma accounts_ok_delete:
  assumes "accounts_ok db" "users db' = delete_rows P (users db)"
  shows "accounts_ok db'"
  using assms by (auto simp: accounts_ok_def delete_rows_def sorted_wrt_filter list_all_iff)

lemma create_user_cases:
  assumes "create_user n m now db = Inr (u, db')"
  shows "u = user_of_new n now" "db' = db\<lparr>users := users db @ [u]\<rparr>"
    "nu_role n \<in> {''admin'', ''user'', ''moderator''}" "list_all (\<lambda>x. \<not> user_key_clash u x) (users db)"
    "\<forall>cap. m = Some cap \<longrightarrow> length (users db) < cap"
  using assms by (auto simp: create_user_def insert_user_def Let_def insert_row_def list_all_iff
      split: if_splits sum.splits app_error.splits db_error.splits option.splits)

lemma accounts_ok_create:
  assumes "accounts_ok db" "create_user n m now db = Inr (u, db')"
  shows "accounts_ok db'"
  using accounts_ok_insert [OF assms(1), of db' u] create_user_cases [OF assms(2)]
  by (simp add: user_of_new_def)

lemma update_profile_cases:
  assumes "update_profile k nm av de ke now db = Inr (u, db')"
  obtains e where "find_user db k = Some e"
    "db' = update_user k (\<lambda>u. u\<lparr>u_username := (case nm of None \<Rightarrow> u_username e | Some v \<Rightarrow> v),
        u_avatar_base64 := (case av of None \<Rightarrow> u_avatar_base64 e | Some v \<Rightarrow> v),
        u_description := (case de of None \<Rightarrow> u_description e | Some v \<Rightarrow> v),
        u_message_public_key := (case ke of None \<Rightarrow> u_message_public_key e | Some v \<Rightarrow> v)\<rparr>) now db"
    "\<forall>x \<in> set (users db). u_id x \<noteq> k \<longrightarrow> u_username x \<noteq> (case nm of None \<Rightarrow> u_username e | Some v \<Rightarrow> v)"
  using assms by (auto simp: update_profile_def Let_def result_simps split: if_splits)

lemma accounts_ok_profile:
  assumes ok: "accounts_ok db" and upd: "update_profile k nm av de ke now db = Inr (u, db')"
  shows "accounts_ok db'"
proof -
  obtain e where "find_user db k = Some e" and
    db': "db' = update_user k (\<lambda>u. u\<lparr>u_username := (case nm of None \<Rightarrow> u_username e | Some v \<Rightarrow> v),
        u_avatar_base64 := (case av of None \<Rightarrow> u_avatar_base64 e | Some v \<Rightarrow> v),
        u_description := (case de of None \<Rightarrow> u_description e | Some v \<Rightarrow> v),
        u_message_public_key := (case ke of None \<Rightarrow> u_message_public_key e | Some v \<Rightarrow> v)\<rparr>) now db"
      (is "_ = update_user k ?f now db")
    and free: "\<forall>x \<in> set (users db). u_id x \<noteq> k \<longrightarrow>
      u_username x \<noteq> (case nm of None \<Rightarrow> u_username e | Some v \<Rightarrow> v)"
    using update_profile_cases [OF upd] by metis
  have "users db' = map (\<lambda>u. if u_id u = k then (?f u)\<lparr>u_updated_at := now\<rparr> else u) (users db)"
    by (simp add: db' update_user_def update_row_def update_rows_def)
  then show ?thesis by (rule accounts_ok_map [OF ok]) (use free in \<open>auto simp: user_key_clash_def\<close>)
qed

end
