(* ===== verification/Account_Properties.thy ===== *)
theory Account_Properties
  imports Auth User_Properties
begin

text \<open>
  Accounts over all operations that create, change or delete them: the uniqueness of their
  keys as an invariant, what a registration does, the bound on the accounts created from one
  address, and the first administrator.
\<close>

section \<open>The invariant of the accounts\<close>

inductive account_step :: "db \<Rightarrow> db \<Rightarrow> bool" where
  "create_user n m now db = Inr (u, db') \<Longrightarrow> account_step db db'"
| "ensure_federated_shadow_user sha parse_url i rid url now db = Inr (u, db') \<Longrightarrow> account_step db db'"
| "update_profile k nm av de ke now db = Inr (u, db') \<Longrightarrow> account_step db db'"
| "delete_user k now db = Inr db' \<Longrightarrow> account_step db db'"
| "approve_user k now db = Inr db' \<Longrightarrow> account_step db db'"
| "reject_user k now db = Inr db' \<Longrightarrow> account_step db db'"
| "set_user_active k active now db = Inr db' \<Longrightarrow> account_step db db'"
| "issue_yellow_card k n_days now db = Inr db' \<Longrightarrow> account_step db db'"
| "clear_yellow_card k now db = Inr db' \<Longrightarrow> account_step db db'"
| "account_step db (update_last_seen k now db)"
| "record_terms_acceptance_conn k v now db = Inr (u, db') \<Longrightarrow> account_step db db'"
| "users db' = users db \<Longrightarrow> account_step db db'"

lemma delete_user_rows:
  "delete_user k now db = Inr db' \<Longrightarrow> users db' = delete_rows (\<lambda>u. u_id u = k) (users db)"
  by (auto simp: delete_user_def delete_user_defs split: option.splits)

lemma accounts_ok_shadow:
  assumes ok: "accounts_ok db"
    and e: "ensure_federated_shadow_user sha parse_url i raw_id url now db = Inr (u, db')"
  shows "accounts_ok db'"
  using e
proof (rule ensure_shadow_cases)
  fix rid host
  assume "find_by_username db (rid @ ''@'' @ host) = Some u \<and> db' = db \<or>
     find_by_username db (rid @ ''@'' @ host) = None \<and> \<not> u_is_active u \<and> u_role u = ''user'' \<and>
     u_email u = federated_shadow_email sha (rid @ ''@'' @ host) \<and> u_id u = i \<and>
     users db' = users db @ [u] \<and> list_all (\<lambda>x. \<not> user_key_clash u x) (users db)"
  then show ?thesis using ok accounts_ok_insert [OF ok, of db' u] by auto
qed

lemma accounts_ok_change:
  assumes "accounts_ok db" "change_user k f now db = Inr db'"
    and "\<And>u. u_id (f u) = u_id u \<and> u_username (f u) = u_username u \<and> u_email (f u) = u_email u \<and>
      u_device_auth_pubkey (f u) = u_device_auth_pubkey u \<and> u_role (f u) = u_role u"
  shows "accounts_ok db'"
  using assms accounts_ok_update_user [OF assms(1,3)] by (auto simp: change_user_def split: if_splits)

lemma accounts_ok_step: "account_step db db' \<Longrightarrow> accounts_ok db \<Longrightarrow> accounts_ok db'"
proof (induction rule: account_step.induct)
  case (11 k v now db u db')
  then show ?case
    by (auto simp: record_terms_acceptance_conn_def Let_def result_simps split: if_splits
        intro: accounts_ok_update_user)
next
  case (10 db k now)
  then show ?case by (auto simp: update_last_seen_def intro: accounts_ok_update_user)
next
  case (12 db' db)
  then show ?case by (simp add: accounts_ok_def)
qed (auto simp: approve_user_def set_user_active_def issue_yellow_card_def clear_yellow_card_def
    reject_user_def intro: accounts_ok_create accounts_ok_shadow accounts_ok_profile
    accounts_ok_delete delete_user_rows elim: accounts_ok_change)

definition no_accounts :: "db \<Rightarrow> bool" where
  "no_accounts db \<longleftrightarrow> users db = []"

interpretation accounts: machine no_accounts account_step accounts_ok
proof
  show "accounts_ok db" if "no_accounts db" for db
    using that by (simp add: no_accounts_def accounts_ok_def)
qed (rule accounts_ok_step)

text \<open>
  [C37] From an empty server, no sequence of account operations produces two accounts with the same
  id, user name, e-mail or device key, or an account with an unknown role.
\<close>

theorem accounts_unique:
  assumes "users db0 = []" "account_step\<^sup>*\<^sup>* db0 db"
  shows "distinct (map u_id (users db)) \<and> distinct (map u_username (users db)) \<and>
    distinct (map u_email (users db)) \<and>
    (\<forall>a \<in> set (users db). \<forall>b \<in> set (users db).
       u_device_auth_pubkey a \<noteq> None \<longrightarrow> u_device_auth_pubkey a = u_device_auth_pubkey b \<longrightarrow> a = b) \<and>
    (\<forall>u \<in> set (users db). u_role u \<in> {''admin'', ''user'', ''moderator''})"
proof -
  have ok: "accounts_ok db" using accounts.inv_reachable assms by (simp add: no_accounts_def)
  have "sorted_wrt (\<lambda>a b. \<not> user_key_clash a b) us \<Longrightarrow> a \<in> set us \<Longrightarrow> b \<in> set us \<Longrightarrow>
      u_device_auth_pubkey a \<noteq> None \<Longrightarrow> u_device_auth_pubkey a = u_device_auth_pubkey b \<Longrightarrow> a = b" for us a b
    by (induction us) (auto simp: user_key_clash_def)
  then show ?thesis using ok accounts_ok_distinct [OF ok] by (auto simp: accounts_ok_def list_all_iff)
qed

theorem accounts_unique_witness:
  "\<exists>db. account_step\<^sup>*\<^sup>* empty_db db \<and> length (users db) = 1 \<and> distinct (map u_email (users db))"
proof -
  let ?n = "\<lparr>nu_id = 4, nu_username = ''ann'', nu_email = ''a'', nu_password_hash = [], nu_role = ''user'',
      nu_device_auth_pubkey = None, nu_is_approved = True\<rparr>"
  have "is_ok (create_user ?n None 0 empty_db)" by code_simp
  then obtain u db where c: "create_user ?n None 0 empty_db = Inr (u, db)" by (auto simp: is_ok_iff)
  then have "account_step\<^sup>*\<^sup>* empty_db db" by (blast intro: account_step.intros)
  moreover have "users empty_db = []" by (simp add: empty_db_def)
  ultimately show ?thesis
    using accounts_unique [of empty_db db] create_user_cases(2) [OF c] by auto
qed

section \<open>Registration\<close>

lemma accept_terms_ok:
  assumes "find_user db uid \<noteq> None"
  obtains db' where "accept_terms v uid now db = Inr db'" "map u_id (users db') = map u_id (users db)"
    "length (users db') = length (users db)"
proof -
  obtain u where u: "find_row u_id (users db) uid = Some u" using assms by (auto simp: find_user_def)
  let ?f = "\<lambda>u. u\<lparr>u_ugc_terms_version := CURRENT_SAFETY_TERMS_VERSION, u_ugc_terms_accepted_at := Some now\<rparr>"
  have "map u_id (users (update_user uid ?f now db)) = map u_id (users db)"
    by (simp add: update_user_def update_row_def map_key_update_rows)
  moreover from this have "length (users (update_user uid ?f now db)) = length (users db)"
    by (metis length_map)
  moreover have "find_user (update_user uid ?f now db) uid \<noteq> None"
    using u by (simp add: find_user_def update_user_def find_row_update)
  ultimately show thesis
    using that by (cases "v = Some CURRENT_SAFETY_TERMS_VERSION")
      (auto simp: accept_terms_def record_terms_acceptance_conn_def Let_def)
qed

text \<open>The new row of an account: what a registration stores, before and after the terms.\<close>

definition fresh_account :: "string \<Rightarrow> string \<Rightarrow> bool \<Rightarrow> user \<Rightarrow> bool" where
  "fresh_account name email approved u \<longleftrightarrow> u_username u = name \<and> u_email u = email \<and>
     u_role u = ''user'' \<and> u_is_active u \<and> u_is_approved u = approved"

lemma fresh_account_terms:
  assumes "accept_terms v uid now db = Inr db'" "users db = us @ [u]" "u_id u = uid"
    and "uid \<notin> u_id ` set us" "fresh_account name email approved u"
  shows "\<exists>u'. users db' = us @ [u'] \<and> u_id u' = uid \<and> fresh_account name email approved u'"
proof (cases "v = Some CURRENT_SAFETY_TERMS_VERSION")
  case True
  have "map (\<lambda>r. if u_id r = u_id u then g r else r) us = us" for g
    using assms(3,4) by (intro map_idI) (metis imageI)
  then show ?thesis using assms True
    by (auto simp: accept_terms_def record_terms_acceptance_conn_def Let_def result_simps
        update_user_def update_row_def update_rows_def fresh_account_def)
qed (use assms in \<open>auto simp: accept_terms_def\<close>)

definition recent :: "instant \<Rightarrow> string \<Rightarrow> auth_memory \<Rightarrow> int list" where
  "recent now ip mem = filter (\<lambda>ts. timestamp now - ts < 3600) (registration_limiter mem ip)"

lemma limiter_check:
  assumes "is_registration_rate_limited ip now mem = (limited, mem1)"
  shows "registration_limiter mem1 = (registration_limiter mem)(ip := recent now ip mem)"
    "limited \<longleftrightarrow> 5 \<le> length (recent now ip mem)"
  using assms by (auto simp: is_registration_rate_limited_def Let_def recent_def REGISTRATION_MAX_PER_HOUR_def)

lemma register_cases:
  assumes run: "register ex cf ip body salt i now (mem, db) = (r, (mem', db'))"
  shows "if is_ok r
    then (\<exists>u. users db' = users db @ [u] \<and>
            fresh_account (rq_username body) (to_lowercase (rq_email body)) (\<not> is_approval_required db) u) \<and>
         (r = Inr Pending \<longleftrightarrow> is_approval_required db) \<and>
         (\<forall>cap. effective_max_users (cf_max_users cf) db = Some cap \<longrightarrow> length (users db') \<le> cap) \<and>
         length (recent now ip mem) < 5 \<and>
         registration_limiter mem' = (registration_limiter mem)(ip := recent now ip mem @ [timestamp now])
    else db' = db \<and> registration_limiter mem' = (registration_limiter mem)(ip := recent now ip mem)"
proof -
  obtain limited mem1 where lim: "is_registration_rate_limited ip now mem = (limited, mem1)" by fastforce
  note mem1 = limiter_check [OF lim]
  show ?thesis
  proof (cases "limited \<or> \<not> is_ok (validate_registration ex cf body salt now)")
    case True
    then obtain e where "r = Inl e" "mem' = mem1" "db' = db"
      using run lim
      by (cases "validate_registration ex cf body salt now") (auto simp: register_parts split: if_splits)
    then show ?thesis using mem1 by simp
  next
    case False
    then obtain pw where pw: "validate_registration ex cf body salt now = Inr pw"
      by (auto simp: is_ok_iff)
    let ?n = "\<lparr>nu_id = i, nu_username = rq_username body, nu_email = to_lowercase (rq_email body),
        nu_password_hash = pw, nu_role = ''user'', nu_device_auth_pubkey = None,
        nu_is_approved = \<not> is_approval_required db\<rparr>"
    let ?max = "resolved_max_users (cf_max_users cf) db"
    show ?thesis
    proof (cases "create_user ?n ?max now db")
      case (Inl e)
      then have "r = Inl e" "mem' = mem1" "db' = db"
        using run lim False pw by (simp_all add: register_parts Let_def)
      then show ?thesis using mem1 by simp
    next
      case (Inr res)
      then obtain u db1 where c: "create_user ?n ?max now db = Inr (u, db1)" by (cases res) auto
      note cases = create_user_cases [OF c]
      have u: "u_id u = i" "fresh_account (rq_username body) (to_lowercase (rq_email body))
          (\<not> is_approval_required db) u"
        by (simp_all add: cases(1) user_of_new_def fresh_account_def)
      have new: "i \<notin> u_id ` set (users db)"
        using cases(4) u(1) by (auto simp: list_all_iff user_key_clash_def)
      have "find_user db1 (u_id u) \<noteq> None" by (simp add: find_user_def cases(2) find_row_None)
      then obtain db2 where t: "accept_terms (rq_accepted_terms_version body) (u_id u) now db1 = Inr db2"
        by (rule accept_terms_ok)
      obtain u' where "users db2 = users db @ [u']" "fresh_account (rq_username body)
          (to_lowercase (rq_email body)) (\<not> is_approval_required db) u'"
        using fresh_account_terms [OF t _ refl _ u(2), of "users db"] new u(1) cases(2) by auto
      then show ?thesis using run lim mem1 False pw c t cases(5)
        by (auto simp: register_parts Let_def record_registration_def resolved_max_users_def split: if_splits)
    qed
  qed
qed

text \<open>
  A registration that succeeds appends exactly one account, active, with the role user, the
  given name and the lowercased e-mail, approved unless the server asks for approval, within
  the cap of users, and charges the limiter of the address; one that fails leaves the database
  as it was and charges nothing.
\<close>

theorem register_exact:
  assumes run: "register ex cf ip body salt i now (mem, db) = (r, (mem', db'))"
  shows "if is_ok r
    then (\<exists>u. users db' = users db @ [u] \<and>
            fresh_account (rq_username body) (to_lowercase (rq_email body)) (\<not> is_approval_required db) u) \<and>
         (r = Inr Pending \<longleftrightarrow> is_approval_required db) \<and>
         (\<forall>cap. effective_max_users (cf_max_users cf) db = Some cap \<longrightarrow> length (users db') \<le> cap) \<and>
         length (recent now ip mem) < 5 \<and>
         registration_limiter mem' = (registration_limiter mem)(ip := recent now ip mem @ [timestamp now])
    else db' = db \<and> registration_limiter mem' = (registration_limiter mem)(ip := recent now ip mem)"
  by (rule register_cases [OF run])

theorem register_exact_witness:
  "let s = register sample_externals sample_config ''ip'' \<lparr>rq_username = ''carl'', rq_email = ''C@x.org'',
       rq_password = ''password'', rq_altcha_payload = None, rq_accepted_terms_version = Some 1\<rparr> 0 9 0
       (empty_memory, sample_server)
   in is_ok (fst s) \<and> length (users (snd (snd s))) = 3"
proof -
  let ?s = "register sample_externals sample_config ''ip'' \<lparr>rq_username = ''carl'', rq_email = ''C@x.org'',
       rq_password = ''password'', rq_altcha_payload = None, rq_accepted_terms_version = Some 1\<rparr> 0 9 0
       (empty_memory, sample_server)"
  have ok: "is_ok (fst ?s)" by code_simp
  obtain r mem' db' where s: "?s = (r, (mem', db'))" by (metis surj_pair)
  have "length (users sample_server) = 2" by code_simp
  then show ?thesis using register_exact [OF s] ok s by auto
qed

section \<open>The bound on new accounts per address\<close>

text \<open>
  The runs of the two handlers that create accounts, since the start of the process, whose memory
  the limiter is, with a log of the accounts created: the address and the second of every creation.
  The password is hashed between the check of the limiter and the creation, and other requests
  run meanwhile: the requests in flight are part of the state, and \<open>m\<close> bounds how many an
  address has in flight at a time. Time does not run backwards; other requests leave the limiter
  alone.
\<close>

datatype waiting =
    Registering (waiting_ip: string) register_request string
  | NewDevice (waiting_ip: string) string string

type_synonym creation_state = "int \<times> (string \<times> int) list \<times> waiting list \<times> auth_memory \<times> db"

definition in_flight :: "string \<Rightarrow> waiting list \<Rightarrow> nat" where
  "in_flight ip W = length (filter (\<lambda>x. waiting_ip x = ip) W)"

definition log_creation :: "string \<Rightarrow> instant \<Rightarrow> db \<Rightarrow> db \<Rightarrow> (string \<times> int) list \<Rightarrow> (string \<times> int) list" where
  "log_creation ip now db db' log =
     (if length (users db) < length (users db') then log @ [(ip, timestamp now)] else log)"

inductive creation_step :: "externals \<Rightarrow> config \<Rightarrow> nat \<Rightarrow> creation_state \<Rightarrow> creation_state \<Rightarrow> bool"
  for ex cf m where
  check_register: "clk \<le> timestamp now \<Longrightarrow> register_check ex cf ip body salt now mem = (Inr pw, mem') \<Longrightarrow>
    in_flight ip W < m \<Longrightarrow>
    creation_step ex cf m (clk, log, W, mem, db) (timestamp now, log, Registering ip body pw # W, mem', db)"
| refuse_register: "clk \<le> timestamp now \<Longrightarrow> register_check ex cf ip body salt now mem = (Inl e, mem') \<Longrightarrow>
    creation_step ex cf m (clk, log, W, mem, db) (timestamp now, log, W, mem', db)"
| create_register: "clk \<le> timestamp now \<Longrightarrow> Registering ip body pw \<in> set W \<Longrightarrow>
    register_create cf ip body pw i now (mem, db) = (r, (mem', db')) \<Longrightarrow>
    creation_step ex cf m (clk, log, W, mem, db)
      (timestamp now, log_creation ip now db db' log, remove1 (Registering ip body pw) W, mem', db')"
| check_device: "clk \<le> timestamp now \<Longrightarrow> find_by_device_auth_pubkey db pubkey = None \<Longrightarrow>
    device_check ex ip secret now mem = (Inr pw, mem') \<Longrightarrow> in_flight ip W < m \<Longrightarrow>
    creation_step ex cf m (clk, log, W, mem, db) (timestamp now, log, NewDevice ip pubkey pw # W, mem', db)"
| refuse_device: "clk \<le> timestamp now \<Longrightarrow> device_check ex ip secret now mem = (Inl e, mem') \<Longrightarrow>
    creation_step ex cf m (clk, log, W, mem, db) (timestamp now, log, W, mem', db)"
| create_device: "clk \<le> timestamp now \<Longrightarrow> NewDevice ip pubkey pw \<in> set W \<Longrightarrow>
    device_create ex cf ip pubkey pw i now (mem, db) = (d, (mem', db')) \<Longrightarrow>
    creation_step ex cf m (clk, log, W, mem, db)
      (timestamp now, log_creation ip now db db' log, remove1 (NewDevice ip pubkey pw) W, mem', db')"
| other: "clk \<le> clk' \<Longrightarrow> registration_limiter mem' = registration_limiter mem \<Longrightarrow>
    creation_step ex cf m (clk, log, W, mem, db) (clk', log, W, mem', db')"

definition created_at :: "string \<Rightarrow> (string \<times> int) list \<Rightarrow> int list" where
  "created_at ip log = map snd (filter (\<lambda>e. fst e = ip) log)"

text \<open>
  The limiter knows every creation of the last hour, and those together with the requests in
  flight stay within the bound: a request enters only below five.
\<close>

definition limiter_inv :: "nat \<Rightarrow> creation_state \<Rightarrow> bool" where
  "limiter_inv m s = (case s of (clk, log, W, mem, db) \<Rightarrow> \<forall>ip.
     (\<forall>t \<in> set (created_at ip log). t \<le> clk) \<and>
     filter (\<lambda>t. clk - t < 3600) (created_at ip log) =
       filter (\<lambda>t. clk - t < 3600) (registration_limiter mem ip) \<and>
     length (filter (\<lambda>t. clk - t < 3600) (registration_limiter mem ip)) + in_flight ip W \<le> 4 + m \<and>
     (\<forall>w. length (filter (\<lambda>t. w \<le> t \<and> t < w + 3600) (created_at ip log)) \<le> 4 + m))"

lemma filter_window:
  assumes "(clk :: int) \<le> now" "filter (\<lambda>t. clk - t < 3600) xs = filter (\<lambda>t. clk - t < 3600) ys"
  shows "filter (\<lambda>t. now - t < 3600) xs = filter (\<lambda>t. now - t < 3600) ys"
proof -
  have "filter (\<lambda>t. now - t < 3600) zs = filter (\<lambda>t. now - t < 3600) (filter (\<lambda>t. clk - t < 3600) zs)" for zs
    using assms(1) by (induction zs) auto
  then show ?thesis using assms(2) by metis
qed

lemma window_shrinks:
  "(clk :: int) \<le> now \<Longrightarrow> length (filter (\<lambda>t. now - t < 3600) xs) \<le> length (filter (\<lambda>t. clk - t < 3600) xs)"
  by (induction xs) auto

lemma window_bound:
  assumes "length (filter (\<lambda>t. now - t < 3600) xs) < b"
    and "\<forall>w. length (filter (\<lambda>t. w \<le> t \<and> t < w + 3600) xs) \<le> b"
  shows "length (filter (\<lambda>t. w \<le> t \<and> t < w + 3600) (xs @ [now :: int])) \<le> b"
proof (cases "w \<le> now \<and> now < w + 3600")
  case True
  have "length (filter (\<lambda>t. w \<le> t \<and> t < w + 3600) xs) \<le> length (filter (\<lambda>t. now - t < 3600) xs)"
    using True by (induction xs) auto
  then show ?thesis using assms(1) True by simp
next
  case False
  then have "filter (\<lambda>t. w \<le> t \<and> t < w + 3600) (xs @ [now]) = filter (\<lambda>t. w \<le> t \<and> t < w + 3600) xs"
    by auto
  then show ?thesis using assms(2) by simp
qed

text \<open>A step that creates nothing: the clock moves on, the limiter is at most pruned.\<close>

lemma limiter_inv_keep:
  assumes "limiter_inv m (clk, log, W, mem, db)" "clk \<le> now"
    and same: "\<forall>ip. filter (\<lambda>t. now - t < 3600) (registration_limiter mem' ip) =
      filter (\<lambda>t. now - t < 3600) (registration_limiter mem ip)"
    and room: "\<forall>ip. in_flight ip W' \<le> in_flight ip W \<or>
      length (filter (\<lambda>t. now - t < 3600) (registration_limiter mem ip)) + in_flight ip W' \<le> 4 + m"
  shows "limiter_inv m (now, log, W', mem', db')"
proof -
  have "filter (\<lambda>t. now - t < 3600) (created_at ip log) =
      filter (\<lambda>t. now - t < 3600) (registration_limiter mem' ip)" for ip
    using filter_window [OF assms(2), of "created_at ip log" "registration_limiter mem ip"] assms(1) same
    by (simp add: limiter_inv_def)
  moreover have "t \<le> now" if "t \<in> set (created_at ip log)" for t ip
    using assms(1,2) that by (force simp: limiter_inv_def)
  moreover have "length (filter (\<lambda>t. now - t < 3600) (registration_limiter mem' ip)) + in_flight ip W' \<le> 4 + m" for ip
  proof -
    have "length (filter (\<lambda>t. clk - t < 3600) (registration_limiter mem ip)) + in_flight ip W \<le> 4 + m"
      using assms(1) by (simp add: limiter_inv_def)
    then show ?thesis using room [rule_format, of ip] same window_shrinks [OF assms(2), of "registration_limiter mem ip"]
      by (metis (no_types, lifting) add_mono order_trans)
  qed
  ultimately show ?thesis using assms(1) by (simp add: limiter_inv_def)
qed

lemma in_flight_remove: "x \<in> set W \<Longrightarrow> in_flight ip W = in_flight ip (remove1 x W) + (if waiting_ip x = ip then 1 else 0)"
  by (induction W) (auto simp: in_flight_def)

lemma limiter_inv_create:
  assumes "limiter_inv m (clk, log, W, mem, db)" "clk \<le> now" "x \<in> set W" "waiting_ip x = ip"
    and mem': "registration_limiter mem' = (registration_limiter mem)(ip := registration_limiter mem ip @ [now])"
  shows "limiter_inv m (now, log @ [(ip, now)], remove1 x W, mem', db')"
proof -
  have keep: "limiter_inv m (now, log, W, mem, db)" by (rule limiter_inv_keep [OF assms(1,2)]) simp_all
  have log: "created_at j (log @ [(ip, now)]) = (if j = ip then created_at ip log @ [now] else created_at j log)" for j
    by (simp add: created_at_def)
  have window: "filter (\<lambda>t. now - t < 3600) (created_at ip log) =
      filter (\<lambda>t. now - t < 3600) (registration_limiter mem ip)"
    and sum: "length (filter (\<lambda>t. now - t < 3600) (registration_limiter mem j)) + in_flight j W \<le> 4 + m"
    and bound: "\<forall>w. length (filter (\<lambda>t. w \<le> t \<and> t < w + 3600) (created_at ip log)) \<le> 4 + m" for j
    using keep by (auto simp: limiter_inv_def)
  have flight: "in_flight j W = in_flight j (remove1 x W) + (if j = ip then 1 else 0)" for j
    using in_flight_remove [OF assms(3), of j] assms(4) by auto
  have "length (filter (\<lambda>t. now - t < 3600) (created_at ip log)) < 4 + m"
    using sum [of ip] flight [of ip] window by simp
  note bound' = window_bound [OF this bound]
  have sum': "length (filter (\<lambda>t. now - t < 3600) (registration_limiter mem' j)) + in_flight j (remove1 x W) \<le> 4 + m" for j
    using sum [of j] flight [of j] by (simp add: mem' split: if_splits)
  have rest: "\<forall>t \<in> set (created_at j log). t \<le> now"
    "filter (\<lambda>t. now - t < 3600) (created_at j log) = filter (\<lambda>t. now - t < 3600) (registration_limiter mem j)"
    "length (filter (\<lambda>t. w \<le> t \<and> t < w + 3600) (created_at j log)) \<le> 4 + m" for j w
    using keep by (simp_all add: limiter_inv_def)
  show ?thesis unfolding limiter_inv_def prod.case
  proof (intro allI conjI)
    fix j w
    show "length (filter (\<lambda>t. w \<le> t \<and> t < w + 3600) (created_at j (log @ [(ip, now)]))) \<le> 4 + m"
      unfolding log using bound' [of w] rest(3) [of w j] by presburger
  qed (use rest(1,2) sum' in \<open>auto simp: log mem'\<close>)
qed

lemma register_check_limiter:
  assumes "register_check ex cf ip body salt now mem = (r, mem')"
  shows "registration_limiter mem' = (registration_limiter mem)(ip := recent now ip mem)"
    "is_ok r \<Longrightarrow> length (recent now ip mem) < 5"
  using assms limiter_check [of ip now mem]
  by (auto simp: register_check_def split: prod.splits if_splits)

lemma device_check_limiter:
  assumes "device_check ex ip pw now mem = (r, mem')"
  shows "registration_limiter mem' = (registration_limiter mem)(ip := recent now ip mem)"
    "is_ok r \<Longrightarrow> length (recent now ip mem) < 5"
  using assms limiter_check [of ip now mem]
  by (auto simp: device_check_def split: prod.splits if_splits)

text \<open>What the second halves do: an account and its record, or neither.\<close>

lemma register_create_limiter:
  assumes "register_create cf ip body pw i now (mem, db) = (r, (mem', db'))"
  shows "length (users db') = Suc (length (users db)) \<and>
      registration_limiter mem' = (registration_limiter mem)(ip := registration_limiter mem ip @ [timestamp now]) \<or>
    db' = db \<and> mem' = mem"
proof -
  let ?n = "\<lparr>nu_id = i, nu_username = rq_username body, nu_email = to_lowercase (rq_email body),
      nu_password_hash = pw, nu_role = ''user'', nu_device_auth_pubkey = None,
      nu_is_approved = \<not> is_approval_required db\<rparr>"
  show ?thesis
  proof (cases "create_user ?n (resolved_max_users (cf_max_users cf) db) now db")
    case (Inl e)
    then show ?thesis using assms by (simp add: register_create_def Let_def)
  next
    case (Inr res)
    then obtain u db1 where c: "create_user ?n (resolved_max_users (cf_max_users cf) db) now db = Inr (u, db1)"
      by (cases res) auto
    note cases = create_user_cases [OF c]
    have "u_id u \<notin> u_id ` set (users db)" using cases(4) by (auto simp: list_all_iff user_key_clash_def)
    then have "find_user db1 (u_id u) \<noteq> None" by (simp add: find_user_def cases(2) find_row_None)
    then obtain db2 where t: "accept_terms (rq_accepted_terms_version body) (u_id u) now db1 = Inr db2"
      by (rule accept_terms_ok)
    have "length (users db2) = length (users db1)"
      using t by (auto simp: accept_terms_def record_terms_acceptance_conn_def Let_def result_simps update_user_def
          update_row_def update_rows_def split: if_splits)
    then show ?thesis using assms c t cases(2) by (auto simp: register_create_def Let_def record_registration_def)
  qed
qed

lemma device_create_limiter:
  assumes "device_create ex cf ip pubkey pw i now (mem, db) = (r, (mem', db'))"
  shows "length (users db') = Suc (length (users db)) \<and>
      registration_limiter mem' = (registration_limiter mem)(ip := registration_limiter mem ip @ [timestamp now]) \<or>
    db' = db \<and> mem' = mem"
  using assms create_user_cases(2)
  by (fastforce simp: device_create_def Let_def record_registration_def split: sum.splits app_error.splits)

lemma recent_recent: "filter (\<lambda>t. timestamp now - t < 3600) (recent now ip mem) = recent now ip mem"
  by (simp add: recent_def)

lemma limiter_inv_check:
  assumes "limiter_inv m (clk, log, W, mem, db)" "clk \<le> timestamp now"
    and "registration_limiter mem' = (registration_limiter mem)(ip := recent now ip mem)"
    and "W' = W \<or> W' = x # W \<and> waiting_ip x = ip \<and> in_flight ip W < m \<and> length (recent now ip mem) < 5"
  shows "limiter_inv m (timestamp now, log, W', mem', db')"
  by (rule limiter_inv_keep [OF assms(1,2)])
    (use assms(3,4) in \<open>auto simp: recent_recent in_flight_def simp flip: recent_def\<close>)

lemma limiter_inv_finish:
  assumes "limiter_inv m (clk, log, W, mem, db)" "clk \<le> timestamp now" "x \<in> set W" "waiting_ip x = ip"
    and "length (users db') = Suc (length (users db)) \<and>
      registration_limiter mem' = (registration_limiter mem)(ip := registration_limiter mem ip @ [timestamp now]) \<or>
    db' = db \<and> mem' = mem"
  shows "limiter_inv m (timestamp now, log_creation ip now db db' log, remove1 x W, mem', db')"
  using assms(5)
proof
  assume "db' = db \<and> mem' = mem"
  then show ?thesis using limiter_inv_keep [OF assms(1,2), of mem "remove1 x W" db] in_flight_remove [OF assms(3)]
    by (simp add: log_creation_def)
qed (use limiter_inv_create [OF assms(1-4)] in \<open>simp add: log_creation_def\<close>)

lemma limiter_inv_step: "creation_step ex cf m s s' \<Longrightarrow> limiter_inv m s \<Longrightarrow> limiter_inv m s'"
proof (induction rule: creation_step.induct)
  case (check_register clk now ip body salt mem pw mem' W log db)
  then show ?case using register_check_limiter [OF check_register(2)]
    by (intro limiter_inv_check [where x = "Registering ip body pw"]) auto
next
  case (refuse_register clk now ip body salt mem e mem' log W db)
  then show ?case using register_check_limiter(1) [OF refuse_register(2)] by (intro limiter_inv_check) auto
next
  case (check_device clk now db pubkey ip secret mem pw mem' W log)
  then show ?case using device_check_limiter [OF check_device(3)]
    by (intro limiter_inv_check [where x = "NewDevice ip pubkey pw"]) auto
next
  case (refuse_device clk now ip secret mem e mem' log W db)
  then show ?case using device_check_limiter(1) [OF refuse_device(2)] by (intro limiter_inv_check) auto
next
  case (create_register clk now ip body pw W i mem db r mem' db' log)
  then show ?case using register_create_limiter [OF create_register(3)] limiter_inv_finish by auto
next
  case (create_device clk now ip pubkey pw W i mem db d mem' db' log)
  then show ?case using device_create_limiter [OF create_device(3)] limiter_inv_finish by auto
next
  case (other clk clk' mem' mem log W db db')
  then show ?case using limiter_inv_keep [OF other(3,1), of mem' W] by simp
qed

definition creation_init :: "creation_state \<Rightarrow> bool" where
  "creation_init s = (case s of (clk, log, W, mem, db) \<Rightarrow> log = [] \<and> W = [] \<and> registration_limiter mem = (\<lambda>_. []))"

interpretation creations: machine creation_init "creation_step ex cf m" "limiter_inv m" for ex cf m
proof
  show "limiter_inv m s" if "creation_init s" for s
    using that by (auto simp: creation_init_def limiter_inv_def created_at_def in_flight_def)
qed (rule limiter_inv_step)

text \<open>The two halves in a row are the request.\<close>

lemma register_in_a_row:
  assumes "register ex cf ip body salt i now (mem, db) = (Inr r, (mem', db'))" "clk \<le> timestamp now" "in_flight ip W < m"
  shows "(creation_step ex cf m)\<^sup>*\<^sup>* (clk, log, W, mem, db) (timestamp now, log_creation ip now db db' log, W, mem', db')"
proof -
  obtain pw mem1 where "register_check ex cf ip body salt now mem = (Inr pw, mem1)"
    "register_create cf ip body pw i now (mem1, db) = (Inr r, (mem', db'))"
    using assms(1) by (auto simp: register_def split: prod.splits sum.splits)
  note halves = this
  have "(creation_step ex cf m)\<^sup>*\<^sup>* (clk, log, W, mem, db) (timestamp now, log, Registering ip body pw # W, mem1, db)"
    by (rule r_into_rtranclp, rule creation_step.check_register [OF assms(2) halves(1) assms(3)])
  also have "creation_step ex cf m (timestamp now, log, Registering ip body pw # W, mem1, db)
      (timestamp now, log_creation ip now db db' log, remove1 (Registering ip body pw) (Registering ip body pw # W), mem', db')"
    by (rule creation_step.create_register [OF order_refl _ halves(2)]) simp
  finally show ?thesis by simp
qed



section \<open>The first administrator\<close>

text \<open>
  \<open>setup_admin\<close> creates the first administrator and no other: it succeeds only while the server
  has none and only with the token that the server drew, after it there is exactly one
  administrator and no token, and once there is one it changes no row and answers 400 or 409.
\<close>

theorem setup_admin_once:
  assumes run: "setup_admin ex body salt i now (mem, db) = (r, (mem', db'))"
  shows "if is_ok r
    then admin_count db = 0 \<and> admin_count db' = 1 \<and> admin_setup_token mem' = None \<and>
      (\<exists>t. sa_setup_token body = Some t \<and> trim t \<noteq> [] \<and> admin_setup_token mem = Some (trim t)) \<and>
      (\<exists>u. users db' = users db @ [u] \<and> u_role u = ''admin'' \<and> u_is_active u \<and> u_is_approved u)
    else db' = db \<and>
      (admin_count db > 0 \<longrightarrow> (\<exists>e. r = Inl e \<and> error_response e \<in> {400, 409}))"
proof (cases "is_ok r")
  case True
  let ?tok = "trim (case sa_setup_token body of None \<Rightarrow> [] | Some t \<Rightarrow> t)"
  have ok: "\<not> admin_count db > 0" "?tok \<noteq> []" "is_setup_token_valid ?tok mem"
    using run True by (auto simp: setup_admin_def Let_def simp del: not_less split: if_splits)
  have nil: "trim [] = []" by (simp add: trim_def)
  have tok: "admin_count db \<le> 0"
      "\<exists>t. sa_setup_token body = Some t \<and> trim t \<noteq> [] \<and> admin_setup_token mem = Some (trim t)"
    using ok nil by (auto simp: is_setup_token_valid_def split: option.splits)
  moreover obtain pw u where c: "create_user \<lparr>nu_id = i, nu_username = trim (sa_username body),
        nu_email = to_lowercase (trim (sa_email body)), nu_password_hash = pw, nu_role = ''admin'',
        nu_device_auth_pubkey = None, nu_is_approved = True\<rparr> None now db = Inr (u, db')"
    and "mem' = clear_setup_token mem"
    using run True ok by (auto simp: setup_admin_def Let_def split: if_splits sum.splits)
  moreover have "admin_count db = 0" using tok(1) count_rows_nonneg [of _ "users db"]
    by (simp add: admin_count_def eq_iff)
  ultimately show ?thesis
    using True create_user_cases(1,2) [OF c]
    by (simp add: admin_count_def count_rows_def user_of_new_def clear_setup_token_def set_setup_token_def)
next
  case False
  then show ?thesis
    using run by (auto simp: setup_admin_def Let_def split: if_splits sum.splits option.splits)
qed

theorem setup_admin_once_witness:
  "let s = setup_admin sample_externals \<lparr>sa_username = ''root'', sa_email = ''r@x.org'', sa_password = ''password'',
        sa_setup_token = Some ''tok''\<rparr> 0 9 0 (empty_memory\<lparr>admin_setup_token := Some ''tok''\<rparr>, sample_db)
   in is_ok (fst s) \<and> admin_count (snd (snd s)) = 1"
proof -
  let ?s = "setup_admin sample_externals \<lparr>sa_username = ''root'', sa_email = ''r@x.org'', sa_password = ''password'',
        sa_setup_token = Some ''tok''\<rparr> 0 9 0 (empty_memory\<lparr>admin_setup_token := Some ''tok''\<rparr>, sample_db)"
  have ok: "is_ok (fst ?s)" by code_simp
  obtain r mem' db' where s: "?s = (r, (mem', db'))" by (metis surj_pair)
  then show ?thesis using setup_admin_once [OF s] ok by simp
qed

section \<open>A registration can take the name of a remote contact\<close>

text \<open>
  A user name may contain an at sign, and the account of a remote contact is looked up by its
  name only. Who registers the name of a remote user first is taken for that user: the lookup
  of the contact returns the local, active account.
\<close>

theorem shadow_name_squatting:
  "let s = register sample_externals sample_config ''ip'' \<lparr>rq_username = ''eve@remote.org'',
        rq_email = ''mallory@x.org'', rq_password = ''password'', rq_altcha_payload = None,
        rq_accepted_terms_version = None\<rparr> 0 9 0 (empty_memory, sample_server);
       e = ensure_federated_shadow_user (ex_sha256_hex sample_externals) (\<lambda>u. Inr (Some ''remote.org''))
        10 ''eve'' ''https://remote.org'' 5 (snd (snd s))
   in map_sum (\<lambda>e. e) (\<lambda>(u, db). (u_id u, u_email u, u_is_active u)) e = Inr (9, ''mallory@x.org'', True)"
  by code_simp

end
