(* ===== verification/Auth_Middleware.thy ===== *)
theory Auth_Middleware
  imports Auth
begin

text \<open>
  Agent tokens (src/src/services/agent_token_service.rs) and the extractors that guard the
  routes (src/src/auth/middleware.rs): \<open>AuthUser\<close> for any account, \<open>AdminUser\<close> for
  administrators and agent tokens. The value of the Authorization header is an argument
  (\<open>None\<close> when it is absent or not readable).
\<close>

section \<open>Agent tokens\<close>

definition MAX_NAME_CHARS :: nat where "MAX_NAME_CHARS = 120"
definition TOKEN_PREFIX_RAW_CHARS :: nat where "TOKEN_PREFIX_RAW_CHARS = 8"

definition normalize_name :: "string \<Rightarrow> string result" where
  "normalize_name name =
    (let trimmed = trim name
     in if trimmed = [] then Inl (BadRequest ''name cannot be empty'')
        else if length trimmed > MAX_NAME_CHARS
        then Inl (BadRequest (''name must be <= '' @ show_nat MAX_NAME_CHARS @ '' characters''))
        else Inr trimmed)"

definition token_prefix :: "string \<Rightarrow> string" where
  "token_prefix raw_token =
     ''agt_'' @ take TOKEN_PREFIX_RAW_CHARS
       (case strip_prefix ''agt_'' raw_token of Some t \<Rightarrow> t | None \<Rightarrow> raw_token)"

text \<open>
  The sum of an instant and a duration panics past the last instant that chrono represents
  (the end of the year 262142); the panic is the error \<open>Internal\<close> with its own text.
\<close>

definition max_instant :: instant where "max_instant = 8210266876799999999"

definition compute_expires_at :: "instant \<Rightarrow> int option \<Rightarrow> instant option result" where
  "compute_expires_at now expires_in_days =
    (case expires_in_days of
       None \<Rightarrow> Inr None
     | Some d \<Rightarrow>
         if d \<le> 0 then Inl (BadRequest ''expires_in_days must be a positive number of days'')
         else if now + days d > max_instant then Inl (Internal ''panic: date out of range'')
         else Inr (Some (now + days d)))"

definition issue_raw_token :: "externals \<Rightarrow> string \<Rightarrow> string \<times> string" where
  "issue_raw_token ex raw_suffix =
    (let raw_token = ''agt_'' @ fst (generate_refresh_token ex raw_suffix)
     in (raw_token, hash_token ex raw_token))"

definition create_agent_token ::
  "externals \<Rightarrow> uuid \<Rightarrow> string \<Rightarrow> int option \<Rightarrow> uuid \<times> string \<Rightarrow> instant \<Rightarrow> db \<Rightarrow>
     ((agent_token \<times> string) \<times> db) result" where
  "create_agent_token ex created_by name expires_in_days fresh now db =
     and_then (normalize_name name) (\<lambda>normalized_name.
     and_then (compute_expires_at now expires_in_days) (\<lambda>expires_at.
     let (raw_token, hash) = issue_raw_token ex (snd fresh);
         row = \<lparr>ag_id = fst fresh, ag_name = normalized_name, ag_token_hash = hash,
           ag_token_prefix = token_prefix raw_token, ag_created_by = created_by,
           ag_created_at = now, ag_expires_at = expires_at, ag_last_used_at = None,
           ag_revoked_at = None\<rparr>
     in if exists_row (\<lambda>t. ag_id t = fst fresh \<or> ag_token_hash t = hash) (agent_tokens db)
        then Inl (Database UniqueViolation)
        else if \<not> user_exists db created_by then Inl (Database ForeignKeyViolation)
        else Inr ((row, raw_token), db\<lparr>agent_tokens := insert_row row (agent_tokens db)\<rparr>)))"

definition list_agent_tokens :: "db \<Rightarrow> agent_token list" where
  "list_agent_tokens db = sort_key (\<lambda>t. - ag_created_at t) (agent_tokens db)"

definition revoke_agent_token :: "uuid \<Rightarrow> instant \<Rightarrow> db \<Rightarrow> db" where
  "revoke_agent_token k now db =
     db\<lparr>agent_tokens := update_rows (\<lambda>t. ag_id t = k \<and> ag_revoked_at t = None)
          (\<lambda>t. t\<lparr>ag_revoked_at := Some now\<rparr>) (agent_tokens db)\<rparr>"

definition verify_agent_token ::
  "externals \<Rightarrow> string \<Rightarrow> instant \<Rightarrow> db \<Rightarrow> agent_token option \<times> db" where
  "verify_agent_token ex raw_token now db =
    (case find_row ag_token_hash (agent_tokens db) (hash_token ex raw_token) of
       None \<Rightarrow> (None, db)
     | Some token \<Rightarrow>
         if ag_revoked_at token \<noteq> None then (None, db)
         else if (case ag_expires_at token of None \<Rightarrow> False | Some e \<Rightarrow> e \<le> now) then (None, db)
         else (Some token, db\<lparr>agent_tokens := update_row ag_id (ag_id token)
                 (\<lambda>t. t\<lparr>ag_last_used_at := Some now\<rparr>) (agent_tokens db)\<rparr>))"

section \<open>The extractors\<close>

definition BEARER :: string where "BEARER = ''Bearer ''"

definition bearer_token :: "string option \<Rightarrow> string result" where
  "bearer_token header =
     and_then (ok_or Unauthorized header) (\<lambda>h. ok_or Unauthorized (strip_prefix BEARER h))"

definition extract_claims :: "externals \<Rightarrow> config \<Rightarrow> string option \<Rightarrow> instant \<Rightarrow> claims result" where
  "extract_claims ex cf header now =
     and_then (bearer_token header) (\<lambda>token.
     ok_or Unauthorized (verify_access_token ex now token (cf_jwt_secret cf)))"

definition unauthorized_unless_uuid :: "externals \<Rightarrow> claims \<Rightarrow> uuid result" where
  "unauthorized_unless_uuid ex c =
     (case claims_user_id ex c of Inl _ \<Rightarrow> Inl Unauthorized | Inr uid \<Rightarrow> Inr uid)"

definition auth_user :: "externals \<Rightarrow> config \<Rightarrow> string option \<Rightarrow> instant \<Rightarrow> db \<Rightarrow> claims result" where
  "auth_user ex cf header now db =
     and_then (extract_claims ex cf header now) (\<lambda>claims.
     and_then (unauthorized_unless_uuid ex claims) (\<lambda>uid.
     (case find_user db uid of
        Some u \<Rightarrow> if u_is_active u then Inr claims else Inl Unauthorized
      | None \<Rightarrow> Inl Unauthorized)))"

datatype admin_auth = Jwt claims | AgentToken claims

definition extract_admin_auth ::
  "externals \<Rightarrow> config \<Rightarrow> string option \<Rightarrow> instant \<Rightarrow> db \<Rightarrow> admin_auth result \<times> db" where
  "extract_admin_auth ex cf header now db =
    (case bearer_token header of
       Inl e \<Rightarrow> (Inl e, db)
     | Inr token \<Rightarrow>
        (case verify_access_token ex now token (cf_jwt_secret cf) of
           Some claims \<Rightarrow> (Inr (Jwt claims), db)
         | None \<Rightarrow>
            if \<not> is_prefix ''agt_'' token then (Inl Unauthorized, db)
            else (case verify_agent_token ex token now db of
                (None, db) \<Rightarrow> (Inl Unauthorized, db)
              | (Some agent_token, db) \<Rightarrow>
                 (case find_user db (ag_created_by agent_token) of
                    Some u \<Rightarrow>
                      if u_is_active u \<and> u_role u = ''admin''
                      then (Inr (AgentToken (claims_new ex (ag_created_by agent_token) (u_role u)
                              (timestamp now) (timestamp now + 300))), db)
                      else (Inl Unauthorized, db)
                  | None \<Rightarrow> (Inl Unauthorized, db)))))"

definition admin_user ::
  "externals \<Rightarrow> config \<Rightarrow> string option \<Rightarrow> instant \<Rightarrow> db \<Rightarrow> claims result \<times> db" where
  "admin_user ex cf header now db =
    (case extract_admin_auth ex cf header now db of
       (Inl e, db) \<Rightarrow> (Inl e, db)
     | (Inr (AgentToken claims), db) \<Rightarrow> (Inr claims, db)
     | (Inr (Jwt claims), db) \<Rightarrow>
         (and_then (unauthorized_unless_uuid ex claims) (\<lambda>uid.
          (case find_user db uid of
             Some u \<Rightarrow> if u_is_active u then
                 (if cl_role claims = ''admin'' then Inr claims else Inl Forbidden)
               else Inl Unauthorized
           | None \<Rightarrow> Inl Unauthorized)), db))"

end
