(* ===== verification/Server_Io.thy ===== *)
theory Server_Io
  imports Auth_Middleware
begin

text \<open>
  What the handlers exchange with the outside: the text of errors (src/src/errors.rs), the
  channels of Redis (src/src/services/redis_pubsub.rs) and the events that handlers publish or
  hand to the push service. A handler returns the list of its effects in the order in which it
  issues them; publishing is best effort in the code, so an effect is an attempt.
\<close>

section \<open>Errors as text\<close>

text \<open>The \<open>Display\<close> of an error; the texts of the database libraries are the parameter.\<close>

fun display_error :: "(app_error \<Rightarrow> string) \<Rightarrow> app_error \<Rightarrow> string" where
  "display_error cause (Database e) = ''Database error: '' @ cause (Database e)"
| "display_error cause Pool = ''Connection pool error: '' @ cause Pool"
| "display_error cause NotFound = ''Not found''"
| "display_error cause Unauthorized = ''Unauthorized''"
| "display_error cause Forbidden = ''Forbidden''"
| "display_error cause (BadRequest m) = ''Bad request: '' @ m"
| "display_error cause (Conflict m) = ''Conflict: '' @ m"
| "display_error cause (TooManyRequests m) = ''Too many requests: '' @ m"
| "display_error cause (Internal m) = ''Internal server error''"

text \<open>The body of an error response: internal failures are masked.\<close>

definition error_body :: "(app_error \<Rightarrow> string) \<Rightarrow> app_error \<Rightarrow> string" where
  "error_body cause e =
     (if error_response e = 500 then ''Internal server error'' else display_error cause e)"

text \<open>\<open>StatusCode::is_success\<close>.\<close>

definition is_success :: "nat \<Rightarrow> bool" where
  "is_success status \<longleftrightarrow> 200 \<le> status \<and> status < 300"

section \<open>Channels and keys\<close>

definition user_channel :: "(uuid \<Rightarrow> string) \<Rightarrow> uuid \<Rightarrow> string" where
  "user_channel show_uuid user_id = ''ws:user:'' @ show_uuid user_id"

definition call_offer_key :: "(uuid \<Rightarrow> string) \<Rightarrow> uuid \<Rightarrow> string" where
  "call_offer_key show_uuid call_id = ''call_offer:'' @ show_uuid call_id"

section \<open>Events and effects\<close>

text \<open>The payloads put on a channel, by their \<open>type\<close> tag.\<close>

datatype event =
    NewMessage message
  | NewRoomMessage uuid room_message
  | RoomMembershipChanged uuid
  | Typing uuid uuid bool
  | RelayIncomingCall uuid uuid string string
  | RelayCallAnswer uuid uuid string
  | RelayCallReject uuid uuid
  | RelayCallHangup uuid uuid
  | RelayIceCandidate uuid uuid string "string option" "nat option"

text \<open>
  \<open>Publish\<close>: on a channel; \<open>PushMessage recipient sender message content\<close> and
  \<open>PushCall callee caller name call type\<close>: a task given to the push service.
\<close>

datatype effect =
    Publish string event
  | PushMessage uuid uuid uuid string
  | PushCall uuid uuid string uuid string

text \<open>
  The mask hides what the message of an internal error says, and only that: the body tells
  two errors apart exactly when their display does, outside the masked class.
\<close>

lemma error_body_masks:
  "error_response e = 500 \<Longrightarrow> error_body c e = error_body c' (Internal m)"
  "error_response e \<noteq> 500 \<Longrightarrow> error_body c e = error_body c' e"
  by (cases e; simp add: error_body_def)+

end
