(* ===== verification/Redis_Store.thy ===== *)
theory Redis_Store
  imports Server_Io
begin

text \<open>
  The key-value commands of Redis that the handlers use. Redis is a service outside the
  repository: its commands are the record \<open>redis\<close> over an abstract state, and \<open>redis_holds\<close> states
  the documented behaviour that the properties rely on. A failed command may leave any state.
\<close>

text \<open>
  \<open>rd_connect\<close> is \<open>None\<close> when a connection is obtained and the error text otherwise; the time
  is the time at which the server executes the command; an expiry is given in seconds.
\<close>

record 'r redis =
  rd_connect :: "'r \<Rightarrow> string option"
  rd_get :: "instant \<Rightarrow> string \<Rightarrow> 'r \<Rightarrow> string + string option"
  rd_set_ex :: "instant \<Rightarrow> string \<Rightarrow> string \<Rightarrow> nat \<Rightarrow> 'r \<Rightarrow> (string + unit) \<times> 'r"
  rd_del :: "instant \<Rightarrow> string \<Rightarrow> 'r \<Rightarrow> (string + unit) \<times> 'r"
  rd_get_del :: "instant \<Rightarrow> string \<Rightarrow> 'r \<Rightarrow> (string + string option) \<times> 'r"

text \<open>An answered read of a key at a time.\<close>

definition seen :: "'r redis \<Rightarrow> instant \<Rightarrow> string \<Rightarrow> 'r \<Rightarrow> string option \<Rightarrow> bool" where
  "seen R t k r x \<longleftrightarrow> rd_get R t k r = Inr x \<or> (\<exists>r'. rd_get_del R t k r = (Inr x, r'))"

text \<open>
  What Redis holds, as a function \<open>c\<close> from the state, the key and the time to the value. An answered
  read gives it; an acknowledged \<open>SET k v EX n\<close> makes it \<open>v\<close> for \<open>n\<close> seconds and nothing later; after
  an acknowledged \<open>DEL k\<close> or \<open>GETDEL k\<close> it is nothing; and a command, acknowledged or not, changes
  no other key. Of the key of a command that failed nothing is said.
\<close>

definition redis_holds :: "'r redis \<Rightarrow> ('r \<Rightarrow> string \<Rightarrow> instant \<Rightarrow> string option) \<Rightarrow> bool" where
  "redis_holds R c \<longleftrightarrow>
    (\<forall>t k r x. rd_get R t k r = Inr x \<longrightarrow> x = c r k t) \<and>
    (\<forall>t k r x r'. rd_get_del R t k r = (Inr x, r') \<longrightarrow> x = c r k t \<and> (\<forall>t'. t \<le> t' \<longrightarrow> c r' k t' = None)) \<and>
    (\<forall>t k v n r r' t'. rd_set_ex R t k v n r = (Inr (), r') \<longrightarrow> t \<le> t' \<longrightarrow>
       c r' k t' = (if t' < t + int n * second_us then Some v else None)) \<and>
    (\<forall>t k r r' t'. rd_del R t k r = (Inr (), r') \<longrightarrow> t \<le> t' \<longrightarrow> c r' k t' = None) \<and>
    (\<forall>t k v n r k'. k' \<noteq> k \<longrightarrow> c (snd (rd_set_ex R t k v n r)) k' = c r k' \<and>
       c (snd (rd_del R t k r)) k' = c r k' \<and> c (snd (rd_get_del R t k r)) k' = c r k')"

definition redis_laws :: "'r redis \<Rightarrow> bool" where
  "redis_laws R \<longleftrightarrow> (\<exists>c. redis_holds R c)"

text \<open>A table with expiry times behaves in this way.\<close>

type_synonym expiring = "(string \<times> string \<times> instant) list"

definition alive :: "instant \<Rightarrow> string \<Rightarrow> expiring \<Rightarrow> string option" where
  "alive t k r = (case map_of r k of Some (v, until) \<Rightarrow> if t < until then Some v else None | None \<Rightarrow> None)"

definition sample_redis :: "expiring redis" where
  "sample_redis = \<lparr>rd_connect = \<lambda>_. None, rd_get = \<lambda>t k r. Inr (alive t k r),
     rd_set_ex = \<lambda>t k v n r. (Inr (), (k, v, t + int n * second_us) # filter (\<lambda>e. fst e \<noteq> k) r),
     rd_del = \<lambda>t k r. (Inr (), filter (\<lambda>e. fst e \<noteq> k) r),
     rd_get_del = \<lambda>t k r. (Inr (alive t k r), filter (\<lambda>e. fst e \<noteq> k) r)\<rparr>"

lemma alive_filter [simp]: "alive t k (filter (\<lambda>e. fst e \<noteq> k') r) = (if k = k' then None else alive t k r)"
proof -
  have "map_of (filter (\<lambda>e. fst e \<noteq> k') r) k = (if k = k' then None else map_of r k)"
    by (induction r) auto
  then show ?thesis by (simp add: alive_def)
qed

lemma alive_Cons [simp]:
  "alive t k ((k', v, until) # r) = (if k = k' then if t < until then Some v else None else alive t k r)"
  by (simp add: alive_def)

lemma sample_redis_holds: "redis_holds sample_redis (\<lambda>r k t. alive t k r)"
  by (auto simp: redis_holds_def sample_redis_def)

lemma sample_redis_laws: "redis_laws sample_redis"
  unfolding redis_laws_def using sample_redis_holds by blast

lemma redis_holdsD:
  assumes "redis_holds R c"
  shows "rd_get R t k r = Inr x \<Longrightarrow> x = c r k t"
    and "rd_get_del R t k r = (Inr x, r') \<Longrightarrow> x = c r k t"
    and "rd_get_del R t k r = (Inr x, r') \<Longrightarrow> t \<le> t' \<Longrightarrow> c r' k t' = None"
    and "rd_set_ex R t k v n r = (Inr (), r') \<Longrightarrow> t \<le> t' \<Longrightarrow>
      c r' k t' = (if t' < t + int n * second_us then Some v else None)"
    and "rd_del R t k r = (Inr (), r') \<Longrightarrow> t \<le> t' \<Longrightarrow> c r' k t' = None"
  using assms unfolding redis_holds_def by (elim conjE; metis)+

lemma redis_holds_seen: "redis_holds R c \<Longrightarrow> seen R t k r x \<Longrightarrow> x = c r k t"
  unfolding seen_def using redis_holdsD(1,2) [of R c] by metis

lemma redis_seen_after_set:
  "redis_laws R \<Longrightarrow> rd_set_ex R t k v n r = (Inr (), r') \<Longrightarrow> t \<le> t' \<Longrightarrow> seen R t' k r' x \<Longrightarrow>
     x = (if t' < t + int n * second_us then Some v else None)"
  unfolding redis_laws_def using redis_holds_seen redis_holdsD(4) by metis

lemma redis_seen_after_del:
  "redis_laws R \<Longrightarrow> rd_del R t k r = (Inr (), r') \<Longrightarrow> t \<le> t' \<Longrightarrow> seen R t' k r' x \<Longrightarrow> x = None"
  unfolding redis_laws_def using redis_holds_seen redis_holdsD(5) by metis

lemma redis_seen_after_get_del:
  "redis_laws R \<Longrightarrow> rd_get_del R t k r = (Inr x, r') \<Longrightarrow> t \<le> t' \<Longrightarrow> seen R t' k r' y \<Longrightarrow> y = None"
  unfolding redis_laws_def using redis_holds_seen redis_holdsD(3) by metis

lemma seen_get: "rd_get R t k r = Inr x \<Longrightarrow> seen R t k r x"
  by (simp add: seen_def)

lemma seen_get_del: "rd_get_del R t k r = (Inr x, r') \<Longrightarrow> seen R t k r x"
  by (auto simp: seen_def)

end
