(* ===== verification/Auth_Redis.thy ===== *)
theory Auth_Redis
  imports Redis_Store
begin

text \<open>
  The parts of src/src/routes/auth.rs that keep state in Redis: the login by QR code with its
  fallback store in memory, and the reset of a forgotten password with its mail
  (src/src/services/email_service.rs).

  Random secrets and tokens are arguments, as is the JSON codec of the session record; the
  answer of the mail provider is a parameter. The state of a QR login is Redis and the map
  \<open>qr_login_fallback\<close> of the process memory (theory Auth). The fixed markup of the two reset pages is not modelled: the form is the text
  before and after the place of the token, which are arguments.
\<close>

section \<open>Login by QR code\<close>

definition QR_LOGIN_TTL_SECS :: nat where "QR_LOGIN_TTL_SECS = 30"
definition QR_LOGIN_STATUS_PENDING :: string where "QR_LOGIN_STATUS_PENDING = ''pending''"
definition QR_LOGIN_STATUS_APPROVED :: string where "QR_LOGIN_STATUS_APPROVED = ''approved''"
definition QR_LOGIN_STATUS_EXPIRED :: string where "QR_LOGIN_STATUS_EXPIRED = ''expired''"

record qr_login_status_response =
  qp_status :: string
  qp_access_token :: "string option"
  qp_refresh_token :: "string option"
  qp_expires_in :: "nat option"

type_synonym qr_fallback_store = "string \<rightharpoonup> qr_login_session_record \<times> int"

record 'r qr_state =
  qs_redis :: 'r
  qs_fallback :: qr_fallback_store

record qr_codec =
  qc_encode :: "qr_login_session_record \<Rightarrow> string"
  qc_decode :: "string \<Rightarrow> string + qr_login_session_record"

definition qr_login_redis_key :: "string \<Rightarrow> string" where
  "qr_login_redis_key session_id = ''qr_login:'' @ session_id"

definition fallback_save_qr_login_record ::
  "string \<Rightarrow> qr_login_session_record \<Rightarrow> nat \<Rightarrow> instant \<Rightarrow> qr_fallback_store \<Rightarrow> qr_fallback_store" where
  "fallback_save_qr_login_record session_id record ttl_secs now m =
     m(session_id \<mapsto> (record, timestamp now + int ttl_secs))"

definition fallback_load_qr_login_record ::
  "string \<Rightarrow> instant \<Rightarrow> qr_fallback_store \<Rightarrow> qr_login_session_record option \<times> qr_fallback_store" where
  "fallback_load_qr_login_record session_id now m =
    (case m session_id of
       None \<Rightarrow> (None, m)
     | Some (record, expires_at) \<Rightarrow>
         if timestamp now > expires_at then (None, m(session_id := None)) else (Some record, m))"

definition fallback_delete_qr_login_record :: "string \<Rightarrow> qr_fallback_store \<Rightarrow> qr_fallback_store" where
  "fallback_delete_qr_login_record session_id m = m(session_id := None)"

definition load_from_fallback ::
  "string \<Rightarrow> instant \<Rightarrow> 'r qr_state \<Rightarrow> qr_login_session_record option result \<times> 'r qr_state" where
  "load_from_fallback session_id now s =
    (case fallback_load_qr_login_record session_id now (qs_fallback s) of
       (found, m) \<Rightarrow> (Inr found, s\<lparr>qs_fallback := m\<rparr>))"

definition load_qr_login_record ::
  "'r redis \<Rightarrow> qr_codec \<Rightarrow> string \<Rightarrow> instant \<Rightarrow> 'r qr_state \<Rightarrow> qr_login_session_record option result \<times> 'r qr_state" where
  "load_qr_login_record R qc session_id now s =
    (if rd_connect R (qs_redis s) \<noteq> None then load_from_fallback session_id now s
     else case rd_get R now (qr_login_redis_key session_id) (qs_redis s) of
            Inl _ \<Rightarrow> load_from_fallback session_id now s
          | Inr None \<Rightarrow> load_from_fallback session_id now s
          | Inr (Some raw) \<Rightarrow>
             (case qc_decode qc raw of
                Inl e \<Rightarrow> (Inl (Internal (''Redis JSON parse: '' @ e)), s)
              | Inr parsed \<Rightarrow> (Inr (Some parsed), s)))"

definition save_qr_login_record ::
  "'r redis \<Rightarrow> qr_codec \<Rightarrow> string \<Rightarrow> qr_login_session_record \<Rightarrow> nat \<Rightarrow> instant \<Rightarrow> 'r qr_state \<Rightarrow> 'r qr_state" where
  "save_qr_login_record R qc session_id record ttl_secs now s =
    (let in_memory = fallback_save_qr_login_record session_id record ttl_secs now
     in if rd_connect R (qs_redis s) \<noteq> None then s\<lparr>qs_fallback := in_memory (qs_fallback s)\<rparr>
        else case rd_set_ex R now (qr_login_redis_key session_id) (qc_encode qc record) ttl_secs (qs_redis s) of
               (Inl _, r) \<Rightarrow> s\<lparr>qs_redis := r, qs_fallback := in_memory (qs_fallback s)\<rparr>
             | (Inr _, r) \<Rightarrow> s\<lparr>qs_redis := r\<rparr>)"

definition delete_qr_login_record :: "'r redis \<Rightarrow> string \<Rightarrow> instant \<Rightarrow> 'r qr_state \<Rightarrow> 'r qr_state" where
  "delete_qr_login_record R session_id now s =
    (if rd_connect R (qs_redis s) \<noteq> None
     then s\<lparr>qs_fallback := fallback_delete_qr_login_record session_id (qs_fallback s)\<rparr>
     else case rd_del R now (qr_login_redis_key session_id) (qs_redis s) of
            (Inl _, r) \<Rightarrow> s\<lparr>qs_redis := r, qs_fallback := fallback_delete_qr_login_record session_id (qs_fallback s)\<rparr>
          | (Inr _, r) \<Rightarrow> s\<lparr>qs_redis := r\<rparr>)"

text \<open>\<open>session_id\<close> is the text of a new UUID, \<open>secret\<close> the hexadecimal text of 16 random bytes.\<close>

definition create_qr_login_session ::
  "'r redis \<Rightarrow> qr_codec \<Rightarrow> string \<Rightarrow> string \<Rightarrow> instant \<Rightarrow> 'r qr_state \<Rightarrow> (string \<times> json \<times> nat) \<times> 'r qr_state" where
  "create_qr_login_session R qc session_id secret now s =
    (let record = \<lparr>qr_secret = secret, qr_status = QR_LOGIN_STATUS_PENDING, qr_access_token = None,
           qr_refresh_token = None, qr_expires_in = None\<rparr>
     in ((session_id,
          JObj [(''type'', JStr ''sync_qr_login''), (''session_id'', JStr session_id), (''secret'', JStr secret)],
          QR_LOGIN_TTL_SECS),
         save_qr_login_record R qc session_id record QR_LOGIN_TTL_SECS now s))"

definition poll_qr_login_session ::
  "'r redis \<Rightarrow> qr_codec \<Rightarrow> string \<Rightarrow> string \<Rightarrow> instant \<Rightarrow> 'r qr_state \<Rightarrow> qr_login_status_response result \<times> 'r qr_state" where
  "poll_qr_login_session R qc path_session_id secret now s =
    (let session_id = trim path_session_id
     in if session_id = [] \<or> trim secret = [] then (Inl (BadRequest ''session_id and secret are required''), s)
        else case load_qr_login_record R qc session_id now s of
               (Inl e, s) \<Rightarrow> (Inl e, s)
             | (Inr None, s) \<Rightarrow>
                 (Inr \<lparr>qp_status = QR_LOGIN_STATUS_EXPIRED, qp_access_token = None, qp_refresh_token = None,
                   qp_expires_in = None\<rparr>, s)
             | (Inr (Some record), s) \<Rightarrow>
                 if qr_secret record \<noteq> secret then (Inl Unauthorized, s)
                 else
                   (Inr \<lparr>qp_status = qr_status record, qp_access_token = qr_access_token record,
                      qp_refresh_token = qr_refresh_token record, qp_expires_in = qr_expires_in record\<rparr>,
                    if qr_status record = QR_LOGIN_STATUS_APPROVED
                    then delete_qr_login_record R session_id now s else s))"

definition approve_qr_login ::
  "externals \<Rightarrow> 'r redis \<Rightarrow> qr_codec \<Rightarrow> config \<Rightarrow> claims \<Rightarrow> string \<Rightarrow> string \<Rightarrow> uuid \<Rightarrow> uuid \<times> string \<Rightarrow> instant \<Rightarrow>
     'r qr_state \<times> db \<Rightarrow> string result \<times> 'r qr_state \<times> db" where
  "approve_qr_login ex R qc cf auth body_session_id body_secret family fresh now sdb =
    (case sdb of (s, db) \<Rightarrow>
     let session_id = trim body_session_id; secret = trim body_secret
     in if session_id = [] \<or> secret = [] then (Inl (BadRequest ''session_id and secret are required''), s, db)
        else case load_qr_login_record R qc session_id now s of
               (Inl e, s) \<Rightarrow> (Inl e, s, db)
             | (Inr None, s) \<Rightarrow> (Inl (BadRequest ''QR login session expired''), s, db)
             | (Inr (Some record), s) \<Rightarrow>
                 if qr_secret record \<noteq> secret then (Inl Unauthorized, s, db)
                 else if qr_status record \<noteq> QR_LOGIN_STATUS_PENDING then (Inr (qr_status record), s, db)
                 else
                   (case and_then (claims_user_id ex auth) (\<lambda>user_id.
                         mint_tokens ex cf user_id (cl_role auth) family fresh now db) of
                      Inl e \<Rightarrow> (Inl e, s, db)
                    | Inr (tokens, db) \<Rightarrow>
                        (Inr QR_LOGIN_STATUS_APPROVED,
                         save_qr_login_record R qc session_id
                           (record\<lparr>qr_status := QR_LOGIN_STATUS_APPROVED,
                              qr_access_token := Some (tr_access_token tokens),
                              qr_refresh_token := Some (tr_refresh_token tokens),
                              qr_expires_in := Some (tr_expires_in tokens)\<rparr>)
                           QR_LOGIN_TTL_SECS now s, db)))"

section \<open>Forgotten passwords\<close>

record email_request =
  er_bearer :: string
  er_from :: string
  er_to :: string
  er_subject :: string
  er_html :: string

definition reset_mail_html :: "string \<Rightarrow> string" where
  \<open>reset_mail_html url = join [CHR 0x0A]
     [''<!DOCTYPE html>'',
      ''<html>'',
      ''<body style="font-family:sans-serif;max-width:480px;margin:40px auto;color:#111">'',
      ''  <h2>Reset your Sync password</h2>'',
      ''  <p>Click the button below to choose a new password. The link expires in 15 minutes.</p>'',
      ''  <p>'',
      ''    <a href="'' @ url @ ''" style="display:inline-block;padding:12px 24px;background:#4F46E5;color:#fff;border-radius:8px;text-decoration:none;font-weight:600">'',
      ''      Reset password'',
      ''    </a>'',
      ''  </p>'',
      ''  <p style="color:#666;font-size:13px">'',
      ''    If you did not request a password reset you can safely ignore this email.'',
      ''  </p>'',
      ''</body>'',
      ''</html>'']\<close>

definition send_password_reset ::
  "(email_request \<Rightarrow> string + nat) \<Rightarrow> (nat \<Rightarrow> string) \<Rightarrow> string option \<Rightarrow> string \<Rightarrow> string \<Rightarrow> string \<Rightarrow>
     unit result \<times> email_request list" where
  "send_password_reset post show_status api_key from_address to_address reset_url =
    (case api_key of
       None \<Rightarrow> (Inr (), [])
     | Some key \<Rightarrow>
         let request = \<lparr>er_bearer = key, er_from = from_address, er_to = to_address,
               er_subject = ''Reset your Sync password'', er_html = reset_mail_html reset_url\<rparr>
         in (case post request of
               Inl e \<Rightarrow> Inl (Internal (''Email send failed: '' @ e))
             | Inr status \<Rightarrow>
                 if is_success status then Inr ()
                 else Inl (Internal (''Email provider returned '' @ show_status status)), [request]))"

definition reset_key :: "string \<Rightarrow> string" where
  "reset_key token = ''reset:'' @ token"

definition RESET_TTL_SECS :: nat where "RESET_TTL_SECS = 900"

definition reset_url_of :: "config \<Rightarrow> string \<Rightarrow> string" where
  "reset_url_of cf token =
     ''http'' @ (if cf_enforce_https cf then ''s'' else []) @ ''://'' @ cf_instance_domain cf @
     ''/auth/reset-password?token='' @ token"

definition RESET_MSG :: string where
  "RESET_MSG = ''If that email is registered, a reset link was sent.''"

text \<open>\<open>token\<close> is the hexadecimal text of 32 random bytes.\<close>

definition forgot_password ::
  "externals \<Rightarrow> 'r redis \<Rightarrow> (email_request \<Rightarrow> string + nat) \<Rightarrow> (nat \<Rightarrow> string) \<Rightarrow> config \<Rightarrow> string \<Rightarrow> string \<Rightarrow> instant \<Rightarrow> db \<Rightarrow>
     'r \<Rightarrow> string result \<times> 'r \<times> email_request list" where
  "forgot_password ex R post show_status cf body_email token now db r =
    (let email = to_lowercase (trim body_email)
     in case find_by_email db email of
          None \<Rightarrow> (Inr RESET_MSG, r, [])
        | Some user \<Rightarrow>
           (case rd_connect R r of
              Some e \<Rightarrow> (Inl (Internal (''Redis: '' @ e)), r, [])
            | None \<Rightarrow>
               (case rd_set_ex R now (reset_key token) (ex_show_uuid ex (u_id user)) RESET_TTL_SECS r of
                  (Inl e, r) \<Rightarrow> (Inl (Internal (''Redis set: '' @ e)), r, [])
                | (Inr _, r) \<Rightarrow>
                   (case send_password_reset post show_status (cf_resend_api_key cf) (cf_resend_from_email cf) email
                       (reset_url_of cf token) of
                      (Inl e, sent) \<Rightarrow> (Inl e, r, sent)
                    | (Inr _, sent) \<Rightarrow> (Inr RESET_MSG, r, sent)))))"

definition reset_password_form :: "string \<Rightarrow> string \<Rightarrow> string option \<Rightarrow> string" where
  "reset_password_form before after token = before @ (case token of Some t \<Rightarrow> t | None \<Rightarrow> []) @ after"

definition reset_user_id :: "externals \<Rightarrow> 'r redis \<Rightarrow> string \<Rightarrow> instant \<Rightarrow> 'r \<Rightarrow> uuid result" where
  "reset_user_id ex R token now r =
    (case rd_connect R r of
       Some e \<Rightarrow> Inl (Internal (''Redis: '' @ e))
     | None \<Rightarrow>
        (case rd_get R now (reset_key token) r of
           Inl e \<Rightarrow> Inl (Internal (''Redis get: '' @ e))
         | Inr user_id_str \<Rightarrow>
             and_then (ok_or (BadRequest ''Invalid or expired token'') user_id_str) (\<lambda>s.
             ok_or (BadRequest ''Invalid or expired token'') (ex_parse_uuid ex s))))"

definition reset_password ::
  "externals \<Rightarrow> 'r redis \<Rightarrow> string \<Rightarrow> string \<Rightarrow> nat \<Rightarrow> instant \<Rightarrow> db \<times> 'r \<Rightarrow> unit result \<times> db \<times> 'r" where
  "reset_password ex R form_token form_password salt now dbr =
    (case dbr of (db, r) \<Rightarrow>
     let token = trim form_token; new_password = trim form_password
     in if utf8_len new_password < 8 then (Inl (BadRequest ''Password must be at least 8 characters''), db, r)
        else case and_then (reset_user_id ex R token now r) (\<lambda>user_id.
                  and_then (hash_password ex salt new_password) (\<lambda>pw_hash. Inr (user_id, pw_hash))) of
               Inl e \<Rightarrow> (Inl e, db, r)
             | Inr (user_id, pw_hash) \<Rightarrow>
                 let db = update_user user_id (\<lambda>u. u\<lparr>u_password_hash := pw_hash\<rparr>) now db
                 in (case rd_del R now (reset_key token) r of
                       (Inl e, r) \<Rightarrow> (Inl (Internal (''Redis del: '' @ e)), db, r)
                     | (Inr _, r) \<Rightarrow> (Inr (), db, r)))"

end
