(* ===== verification/Session_Properties.thy ===== *)
theory Session_Properties
  imports Auth_Redis
begin

text \<open>
  Sessions: what the handlers of Auth do to the table of refresh tokens. The handlers refine
  a small machine on the table (\<open>table_step\<close>: open, rotate, retire, kill, drop), whose
  invariant is that every family has at most one live token, of one user. On it rest the
  effect of a logout and of a replay. A second machine runs the refresh requests in the three
  statements of the code, interleaved with each other and with all other requests; the single use
  of refresh tokens holds there too. The last section is the race that the code leaves open.
\<close>

section \<open>The machine on the table\<close>

definition revoked :: "refresh_token \<Rightarrow> refresh_token" where
  "revoked t = t\<lparr>rt_revoked := True\<rparr>"

lemma revoked_simps [simp]:
  "rt_id (revoked t) = rt_id t" "rt_user_id (revoked t) = rt_user_id t"
  "rt_token_hash (revoked t) = rt_token_hash t" "rt_family (revoked t) = rt_family t"
  "rt_revoked (revoked t)" "rt_expires_at (revoked t) = rt_expires_at t"
  by (simp_all add: revoked_def)

definition live_in :: "uuid \<Rightarrow> refresh_token \<Rightarrow> bool" where
  "live_in f t \<longleftrightarrow> rt_family t = f \<and> \<not> rt_revoked t"

text \<open>
  The state carries, beside the table, the hashes and the families drawn so far: a generator
  that never repeats itself draws outside them.
\<close>

type_synonym token_state = "string set \<times> uuid set \<times> refresh_token list"

inductive table_step :: "token_state \<Rightarrow> token_state \<Rightarrow> bool" where
  keep: "H \<subseteq> H' \<Longrightarrow> F \<subseteq> F' \<Longrightarrow> table_step (H, F, ts) (H', F', ts)"
| opened: "h \<notin> H \<Longrightarrow> f \<notin> F \<Longrightarrow> rt_token_hash t = h \<Longrightarrow> rt_family t = f \<Longrightarrow> rt_id t \<notin> rt_id ` set ts \<Longrightarrow>
    table_step (H, F, ts) (insert h H, insert f F, ts @ [t])"
| retire: "H \<subseteq> H' \<Longrightarrow> table_step (H, F, ts) (H', F, update_row rt_id k revoked ts)"
| rotate: "stored \<in> set ts \<Longrightarrow> \<not> rt_revoked stored \<Longrightarrow> h \<notin> H \<Longrightarrow> rt_token_hash t = h \<Longrightarrow>
    rt_family t = rt_family stored \<Longrightarrow> rt_user_id t = rt_user_id stored \<Longrightarrow>
    rt_id t \<notin> rt_id ` set ts \<Longrightarrow>
    table_step (H, F, ts) (insert h H, F, update_row rt_id (rt_id stored) revoked ts @ [t])"
| kill: "H \<subseteq> H' \<Longrightarrow> table_step (H, F, ts) (H', F, update_rows (\<lambda>t. rt_family t = f) revoked ts)"
| drop: "table_step (H, F, ts) (H, F, delete_rows (\<lambda>t. rt_user_id t = u) ts)"

inductive_cases table_stepE: "table_step s s'"

definition owner :: "refresh_token \<Rightarrow> uuid \<times> uuid" where
  "owner t = (rt_family t, rt_user_id t)"

lemma owner_revoked [simp]: "owner (revoked t) = owner t"
  by (simp add: owner_def)

definition table_inv :: "token_state \<Rightarrow> bool" where
  "table_inv s = (case s of (H, F, ts) \<Rightarrow>
     distinct_key rt_id ts \<and> distinct_key rt_token_hash ts \<and>
     rt_token_hash ` set ts \<subseteq> H \<and> rt_family ` set ts \<subseteq> F \<and>
     (\<forall>f. count_rows (live_in f) ts \<le> 1) \<and>
     single_valued (owner ` set ts))"

lemma count_live_update_le:
  "count_rows (live_in f) (update_rows P revoked ts) \<le> count_rows (live_in f) ts"
  by (induction ts) (auto simp: count_rows_def update_rows_def live_in_def)

lemma count_rows_append: "count_rows P (xs @ ys) = count_rows P xs + count_rows P ys"
  by (simp add: count_rows_def)

lemma count_live_retired:
  assumes "stored \<in> set ts" "\<not> rt_revoked stored" "count_rows (live_in (rt_family stored)) ts \<le> 1"
  shows "count_rows (live_in (rt_family stored)) (update_row rt_id (rt_id stored) revoked ts) = 0"
proof -
  let ?l = "live_in (rt_family stored)"
  have "length (filter ?l ts) \<le> 1" using assms(3) by (simp add: count_rows_def)
  moreover have "stored \<in> set (filter ?l ts)" using assms by (simp add: live_in_def)
  ultimately have only: "set (filter ?l ts) = {stored}"
    by (cases "filter ?l ts") (auto split: list.splits)
  have "\<not> ?l r" if "r \<in> set (update_row rt_id (rt_id stored) revoked ts)" for r
  proof
    assume l: "?l r"
    from that obtain t where t: "t \<in> set ts" "r = (if rt_id t = rt_id stored then revoked t else t)"
      by (auto simp: update_row_def set_update_rows)
    with l have "rt_id t \<noteq> rt_id stored" "?l t" by (auto simp: live_in_def split: if_splits)
    with t only show False by auto
  qed
  then show ?thesis by (simp add: count_rows_0_iff)
qed

lemma distinct_key_append1:
  "distinct_key key (ts @ [t]) \<longleftrightarrow> distinct_key key ts \<and> key t \<notin> key ` set ts"
  by (auto simp: distinct_key_def)

lemma image_key_update_row:
  "(\<And>r. key (f r) = key r) \<Longrightarrow> key ` set (update_row key' k f rows) = key ` set rows"
  unfolding update_row_def by (rule image_key_update_rows)

lemma distinct_key_update_other:
  "(\<And>r. key (f r) = key r) \<Longrightarrow> distinct_key key (update_row key' k f rows) = distinct_key key rows"
  unfolding update_row_def by (rule distinct_key_update_rows)

lemmas table_facts = distinct_key_update_rows distinct_key_update_other distinct_key_append1
  image_key_update_rows image_key_update_row count_rows_append

lemma table_inv_revoke:
  assumes "table_inv (H, F, ts)" "H \<subseteq> H'"
  shows "table_inv (H', F, update_rows P revoked ts)"
  using assms order_trans [OF count_live_update_le, of _ ts 1 P]
  by (auto simp: table_inv_def table_facts)

lemma single_valued_insert_new: "single_valued S \<Longrightarrow> fst p \<notin> Domain S \<Longrightarrow> single_valued (insert p S)"
  by (cases p) (auto simp: single_valued_def)

lemma table_inv_append:
  assumes "table_inv (H, F, ts)" "rt_token_hash t \<notin> H" "rt_id t \<notin> rt_id ` set ts"
    and "count_rows (live_in (rt_family t)) ts = 0"
    and "owner t \<in> owner ` set ts \<or> rt_family t \<notin> F"
  shows "table_inv (insert (rt_token_hash t) H, insert (rt_family t) F, ts @ [t])"
proof -
  have "count_rows (live_in g) (ts @ [t]) \<le> 1" for g
    using assms(1,4) by (cases "g = rt_family t")
      (auto simp: table_inv_def count_rows_append count_rows_def live_in_def)
  moreover have "single_valued (insert (owner t) (owner ` set ts))"
    using assms(5)
  proof
    assume "owner t \<in> owner ` set ts"
    then show ?thesis using assms(1) by (simp add: table_inv_def insert_absorb)
  next
    assume "rt_family t \<notin> F"
    then have "rt_family t \<notin> Domain (owner ` set ts)"
      using assms(1) by (auto simp: table_inv_def owner_def)
    then have "fst (owner t) \<notin> Domain (owner ` set ts)" by (simp add: owner_def)
    moreover have "single_valued (owner ` set ts)" using assms(1) by (simp add: table_inv_def)
    ultimately show ?thesis by (rule single_valued_insert_new [rotated])
  qed
  moreover have "distinct_key rt_id (ts @ [t])" "distinct_key rt_token_hash (ts @ [t])"
    using assms(1-3) by (auto simp: table_inv_def distinct_key_append1)
  ultimately show ?thesis using assms(1) by (simp add: table_inv_def subset_insertI2)
qed

lemma table_inv_step:
  assumes inv: "table_inv s" and step: "table_step s s'"
  shows "table_inv s'"
  using step
proof cases
  case (keep H H' F F' ts)
  then show ?thesis using inv by (auto simp: table_inv_def)
next
  case (opened h H f F t ts)
  have "count_rows (live_in (rt_family t)) ts = 0"
    using opened inv by (auto simp: table_inv_def count_rows_0_iff live_in_def)
  then show ?thesis using opened inv table_inv_append [of H F ts t] by auto
next
  case (retire H H' F ts k)
  then show ?thesis using inv table_inv_revoke [of H F ts H'] by (simp add: update_row_def)
next
  case (rotate stored ts h H t F)
  let ?us = "update_row rt_id (rt_id stored) revoked ts"
  have us: "table_inv (H, F, ?us)" using rotate inv table_inv_revoke [of H F ts H] by (simp add: update_row_def)
  moreover have "count_rows (live_in (rt_family t)) ?us = 0"
    using count_live_retired [OF rotate(3,4)] inv rotate by (auto simp: table_inv_def)
  moreover have "owner t \<in> owner ` set ?us"
    using rotate by (auto simp: owner_def image_key_update_row)
  moreover have "rt_family t \<in> F" using rotate inv by (auto simp: table_inv_def)
  ultimately show ?thesis
    using rotate table_inv_append [of H F ?us t] by (simp add: image_key_update_row insert_absorb)
next
  case (kill H H' F ts f)
  then show ?thesis using inv table_inv_revoke [of H F ts H'] by simp
next
  case (drop H F ts u)
  have "count_rows (live_in f) (delete_rows (\<lambda>t. rt_user_id t = u) ts) \<le> count_rows (live_in f) ts" for f
    by (induction ts) (auto simp: count_rows_def delete_rows_def)
  then have "count_rows (live_in f) (delete_rows (\<lambda>t. rt_user_id t = u) ts) \<le> 1" for f
    using drop inv by (force simp: table_inv_def intro: order_trans)
  moreover have "single_valued (owner ` set (delete_rows (\<lambda>t. rt_user_id t = u) ts))"
    using drop inv by (auto simp: table_inv_def intro: single_valued_subset [rotated])
  ultimately show ?thesis
    using drop inv by (auto simp: table_inv_def intro: distinct_key_delete)
qed

section \<open>The handlers on the table\<close>

lemma accept_terms_effect:
  assumes "accept_terms v uid now db = Inr db'"
  shows "refresh_tokens db' = refresh_tokens db" "user_exists db' k = user_exists db k"
  using assms by (auto simp: accept_terms_def record_terms_acceptance_conn_def Let_def result_simps
      update_user_def user_exists_def find_user_def row_simps split: if_splits)

lemma mint_tokens_effect:
  assumes "mint_tokens ex cf uid role family (tid, raw) now db = Inr (tokens, db')"
  obtains t where "refresh_tokens db' = refresh_tokens db @ [t]" "users db' = users db"
    "rt_id t = tid" "rt_user_id t = uid" "rt_token_hash t = hash_token ex raw" "rt_family t = family"
    "\<not> rt_revoked t" "rt_expires_at t = now + second_us * int (cf_jwt_refresh_expiry_secs cf)"
    "tid \<notin> rt_id ` set (refresh_tokens db)"
    "hash_token ex raw \<notin> rt_token_hash ` set (refresh_tokens db)"
    "tr_refresh_token tokens = raw"
  using assms by (fastforce simp: mint_tokens_def Let_def result_simps generate_refresh_token_def
      insert_refresh_token_def insert_row_def split: if_splits)

text \<open>
  One request on the state of sessions: the drawn hashes, the drawn families and the database. The
  random values of a request have not been drawn before. The approval of a QR login finds Redis and
  the fallback store in any state.
\<close>

type_synonym session_state = "string set \<times> uuid set \<times> db"

inductive session_step :: "externals \<Rightarrow> 'r redis \<Rightarrow> config \<Rightarrow> session_state \<Rightarrow> session_state \<Rightarrow> bool"
  for ex R cf where
  step_login: "hash_token ex raw \<notin> H \<Longrightarrow> family \<notin> F \<Longrightarrow>
    login ex cf body (family, tid, raw) now db = (r, db') \<Longrightarrow>
    session_step ex R cf (H, F, db) (insert (hash_token ex raw) H, insert family F, db')"
| step_device: "hash_token ex raw \<notin> H \<Longrightarrow> family \<notin> F \<Longrightarrow>
    device_login ex cf ip dbody pw uid (family, tid, raw) now (mem, db) = (dr, (mem', db')) \<Longrightarrow>
    session_step ex R cf (H, F, db) (insert (hash_token ex raw) H, insert family F, db')"
| step_qr_login: "hash_token ex raw \<notin> H \<Longrightarrow> family \<notin> F \<Longrightarrow>
    approve_qr_login ex R qc cf auth sid secret family (tid, raw) now (qs, db) = (qr, qs', db') \<Longrightarrow>
    session_step ex R cf (H, F, db) (insert (hash_token ex raw) H, insert family F, db')"
| step_refresh: "hash_token ex raw \<notin> H \<Longrightarrow>
    refresh ex cf old (tid, raw) now db = (r, db') \<Longrightarrow>
    session_step ex R cf (H, F, db) (insert (hash_token ex raw) H, F, db')"
| step_logout: "session_step ex R cf (H, F, db) (H, F, logout ex old db)"
| step_delete_account: "delete_user uid now db = Inr db' \<Longrightarrow> session_step ex R cf (H, F, db) (H, F, db')"
| step_other: "refresh_tokens db' = refresh_tokens db \<Longrightarrow> session_step ex R cf (H, F, db) (H, F, db')"

definition tokens_of :: "session_state \<Rightarrow> token_state" where
  "tokens_of s = (case s of (H, F, db) \<Rightarrow> (H, F, refresh_tokens db))"

lemma update_rows_revoked [simp]:
  "refresh_tokens (revoke_family f db) =
     update_rows (\<lambda>t. rt_family t = f) revoked (refresh_tokens db)"
  "refresh_tokens (revoke_token k db) = update_row rt_id k revoked (refresh_tokens db)"
  "users (revoke_family f db) = users db" "users (revoke_token k db) = users db"
  by (simp_all add: revoke_family_def revoke_token_def update_row_def update_rows_def revoked_def
      cong: map_cong)

lemma open_session_effect:
  assumes "open_session ex cf user v (family, tid, raw) now db = (r, db')"
    and fresh: "hash_token ex raw \<notin> H" "family \<notin> F"
  shows "table_step (H, F, refresh_tokens db)
    (insert (hash_token ex raw) H, insert family F, refresh_tokens db')"
proof (cases "accept_terms v (u_id user) now db")
  case (Inl e)
  then show ?thesis using assms(1) by (auto simp: open_session_def intro: table_step.keep)
next
  case (Inr db1)
  note terms = accept_terms_effect [OF Inr]
  show ?thesis
  proof (cases "mint_tokens ex cf (u_id user) (u_role user) family (tid, raw) now db1")
    case (Inl e)
    then show ?thesis
      using assms(1) Inr terms by (auto simp: open_session_def intro: table_step.keep)
  next
    case (Inr res)
    then obtain tokens db2 where mint:
        "mint_tokens ex cf (u_id user) (u_role user) family (tid, raw) now db1 = Inr (tokens, db2)"
      by (cases res) auto
    then obtain t where "refresh_tokens db2 = refresh_tokens db @ [t]" "rt_id t = tid"
        "rt_token_hash t = hash_token ex raw" "rt_family t = family"
        "tid \<notin> rt_id ` set (refresh_tokens db)"
      using mint_tokens_effect [OF mint] terms(1) by metis
    moreover have "db' = db2"
      using assms(1) \<open>accept_terms v (u_id user) now db = Inr db1\<close> mint by (simp add: open_session_def)
    ultimately show ?thesis using fresh by (auto intro: table_step.opened)
  qed
qed

lemma create_user_tokens: "create_user n m now db = Inr (u, db') \<Longrightarrow> refresh_tokens db' = refresh_tokens db"
  by (auto simp: create_user_def insert_user_def Let_def split: if_splits sum.splits app_error.splits
      db_error.splits option.splits)

lemma device_account_tokens:
  "device_account ex cf ip pubkey pw uid now (mem, db) = (r, (mem', db')) \<Longrightarrow>
     refresh_tokens db' = refresh_tokens db"
  by (auto simp: device_parts Let_def create_user_tokens split: option.splits prod.splits
      if_splits sum.splits app_error.splits)

lemma device_login_effect:
  assumes "device_login ex cf ip body pw uid (family, tid, raw) now (mem, db) = (r, (mem', db'))"
    and fresh: "hash_token ex raw \<notin> H" "family \<notin> F"
  shows "table_step (H, F, refresh_tokens db)
    (insert (hash_token ex raw) H, insert family F, refresh_tokens db')"
proof (cases "refresh_tokens db' = refresh_tokens db")
  case True
  then show ?thesis by (auto intro: table_step.keep)
next
  case False
  obtain res mem1 db1 where acc: "device_account ex cf ip (trim (dq_device_auth_pubkey body)) pw uid now (mem, db)
      = (res, (mem1, db1))"
    by (metis surj_pair)
  then have same: "refresh_tokens db1 = refresh_tokens db" by (rule device_account_tokens)
  have "\<exists>user r'. res = Inr (Some user) \<and>
      open_session ex cf user (dq_accepted_terms_version body) (family, tid, raw) now db1 = (r', db')"
    using assms(1) False acc same
    by (auto simp: device_login_def Let_def split: if_splits sum.splits option.splits prod.splits)
  then show ?thesis using open_session_effect [of ex cf _ _ family tid raw now db1 _ db'] fresh same by auto
qed

lemma refresh_effect:
  assumes "refresh ex cf old (tid, raw) now db = (r, db')" and fresh: "hash_token ex raw \<notin> H"
  shows "table_step (H, F, refresh_tokens db) (insert (hash_token ex raw) H, F, refresh_tokens db')"
proof (cases "find_refresh_token ex old db")
  case None
  then show ?thesis using assms by (auto simp: refresh_def intro: table_step.keep)
next
  case (Some stored)
  then have stored: "stored \<in> set (refresh_tokens db)"
    by (auto simp: find_refresh_token_def dest: find_row_Some)
  have run: "refresh_stored ex cf stored (tid, raw) now db = (r, db')"
    using assms(1) Some by (simp add: refresh_def)
  show ?thesis
  proof (cases "rt_revoked stored \<or> rt_expires_at stored < now \<or> is_ok r")
    case False
    then have "refresh_tokens db' = update_row rt_id (rt_id stored) revoked (refresh_tokens db)"
      using run by (auto simp: refresh_stored_cases refresh_issue_def Let_def split: if_splits option.splits sum.splits prod.splits)
    then show ?thesis by (auto intro: table_step.retire)
  next
    case True
    then consider "rt_revoked stored" | "\<not> rt_revoked stored" "rt_expires_at stored < now"
      | tokens where "\<not> rt_revoked stored" "\<not> rt_expires_at stored < now" "r = Inr tokens"
      by (cases r) auto
    then show ?thesis
    proof cases
      case 1
      then show ?thesis using run by (auto simp: refresh_stored_cases refresh_issue_def intro: table_step.kill)
    next
      case 2
      then show ?thesis using run by (auto simp: refresh_stored_cases refresh_issue_def intro: table_step.keep)
    next
      case 3
      let ?db = "revoke_token (rt_id stored) db"
      obtain user where user: "find_user ?db (rt_user_id stored) = Some user"
        and mint: "mint_tokens ex cf (u_id user) (u_role user) (rt_family stored) (tid, raw) now ?db
            = Inr (tokens, db')"
        using run 3 by (auto simp: refresh_stored_cases refresh_issue_def Let_def split: option.splits sum.splits)
      have "u_id user = rt_user_id stored" using user by (auto simp: find_user_def dest: find_row_Some)
      with mint_tokens_effect [OF mint] obtain t where
          "refresh_tokens db' = update_row rt_id (rt_id stored) revoked (refresh_tokens db) @ [t]"
          "rt_token_hash t = hash_token ex raw" "rt_family t = rt_family stored"
          "rt_user_id t = rt_user_id stored" "rt_id t \<notin> rt_id ` set (refresh_tokens db)"
        by (metis image_key_update_row revoked_simps(1) update_rows_revoked(2))
      then show ?thesis using stored 3 fresh by (auto intro: table_step.rotate)
    qed
  qed
qed

lemma delete_user_tokens:
  "delete_user k now db = Inr db' \<Longrightarrow>
     refresh_tokens db' = delete_rows (\<lambda>t. rt_user_id t = k) (refresh_tokens db)"
  by (auto simp: delete_user_def delete_owned_rows_def delete_safety_rows_def
      delete_federation_rows_def Let_def split: option.splits)

lemma mint_opens:
  assumes "mint_tokens ex cf uid role family (tid, raw) now db = Inr (tokens, db')"
    and "hash_token ex raw \<notin> H" "family \<notin> F"
  shows "table_step (H, F, refresh_tokens db) (insert (hash_token ex raw) H, insert family F, refresh_tokens db')"
  using mint_tokens_effect [OF assms(1)] assms(2,3) by (metis table_step.opened)

lemma approve_qr_login_effect:
  assumes "approve_qr_login ex R qc cf auth sid secret family (tid, raw) now (qs, db) = (qr, qs', db')"
    and fresh: "hash_token ex raw \<notin> H" "family \<notin> F"
  shows "table_step (H, F, refresh_tokens db) (insert (hash_token ex raw) H, insert family F, refresh_tokens db')"
proof -
  consider "db' = db" | uid tokens where "mint_tokens ex cf uid (cl_role auth) family (tid, raw) now db = Inr (tokens, db')"
    using assms(1) by (auto simp: approve_qr_login_def Let_def result_simps split: if_splits sum.splits option.splits prod.splits)
  then show ?thesis by cases (auto intro: table_step.keep mint_opens [OF _ fresh])
qed

lemma session_step_refines:
  "session_step ex R cf s s' \<Longrightarrow> table_step (tokens_of s) (tokens_of s')"
proof (induction rule: session_step.induct)
  case (step_login raw H family F body tid now db r db')
  then show ?case
    by (auto simp: tokens_of_def login_def intro: table_step.keep open_session_effect split: sum.splits)
next
  case (step_logout H F db old)
  then show ?case
    by (auto simp: tokens_of_def logout_def intro: table_step.keep table_step.kill split: option.splits)
qed (auto simp: tokens_of_def delete_user_tokens intro: table_step.intros device_login_effect
  approve_qr_login_effect refresh_effect)

definition session_init :: "session_state \<Rightarrow> bool" where
  "session_init s \<longleftrightarrow> refresh_tokens (snd (snd s)) = []"

definition session_inv :: "session_state \<Rightarrow> bool" where
  "session_inv s = table_inv (tokens_of s)"

interpretation sessions: machine session_init "session_step ex R cf" session_inv for ex R cf
proof
  show "session_inv s" if "session_init s" for s
    using that by (cases s)
      (simp add: session_init_def session_inv_def tokens_of_def table_inv_def distinct_key_def count_rows_def)
  show "session_inv s'" if "session_inv s" "session_step ex R cf s s'" for s s'
    using that session_step_refines table_inv_step unfolding session_inv_def by blast
qed

subsection \<open>What stays dead\<close>

definition hash_dead :: "string \<Rightarrow> token_state \<Rightarrow> bool" where
  "hash_dead h s = (case s of (H, F, ts) \<Rightarrow> h \<in> H \<and> (\<forall>t \<in> set ts. rt_token_hash t = h \<longrightarrow> rt_revoked t))"

definition family_dead :: "uuid \<Rightarrow> token_state \<Rightarrow> bool" where
  "family_dead f s = (case s of (H, F, ts) \<Rightarrow> f \<in> F \<and> (\<forall>t \<in> set ts. rt_family t = f \<longrightarrow> rt_revoked t))"

lemma hash_dead_step: "table_step s s' \<Longrightarrow> hash_dead h s \<Longrightarrow> hash_dead h s'"
  by (erule table_stepE) (auto simp: hash_dead_def update_row_def set_update_rows)

lemma family_dead_step: "table_step s s' \<Longrightarrow> family_dead f s \<Longrightarrow> family_dead f s'"
  by (erule table_stepE) (auto simp: family_dead_def update_row_def set_update_rows)

lemma refresh_dead:
  assumes "hash_dead (hash_token ex raw) (tokens_of (H, F, db))"
  shows "fst (refresh ex cf raw fresh now db) = Inl Unauthorized"
  using assms by (auto simp: hash_dead_def tokens_of_def refresh_def find_refresh_token_def
      refresh_stored_cases refresh_issue_def dest: find_row_Some split: option.splits)

lemma refresh_success:
  assumes "refresh ex cf raw (tid, new) now db = (Inr tokens, db')"
  obtains stored where "find_refresh_token ex raw db = Some stored" "\<not> rt_revoked stored"
    "now \<le> rt_expires_at stored" "tr_refresh_token tokens = new"
    "\<exists>t. refresh_tokens db' =
        update_row rt_id (rt_id stored) revoked (refresh_tokens db) @ [t] \<and>
      rt_token_hash t = hash_token ex new \<and> rt_family t = rt_family stored \<and> \<not> rt_revoked t \<and>
      rt_user_id t = rt_user_id stored \<and>
      rt_expires_at t = now + second_us * int (cf_jwt_refresh_expiry_secs cf)"
proof -
  obtain stored user where st: "find_refresh_token ex raw db = Some stored" "\<not> rt_revoked stored"
      "\<not> rt_expires_at stored < now"
    and user: "find_user (revoke_token (rt_id stored) db) (rt_user_id stored) = Some user"
    and mint: "mint_tokens ex cf (u_id user) (u_role user) (rt_family stored) (tid, new) now
        (revoke_token (rt_id stored) db) = Inr (tokens, db')"
    using assms by (auto simp: refresh_def refresh_stored_cases refresh_issue_def Let_def
        split: option.splits if_splits sum.splits)
  have "u_id user = rt_user_id stored" using user by (auto simp: find_user_def dest: find_row_Some)
  with mint_tokens_effect [OF mint] st that show thesis by (metis linorder_not_less update_rows_revoked(2))
qed

section \<open>Requests at the same time\<close>

text \<open>
  A refresh runs in three statements: it has read the stored row (\<open>Found\<close>), then revoked the token
  (\<open>Checked\<close>), then minted the new one. The second component of the state holds the refreshes that are
  under way; every other request, and a refresh that nobody interrupts, is a step of the first
  machine. The statements of different requests follow each other in any order.
\<close>

datatype refresh_run = Found (run_row: refresh_token) | Checked (run_row: refresh_token)

type_synonym server_state = "session_state \<times> refresh_run list"

inductive server_step :: "externals \<Rightarrow> 'r redis \<Rightarrow> config \<Rightarrow> server_state \<Rightarrow> server_state \<Rightarrow> bool"
  for ex R cf where
  whole: "session_step ex R cf s s' \<Longrightarrow> server_step ex R cf (s, P) (s', P)"
| found: "find_refresh_token ex raw db = Some stored \<Longrightarrow>
    server_step ex R cf ((H, F, db), P) ((H, F, db), Found stored # P)"
| checked: "Found stored \<in> set P \<Longrightarrow> refresh_check stored now db = (None, db') \<Longrightarrow>
    server_step ex R cf ((H, F, db), P) ((H, F, db'), Checked stored # remove1 (Found stored) P)"
| refused: "Found stored \<in> set P \<Longrightarrow> refresh_check stored now db = (Some e, db') \<Longrightarrow>
    server_step ex R cf ((H, F, db), P) ((H, F, db'), remove1 (Found stored) P)"
| issued: "Checked stored \<in> set P \<Longrightarrow> hash_token ex raw \<notin> H \<Longrightarrow>
    refresh_issue ex cf stored (tid, raw) now db = (r, db') \<Longrightarrow>
    server_step ex R cf ((H, F, db), P) ((insert (hash_token ex raw) H, F, db'), remove1 (Checked stored) P)"

text \<open>The three statements in a row are the request of the first machine.\<close>

lemma refresh_in_a_row:
  assumes "refresh ex cf old (tid, raw) now db = (Inr tokens, db')" "hash_token ex raw \<notin> H"
  shows "(server_step ex R cf)\<^sup>*\<^sup>* ((H, F, db), P) ((insert (hash_token ex raw) H, F, db'), P)"
proof -
  obtain stored db1 where st: "find_refresh_token ex old db = Some stored" "refresh_check stored now db = (None, db1)"
    "refresh_issue ex cf stored (tid, raw) now db1 = (Inr tokens, db')"
    using assms(1) by (auto simp: refresh_def refresh_stored_def split: option.splits prod.splits)
  have "server_step ex R cf ((H, F, db), P) ((H, F, db), Found stored # P)" by (rule server_step.found [OF st(1)])
  also have "(server_step ex R cf)\<^sup>*\<^sup>* \<dots> ((H, F, db1), Checked stored # P)"
    using server_step.checked [of stored "Found stored # P", OF _ st(2)] by fastforce
  also have "server_step ex R cf ((H, F, db1), Checked stored # P) ((insert (hash_token ex raw) H, F, db'), P)"
    using server_step.issued [of stored "Checked stored # P", OF _ assms(2) st(3)] by simp
  finally show ?thesis by simp
qed

text \<open>
  What survives concurrency: ids and hashes stay distinct, everything in use has been drawn, every
  family has one owner, and a refresh under way holds a row of a hash and id of the table.
\<close>

definition handle :: "refresh_token \<Rightarrow> string \<times> uuid" where
  "handle t = (rt_token_hash t, rt_id t)"

definition in_use :: "refresh_token list \<Rightarrow> refresh_run list \<Rightarrow> refresh_token set" where
  "in_use ts P = set ts \<union> run_row ` set P"

definition runs_inv :: "token_state \<Rightarrow> refresh_run list \<Rightarrow> bool" where
  "runs_inv s P = (case s of (H, F, ts) \<Rightarrow>
     distinct_key rt_id ts \<and> distinct_key rt_token_hash ts \<and>
     rt_token_hash ` in_use ts P \<subseteq> H \<and> rt_family ` in_use ts P \<subseteq> F \<and>
     single_valued (owner ` in_use ts P) \<and> single_valued (handle ` in_use ts P))"

lemma handle_revoked [simp]: "handle (revoked t) = handle t"
  by (simp add: handle_def)

lemma in_use_less:
  assumes "runs_inv (H, F, ts) P" "in_use us Q \<subseteq> in_use ts P" "distinct_key rt_id us" "distinct_key rt_token_hash us"
    and "H \<subseteq> H'" "F \<subseteq> F'"
  shows "runs_inv (H', F', us) Q"
proof -
  from assms(1) have inv: "rt_token_hash ` in_use ts P \<subseteq> H" "rt_family ` in_use ts P \<subseteq> F"
    "single_valued (owner ` in_use ts P)" "single_valued (handle ` in_use ts P)"
    by (simp_all add: runs_inv_def)
  have "rt_token_hash ` in_use us Q \<subseteq> H'" "rt_family ` in_use us Q \<subseteq> F'"
    using order_trans [OF order_trans [OF image_mono [OF assms(2)] inv(1)] assms(5)]
      order_trans [OF order_trans [OF image_mono [OF assms(2)] inv(2)] assms(6)] by this
  moreover have "single_valued (owner ` in_use us Q)" "single_valued (handle ` in_use us Q)"
    by (rule single_valued_subset [OF image_mono [OF assms(2)] inv(3)],
        rule single_valued_subset [OF image_mono [OF assms(2)] inv(4)])
  ultimately show ?thesis using assms(3,4) by (simp add: runs_inv_def)
qed

lemma image_in_use_update:
  assumes "\<And>t. g (revoked t) = g t"
  shows "g ` in_use (update_rows Q revoked ts) P = g ` in_use ts P"
  using image_key_update_rows [of g revoked, OF assms, of Q ts] by (simp add: in_use_def image_Un)

lemma runs_inv_revoke:
  assumes "runs_inv (H, F, ts) P" "H \<subseteq> H'"
  shows "runs_inv (H', F, update_rows Q revoked ts) P"
  using assms by (auto simp: runs_inv_def image_in_use_update table_facts)

lemma runs_inv_append:
  assumes "runs_inv (H, F, ts) P" "rt_token_hash t \<notin> H" "rt_id t \<notin> rt_id ` set ts"
    and "owner t \<in> owner ` in_use ts P \<or> rt_family t \<notin> F"
  shows "runs_inv (insert (rt_token_hash t) H, insert (rt_family t) F, ts @ [t]) P"
proof -
  have use: "in_use (ts @ [t]) P = insert t (in_use ts P)" by (auto simp: in_use_def)
  have "single_valued (insert (owner t) (owner ` in_use ts P))"
    using assms(4)
  proof
    assume "rt_family t \<notin> F"
    then have "fst (owner t) \<notin> Domain (owner ` in_use ts P)"
      using assms(1) by (auto simp: runs_inv_def owner_def)
    then show ?thesis using assms(1) by (intro single_valued_insert_new) (simp_all add: runs_inv_def)
  qed (use assms(1) in \<open>simp add: runs_inv_def insert_absorb\<close>)
  moreover have "fst (handle t) \<notin> Domain (handle ` in_use ts P)"
    using assms(1,2) by (auto simp: runs_inv_def handle_def)
  then have "single_valued (insert (handle t) (handle ` in_use ts P))"
    using assms(1) by (intro single_valued_insert_new) (simp_all add: runs_inv_def)
  moreover have "rt_token_hash t \<notin> rt_token_hash ` set ts" using assms(1,2) by (auto simp: runs_inv_def in_use_def)
  ultimately show ?thesis
    using assms(1,3) unfolding runs_inv_def prod.case use by (auto simp: distinct_key_append1)
qed

lemma runs_inv_table_step:
  assumes "table_step s s'" "runs_inv s P"
  shows "runs_inv s' P"
  using assms(1)
proof cases
  case (keep H H' F F' ts)
  then show ?thesis using assms(2) in_use_less [of H F ts P ts P H' F'] by (simp add: runs_inv_def)
next
  case (opened h H f F t ts)
  then show ?thesis using assms(2) runs_inv_append [of H F ts P t] by auto
next
  case (retire H H' F ts k)
  then show ?thesis using assms(2) runs_inv_revoke [of H F ts P H'] by (simp add: update_row_def)
next
  case (rotate stored ts h H t F)
  let ?us = "update_row rt_id (rt_id stored) revoked ts"
  have us: "runs_inv (H, F, ?us) P" using rotate assms(2) runs_inv_revoke [of H F ts P H] by (simp add: update_row_def)
  have "owner ` in_use ?us P = owner ` in_use ts P" unfolding update_row_def by (simp add: image_in_use_update)
  then have "owner t \<in> owner ` in_use ?us P" "rt_family t \<in> F"
    using rotate assms(2) by (auto simp: owner_def in_use_def runs_inv_def)
  then show ?thesis
    using rotate runs_inv_append [OF us, of t] by (simp add: image_key_update_row insert_absorb)
next
  case (kill H H' F ts f)
  then show ?thesis using assms(2) runs_inv_revoke [of H F ts P H'] by simp
next
  case (drop H F ts u)
  then show ?thesis
    using assms(2) in_use_less [of H F ts P "delete_rows (\<lambda>t. rt_user_id t = u) ts" P H F]
    by (auto simp: runs_inv_def in_use_def intro: distinct_key_delete)
qed

lemma refresh_issue_effect:
  assumes "refresh_issue ex cf stored (tid, raw) now db = (r, db')"
  shows "refresh_tokens db' = refresh_tokens db \<or> (\<exists>t. refresh_tokens db' = refresh_tokens db @ [t] \<and>
    rt_token_hash t = hash_token ex raw \<and> rt_id t \<notin> rt_id ` set (refresh_tokens db) \<and> owner t = owner stored)"
proof -
  consider "refresh_tokens db' = refresh_tokens db" | user tokens where "find_user db (rt_user_id stored) = Some user"
    "mint_tokens ex cf (u_id user) (u_role user) (rt_family stored) (tid, raw) now db = Inr (tokens, db')"
    using assms by (auto simp: refresh_issue_def split: option.splits sum.splits)
  then show ?thesis
  proof cases
    case 2
    have "u_id user = rt_user_id stored" using 2(1) by (auto simp: find_user_def dest: find_row_Some)
    then show ?thesis using mint_tokens_effect [OF 2(2)] by (metis owner_def)
  qed simp
qed

lemma refresh_check_effect:
  assumes "refresh_check stored now db = (x, db')"
  shows "\<exists>Q. refresh_tokens db' = update_rows Q revoked (refresh_tokens db)"
    "x = None \<Longrightarrow> \<not> rt_revoked stored \<and> refresh_tokens db' = update_row rt_id (rt_id stored) revoked (refresh_tokens db)"
proof -
  have none: "update_rows (\<lambda>_. False) revoked ts = ts" for ts by (simp add: update_rows_def)
  show "\<exists>Q. refresh_tokens db' = update_rows Q revoked (refresh_tokens db)"
    "x = None \<Longrightarrow> \<not> rt_revoked stored \<and> refresh_tokens db' = update_row rt_id (rt_id stored) revoked (refresh_tokens db)"
    using assms by (auto simp: refresh_check_def update_row_def intro: none [symmetric] split: if_splits)
qed

text \<open>The statements of a run of refreshes, as changes of the table.\<close>

lemma server_step_cases:
  assumes "server_step ex R cf ((H, F, db), P) ((H', F', db'), P')"
  obtains (table) "table_step (H, F, refresh_tokens db) (H', F', refresh_tokens db')" "P' = P"
  | (found) stored where "stored \<in> set (refresh_tokens db)" "H' = H" "F' = F" "db' = db" "P' = Found stored # P"
  | (checked) stored where "Found stored \<in> set P" "\<not> rt_revoked stored" "H' = H" "F' = F"
      "refresh_tokens db' = update_row rt_id (rt_id stored) revoked (refresh_tokens db)"
      "P' = Checked stored # remove1 (Found stored) P"
  | (refused) stored Q where "H' = H" "F' = F" "refresh_tokens db' = update_rows Q revoked (refresh_tokens db)"
      "P' = remove1 (Found stored) P"
  | (unissued) h stored where "H' = insert h H" "F' = F" "refresh_tokens db' = refresh_tokens db" "P' = remove1 (Checked stored) P"
  | (issued) stored t where "Checked stored \<in> set P" "rt_token_hash t \<notin> H" "rt_id t \<notin> rt_id ` set (refresh_tokens db)"
      "owner t = owner stored" "H' = insert (rt_token_hash t) H" "F' = F" "refresh_tokens db' = refresh_tokens db @ [t]"
      "P' = remove1 (Checked stored) P"
  using assms
proof cases
  case whole
  then show thesis using table session_step_refines unfolding tokens_of_def by fastforce
next
  case (found raw stored)
  then show thesis using that(2) by (auto simp: find_refresh_token_def dest: find_row_Some)
next
  case (checked stored now)
  then show thesis using that(3) refresh_check_effect(2) [of stored now db None db'] by auto
next
  case (refused stored now e)
  then show thesis using that(4) refresh_check_effect(1) [of stored now db "Some e" db'] by metis
next
  case (issued stored raw tid now r)
  then show thesis using that(5,6) refresh_issue_effect [of ex cf stored tid raw now db r db'] by metis
qed

lemma runs_inv_step:
  assumes "server_step ex R cf ((H, F, db), P) ((H', F', db'), P')" "runs_inv (H, F, refresh_tokens db) P"
  shows "runs_inv (H', F', refresh_tokens db') P'"
proof -
  have fewer: "runs_inv s (remove1 x P)" if "runs_inv s P" for s x
  proof -
    obtain H F ts where s: "s = (H, F, ts)" by (cases s)
    have "in_use ts (remove1 x P) \<subseteq> in_use ts P" using set_remove1_subset [of x P] by (auto simp: in_use_def)
    then show ?thesis unfolding s
      by (rule in_use_less [OF that [unfolded s]]) (use that in \<open>simp_all add: s runs_inv_def\<close>)
  qed
  show ?thesis using assms(1)
  proof (cases rule: server_step_cases)
    case table
    then show ?thesis using runs_inv_table_step assms(2) by simp
  next
    case (found stored)
    then have "in_use (refresh_tokens db) P' = in_use (refresh_tokens db) P" by (auto simp: in_use_def)
    then show ?thesis using assms(2) found by (simp add: runs_inv_def)
  next
    case (checked stored)
    have "runs_inv (H, F, refresh_tokens db') P"
      using runs_inv_revoke [OF assms(2), of H] checked(5) by (simp add: update_row_def)
    moreover have "stored \<in> run_row ` set P" using checked(1) by (metis image_eqI refresh_run.sel(1))
    then have "in_use ts P' \<subseteq> in_use ts P" for ts
      using set_remove1_subset [of "Found stored" P] unfolding checked(6) by (auto simp: in_use_def)
    moreover have "distinct_key rt_id (refresh_tokens db')" "distinct_key rt_token_hash (refresh_tokens db')"
      using calculation(1) by (simp_all add: runs_inv_def)
    ultimately show ?thesis unfolding checked(3,4) by (meson in_use_less order_refl)
  next
    case (refused stored Q)
    then show ?thesis using fewer [OF runs_inv_revoke [OF assms(2), of H Q]] by simp
  next
    case (unissued h stored)
    have "runs_inv (insert h H, F, refresh_tokens db) P"
      by (rule in_use_less [OF assms(2)]) (use assms(2) in \<open>auto simp: runs_inv_def\<close>)
    then show ?thesis using fewer unissued by simp
  next
    case (issued stored t)
    have "stored \<in> in_use (refresh_tokens db) P" using issued(1) by (force simp: in_use_def)
    then have "owner t \<in> owner ` in_use (refresh_tokens db) P" "rt_family stored \<in> F"
      using issued(4) assms(2) by (auto simp: runs_inv_def)
    moreover have "rt_family t = rt_family stored" using issued(4) by (simp add: owner_def)
    ultimately show ?thesis
      using fewer [OF runs_inv_append [OF assms(2) issued(2,3)]] issued by (simp add: insert_absorb)
  qed
qed

definition server_init :: "server_state \<Rightarrow> bool" where
  "server_init s \<longleftrightarrow> session_init (fst s) \<and> snd s = []"

definition server_inv :: "server_state \<Rightarrow> bool" where
  "server_inv s \<longleftrightarrow> runs_inv (tokens_of (fst s)) (snd s)"

interpretation server: machine server_init "server_step ex R cf" server_inv for ex R cf
proof
  show "server_inv s" if "server_init s" for s
    using that by (cases s)
      (auto simp: server_init_def session_init_def server_inv_def tokens_of_def runs_inv_def in_use_def distinct_key_def)
  show "server_inv s'" if "server_inv s" "server_step ex R cf s s'" for s s'
    using that runs_inv_step by (cases s; cases s') (auto simp: server_inv_def tokens_of_def)
qed

text \<open>What is dead stays dead, whatever runs at the same time.\<close>

lemma server_hash_dead:
  assumes "server_step ex R cf s s'" "hash_dead h (tokens_of (fst s))"
  shows "hash_dead h (tokens_of (fst s'))"
proof -
  obtain H F db P H' F' db' P' where s: "s = ((H, F, db), P)" "s' = ((H', F', db'), P')" by (metis surj_pair)
  from assms(1) [unfolded s] show ?thesis
  proof (cases rule: server_step_cases)
    case table
    then show ?thesis using hash_dead_step assms(2) by (simp add: s tokens_of_def)
  qed (use assms(2) in \<open>auto simp: s tokens_of_def hash_dead_def update_row_def set_update_rows\<close>)
qed

definition family_over :: "uuid \<Rightarrow> server_state \<Rightarrow> bool" where
  "family_over f s \<longleftrightarrow> family_dead f (tokens_of (fst s)) \<and>
     (\<forall>x \<in> set (snd s). rt_family (run_row x) = f \<longrightarrow> (\<exists>t. x = Found t \<and> rt_revoked t))"

lemma server_family_over:
  assumes "server_step ex R cf s s'" "family_over f s"
  shows "family_over f s'"
proof -
  obtain H F db P H' F' db' P' where s: "s = ((H, F, db), P)" "s' = ((H', F', db'), P')" by (metis surj_pair)
  have fewer: "x \<in> set P" if "x \<in> set (remove1 y P)" for x y using that notin_set_remove1 by metis
  from assms(1) [unfolded s] show ?thesis
  proof (cases rule: server_step_cases)
    case table
    then show ?thesis using family_dead_step assms(2) by (simp add: s tokens_of_def family_over_def)
  next
    case (issued stored t)
    then have "rt_family t \<noteq> f" using assms(2) by (auto simp: s family_over_def owner_def)
    then show ?thesis using assms(2) issued fewer by (auto simp: s family_over_def family_dead_def tokens_of_def)
  qed (use assms(2) fewer in \<open>auto 0 3 simp: s tokens_of_def family_over_def family_dead_def update_row_def set_update_rows\<close>)
qed

lemma server_dead_steps:
  assumes "(server_step ex R cf)\<^sup>*\<^sup>* s s'"
  shows "hash_dead h (tokens_of (fst s)) \<Longrightarrow> hash_dead h (tokens_of (fst s'))"
    and "family_over f s \<Longrightarrow> family_over f s'"
  using assms by (induction rule: rtranclp_induct) (auto intro: server_hash_dead server_family_over)

section \<open>Properties\<close>

text \<open>
  The example the witnesses use: a login on the sample server, and the first refresh after it.
\<close>

definition sample_session :: db where
  "sample_session = snd (login sample_externals sample_config sample_login (7, 8, ''r1'') 0 sample_server)"

lemma sample_session_reachable:
  "(session_step sample_externals sample_redis sample_config)\<^sup>*\<^sup>* ({}, {}, sample_server)
     ({hash_token sample_externals ''r1''}, {7}, sample_session)"
proof -
  have "session_step sample_externals sample_redis sample_config ({}, {}, sample_server)
      (insert (hash_token sample_externals ''r1'') {}, insert 7 {}, sample_session)"
    by (rule session_step.step_login [where body = sample_login and tid = 8 and now = 0
        and r = "fst (login sample_externals sample_config sample_login (7, 8, ''r1'') 0 sample_server)"])
      (simp_all add: sample_session_def)
  then show ?thesis by simp
qed

lemma sample_server_init: "session_init ({}, {}, sample_server)"
  by (simp add: session_init_def sample_server_def empty_db_def)

lemma sample_refresh_ok:
  "is_ok (fst (refresh sample_externals sample_config ''r1'' (9, ''r2'') 5 sample_session))"
  by code_simp



text \<open>
  [C6] A refresh token works once. From the moment a refresh has revoked the token, every refresh
  that presents the same token afterwards is refused, for ever, whatever other requests come in
  between or run at the same time, statement by statement. (A refresh that read the token before
  it was revoked is not covered: see \<open>refresh_race\<close>.)
\<close>

theorem refresh_token_single_use:
  assumes "server_init s" "(server_step ex R cf)\<^sup>*\<^sup>* s ((H, F, db), P)"
    and use: "Found stored \<in> set P" "refresh_check stored now db = (None, db1)"
      "rt_token_hash stored = hash_token ex raw"
    and later: "(server_step ex R cf)\<^sup>*\<^sup>* ((H, F, db1), Checked stored # remove1 (Found stored) P) ((H2, F2, db2), P2)"
  shows "fst (refresh ex cf raw fresh' now' db2) = Inl Unauthorized"
proof -
  let ?h = "hash_token ex raw"
  have inv: "runs_inv (H, F, refresh_tokens db) P"
    using server.inv_reachable [OF assms(1,2)] by (simp add: server_inv_def tokens_of_def)
  have row: "stored \<in> in_use (refresh_tokens db) P" using use(1) by (force simp: in_use_def)
  then have "?h \<in> H" using inv use(3) by (auto simp: runs_inv_def)
  moreover have "rt_id x = rt_id stored" if "x \<in> set (refresh_tokens db)" "rt_token_hash x = ?h" for x
  proof -
    have "handle x \<in> handle ` in_use (refresh_tokens db) P" "handle stored \<in> handle ` in_use (refresh_tokens db) P"
      using that(1) row by (auto simp: in_use_def)
    then show ?thesis using inv that(2) use(3) by (auto simp: runs_inv_def handle_def dest: single_valuedD)
  qed
  moreover have "refresh_tokens db1 = update_row rt_id (rt_id stored) revoked (refresh_tokens db)"
    using refresh_check_effect(2) [OF use(2)] by simp
  ultimately have "hash_dead ?h (tokens_of (H, F, db1))"
    by (auto simp: hash_dead_def tokens_of_def update_row_def set_update_rows)
  then have "hash_dead ?h (tokens_of (H2, F2, db2))" using server_dead_steps(1) [OF later] by simp
  then show ?thesis by (rule refresh_dead)
qed

lemma sample_session_server:
  "(server_step sample_externals sample_redis sample_config)\<^sup>*\<^sup>* (({}, {}, sample_server), [])
     (({hash_token sample_externals ''r1''}, {7}, sample_session), [])"
  using sample_session_reachable
  by (induction rule: rtranclp_induct) (auto intro: server_step.whole rtranclp.rtrancl_into_rtrancl)

lemma sample_server_run_init: "server_init (({}, {}, sample_server), [])"
  using sample_server_init by (simp add: server_init_def)

theorem refresh_token_single_use_witness:
  "fst (refresh sample_externals sample_config ''r1'' (10, ''r3'') 6
     (snd (refresh sample_externals sample_config ''r1'' (9, ''r2'') 5 sample_session))) = Inl Unauthorized"
proof -
  let ?H = "{hash_token sample_externals ''r1''}"
  let ?step = "server_step sample_externals sample_redis sample_config"
  obtain tokens db2 where ok: "refresh sample_externals sample_config ''r1'' (9, ''r2'') 5 sample_session = (Inr tokens, db2)"
    using sample_refresh_ok
    by (cases "refresh sample_externals sample_config ''r1'' (9, ''r2'') 5 sample_session") (auto simp: is_ok_iff)
  then obtain stored db1 where st: "find_refresh_token sample_externals ''r1'' sample_session = Some stored"
    "refresh_check stored 5 sample_session = (None, db1)"
    "refresh_issue sample_externals sample_config stored (9, ''r2'') 5 db1 = (Inr tokens, db2)"
    by (auto simp: refresh_def refresh_stored_def split: option.splits prod.splits)
  have new: "hash_token sample_externals ''r2'' \<notin> ?H" by (simp add: hash_token_def sample_externals_def)
  have reach: "?step\<^sup>*\<^sup>* (({}, {}, sample_server), []) ((?H, {7}, sample_session), [Found stored])"
    using sample_session_server server_step.found [OF st(1)] by (rule rtranclp.rtrancl_into_rtrancl)
  have "?step ((?H, {7}, db1), [Checked stored]) ((insert (hash_token sample_externals ''r2'') ?H, {7}, db2), [])"
    using server_step.issued [of stored "[Checked stored]", OF _ new st(3)] by simp
  then have later: "?step\<^sup>*\<^sup>* ((?H, {7}, db1), Checked stored # remove1 (Found stored) [Found stored])
      ((insert (hash_token sample_externals ''r2'') ?H, {7}, db2), [])" by simp
  have hash: "rt_token_hash stored = hash_token sample_externals ''r1''"
    using st(1) by (auto simp: find_refresh_token_def dest: find_row_Some)
  show ?thesis
    using refresh_token_single_use [OF sample_server_run_init reach _ st(2) hash later] ok by simp
qed

lemma revoke_family_dead:
  "f \<in> F \<Longrightarrow> family_dead f (tokens_of (H, F, revoke_family f db))"
  by (simp add: family_dead_def tokens_of_def ball_update_rows)

lemma refresh_family_dead:
  assumes "family_dead f (tokens_of (H, F, db))" "find_refresh_token ex raw db = Some t" "rt_family t = f"
  shows "fst (refresh ex cf raw fresh now db) = Inl Unauthorized"
proof -
  have "t \<in> set (refresh_tokens db)"
    using assms(2) by (auto simp: find_refresh_token_def dest: find_row_Some)
  then have "rt_revoked t" using assms(1,3) by (simp add: family_dead_def tokens_of_def)
  then show ?thesis using assms(2) by (simp add: refresh_def refresh_stored_cases refresh_issue_def)
qed

lemma family_over_after_revoke:
  assumes "f \<in> F" "\<forall>x \<in> set P. rt_family (run_row x) \<noteq> f"
  shows "family_over f ((H, F, revoke_family f db), P)"
  using assms revoke_family_dead [of f F H db] by (simp add: family_over_def)



text \<open>
  When a refresh succeeds: the token is stored, live and not past its expiry, its account
  exists, the JWT library signs, and the drawn id and token are new. It then keeps the family
  and the account, revokes the presented token and issues one that expires after the
  configured time.
\<close>

theorem refresh_exact:
  "is_ok (fst (refresh ex cf raw (tid, new) now db)) \<longleftrightarrow>
    (case find_row rt_token_hash (refresh_tokens db) (hash_token ex raw) of
       None \<Rightarrow> False
     | Some stored \<Rightarrow> \<not> rt_revoked stored \<and> now \<le> rt_expires_at stored \<and>
         (case find_user db (rt_user_id stored) of
            None \<Rightarrow> False
          | Some user \<Rightarrow>
              ex_encode_jwt ex (claims_new ex (u_id user) (u_role user) (timestamp now)
                (timestamp now + int (cf_jwt_access_expiry_secs cf))) (cf_jwt_secret cf) \<noteq> None \<and>
              tid \<notin> rt_id ` set (refresh_tokens db) \<and>
              hash_token ex new \<notin> rt_token_hash ` set (refresh_tokens db)))"
proof -
  have user: "u_id u = k \<and> user_exists db (u_id u)" if "find_user db k = Some u" for u k
    using that by (auto simp: user_exists_def find_user_def dest: find_row_Some)
  have "(\<forall>x \<in> set (update_row rt_id k revoked ts). rt_id x \<noteq> tid \<and> rt_token_hash x \<noteq> h) \<longleftrightarrow>
      tid \<notin> rt_id ` set ts \<and> h \<notin> rt_token_hash ` set ts" for k ts h
    by (auto simp: update_row_def ball_update_rows)
  then have taken: "(\<exists>x \<in> set (update_row rt_id k revoked ts). rt_id x = tid \<or> rt_token_hash x = h) \<longleftrightarrow>
      tid \<in> rt_id ` set ts \<or> h \<in> rt_token_hash ` set ts" for k ts h
    by blast
  have same: "find_user (revoke_token k db) j = find_user db j" for k j by (simp add: find_user_def)
  show ?thesis
    by (auto simp: refresh_def refresh_stored_cases refresh_issue_def find_refresh_token_def Let_def mint_tokens_def same
        generate_refresh_token_def issue_access_token_def insert_refresh_token_def user_exists_def taken
        and_then_def ok_or_def dest: user split: option.splits sum.splits if_splits)
qed

section \<open>Two requests at once\<close>

text \<open>
  \<open>refresh\<close> reads the stored token and revokes it in two statements, without a transaction or
  a lock. Two requests with the same token that both read before either writes both succeed,
  and the family is left with two live tokens: the replay is not detected.
\<close>

theorem refresh_race:
  "\<exists>stored a db1 b db2.
     find_refresh_token sample_externals ''r1'' sample_session = Some stored \<and>
     refresh_stored sample_externals sample_config stored (9, ''r2'') 5 sample_session = (Inr a, db1) \<and>
     refresh_stored sample_externals sample_config stored (10, ''r3'') 5 db1 = (Inr b, db2) \<and>
     length (filter (\<lambda>t. rt_family t = rt_family stored \<and> \<not> rt_revoked t) (refresh_tokens db2)) = 2"
proof -
  let ?st = "the (find_refresh_token sample_externals ''r1'' sample_session)"
  let ?r1 = "refresh_stored sample_externals sample_config ?st (9, ''r2'') 5 sample_session"
  let ?r2 = "refresh_stored sample_externals sample_config ?st (10, ''r3'') 5 (snd ?r1)"
  have "find_refresh_token sample_externals ''r1'' sample_session \<noteq> None" by code_simp
  moreover have "is_ok (fst ?r1)" "is_ok (fst ?r2)" by code_simp+
  moreover have "length (filter (\<lambda>t. rt_family t = rt_family ?st \<and> \<not> rt_revoked t)
      (refresh_tokens (snd ?r2))) = 2" by code_simp
  moreover from calculation obtain a b where "fst ?r1 = Inr a" "fst ?r2 = Inr b" by (auto simp: is_ok_iff)
  then have "?r1 = (Inr a, snd ?r1)" "?r2 = (Inr b, snd ?r2)" by (simp_all only: prod_eq_iff fst_conv snd_conv)
  moreover have "find_refresh_token sample_externals ''r1'' sample_session = Some ?st"
    using calculation(1) by (rule option.collapse [symmetric])
  ultimately show ?thesis by blast
qed

end
