(* ===== verification/Middleware_Properties.thy ===== *)
theory Middleware_Properties
  imports Auth_Middleware
begin

text \<open>
  Who passes the extractors: the exact conditions for \<open>AuthUser\<close> and \<open>AdminUser\<close>, the life of
  an agent token, and the role that an access token carries after the account has lost it.
\<close>

lemma bearer_token_eq: "bearer_token header = Inr token \<longleftrightarrow> header = Some (BEARER @ token)"
  unfolding bearer_token_def by (cases header) (auto simp: ok_or_eq strip_prefix_eq)

lemma unauthorized_unless_uuid_eq:
  "unauthorized_unless_uuid ex c = Inr uid \<longleftrightarrow> ex_parse_uuid ex (cl_sub c) = Some uid"
  by (auto simp: unauthorized_unless_uuid_def claims_user_id_def ok_or_def split: option.splits)

lemma if_active_eq:
  "(case x of Some u \<Rightarrow> if u_is_active u then r u else Inl e | None \<Rightarrow> Inl e) = Inr c \<longleftrightarrow>
     (\<exists>u. x = Some u \<and> u_is_active u \<and> r u = Inr c)"
  by (auto split: option.splits)

text \<open>
  A request passes \<open>AuthUser\<close> exactly when it carries a bearer token that the JWT library
  accepts and whose subject is an existing, active account.
\<close>

theorem auth_user_exact:
  "auth_user ex cf header now db = Inr c \<longleftrightarrow>
    (\<exists>token uid u. header = Some (BEARER @ token) \<and>
       ex_decode_jwt ex now token (cf_jwt_secret cf) = Some c \<and>
       ex_parse_uuid ex (cl_sub c) = Some uid \<and> find_user db uid = Some u \<and> u_is_active u)"
  by (auto simp: auth_user_def extract_claims_def and_then_eq_Inr ok_or_eq verify_access_token_def
      bearer_token_eq unauthorized_unless_uuid_eq if_active_eq)

definition agent_token_current :: "agent_token \<Rightarrow> instant \<Rightarrow> bool" where
  "agent_token_current t now \<longleftrightarrow> ag_revoked_at t = None \<and>
     (case ag_expires_at t of None \<Rightarrow> True | Some e \<Rightarrow> now < e)"

lemma verify_agent_token_cases:
  "fst (verify_agent_token ex raw now db) =
     (case find_row ag_token_hash (agent_tokens db) (hash_token ex raw) of
        None \<Rightarrow> None | Some t \<Rightarrow> if agent_token_current t now then Some t else None)"
  "users (snd (verify_agent_token ex raw now db)) = users db"
  by (auto simp: verify_agent_token_def agent_token_current_def split: option.splits)

text \<open>
  [C33] A request passes \<open>AdminUser\<close> exactly when its bearer token is a valid JWT with the role admin
  of an existing, active account, or no JWT but a known agent token, neither revoked nor
  expired, whose creator is still an active administrator. In the second case the claims are
  the creator's, valid for five minutes.
\<close>

theorem admin_user_exact:
  "fst (admin_user ex cf header now db) = Inr c \<longleftrightarrow>
    (\<exists>token. header = Some (BEARER @ token) \<and>
      (case ex_decode_jwt ex now token (cf_jwt_secret cf) of
         Some claims \<Rightarrow> c = claims \<and> cl_role c = ''admin'' \<and>
           (\<exists>uid u. ex_parse_uuid ex (cl_sub c) = Some uid \<and> find_user db uid = Some u \<and> u_is_active u)
       | None \<Rightarrow> is_prefix ''agt_'' token \<and>
           (\<exists>t u. find_row ag_token_hash (agent_tokens db) (hash_token ex token) = Some t \<and>
              agent_token_current t now \<and> find_user db (ag_created_by t) = Some u \<and> u_is_active u \<and>
              u_role u = ''admin'' \<and>
              c = claims_new ex (ag_created_by t) ''admin'' (timestamp now) (timestamp now + 300))))"
proof (cases "bearer_token header")
  case (Inl e)
  then have "\<nexists>token. header = Some (BEARER @ token)" by (metis bearer_token_eq sum.distinct(1))
  then show ?thesis using Inl by (simp add: admin_user_def extract_admin_auth_def)
next
  case (Inr token)
  then have header: "header = Some (BEARER @ t) \<longleftrightarrow> t = token" for t
    by (auto simp: bearer_token_eq)
  obtain found db' where v: "verify_agent_token ex token now db = (found, db')" by fastforce
  then have found: "found = (case find_row ag_token_hash (agent_tokens db) (hash_token ex token) of
        None \<Rightarrow> None | Some t \<Rightarrow> if agent_token_current t now then Some t else None)"
    and same: "find_user db' k = find_user db k" for k
    using verify_agent_token_cases [of ex token now db] by (simp_all add: find_user_def)
  show ?thesis
  proof (cases "ex_decode_jwt ex now token (cf_jwt_secret cf)")
    case None
    then show ?thesis using Inr
      by (auto simp: admin_user_def extract_admin_auth_def header verify_access_token_def v found same
          split: option.splits if_splits)
  next
    case (Some claims)
    then show ?thesis using Inr
      by (auto simp: admin_user_def extract_admin_auth_def header verify_access_token_def and_then_eq_Inr
          unauthorized_unless_uuid_eq if_active_eq split: if_splits)
  qed
qed

text \<open>
  The raw token that \<open>create\<close> returns is accepted until it expires, for the row that was stored,
  and is refused at every time after a revocation. The stored row has the hash and the visible
  prefix of the token and not the token.
\<close>

theorem agent_token_lifecycle:
  assumes "create_agent_token ex by name d fresh now db = Inr ((row, raw), db')"
  shows "fst (verify_agent_token ex raw t db') =
      (if (case ag_expires_at row of None \<Rightarrow> True | Some e \<Rightarrow> t < e) then Some row else None) \<and>
    fst (verify_agent_token ex raw t (revoke_agent_token (ag_id row) t' db')) = None \<and>
    ag_token_hash row = hash_token ex raw \<and> ag_token_prefix row = take 12 raw \<and>
    ag_name row \<noteq> [] \<and> (d = None \<longleftrightarrow> ag_expires_at row = None)"
proof -
  have row: "agent_tokens db' = insert_row row (agent_tokens db)" "ag_token_hash row = hash_token ex raw"
      "ag_revoked_at row = None" "raw = ''agt_'' @ snd fresh" "ag_token_prefix row = token_prefix raw"
      "ag_name row \<noteq> []" "d = None \<longleftrightarrow> ag_expires_at row = None"
      "\<forall>t \<in> set (agent_tokens db). ag_id t \<noteq> ag_id row \<and> ag_token_hash t \<noteq> hash_token ex raw"
    using assms by (auto simp: create_agent_token_def result_simps Let_def issue_raw_token_def
        generate_refresh_token_def normalize_name_def compute_expires_at_def
        split: if_splits option.splits)
  have new: "find_row ag_token_hash (agent_tokens db) (hash_token ex raw) = None"
    using row(8) by (auto simp: find_row_None)
  then have find: "find_row ag_token_hash (agent_tokens db') (hash_token ex raw) = Some row"
    using row(1,2) by (simp add: find_row_insert)
  have "find_row ag_token_hash (agent_tokens (revoke_agent_token (ag_id row) t' db')) (hash_token ex raw)
      = Some (row\<lparr>ag_revoked_at := Some t'\<rparr>)"
    using find row(3) by (simp add: revoke_agent_token_def row_simps)
  moreover have "token_prefix raw = take 12 raw"
    by (simp add: row(4) token_prefix_def strip_prefix_def is_prefix_def TOKEN_PREFIX_RAW_CHARS_def)
  ultimately show ?thesis
    using find row by (auto simp: verify_agent_token_cases agent_token_current_def split: option.splits)
qed

theorem agent_token_lifecycle_witness:
  "\<exists>row raw db'. create_agent_token sample_externals 3 ''ops'' (Some 2) (5, ''s'') 0 sample_server
      = Inr ((row, raw), db') \<and> fst (verify_agent_token sample_externals raw 1 db') = Some row \<and>
    fst (verify_agent_token sample_externals raw (days 2) db') = None"
proof -
  let ?c = "create_agent_token sample_externals 3 ''ops'' (Some 2) (5, ''s'') 0 sample_server"
  have "is_ok ?c" "map_sum (\<lambda>e. e) (\<lambda>((row, raw), db'). ag_expires_at row) ?c = Inr (Some (days 2))"
    by code_simp+
  then obtain row raw db' where c: "?c = Inr ((row, raw), db')" and e: "ag_expires_at row = Some (days 2)"
    by (auto simp: is_ok_iff split: prod.splits)
  show ?thesis
    using agent_token_lifecycle [OF c, of 1] agent_token_lifecycle [OF c, of "days 2"] c e
    by (simp add: days_def)
qed

text \<open>
  The role of a JWT is the role at the time it was issued: the extractor for administrators
  looks at the claims and not at the row, so an account that has lost the role keeps the access
  until the token expires. (The account 2 of the sample server has the role user.)
\<close>

theorem demoted_admin_keeps_access:
  "map_option u_role (find_user sample_server 2) = Some ''user'' \<and>
   fst (admin_user sample_externals sample_config (Some ''Bearer 2|admin'') 0 sample_server) =
     Inr \<lparr>cl_sub = ''2'', cl_role = ''admin'', cl_iat = 0, cl_exp = 0\<rparr>"
  by code_simp

end
