(* ===== verification/Federation_Service.thy ===== *)
theory Federation_Service
  imports Message_Service User_Service Server_Config
begin

text \<open>
  Federation, the service: src/src/services/federation\_service.rs. Actor keys, the inbox of
  remote activities, outgoing deliveries with their retries, the translation of a remote note
  into a local message, and the validation of signed requests.

  A parsed URL has the parts that the code reads (\<open>url\<close>); the parser itself (\<open>parse_url\<close>, with
  its error text), SHA-256 and the RFC 2822 date parser are parameters.
\<close>

record url =
  url_scheme :: string
  url_host :: "string option"
  url_port :: "nat option"
  url_query :: "string option"
  url_fragment :: "string option"
  url_path :: string
  url_segments :: "string list option"

type_synonym url_parser = "string \<Rightarrow> string + url"

definition parse_host :: "url_parser \<Rightarrow> string \<Rightarrow> string + string option" where
  "parse_host parse_url s = (case parse_url s of Inl e \<Rightarrow> Inl e | Inr u \<Rightarrow> Inr (url_host u))"

section \<open>Actor keys\<close>

definition get_actor_key :: "db \<Rightarrow> string \<Rightarrow> federation_actor_key option" where
  "get_actor_key db username = find_row fak_actor_username (federation_actor_keys db) username"

definition ensure_actor_key ::
  "uuid \<Rightarrow> string \<Rightarrow> string \<Rightarrow> string \<Rightarrow> string \<Rightarrow> instant \<Rightarrow> db \<Rightarrow> (federation_actor_key \<times> db) result" where
  "ensure_actor_key fresh_id username key_id public_pem private_pkcs8_b64 now db =
    (case get_actor_key db username of
       Some found \<Rightarrow> Inr (found, db)
     | None \<Rightarrow>
         if exists_row (\<lambda>f. fak_id f = fresh_id \<or> fak_key_id f = key_id) (federation_actor_keys db)
         then Inl (Database UniqueViolation)
         else if find_by_username db username = None then Inl (Database ForeignKeyViolation)
         else
           let row = \<lparr>fak_id = fresh_id, fak_actor_username = username, fak_key_id = key_id,
                 fak_public_key_pem = public_pem, fak_private_key_pkcs8 = private_pkcs8_b64,
                 fak_created_at = now\<rparr>
           in Inr (row, db\<lparr>federation_actor_keys := insert_row row (federation_actor_keys db)\<rparr>))"

definition local_user_exists :: "db \<Rightarrow> string \<Rightarrow> bool" where
  "local_user_exists db username \<longleftrightarrow> find_by_username db username \<noteq> None"

section \<open>The inbox\<close>

definition record_inbox_activity ::
  "uuid \<Rightarrow> string \<Rightarrow> string \<Rightarrow> string \<Rightarrow> string \<Rightarrow> json \<Rightarrow> instant \<Rightarrow> db \<Rightarrow> (bool \<times> db) result" where
  "record_inbox_activity fresh_id activity_id actor recipient_username activity_type payload now db =
    (if exists_row (\<lambda>a. fia_activity_id a = activity_id) (federation_inbox_activities db)
     then Inr (False, db)
     else if exists_row (\<lambda>a. fia_id a = fresh_id) (federation_inbox_activities db)
     then Inl (Database UniqueViolation)
     else if find_by_username db recipient_username = None then Inl (Database ForeignKeyViolation)
     else Inr (True, db\<lparr>federation_inbox_activities := insert_row
         \<lparr>fia_id = fresh_id, fia_activity_id = activity_id, fia_actor = actor,
          fia_recipient_username = recipient_username, fia_activity_type = activity_type,
          fia_payload = payload, fia_received_at = now\<rparr> (federation_inbox_activities db)\<rparr>))"

section \<open>Deliveries\<close>

definition delivery_key :: "federation_delivery \<Rightarrow> string \<times> string" where
  "delivery_key d = (fd_activity_id d, fd_destination d)"

definition upsert_delivery_pending ::
  "uuid \<Rightarrow> string \<Rightarrow> string \<Rightarrow> string \<Rightarrow> instant \<Rightarrow> db \<Rightarrow> (federation_delivery \<times> db) result" where
  "upsert_delivery_pending fresh_id activity_id sender_username destination now db =
    (if find_row delivery_key (federation_deliveries db) (activity_id, destination) = None \<and>
        exists_row (\<lambda>d. fd_id d = fresh_id) (federation_deliveries db)
     then Inl (Database UniqueViolation)
     else if find_row delivery_key (federation_deliveries db) (activity_id, destination) = None \<and>
        find_by_username db sender_username = None
     then Inl (Database ForeignKeyViolation)
     else
       let db' = db\<lparr>federation_deliveries := upsert_row delivery_key
             \<lparr>fd_id = fresh_id, fd_activity_id = activity_id, fd_sender_username = sender_username,
              fd_destination = destination, fd_status = ''pending'', fd_attempts = 0,
              fd_last_error = None, fd_next_attempt_at = None, fd_delivered_at = None,
              fd_created_at = now, fd_updated_at = now\<rparr>
             (\<lambda>d. d\<lparr>fd_status := ''pending'', fd_last_error := None, fd_next_attempt_at := None,
                fd_updated_at := now\<rparr>)
             (federation_deliveries db)\<rparr>
       in and_then (ok_or (Database RowNotFound)
            (find_row delivery_key (federation_deliveries db') (activity_id, destination)))
            (\<lambda>d. Inr (d, db')))"

definition update_delivery ::
  "uuid \<Rightarrow> (federation_delivery \<Rightarrow> federation_delivery) \<Rightarrow> instant \<Rightarrow> db \<Rightarrow> db" where
  "update_delivery k f now db = db\<lparr>federation_deliveries :=
     update_row fd_id k (\<lambda>d. (f d)\<lparr>fd_updated_at := now\<rparr>) (federation_deliveries db)\<rparr>"

definition mark_delivery_success :: "uuid \<Rightarrow> instant \<Rightarrow> db \<Rightarrow> db result" where
  "mark_delivery_success k now db =
    (if exists_row (\<lambda>d. fd_id d = k \<and> fd_attempts d = i32_max) (federation_deliveries db)
     then Inl (Database NumericOutOfRange)
     else Inr (update_delivery k (\<lambda>d. d\<lparr>fd_status := ''delivered'', fd_attempts := fd_attempts d + 1,
        fd_delivered_at := Some now, fd_next_attempt_at := None, fd_last_error := None\<rparr>) now db))"

text \<open>The power of a negative exponent, read as a 32-bit unsigned number, wraps to zero.\<close>

definition mark_delivery_failure ::
  "uuid \<Rightarrow> string \<Rightarrow> int \<Rightarrow> instant \<Rightarrow> db \<Rightarrow> db result" where
  "mark_delivery_failure k error_message max_attempts now db =
     and_then (ok_or (Database RowNotFound) (find_row fd_id (federation_deliveries db) k)) (\<lambda>delivery.
     let next_attempt = wrap_i32 (fd_attempts delivery + 1);
         status = (if next_attempt \<ge> max_attempts then ''dead_letter'' else ''failed'');
         base_secs = (if next_attempt < 0 then 0 else (2 :: int) ^ nat (min next_attempt 10));
         jitter = int (k mod 17);
         eta = now + second_us * (base_secs + jitter)
     in Inr (update_delivery k (\<lambda>d. d\<lparr>fd_status := status, fd_attempts := next_attempt,
          fd_last_error := Some error_message,
          fd_next_attempt_at := (if status = ''dead_letter'' then None else Some eta)\<rparr>) now db))"

definition due_for_retry :: "instant \<Rightarrow> federation_delivery \<Rightarrow> bool" where
  "due_for_retry now d \<longleftrightarrow> fd_status d = ''failed'' \<and>
     (case fd_next_attempt_at d of None \<Rightarrow> False | Some t \<Rightarrow> t \<le> now)"

definition deliveries_due_for_retry :: "instant \<Rightarrow> db \<Rightarrow> federation_delivery list" where
  "deliveries_due_for_retry now db =
     sort_key fd_created_at (filter (due_for_retry now) (federation_deliveries db))"

definition list_outbox_deliveries :: "db \<Rightarrow> string \<Rightarrow> nat \<Rightarrow> federation_delivery list" where
  "list_outbox_deliveries db username limit = take limit
     (sort_key (\<lambda>d. - fd_created_at d)
       (filter (\<lambda>d. fd_sender_username d = username) (federation_deliveries db)))"

section \<open>Remote notes\<close>

definition json_str_at :: "string \<Rightarrow> json \<Rightarrow> string option" where
  "json_str_at k j = Option.bind (json_get k j) json_as_str"

definition parse_remote_actor_identity :: "url_parser \<Rightarrow> string \<Rightarrow> (string \<times> string) result" where
  "parse_remote_actor_identity parse_url actor_url =
    (case parse_url actor_url of
       Inl e \<Rightarrow> Inl (BadRequest (''Invalid actor url: '' @ e))
     | Inr parsed \<Rightarrow>
        (case url_host parsed of
           None \<Rightarrow> Inl (BadRequest ''Remote actor URL missing host'')
         | Some host \<Rightarrow>
             let segment = Option.bind (url_segments parsed)
                   (\<lambda>ss. if ss = [] then None else Some (trim (last ss)))
             in if segment = None \<or> segment = Some []
                then Inl (BadRequest ''Remote actor URL missing username path'')
                else Inr (to_lowercase (the segment), url_scheme parsed @ ''://'' @ host)))"

text \<open>
  \<open>insert_into(federation_remote_messages) .. on_conflict(activity_id).do_nothing()\<close>: the
  activity must be in the inbox and the recipient an account.
\<close>

definition insert_remote_message ::
  "federation_remote_message \<Rightarrow> db \<Rightarrow> (bool \<times> db) result" where
  "insert_remote_message m db =
    (if exists_row (\<lambda>x. frm_activity_id x = frm_activity_id m) (federation_remote_messages db)
     then Inr (False, db)
     else if exists_row (\<lambda>x. frm_id x = frm_id m) (federation_remote_messages db)
     then Inl (Database UniqueViolation)
     else if find_by_username db (frm_recipient_username m) = None \<or>
        \<not> exists_row (\<lambda>a. fia_activity_id a = frm_activity_id m) (federation_inbox_activities db)
     then Inl (Database ForeignKeyViolation)
     else Inr (True, db\<lparr>federation_remote_messages :=
            insert_row m (federation_remote_messages db)\<rparr>))"

text \<open>The note of a payload: its content, trimmed and not empty, and its id.\<close>

definition note_of :: "json \<Rightarrow> (string \<times> string option) option" where
  "note_of payload =
    (case json_get ''object'' payload of
       None \<Rightarrow> None
     | Some object \<Rightarrow>
         let content = trim (case json_str_at ''content'' object of None \<Rightarrow> [] | Some s \<Rightarrow> s)
         in if json_str_at ''type'' object \<noteq> Some ''Note'' \<or> content = [] then None
            else Some (content, json_str_at ''id'' object))"

definition map_create_note_to_local_message ::
  "(string \<Rightarrow> string) \<Rightarrow> url_parser \<Rightarrow> uuid \<times> uuid \<times> uuid \<Rightarrow> string \<Rightarrow> string \<Rightarrow> string \<Rightarrow> json \<Rightarrow>
     instant \<Rightarrow> db \<Rightarrow> message option result \<times> db" where
  "map_create_note_to_local_message sha256_hex parse_url fresh activity_id activity_actor
     recipient_username payload now db =
    (case note_of payload of
       None \<Rightarrow> (Inr None, db)
     | Some (content, object_id) \<Rightarrow>
        (case insert_remote_message
            \<lparr>frm_id = fst fresh, frm_activity_id = activity_id, frm_object_id = object_id,
             frm_actor = activity_actor, frm_recipient_username = recipient_username,
             frm_content = content, frm_received_at = now\<rparr> db of
           Inl e \<Rightarrow> (Inl e, db)
         | Inr (False, db) \<Rightarrow> (Inr None, db)
         | Inr (True, db) \<Rightarrow>
            (case find_by_username db recipient_username of
               None \<Rightarrow> (Inl NotFound, db)
             | Some recipient \<Rightarrow>
                (case parse_remote_actor_identity parse_url activity_actor of
                   Inl e \<Rightarrow> (Inl e, db)
                 | Inr (remote_user_id, remote_server_url) \<Rightarrow>
                    (case ensure_federated_shadow_user sha256_hex (parse_host parse_url) (fst (snd fresh))
                        remote_user_id remote_server_url now db of
                       Inl e \<Rightarrow> (Inl e, db)
                     | Inr (shadow, db) \<Rightarrow>
                        (case send_message (snd (snd fresh)) (u_id shadow) (u_id recipient) content now db of
                           Inl e \<Rightarrow> (Inl e, db)
                         | Inr (m, db) \<Rightarrow> (Inr (Some m), db)))))))"

section \<open>Validation\<close>

definition resource_char :: "char \<Rightarrow> bool" where
  "resource_char c \<longleftrightarrow> (97 \<le> code c \<and> code c \<le> 122) \<or> is_digit c \<or> c = CHR ''_'' \<or> c = CHR ''-'' \<or> c = CHR ''.''"

definition parse_resource :: "string \<Rightarrow> string \<Rightarrow> string result" where
  "parse_resource resource expected_domain =
     and_then (ok_or (BadRequest ''resource must start with acct:'') (strip_prefix ''acct:'' resource)) (\<lambda>rest.
     and_then (ok_or (BadRequest ''resource must look like acct:user@domain'') (split_once CHR ''@'' rest))
       (\<lambda>(username, domain).
     if domain \<noteq> expected_domain then Inl NotFound
     else
       let normalized = to_lowercase (trim username)
       in if normalized = [] then Inl (BadRequest ''username cannot be empty'')
          else if \<not> list_all resource_char normalized
          then Inl (BadRequest ''username contains unsupported characters'')
          else Inr normalized))"

definition permanent_failure_reason :: "nat \<Rightarrow> string option" where
  "permanent_failure_reason status =
     (if 400 \<le> status \<and> status < 500 \<and> status \<noteq> 429 then Some ''permanent remote 4xx response'' else None)"

definition parse_key_id_actor_url :: "string \<Rightarrow> string result" where
  "parse_key_id_actor_url key_id =
     and_then (ok_or (BadRequest ''Signature keyId must include fragment'') (split_once CHR ''#'' key_id))
       (\<lambda>(actor_url, _).
     if is_prefix ''https://'' actor_url \<or> is_prefix ''http://'' actor_url then Inr actor_url
     else Inl (BadRequest ''Signature keyId must be an absolute URL''))"

definition ensure_activity_id :: "json \<Rightarrow> string result" where
  "ensure_activity_id activity =
     ok_or (BadRequest ''Activity must contain string id'') (json_str_at ''id'' activity)"

definition ensure_activity_type :: "json \<Rightarrow> string result" where
  "ensure_activity_type activity =
     ok_or (BadRequest ''Activity must contain string type'') (json_str_at ''type'' activity)"

definition ensure_activity_actor :: "json \<Rightarrow> string result" where
  "ensure_activity_actor activity =
     ok_or (BadRequest ''Activity must contain string actor'') (json_str_at ''actor'' activity)"

definition validate_activity_shape :: "json \<Rightarrow> unit result" where
  "validate_activity_shape activity =
     and_then (ensure_activity_type activity) (\<lambda>t.
     guard_err (t \<in> {''Create'', ''Follow'', ''Accept''}) (BadRequest (''Unsupported activity type: '' @ t)))"

definition ensure_local_actor_alignment :: "string \<Rightarrow> string \<Rightarrow> unit result" where
  "ensure_local_actor_alignment activity_actor actor_url = guard_err (activity_actor = actor_url) Unauthorized"

definition max_payload_bytes :: nat where "max_payload_bytes = 262144"

definition parse_rfc2822_timestamp :: "(string \<Rightarrow> string + int) \<Rightarrow> string \<Rightarrow> int result" where
  "parse_rfc2822_timestamp parse_date value =
    (case parse_date value of Inl e \<Rightarrow> Inl (BadRequest (''Invalid Date header: '' @ e)) | Inr t \<Rightarrow> Inr t)"

definition validate_replay_window :: "int \<Rightarrow> int \<Rightarrow> int \<Rightarrow> unit result" where
  "validate_replay_window ts now window_secs = guard_err (abs (now - ts) \<le> window_secs) Unauthorized"

definition ensure_remote_domain_allowed :: "url_parser \<Rightarrow> string \<Rightarrow> string list \<Rightarrow> unit result" where
  "ensure_remote_domain_allowed parse_url actor_url denylist =
    (case parse_url actor_url of
       Inl e \<Rightarrow> Inl (BadRequest (''Invalid actor URL: '' @ e))
     | Inr parsed \<Rightarrow>
        (case url_host parsed of
           None \<Rightarrow> Inl (BadRequest ''Actor URL host missing'')
         | Some host \<Rightarrow> guard_err (\<not> list_ex (\<lambda>d. eq_ignore_ascii_case d host) denylist) Forbidden))"

end
