(* ===== verification/Federation_Routes.thy ===== *)
theory Federation_Routes
  imports Federation_Service Server_Io
begin

text \<open>
  Federation, the handlers: src/src/routes/federation.rs. Discovery (webfinger, the actor
  document, the outbox), the inbox with its HTTP signature, and outgoing deliveries.

  The record \<open>fed_externals\<close> holds the third-party code: URLs, base64, SHA-256, Ed25519, dates
  and JSON (an object keeps its members in the order of their keys). Bytes are texts of the model (code points 0 to 255). The network is a function: the
  actor document that a fetch returns, and the answer to a posted activity. The process-wide
  key cache is part of the state of the inbox handler.
\<close>

record fed_externals =
  fx_parse_url :: url_parser
  fx_set_path :: "string \<Rightarrow> url \<Rightarrow> url"
  fx_show_url :: "url \<Rightarrow> string"
  fx_base64 :: "string \<Rightarrow> string"
  fx_unbase64 :: "string \<Rightarrow> string + string"
  fx_sha256 :: "string \<Rightarrow> string"
  fx_public_key :: "string \<Rightarrow> string option"
  fx_sign :: "string \<Rightarrow> string \<Rightarrow> string"
  fx_verify :: "string \<Rightarrow> string \<Rightarrow> string \<Rightarrow> bool"
  fx_parse_date :: "string \<Rightarrow> string + int"
  fx_show_date :: "instant \<Rightarrow> string"
  fx_parse_json :: "string \<Rightarrow> string + json"
  fx_show_json :: "json \<Rightarrow> string"
  fx_build_post :: "string \<Rightarrow> string + url"
  fx_header_value :: "string \<Rightarrow> string option"

section \<open>Names\<close>

definition instance_base :: "string \<Rightarrow> string" where
  "instance_base domain = ''https://'' @ domain"

definition actor_url :: "string \<Rightarrow> string \<Rightarrow> string" where
  "actor_url domain username = instance_base domain @ ''/users/'' @ username"

definition key_id :: "string \<Rightarrow> string \<Rightarrow> string" where
  "key_id domain username = actor_url domain username @ ''#main-key''"

definition trim_end_matches :: "char \<Rightarrow> string \<Rightarrow> string" where
  "trim_end_matches c s = rev (dropWhile (\<lambda>x. x = c) (rev s))"

definition build_remote_inbox_url :: "fed_externals \<Rightarrow> string \<Rightarrow> string \<Rightarrow> string result" where
  "build_remote_inbox_url fx remote_server_url remote_user_id =
    (case fx_parse_url fx (trim remote_server_url) of
       Inl e \<Rightarrow> Inl (BadRequest (''Invalid recipient_server_url: '' @ e))
     | Inr parsed \<Rightarrow>
         let normalized_user = to_lowercase (trim remote_user_id)
         in if normalized_user = [] then Inl (BadRequest ''recipient_id cannot be empty'')
            else
              let path = trim_end_matches CHR ''/'' (url_path parsed);
                  parsed = fx_set_path fx (path @ ''/users/'' @ normalized_user @ ''/inbox'') parsed
              in Inr (fx_show_url fx (parsed\<lparr>url_query := None, url_fragment := None\<rparr>)))"

section \<open>Keys and signatures\<close>

definition encode_raw_pem :: "fed_externals \<Rightarrow> string \<Rightarrow> string \<Rightarrow> string" where
  "encode_raw_pem fx label bytes =
     ''-----BEGIN '' @ label @ ''-----'' @ [CHR 0x0A] @ fx_base64 fx bytes @ [CHR 0x0A] @
     ''-----END '' @ label @ ''-----''"

definition parse_raw_pem_bytes :: "fed_externals \<Rightarrow> string \<Rightarrow> string result" where
  "parse_raw_pem_bytes fx pem =
    (let ls = lines pem
     in if length ls < 3 then Inl (BadRequest ''Malformed PEM'')
        else case fx_unbase64 fx (concat (butlast (tl ls))) of
               Inl e \<Rightarrow> Inl (BadRequest (''Invalid PEM base64: '' @ e))
             | Inr bytes \<Rightarrow> Inr bytes)"

record signature_fields =
  sf_key_id :: string
  sf_signature :: string
  sf_headers :: "string list"

text \<open>The three variables that the loop of \<open>parse_signature_header\<close> fills.\<close>

type_synonym signature_parts = "string option \<times> string option \<times> string list option"

definition split_whitespace :: "string \<Rightarrow> string list" where
  "split_whitespace s = tokens_by is_whitespace s []"

definition signature_part :: "string \<Rightarrow> signature_parts \<Rightarrow> signature_parts result" where
  "signature_part part = (\<lambda>(kid, sig, headers).
     and_then (ok_or (BadRequest ''Malformed Signature header'') (split_once CHR ''='' (trim part)))
       (\<lambda>(k, v).
     let val = trim_matches CHR 0x22 (trim v)
     in if trim k = ''keyId'' then Inr (Some val, sig, headers)
        else if trim k = ''signature'' then Inr (kid, Some val, headers)
        else if trim k = ''headers''
        then Inr (kid, sig, Some (map (\<lambda>s. to_lowercase (trim s)) (split_whitespace val)))
        else Inr (kid, sig, headers)))"

fun signature_loop :: "string list \<Rightarrow> signature_parts \<Rightarrow> signature_parts result" where
  "signature_loop [] acc = Inr acc"
| "signature_loop (part # rest) acc = and_then (signature_part part acc) (signature_loop rest)"

definition parse_signature_header :: "string \<Rightarrow> signature_fields result" where
  "parse_signature_header sig =
     and_then (signature_loop (split_on CHR '','' sig) (None, None, None)) (\<lambda>(k, s, h).
     and_then (ok_or (BadRequest ''Signature missing keyId'') k) (\<lambda>k.
     and_then (ok_or (BadRequest ''Signature missing signature'') s) (\<lambda>s.
     and_then (ok_or (BadRequest ''Signature missing headers list'') h) (\<lambda>h.
     and_then (guard_err (list_ex (\<lambda>x. x = ''date'') h)
        (BadRequest ''Signature headers must include date'')) (\<lambda>_.
     Inr \<lparr>sf_key_id = k, sf_signature = s, sf_headers = h\<rparr>)))))"

text \<open>
  An incoming request. A header is absent (\<open>None\<close>), present but not readable as text
  (\<open>Some None\<close>) or a text.
\<close>

record http_request =
  hr_method :: string
  hr_target :: string
  hr_headers :: "string \<Rightarrow> string option option"
  hr_body :: string

definition header_text :: "(string \<Rightarrow> string option option) \<Rightarrow> string \<Rightarrow> string \<Rightarrow> string \<Rightarrow> string result" where
  "header_text headers h missing invalid =
    (case headers h of
       None \<Rightarrow> Inl (BadRequest missing)
     | Some None \<Rightarrow> Inl (BadRequest (invalid @ '': failed to convert header to a str''))
     | Some (Some v) \<Rightarrow> Inr v)"

fun canonical_parts :: "http_request \<Rightarrow> string list \<Rightarrow> string list result" where
  "canonical_parts req [] = Inr []"
| "canonical_parts req (h # hs) =
     and_then
       (if h = ''(request-target)''
        then Inr (''(request-target): '' @ to_lowercase (hr_method req) @ '' '' @ hr_target req)
        else and_then (header_text (hr_headers req) h (''Missing signed header: '' @ h)
               (''Invalid header value for '' @ h)) (\<lambda>value. Inr (h @ '': '' @ value))) (\<lambda>p.
     and_then (canonical_parts req hs) (\<lambda>ps. Inr (p # ps)))"

definition canonicalize_signed_string :: "http_request \<Rightarrow> string list \<Rightarrow> string result" where
  "canonicalize_signed_string req headers =
     and_then (canonical_parts req headers) (\<lambda>parts. Inr (join [CHR 0x0A] parts))"

definition sign_canonical :: "fed_externals \<Rightarrow> string \<Rightarrow> string \<Rightarrow> string result" where
  "sign_canonical fx private_pkcs8_b64 canonical =
    (case fx_unbase64 fx private_pkcs8_b64 of
       Inl e \<Rightarrow> Inl (Internal (''Invalid stored private key base64: '' @ e))
     | Inr pkcs8 \<Rightarrow>
        (case fx_public_key fx pkcs8 of
           None \<Rightarrow> Inl (Internal ''Failed to parse Ed25519 private key'')
         | Some _ \<Rightarrow> Inr (fx_base64 fx (fx_sign fx pkcs8 canonical))))"

definition verify_signature :: "fed_externals \<Rightarrow> string \<Rightarrow> string \<Rightarrow> string \<Rightarrow> unit result" where
  "verify_signature fx public_key_pem canonical signature_b64 =
     and_then (parse_raw_pem_bytes fx public_key_pem) (\<lambda>public_key_raw.
     (case fx_unbase64 fx signature_b64 of
        Inl e \<Rightarrow> Inl (BadRequest (''Invalid signature base64: '' @ e))
      | Inr signature_raw \<Rightarrow>
          guard_err (fx_verify fx public_key_raw canonical signature_raw) Unauthorized))"

text \<open>A request on its way out.\<close>

record out_request =
  or_method :: string
  or_url :: url
  or_headers :: "string \<rightharpoonup> string"
  or_body :: string

definition signed_headers :: "string list" where
  "signed_headers = [''(request-target)'', ''host'', ''date'', ''digest'']"

definition out_target :: "url \<Rightarrow> string" where
  "out_target u = (case url_query u of None \<Rightarrow> url_path u | Some q \<Rightarrow> url_path u @ ''?'' @ q)"

definition signing_text :: "string \<Rightarrow> string \<Rightarrow> string \<Rightarrow> string \<Rightarrow> string \<Rightarrow> string" where
  "signing_text meth path host date digest =
     ''(request-target): '' @ to_lowercase meth @ '' '' @ path @ [CHR 0x0A] @
     ''host: '' @ host @ [CHR 0x0A] @ ''date: '' @ date @ [CHR 0x0A] @ ''digest: '' @ digest"

definition QUOTE :: string where "QUOTE = [CHR 0x22]"

definition signature_text :: "string \<Rightarrow> string \<Rightarrow> string" where
  "signature_text kid sig_b64 =
     ''keyId='' @ QUOTE @ kid @ QUOTE @ '',algorithm='' @ QUOTE @ ''ed25519'' @ QUOTE @
     '',headers='' @ QUOTE @ join '' '' signed_headers @ QUOTE @
     '',signature='' @ QUOTE @ sig_b64 @ QUOTE"

definition build_signature_header :: "fed_externals \<Rightarrow> out_request \<Rightarrow> string \<Rightarrow> string \<Rightarrow> string result" where
  "build_signature_header fx req kid private_pkcs8_b64 =
     and_then (ok_or (BadRequest ''Destination URL missing host'') (url_host (or_url req))) (\<lambda>host.
     and_then (ok_or (BadRequest ''Missing date header'') (or_headers req ''date'')) (\<lambda>date.
     and_then (ok_or (BadRequest ''Missing digest header'') (or_headers req ''digest'')) (\<lambda>digest.
     and_then (sign_canonical fx private_pkcs8_b64
        (signing_text (or_method req) (out_target (or_url req)) host date digest)) (\<lambda>sig_b64.
     Inr (signature_text kid sig_b64)))))"

section \<open>Keys of remote actors\<close>

record cached_public_key =
  ck_public_key_pem :: string
  ck_fetched_at_ts :: int

type_synonym key_cache = "string \<rightharpoonup> cached_public_key"

text \<open>The answer to a GET: a transport error, or a status and the body read as JSON.\<close>

type_synonym actor_fetch = "string + nat \<times> (string + json)"

definition actor_document_key :: "json \<Rightarrow> string option" where
  "actor_document_key body = Option.bind (json_get ''publicKey'' body) (json_str_at ''publicKeyPem'')"

definition fetch_actor_public_key ::
  "actor_fetch \<Rightarrow> string \<Rightarrow> config \<Rightarrow> bool \<Rightarrow> instant \<Rightarrow> key_cache \<Rightarrow> string result \<times> key_cache" where
  "fetch_actor_public_key get actor cf force_refresh now cache =
    (let fetch =
       (case get of
          Inl e \<Rightarrow> (Inl (Internal (''Failed to fetch actor document: '' @ e)), cache)
        | Inr (status, body) \<Rightarrow>
           if \<not> is_success status then (Inl Unauthorized, cache)
           else (case body of
               Inl e \<Rightarrow> (Inl (Internal (''Invalid actor JSON: '' @ e)), cache)
             | Inr body \<Rightarrow>
                (case actor_document_key body of
                   None \<Rightarrow> (Inl Unauthorized, cache)
                 | Some public_key \<Rightarrow>
                    (Inr public_key, cache(actor \<mapsto>
                       \<lparr>ck_public_key_pem = public_key, ck_fetched_at_ts = timestamp now\<rparr>)))))
     in if force_refresh then fetch
        else (case cache actor of
            Some cached \<Rightarrow>
              if timestamp now - ck_fetched_at_ts cached \<le> cf_federation_key_cache_ttl_secs cf
              then (Inr (ck_public_key_pem cached), cache) else fetch
          | None \<Rightarrow> fetch))"

section \<open>Keys of local actors and discovery\<close>

text \<open>\<open>generated\<close> is the drawn PKCS\#8 document, \<open>None\<close> when the generator fails.\<close>

definition ensure_actor_key_material ::
  "fed_externals \<Rightarrow> config \<Rightarrow> string \<Rightarrow> uuid \<Rightarrow> string option \<Rightarrow> instant \<Rightarrow> db \<Rightarrow>
     (federation_actor_key \<times> db) result" where
  "ensure_actor_key_material fx cf username fresh_id generated now db =
    (case get_actor_key db username of
       Some found \<Rightarrow> Inr (found, db)
     | None \<Rightarrow>
         and_then (ok_or (Internal ''Failed to generate Ed25519 keypair'') generated) (\<lambda>pkcs8.
         and_then (ok_or (Internal ''Failed to parse generated keypair'') (fx_public_key fx pkcs8)) (\<lambda>pub.
         ensure_actor_key fresh_id username (key_id (cf_instance_domain cf) username)
           (encode_raw_pem fx ''PUBLIC KEY'' pub) (fx_base64 fx pkcs8) now db)))"

definition webfinger :: "config \<Rightarrow> db \<Rightarrow> string \<Rightarrow> json result" where
  "webfinger cf db resource =
     and_then (parse_resource resource (cf_instance_domain cf)) (\<lambda>username.
     and_then (guard_err (local_user_exists db username) NotFound) (\<lambda>_.
     Inr (JObj [
       (''links'', JArr [JObj [(''href'', JStr (actor_url (cf_instance_domain cf) username)),
          (''rel'', JStr ''self''), (''type'', JStr ''application/activity+json'')]]),
       (''subject'', JStr (''acct:'' @ username @ ''@'' @ cf_instance_domain cf))])))"

definition actor_profile ::
  "fed_externals \<Rightarrow> config \<Rightarrow> string \<Rightarrow> uuid \<Rightarrow> string option \<Rightarrow> instant \<Rightarrow> db \<Rightarrow> (json \<times> db) result" where
  "actor_profile fx cf path_username fresh_id generated now db =
    (let username = to_lowercase path_username
     in and_then (guard_err (local_user_exists db username) NotFound) (\<lambda>_.
        and_then (ensure_actor_key_material fx cf username fresh_id generated now db) (\<lambda>(key, db).
        let i = actor_url (cf_instance_domain cf) username
        in Inr (JObj [
          (''@context'', JArr [JStr ''https://www.w3.org/ns/activitystreams'',
              JStr ''https://w3id.org/security/v1'']),
          (''id'', JStr i), (''inbox'', JStr (i @ ''/inbox'')), (''outbox'', JStr (i @ ''/outbox'')),
          (''preferredUsername'', JStr username),
          (''publicKey'', JObj [(''id'', JStr (fak_key_id key)), (''owner'', JStr i),
              (''publicKeyPem'', JStr (fak_public_key_pem key))]),
          (''type'', JStr ''Person'')], db))))"

definition outbox :: "db \<Rightarrow> string \<Rightarrow> nat \<times> federation_delivery list" where
  "outbox db path_username =
    (let items = list_outbox_deliveries db (to_lowercase path_username) 100
     in (length items, items))"

section \<open>The inbox\<close>

definition digest_header :: "fed_externals \<Rightarrow> string \<Rightarrow> string" where
  "digest_header fx body = ''SHA-256='' @ fx_base64 fx (fx_sha256 fx body)"

text \<open>
  The checks before the key is fetched: size, recipient, digest, date, signature header, domain.
  The result is the username, the fields of the signature, the actor and the signed text.
\<close>

definition inbox_checks ::
  "fed_externals \<Rightarrow> config \<Rightarrow> http_request \<Rightarrow> string \<Rightarrow> instant \<Rightarrow> db \<Rightarrow>
     (string \<times> signature_fields \<times> string \<times> string) result" where
  "inbox_checks fx cf req path_username now db =
     and_then (guard_err (length (hr_body req) \<le> max_payload_bytes) (BadRequest ''Payload too large'')) (\<lambda>_.
     let username = to_lowercase path_username in
     and_then (guard_err (local_user_exists db username) NotFound) (\<lambda>_.
     and_then (header_text (hr_headers req) ''digest'' ''Missing Digest header'' ''Invalid Digest header'')
       (\<lambda>digest.
     and_then (guard_err (digest = digest_header fx (hr_body req)) Unauthorized) (\<lambda>_.
     and_then (header_text (hr_headers req) ''date'' ''Missing Date header'' ''Invalid Date header'')
       (\<lambda>date.
     and_then (parse_rfc2822_timestamp (fx_parse_date fx) date) (\<lambda>request_ts.
     and_then (validate_replay_window request_ts (timestamp now) (cf_federation_signature_window_secs cf))
       (\<lambda>_.
     and_then (header_text (hr_headers req) ''signature'' ''Missing Signature header''
        ''Invalid Signature header'') (\<lambda>sig.
     and_then (parse_signature_header sig) (\<lambda>sig_fields.
     and_then (parse_key_id_actor_url (sf_key_id sig_fields)) (\<lambda>actor.
     and_then (ensure_remote_domain_allowed (fx_parse_url fx) actor (cf_federation_denylist cf)) (\<lambda>_.
     and_then (canonicalize_signed_string req (sf_headers sig_fields)) (\<lambda>canonical.
     Inr (username, sig_fields, actor, canonical)))))))))))))"

text \<open>
  The signature, first with the key at hand (cached or fetched), then once more with a key that
  is fetched again. \<open>get False\<close> and \<open>get True\<close> are the answers to the two fetches.
\<close>

definition verify_with_refresh ::
  "fed_externals \<Rightarrow> (bool \<Rightarrow> string \<Rightarrow> actor_fetch) \<Rightarrow> config \<Rightarrow> string \<Rightarrow> string \<Rightarrow> string \<Rightarrow> instant \<Rightarrow>
     key_cache \<Rightarrow> unit result \<times> key_cache" where
  "verify_with_refresh fx get cf actor canonical sig_b64 now cache =
    (case fetch_actor_public_key (get False actor) actor cf False now cache of
       (Inl e, cache) \<Rightarrow> (Inl e, cache)
     | (Inr public_key_pem, cache) \<Rightarrow>
        (case verify_signature fx public_key_pem canonical sig_b64 of
           Inr _ \<Rightarrow> (Inr (), cache)
         | Inl _ \<Rightarrow>
            (case fetch_actor_public_key (get True actor) actor cf True now (cache(actor := None)) of
               (Inl e, cache) \<Rightarrow> (Inl e, cache)
             | (Inr refreshed_key, cache) \<Rightarrow>
                 (verify_signature fx refreshed_key canonical sig_b64, cache))))"

text \<open>What the payload must say: its id, type and actor, the actor being the signer.\<close>

definition inbox_activity :: "fed_externals \<Rightarrow> string \<Rightarrow> string \<Rightarrow> (json \<times> string \<times> string \<times> string) result" where
  "inbox_activity fx body actor =
    (case fx_parse_json fx body of
       Inl e \<Rightarrow> Inl (BadRequest (''Invalid JSON body: '' @ e))
     | Inr payload \<Rightarrow>
         and_then (validate_activity_shape payload) (\<lambda>_.
         and_then (ensure_activity_id payload) (\<lambda>activity_id.
         and_then (ensure_activity_type payload) (\<lambda>activity_type.
         and_then (ensure_activity_actor payload) (\<lambda>activity_actor.
         and_then (ensure_local_actor_alignment activity_actor actor) (\<lambda>_.
         Inr (payload, activity_id, activity_type, activity_actor)))))))"

datatype inbox_response = Accepted string | Duplicate string

text \<open>The part of the handler that changes the database, for a verified activity.\<close>

definition inbox_apply ::
  "externals \<Rightarrow> fed_externals \<Rightarrow> uuid \<times> uuid \<times> uuid \<times> uuid \<Rightarrow> string \<Rightarrow> json \<times> string \<times> string \<times> string \<Rightarrow>
     instant \<Rightarrow> db \<Rightarrow> inbox_response result \<times> effect list \<times> db" where
  "inbox_apply ex fx fresh username = (\<lambda>(payload, activity_id, activity_type, activity_actor) now db.
    (case record_inbox_activity (fst fresh) activity_id activity_actor username activity_type payload now db of
       Inl e \<Rightarrow> (Inl e, [], db)
     | Inr (False, db) \<Rightarrow> (Inr (Duplicate activity_id), [], db)
     | Inr (True, db) \<Rightarrow>
        if activity_type = ''Create''
        then (case map_create_note_to_local_message (ex_sha256_hex ex) (fx_parse_url fx) (snd fresh)
                activity_id activity_actor username payload now db of
            (Inl e, db) \<Rightarrow> (Inl e, [], db)
          | (Inr None, db) \<Rightarrow> (Inr (Accepted activity_id), [], db)
          | (Inr (Some m), db) \<Rightarrow>
              (Inr (Accepted activity_id),
               [Publish (user_channel (ex_show_uuid ex) (m_recipient_id m)) (NewMessage m),
                PushMessage (m_recipient_id m) (m_sender_id m) (m_id m) (m_content m)], db))
        else (Inr (Accepted activity_id), [], db)))"

definition inbox ::
  "externals \<Rightarrow> fed_externals \<Rightarrow> (bool \<Rightarrow> string \<Rightarrow> actor_fetch) \<Rightarrow> config \<Rightarrow> http_request \<Rightarrow> string \<Rightarrow>
     uuid \<times> uuid \<times> uuid \<times> uuid \<Rightarrow> instant \<Rightarrow> key_cache \<times> db \<Rightarrow>
     inbox_response result \<times> effect list \<times> key_cache \<times> db" where
  "inbox ex fx get cf req path_username fresh now = (\<lambda>(cache, db).
    (case inbox_checks fx cf req path_username now db of
       Inl e \<Rightarrow> (Inl e, [], cache, db)
     | Inr (username, sig_fields, actor, canonical) \<Rightarrow>
        (case verify_with_refresh fx get cf actor canonical (sf_signature sig_fields) now cache of
           (Inl e, cache) \<Rightarrow> (Inl e, [], cache, db)
         | (Inr _, cache) \<Rightarrow>
            (case inbox_activity fx (hr_body req) actor of
               Inl e \<Rightarrow> (Inl e, [], cache, db)
             | Inr activity \<Rightarrow>
                (case inbox_apply ex fx fresh username activity now db of
                   (r, effects, db) \<Rightarrow> (r, effects, cache, db))))))"

section \<open>Outgoing deliveries\<close>

text \<open>\<open>post\<close> answers a request with a transport error or a status.\<close>

definition post_activity_signed ::
  "fed_externals \<Rightarrow> (out_request \<Rightarrow> string + nat) \<Rightarrow> string \<Rightarrow> string \<Rightarrow> string \<Rightarrow> string \<Rightarrow> instant \<Rightarrow> nat result" where
  "post_activity_signed fx post destination kid private_pkcs8_b64 payload_bytes now =
    (case fx_build_post fx destination of
       Inl e \<Rightarrow> Inl (Internal (''Failed to build outbound request: '' @ e))
     | Inr u \<Rightarrow>
         let req = \<lparr>or_method = ''POST'', or_url = u,
               or_headers = [''accept'' \<mapsto> ''application/activity+json'',
                 ''content-type'' \<mapsto> ''application/activity+json'', ''date'' \<mapsto> fx_show_date fx now,
                 ''digest'' \<mapsto> digest_header fx payload_bytes],
               or_body = payload_bytes\<rparr>
         in and_then (build_signature_header fx req kid private_pkcs8_b64) (\<lambda>sig.
            (case fx_header_value fx sig of
               Some e \<Rightarrow> Inl (BadRequest (''Invalid signature header value: '' @ e))
             | None \<Rightarrow>
                (case post (req\<lparr>or_headers := (or_headers req)(''signature'' \<mapsto> sig)\<rparr>) of
                   Inl e \<Rightarrow> Inl (Internal (''Outbound federation call failed: '' @ e))
                 | Inr status \<Rightarrow> Inr status))))"

definition activity_id_of :: "string \<Rightarrow> string \<Rightarrow> string \<Rightarrow> string" where
  "activity_id_of domain username token = actor_url domain username @ ''/activities/'' @ token"

definition create_activity :: "string \<Rightarrow> string \<Rightarrow> string \<Rightarrow> string \<Rightarrow> string \<Rightarrow> string list \<Rightarrow> json" where
  "create_activity domain username activity_id object_token content destinations =
     JObj [(''@context'', JStr ''https://www.w3.org/ns/activitystreams''),
       (''actor'', JStr (actor_url domain username)), (''id'', JStr activity_id),
       (''object'', JObj [(''content'', JStr content),
          (''id'', JStr (actor_url domain username @ ''/objects/'' @ object_token)),
          (''type'', JStr ''Note'')]),
       (''to'', JArr (map JStr destinations)), (''type'', JStr ''Create'')]"

record delivery_result =
  dr_destination :: string
  dr_status :: string
  dr_attempts :: int
  dr_detail :: "string option"

definition username_of :: "db \<Rightarrow> uuid \<Rightarrow> string result" where
  "username_of db k = ok_or (Database RowNotFound) (map_option u_username (find_user db k))"

definition max_attempts_for :: "config \<Rightarrow> nat \<Rightarrow> int" where
  "max_attempts_for cf status =
     (if permanent_failure_reason status \<noteq> None then 1 else cf_federation_max_delivery_attempts cf)"

text \<open>One round of the loop of \<open>send_to_remote\<close>.\<close>

definition send_one ::
  "fed_externals \<Rightarrow> (app_error \<Rightarrow> string) \<Rightarrow> (out_request \<Rightarrow> string + nat) \<Rightarrow> config \<Rightarrow> federation_actor_key \<Rightarrow>
     string \<Rightarrow> string \<Rightarrow> string \<Rightarrow> string \<Rightarrow> uuid \<Rightarrow> instant \<Rightarrow> db \<Rightarrow> delivery_result result \<times> db" where
  "send_one fx cause post cf key activity_id sender_username payload_bytes destination fresh_id now db =
    (case upsert_delivery_pending fresh_id activity_id sender_username destination now db of
       Inl e \<Rightarrow> (Inl e, db)
     | Inr (delivery, db) \<Rightarrow>
        (case post_activity_signed fx post destination (fak_key_id key) (fak_private_key_pkcs8 key)
            payload_bytes now of
           Inr status \<Rightarrow>
             if is_success status
             then (case mark_delivery_success (fd_id delivery) now db of
                 Inl e \<Rightarrow> (Inl e, db)
               | Inr db \<Rightarrow> (Inr \<lparr>dr_destination = destination, dr_status = ''delivered'',
                    dr_attempts = wrap_i32 (fd_attempts delivery + 1), dr_detail = None\<rparr>, db))
             else
               (let permanent = (permanent_failure_reason status \<noteq> None);
                    detail = ''remote status '' @ show_nat status
                in case mark_delivery_failure (fd_id delivery) detail (max_attempts_for cf status) now db of
                     Inl e \<Rightarrow> (Inl e, db)
                   | Inr db \<Rightarrow> (Inr \<lparr>dr_destination = destination,
                        dr_status = (if permanent then ''dead_letter'' else ''failed''),
                        dr_attempts = wrap_i32 (fd_attempts delivery + 1), dr_detail = Some detail\<rparr>, db))
         | Inl err \<Rightarrow>
             (let detail = ''transport error: '' @ display_error cause err
              in case mark_delivery_failure (fd_id delivery) detail
                     (cf_federation_max_delivery_attempts cf) now db of
                   Inl e \<Rightarrow> (Inl e, db)
                 | Inr db \<Rightarrow> (Inr \<lparr>dr_destination = destination, dr_status = ''failed'',
                      dr_attempts = wrap_i32 (fd_attempts delivery + 1), dr_detail = Some detail\<rparr>, db))))"

text \<open>The loop; a round has its own new id and its own answer of the network.\<close>

fun send_loop ::
  "(string \<Rightarrow> uuid \<times> (out_request \<Rightarrow> string + nat) \<Rightarrow> db \<Rightarrow> delivery_result result \<times> db) \<Rightarrow>
     (string \<times> uuid \<times> (out_request \<Rightarrow> string + nat)) list \<Rightarrow> db \<Rightarrow> delivery_result list result \<times> db" where
  "send_loop f [] db = (Inr [], db)"
| "send_loop f ((d, r) # rest) db =
    (case f d r db of
       (Inl e, db) \<Rightarrow> (Inl e, db)
     | (Inr x, db) \<Rightarrow>
        (case send_loop f rest db of (Inl e, db) \<Rightarrow> (Inl e, db) | (Inr xs, db) \<Rightarrow> (Inr (x # xs), db)))"

text \<open>
  The random values of a call: the id and the PKCS\#8 document of a new key, the tokens of the
  activity and of its object, and for each destination the id of the delivery and the network.
\<close>

record send_fresh =
  sd_key_id :: uuid
  sd_generated :: "string option"
  sd_activity_token :: string
  sd_object_token :: string
  sd_round :: "nat \<Rightarrow> uuid \<times> (out_request \<Rightarrow> string + nat)"

definition send_to_remote ::
  "externals \<Rightarrow> fed_externals \<Rightarrow> (app_error \<Rightarrow> string) \<Rightarrow> config \<Rightarrow> claims \<Rightarrow> string list \<Rightarrow> string \<Rightarrow>
     send_fresh \<Rightarrow> instant \<Rightarrow> db \<Rightarrow> (string \<times> delivery_result list) result \<times> db" where
  "send_to_remote ex fx cause cf auth to_inboxes content fresh now db =
    (if to_inboxes = [] then (Inl (BadRequest ''to_inboxes cannot be empty''), db)
     else if trim content = [] then (Inl (BadRequest ''content cannot be empty''), db)
     else
       case and_then (claims_user_id ex auth) (\<lambda>sender_id.
            and_then (username_of db sender_id) (\<lambda>sender_username.
            and_then (ensure_actor_key_material fx cf sender_username (sd_key_id fresh) (sd_generated fresh) now db)
              (\<lambda>(key, db). Inr (sender_username, key, db)))) of
         Inl e \<Rightarrow> (Inl e, db)
       | Inr (sender_username, key, db) \<Rightarrow>
           let domain = cf_instance_domain cf;
               activity_id = activity_id_of domain sender_username (sd_activity_token fresh);
               payload = create_activity domain sender_username activity_id (sd_object_token fresh)
                  content to_inboxes
           in case send_loop (\<lambda>destination (fresh_id, post). send_one fx cause post cf key activity_id
                      sender_username (fx_show_json fx payload) destination fresh_id now)
                   (zip to_inboxes (map (sd_round fresh) [0..<length to_inboxes])) db of
                (Inl e, db) \<Rightarrow> (Inl e, db)
              | (Inr results, db) \<Rightarrow> (Inr (activity_id, results), db))"

definition deliver_direct_message_to_remote ::
  "fed_externals \<Rightarrow> (app_error \<Rightarrow> string) \<Rightarrow> config \<Rightarrow> uuid \<Rightarrow> string \<Rightarrow> string \<Rightarrow> string \<Rightarrow>
     send_fresh \<Rightarrow> instant \<Rightarrow> db \<Rightarrow> unit result \<times> db" where
  "deliver_direct_message_to_remote fx cause cf sender_id recipient_id recipient_server_url content
     fresh now db =
    (case and_then (username_of db sender_id) (\<lambda>sender_username.
          and_then (ensure_actor_key_material fx cf sender_username (sd_key_id fresh) (sd_generated fresh) now db)
            (\<lambda>(key, db). Inr (sender_username, key, db))) of
       Inl e \<Rightarrow> (Inl e, db)
     | Inr (sender_username, key, db) \<Rightarrow>
        (case build_remote_inbox_url fx recipient_server_url recipient_id of
           Inl e \<Rightarrow> (Inl e, db)
         | Inr destination \<Rightarrow>
            let domain = cf_instance_domain cf;
                activity_id = activity_id_of domain sender_username (sd_activity_token fresh);
                payload = create_activity domain sender_username activity_id (sd_object_token fresh)
                  content [destination];
                (fresh_id, post) = sd_round fresh 0
            in case upsert_delivery_pending fresh_id activity_id sender_username destination now db of
                 Inl e \<Rightarrow> (Inl e, db)
               | Inr (delivery, db) \<Rightarrow>
                  (case post_activity_signed fx post destination (fak_key_id key)
                      (fak_private_key_pkcs8 key) (fx_show_json fx payload) now of
                     Inr status \<Rightarrow>
                       if is_success status
                       then (case mark_delivery_success (fd_id delivery) now db of
                               Inl e \<Rightarrow> (Inl e, db) | Inr db \<Rightarrow> (Inr (), db))
                       else (case mark_delivery_failure (fd_id delivery)
                               (''remote status '' @ show_nat status) (max_attempts_for cf status) now db of
                               Inl e \<Rightarrow> (Inl e, db)
                             | Inr db \<Rightarrow> (Inl (BadRequest
                                 (''Remote server rejected message with status '' @ show_nat status)), db))
                   | Inl err \<Rightarrow>
                       (case mark_delivery_failure (fd_id delivery)
                           (''transport error: '' @ display_error cause err)
                           (cf_federation_max_delivery_attempts cf) now db of
                          Inl e \<Rightarrow> (Inl e, db) | Inr db \<Rightarrow> (Inl err, db)))))"

section \<open>Retries\<close>

fun retry_loop :: "config \<Rightarrow> instant \<Rightarrow> federation_delivery list \<Rightarrow> nat \<Rightarrow> db \<Rightarrow> nat result \<times> db" where
  "retry_loop cf now [] retried db = (Inr retried, db)"
| "retry_loop cf now (d # due) retried db =
    (case get_actor_key db (fd_sender_username d) of
       None \<Rightarrow>
         (case mark_delivery_failure (fd_id d) ''missing local actor key''
             (cf_federation_max_delivery_attempts cf) now db of
            Inl e \<Rightarrow> (Inl e, db) | Inr db \<Rightarrow> retry_loop cf now due retried db)
     | Some key \<Rightarrow>
         (case mark_delivery_failure (fd_id d) (''retry payload unavailable for '' @ fak_key_id key)
             (cf_federation_max_delivery_attempts cf) now db of
            Inl e \<Rightarrow> (Inl e, db) | Inr db \<Rightarrow> retry_loop cf now due (retried + 1) db))"

definition retry_due_deliveries :: "config \<Rightarrow> instant \<Rightarrow> db \<Rightarrow> nat result \<times> db" where
  "retry_due_deliveries cf now db = retry_loop cf now (deliveries_due_for_retry now db) 0 db"

end
