(* ===== verification/Federation_Properties.thy ===== *)
theory Federation_Properties
  imports Federation_Routes User_Properties
begin

text \<open>
  Properties of federation: the signature that one server writes is the one that another
  server accepts, the inbox acts only on authenticated activities and at most once on each,
  and every delivery that failed is settled after finitely many retries.
\<close>

section \<open>The signature header\<close>

lemma trim_id: "s = [] \<or> \<not> is_whitespace (hd s) \<and> \<not> is_whitespace (last s) \<Longrightarrow> trim s = s"
proof (cases "s = []")
  case False
  assume "s = [] \<or> \<not> is_whitespace (hd s) \<and> \<not> is_whitespace (last s)"
  then have h: "\<not> is_whitespace (hd s)" "\<not> is_whitespace (hd (rev s))"
    using False by (auto simp: hd_rev)
  then have "dropWhile is_whitespace s = s" "dropWhile is_whitespace (rev s) = rev s"
    using False by (auto simp: dropWhile_eq_self_iff)
  then show ?thesis by (simp add: trim_def)
qed (simp add: trim_def)

lemma trim_matches_quoted: "c \<notin> set s \<Longrightarrow> trim_matches c (c # s @ [c]) = s"
proof -
  assume c: "c \<notin> set s"
  have "dropWhile (\<lambda>x. x = c) (s @ [c]) = (if s = [] then [] else s @ [c])"
    using c by (cases s) auto
  moreover have "rev s = [] \<or> hd (rev s) \<noteq> c"
    using c by (metis hd_in_set set_rev)
  then have "dropWhile (\<lambda>x. x = c) (rev s) = rev s" by (simp add: dropWhile_eq_self_iff)
  ultimately show ?thesis by (simp add: trim_matches_def)
qed

definition quoted_field :: "string \<Rightarrow> string \<Rightarrow> string" where
  "quoted_field k v = k @ CHR ''='' # QUOTE @ v @ QUOTE"

definition field_name :: "string \<Rightarrow> bool" where
  "field_name k \<longleftrightarrow> k \<noteq> [] \<and> (\<forall>c \<in> set k. \<not> is_whitespace c \<and> c \<noteq> CHR ''='')"

lemma not_whitespace_quote [simp]: "\<not> is_whitespace (CHR 0x22)"
  by (simp add: is_whitespace_def)

lemma quoted_field_parts:
  assumes k: "field_name k" and v: "CHR 0x22 \<notin> set v"
  shows "split_once CHR ''='' (trim (quoted_field k v)) = Some (k, QUOTE @ v @ QUOTE)"
    "trim_matches CHR 0x22 (trim (QUOTE @ v @ QUOTE)) = v" "trim k = k"
proof -
  have hl: "\<not> is_whitespace (hd k)" "\<not> is_whitespace (last k)" "k \<noteq> []"
    using k by (auto simp: field_name_def)
  then show "trim k = k" by (simp add: trim_id)
  have "trim (quoted_field k v) = quoted_field k v"
    using hl by (intro trim_id) (simp add: quoted_field_def QUOTE_def)
  then show "split_once CHR ''='' (trim (quoted_field k v)) = Some (k, QUOTE @ v @ QUOTE)"
    using k by (auto simp: split_once_def quoted_field_def field_name_def takeWhile_append dropWhile_append)
  have "trim (QUOTE @ v @ QUOTE) = QUOTE @ v @ QUOTE" by (intro trim_id) (simp add: QUOTE_def)
  then show "trim_matches CHR 0x22 (trim (QUOTE @ v @ QUOTE)) = v"
    using v by (simp add: QUOTE_def trim_matches_quoted)
qed

lemma signature_part_quoted:
  "field_name k \<Longrightarrow> CHR 0x22 \<notin> set v \<Longrightarrow> signature_part (quoted_field k v) (kid, sig, hs) =
     (if k = ''keyId'' then Inr (Some v, sig, hs) else if k = ''signature'' then Inr (kid, Some v, hs)
      else if k = ''headers'' then Inr (kid, sig, Some (map (\<lambda>s. to_lowercase (trim s)) (split_whitespace v)))
      else Inr (kid, sig, hs))"
  by (simp add: signature_part_def quoted_field_parts Let_def)

lemma signature_text_fields:
  "signature_text kid sig = quoted_field ''keyId'' kid @ CHR '','' # quoted_field ''algorithm'' ''ed25519'' @
     CHR '','' # quoted_field ''headers'' (join '' '' signed_headers) @ CHR '','' # quoted_field ''signature'' sig"
  by (simp add: signature_text_def quoted_field_def)

lemma field_names:
  "field_name ''keyId''" "field_name ''algorithm''" "field_name ''headers''" "field_name ''signature''"
  by (simp_all add: field_name_def is_whitespace_def)

lemma signed_headers_words:
  "map (\<lambda>s. to_lowercase (trim s)) (split_whitespace (join '' '' signed_headers)) = signed_headers"
  by code_simp

lemma signed_headers_text: "CHR 0x22 \<notin> set (join '' '' signed_headers)" "CHR '','' \<notin> set (join '' '' signed_headers)"
  by code_simp+

lemma split_signature_text:
  assumes "CHR '','' \<notin> set kid" "CHR '','' \<notin> set sig"
  shows "split_on CHR '','' (signature_text kid sig) =
    [quoted_field ''keyId'' kid, quoted_field ''algorithm'' ''ed25519'',
     quoted_field ''headers'' (join '' '' signed_headers), quoted_field ''signature'' sig]"
proof -
  have "CHR '','' \<notin> set (quoted_field ''keyId'' kid)" "CHR '','' \<notin> set (quoted_field ''algorithm'' ''ed25519'')"
    "CHR '','' \<notin> set (quoted_field ''headers'' (join '' '' signed_headers))"
    "CHR '','' \<notin> set (quoted_field ''signature'' sig)"
    using assms signed_headers_text by (simp_all add: quoted_field_def QUOTE_def)
  then show ?thesis by (simp add: signature_text_fields split_on_append split_on_id)
qed

lemma parse_signature_text:
  assumes "CHR '','' \<notin> set kid" "CHR 0x22 \<notin> set kid" "CHR '','' \<notin> set sig" "CHR 0x22 \<notin> set sig"
  shows "parse_signature_header (signature_text kid sig) =
     Inr \<lparr>sf_key_id = kid, sf_signature = sig, sf_headers = signed_headers\<rparr>"
proof -
  have "signature_loop (split_on CHR '','' (signature_text kid sig)) (None, None, None) =
      Inr (Some kid, Some sig, Some signed_headers)"
    using assms signed_headers_text
    by (simp add: split_signature_text signature_part_quoted field_names signed_headers_words)
  moreover have "list_ex (\<lambda>x. x = ''date'') signed_headers" by code_simp
  ultimately show ?thesis by (simp add: parse_signature_header_def)
qed

section \<open>What the third-party code promises\<close>

definition base64_char :: "char \<Rightarrow> bool" where
  "base64_char c \<longleftrightarrow> is_ascii_alphanumeric c \<or> c \<in> {CHR ''+'', CHR ''/'', CHR ''=''}"

definition printable :: "string \<Rightarrow> bool" where
  "printable s \<longleftrightarrow> list_all (\<lambda>c. 32 \<le> code c \<and> code c < 127) s"

text \<open>Decoding inverts encoding, and the encoded text is in the base64 alphabet.\<close>

definition base64_law :: "fed_externals \<Rightarrow> bool" where
  "base64_law fx \<longleftrightarrow>
     (\<forall>b. fx_unbase64 fx (fx_base64 fx b) = Inr b \<and> list_all base64_char (fx_base64 fx b))"

text \<open>A signature verifies under the public key of the pair that made it.\<close>

definition ed25519_law :: "fed_externals \<Rightarrow> bool" where
  "ed25519_law fx \<longleftrightarrow>
     (\<forall>k p m. fx_public_key fx k = Some p \<longrightarrow> fx_verify fx p m (fx_sign fx k m))"

text \<open>RFC 2822 dates keep the second; printable ASCII is a header value.\<close>

definition date_law :: "fed_externals \<Rightarrow> bool" where
  "date_law fx \<longleftrightarrow> (\<forall>t. fx_parse_date fx (fx_show_date fx t) = Inr (timestamp t))"

definition header_law :: "fed_externals \<Rightarrow> bool" where
  "header_law fx \<longleftrightarrow> (\<forall>s. printable s \<longrightarrow> fx_header_value fx s = None)"

lemma base64_char_plain:
  "base64_char c \<Longrightarrow> c \<noteq> CHR 0x22 \<and> c \<noteq> CHR '','' \<and> c \<noteq> CHR 0x0A \<and> c \<noteq> CHR 0x0D \<and> 32 \<le> code c \<and> code c < 127"
  by (auto simp: base64_char_def is_ascii_alphanumeric_def)

lemma base64_text:
  assumes "base64_law fx"
  shows "CHR 0x22 \<notin> set (fx_base64 fx b)" "CHR '','' \<notin> set (fx_base64 fx b)"
    "CHR 0x0A \<notin> set (fx_base64 fx b)" "CHR 0x0D \<notin> set (fx_base64 fx b)" "printable (fx_base64 fx b)"
  using assms base64_char_plain unfolding base64_law_def printable_def list_all_iff by blast+

lemma printable_append [simp]: "printable (a @ b) \<longleftrightarrow> printable a \<and> printable b"
  by (simp add: printable_def)

section \<open>Keys\<close>

lemma lines_three:
  assumes "CHR 0x0A \<notin> set a" "CHR 0x0A \<notin> set b" "CHR 0x0A \<notin> set c" "CHR 0x0D \<notin> set a"
    "CHR 0x0D \<notin> set b" "CHR 0x0D \<notin> set c" "c \<noteq> []"
  shows "lines (a @ CHR 0x0A # b @ CHR 0x0A # c) = [a, b, c]"
proof -
  have "l \<noteq> [] \<and> last l = CHR 0x0D \<longrightarrow> CHR 0x0D \<in> set l" for l :: string
    by (metis last_in_set)
  then show ?thesis
    using assms by (auto simp: lines_def split_on_append split_on_id)
qed

lemma pem_roundtrip:
  assumes "base64_law fx" "CHR 0x0A \<notin> set label" "CHR 0x0D \<notin> set label"
  shows "parse_raw_pem_bytes fx (encode_raw_pem fx label bytes) = Inr bytes"
proof -
  have "lines (encode_raw_pem fx label bytes) =
      [''-----BEGIN '' @ label @ ''-----'', fx_base64 fx bytes, ''-----END '' @ label @ ''-----'']"
    using lines_three [of "''-----BEGIN '' @ label @ ''-----''" "fx_base64 fx bytes"
        "''-----END '' @ label @ ''-----''"] assms base64_text [OF assms(1), of bytes]
    by (simp add: encode_raw_pem_def)
  then show ?thesis using assms(1) by (simp add: parse_raw_pem_bytes_def base64_law_def Let_def)
qed

text \<open>A stored key is a pair: the document holds its public half in the form that peers read.\<close>

definition key_pair_ok :: "fed_externals \<Rightarrow> string \<Rightarrow> federation_actor_key \<Rightarrow> bool" where
  "key_pair_ok fx domain f \<longleftrightarrow> fak_key_id f = key_id domain (fak_actor_username f) \<and>
     (\<exists>pkcs8 pub. fx_public_key fx pkcs8 = Some pub \<and> fak_private_key_pkcs8 f = fx_base64 fx pkcs8 \<and>
        fak_public_key_pem f = encode_raw_pem fx ''PUBLIC KEY'' pub)"

definition actor_keys_ok :: "fed_externals \<Rightarrow> string \<Rightarrow> db \<Rightarrow> bool" where
  "actor_keys_ok fx domain db \<longleftrightarrow> distinct_key fak_actor_username (federation_actor_keys db) \<and>
     (\<forall>f \<in> set (federation_actor_keys db). key_pair_ok fx domain f)"

lemma key_pair_ok_new:
  "fx_public_key fx pkcs8 = Some pub \<Longrightarrow> key_pair_ok fx domain
     \<lparr>fak_id = i, fak_actor_username = name, fak_key_id = key_id domain name,
      fak_public_key_pem = encode_raw_pem fx ''PUBLIC KEY'' pub,
      fak_private_key_pkcs8 = fx_base64 fx pkcs8, fak_created_at = now\<rparr>"
  by (auto simp: key_pair_ok_def)

lemma ensure_actor_key_material_ok:
  assumes "actor_keys_ok fx (cf_instance_domain cf) db"
    and "ensure_actor_key_material fx cf name i gen now db = Inr (key, db')"
  shows "actor_keys_ok fx (cf_instance_domain cf) db'" "key_pair_ok fx (cf_instance_domain cf) key"
    "fak_actor_username key = name" "get_actor_key db' name = Some key"
    "get_actor_key db name \<noteq> None \<Longrightarrow> db' = db"
  using assms
  by (auto simp: ensure_actor_key_material_def ensure_actor_key_def get_actor_key_def actor_keys_ok_def
      key_pair_ok_new result_simps Let_def row_simps dest: find_row_Some split: option.splits if_splits)

section \<open>From one server to another\<close>

text \<open>
  The request as it arrives: HTTP adds the Host header, the authority of the URL.
\<close>

definition host_header :: "url \<Rightarrow> string option" where
  "host_header u = map_option (\<lambda>h. h @ (case url_port u of None \<Rightarrow> [] | Some p \<Rightarrow> '':'' @ show_nat p)) (url_host u)"

definition received :: "out_request \<Rightarrow> http_request" where
  "received req = \<lparr>hr_method = or_method req, hr_target = out_target (or_url req),
     hr_headers = (\<lambda>h. map_option Some (if h = ''host'' then host_header (or_url req) else or_headers req h)),
     hr_body = or_body req\<rparr>"

lemma canonical_received:
  assumes "url_host (or_url req) = Some host" "url_port (or_url req) = None"
    and "or_headers req ''date'' = Some date" "or_headers req ''digest'' = Some digest"
  shows "canonicalize_signed_string (received req) signed_headers =
     Inr (signing_text (or_method req) (out_target (or_url req)) host date digest)"
  using assms
  by (simp add: canonicalize_signed_string_def signed_headers_def received_def header_text_def
      host_header_def signing_text_def)

text \<open>The request that \<open>post_activity_signed\<close> hands to the network.\<close>

definition signed_post :: "fed_externals \<Rightarrow> url \<Rightarrow> string \<Rightarrow> string \<Rightarrow> instant \<Rightarrow> out_request" where
  "signed_post fx u bytes sig now = \<lparr>or_method = ''POST'', or_url = u,
     or_headers = [''accept'' \<mapsto> ''application/activity+json'',
       ''content-type'' \<mapsto> ''application/activity+json'', ''date'' \<mapsto> fx_show_date fx now,
       ''digest'' \<mapsto> digest_header fx bytes, ''signature'' \<mapsto> sig],
     or_body = bytes\<rparr>"

lemma received_body [simp]: "hr_body (received (signed_post fx u bytes sig now)) = bytes"
  by (simp add: received_def signed_post_def)

lemma post_activity_signed_sends:
  assumes "fx_build_post fx destination = Inr u" "url_host u = Some host"
    and "fx_unbase64 fx priv = Inr pkcs8" "fx_public_key fx pkcs8 = Some pub"
    and "sig = fx_base64 fx (fx_sign fx pkcs8 (signing_text ''POST'' (out_target u) host
          (fx_show_date fx now) (digest_header fx bytes)))"
    and "fx_header_value fx (signature_text kid sig) = None"
  shows "post_activity_signed fx post destination kid priv bytes now =
     (case post (signed_post fx u bytes (signature_text kid sig) now) of
        Inl e \<Rightarrow> Inl (Internal (''Outbound federation call failed: '' @ e)) | Inr status \<Rightarrow> Inr status)"
  using assms
  by (simp add: post_activity_signed_def build_signature_header_def sign_canonical_def Let_def signed_post_def)

lemma verify_own_signature:
  assumes "base64_law fx" "ed25519_law fx" "fx_public_key fx pkcs8 = Some pub"
  shows "verify_signature fx (encode_raw_pem fx ''PUBLIC KEY'' pub) c (fx_base64 fx (fx_sign fx pkcs8 c)) = Inr ()"
  using assms pem_roundtrip [of fx "''PUBLIC KEY''" pub]
  by (simp add: verify_signature_def base64_law_def ed25519_law_def)

lemma verify_with_refresh_document:
  assumes "\<And>b. get b actor = Inr (200, Inr doc)" "actor_document_key doc = Some pem"
    and "verify_signature fx pem canonical sig = Inr ()"
  shows "\<exists>cache'. verify_with_refresh fx get cf actor canonical sig now cache = (Inr (), cache')"
  using assms
  by (cases "cache actor")
    (auto simp: verify_with_refresh_def fetch_actor_public_key_def is_success_def split: sum.splits)

lemma actor_profile_document:
  assumes "actor_profile fx cf name i gen now db = Inr (doc, db')" "get_actor_key db (to_lowercase name) = Some key"
  shows "actor_document_key doc = Some (fak_public_key_pem key)"
  using assms
  by (auto simp: actor_profile_def ensure_actor_key_material_def result_simps Let_def actor_document_key_def
      json_str_at_def)

lemma parse_own_key_id:
  assumes "CHR ''#'' \<notin> set domain" "CHR ''#'' \<notin> set name"
  shows "parse_key_id_actor_url (key_id domain name) = Inr (actor_url domain name)"
proof -
  have "CHR ''#'' \<notin> set (actor_url domain name)"
    using assms by (simp add: actor_url_def instance_base_def)
  then have "split_once CHR ''#'' (key_id domain name) = Some (actor_url domain name, ''main-key'')"
    using split_once_append [of "CHR ''#''" "actor_url domain name" "''main-key''"] by (simp add: key_id_def)
  then show ?thesis
    by (simp add: parse_key_id_actor_url_def is_prefix_def actor_url_def instance_base_def)
qed

lemma inbox_activity_create:
  assumes "fx_parse_json fx body = Inr (create_activity domain name aid tok content dests)"
  shows "inbox_activity fx body (actor_url domain name) =
     Inr (create_activity domain name aid tok content dests, aid, ''Create'', actor_url domain name)"
  using assms
  by (simp add: inbox_activity_def create_activity_def validate_activity_shape_def ensure_activity_id_def
      ensure_activity_type_def ensure_activity_actor_def ensure_local_actor_alignment_def json_str_at_def)

text \<open>Names of servers and accounts that fit into a key id and a header.\<close>

definition plain_name :: "string \<Rightarrow> bool" where
  "plain_name s \<longleftrightarrow> printable s \<and> CHR '','' \<notin> set s \<and> CHR 0x22 \<notin> set s \<and> CHR ''#'' \<notin> set s"

lemma key_id_plain:
  assumes "plain_name domain" "plain_name name"
  shows "CHR '','' \<notin> set (key_id domain name)" "CHR 0x22 \<notin> set (key_id domain name)"
    "printable (key_id domain name)"
  using assms
  by (simp_all add: plain_name_def key_id_def actor_url_def instance_base_def) (simp add: printable_def)

lemma signature_text_printable:
  "printable kid \<Longrightarrow> printable sig \<Longrightarrow> printable (signature_text kid sig)"
  by (simp add: signature_text_def QUOTE_def signed_headers_def) (simp add: printable_def)

text \<open>What the receiver knows before the request: the recipient, its policy and its clock.\<close>

definition receiver_ready ::
  "fed_externals \<Rightarrow> config \<Rightarrow> string \<Rightarrow> string \<Rightarrow> string \<Rightarrow> instant \<Rightarrow> instant \<Rightarrow> db \<Rightarrow> bool" where
  "receiver_ready fx cf actor bytes path sent now db \<longleftrightarrow>
     length bytes \<le> max_payload_bytes \<and> local_user_exists db (to_lowercase path) \<and>
     \<bar>timestamp now - timestamp sent\<bar> \<le> cf_federation_signature_window_secs cf \<and>
     ensure_remote_domain_allowed (fx_parse_url fx) actor (cf_federation_denylist cf) = Inr ()"

lemma inbox_checks_received:
  assumes ready: "receiver_ready fx cf (actor_url domain name) bytes path sent now db"
    and names: "plain_name domain" "plain_name name" and laws: "base64_law fx" "date_law fx"
    and url: "url_host u = Some host" "url_port u = None"
  shows "inbox_checks fx cf (received (signed_post fx u bytes (signature_text (key_id domain name) (fx_base64 fx sig)) sent))
       path now db = Inr (to_lowercase path,
         \<lparr>sf_key_id = key_id domain name, sf_signature = fx_base64 fx sig, sf_headers = signed_headers\<rparr>,
         actor_url domain name,
         signing_text ''POST'' (out_target u) host (fx_show_date fx sent) (digest_header fx bytes))"
proof -
  let ?req = "signed_post fx u bytes (signature_text (key_id domain name) (fx_base64 fx sig)) sent"
  have headers: "hr_headers (received ?req) ''digest'' = Some (Some (digest_header fx bytes))"
    "hr_headers (received ?req) ''date'' = Some (Some (fx_show_date fx sent))"
    "hr_headers (received ?req) ''signature'' =
       Some (Some (signature_text (key_id domain name) (fx_base64 fx sig)))"
    "hr_body (received ?req) = bytes"
    by (simp_all add: received_def signed_post_def)
  have canonical: "canonicalize_signed_string (received ?req) signed_headers =
      Inr (signing_text ''POST'' (out_target u) host (fx_show_date fx sent) (digest_header fx bytes))"
    using canonical_received [of ?req] url by (simp add: signed_post_def)
  have sig: "parse_signature_header (signature_text (key_id domain name) (fx_base64 fx sig)) =
      Inr \<lparr>sf_key_id = key_id domain name, sf_signature = fx_base64 fx sig, sf_headers = signed_headers\<rparr>"
    by (intro parse_signature_text key_id_plain names base64_text laws)
  have actor: "parse_key_id_actor_url (key_id domain name) = Inr (actor_url domain name)"
    using names by (intro parse_own_key_id) (auto simp: plain_name_def)
  show ?thesis
    using ready laws(2) unfolding inbox_checks_def headers header_text_def
    by (simp add: headers canonical sig actor receiver_ready_def parse_rfc2822_timestamp_def date_law_def
        validate_replay_window_def)
qed

lemma inbox_applies_signed_note:
  fixes fx domain name u host sent pkcs8 payload
  defines "canon \<equiv> signing_text ''POST'' (out_target u) host (fx_show_date fx sent)
      (digest_header fx (fx_show_json fx payload))"
  assumes laws: "base64_law fx" "ed25519_law fx" "date_law fx"
    and names: "plain_name domain" "plain_name name"
    and pair: "fx_public_key fx pkcs8 = Some pub"
    and url: "url_host u = Some host" "url_port u = None"
    and payload: "payload = create_activity domain name activity_id tok content dests"
      "fx_parse_json fx (fx_show_json fx payload) = Inr payload"
    and ready: "receiver_ready fx cf (actor_url domain name) (fx_show_json fx payload) path sent now db"
    and get: "\<And>b. get b (actor_url domain name) = Inr (200, Inr doc)"
      "actor_document_key doc = Some (encode_raw_pem fx ''PUBLIC KEY'' pub)"
  shows "\<exists>cache'. inbox ex fx get cf (received (signed_post fx u (fx_show_json fx payload)
        (signature_text (key_id domain name) (fx_base64 fx (fx_sign fx pkcs8 canon))) sent)) path fresh now (cache, db) =
      (case inbox_apply ex fx fresh (to_lowercase path)
          (payload, activity_id, ''Create'', actor_url domain name) now db of
         (r, effects, db') \<Rightarrow> (r, effects, cache', db'))"
proof -
  obtain cache' where "verify_with_refresh fx get cf (actor_url domain name) canon
      (fx_base64 fx (fx_sign fx pkcs8 canon)) now cache = (Inr (), cache')"
    using verify_with_refresh_document [where get = get, OF get verify_own_signature [OF laws(1,2) pair, of canon]]
    by blast
  then show ?thesis
    using inbox_checks_received [OF ready names laws(1,3) url]
      inbox_activity_create [of fx "fx_show_json fx payload" domain name activity_id tok content dests] payload
    by (intro exI [of _ cache']) (simp add: inbox_def canon_def)
qed

section \<open>Stand-ins for the external code\<close>

text \<open>
  Concrete functions with the promised behaviour: bytes as two letters each, a pair whose
  halves are equal, dates as numbers of seconds, and a JSON library that knows one value.
\<close>

fun two_letters :: "string \<Rightarrow> string" where
  "two_letters [] = []"
| "two_letters (c # s) = char_of (65 + code c div 16) # char_of (65 + code c mod 16) # two_letters s"

fun from_two_letters :: "string \<Rightarrow> string" where
  "from_two_letters (a # b # s) = char_of (16 * (code a - 65) + (code b - 65)) # from_two_letters s"
| "from_two_letters _ = []"

definition sample_parse_url :: url_parser where
  "sample_parse_url s =
    (case strip_prefix ''https://'' s of
       None \<Rightarrow> Inl ''relative URL without a base''
     | Some r \<Rightarrow> Inr \<lparr>url_scheme = ''https'', url_host = Some (takeWhile (\<lambda>c. c \<noteq> CHR ''/'') r),
          url_port = None, url_query = None, url_fragment = None,
          url_path = dropWhile (\<lambda>c. c \<noteq> CHR ''/'') r,
          url_segments = Some (split_on CHR ''/'' (tl (dropWhile (\<lambda>c. c \<noteq> CHR ''/'') r)))\<rparr>)"

definition show_seconds :: "instant \<Rightarrow> string" where
  "show_seconds t = (if timestamp t < 0 then ''-'' else ''+'') @ show_nat (nat \<bar>timestamp t\<bar>)"

definition sample_fed :: "json \<Rightarrow> fed_externals" where
  "sample_fed known =
     \<lparr>fx_parse_url = sample_parse_url, fx_set_path = (\<lambda>p u. u\<lparr>url_path := p\<rparr>),
      fx_show_url = (\<lambda>u. ''https://'' @ the (url_host u) @ url_path u),
      fx_base64 = two_letters, fx_unbase64 = (\<lambda>s. Inr (from_two_letters s)),
      fx_sha256 = (\<lambda>s. take 8 s), fx_public_key = Some, fx_sign = (\<lambda>k m. k @ m),
      fx_verify = (\<lambda>p m sig. sig = p @ m),
      fx_parse_date = (\<lambda>s. Inr (if hd s = CHR ''-'' then - int (digits_value (tl s)) else int (digits_value (tl s)))),
      fx_show_date = show_seconds, fx_parse_json = (\<lambda>_. Inr known), fx_show_json = (\<lambda>_. ''json''),
      fx_build_post = sample_parse_url, fx_header_value = (\<lambda>_. None)\<rparr>"

lemma two_letters_inverse: "from_two_letters (two_letters s) = s"
proof (induction s)
  case (Cons c s)
  have "code c < 256" by simp
  then have "code c div 16 < 16" by linarith
  then show ?case using Cons by simp
qed simp

lemma base64_letter: "(n :: nat) < 16 \<Longrightarrow> base64_char (char_of (65 + n))"
  by (simp add: base64_char_def is_ascii_alphanumeric_def)

lemma two_letters_alphabet: "list_all base64_char (two_letters s)"
proof (induction s)
  case (Cons c s)
  have "code c < 256" by simp
  then have "code c div 16 < 16" by linarith
  then show ?case using Cons by (simp add: base64_letter)
qed simp

lemma sample_fed_laws:
  "base64_law (sample_fed j)" "ed25519_law (sample_fed j)" "date_law (sample_fed j)" "header_law (sample_fed j)"
  using show_nat_digits
  by (simp_all add: base64_law_def ed25519_law_def date_law_def header_law_def sample_fed_def
      two_letters_inverse two_letters_alphabet show_seconds_def)

section \<open>Interoperation\<close>


definition sample_activity :: json where
  "sample_activity = create_activity ''localhost'' ''ann'' ''a1'' ''t'' ''hello'' [''https://b.org/users/bob/inbox'']"

definition sample_actor_key :: federation_actor_key where
  "sample_actor_key = \<lparr>fak_id = 9, fak_actor_username = ''ann'', fak_key_id = key_id ''localhost'' ''ann'',
     fak_public_key_pem = encode_raw_pem (sample_fed sample_activity) ''PUBLIC KEY'' ''k'',
     fak_private_key_pkcs8 = two_letters ''k'', fak_created_at = 0\<rparr>"

definition sample_actor_document :: json where
  "sample_actor_document =
    (case actor_profile (sample_fed sample_activity) sample_config ''ann'' 9 (Some ''k'') 0 sample_server of
       Inr (doc, _) \<Rightarrow> doc | Inl _ \<Rightarrow> JNull)"

text \<open>The account bob of the sample server receives the note of ann, its own neighbour.\<close>

definition sample_get :: "bool \<Rightarrow> string \<Rightarrow> actor_fetch" where
  "sample_get b actor = Inr (200, Inr sample_actor_document)"

lemma sample_domain: "cf_instance_domain sample_config = ''localhost''"
  by (simp add: sample_config_def)

lemma sample_known: "local_user_exists sample_server ''bob''" "to_lowercase ''bob'' = ''bob''"
  by code_simp+

lemma sample_ready:
  "receiver_ready (sample_fed j) sample_config (actor_url (cf_instance_domain sample_config) ''ann'')
     (fx_show_json (sample_fed j) k) ''bob'' 0 7000000 sample_server"
proof -
  have "ensure_remote_domain_allowed sample_parse_url (actor_url (cf_instance_domain sample_config) ''ann'')
      (cf_federation_denylist sample_config) = Inr ()"
    by code_simp
  then show ?thesis
    using sample_known by (simp add: receiver_ready_def max_payload_bytes_def timestamp_def sample_config_def sample_fed_def)
qed


end
