(* ===== verification/Inbox_Properties.thy ===== *)
theory Inbox_Properties
  imports Federation_Properties
begin

text \<open>
  Properties of the federation inbox: what a request must carry before it changes anything,
  that an activity is applied at most once, and two limits of the code: a signature over the
  date alone is accepted for every body, and an activity whose note could not be stored is lost.
\<close>

section \<open>Authenticity\<close>

text \<open>
  Where a request finds the key: in the cache while it is fresh, or in an actor document fetched
  during the request. What the cache holds is the subject of \<open>cache_from\<close> below.
\<close>

definition actor_key_source ::
  "(bool \<Rightarrow> string \<Rightarrow> actor_fetch) \<Rightarrow> config \<Rightarrow> string \<Rightarrow> instant \<Rightarrow> key_cache \<Rightarrow> string \<Rightarrow> bool" where
  "actor_key_source get cf actor now cache pem \<longleftrightarrow>
     (\<exists>c. cache actor = Some c \<and> pem = ck_public_key_pem c \<and>
        timestamp now - ck_fetched_at_ts c \<le> cf_federation_key_cache_ttl_secs cf) \<or>
     (\<exists>b status doc. get b actor = Inr (status, Inr doc) \<and> is_success status \<and> actor_document_key doc = Some pem)"

lemma fetch_actor_public_key_source:
  assumes "fetch_actor_public_key (get b actor) actor cf force now cache = (Inr pem, cache')"
    and "force \<Longrightarrow> cache actor = None"
  shows "actor_key_source get cf actor now cache pem"
  using assms
  by (auto simp: fetch_actor_public_key_def actor_key_source_def Let_def
      split: sum.splits if_splits option.splits prod.splits)

lemma verify_with_refresh_sound:
  assumes "verify_with_refresh fx get cf actor canonical sig now cache = (Inr u, cache')"
  shows "\<exists>pem. actor_key_source get cf actor now cache pem \<and> verify_signature fx pem canonical sig = Inr ()"
proof -
  obtain pem c1 where fetch: "fetch_actor_public_key (get False actor) actor cf False now cache = (Inr pem, c1)"
    using assms by (auto simp: verify_with_refresh_def split: prod.splits sum.splits)
  show ?thesis
  proof (cases "verify_signature fx pem canonical sig")
    case (Inr u)
    then show ?thesis using fetch_actor_public_key_source [where get = get, OF fetch] by auto
  next
    case (Inl e)
    then obtain pem2 c2 where
      second: "fetch_actor_public_key (get True actor) actor cf True now (c1(actor := None)) = (Inr pem2, c2)"
      and ok: "verify_signature fx pem2 canonical sig = Inr ()"
      using assms fetch by (auto simp: verify_with_refresh_def split: prod.splits sum.splits)
    have "actor_key_source get cf actor now (c1(actor := None)) pem2"
      by (rule fetch_actor_public_key_source [where get = get, OF second]) simp
    then have "actor_key_source get cf actor now cache pem2" by (auto simp: actor_key_source_def)
    then show ?thesis using ok by blast
  qed
qed

lemma header_text_eq: "header_text hs h m i = Inr v \<longleftrightarrow> hs h = Some (Some v)"
  by (auto simp: header_text_def split: option.splits)

lemma parse_rfc2822_eq: "parse_rfc2822_timestamp p v = Inr t \<longleftrightarrow> p v = Inr t"
  by (auto simp: parse_rfc2822_timestamp_def split: sum.splits)

lemma inbox_checks_sound:
  assumes "inbox_checks fx cf req path now db = Inr (username, sf, actor, canonical)"
  shows "username = to_lowercase path" "local_user_exists db username"
    "length (hr_body req) \<le> max_payload_bytes"
    "hr_headers req ''digest'' = Some (Some (digest_header fx (hr_body req)))"
    "\<exists>date ts. hr_headers req ''date'' = Some (Some date) \<and> fx_parse_date fx date = Inr ts \<and>
       \<bar>timestamp now - ts\<bar> \<le> cf_federation_signature_window_secs cf"
    "\<exists>sig. hr_headers req ''signature'' = Some (Some sig) \<and> parse_signature_header sig = Inr sf"
    "parse_key_id_actor_url (sf_key_id sf) = Inr actor"
    "ensure_remote_domain_allowed (fx_parse_url fx) actor (cf_federation_denylist cf) = Inr ()"
    "canonicalize_signed_string req (sf_headers sf) = Inr canonical"
  using assms
  by (auto simp: inbox_checks_def result_simps header_text_eq Let_def validate_replay_window_def
      parse_rfc2822_eq)

lemma inbox_activity_sound:
  assumes "inbox_activity fx body actor = Inr (payload, aid, type, signer)"
  shows "fx_parse_json fx body = Inr payload" "signer = actor" "json_str_at ''actor'' payload = Some actor"
    "json_str_at ''id'' payload = Some aid" "json_str_at ''type'' payload = Some type"
    "type \<in> {''Create'', ''Follow'', ''Accept''}"
  using assms
  by (auto simp: inbox_activity_def result_simps validate_activity_shape_def ensure_activity_id_def
      ensure_activity_type_def ensure_activity_actor_def ensure_local_actor_alignment_def split: sum.splits)

text \<open>A request that passes the checks, the signature and the payload is applied; any other changes nothing.\<close>

lemma inbox_cases:
  assumes "inbox ex fx get cf req path fresh now (cache, db) = (r, effects, cache', db')"
  obtains (refused) e where "r = Inl e" "effects = []" "db' = db"
  | (applied) username sf actor canonical payload aid type where
      "inbox_checks fx cf req path now db = Inr (username, sf, actor, canonical)"
      "verify_with_refresh fx get cf actor canonical (sf_signature sf) now cache = (Inr (), cache')"
      "inbox_activity fx (hr_body req) actor = Inr (payload, aid, type, actor)"
      "inbox_apply ex fx fresh username (payload, aid, type, actor) now db = (r, effects, db')"
proof (cases "inbox_checks fx cf req path now db")
  case (Inl e)
  then show ?thesis using assms refused by (auto simp: inbox_def)
next
  case (Inr c)
  obtain username sf actor canonical where c: "c = (username, sf, actor, canonical)" by (cases c)
  obtain v c1 where v: "verify_with_refresh fx get cf actor canonical (sf_signature sf) now cache = (v, c1)"
    by force
  show ?thesis
  proof (cases v)
    case (Inl e)
    then show ?thesis using assms refused Inr c v by (auto simp: inbox_def)
  next
    case v': (Inr u)
    show ?thesis
    proof (cases "inbox_activity fx (hr_body req) actor")
      case (Inl e)
      then show ?thesis using assms refused Inr c v v' by (auto simp: inbox_def)
    next
      case act: (Inr a)
      obtain payload aid type signer where a: "a = (payload, aid, type, signer)" by (cases a)
      then have "signer = actor" using act inbox_activity_sound(2) by blast
      then show ?thesis
        using assms applied [of username sf actor canonical payload aid type] Inr c v v' act a
        by (auto simp: inbox_def split: prod.splits)
    qed
  qed
qed

text \<open>
  What the actors published: the keys in the actor documents that the fetches of a request would
  get, \<open>get\<close> being the web as this request meets it, with the address of the actor and the time. The
  cache lives in the process; only the inbox writes it, and a start of the process empties it. The
  runs carry the set of everything published to the server at the requests so far.
\<close>

type_synonym publications = "(string \<times> string \<times> instant) set"

definition published :: "(bool \<Rightarrow> string \<Rightarrow> actor_fetch) \<Rightarrow> instant \<Rightarrow> publications" where
  "published get now = {(actor, pem, t). t = now \<and>
     (\<exists>b status doc. get b actor = Inr (status, Inr doc) \<and> is_success status \<and> actor_document_key doc = Some pem)}"

inductive key_step :: "externals \<Rightarrow> fed_externals \<Rightarrow> config \<Rightarrow> publications \<times> key_cache \<Rightarrow> publications \<times> key_cache \<Rightarrow> bool"
  for ex fx cf where
  key_request: "inbox ex fx get cf req path fresh now (cache, db) = (r, effects, cache', db') \<Longrightarrow>
     key_step ex fx cf (L, cache) (L \<union> published get now, cache')"
| key_restart: "key_step ex fx cf (L, cache) (L, Map.empty)"

text \<open>Every cached key was published by the actor under whose address it is cached, at the recorded time.\<close>

definition cache_from :: "publications \<Rightarrow> key_cache \<Rightarrow> bool" where
  "cache_from L cache \<longleftrightarrow> (\<forall>actor k. cache actor = Some k \<longrightarrow>
     (\<exists>t. (actor, ck_public_key_pem k, t) \<in> L \<and> timestamp t = ck_fetched_at_ts k))"

lemma cache_from_mono: "cache_from L cache \<Longrightarrow> L \<subseteq> L' \<Longrightarrow> cache_from L' cache"
  unfolding cache_from_def by blast

lemma fetch_keeps_cache:
  assumes "fetch_actor_public_key (get b actor) actor cf force now cache = (r, cache')" "cache_from (L \<union> published get now) cache"
  shows "cache_from (L \<union> published get now) cache'"
proof -
  have "cache' = cache \<or> (\<exists>status doc pem. get b actor = Inr (status, Inr doc) \<and> is_success status \<and>
      actor_document_key doc = Some pem \<and>
      cache' = cache(actor \<mapsto> \<lparr>ck_public_key_pem = pem, ck_fetched_at_ts = timestamp now\<rparr>))"
    using assms(1) by (auto simp: fetch_actor_public_key_def Let_def split: sum.splits if_splits option.splits prod.splits)
  then show ?thesis
  proof (elim disjE exE conjE)
    fix status doc pem
    assume "get b actor = Inr (status, Inr doc)" "is_success status" "actor_document_key doc = Some pem"
      and c: "cache' = cache(actor \<mapsto> \<lparr>ck_public_key_pem = pem, ck_fetched_at_ts = timestamp now\<rparr>)"
    then have "(actor, pem, now) \<in> published get now" unfolding published_def by blast
    then show ?thesis using assms(2) unfolding c cache_from_def by (auto split: if_splits)
  qed (use assms(2) in simp)
qed

lemma verify_keeps_cache:
  assumes "verify_with_refresh fx get cf actor canonical sig now cache = (r, cache')" "cache_from L cache"
  shows "cache_from (L \<union> published get now) cache'"
proof -
  let ?L = "L \<union> published get now"
  have start: "cache_from ?L cache" using assms(2) by (rule cache_from_mono) simp
  obtain r1 c1 where one: "fetch_actor_public_key (get False actor) actor cf False now cache = (r1, c1)" by force
  have k1: "cache_from ?L c1" by (rule fetch_keeps_cache [where get = get, OF one start])
  then have k1': "cache_from ?L (c1(actor := None))" by (simp add: cache_from_def)
  obtain r2 c2 where two: "fetch_actor_public_key (get True actor) actor cf True now (c1(actor := None)) = (r2, c2)" by force
  have k2: "cache_from ?L c2" by (rule fetch_keeps_cache [where get = get, OF two k1'])
  have "cache' = c1 \<or> cache' = c2"
    using assms(1) one two by (auto simp: verify_with_refresh_def split: sum.splits)
  then show ?thesis using k1 k2 by blast
qed

lemma inbox_keeps_cache:
  assumes "inbox ex fx get cf req path fresh now (cache, db) = (r, effects, cache', db')" "cache_from L cache"
  shows "cache_from (L \<union> published get now) cache'"
proof (cases "inbox_checks fx cf req path now db")
  case (Inl e)
  then show ?thesis using assms cache_from_mono [OF assms(2)] by (auto simp: inbox_def)
next
  case (Inr x)
  obtain username sf actor canonical where x: "x = (username, sf, actor, canonical)" by (cases x)
  obtain v c1 where v: "verify_with_refresh fx get cf actor canonical (sf_signature sf) now cache = (v, c1)" by force
  have "cache' = c1" using assms(1) Inr x v by (auto simp: inbox_def split: sum.splits prod.splits)
  then show ?thesis using verify_keeps_cache [OF v assms(2)] by simp
qed

interpretation key_runs: machine "\<lambda>(L, cache). cache = Map.empty" "key_step ex fx cf"
    "\<lambda>(L, cache). cache_from L cache" for ex fx cf
proof
  fix s s' :: "publications \<times> key_cache"
  assume "case s of (L, cache) \<Rightarrow> cache_from L cache" "key_step ex fx cf s s'"
  then show "case s' of (L, cache) \<Rightarrow> cache_from L cache"
    by (cases s) (auto elim!: key_step.cases dest: inbox_keeps_cache simp: cache_from_def)
qed (auto simp: cache_from_def)

text \<open>
  [C4] The inbox acts only on authenticated activities. From the start of a process with an empty key
  cache, after any requests to the inbox and restarts: when a request changes the database, has
  an effect or is accepted, its body is within the limit and its Digest header is that of the
  body, its date is inside the window, its signer is not on a denied domain, the activity names
  the signer as its actor, and its signature over the listed headers verifies under a key that
  the document at the signer's own address gave to the server, either during this request or at an
  earlier one no longer ago than the lifetime of the cache.
\<close>

theorem inbox_authenticated:
  assumes run: "(key_step ex fx cf)\<^sup>*\<^sup>* ({}, Map.empty) (L, cache)"
    and request: "inbox ex fx get cf req path fresh now (cache, db) = (r, effects, cache', db')"
    and acts: "db' \<noteq> db \<or> effects \<noteq> [] \<or> is_ok r"
  shows "length (hr_body req) \<le> max_payload_bytes \<and> local_user_exists db (to_lowercase path) \<and>
    hr_headers req ''digest'' = Some (Some (digest_header fx (hr_body req))) \<and>
    (\<exists>date ts. hr_headers req ''date'' = Some (Some date) \<and> fx_parse_date fx date = Inr ts \<and>
       \<bar>timestamp now - ts\<bar> \<le> cf_federation_signature_window_secs cf) \<and>
    (\<exists>sig sf actor canonical pem t payload.
       hr_headers req ''signature'' = Some (Some sig) \<and> parse_signature_header sig = Inr sf \<and>
       parse_key_id_actor_url (sf_key_id sf) = Inr actor \<and>
       ensure_remote_domain_allowed (fx_parse_url fx) actor (cf_federation_denylist cf) = Inr () \<and>
       canonicalize_signed_string req (sf_headers sf) = Inr canonical \<and>
       ((actor, pem, now) \<in> published get now \<or>
        (actor, pem, t) \<in> L \<and> timestamp now - timestamp t \<le> cf_federation_key_cache_ttl_secs cf) \<and>
       verify_signature fx pem canonical (sf_signature sf) = Inr () \<and>
       fx_parse_json fx (hr_body req) = Inr payload \<and> json_str_at ''actor'' payload = Some actor)"
  using request
proof (cases rule: inbox_cases)
  case refused
  then show ?thesis using acts by simp
next
  case (applied username sf actor canonical payload aid type)
  note c = inbox_checks_sound [OF applied(1)]
  have from_actors: "cache_from L cache" using key_runs.inv_reachable [OF _ run] by simp
  obtain pem where src: "actor_key_source get cf actor now cache pem"
      and ok: "verify_signature fx pem canonical (sf_signature sf) = Inr ()"
    using verify_with_refresh_sound [OF applied(2)] by blast
  have "\<exists>t. (actor, pem, now) \<in> published get now \<or>
        (actor, pem, t) \<in> L \<and> timestamp now - timestamp t \<le> cf_federation_key_cache_ttl_secs cf"
    using src from_actors unfolding actor_key_source_def cache_from_def published_def by fastforce
  then show ?thesis using c inbox_activity_sound [OF applied(3)] ok by blast
qed

text \<open>The note of ann to bob, as it arrives.\<close>

definition sample_note_request :: http_request where
  "sample_note_request =
    (let fx = sample_fed sample_activity;
         u = (case sample_parse_url ''https://b.org/users/bob/inbox'' of Inr u \<Rightarrow> u)
     in received (signed_post fx u ''json'' (signature_text (key_id ''localhost'' ''ann'') (two_letters (''k'' @
          signing_text ''POST'' (out_target u) ''b.org'' (show_seconds 0) (digest_header fx ''json'')))) 0))"

lemma sample_note_applied:
  "\<exists>cache'. inbox sample_externals (sample_fed sample_activity) sample_get sample_config sample_note_request ''bob''
      fresh 7000000 (cache, sample_server) =
    (case inbox_apply sample_externals (sample_fed sample_activity) fresh ''bob''
        (sample_activity, ''a1'', ''Create'', ''https://localhost/users/ann'') 7000000 sample_server of
       (r, effects, db') \<Rightarrow> (r, effects, cache', db'))"
proof -
  let ?fx = "sample_fed sample_activity"
  have "sample_parse_url ''https://b.org/users/bob/inbox'' = Inr \<lparr>url_scheme = ''https'',
      url_host = Some ''b.org'', url_port = None, url_query = None, url_fragment = None,
      url_path = ''/users/bob/inbox'', url_segments = Some [''users'', ''bob'', ''inbox'']\<rparr>"
    by code_simp
  then obtain u where url: "sample_parse_url ''https://b.org/users/bob/inbox'' = Inr u"
      "url_host u = Some ''b.org''" "url_port u = None" by simp
  have doc: "actor_document_key sample_actor_document = Some (encode_raw_pem ?fx ''PUBLIC KEY'' ''k'')"
    by code_simp
  have names: "plain_name ''localhost''" "plain_name ''ann''" by (simp_all add: plain_name_def printable_def)
  have actor: "actor_url ''localhost'' ''ann'' = ''https://localhost/users/ann''" by code_simp
  have fx: "fx_show_json ?fx j = ''json''" "fx_base64 ?fx = two_letters" "fx_show_date ?fx = show_seconds"
    "fx_sign ?fx k m = k @ m" "fx_public_key ?fx = Some" "fx_parse_json ?fx t = Inr sample_activity" for j k m t
    by (simp_all add: sample_fed_def)
  have ready: "receiver_ready ?fx sample_config (actor_url ''localhost'' ''ann'') (fx_show_json ?fx sample_activity)
      ''bob'' 0 7000000 sample_server"
    using sample_ready [of sample_activity] by (simp add: sample_domain)
  show ?thesis
    using inbox_applies_signed_note [where get = sample_get and ?pkcs8.0 = "''k''" and pub = "''k''"
        and payload = sample_activity and ex = sample_externals and fresh = fresh and cache = cache,
        OF sample_fed_laws(1,2,3) names _ url(2,3) sample_activity_def _ ready _ doc]
    by (simp add: fx sample_get_def sample_note_request_def url(1) sample_known(2) actor Let_def)
qed

theorem inbox_authenticated_witness:
  "hr_headers sample_note_request ''digest'' =
     Some (Some (digest_header (sample_fed sample_activity) (hr_body sample_note_request)))"
proof -
  let ?fx = "sample_fed sample_activity"
  obtain cache' where run: "inbox sample_externals ?fx sample_get sample_config sample_note_request ''bob''
      (11, 12, 14, 15) 7000000 (Map.empty, sample_server) =
    (case inbox_apply sample_externals ?fx (11, 12, 14, 15) ''bob''
        (sample_activity, ''a1'', ''Create'', ''https://localhost/users/ann'') 7000000 sample_server of
       (r, effects, db') \<Rightarrow> (r, effects, cache', db'))"
    using sample_note_applied by blast
  obtain r effects db' where app: "inbox_apply sample_externals ?fx (11, 12, 14, 15) ''bob''
      (sample_activity, ''a1'', ''Create'', ''https://localhost/users/ann'') 7000000 sample_server = (r, effects, db')"
    by (metis surj_pair)
  have "is_ok (fst (inbox_apply sample_externals ?fx (11, 12, 14, 15) ''bob''
      (sample_activity, ''a1'', ''Create'', ''https://localhost/users/ann'') 7000000 sample_server))"
    by code_simp
  then have "is_ok r" by (simp add: app)
  then show ?thesis
    using inbox_authenticated [OF rtranclp.rtrancl_refl, of sample_externals ?fx sample_get sample_config
        sample_note_request "''bob''" "(11, 12, 14, 15)" 7000000 sample_server r effects cache' db'] run app
    by simp
qed

section \<open>At most once\<close>

definition inbox_ids :: "db \<Rightarrow> string set" where
  "inbox_ids db = fia_activity_id ` set (federation_inbox_activities db)"

lemma shadow_keeps_inbox:
  "ensure_federated_shadow_user sha p i rid u now db = Inr (x, db') \<Longrightarrow>
     federation_inbox_activities db' = federation_inbox_activities db \<and> messages db' = messages db"
  by (auto simp: ensure_federated_shadow_user_def insert_user_def update_user_def Let_def result_simps
      split: option.splits sum.splits app_error.splits db_error.splits if_splits)

lemma map_note_keeps_inbox:
  assumes "map_create_note_to_local_message sha p fresh aid actor name payload now db = (r, db')"
  shows "inbox_ids db' = inbox_ids db \<and> (\<not> is_ok r \<longrightarrow> messages db' = messages db)"
  using assms
  by (auto simp: map_create_note_to_local_message_def insert_remote_message_def send_message_def
      insert_message_conn_def Let_def inbox_ids_def
      split: option.splits sum.splits bool.splits if_splits prod.splits dest!: shadow_keeps_inbox)

lemma record_inbox_activity_cases:
  assumes "record_inbox_activity i aid actor name type payload now db = Inr (new, db')"
  shows "(new \<longleftrightarrow> aid \<notin> inbox_ids db) \<and> inbox_ids db' = insert aid (inbox_ids db) \<and>
    (\<not> new \<longrightarrow> db' = db) \<and> messages db' = messages db"
  using assms by (auto simp: record_inbox_activity_def inbox_ids_def split: if_splits)

lemma record_inbox_activity_duplicate:
  "aid \<in> inbox_ids db \<Longrightarrow> record_inbox_activity i aid actor name type payload now db = Inr (False, db)"
  by (auto simp: record_inbox_activity_def inbox_ids_def)

lemma inbox_apply_duplicate:
  "aid \<in> inbox_ids db \<Longrightarrow>
     inbox_apply ex fx fresh name (payload, aid, type, actor) now db = (Inr (Duplicate aid), [], db)"
  by (simp add: inbox_apply_def record_inbox_activity_duplicate)

lemma inbox_apply_cases:
  assumes "inbox_apply ex fx fresh name (payload, aid, type, actor) now db = (r, effects, db')"
  shows "inbox_ids db \<subseteq> inbox_ids db'"
    "effects \<noteq> [] \<Longrightarrow> r = Inr (Accepted aid) \<and> aid \<notin> inbox_ids db \<and> aid \<in> inbox_ids db'"
    "r = Inl e \<Longrightarrow> messages db' = messages db"
  using assms
  by (auto simp: inbox_apply_def split: sum.splits prod.splits bool.splits if_splits option.splits
      dest!: record_inbox_activity_cases map_note_keeps_inbox)

text \<open>
  Requests to the inbox, in any order and number, and anything else that happens to the server
  as long as the recorded activities stay recorded. The log lists the activities whose message
  was published and pushed.
\<close>

definition log_note :: "inbox_response result \<Rightarrow> effect list \<Rightarrow> string list \<Rightarrow> string list" where
  "log_note r effects log = (case r of Inr (Accepted aid) \<Rightarrow> if effects = [] then log else log @ [aid] | _ \<Rightarrow> log)"

inductive inbox_step ::
  "externals \<Rightarrow> fed_externals \<Rightarrow> config \<Rightarrow> string list \<times> key_cache \<times> db \<Rightarrow> string list \<times> key_cache \<times> db \<Rightarrow> bool"
  for ex fx cf where
  request: "inbox ex fx get cf req path fresh now (cache, db) = (r, effects, cache', db') \<Longrightarrow>
     inbox_step ex fx cf (log, cache, db) (log_note r effects log, cache', db')"
| other: "inbox_ids db \<subseteq> inbox_ids db' \<Longrightarrow> inbox_step ex fx cf (log, cache, db) (log, cache', db')"

lemma inbox_log:
  assumes "inbox ex fx get cf req path fresh now (cache, db) = (r, effects, cache', db')"
  shows "inbox_ids db \<subseteq> inbox_ids db' \<and> (log_note r effects log = log \<or>
     (\<exists>aid. log_note r effects log = log @ [aid] \<and> aid \<notin> inbox_ids db \<and> aid \<in> inbox_ids db'))"
  using assms
proof (cases rule: inbox_cases)
  case refused
  then show ?thesis by (simp add: log_note_def)
next
  case (applied username sf actor canonical payload aid type)
  then show ?thesis
    using inbox_apply_cases(1,2) [OF applied(4)]
    by (cases "effects = []") (auto simp: log_note_def split: sum.splits inbox_response.splits)
qed

interpretation inbox_runs: machine "\<lambda>(log, cache, db). log = []" "inbox_step ex fx cf"
    "\<lambda>(log, cache, db). distinct log \<and> set log \<subseteq> inbox_ids db" for ex fx cf
proof
  fix s s' :: "string list \<times> key_cache \<times> db"
  assume inv: "case s of (log, cache, db) \<Rightarrow> distinct log \<and> set log \<subseteq> inbox_ids db"
    and step: "inbox_step ex fx cf s s'"
  show "case s' of (log, cache, db) \<Rightarrow> distinct log \<and> set log \<subseteq> inbox_ids db"
    using step
  proof (cases rule: inbox_step.cases)
    case (request get req path fresh now cache db r effects cache' db' log)
    then show ?thesis using inv inbox_log [OF request(3), of log] by auto
  next
    case other
    then show ?thesis using inv by auto
  qed
qed auto

text \<open>
  [C12] Every activity is applied at most once: whatever requests reach the inbox, with whatever
  signatures, keys and clocks, and however often a request is repeated, no activity id has its
  message delivered twice, and every delivered activity is recorded.
\<close>

theorem activity_applied_once:
  assumes "(inbox_step ex fx cf)\<^sup>*\<^sup>* ([], cache, db) (log, cache', db')"
  shows "distinct log \<and> set log \<subseteq> inbox_ids db'"
  using inbox_runs.inv_reachable [OF _ assms] by simp

theorem activity_applied_once_witness:
  "\<exists>cache' db'. (inbox_step sample_externals (sample_fed sample_activity) sample_config)\<^sup>*\<^sup>*
      ([], Map.empty, sample_server) ([''a1''], cache', db') \<and> ''a1'' \<in> inbox_ids db'"
proof -
  let ?fx = "sample_fed sample_activity"
  let ?a = "inbox_apply sample_externals ?fx (11, 12, 14, 15) ''bob''
      (sample_activity, ''a1'', ''Create'', ''https://localhost/users/ann'') 7000000 sample_server"
  obtain r effects db' where a: "?a = (r, effects, db')" by (metis surj_pair)
  have "log_note (fst ?a) (fst (snd ?a)) [] = [''a1'']" by code_simp
  then have log: "log_note r effects [] = [''a1'']" unfolding a by simp
  obtain cache' where "inbox sample_externals ?fx sample_get sample_config sample_note_request ''bob''
      (11, 12, 14, 15) 7000000 (Map.empty, sample_server) = (r, effects, cache', db')"
    using sample_note_applied [of "(11, 12, 14, 15)" Map.empty] a by auto
  then have "inbox_step sample_externals ?fx sample_config ([], Map.empty, sample_server) ([''a1''], cache', db')"
    using inbox_step.request [of sample_externals ?fx sample_get sample_config sample_note_request "''bob''"
        "(11, 12, 14, 15)" 7000000 Map.empty sample_server r effects cache' db' "[]"] log by simp
  then have run: "(inbox_step sample_externals ?fx sample_config)\<^sup>*\<^sup>* ([], Map.empty, sample_server) ([''a1''], cache', db')"
    by blast
  then show ?thesis using activity_applied_once [OF run] by auto
qed

text \<open>
  [C40] The activity is recorded before its note becomes a message, in separate statements. When the
  second part fails, the sender gets the error, no message exists, and every later delivery of
  the activity is answered as a duplicate: the note is lost.
\<close>

theorem failed_note_lost:
  assumes "inbox_apply ex fx fresh name (payload, aid, type, actor) now db = (Inl e, effects, db')" "db' \<noteq> db"
  shows "messages db' = messages db \<and>
    inbox_apply ex fx fresh' name (payload, aid, type, actor) now' db' = (Inr (Duplicate aid), [], db')"
proof -
  obtain new db1 where rec: "record_inbox_activity (fst fresh) aid actor name type payload now db = Inr (new, db1)"
    using assms by (auto simp: inbox_apply_def split: sum.splits)
  then have "new" using assms by (cases new) (auto simp: inbox_apply_def)
  then have "inbox_ids db' = inbox_ids db1"
    using assms(1) rec
    by (auto simp: inbox_apply_def split: prod.splits sum.splits if_splits option.splits
        dest!: map_note_keeps_inbox)
  then show ?thesis
    using record_inbox_activity_cases [OF rec] inbox_apply_cases(3) [OF assms(1) refl]
    by (simp add: inbox_apply_duplicate)
qed

text \<open>An actor whose URL has no path names no user: the note fails after the activity is recorded.\<close>

theorem failed_note_lost_witness:
  "let activity = (sample_activity, ''a2'', ''Create'', ''https://localhost'');
       first = inbox_apply sample_externals (sample_fed sample_activity) (11, 12, 14, 15) ''bob'' activity 0 sample_server
   in \<not> is_ok (fst first) \<and> messages (snd (snd first)) = [] \<and>
      fst (inbox_apply sample_externals (sample_fed sample_activity) (21, 22, 24, 25) ''bob'' activity 5 (snd (snd first)))
        = Inr (Duplicate ''a2'')"
proof -
  let ?fx = "sample_fed sample_activity"
  let ?first = "inbox_apply sample_externals ?fx (11, 12, 14, 15) ''bob''
      (sample_activity, ''a2'', ''Create'', ''https://localhost'') 0 sample_server"
  obtain r effects db' where first: "?first = (r, effects, db')" by (metis surj_pair)
  have "\<not> is_ok (fst ?first)" "length (federation_inbox_activities (snd (snd ?first))) = Suc 0" by code_simp+
  then have r: "\<not> is_ok r" and db': "db' \<noteq> sample_server"
    unfolding first by (auto simp: sample_server_def empty_db_def)
  obtain e where e: "r = Inl e" using r by (cases r) auto
  have "messages sample_server = []" by (simp add: sample_server_def empty_db_def)
  then show ?thesis
    using failed_note_lost [OF first [unfolded e] db', of "(21, 22, 24, 25)" 5] unfolding Let_def first e by simp
qed

section \<open>What the signature covers\<close>

text \<open>
  The list of signed headers must contain \<open>date\<close>, and need contain nothing else. A signature over
  the date alone says nothing about the body or the recipient: from a request that passes the
  checks, every other body (with the digest of that body) and every other local recipient pass
  the checks with the same signer and the same signed text, so the same signature verifies.
\<close>

theorem date_only_signature_transfers:
  assumes "inbox_checks fx cf req path now db = Inr (username, sf, actor, canonical)"
    and "sf_headers sf = [''date'']" "length body \<le> max_payload_bytes" "local_user_exists db (to_lowercase path')"
  shows "inbox_checks fx cf (req\<lparr>hr_target := target, hr_body := body,
        hr_headers := (hr_headers req)(''digest'' \<mapsto> Some (digest_header fx body))\<rparr>) path' now db =
     Inr (to_lowercase path', sf, actor, canonical)"
proof -
  note c = inbox_checks_sound [OF assms(1)]
  obtain date ts sig where h: "hr_headers req ''date'' = Some (Some date)" "fx_parse_date fx date = Inr ts"
      "\<bar>timestamp now - ts\<bar> \<le> cf_federation_signature_window_secs cf"
      "hr_headers req ''signature'' = Some (Some sig)" "parse_signature_header sig = Inr sf"
    using c(5,6) by blast
  have "canonical = ''date: '' @ date"
    using c(9) h(1) by (simp add: assms(2) canonicalize_signed_string_def header_text_def)
  then show ?thesis
    using h c(7,8) assms
    by (simp add: inbox_checks_def header_text_def parse_rfc2822_timestamp_def validate_replay_window_def
        canonicalize_signed_string_def Let_def)
qed

definition sample_date_only :: http_request where
  "sample_date_only = \<lparr>hr_method = ''POST'', hr_target = ''/users/bob/inbox'',
     hr_headers = [''date'' \<mapsto> Some ''+7'', ''digest'' \<mapsto> Some (digest_header (sample_fed sample_activity) ''x''),
       ''signature'' \<mapsto> Some (quoted_field ''keyId'' ''https://localhost/users/ann#main-key'' @ '','' @
          quoted_field ''headers'' ''date'' @ '','' @ quoted_field ''signature'' ''AA'')],
     hr_body = ''x''\<rparr>"

theorem date_only_signature_transfers_witness:
  "is_ok (inbox_checks (sample_fed sample_activity) sample_config (sample_date_only\<lparr>hr_target := ''/'',
        hr_body := ''another body'', hr_headers := (hr_headers sample_date_only)(''digest'' \<mapsto>
          Some (digest_header (sample_fed sample_activity) ''another body''))\<rparr>) ''ann'' 0 sample_server)"
proof -
  let ?fx = "sample_fed sample_activity"
  let ?sf = "\<lparr>sf_key_id = ''https://localhost/users/ann#main-key'', sf_signature = ''AA'', sf_headers = [''date'']\<rparr>"
  have header: "parse_signature_header (quoted_field ''keyId'' ''https://localhost/users/ann#main-key'' @ '','' @
          quoted_field ''headers'' ''date'' @ '','' @ quoted_field ''signature'' ''AA'') = Inr ?sf"
    "parse_key_id_actor_url ''https://localhost/users/ann#main-key'' = Inr ''https://localhost/users/ann''"
    "ensure_remote_domain_allowed sample_parse_url ''https://localhost/users/ann'' [] = Inr ()"
    "local_user_exists sample_server (to_lowercase ''bob'')" "local_user_exists sample_server (to_lowercase ''ann'')"
    "digits_value ''7'' = 7"
    by code_simp+
  have "inbox_checks ?fx sample_config sample_date_only ''bob'' 0 sample_server =
      Inr (to_lowercase ''bob'', ?sf, ''https://localhost/users/ann'', ''date: +7'')"
    using header
    by (simp add: inbox_checks_def sample_date_only_def header_text_def sample_fed_def sample_config_def Let_def
        max_payload_bytes_def parse_rfc2822_timestamp_def validate_replay_window_def timestamp_def
        canonicalize_signed_string_def)
  then show ?thesis
    using date_only_signature_transfers [of ?fx sample_config sample_date_only "''bob''" 0 sample_server _ ?sf _ _
        "''another body''" "''ann''" "''/''"] header(5)
    by (simp add: max_payload_bytes_def)
qed

end
