(* ===== verification/Delivery_Properties.thy ===== *)
theory Delivery_Properties
  imports Federation_Properties
begin

text \<open>
  Outgoing deliveries: the states a delivery passes through, what a round of retries does to
  the table, and that finitely many rounds settle every failed delivery.
\<close>

section \<open>One round of retries\<close>

definition fail_row :: "int \<Rightarrow> string \<Rightarrow> instant \<Rightarrow> federation_delivery \<Rightarrow> federation_delivery" where
  "fail_row max_attempts msg now d =
    (let n = wrap_i32 (fd_attempts d + 1); dead = (n \<ge> max_attempts)
     in d\<lparr>fd_status := (if dead then ''dead_letter'' else ''failed''), fd_attempts := n,
          fd_last_error := Some msg,
          fd_next_attempt_at := (if dead then None
            else Some (now + second_us * ((if n < 0 then 0 else 2 ^ nat (min n 10)) + int (fd_id d mod 17)))),
          fd_updated_at := now\<rparr>)"

lemma distinct_key_map: "(\<And>x. key (f x) = key x) \<Longrightarrow> distinct_key key (map f rows) = distinct_key key rows"
  by (simp add: distinct_key_def comp_def)

lemma fail_row_keeps [simp]:
  "fd_id (fail_row m e now d) = fd_id d" "fd_activity_id (fail_row m e now d) = fd_activity_id d"
  "fd_destination (fail_row m e now d) = fd_destination d"
  "fd_sender_username (fail_row m e now d) = fd_sender_username d"
  by (simp_all add: fail_row_def Let_def)

lemma mark_delivery_failure_eq:
  assumes "distinct_key fd_id (federation_deliveries db)" "d \<in> set (federation_deliveries db)"
  shows "mark_delivery_failure (fd_id d) msg m now db = Inr (db\<lparr>federation_deliveries :=
     map (\<lambda>x. if x = d then fail_row m msg now x else x) (federation_deliveries db)\<rparr>)"
proof -
  have "x = d" if "x \<in> set (federation_deliveries db)" "fd_id x = fd_id d" for x
    using find_row_distinct [OF assms(1)] that assms(2) by (metis option.inject)
  moreover have "find_row fd_id (federation_deliveries db) (fd_id d) = Some d"
    using find_row_distinct [OF assms] .
  ultimately show ?thesis
    by (auto simp: mark_delivery_failure_def update_delivery_def update_row_def update_rows_def fail_row_def Let_def)
qed

definition retry_error :: "db \<Rightarrow> federation_delivery \<Rightarrow> string" where
  "retry_error db d = (case get_actor_key db (fd_sender_username d) of
     None \<Rightarrow> ''missing local actor key'' | Some key \<Rightarrow> ''retry payload unavailable for '' @ fak_key_id key)"

abbreviation retry_row :: "config \<Rightarrow> db \<Rightarrow> instant \<Rightarrow> federation_delivery \<Rightarrow> federation_delivery" where
  "retry_row cf db now d \<equiv> fail_row (cf_federation_max_delivery_attempts cf) (retry_error db d) now d"

lemma get_actor_key_deliveries [simp]:
  "get_actor_key (db\<lparr>federation_deliveries := ds\<rparr>) = get_actor_key db"
  "retry_error (db\<lparr>federation_deliveries := ds\<rparr>) = retry_error db"
  by (simp_all add: get_actor_key_def retry_error_def fun_eq_iff)

lemma retry_loop_eq:
  assumes "distinct_key fd_id (federation_deliveries db)" "set ds \<subseteq> set (federation_deliveries db)" "distinct ds"
  shows "\<exists>n'. retry_loop cf now ds n db = (Inr n', db\<lparr>federation_deliveries :=
     map (\<lambda>x. if x \<in> set ds then retry_row cf db now x else x) (federation_deliveries db)\<rparr>)"
  using assms
proof (induction ds arbitrary: n db)
  case (Cons d ds)
  let ?db = "db\<lparr>federation_deliveries := map (\<lambda>x. if x = d then retry_row cf db now x else x) (federation_deliveries db)\<rparr>"
  have ids: "x = d" if "x \<in> set (federation_deliveries db)" "fd_id x = fd_id d" for x
    using find_row_distinct [OF Cons.prems(1)] that Cons.prems(2) by (metis list.set_intros(1) option.inject subsetD)
  have ok: "distinct_key fd_id (federation_deliveries ?db)" using Cons.prems(1) by (simp add: distinct_key_map)
  have sub: "set ds \<subseteq> set (federation_deliveries ?db)" using Cons.prems(2,3) by auto
  have step: "retry_loop cf now (d # ds) n db =
      retry_loop cf now ds (n + (if get_actor_key db (fd_sender_username d) = None then 0 else 1)) ?db"
    using mark_delivery_failure_eq [OF Cons.prems(1)] Cons.prems(2)
    by (auto simp: retry_error_def cong: if_cong split: option.splits)
  have "retry_row cf db now d \<notin> set ds"
    using Cons.prems(2,3) ids by (metis fail_row_keeps(1) list.set_intros(2) subsetD distinct.simps(2))
  then have compose: "map (\<lambda>x. if x \<in> set ds then retry_row cf ?db now x else x) (federation_deliveries ?db) =
      map (\<lambda>x. if x \<in> set (d # ds) then retry_row cf db now x else x) (federation_deliveries db)"
    using Cons.prems(3) by auto
  obtain n' where "retry_loop cf now ds (n + (if get_actor_key db (fd_sender_username d) = None then 0 else 1)) ?db =
      (Inr n', ?db\<lparr>federation_deliveries :=
        map (\<lambda>x. if x \<in> set ds then retry_row cf ?db now x else x) (federation_deliveries ?db)\<rparr>)"
    using Cons.IH [OF ok sub] Cons.prems(3) by auto
  then show ?case unfolding step compose by auto
qed simp

lemma retry_due_deliveries_eq:
  assumes "distinct_key fd_id (federation_deliveries db)"
  shows "\<exists>n. retry_due_deliveries cf now db = (Inr n, db\<lparr>federation_deliveries :=
     map (\<lambda>x. if due_for_retry now x then retry_row cf db now x else x) (federation_deliveries db)\<rparr>)"
proof -
  have "distinct (federation_deliveries db)" using assms by (simp add: distinct_key_def distinct_map)
  then have "\<exists>n. retry_due_deliveries cf now db = (Inr n, db\<lparr>federation_deliveries :=
     map (\<lambda>x. if x \<in> set (deliveries_due_for_retry now db) then retry_row cf db now x else x) (federation_deliveries db)\<rparr>)"
    unfolding retry_due_deliveries_def
    by (intro retry_loop_eq assms) (auto simp: deliveries_due_for_retry_def)
  then show ?thesis by (simp add: deliveries_due_for_retry_def cong: map_cong)
qed

section \<open>The states of a delivery\<close>

definition delivery_ok :: "config \<Rightarrow> federation_delivery \<Rightarrow> bool" where
  "delivery_ok cf d \<longleftrightarrow> in_i32 (fd_attempts d) \<and>
     fd_status d \<in> {''pending'', ''delivered'', ''failed'', ''dead_letter''} \<and>
     (if fd_status d = ''failed''
      then fd_attempts d < cf_federation_max_delivery_attempts cf \<and> fd_next_attempt_at d \<noteq> None
      else fd_next_attempt_at d = None) \<and>
     (fd_status d = ''delivered'' \<longrightarrow> fd_delivered_at d \<noteq> None)"

definition deliveries_ok :: "config \<Rightarrow> db \<Rightarrow> bool" where
  "deliveries_ok cf db \<longleftrightarrow> distinct_key fd_id (federation_deliveries db) \<and>
     (\<forall>d \<in> set (federation_deliveries db). delivery_ok cf d)"

lemma deliveries_ok_cong: "federation_deliveries db' = federation_deliveries db \<Longrightarrow> deliveries_ok cf db' = deliveries_ok cf db"
  by (simp add: deliveries_ok_def)

lemma deliveries_ok_map:
  assumes "deliveries_ok cf db" "federation_deliveries db' = map f (federation_deliveries db)"
    and "\<And>d. fd_id (f d) = fd_id d" "\<And>d. delivery_ok cf d \<Longrightarrow> delivery_ok cf (f d)"
  shows "deliveries_ok cf db'"
  using assms by (auto simp: deliveries_ok_def distinct_key_map)

lemma delivery_ok_fail_row:
  assumes "m = cf_federation_max_delivery_attempts cf \<or> m = 1" "1 \<le> cf_federation_max_delivery_attempts cf"
  shows "delivery_ok cf (fail_row m e now d)"
  using assms by (auto simp: delivery_ok_def fail_row_def Let_def)

lemma mark_delivery_failure_ok:
  assumes "deliveries_ok cf db" "mark_delivery_failure k msg m now db = Inr db'"
    and "m = cf_federation_max_delivery_attempts cf \<or> m = 1" "1 \<le> cf_federation_max_delivery_attempts cf"
  shows "deliveries_ok cf db'"
proof -
  obtain d where d: "find_row fd_id (federation_deliveries db) k = Some d"
    using assms(2) by (auto simp: mark_delivery_failure_def result_simps)
  then have in_db: "d \<in> set (federation_deliveries db)" "fd_id d = k" by (auto dest: find_row_Some)
  have "distinct_key fd_id (federation_deliveries db)" using assms(1) by (simp add: deliveries_ok_def)
  then have "db' = db\<lparr>federation_deliveries :=
      map (\<lambda>x. if x = d then fail_row m msg now x else x) (federation_deliveries db)\<rparr>"
    using mark_delivery_failure_eq [of db d msg m now] in_db assms(2) by simp
  then show ?thesis
    by (intro deliveries_ok_map [OF assms(1), where f = "\<lambda>x. if x = d then fail_row m msg now x else x"])
      (auto simp: delivery_ok_fail_row [OF assms(3,4)])
qed

lemma mark_delivery_success_ok:
  assumes "deliveries_ok cf db" "mark_delivery_success k now db = Inr db'"
  shows "deliveries_ok cf db'"
proof -
  let ?f = "\<lambda>d. d\<lparr>fd_status := ''delivered'', fd_attempts := fd_attempts d + 1,
        fd_delivered_at := Some now, fd_next_attempt_at := None, fd_last_error := None, fd_updated_at := now\<rparr>"
  have db': "federation_deliveries db' = map (\<lambda>d. if fd_id d = k then ?f d else d) (federation_deliveries db)"
    and max: "\<forall>d \<in> set (federation_deliveries db). fd_id d = k \<longrightarrow> fd_attempts d \<noteq> i32_max"
    using assms(2) by (auto simp: mark_delivery_success_def update_delivery_def update_row_def update_rows_def
        split: if_splits)
  have "delivery_ok cf (?f d)" if "delivery_ok cf d" "fd_attempts d \<noteq> i32_max" for d
    using that by (auto simp: delivery_ok_def in_i32_def)
  then have "\<forall>d \<in> set (federation_deliveries db). delivery_ok cf (if fd_id d = k then ?f d else d)"
    using assms(1) max unfolding deliveries_ok_def by auto
  moreover have "distinct_key fd_id (map (\<lambda>d. if fd_id d = k then ?f d else d) (federation_deliveries db))"
    using assms(1) by (simp add: distinct_key_map deliveries_ok_def)
  ultimately show ?thesis unfolding deliveries_ok_def db' by auto
qed

definition pending_row :: "uuid \<Rightarrow> string \<Rightarrow> string \<Rightarrow> string \<Rightarrow> instant \<Rightarrow> federation_delivery" where
  "pending_row i aid sender dest now = \<lparr>fd_id = i, fd_activity_id = aid, fd_sender_username = sender,
     fd_destination = dest, fd_status = ''pending'', fd_attempts = 0, fd_last_error = None,
     fd_next_attempt_at = None, fd_delivered_at = None, fd_created_at = now, fd_updated_at = now\<rparr>"

lemma pending_row_ok:
  "delivery_key (pending_row i aid sender dest now) = (aid, dest)" "fd_id (pending_row i aid sender dest now) = i"
  "delivery_ok cf (pending_row i aid sender dest now)"
  by (simp_all add: pending_row_def delivery_key_def delivery_ok_def in_i32_def i32_min_def i32_max_def)

lemma upsert_delivery_pending_cases:
  assumes "upsert_delivery_pending i aid sender dest now db = Inr (d, db')"
  obtains (new) "\<forall>r \<in> set (federation_deliveries db). fd_id r \<noteq> i"
      "federation_deliveries db' = insert_row (pending_row i aid sender dest now) (federation_deliveries db)"
  | (again) "federation_deliveries db' = map (\<lambda>d. if delivery_key d = (aid, dest) then d\<lparr>fd_status := ''pending'',
      fd_last_error := None, fd_next_attempt_at := None, fd_updated_at := now\<rparr> else d) (federation_deliveries db)"
proof (cases "find_row delivery_key (federation_deliveries db) (aid, dest)")
  case None
  then show ?thesis
    using assms new unfolding upsert_delivery_pending_def pending_row_def [symmetric] upsert_row_def Let_def
    by (auto simp: result_simps pending_row_ok split: if_splits)
next
  case (Some x)
  then show ?thesis
    using assms again unfolding upsert_delivery_pending_def pending_row_def [symmetric] upsert_row_def Let_def
    by (auto simp: result_simps pending_row_ok update_row_def update_rows_def split: if_splits)
qed

lemma upsert_delivery_pending_ok:
  assumes "deliveries_ok cf db" "upsert_delivery_pending i aid sender dest now db = Inr (d, db')"
  shows "deliveries_ok cf db'"
  using assms(2)
proof (cases rule: upsert_delivery_pending_cases)
  case new
  then have "find_row fd_id (federation_deliveries db) i = None" by (auto simp: find_row_None)
  then show ?thesis using assms(1) new by (simp add: deliveries_ok_def row_simps pending_row_ok)
next
  case again
  then show ?thesis by (rule deliveries_ok_map [OF assms(1)]) (auto simp: delivery_ok_def)
qed

lemma ensure_actor_key_material_deliveries:
  "ensure_actor_key_material fx cf name i gen now db = Inr (key, db') \<Longrightarrow>
     federation_deliveries db' = federation_deliveries db"
  by (auto simp: ensure_actor_key_material_def ensure_actor_key_def result_simps Let_def split: option.splits if_splits)

lemma max_attempts_for_cases:
  "max_attempts_for cf status = cf_federation_max_delivery_attempts cf \<or> max_attempts_for cf status = 1"
  by (simp add: max_attempts_for_def)

lemmas delivery_ops_ok = upsert_delivery_pending_ok mark_delivery_success_ok mark_delivery_failure_ok

lemma send_one_ok:
  assumes "deliveries_ok cf db" "1 \<le> cf_federation_max_delivery_attempts cf"
    and "send_one fx cause post cf key aid sender bytes dest i now db = (r, db')"
  shows "deliveries_ok cf db'"
  using assms(1,3) max_attempts_for_cases [of cf]
  unfolding send_one_def Let_def
  by (auto split: if_splits sum.splits prod.splits
      dest!: mark_delivery_success_ok [rotated] mark_delivery_failure_ok [rotated, OF _ _ assms(2)]
        upsert_delivery_pending_ok [rotated])

lemma send_loop_ok:
  assumes "deliveries_ok cf db"
    and "\<And>d r db r' db'. deliveries_ok cf db \<Longrightarrow> f d r db = (r', db') \<Longrightarrow> deliveries_ok cf db'"
    and "send_loop f xs db = (r, db')"
  shows "deliveries_ok cf db'"
  using assms(1,3)
proof (induction xs arbitrary: db r)
  case (Cons x xs)
  obtain d q where x: "x = (d, q)" by (cases x)
  obtain a db1 where f: "f d q db = (a, db1)" by force
  then have "deliveries_ok cf db1" using assms(2) Cons.prems(1) by blast
  then show ?case using Cons f x by (auto split: sum.splits prod.splits)
qed simp

lemma send_to_remote_ok:
  assumes "deliveries_ok cf db" "1 \<le> cf_federation_max_delivery_attempts cf"
    and "send_to_remote ex fx cause cf auth inboxes content fresh now db = (r, db')"
  shows "deliveries_ok cf db'"
  using assms(1,3) unfolding send_to_remote_def Let_def
  by (auto simp: result_simps deliveries_ok_cong [OF ensure_actor_key_material_deliveries]
      split: if_splits sum.splits prod.splits dest!: send_loop_ok [rotated 2] intro: send_one_ok [OF _ assms(2)])

lemma deliver_direct_ok:
  assumes "deliveries_ok cf db" "1 \<le> cf_federation_max_delivery_attempts cf"
    and "deliver_direct_message_to_remote fx cause cf sender rid url content fresh now db = (r, db')"
  shows "deliveries_ok cf db'"
  using assms(1,3) max_attempts_for_cases [of cf]
  unfolding deliver_direct_message_to_remote_def Let_def
  by (auto simp: result_simps deliveries_ok_cong [OF ensure_actor_key_material_deliveries]
      split: if_splits sum.splits prod.splits
      dest!: mark_delivery_success_ok [rotated] mark_delivery_failure_ok [rotated, OF _ _ assms(2)]
        upsert_delivery_pending_ok [rotated])

lemma retry_due_deliveries_ok:
  assumes "deliveries_ok cf db" "1 \<le> cf_federation_max_delivery_attempts cf"
    and "retry_due_deliveries cf now db = (r, db')"
  shows "deliveries_ok cf db'"
proof -
  have "distinct_key fd_id (federation_deliveries db)" using assms(1) by (simp add: deliveries_ok_def)
  then have "federation_deliveries db' =
      map (\<lambda>x. if due_for_retry now x then retry_row cf db now x else x) (federation_deliveries db)"
    using retry_due_deliveries_eq [of db cf now] assms(3) by auto
  then show ?thesis
    by (rule deliveries_ok_map [OF assms(1)]) (auto intro: delivery_ok_fail_row assms(2))
qed

text \<open>
  Everything that writes deliveries, in any order: sending to inboxes, sending a direct message
  to a remote contact, a round of retries, and the removal of rows (with their account).
\<close>

inductive delivery_step :: "config \<Rightarrow> db \<Rightarrow> db \<Rightarrow> bool" for cf where
  send: "send_to_remote ex fx cause cf auth inboxes content fresh now db = (r, db') \<Longrightarrow> delivery_step cf db db'"
| direct: "deliver_direct_message_to_remote fx cause cf sender rid url content fresh now db = (r', db') \<Longrightarrow>
    delivery_step cf db db'"
| retry: "retry_due_deliveries cf now db = (n, db') \<Longrightarrow> delivery_step cf db db'"
| other: "federation_deliveries db' = filter P (federation_deliveries db) \<Longrightarrow> delivery_step cf db db'"

lemma delivery_step_ok:
  assumes "1 \<le> cf_federation_max_delivery_attempts cf" "deliveries_ok cf db" "delivery_step cf db db'"
  shows "deliveries_ok cf db'"
  using assms(3,2)
proof cases
  case (other P)
  then show ?thesis using assms(2) by (auto simp: deliveries_ok_def distinct_key_def distinct_map_filter)
qed (use assms(1,2) in \<open>blast intro: send_to_remote_ok deliver_direct_ok retry_due_deliveries_ok\<close>)+

interpretation deliveries: machine "\<lambda>db. federation_deliveries db = []"
    "\<lambda>db db'. 1 \<le> cf_federation_max_delivery_attempts cf \<and> delivery_step cf db db'" "deliveries_ok cf" for cf
  by unfold_locales (simp add: deliveries_ok_def distinct_key_def, blast intro: delivery_step_ok)

text \<open>
  [C39] The table of deliveries stays sound under every sequence of sends, remote messages, retries and
  account removals: ids are unique, the status is one of the four, a failed delivery has attempts
  left and a time for the next one, every other delivery has none, and a delivered one carries
  the time of its delivery.
\<close>

theorem deliveries_sound:
  assumes "1 \<le> cf_federation_max_delivery_attempts cf" "federation_deliveries db = []"
    and "(delivery_step cf)\<^sup>*\<^sup>* db db'"
  shows "deliveries_ok cf db'"
  using deliveries.inv_reachable [of db cf db'] assms by simp

definition sample_send :: "(string \<times> delivery_result list) result \<times> db" where
  "sample_send =
     send_to_remote sample_externals (sample_fed sample_activity) (\<lambda>_. []) sample_config
        \<lparr>cl_sub = ''2'', cl_role = ''user'', cl_iat = 0, cl_exp = 0\<rparr>
        [''https://b.org/in''] ''hi''
        \<lparr>sd_key_id = 9, sd_generated = Some ''k'', sd_activity_token = ''t'', sd_object_token = ''o'',
         sd_round = (\<lambda>i. (30 + i, \<lambda>_. Inr 503))\<rparr> 0 sample_server"

theorem deliveries_sound_witness:
  "and_then (fst sample_send) (\<lambda>(_, rs). Inr (map dr_status rs)) = Inr [''failed''] \<and>
     deliveries_ok sample_config (snd sample_send)"
proof -
  have "and_then (fst sample_send) (\<lambda>(_, rs). Inr (map dr_status rs)) = Inr [''failed'']" by code_simp
  moreover have "delivery_step sample_config sample_server (snd sample_send)"
    unfolding sample_send_def by (rule delivery_step.send [OF surjective_pairing])
  then have "(delivery_step sample_config)\<^sup>*\<^sup>* sample_server (snd sample_send)" by blast
  ultimately show ?thesis
    using deliveries_sound [of sample_config sample_server "snd sample_send"]
    by (simp add: sample_config_def sample_server_def empty_db_def)
qed

section \<open>Rounds\<close>

fun retry_rounds :: "config \<Rightarrow> instant list \<Rightarrow> db \<Rightarrow> db" where
  "retry_rounds cf [] db = db"
| "retry_rounds cf (t # ts) db = retry_rounds cf ts (snd (retry_due_deliveries cf t db))"

fun row_rounds :: "config \<Rightarrow> db \<Rightarrow> instant list \<Rightarrow> federation_delivery \<Rightarrow> federation_delivery" where
  "row_rounds cf db [] d = d"
| "row_rounds cf db (t # ts) d =
     row_rounds cf db ts (if due_for_retry t d then retry_row cf db t d else d)"

lemma row_rounds_deliveries [simp]: "row_rounds cf (db\<lparr>federation_deliveries := ds\<rparr>) ts d = row_rounds cf db ts d"
  by (induction ts arbitrary: d) auto

lemma retry_rounds_rows:
  assumes "distinct_key fd_id (federation_deliveries db)"
  shows "retry_rounds cf ts db = db\<lparr>federation_deliveries := map (row_rounds cf db ts) (federation_deliveries db)\<rparr>"
  using assms
proof (induction ts arbitrary: db)
  case Nil
  have "map (row_rounds cf db []) ds = ds" for ds by (induction ds) auto
  then show ?case by simp
next
  case (Cons t ts)
  let ?f = "\<lambda>x. if due_for_retry t x then retry_row cf db t x else x"
  let ?db = "db\<lparr>federation_deliveries := map ?f (federation_deliveries db)\<rparr>"
  have "snd (retry_due_deliveries cf t db) = ?db"
    using retry_due_deliveries_eq [OF Cons.prems, of cf t] by (auto simp: snd_def split: prod.splits)
  moreover have "distinct_key fd_id (federation_deliveries ?db)" using Cons.prems by (simp add: distinct_key_map)
  ultimately show ?case using Cons.IH [of ?db] by (simp add: comp_def)
qed

text \<open>The longest wait between two attempts: 1024 seconds of backoff and 16 of jitter.\<close>

definition longest_wait :: int where "longest_wait = second_us * 1040"

definition spaced :: "instant list \<Rightarrow> bool" where
  "spaced ts \<longleftrightarrow> successively (\<lambda>a b. a + longest_wait \<le> b) ts"

lemma backoff_bound: "(if n < 0 then 0 else (2 :: int) ^ nat (min n 10)) + int (k mod 17) \<le> 1040"
proof -
  have "(2 :: int) ^ nat (min n 10) \<le> 2 ^ 10" by (rule power_increasing) auto
  moreover have "int (k mod 17) \<le> 16" by simp
  ultimately show ?thesis by simp
qed

lemma fail_row_wait:
  "fd_next_attempt_at (fail_row m e now d) = Some t \<Longrightarrow> t \<le> now + longest_wait"
  using backoff_bound [of "wrap_i32 (fd_attempts d + 1)" "fd_id d"]
  by (auto simp: fail_row_def Let_def longest_wait_def second_us_def split: if_splits)

lemma fail_row_progress:
  assumes "in_i32 (fd_attempts d)" "fd_attempts d < m" "in_i32 m"
  shows "fd_attempts (fail_row m e now d) = fd_attempts d + 1"
    "fd_status (fail_row m e now d) = (if fd_attempts d + 1 \<ge> m then ''dead_letter'' else ''failed'')"
proof -
  have "in_i32 (fd_attempts d + 1)" using assms by (auto simp: in_i32_def)
  then show "fd_attempts (fail_row m e now d) = fd_attempts d + 1"
    "fd_status (fail_row m e now d) = (if fd_attempts d + 1 \<ge> m then ''dead_letter'' else ''failed'')"
    by (simp_all add: fail_row_def Let_def)
qed

lemma row_rounds_settled: "fd_status d \<noteq> ''failed'' \<Longrightarrow> row_rounds cf db ts d = d"
  by (induction ts) (auto simp: due_for_retry_def)

text \<open>A failed delivery: attempts left, and the time of the next one.\<close>

definition retriable :: "config \<Rightarrow> federation_delivery \<Rightarrow> bool" where
  "retriable cf d \<longleftrightarrow> in_i32 (fd_attempts d) \<and> fd_attempts d < cf_federation_max_delivery_attempts cf \<and>
     fd_next_attempt_at d \<noteq> None"

lemma row_rounds_dead:
  assumes "in_i32 (cf_federation_max_delivery_attempts cf)" "retriable cf d" "fd_status d = ''failed''" "spaced ts"
    and "\<And>t t'. fd_next_attempt_at d = Some t \<Longrightarrow> t' \<in> set (take 1 ts) \<Longrightarrow> t \<le> t'"
    and "cf_federation_max_delivery_attempts cf - fd_attempts d \<le> int (length ts)"
  shows "fd_status (row_rounds cf db ts d) = ''dead_letter'' \<and>
     fd_attempts (row_rounds cf db ts d) = cf_federation_max_delivery_attempts cf"
  using assms(2-)
proof (induction ts arbitrary: d)
  case Nil
  then show ?case by (simp add: retriable_def)
next
  case (Cons t ts)
  let ?m = "cf_federation_max_delivery_attempts cf" and ?d = "retry_row cf db t d"
  obtain t0 where t0: "fd_next_attempt_at d = Some t0" "t0 \<le> t" using Cons.prems(1,4) by (auto simp: retriable_def)
  then have due: "due_for_retry t d" using Cons.prems(2) by (simp add: due_for_retry_def)
  have pos: "in_i32 (fd_attempts d)" "fd_attempts d < ?m" using Cons.prems(1) by (auto simp: retriable_def)
  note p = fail_row_progress [OF pos assms(1)]
  show ?case
  proof (cases "fd_attempts d + 1 \<ge> ?m")
    case True
    then have "fd_status ?d = ''dead_letter''" "fd_attempts ?d = ?m" using p pos by auto
    then show ?thesis using due by (simp add: row_rounds_settled)
  next
    case False
    then have next_t: "fd_next_attempt_at ?d \<noteq> None"
      using p(1) by (auto simp: fail_row_def Let_def)
    have "fd_status (row_rounds cf db ts ?d) = ''dead_letter'' \<and> fd_attempts (row_rounds cf db ts ?d) = ?m"
    proof (rule Cons.IH)
      show "retriable cf ?d" using False p pos next_t assms(1) by (auto simp: retriable_def in_i32_def)
      show "fd_status ?d = ''failed''" using False p by simp
      show "spaced ts" using Cons.prems(3) by (cases ts) (auto simp: spaced_def)
      show "t1 \<le> t'" if "fd_next_attempt_at ?d = Some t1" "t' \<in> set (take 1 ts)" for t1 t'
        using fail_row_wait [OF that(1)] that(2) Cons.prems(3) by (cases ts) (auto simp: spaced_def)
      show "?m - fd_attempts ?d \<le> int (length ts)" using Cons.prems(5) p by simp
    qed
    then show ?thesis using due by simp
  qed
qed

text \<open>
  [C11] Retries end. From a sound table whose failed deliveries are due, rounds of \<open>retry_due_deliveries\<close> that are at least the longest backoff apart settle every failed
  delivery after as many rounds as attempts were left: each becomes a dead letter with exactly
  the configured number of attempts, no delivery is failed any more, and the deliveries that
  were not failed are untouched.
\<close>

theorem retries_settle:
  assumes "deliveries_ok cf db" "in_i32 (cf_federation_max_delivery_attempts cf)"
    and "\<And>d. d \<in> set (federation_deliveries db) \<Longrightarrow> fd_status d = ''failed'' \<Longrightarrow>
      the (fd_next_attempt_at d) \<le> t \<and>
      cf_federation_max_delivery_attempts cf - fd_attempts d \<le> int (length (t # ts))"
    and "spaced (t # ts)"
  shows "\<exists>settle. federation_deliveries (retry_rounds cf (t # ts) db) = map settle (federation_deliveries db) \<and>
    (\<forall>d \<in> set (federation_deliveries db).
       (if fd_status d = ''failed''
        then fd_status (settle d) = ''dead_letter'' \<and>
          fd_attempts (settle d) = cf_federation_max_delivery_attempts cf
        else settle d = d))"
proof (intro exI [of _ "row_rounds cf db (t # ts)"] conjI ballI)
  show "federation_deliveries (retry_rounds cf (t # ts) db) = map (row_rounds cf db (t # ts)) (federation_deliveries db)"
    using assms(1) by (simp add: retry_rounds_rows deliveries_ok_def del: retry_rounds.simps row_rounds.simps)
  fix d
  assume d: "d \<in> set (federation_deliveries db)"
  show "if fd_status d = ''failed'' then fd_status (row_rounds cf db (t # ts) d) = ''dead_letter'' \<and>
      fd_attempts (row_rounds cf db (t # ts) d) = cf_federation_max_delivery_attempts cf
    else row_rounds cf db (t # ts) d = d"
  proof (cases "fd_status d = ''failed''")
    case True
    have "fd_status (row_rounds cf db (t # ts) d) = ''dead_letter'' \<and>
        fd_attempts (row_rounds cf db (t # ts) d) = cf_federation_max_delivery_attempts cf"
      by (rule row_rounds_dead [OF assms(2) _ True assms(4)])
        (use assms(1) assms(3) [OF d True] d True in \<open>auto simp: retriable_def deliveries_ok_def delivery_ok_def\<close>)
    then show ?thesis using True by simp
  qed (metis row_rounds_settled)
qed

definition sample_failed :: db where
  "sample_failed = sample_server\<lparr>federation_deliveries :=
     [(pending_row 5 ''a'' ''ann'' ''https://b.org/in'' 0)\<lparr>fd_status := ''failed'', fd_attempts := 3,
        fd_next_attempt_at := Some 10\<rparr>,
      (pending_row 6 ''b'' ''ann'' ''https://b.org/in'' 0)]\<rparr>"

theorem retries_settle_witness:
  "map fd_status (federation_deliveries (retry_rounds sample_config [20, 20 + longest_wait] sample_failed)) =
     [''dead_letter'', ''pending'']"
proof -
  let ?d = "(pending_row 5 ''a'' ''ann'' ''https://b.org/in'' 0)\<lparr>fd_status := ''failed'', fd_attempts := 3,
        fd_next_attempt_at := Some 10\<rparr>"
  have rows: "federation_deliveries sample_failed = [?d, pending_row 6 ''b'' ''ann'' ''https://b.org/in'' 0]"
    by (simp add: sample_failed_def)
  have "deliveries_ok sample_config sample_failed"
    by (simp add: deliveries_ok_def rows distinct_key_def delivery_ok_def pending_row_def in_i32_def i32_min_def
        i32_max_def sample_config_def)
  moreover have "in_i32 (cf_federation_max_delivery_attempts sample_config)" "spaced [20, 20 + longest_wait]"
    by (simp_all add: sample_config_def in_i32_def i32_min_def i32_max_def spaced_def)
  moreover have left: "the (fd_next_attempt_at d) \<le> 20 \<and> cf_federation_max_delivery_attempts sample_config - fd_attempts d \<le>
      int (length [20, 20 + longest_wait])" if "d \<in> set (federation_deliveries sample_failed)" "fd_status d = ''failed''" for d
    using that by (auto simp: rows sample_config_def pending_row_def)
  ultimately obtain settle where
    "federation_deliveries (retry_rounds sample_config [20, 20 + longest_wait] sample_failed) =
       map settle (federation_deliveries sample_failed)"
    "\<forall>d \<in> set (federation_deliveries sample_failed). if fd_status d = ''failed''
        then fd_status (settle d) = ''dead_letter'' \<and> fd_attempts (settle d) = cf_federation_max_delivery_attempts sample_config
        else settle d = d"
    using retries_settle [of sample_config sample_failed 20 "[20 + longest_wait]"] left by blast
  then show ?thesis by (simp add: rows pending_row_def del: retry_rounds.simps)
qed

end
