(* ===== verification/Push_Service.thy ===== *)
theory Push_Service
  imports Server_Io
begin

text \<open>
  Push notifications: the device tokens (src/src/services/push_token_service.rs and
  src/src/routes/push.rs), Apple's push service (src/src/services/apns_service.rs) and the
  dispatch to Apple and to the webhook relay (src/src/services/push_dispatch_service.rs).

  The record \<open>push_env\<close> holds the third-party code: the answer to a posted request, the JSON
  parser, the base64 and UTF-8 decoder, the ES256 signer and the library texts in error messages.
  A function that talks to the network returns its result and the requests it has sent.
\<close>

section \<open>Device tokens\<close>

definition upsert_token ::
  "uuid \<Rightarrow> uuid \<Rightarrow> string \<Rightarrow> string \<Rightarrow> string \<Rightarrow> instant \<Rightarrow> db \<Rightarrow> (device_push_token \<times> db) result" where
  "upsert_token fresh_id user_id platform token token_kind now db =
    (if platform \<notin> {''ios'', ''android'', ''macos'', ''windows'', ''linux'', ''web'', ''unknown''} \<or>
        token_kind \<notin> {''default'', ''voip''}
     then Inl (Database CheckViolation)
     else if find_row dpt_token (device_push_tokens db) token = None \<and>
        exists_row (\<lambda>t. dpt_id t = fresh_id) (device_push_tokens db)
     then Inl (Database UniqueViolation)
     else if \<not> user_exists db user_id then Inl (Database ForeignKeyViolation)
     else
       let db' = db\<lparr>device_push_tokens := upsert_row dpt_token
             \<lparr>dpt_id = fresh_id, dpt_user_id = user_id, dpt_platform = platform, dpt_token = token,
              dpt_created_at = now, dpt_updated_at = now, dpt_last_seen_at = Some now,
              dpt_token_kind = token_kind\<rparr>
             (\<lambda>t. t\<lparr>dpt_user_id := user_id, dpt_platform := platform, dpt_updated_at := now,
                dpt_last_seen_at := Some now, dpt_token_kind := token_kind\<rparr>)
             (device_push_tokens db)\<rparr>
       in and_then (ok_or (Database RowNotFound) (find_row dpt_token (device_push_tokens db') token))
            (\<lambda>t. Inr (t, db')))"

definition unregister_token :: "uuid \<Rightarrow> string \<Rightarrow> db \<Rightarrow> int \<times> db" where
  "unregister_token user_id token db =
    (let P = (\<lambda>t. dpt_user_id t = user_id \<and> dpt_token t = token)
     in (count_rows P (device_push_tokens db),
         db\<lparr>device_push_tokens := delete_rows P (device_push_tokens db)\<rparr>))"

definition list_tokens_for_user :: "db \<Rightarrow> uuid \<Rightarrow> device_push_token list" where
  "list_tokens_for_user db user_id = filter (\<lambda>t. dpt_user_id t = user_id) (device_push_tokens db)"

definition TOKEN_MIN_LEN :: nat where "TOKEN_MIN_LEN = 16"
definition TOKEN_MAX_LEN :: nat where "TOKEN_MAX_LEN = 1024"

definition normalize_platform :: "string option \<Rightarrow> string result" where
  "normalize_platform raw =
    (let normalized = to_lowercase (trim (case raw of None \<Rightarrow> ''unknown'' | Some p \<Rightarrow> p))
     in if normalized \<in> {''ios'', ''android'', ''macos'', ''windows'', ''linux'', ''web'', ''unknown''}
        then Inr normalized else Inl (BadRequest ''Unsupported platform''))"

definition normalize_token_kind :: "string option \<Rightarrow> string result" where
  "normalize_token_kind raw =
    (let normalized = to_lowercase (trim (case raw of None \<Rightarrow> ''default'' | Some k \<Rightarrow> k))
     in if normalized \<in> {''default'', ''voip''} then Inr normalized
        else Inl (BadRequest ''Unsupported token_kind''))"

definition validate_token :: "string \<Rightarrow> string result" where
  "validate_token raw =
    (let token = trim raw
     in if TOKEN_MIN_LEN \<le> length token \<and> length token \<le> TOKEN_MAX_LEN then Inr token
        else Inl (BadRequest ''Push token length is invalid''))"

record push_token_request =
  pq_token :: string
  pq_platform :: "string option"
  pq_token_kind :: "string option"

definition register_push_token ::
  "externals \<Rightarrow> claims \<Rightarrow> push_token_request \<Rightarrow> uuid \<Rightarrow> instant \<Rightarrow> db \<Rightarrow> db result" where
  "register_push_token ex auth body fresh_id now db =
     and_then (claims_user_id ex auth) (\<lambda>user_id.
     and_then (validate_token (pq_token body)) (\<lambda>token.
     and_then (normalize_platform (pq_platform body)) (\<lambda>platform.
     and_then (normalize_token_kind (pq_token_kind body)) (\<lambda>token_kind.
     and_then (upsert_token fresh_id user_id platform token token_kind now db) (\<lambda>(_, db). Inr db)))))"

definition unregister_push_token :: "externals \<Rightarrow> claims \<Rightarrow> push_token_request \<Rightarrow> db \<Rightarrow> db result" where
  "unregister_push_token ex auth body db =
     and_then (claims_user_id ex auth) (\<lambda>user_id.
     and_then (validate_token (pq_token body)) (\<lambda>token.
     Inr (snd (unregister_token user_id token db))))"

section \<open>Apple's push service\<close>

record push_request =
  pr_url :: string
  pr_headers :: "(string \<times> string) list"
  pr_body :: json

record push_env =
  px_post :: "push_request \<Rightarrow> string + nat \<times> string"
  px_parse_json :: "string \<Rightarrow> json option"
  px_decode :: "string \<Rightarrow> string + string"
  px_from_utf8 :: "string \<Rightarrow> string + string"
  px_from_ec_pem :: "string \<Rightarrow> string + string"
  px_encode_es256 :: "string \<Rightarrow> string \<Rightarrow> int \<Rightarrow> string \<Rightarrow> string + string"
  px_show_status :: "nat \<Rightarrow> string"
  px_debug :: "app_error \<Rightarrow> string"
  px_debug_transport :: "string \<Rightarrow> string"
  px_show_uuid :: "uuid \<Rightarrow> string"

definition APNS_PRODUCTION_URL :: string where "APNS_PRODUCTION_URL = ''https://api.push.apple.com''"
definition APNS_SANDBOX_URL :: string where "APNS_SANDBOX_URL = ''https://api.sandbox.push.apple.com''"

record apns_config =
  ac_team_id :: string
  ac_key_id :: string
  ac_bundle_id :: string
  ac_private_key_pem :: string
  ac_use_sandbox :: bool

text \<open>\<open>str::replace\<close> of the two characters backslash and \<open>n\<close> by a line feed.\<close>

fun unescape_newlines :: "string \<Rightarrow> string" where
  "unescape_newlines (a # b # s) =
     (if a = CHR 0x5C \<and> b = CHR ''n'' then CHR 0x0A # unescape_newlines s
      else a # unescape_newlines (b # s))"
| "unescape_newlines s = s"

definition normalize_apns_private_key :: "push_env \<Rightarrow> string \<Rightarrow> string result" where
  "normalize_apns_private_key px raw =
    (let trimmed = trim raw
     in if contains trimmed ''-----BEGIN'' then Inr (unescape_newlines trimmed)
        else case px_decode px trimmed of
               Inl e \<Rightarrow> Inl (BadRequest (''Invalid APNS_PRIVATE_KEY_P8 base64: '' @ e))
             | Inr decoded \<Rightarrow>
                (case px_from_utf8 px decoded of
                   Inl e \<Rightarrow> Inl (BadRequest (''Invalid APNS_PRIVATE_KEY_P8 UTF-8: '' @ e))
                 | Inr s \<Rightarrow> Inr (unescape_newlines s)))"

definition parse_apns_config :: "push_env \<Rightarrow> config \<Rightarrow> apns_config option" where
  "parse_apns_config px cf =
    (case (cf_apns_team_id cf, cf_apns_key_id cf, cf_apns_bundle_id cf, cf_apns_private_key_p8 cf) of
       (Some team, Some key, Some bundle, Some private) \<Rightarrow>
         let team = trim team; key = trim key; bundle = trim bundle; private = trim private
         in if team = [] \<or> key = [] \<or> bundle = [] \<or> private = [] then None
            else (case normalize_apns_private_key px private of
                Inl _ \<Rightarrow> None
              | Inr pem \<Rightarrow> Some \<lparr>ac_team_id = team, ac_key_id = key, ac_bundle_id = bundle,
                   ac_private_key_pem = pem, ac_use_sandbox = cf_apns_use_sandbox cf\<rparr>)
     | _ \<Rightarrow> None)"

definition make_apns_jwt :: "push_env \<Rightarrow> apns_config \<Rightarrow> instant \<Rightarrow> string result" where
  "make_apns_jwt px ac now =
    (case px_from_ec_pem px (ac_private_key_pem ac) of
       Inl e \<Rightarrow> Inl (Internal (''Invalid APNs private key: '' @ e))
     | Inr key \<Rightarrow>
        (case px_encode_es256 px (ac_key_id ac) (ac_team_id ac) (timestamp now) key of
           Inl e \<Rightarrow> Inl (Internal (''Failed to encode APNs JWT: '' @ e))
         | Inr token \<Rightarrow> Inr token))"

definition apns_url :: "apns_config \<Rightarrow> string \<Rightarrow> string" where
  "apns_url ac token =
     (if ac_use_sandbox ac then APNS_SANDBOX_URL else APNS_PRODUCTION_URL) @ ''/3/device/'' @ token"

definition show_int :: "int \<Rightarrow> string" where
  "show_int i = (if i < 0 then ''-'' @ show_nat (nat (- i)) else show_nat (nat i))"

definition apns_headers :: "string \<Rightarrow> string \<Rightarrow> string \<Rightarrow> int \<Rightarrow> (string \<times> string) list" where
  "apns_headers auth_token topic push_type expiration =
     [(''authorization'', ''bearer '' @ auth_token), (''apns-topic'', topic), (''apns-push-type'', push_type),
      (''apns-priority'', ''10''), (''apns-expiration'', show_int expiration)]"

text \<open>
  The loop over the tokens, shared in shape by the three senders: a transport error ends it, a
  refusal is collected.
\<close>

fun apns_loop ::
  "push_env \<Rightarrow> (string \<Rightarrow> push_request) \<Rightarrow> (string \<Rightarrow> string \<Rightarrow> string) \<Rightarrow> string list \<Rightarrow> string list \<Rightarrow>
     string list result \<times> push_request list" where
  "apns_loop px req transport [] failures = (Inr failures, [])"
| "apns_loop px req transport (t # ts) failures =
    (case px_post px (req t) of
       Inl e \<Rightarrow> (Inl (Internal (transport e t)), [req t])
     | Inr (status, body) \<Rightarrow>
         let failures = (if is_success status then failures
               else failures @ [''token='' @ t @ '' status='' @ px_show_status px status @ '' body='' @ body]);
             (r, sent) = apns_loop px req transport ts failures
         in (r, req t # sent))"

definition apns_send ::
  "push_env \<Rightarrow> apns_config \<Rightarrow> (string \<Rightarrow> string \<Rightarrow> push_request) \<Rightarrow> (string \<Rightarrow> string \<Rightarrow> string) \<Rightarrow> string \<Rightarrow>
     string list \<Rightarrow> instant \<Rightarrow> unit result \<times> push_request list" where
  "apns_send px ac req transport label tokens now =
    (if tokens = [] then (Inr (), [])
     else case make_apns_jwt px ac now of
            Inl e \<Rightarrow> (Inl e, [])
          | Inr auth_token \<Rightarrow>
             (case apns_loop px (req auth_token) transport tokens [] of
                (Inl e, sent) \<Rightarrow> (Inl e, sent)
              | (Inr failures, sent) \<Rightarrow>
                 (if failures = [] then Inr ()
                  else Inl (Internal (label @ show_nat (length failures) @ '' target(s): '' @ join '' | '' failures)),
                  sent)))"

definition aps_alert :: "string \<Rightarrow> json" where
  "aps_alert body = JObj [(''alert'', JObj [(''title'', JStr ''Sync''), (''body'', JStr body)]), (''sound'', JStr ''default'')]"

definition send_alert_to_tokens ::
  "push_env \<Rightarrow> apns_config \<Rightarrow> string list \<Rightarrow> uuid \<Rightarrow> uuid \<Rightarrow> uuid \<Rightarrow> string \<Rightarrow> instant \<Rightarrow>
     unit result \<times> push_request list" where
  "send_alert_to_tokens px ac tokens recipient_id sender_id message_id preview now =
     apns_send px ac
       (\<lambda>auth_token token. \<lparr>pr_url = apns_url ac token,
          pr_headers = apns_headers auth_token (ac_bundle_id ac) ''alert'' (timestamp now + 86400),
          pr_body = JObj [(''aps'', aps_alert preview), (''message_id'', JStr (px_show_uuid px message_id)),
            (''sender_id'', JStr (px_show_uuid px sender_id)),
            (''recipient_id'', JStr (px_show_uuid px recipient_id))]\<rparr>)
       (\<lambda>e token. ''APNs send request failed: '' @ e @ ''; debug='' @ px_debug_transport px e @
          ''; url='' @ apns_url ac token)
       ''APNs returned errors for '' tokens now"

definition send_call_alert_to_tokens ::
  "push_env \<Rightarrow> apns_config \<Rightarrow> string list \<Rightarrow> uuid \<Rightarrow> uuid \<Rightarrow> uuid \<Rightarrow> string \<Rightarrow> instant \<Rightarrow>
     unit result \<times> push_request list" where
  "send_call_alert_to_tokens px ac tokens callee_id caller_id call_id call_type now =
    (let call_label = (if eq_ignore_ascii_case call_type ''video'' then ''Incoming video call''
                       else ''Incoming voice call'')
     in apns_send px ac
       (\<lambda>auth_token token. \<lparr>pr_url = apns_url ac token,
          pr_headers = apns_headers auth_token (ac_bundle_id ac) ''alert'' (timestamp now + 55),
          pr_body = JObj [(''aps'', aps_alert call_label), (''call_id'', JStr (px_show_uuid px call_id)),
            (''caller_id'', JStr (px_show_uuid px caller_id)), (''callee_id'', JStr (px_show_uuid px callee_id)),
            (''call_type'', JStr call_type)]\<rparr>)
       (\<lambda>e token. ''APNs call send failed: '' @ e) ''APNs call alerts failed for '' tokens now)"

definition send_voip_call_push_to_tokens ::
  "push_env \<Rightarrow> apns_config \<Rightarrow> string list \<Rightarrow> uuid \<Rightarrow> uuid \<Rightarrow> string \<Rightarrow> uuid \<Rightarrow> string \<Rightarrow> instant \<Rightarrow>
     unit result \<times> push_request list" where
  "send_voip_call_push_to_tokens px ac tokens callee_id caller_id caller_display_name call_id call_type now =
     apns_send px ac
       (\<lambda>auth_token token. \<lparr>pr_url = apns_url ac token,
          pr_headers = apns_headers auth_token (ac_bundle_id ac @ ''.voip'') ''voip'' (timestamp now + 55),
          pr_body = JObj [(''call_id'', JStr (px_show_uuid px call_id)),
            (''caller_id'', JStr (px_show_uuid px caller_id)), (''caller_display_name'', JStr caller_display_name),
            (''callee_id'', JStr (px_show_uuid px callee_id)), (''call_type'', JStr call_type)]\<rparr>)
       (\<lambda>e token. ''APNs VoIP call send failed: '' @ e) ''APNs VoIP call pushes failed for '' tokens now"

section \<open>Dispatch\<close>

definition DEFAULT_RELAY_WEBHOOK_URL :: string where
  "DEFAULT_RELAY_WEBHOOK_URL = ''https://push.sync.icyanstudio.net/v1/push/webhook''"

definition is_relay_deliverable_platform :: "string \<Rightarrow> bool" where
  "is_relay_deliverable_platform platform \<longleftrightarrow> to_lowercase (trim platform) \<in> {''android'', ''fcm''}"

definition is_object :: "json option \<Rightarrow> bool" where
  "is_object j = (case j of Some (JObj _) \<Rightarrow> True | _ \<Rightarrow> False)"

definition is_encrypted_payload :: "push_env \<Rightarrow> string \<Rightarrow> bool" where
  "is_encrypted_payload px content =
    (let trimmed = trim content
     in if \<not> is_prefix ''{'' trimmed then False
        else (case px_parse_json px trimmed of
            Some (JObj m) \<Rightarrow> json_get ''v'' (JObj m) = Some (JInt 1) \<and>
              is_object (json_get ''recipient'' (JObj m)) \<and> is_object (json_get ''sender'' (JObj m))
          | _ \<Rightarrow> False))"

definition truncate_push_preview :: "push_env \<Rightarrow> string \<Rightarrow> nat \<Rightarrow> string" where
  "truncate_push_preview px content max_chars =
    (if is_encrypted_payload px content then ''Sent you a new message''
     else
       let trimmed = trim content
       in if length trimmed \<le> max_chars then trimmed else take max_chars trimmed @ ''...'')"

text \<open>A target: the platform, the token and its kind.\<close>

record push_target =
  pt_platform :: string
  pt_token :: string
  pt_token_kind :: string

definition target_of :: "device_push_token \<Rightarrow> push_target" where
  "target_of t = \<lparr>pt_platform = dpt_platform t, pt_token = dpt_token t, pt_token_kind = dpt_token_kind t\<rparr>"

definition is_ios :: "push_target \<Rightarrow> bool" where
  "is_ios t = eq_ignore_ascii_case (pt_platform t) ''ios''"

definition relayable :: "push_target \<Rightarrow> bool" where
  "relayable t \<longleftrightarrow> \<not> is_ios t \<and> is_relay_deliverable_platform (pt_platform t)"

definition webhook_url_of :: "db \<Rightarrow> string" where
  "webhook_url_of db =
    (case setting_value db SETTING_WEBHOOK_URL of
       Some url \<Rightarrow> if trim url = [] then DEFAULT_RELAY_WEBHOOK_URL else url
     | None \<Rightarrow> DEFAULT_RELAY_WEBHOOK_URL)"

definition json_target :: "push_target \<Rightarrow> json" where
  "json_target t = JObj [(''platform'', JStr (pt_platform t)), (''token'', JStr (pt_token t)),
     (''token_kind'', JStr (pt_token_kind t))]"

definition webhook_post ::
  "push_env \<Rightarrow> config \<Rightarrow> string \<Rightarrow> string \<Rightarrow> json \<Rightarrow> unit result \<times> push_request list" where
  "webhook_post px cf label url payload =
    (let request = \<lparr>pr_url = url,
           pr_headers = (case cf_push_relay_shared_secret cf of
              None \<Rightarrow> [] | Some secret \<Rightarrow> [(''x-sync-push-secret'', secret)]),
           pr_body = payload\<rparr>
     in (case px_post px request of
           Inl e \<Rightarrow> Inl (Internal (label @ '' send failed: '' @ e))
         | Inr (status, body) \<Rightarrow>
             if is_success status then Inr ()
             else Inl (Internal (label @ '' returned '' @ px_show_status px status @ '': '' @ body)), [request]))"

definition send_webhook_push ::
  "push_env \<Rightarrow> config \<Rightarrow> string \<Rightarrow> push_target list \<Rightarrow> uuid \<Rightarrow> uuid \<Rightarrow> uuid \<Rightarrow> string \<Rightarrow>
     unit result \<times> push_request list" where
  "send_webhook_push px cf url targets recipient_id sender_id message_id preview =
     webhook_post px cf ''Push webhook'' url
       (JObj [(''event'', JStr ''new_message''), (''recipient_id'', JStr (px_show_uuid px recipient_id)),
         (''sender_id'', JStr (px_show_uuid px sender_id)), (''message_id'', JStr (px_show_uuid px message_id)),
         (''message_preview'', JStr preview), (''targets'', JArr (map json_target targets))])"

record call_push_context =
  cc_callee_id :: uuid
  cc_caller_id :: uuid
  cc_caller_display_name :: string
  cc_call_id :: uuid
  cc_call_type :: string

definition send_call_webhook_push ::
  "push_env \<Rightarrow> config \<Rightarrow> string \<Rightarrow> push_target list \<Rightarrow> call_push_context \<Rightarrow> unit result \<times> push_request list" where
  "send_call_webhook_push px cf url targets call =
     webhook_post px cf ''Call push webhook'' url
       (JObj [(''event'', JStr ''incoming_call''), (''recipient_id'', JStr (px_show_uuid px (cc_callee_id call))),
         (''caller_id'', JStr (px_show_uuid px (cc_caller_id call))),
         (''caller_display_name'', JStr (cc_caller_display_name call)),
         (''call_id'', JStr (px_show_uuid px (cc_call_id call))), (''call_type'', JStr (cc_call_type call)),
         (''targets'', JArr (map json_target targets))])"

text \<open>The errors of a dispatch, joined; and the outcome of one sender as an error text.\<close>

definition dispatch_outcome :: "string list \<Rightarrow> unit result" where
  "dispatch_outcome errors = (if errors = [] then Inr () else Inl (Internal (join ''; '' errors)))"

definition error_of :: "push_env \<Rightarrow> string \<Rightarrow> unit result \<Rightarrow> string list" where
  "error_of px label r = (case r of Inr _ \<Rightarrow> [] | Inl e \<Rightarrow> [label @ px_debug px e])"

text \<open>
  What the mode makes of the targets of a message: the errors, the requests sent to Apple and
  the targets left for the webhook.
\<close>

definition route_message ::
  "push_env \<Rightarrow> config \<Rightarrow> uuid \<Rightarrow> uuid \<Rightarrow> uuid \<Rightarrow> string \<Rightarrow> instant \<Rightarrow> push_target list \<Rightarrow>
     string list \<times> push_request list \<times> push_target list" where
  "route_message px cf recipient_id sender_id message_id preview now targets =
    (let ios = filter is_ios targets; webhook = filter relayable targets;
         alert = (\<lambda>ac. send_alert_to_tokens px ac (map pt_token ios) recipient_id sender_id message_id preview now)
     in case cf_push_delivery_mode cf of
          Relay \<Rightarrow> ([], [], webhook @ ios)
        | Direct \<Rightarrow>
            (if ios = [] then ([], [], webhook)
             else case parse_apns_config px cf of
                    None \<Rightarrow> ([], [], webhook)
                  | Some ac \<Rightarrow> (case alert ac of (r, sent) \<Rightarrow>
                      (error_of px ''APNs dispatch failed: '' r, sent, webhook)))
        | Hybrid \<Rightarrow>
            (if ios = [] then ([], [], webhook)
             else case parse_apns_config px cf of
                    None \<Rightarrow> ([], [], webhook @ ios)
                  | Some ac \<Rightarrow> (case alert ac of
                      (Inr _, sent) \<Rightarrow> ([], sent, webhook)
                    | (Inl _, sent) \<Rightarrow> ([], sent, webhook @ ios))))"

definition dispatch_new_message ::
  "push_env \<Rightarrow> config \<Rightarrow> uuid \<Rightarrow> uuid \<Rightarrow> uuid \<Rightarrow> string \<Rightarrow> instant \<Rightarrow> db \<Rightarrow> unit result \<times> push_request list" where
  "dispatch_new_message px cf recipient_id sender_id message_id message_content now db =
    (let targets = map target_of (list_tokens_for_user db recipient_id);
         preview = truncate_push_preview px message_content 140
     in if targets = [] then (Inr (), [])
        else (case route_message px cf recipient_id sender_id message_id preview now targets of
            (errors, sent, webhook_targets) \<Rightarrow>
              if webhook_targets = [] then (dispatch_outcome errors, sent)
              else (case send_webhook_push px cf (webhook_url_of db) webhook_targets recipient_id sender_id
                       message_id preview of
                  (r, sent') \<Rightarrow>
                    (dispatch_outcome (errors @ error_of px ''Webhook dispatch failed: '' r), sent @ sent'))))"

text \<open>The same for a call, where a VoIP token of the callee silences the default ones.\<close>

definition route_call ::
  "push_env \<Rightarrow> config \<Rightarrow> call_push_context \<Rightarrow> instant \<Rightarrow> push_target list \<Rightarrow>
     string list \<times> push_request list \<times> push_target list" where
  "route_call px cf call now targets =
    (let webhook = filter relayable targets;
         voip = filter (\<lambda>t. pt_token_kind t = ''voip'') (filter is_ios targets);
         default = (if voip = [] then filter (\<lambda>t. pt_token_kind t \<noteq> ''voip'') (filter is_ios targets) else []);
         voip_push = (\<lambda>ac. if voip = [] then (Inr (), []) else
            send_voip_call_push_to_tokens px ac (map pt_token voip) (cc_callee_id call) (cc_caller_id call)
              (cc_caller_display_name call) (cc_call_id call) (cc_call_type call) now);
         alert = (\<lambda>ac. if default = [] then (Inr (), []) else
            send_call_alert_to_tokens px ac (map pt_token default) (cc_callee_id call) (cc_caller_id call)
              (cc_call_id call) (cc_call_type call) now)
     in case cf_push_delivery_mode cf of
          Relay \<Rightarrow> ([], [], webhook @ voip @ default)
        | Direct \<Rightarrow>
           (case parse_apns_config px cf of
              None \<Rightarrow> ([], [], webhook)
            | Some ac \<Rightarrow>
               (case (voip_push ac, alert ac) of
                  ((r1, sent1), (r2, sent2)) \<Rightarrow>
                    (error_of px ''APNs VoIP call dispatch failed: '' r1 @
                     error_of px ''APNs call dispatch failed: '' r2, sent1 @ sent2, webhook)))
        | Hybrid \<Rightarrow>
           (case parse_apns_config px cf of
              None \<Rightarrow> ([], [], webhook @ voip @ default)
            | Some ac \<Rightarrow>
               (case (voip_push ac, alert ac) of
                  ((r1, sent1), (r2, sent2)) \<Rightarrow>
                    ([], sent1 @ sent2,
                     webhook @ (if is_ok r1 then [] else voip) @ (if is_ok r2 then [] else default)))))"

definition dispatch_incoming_call ::
  "push_env \<Rightarrow> config \<Rightarrow> call_push_context \<Rightarrow> instant \<Rightarrow> db \<Rightarrow> unit result \<times> push_request list" where
  "dispatch_incoming_call px cf call now db =
    (let targets = map target_of (list_tokens_for_user db (cc_callee_id call))
     in if targets = [] then (Inr (), [])
        else (case route_call px cf call now targets of
            (errors, sent, webhook_targets) \<Rightarrow>
              if webhook_targets = [] then (dispatch_outcome errors, sent)
              else (case send_call_webhook_push px cf (webhook_url_of db) webhook_targets call of
                  (r, sent') \<Rightarrow>
                    (dispatch_outcome (errors @ error_of px ''Webhook call dispatch failed: '' r), sent @ sent'))))"

end
