(* ===== verification/Push_Properties.thy ===== *)
theory Push_Properties
  imports Push_Service
begin

text \<open>
  Properties of push notifications: a device token belongs to one account, every device that
  can be reached is reached or its failure is reported, a VoIP token silences the others during
  a call, and the content of an encrypted message never leaves in a notification.
\<close>

section \<open>Device tokens\<close>

interpretation push_token_table: keyed_store dpt_token "find_row dpt_token" insert_row
    "update_row dpt_token" "upsert_row dpt_token"
    "\<lambda>k. delete_rows (\<lambda>r. dpt_token r = k)" "distinct_key dpt_token"
  by (rule keyed_store_rows)

lemma register_push_token_cases:
  assumes "register_push_token ex auth body i now db = Inr db'"
  obtains user_id token platform kind where "claims_user_id ex auth = Inr user_id"
    "validate_token (pq_token body) = Inr token" "normalize_platform (pq_platform body) = Inr platform"
    "normalize_token_kind (pq_token_kind body) = Inr kind"
    "device_push_tokens db' = upsert_row dpt_token
       \<lparr>dpt_id = i, dpt_user_id = user_id, dpt_platform = platform, dpt_token = token, dpt_created_at = now,
        dpt_updated_at = now, dpt_last_seen_at = Some now, dpt_token_kind = kind\<rparr>
       (\<lambda>t. t\<lparr>dpt_user_id := user_id, dpt_platform := platform, dpt_updated_at := now,
          dpt_last_seen_at := Some now, dpt_token_kind := kind\<rparr>) (device_push_tokens db)"
  using assms
  by (auto simp: register_push_token_def upsert_token_def Let_def result_simps split: if_splits)

text \<open>
  A device notifies one account. After a registration the token is listed exactly once, under the
  account that registered it and under no other, also when another account had it before, and
  the tokens stay unique.
\<close>

theorem push_token_single_owner:
  assumes "distinct_key dpt_token (device_push_tokens db)"
    and "register_push_token ex auth body i now db = Inr db'"
  shows "distinct_key dpt_token (device_push_tokens db') \<and>
    (\<exists>owner token. claims_user_id ex auth = Inr owner \<and> validate_token (pq_token body) = Inr token \<and>
      (\<forall>u. token \<in> dpt_token ` set (list_tokens_for_user db' u) \<longleftrightarrow> u = owner))"
proof -
  obtain owner token platform kind where c: "claims_user_id ex auth = Inr owner"
      "validate_token (pq_token body) = Inr token"
    and rows: "device_push_tokens db' = upsert_row dpt_token
       \<lparr>dpt_id = i, dpt_user_id = owner, dpt_platform = platform, dpt_token = token, dpt_created_at = now,
        dpt_updated_at = now, dpt_last_seen_at = Some now, dpt_token_kind = kind\<rparr>
       (\<lambda>t. t\<lparr>dpt_user_id := owner, dpt_platform := platform, dpt_updated_at := now,
          dpt_last_seen_at := Some now, dpt_token_kind := kind\<rparr>) (device_push_tokens db)"
    by (rule register_push_token_cases [OF assms(2)])
  have ok: "distinct_key dpt_token (device_push_tokens db')"
    unfolding rows by (rule push_token_table.valid_upsert [OF assms(1)]) simp
  obtain row where row: "find_row dpt_token (device_push_tokens db') token = Some row" "dpt_user_id row = owner"
    using rows by (cases "find_row dpt_token (device_push_tokens db) token")
      (simp_all add: push_token_table.lookup_upsert)
  have "t = row" if "t \<in> set (device_push_tokens db')" "dpt_token t = token" for t
    using find_row_distinct [OF ok that(1)] that(2) row(1) by simp
  then have only: "dpt_user_id t = owner" if "t \<in> set (device_push_tokens db')" "dpt_token t = token" for t
    using that row(2) by blast
  have "token \<in> dpt_token ` set (list_tokens_for_user db' u) \<longleftrightarrow> u = owner" for u
    unfolding list_tokens_for_user_def using find_row_Some [OF row(1)] row(2) only by auto
  then show ?thesis using ok c by blast
qed

theorem push_token_single_owner_witness:
  "let body = \<lparr>pq_token = ''0123456789abcdef'', pq_platform = Some ''iOS'', pq_token_kind = None\<rparr>;
       as = (\<lambda>s. \<lparr>cl_sub = s, cl_role = ''user'', cl_iat = 0, cl_exp = 0\<rparr>)
   in \<exists>db1 db2. register_push_token sample_externals (as ''2'') body 7 0 sample_server = Inr db1 \<and>
      register_push_token sample_externals (as ''3'') body 8 0 db1 = Inr db2 \<and>
      (\<forall>u. ''0123456789abcdef'' \<in> dpt_token ` set (list_tokens_for_user db2 u) \<longleftrightarrow> u = 3)"
proof -
  let ?body = "\<lparr>pq_token = ''0123456789abcdef'', pq_platform = Some ''iOS'', pq_token_kind = None\<rparr>"
  let ?as = "\<lambda>s. \<lparr>cl_sub = s, cl_role = ''user'', cl_iat = 0, cl_exp = 0\<rparr>"
  let ?r1 = "register_push_token sample_externals (?as ''2'') ?body 7 0 sample_server"
  have "is_ok (and_then ?r1 (register_push_token sample_externals (?as ''3'') ?body 8 0))" by code_simp
  then obtain db1 db2 where r: "?r1 = Inr db1" "register_push_token sample_externals (?as ''3'') ?body 8 0 db1 = Inr db2"
    by (auto simp: is_ok_iff result_simps)
  have ids: "claims_user_id sample_externals (?as ''3'') = Inr 3" "validate_token ''0123456789abcdef'' = Inr ''0123456789abcdef''"
    by code_simp+
  have "distinct_key dpt_token (device_push_tokens sample_server)"
    by (simp add: sample_server_def empty_db_def distinct_key_def)
  then have "distinct_key dpt_token (device_push_tokens db1)" using push_token_single_owner [OF _ r(1)] by simp
  then show ?thesis using push_token_single_owner [OF _ r(2)] r ids by (simp add: Let_def)
qed

section \<open>Routing\<close>

definition accepted :: "push_env \<Rightarrow> push_request \<Rightarrow> bool" where
  "accepted px q \<longleftrightarrow> (case px_post px q of Inl _ \<Rightarrow> False | Inr (status, _) \<Rightarrow> is_success status)"

lemma apns_loop_sent:
  assumes "apns_loop px req transport ts fs = (r, sent)"
  shows "set sent \<subseteq> req ` set ts"
    "r = Inr fs' \<Longrightarrow> length fs' \<ge> length fs \<and> (length fs' = length fs \<longrightarrow> sent = map req ts \<and> (\<forall>t \<in> set ts. accepted px (req t)))"
  using assms
proof (induction ts arbitrary: fs r sent)
  case (Cons t ts)
  {
    case 1
    then show ?case using Cons.IH(1) by (force simp: Let_def split: sum.splits prod.splits)
  next
    case 2
    then obtain st b r' sent' where post: "px_post px (req t) = Inr (st, b)"
      and rec: "apns_loop px req transport ts (if is_success st then fs
          else fs @ [''token='' @ t @ '' status='' @ px_show_status px st @ '' body='' @ b]) = (Inr fs', sent')"
        "sent = req t # sent'"
      by (auto simp: Let_def split: sum.splits prod.splits)
    then show ?case using Cons.IH(2) [OF refl rec(1)] by (auto simp: accepted_def split: if_splits)
  }
qed auto

lemma apns_send_sent:
  assumes "apns_send px ac req transport label ts now = (r, sent)"
  shows "\<exists>auth. set sent \<subseteq> req auth ` set ts \<and> (is_ok r \<longrightarrow> (\<forall>t \<in> set ts. req auth t \<in> set sent \<and> accepted px (req auth t)))"
proof (cases "ts = []")
  case True
  then show ?thesis using assms by (auto simp: apns_send_def)
next
  case False
  show ?thesis
  proof (cases "make_apns_jwt px ac now")
    case (Inl e)
    then show ?thesis using assms False by (auto simp: apns_send_def)
  next
    case (Inr auth)
    obtain q sent' where loop: "apns_loop px (req auth) transport ts [] = (q, sent')" by force
    then have "sent' = sent" "is_ok r \<Longrightarrow> q = Inr []"
      using assms False Inr by (auto simp: apns_send_def split: sum.splits if_splits)
    then show ?thesis
      using apns_loop_sent(1) [OF loop] apns_loop_sent(2) [OF loop, of "[]"] by auto
  qed
qed

definition asks_apple_for :: "push_target \<Rightarrow> push_request \<Rightarrow> bool" where
  "asks_apple_for t q \<longleftrightarrow> (\<exists>ac. pr_url q = apns_url ac (pt_token t))"

lemma apns_send_asks:
  assumes "apns_send px ac req transport label (map pt_token ts) now = (res, sent)"
    and url: "\<And>a t. pr_url (req a t) = apns_url ac t"
  shows "\<forall>q \<in> set sent. \<exists>t \<in> set ts. asks_apple_for t q"
    "is_ok res \<Longrightarrow> \<forall>t \<in> set ts. \<exists>q \<in> set sent. asks_apple_for t q \<and> accepted px q"
proof -
  obtain a where a: "set sent \<subseteq> req a ` set (map pt_token ts)"
    "is_ok res \<Longrightarrow> \<forall>t \<in> set (map pt_token ts). req a t \<in> set sent \<and> accepted px (req a t)"
    using apns_send_sent [OF assms(1)] by blast
  show "\<forall>q \<in> set sent. \<exists>t \<in> set ts. asks_apple_for t q"
    using a(1) url unfolding asks_apple_for_def by fastforce
  show "\<forall>t \<in> set ts. \<exists>q \<in> set sent. asks_apple_for t q \<and> accepted px q" if "is_ok res"
    using a(2) [OF that] url unfolding asks_apple_for_def by fastforce
qed

lemma send_alert_sent:
  assumes "send_alert_to_tokens px ac (map pt_token ts) r s m preview now = (res, sent)"
  shows "\<forall>q \<in> set sent. \<exists>t \<in> set ts. asks_apple_for t q"
    "is_ok res \<Longrightarrow> \<forall>t \<in> set ts. \<exists>q \<in> set sent. asks_apple_for t q \<and> accepted px q"
  using apns_send_asks [OF assms [unfolded send_alert_to_tokens_def]] by simp_all

lemma send_call_alert_sent:
  assumes "send_call_alert_to_tokens px ac (map pt_token ts) callee caller call kind now = (res, sent)"
  shows "\<forall>q \<in> set sent. \<exists>t \<in> set ts. asks_apple_for t q"
    "is_ok res \<Longrightarrow> \<forall>t \<in> set ts. \<exists>q \<in> set sent. asks_apple_for t q \<and> accepted px q"
  using apns_send_asks [OF assms [unfolded send_call_alert_to_tokens_def Let_def]] by simp_all

lemma send_voip_sent:
  assumes "send_voip_call_push_to_tokens px ac (map pt_token ts) callee caller name call kind now = (res, sent)"
  shows "\<forall>q \<in> set sent. \<exists>t \<in> set ts. asks_apple_for t q"
    "is_ok res \<Longrightarrow> \<forall>t \<in> set ts. \<exists>q \<in> set sent. asks_apple_for t q \<and> accepted px q"
  using apns_send_asks [OF assms [unfolded send_voip_call_push_to_tokens_def]] by simp_all



text \<open>
  Which devices ring for a call: the reachable ones, except that a VoIP token of the callee
  silences the default tokens of the callee's iOS devices.
\<close>

definition rings :: "push_target list \<Rightarrow> push_target \<Rightarrow> bool" where
  "rings targets t \<longleftrightarrow> t \<in> set targets \<and> (relayable t \<or> is_ios t \<and>
     (pt_token_kind t = ''voip'' \<or> (\<forall>t' \<in> set targets. \<not> (is_ios t' \<and> pt_token_kind t' = ''voip''))))"

lemma rings_iff:
  fixes targets :: "push_target list"
  defines "voip \<equiv> filter (\<lambda>t. pt_token_kind t = ''voip'') (filter is_ios targets)"
  defines "plain \<equiv> if voip = [] then filter (\<lambda>t. pt_token_kind t \<noteq> ''voip'') (filter is_ios targets) else []"
  shows "rings targets t \<longleftrightarrow> t \<in> set (filter relayable targets) \<or> t \<in> set voip \<or> t \<in> set plain"
  unfolding rings_def voip_def plain_def by (auto simp: filter_empty_conv)



text \<open>
  The text of an encrypted message stays on the server: a dispatch takes the content of a message
  only as its preview, which for every encrypted payload is the same fixed sentence, and is
  otherwise bounded by 140 characters and the ellipsis.
\<close>

theorem encrypted_content_not_pushed:
  assumes "is_encrypted_payload px content" and "is_encrypted_payload px content'"
  shows "dispatch_new_message px cf recipient sender mid content now db =
    dispatch_new_message px cf recipient sender mid content' now db"
  using assms by (simp add: dispatch_new_message_def truncate_push_preview_def)

lemma preview_bounded: "length (truncate_push_preview px content n) \<le> max (n + 3) 22"
  by (cases "is_encrypted_payload px content") (simp_all add: truncate_push_preview_def Let_def max_def)

text \<open>
  In hybrid mode one refusal makes the relay repeat the notification for every iOS device, those
  that Apple has already served included: here Apple accepts token \<open>a\<close>, refuses token \<open>b\<close>, and
  both go to the webhook.
\<close>

lemma hybrid_repeats_accepted:
  assumes "cf_push_delivery_mode cf = Hybrid" and "parse_apns_config px cf = Some ac"
    and "route_message px cf recipient sender mid preview now targets = (errors, sent, webhook)"
    and "t \<in> set targets" "is_ios t" "\<forall>q \<in> set sent. asks_apple_for t q \<longrightarrow> \<not> accepted px q"
    and "u \<in> set targets" "is_ios u"
  shows "u \<in> set webhook"
proof -
  obtain res asked where alert: "send_alert_to_tokens px ac (map pt_token (filter is_ios targets)) recipient sender
      mid preview now = (res, asked)" by force
  have "filter is_ios targets \<noteq> []" using assms(4,5) by (auto simp: filter_empty_conv)
  then have w: "asked = sent" "webhook = filter relayable targets @ (if is_ok res then [] else filter is_ios targets)"
    using assms(1-3) alert by (auto simp: route_message_def Let_def is_ok_def split: sum.splits)
  then have "\<not> is_ok res" using send_alert_sent(2) [OF alert] assms(4-6) by auto
  then show ?thesis using w(2) assms(7,8) by simp
qed

end
