(* ===== verification/Call_Service.thy ===== *)
theory Call_Service
  imports Redis_Store
begin

text \<open>
  Voice and video calls: the records (src/src/services/call_service.rs) and the handlers of
  src/src/routes/calls.rs. The answers of HMAC-SHA1 and base64 are an argument.
\<close>

section \<open>Call records\<close>

definition create_call ::
  "uuid \<Rightarrow> uuid \<Rightarrow> uuid \<Rightarrow> string \<Rightarrow> instant \<Rightarrow> db \<Rightarrow> (call_record \<times> db) result" where
  "create_call fresh_id caller_id callee_id call_type now db =
    (let record = \<lparr>cr_id = fresh_id, cr_caller_id = caller_id, cr_callee_id = callee_id,
           cr_call_type = call_type, cr_status = ''initiated'', cr_started_at = now,
           cr_answered_at = None, cr_ended_at = None\<rparr>
     in if call_type \<notin> {''voice'', ''video''} then Inl (Database CheckViolation)
        else if exists_row (\<lambda>r. cr_id r = fresh_id) (call_records db) then Inl (Database UniqueViolation)
        else if \<not> (user_exists db caller_id \<and> user_exists db callee_id) then Inl (Database ForeignKeyViolation)
        else Inr (record, db\<lparr>call_records := insert_row record (call_records db)\<rparr>))"

definition update_status :: "uuid \<Rightarrow> string \<Rightarrow> instant \<Rightarrow> db \<Rightarrow> db" where
  "update_status record_id new_status now db =
    (if new_status = ''answered''
     then db\<lparr>call_records := update_row cr_id record_id
            (\<lambda>r. r\<lparr>cr_status := ''answered'', cr_answered_at := Some now\<rparr>) (call_records db)\<rparr>
     else if new_status \<in> {''ended'', ''rejected'', ''missed'', ''failed''}
     then db\<lparr>call_records := update_row cr_id record_id
            (\<lambda>r. r\<lparr>cr_status := new_status, cr_ended_at := Some now\<rparr>) (call_records db)\<rparr>
     else db)"

definition find_call :: "db \<Rightarrow> uuid \<Rightarrow> call_record option" where
  "find_call db call_id = find_row cr_id (call_records db) call_id"

definition is_call_participant :: "db \<Rightarrow> uuid \<Rightarrow> uuid \<Rightarrow> bool" where
  "is_call_participant db call_id user_id =
    (case find_row cr_id (call_records db) call_id of
       None \<Rightarrow> False
     | Some r \<Rightarrow> cr_caller_id r = user_id \<or> cr_callee_id r = user_id)"

definition history_for_user :: "db \<Rightarrow> uuid \<Rightarrow> nat \<Rightarrow> call_record list" where
  "history_for_user db user_id limit =
     take limit (sort_key (\<lambda>r. - cr_started_at r)
       (filter (\<lambda>r. cr_caller_id r = user_id \<or> cr_callee_id r = user_id) (call_records db)))"

section \<open>Handlers\<close>

definition TURN_CREDENTIAL_TTL_SECS :: nat where "TURN_CREDENTIAL_TTL_SECS = 3600"

definition call_history :: "externals \<Rightarrow> claims \<Rightarrow> db \<Rightarrow> call_record list result" where
  "call_history ex auth db =
     and_then (claims_user_id ex auth) (\<lambda>user_id. Inr (history_for_user db user_id 50))"

record ice_server_entry =
  ice_urls :: string
  ice_username :: "string option"
  ice_credential :: "string option"

definition ice_servers :: "(string \<Rightarrow> string \<Rightarrow> string) \<Rightarrow> config \<Rightarrow> instant \<Rightarrow> ice_server_entry list" where
  "ice_servers hmac_sha1_base64 cf now =
    [\<lparr>ice_urls = ''stun:stun.l.google.com:19302'', ice_username = None, ice_credential = None\<rparr>,
     \<lparr>ice_urls = ''stun:stun1.l.google.com:19302'', ice_username = None, ice_credential = None\<rparr>] @
    (case cf_turn_secret cf of
       None \<Rightarrow> []
     | Some secret \<Rightarrow>
        let expiry = nat (timestamp now) + TURN_CREDENTIAL_TTL_SECS;
            username = show_nat expiry;
            credential = hmac_sha1_base64 secret username
        in [\<lparr>ice_urls = ''turn:'' @ cf_instance_domain cf @ '':3478'',
             ice_username = Some username, ice_credential = Some credential\<rparr>,
            \<lparr>ice_urls = ''turns:'' @ cf_instance_domain cf @ '':5349?transport=tcp'',
             ice_username = Some username, ice_credential = Some credential\<rparr>])"

definition get_call_offer ::
  "externals \<Rightarrow> 'r redis \<Rightarrow> claims \<Rightarrow> uuid \<Rightarrow> instant \<Rightarrow> db \<Rightarrow> 'r \<Rightarrow> (uuid \<times> string) result \<times> 'r" where
  "get_call_offer ex R auth call_id now db r =
    (case and_then (claims_user_id ex auth) (\<lambda>user_id.
          and_then (ok_or NotFound (find_call db call_id)) (\<lambda>record.
          guard_err (cr_callee_id record = user_id) Forbidden)) of
       Inl e \<Rightarrow> (Inl e, r)
     | Inr _ \<Rightarrow>
        (case rd_connect R r of
           Some e \<Rightarrow> (Inl (Internal (''Redis connection error: '' @ e)), r)
         | None \<Rightarrow>
            (case rd_get_del R now (call_offer_key (ex_show_uuid ex) call_id) r of
               (Inl e, r') \<Rightarrow> (Inl (Internal (''Redis GETDEL error: '' @ e)), r')
             | (Inr sdp_offer, r') \<Rightarrow>
                (case sdp_offer of
                   Some s \<Rightarrow> if s \<noteq> [] then Inr (call_id, s) else Inl NotFound
                 | None \<Rightarrow> Inl NotFound, r'))))"

end
