(* ===== verification/Ws_Session.thy ===== *)
theory Ws_Session
  imports Call_Service User_Service
begin

text \<open>
  The WebSocket session (src/src/ws/session.rs) and its upgrade handler (src/src/routes/ws.rs).

  One iteration of the session loop is \<open>ws_step\<close>: its input is the arm of the select that fires,
  its result the new state, what is sent to the client, the attempts to publish and the pushes,
  and whether the loop goes on. Whether a frame can still be sent to the client is part of the
  input; the JSON parser of client events is a parameter. Frames that the loop ignores do not
  touch the heartbeat. The end of the client stream only disables its arm.
\<close>

section \<open>Events\<close>

datatype server_event =
    SvPong
  | SvError string
  | SvCallCreated uuid uuid
  | SvIncomingCall uuid uuid string string
  | SvCallAnswered uuid uuid string
  | SvCallRejected uuid uuid
  | SvCallHangup uuid uuid
  | SvIceCandidate uuid uuid string "string option" "nat option"

datatype client_event =
    ClPing
  | ClTyping uuid bool
  | ClCallOffer uuid string string
  | ClCallAnswer uuid uuid string
  | ClCallReject uuid uuid
  | ClCallHangup uuid uuid
  | ClIceCandidate uuid uuid string "string option" "nat option"

datatype frame = TextFrame string | PingFrame string | CloseFrame | BrokenFrame | OtherFrame

datatype arm = ClientFrame frame | RedisPayload string | HeartbeatTick

text \<open>What is sent to the client: an event, a relayed payload, the answer to a ping frame.\<close>

datatype reply = SendEvent server_event | SendPayload string | SendPong string

datatype control = Continue | Break

section \<open>The session\<close>

definition CLIENT_TIMEOUT :: int where "CLIENT_TIMEOUT = 60 * second_us"

definition CALL_OFFER_TTL :: nat where "CALL_OFFER_TTL = 60"

text \<open>What is fixed during a session.\<close>

record 'r ws_env =
  we_user_id :: uuid
  we_publish_conn :: bool
  we_redis :: "'r redis"
  we_show_uuid :: "uuid \<Rightarrow> string"
  we_parse_event :: "string \<Rightarrow> client_event option"

record 'r ws_state =
  ws_last_heartbeat :: instant
  ws_active_call :: "(uuid \<times> uuid) option"
  ws_db :: db
  ws_redis :: 'r

definition relay :: "'r ws_env \<Rightarrow> uuid \<Rightarrow> event \<Rightarrow> effect list" where
  "relay we peer e =
     (if we_publish_conn we then [Publish (user_channel (we_show_uuid we) peer) e] else [])"

definition caller_display_name :: "db \<Rightarrow> uuid \<Rightarrow> string" where
  "caller_display_name db user_id = (case find_user db user_id of Some u \<Rightarrow> u_username u | None \<Rightarrow> [])"

definition call_offer ::
  "'r ws_env \<Rightarrow> uuid \<Rightarrow> string \<Rightarrow> string \<Rightarrow> uuid \<Rightarrow> instant \<Rightarrow> bool \<Rightarrow> 'r ws_state \<Rightarrow>
     'r ws_state \<times> reply list \<times> effect list \<times> control" where
  "call_offer we callee_id call_type sdp_offer fresh_id now sendable s =
    (case create_call fresh_id (we_user_id we) callee_id call_type now (ws_db s) of
       Inl _ \<Rightarrow> (s, [], [], Continue)
     | Inr (record, db) \<Rightarrow>
        let call_id = cr_id record;
            s = s\<lparr>ws_db := db\<rparr>;
            ack = [SendEvent (SvCallCreated call_id callee_id)]
        in if \<not> sendable then (s, ack, [], Break)
           else
             let s = s\<lparr>ws_active_call := Some (call_id, callee_id)\<rparr>;
                 s = (if we_publish_conn we
                      then s\<lparr>ws_redis := snd (rd_set_ex (we_redis we) now
                             (call_offer_key (we_show_uuid we) call_id) sdp_offer CALL_OFFER_TTL (ws_redis s))\<rparr>
                      else s)
             in (s, ack,
                 relay we callee_id (RelayIncomingCall call_id (we_user_id we) call_type sdp_offer) @
                 [PushCall callee_id (we_user_id we) (caller_display_name (ws_db s) (we_user_id we)) call_id call_type],
                 Continue))"

text \<open>The guard of the four signalling events.\<close>

definition as_participant ::
  "'r ws_env \<Rightarrow> uuid \<Rightarrow> ('r ws_state \<times> effect list) \<Rightarrow> 'r ws_state \<Rightarrow>
     'r ws_state \<times> reply list \<times> effect list \<times> control" where
  "as_participant we call_id allowed s =
    (if is_call_participant (ws_db s) call_id (we_user_id we)
     then (fst allowed, [], snd allowed, Continue)
     else (s, [], [], Continue))"

definition typing ::
  "'r ws_env \<Rightarrow> uuid \<Rightarrow> bool \<Rightarrow> 'r ws_state \<Rightarrow> 'r ws_state \<times> reply list \<times> effect list \<times> control" where
  "typing we partner_id is_typing s =
     (s, [], relay we partner_id (Typing (we_user_id we) partner_id is_typing), Continue)"

definition call_answer ::
  "'r ws_env \<Rightarrow> uuid \<Rightarrow> uuid \<Rightarrow> string \<Rightarrow> instant \<Rightarrow> 'r ws_state \<Rightarrow>
     'r ws_state \<times> reply list \<times> effect list \<times> control" where
  "call_answer we call_id caller_id sdp_answer now s =
     as_participant we call_id
       (s\<lparr>ws_db := update_status call_id ''answered'' now (ws_db s), ws_active_call := Some (call_id, caller_id)\<rparr>,
        relay we caller_id (RelayCallAnswer call_id (we_user_id we) sdp_answer)) s"

definition call_reject ::
  "'r ws_env \<Rightarrow> uuid \<Rightarrow> uuid \<Rightarrow> instant \<Rightarrow> 'r ws_state \<Rightarrow>
     'r ws_state \<times> reply list \<times> effect list \<times> control" where
  "call_reject we call_id caller_id now s =
     as_participant we call_id
       (s\<lparr>ws_db := update_status call_id ''rejected'' now (ws_db s), ws_active_call := None\<rparr>,
        relay we caller_id (RelayCallReject call_id (we_user_id we))) s"

definition call_hangup ::
  "'r ws_env \<Rightarrow> uuid \<Rightarrow> uuid \<Rightarrow> instant \<Rightarrow> 'r ws_state \<Rightarrow>
     'r ws_state \<times> reply list \<times> effect list \<times> control" where
  "call_hangup we call_id peer_id now s =
     as_participant we call_id
       (s\<lparr>ws_db := update_status call_id ''ended'' now (ws_db s), ws_active_call := None\<rparr>,
        relay we peer_id (RelayCallHangup call_id (we_user_id we))) s"

definition ice_candidate ::
  "'r ws_env \<Rightarrow> uuid \<Rightarrow> uuid \<Rightarrow> string \<Rightarrow> string option \<Rightarrow> nat option \<Rightarrow> 'r ws_state \<Rightarrow>
     'r ws_state \<times> reply list \<times> effect list \<times> control" where
  "ice_candidate we call_id peer_id candidate sdp_mid sdp_mline_index s =
     as_participant we call_id
       (s, relay we peer_id (RelayIceCandidate call_id (we_user_id we) candidate sdp_mid sdp_mline_index)) s"

lemmas signal_defs = typing_def call_answer_def call_reject_def call_hangup_def ice_candidate_def as_participant_def

fun handle_event ::
  "'r ws_env \<Rightarrow> client_event \<Rightarrow> uuid \<Rightarrow> instant \<Rightarrow> bool \<Rightarrow> 'r ws_state \<Rightarrow>
     'r ws_state \<times> reply list \<times> effect list \<times> control" where
  "handle_event we ClPing i now sendable s =
     (s, [SendEvent SvPong], [], if sendable then Continue else Break)"
| "handle_event we (ClTyping partner_id is_typing) i now sendable s = typing we partner_id is_typing s"
| "handle_event we (ClCallOffer callee_id call_type sdp_offer) i now sendable s =
     call_offer we callee_id call_type sdp_offer i now sendable s"
| "handle_event we (ClCallAnswer call_id caller_id sdp_answer) i now sendable s =
     call_answer we call_id caller_id sdp_answer now s"
| "handle_event we (ClCallReject call_id caller_id) i now sendable s = call_reject we call_id caller_id now s"
| "handle_event we (ClCallHangup call_id peer_id) i now sendable s = call_hangup we call_id peer_id now s"
| "handle_event we (ClIceCandidate call_id peer_id candidate sdp_mid sdp_mline_index) i now sendable s =
     ice_candidate we call_id peer_id candidate sdp_mid sdp_mline_index s"

fun ws_step ::
  "'r ws_env \<Rightarrow> arm \<Rightarrow> uuid \<Rightarrow> instant \<Rightarrow> bool \<Rightarrow> 'r ws_state \<Rightarrow>
     'r ws_state \<times> reply list \<times> effect list \<times> control" where
  "ws_step we (ClientFrame (TextFrame content)) i now sendable s =
    (let s = s\<lparr>ws_last_heartbeat := now\<rparr>
     in case we_parse_event we content of
          Some event \<Rightarrow> handle_event we event i now sendable s
        | None \<Rightarrow> (s, [], [], Continue))"
| "ws_step we (ClientFrame (PingFrame bytes)) i now sendable s =
    (s\<lparr>ws_last_heartbeat := now\<rparr>, [SendPong bytes], [], if sendable then Continue else Break)"
| "ws_step we (ClientFrame CloseFrame) i now sendable s = (s, [], [], Break)"
| "ws_step we (ClientFrame BrokenFrame) i now sendable s = (s, [], [], Break)"
| "ws_step we (ClientFrame OtherFrame) i now sendable s = (s, [], [], Continue)"
| "ws_step we (RedisPayload payload) i now sendable s =
    (s, [SendPayload payload], [], if sendable then Continue else Break)"
| "ws_step we HeartbeatTick i now sendable s =
    (s, [], [], if now - ws_last_heartbeat s > CLIENT_TIMEOUT then Break else Continue)"

text \<open>After the loop: a call in progress is ended and the peer is told.\<close>

definition ws_cleanup :: "'r ws_env \<Rightarrow> instant \<Rightarrow> 'r ws_state \<Rightarrow> 'r ws_state \<times> effect list" where
  "ws_cleanup we now s =
    (case ws_active_call s of
       None \<Rightarrow> (s, [])
     | Some (call_id, peer_id) \<Rightarrow>
         (s\<lparr>ws_active_call := None, ws_db := update_status call_id ''ended'' now (ws_db s)\<rparr>,
          relay we peer_id (RelayCallHangup call_id (we_user_id we))))"

text \<open>
  A session: the inputs in the order in which the select fires, up to the first break; between
  two inputs other handlers may change the database and Redis (\<open>in_others\<close>).
\<close>

record 'r ws_input =
  in_arm :: arm
  in_fresh_id :: uuid
  in_now :: instant
  in_sendable :: bool
  in_others :: "db \<times> 'r \<Rightarrow> db \<times> 'r"

definition interfere :: "(db \<times> 'r \<Rightarrow> db \<times> 'r) \<Rightarrow> 'r ws_state \<Rightarrow> 'r ws_state" where
  "interfere f s = (case f (ws_db s, ws_redis s) of (db, r) \<Rightarrow> s\<lparr>ws_db := db, ws_redis := r\<rparr>)"

fun run_ws_session ::
  "'r ws_env \<Rightarrow> 'r ws_input list \<Rightarrow> 'r ws_state \<Rightarrow> ('r ws_state \<times> reply list \<times> effect list) \<times> bool" where
  "run_ws_session we [] s = ((s, [], []), False)"
| "run_ws_session we (x # xs) s =
    (case ws_step we (in_arm x) (in_fresh_id x) (in_now x) (in_sendable x) (interfere (in_others x) s) of
       (s', replies, effects, Break) \<Rightarrow>
         (case ws_cleanup we (in_now x) s' of (s'', effects') \<Rightarrow> ((s'', replies, effects @ effects'), True))
     | (s', replies, effects, Continue) \<Rightarrow>
         (case run_ws_session we xs s' of
            ((s'', replies', effects'), closed) \<Rightarrow> ((s'', replies @ replies', effects @ effects'), closed)))"

section \<open>The upgrade\<close>

definition ws_handler :: "externals \<Rightarrow> config \<Rightarrow> string \<Rightarrow> instant \<Rightarrow> db \<Rightarrow> uuid result \<times> db" where
  "ws_handler ex cf token now db =
    (case and_then (ok_or Unauthorized (verify_access_token ex now token (cf_jwt_secret cf))) (\<lambda>claims.
          and_then (claims_user_id ex claims) (\<lambda>user_id.
          and_then (ok_or Unauthorized (find_user db user_id)) (\<lambda>_. Inr user_id))) of
       Inl e \<Rightarrow> (Inl e, db)
     | Inr user_id \<Rightarrow> (Inr user_id, update_last_seen user_id now db))"

end
