(* ===== verification/Call_Properties.thy ===== *)
theory Call_Properties
  imports Ws_Session
begin

text \<open>
  Properties of calls and WebSocket sessions: the call table stays consistent, a session
  touches only calls of its user and signs what it relays, a silent or closed session ends the
  call it holds, and the stashed offer reaches the callee once. At the end, what the signalling does
  not check.
\<close>

section \<open>The call table\<close>

text \<open>
  Ids are unique, the type and the status are of the enumerations, both parties exist, a call
  that was never answered nor closed has no times, and a closed one has its closing time.
\<close>

definition call_row_ok :: "call_record \<Rightarrow> bool" where
  "call_row_ok r \<longleftrightarrow> cr_call_type r \<in> {''voice'', ''video''} \<and>
    cr_status r \<in> {''initiated'', ''answered'', ''rejected'', ''missed'', ''ended'', ''failed''} \<and>
    (cr_status r = ''initiated'' \<longrightarrow> cr_answered_at r = None \<and> cr_ended_at r = None) \<and>
    (cr_status r = ''answered'' \<longrightarrow> cr_answered_at r \<noteq> None) \<and>
    (cr_status r \<in> {''rejected'', ''missed'', ''ended'', ''failed''} \<longrightarrow> cr_ended_at r \<noteq> None)"

definition calls_ok :: "db \<Rightarrow> bool" where
  "calls_ok db \<longleftrightarrow> distinct_key cr_id (call_records db) \<and> (\<forall>r \<in> set (call_records db). call_row_ok r \<and>
     user_exists db (cr_caller_id r) \<and> user_exists db (cr_callee_id r))"

lemma user_exists_calls [simp]: "user_exists (db\<lparr>call_records := rs\<rparr>) u = user_exists db u"
  by (simp add: user_exists_def find_user_def)

lemma create_call_cases:
  assumes "create_call i u v kind now db = Inr (rec, db')"
  shows "rec = \<lparr>cr_id = i, cr_caller_id = u, cr_callee_id = v, cr_call_type = kind, cr_status = ''initiated'',
      cr_started_at = now, cr_answered_at = None, cr_ended_at = None\<rparr>"
    "db' = db\<lparr>call_records := insert_row rec (call_records db)\<rparr>" "kind \<in> {''voice'', ''video''}"
    "find_call db i = None" "user_exists db u" "user_exists db v"
  using assms by (auto simp: create_call_def Let_def find_call_def find_row_None split: if_splits)

lemma create_call_ok:
  assumes "calls_ok db" "create_call i u v kind now db = Inr (rec, db')"
  shows "calls_ok db'"
proof -
  note c = create_call_cases [OF assms(2)]
  have "call_row_ok rec" using c(3) unfolding c(1) by (auto simp: call_row_ok_def)
  moreover have "distinct_key cr_id (insert_row rec (call_records db))"
    using assms(1) c(4) unfolding c(1) by (simp add: row_simps calls_ok_def find_call_def find_row_None)
  ultimately show ?thesis using assms(1) c(5,6) unfolding c(2) by (auto simp: calls_ok_def c(1))
qed

lemma update_status_rows:
  "\<exists>f. (\<forall>r. cr_id (f r) = cr_id r \<and> cr_caller_id (f r) = cr_caller_id r \<and> cr_callee_id (f r) = cr_callee_id r \<and>
      (call_row_ok r \<longrightarrow> call_row_ok (f r))) \<and>
    update_status c st now db = db\<lparr>call_records := update_row cr_id c f (call_records db)\<rparr>"
proof -
  consider (answered) "st = ''answered''" | (closed) "st \<in> {''ended'', ''rejected'', ''missed'', ''failed''}"
    | (other) "st \<notin> {''answered'', ''ended'', ''rejected'', ''missed'', ''failed''}" by auto
  then show ?thesis
  proof cases
    case answered
    then show ?thesis
      by (intro exI [where x = "\<lambda>r. r\<lparr>cr_status := ''answered'', cr_answered_at := Some now\<rparr>"])
        (auto simp: update_status_def call_row_ok_def)
  next
    case closed
    then show ?thesis
      by (intro exI [where x = "\<lambda>r. r\<lparr>cr_status := st, cr_ended_at := Some now\<rparr>"])
        (auto simp: update_status_def call_row_ok_def)
  next
    case other
    have id: "update_row cr_id c (\<lambda>r. r) rows = rows" for rows by (simp add: update_row_def update_rows_def)
    show ?thesis using other by (intro exI [where x = "\<lambda>r. r"]) (auto simp: update_status_def id)
  qed
qed

lemma update_status_ok:
  assumes "calls_ok db"
  shows "calls_ok (update_status c st now db)"
proof -
  obtain f where f: "\<And>r. cr_id (f r) = cr_id r \<and> cr_caller_id (f r) = cr_caller_id r \<and>
      cr_callee_id (f r) = cr_callee_id r \<and> (call_row_ok r \<longrightarrow> call_row_ok (f r))"
    and up: "update_status c st now db = db\<lparr>call_records := update_row cr_id c f (call_records db)\<rparr>"
    using update_status_rows by blast
  show ?thesis using assms f unfolding up
    by (auto simp: calls_ok_def row_simps update_row_def set_update_rows)
qed

lemma find_call_update_status:
  shows "c' \<noteq> c \<Longrightarrow> find_call (update_status c st now db) c' = find_call db c'"
    "is_call_participant (update_status c st now db) c' u = is_call_participant db c' u"
proof -
  obtain f where f: "\<And>r. cr_id (f r) = cr_id r \<and> cr_caller_id (f r) = cr_caller_id r \<and>
      cr_callee_id (f r) = cr_callee_id r \<and> (call_row_ok r \<longrightarrow> call_row_ok (f r))"
    and up: "update_status c st now db = db\<lparr>call_records := update_row cr_id c f (call_records db)\<rparr>"
    using update_status_rows by blast
  have row: "find_row cr_id (update_row cr_id c f (call_records db)) c' =
      (if c' = c then map_option f (find_row cr_id (call_records db) c') else find_row cr_id (call_records db) c')"
    using f by (simp add: row_simps)
  show "c' \<noteq> c \<Longrightarrow> find_call (update_status c st now db) c' = find_call db c'"
    by (simp add: find_call_def up row)
  show "is_call_participant (update_status c st now db) c' u = is_call_participant db c' u"
    using f by (auto simp: is_call_participant_def up row split: option.splits)
qed

section \<open>A session and its user\<close>

text \<open>
  What a step of a session of user \<open>u\<close> may do to the database: it changes no table but the call
  records, keeps them consistent, and every record it adds or changes has \<open>u\<close> as a party.
\<close>

definition confined :: "uuid \<Rightarrow> db \<Rightarrow> db \<Rightarrow> bool" where
  "confined u db db' \<longleftrightarrow> (\<exists>rs. db' = db\<lparr>call_records := rs\<rparr>) \<and> (calls_ok db \<longrightarrow> calls_ok db') \<and>
     (\<forall>c. find_call db' c = find_call db c \<or> is_call_participant db' c u) \<and>
     (\<forall>c. is_call_participant db c u \<longrightarrow> is_call_participant db' c u)"

lemma confined_refl [simp]: "confined u db db"
  unfolding confined_def by (auto intro: exI [where x = "call_records db"])

lemma confined_trans:
  assumes "confined u db db'" "confined u db' db''"
  shows "confined u db db''"
proof -
  obtain rs rs' where "db' = db\<lparr>call_records := rs\<rparr>" "db'' = db'\<lparr>call_records := rs'\<rparr>"
    using assms unfolding confined_def by blast
  then have "\<exists>rs. db'' = db\<lparr>call_records := rs\<rparr>" by auto
  moreover have "find_call db'' c = find_call db c \<or> is_call_participant db'' c u" for c
    using assms unfolding confined_def by metis
  ultimately show ?thesis using assms unfolding confined_def by blast
qed

lemma confined_update_status:
  "is_call_participant db c u \<Longrightarrow> confined u db (update_status c st now db)"
  using update_status_rows [of c st now db] update_status_ok [of db c st now]
  unfolding confined_def by (metis find_call_update_status)

lemma confined_create_call:
  assumes "create_call i u v kind now db = Inr (rec, db')"
  shows "confined u db db'"
proof -
  note c = create_call_cases [OF assms]
  have "find_call db' k = (if k = i then Some rec else find_call db k)" for k
    using c(4) by (auto simp: find_call_def c(1,2) row_simps split: option.splits)
  then show ?thesis
    using create_call_ok [OF _ assms] c(4) c(1,2) unfolding confined_def
    by (auto simp: is_call_participant_def find_call_def split: option.splits)
qed

text \<open>The invariant of a session: its active call, if any, is a call of its user.\<close>

definition session_ok :: "'r ws_env \<Rightarrow> 'r ws_state \<Rightarrow> bool" where
  "session_ok we s \<longleftrightarrow>
     (\<forall>c p. ws_active_call s = Some (c, p) \<longrightarrow> is_call_participant (ws_db s) c (we_user_id we))"

text \<open>Every relayed event and every push names the user of the session as its sender.\<close>

fun signed_event :: "uuid \<Rightarrow> event \<Rightarrow> bool" where
  "signed_event u (Typing sender _ _) = (sender = u)"
| "signed_event u (RelayIncomingCall _ caller _ _) = (caller = u)"
| "signed_event u (RelayCallAnswer _ callee _) = (callee = u)"
| "signed_event u (RelayCallReject _ callee) = (callee = u)"
| "signed_event u (RelayCallHangup _ from_user) = (from_user = u)"
| "signed_event u (RelayIceCandidate _ from_user _ _ _) = (from_user = u)"
| "signed_event u _ = False"

fun signed_effect :: "uuid \<Rightarrow> effect \<Rightarrow> bool" where
  "signed_effect u (Publish _ e) = signed_event u e"
| "signed_effect u (PushCall _ caller _ _ _) = (caller = u)"
| "signed_effect u (PushMessage _ _ _ _) = False"

definition step_ok :: "'r ws_env \<Rightarrow> 'r ws_state \<Rightarrow> 'r ws_state \<Rightarrow> effect list \<Rightarrow> bool" where
  "step_ok we s s' es \<longleftrightarrow> confined (we_user_id we) (ws_db s) (ws_db s') \<and> session_ok we s' \<and>
     list_all (signed_effect (we_user_id we)) es"

lemma relay_signed [simp]: "list_all (signed_effect u) (relay we p e) \<longleftrightarrow> we_publish_conn we \<longrightarrow> signed_event u e"
  by (simp add: relay_def)

lemma call_offer_step:
  assumes "call_offer we callee kind sdp i now sendable s = (s', replies, es, k)" "session_ok we s"
  shows "step_ok we s s' es"
proof (cases "create_call i (we_user_id we) callee kind now (ws_db s)")
  case (Inl e)
  then show ?thesis using assms by (auto simp: call_offer_def step_ok_def)
next
  case (Inr p)
  obtain rec db where c: "create_call i (we_user_id we) callee kind now (ws_db s) = Inr (rec, db)"
    using Inr by (cases p) auto
  have conf: "confined (we_user_id we) (ws_db s) db" by (rule confined_create_call [OF c])
  note cc = create_call_cases [OF c]
  have "is_call_participant db (cr_id rec) (we_user_id we)"
    using cc(4) unfolding cc(2) by (simp add: is_call_participant_def find_call_def row_simps cc(1))
  then show ?thesis using assms c conf
    by (auto simp: call_offer_def step_ok_def session_ok_def Let_def confined_def split: if_splits)
qed

lemma handle_event_step:
  assumes "handle_event we ev i now sendable s = (s', replies, es, k)" "session_ok we s"
  shows "step_ok we s s' es"
proof (cases ev)
  case (ClCallOffer callee kind sdp)
  then show ?thesis using call_offer_step assms by simp
qed (use assms in \<open>auto simp: signal_defs step_ok_def session_ok_def confined_update_status
      find_call_update_status split: if_splits\<close>)

lemma ws_step_step:
  assumes "ws_step we a i now sendable s = (s', replies, es, k)" "session_ok we s"
  shows "step_ok we s s' es"
proof -
  have beat: "step_ok we (s\<lparr>ws_last_heartbeat := now\<rparr>) s' es \<Longrightarrow> step_ok we s s' es"
    "session_ok we (s\<lparr>ws_last_heartbeat := now\<rparr>)"
    using assms(2) by (simp_all add: step_ok_def session_ok_def)
  show ?thesis
  proof (cases "\<exists>content ev. a = ClientFrame (TextFrame content) \<and> we_parse_event we content = Some ev")
    case True
    then show ?thesis using assms(1) handle_event_step [OF _ beat(2)] beat(1) by (auto simp: Let_def)
  next
    case False
    then show ?thesis using assms
      by (cases "(we, a, i, now, sendable, s)" rule: ws_step.cases)
        (auto simp: Let_def step_ok_def session_ok_def split: option.splits)
  qed
qed

lemma ws_cleanup_step:
  assumes "ws_cleanup we now s = (s', es)" "session_ok we s"
  shows "step_ok we s s' es" "ws_active_call s' = None"
  using assms by (auto simp: ws_cleanup_def step_ok_def session_ok_def confined_update_status
      split: option.splits prod.splits)

text \<open>Other handlers do not remove a call of the user while the session runs.\<close>

definition keeps_calls :: "uuid \<Rightarrow> (db \<times> 'r \<Rightarrow> db \<times> 'r) \<Rightarrow> bool" where
  "keeps_calls u f \<longleftrightarrow> (\<forall>db r c. is_call_participant db c u \<longrightarrow> is_call_participant (fst (f (db, r))) c u)"

text \<open>The changes that a session and the handlers beside it make to the database.\<close>

inductive db_step :: "uuid \<Rightarrow> (db \<times> 'r \<Rightarrow> db \<times> 'r) set \<Rightarrow> db \<Rightarrow> db \<Rightarrow> bool" for u F where
  session: "confined u db db' \<Longrightarrow> db_step u F db db'"
| other: "f \<in> F \<Longrightarrow> f (db, r) = (db', r') \<Longrightarrow> db_step u F db db'"

lemma interfere_session [simp]:
  "ws_last_heartbeat (interfere f s) = ws_last_heartbeat s" "ws_active_call (interfere f s) = ws_active_call s"
  by (simp_all add: interfere_def split: prod.splits)

lemma interfere_ok:
  assumes "keeps_calls (we_user_id we) f" "session_ok we s"
  shows "session_ok we (interfere f s)" "f \<in> F \<Longrightarrow> db_step u F (ws_db s) (ws_db (interfere f s))"
proof -
  obtain db r where f: "f (ws_db s, ws_redis s) = (db, r)" by force
  then show "session_ok we (interfere f s)"
    using assms unfolding keeps_calls_def session_ok_def interfere_def by (auto, metis fst_conv)
  show "f \<in> F \<Longrightarrow> db_step u F (ws_db s) (ws_db (interfere f s))"
    using f by (auto simp: interfere_def intro: db_step.other)
qed

lemma db_step_mono: "F \<subseteq> G \<Longrightarrow> db_step u F db db' \<Longrightarrow> db_step u G db db'"
  by (erule db_step.cases) (auto intro: db_step.intros)

text \<open>
  Which call a session holds as active: the one it has offered or answered last, until it
  rejects or hangs up; the other inputs, among them the one that closes the session, leave it.
\<close>

fun call_event :: "client_event \<Rightarrow> bool" where
  "call_event (ClCallOffer _ _ _) = True"
| "call_event (ClCallAnswer _ _ _) = True"
| "call_event (ClCallReject _ _) = True"
| "call_event (ClCallHangup _ _) = True"
| "call_event _ = False"

lemma active_call_set:
  "call_offer we p kind sdp i now True s = (s', replies, es, k) \<Longrightarrow>
     SendEvent (SvCallCreated c p) \<in> set replies \<Longrightarrow> ws_active_call s' = Some (c, p)"
  "is_call_participant (ws_db s) c (we_user_id we) \<Longrightarrow>
     ws_active_call (fst (call_answer we c p sdp now s)) = Some (c, p)"
  by (auto simp: call_offer_def Let_def signal_defs split: sum.splits if_splits)

lemma active_call_kept:
  assumes "ws_step we a i now sendable s = (s', replies, es, k)"
    and "k = Break \<or> (\<forall>content ev. a = ClientFrame (TextFrame content) \<longrightarrow>
      we_parse_event we content = Some ev \<longrightarrow> \<not> call_event ev)"
  shows "ws_active_call s' = ws_active_call s"
proof (cases "\<exists>content ev. a = ClientFrame (TextFrame content) \<and> we_parse_event we content = Some ev")
  case True
  then obtain content ev where a: "a = ClientFrame (TextFrame content)" "we_parse_event we content = Some ev" by blast
  then have "handle_event we ev i now sendable (s\<lparr>ws_last_heartbeat := now\<rparr>) = (s', replies, es, k)"
    using assms(1) by (simp add: Let_def)
  then show ?thesis using assms(2) a
    by (cases ev) (auto simp: signal_defs call_offer_def Let_def split: sum.splits if_splits)
next
  case False
  then show ?thesis using assms(1) by (cases "(we, a, i, now, sendable, s)" rule: ws_step.cases) (auto split: option.splits)
qed

lemma ended_row:
  assumes "is_call_participant db c u"
  shows "\<exists>r. find_call (update_status c ''ended'' t db) c = Some r \<and> cr_status r = ''ended'' \<and> cr_ended_at r = Some t"
  using assms by (auto simp: is_call_participant_def find_call_def update_status_def row_simps split: option.splits)

text \<open>
  How a session of user \<open>u\<close> has ended: its input \<open>x\<close> found it in the state \<open>s\<close>, and the call
  that it then held is recorded as ended at that moment and its other party told to hang up.
\<close>

definition hung_up :: "'r ws_env \<Rightarrow> 'r ws_state \<Rightarrow> 'r ws_input \<Rightarrow> 'r ws_state \<Rightarrow> effect list \<Rightarrow> bool" where
  "hung_up we s x s' es \<longleftrightarrow>
     (\<forall>c p. ws_active_call s = Some (c, p) \<longrightarrow>
       (\<exists>r. find_call (ws_db s') c = Some r \<and> cr_status r = ''ended'' \<and> cr_ended_at r = Some (in_now x)) \<and>
       (we_publish_conn we \<longrightarrow> es \<noteq> [] \<and>
         last es = Publish (user_channel (we_show_uuid we) p) (RelayCallHangup c (we_user_id we))))"

lemma ws_cleanup_hangs_up:
  assumes "ws_cleanup we (in_now x) s1 = (s2, es2)" "session_ok we s1" "ws_active_call s1 = ws_active_call s0"
  shows "hung_up we s0 x s2 (es1 @ es2)"
  using assms ended_row [of "ws_db s1" _ "we_user_id we" "in_now x"]
  by (auto simp: ws_cleanup_def hung_up_def session_ok_def relay_def split: option.splits prod.splits)

lemma hung_up_append: "hung_up we s x s' es \<Longrightarrow> hung_up we s x s' (es0 @ es)"
  by (auto simp: hung_up_def)

lemma run_ws_session_ok:
  assumes "run_ws_session we xs s = ((s', replies, es), closed)" "session_ok we s"
    and "\<forall>x \<in> set xs. keeps_calls (we_user_id we) (in_others x)" "in_others ` set xs \<subseteq> F"
  shows "session_ok we s' \<and> list_all (signed_effect (we_user_id we)) es \<and>
    (db_step (we_user_id we) F)\<^sup>*\<^sup>* (ws_db s) (ws_db s') \<and>
    (closed \<longrightarrow> (\<exists>ys x zs s0 rs0 es0. xs = ys @ x # zs \<and>
       run_ws_session we ys s = ((s0, rs0, es0), False) \<and>
       run_ws_session we (ys @ [x]) s = ((s', replies, es), True) \<and> hung_up we s0 x s' es))"
  using assms
proof (induction xs arbitrary: s s' replies es closed)
  case (Cons x xs)
  let ?s = "interfere (in_others x) s"
  obtain s1 rs1 es1 k where step: "ws_step we (in_arm x) (in_fresh_id x) (in_now x) (in_sendable x) ?s = (s1, rs1, es1, k)"
    by (metis prod_cases4)
  have ok: "session_ok we ?s" "db_step (we_user_id we) F (ws_db s) (ws_db ?s)"
    using interfere_ok(1) [of we "in_others x" s] interfere_ok(2) [of we "in_others x" s F "we_user_id we"] Cons.prems
    by auto
  note one = ws_step_step [OF step ok(1)]
  then have db1: "(db_step (we_user_id we) F)\<^sup>*\<^sup>* (ws_db s) (ws_db s1)" and ok1: "session_ok we s1"
    using ok(2) by (meson db_step.session step_ok_def r_into_rtranclp rtranclp.rtrancl_into_rtrancl)+
  show ?case
  proof (cases k)
    case Break
    obtain s2 es2 where clean: "ws_cleanup we (in_now x) s1 = (s2, es2)" by force
    note two = ws_cleanup_step [OF clean] one [unfolded step_ok_def]
    have db2: "(db_step (we_user_id we) F)\<^sup>*\<^sup>* (ws_db s) (ws_db s2)"
      using db1 two by (meson db_step.session step_ok_def rtranclp.rtrancl_into_rtrancl)
    have "ws_active_call s1 = ws_active_call s" using active_call_kept [OF step] Break by simp
    then have "hung_up we s x s2 (es1 @ es2)" by (rule ws_cleanup_hangs_up [OF clean ok1])
    moreover have eqs: "s' = s2" "es = es1 @ es2" "replies = rs1" using Cons.prems(1) step Break clean by auto
    ultimately have "\<exists>ys y zs s0 rs0 es0. x # xs = ys @ y # zs \<and>
        run_ws_session we ys s = ((s0, rs0, es0), False) \<and>
        run_ws_session we (ys @ [y]) s = ((s', replies, es), True) \<and> hung_up we s0 y s' es"
      using step Break clean
      by (intro exI [where x = "[]"] exI [where x = x] exI [where x = xs] exI [where x = s]) simp
    then show ?thesis using two db2 eqs(1,2) by (simp add: step_ok_def)
  next
    case Continue
    obtain s2 rs2 es2 c2 where rest: "run_ws_session we xs s1 = ((s2, rs2, es2), c2)" by (metis prod.collapse)
    have ih: "session_ok we s2 \<and> list_all (signed_effect (we_user_id we)) es2 \<and>
      (db_step (we_user_id we) F)\<^sup>*\<^sup>* (ws_db s1) (ws_db s2) \<and>
      (c2 \<longrightarrow> (\<exists>ys x zs s0 rs0 es0. xs = ys @ x # zs \<and>
         run_ws_session we ys s1 = ((s0, rs0, es0), False) \<and>
         run_ws_session we (ys @ [x]) s1 = ((s2, rs2, es2), True) \<and> hung_up we s0 x s2 es2))"
      using Cons.IH [OF rest ok1] Cons.prems(3,4) by simp
    have eqs: "s' = s2" "es = es1 @ es2" "replies = rs1 @ rs2" "closed = c2"
      using Cons.prems(1) step Continue rest by auto
    have end': "\<exists>ys y zs s0 rs0 es0. x # xs = ys @ y # zs \<and>
        run_ws_session we ys s = ((s0, rs0, es0), False) \<and>
        run_ws_session we (ys @ [y]) s = ((s2, rs1 @ rs2, es1 @ es2), True) \<and> hung_up we s0 y s2 (es1 @ es2)"
      if c: c2
    proof -
      obtain ys y zs s0 rs0 es0 where e: "xs = ys @ y # zs" "run_ws_session we ys s1 = ((s0, rs0, es0), False)"
          "run_ws_session we (ys @ [y]) s1 = ((s2, rs2, es2), True)" "hung_up we s0 y s2 es2"
        using ih c by blast
      have "run_ws_session we (x # ys) s = ((s0, rs1 @ rs0, es1 @ es0), False)"
        "run_ws_session we ((x # ys) @ [y]) s = ((s2, rs1 @ rs2, es1 @ es2), True)"
        using step Continue e(2,3) by simp_all
      then show ?thesis using e(1) hung_up_append [OF e(4)] by (metis append_Cons)
    qed
    show ?thesis using ih one end' rtranclp_trans [OF db1] unfolding eqs by (simp add: step_ok_def)
  qed
qed auto


text \<open>Example: ann calls bob, her socket breaks, the call is ended.\<close>

definition sample_ws :: "expiring ws_env" where
  "sample_ws = \<lparr>we_user_id = 2, we_publish_conn = True, we_redis = sample_redis, we_show_uuid = show_nat,
     we_parse_event = \<lambda>t. if t = ''call'' then Some (ClCallOffer 3 ''voice'' ''sdp'')
       else if t = ''up'' then Some (ClCallHangup 7 3) else None\<rparr>"

definition sample_ws_state :: "expiring ws_state" where
  "sample_ws_state = \<lparr>ws_last_heartbeat = 0, ws_active_call = None, ws_db = sample_server, ws_redis = []\<rparr>"

definition sample_input :: "arm \<Rightarrow> instant \<Rightarrow> expiring ws_input" where
  "sample_input a now = \<lparr>in_arm = a, in_fresh_id = 7, in_now = now, in_sendable = True, in_others = id\<rparr>"

lemma sample_input_keeps [simp]: "keeps_calls u (in_others (sample_input a t))"
  by (simp add: keeps_calls_def sample_input_def)


text \<open>
  A session holds one call at a time. Ann offers two calls and her socket breaks: the second is
  ended, the first stays in the table as initiated, for good, since no session holds it.
\<close>

lemma first_offer_stays_open:
  "let call = (\<lambda>i t. (sample_input (ClientFrame (TextFrame ''call'')) t)\<lparr>in_fresh_id := i\<rparr>) in
   case run_ws_session sample_ws [call 7 5, call 8 6, sample_input (ClientFrame BrokenFrame) 9] sample_ws_state of
     ((s', _, _), closed) \<Rightarrow> closed \<and>
       map_option cr_status (find_call (ws_db s') 7) = Some ''initiated'' \<and>
       map_option cr_status (find_call (ws_db s') 8) = Some ''ended''"
  by code_simp

section \<open>The end of a session\<close>

text \<open>An input by which the client shows that it is alive.\<close>

definition shows_life :: "arm \<Rightarrow> bool" where
  "shows_life a \<longleftrightarrow> (\<exists>c. a = ClientFrame (TextFrame c)) \<or> (\<exists>b. a = ClientFrame (PingFrame b))"

lemma silent_step:
  assumes "ws_step we a i now sendable s = (s', replies, es, k)" "\<not> shows_life a"
  shows "ws_last_heartbeat s' = ws_last_heartbeat s \<and> ws_active_call s' = ws_active_call s \<and> ws_db s' = ws_db s \<and> es = []"
  using assms by (cases "(we, a, i, now, sendable, s)" rule: ws_step.cases) (auto simp: shows_life_def)

text \<open>
  A client that falls silent is dropped: once a heartbeat tick finds more than sixty seconds
  since its last text or ping frame, the session has closed (at that tick or before), and the
  call in which the client was is recorded as ended and its peer is told to hang up, whatever
  events for the client arrive in the meantime.
\<close>

theorem silent_client_dropped:
  assumes "\<forall>x \<in> set (xs @ [x]). \<not> shows_life (in_arm x)" and "in_arm x = HeartbeatTick"
    and "in_now x > ws_last_heartbeat s + CLIENT_TIMEOUT"
    and "run_ws_session we (xs @ x # ys) s = ((s', replies, es), closed)"
  shows "closed \<and> ws_active_call s' = None \<and>
    (\<forall>call peer. ws_active_call s = Some (call, peer) \<longrightarrow> es = relay we peer (RelayCallHangup call (we_user_id we)) \<and>
      (\<forall>r. find_call (ws_db s') call = Some r \<longrightarrow> cr_status r = ''ended''))"
proof -
  have ended: "find_call (update_status call ''ended'' t db) call = Some r \<Longrightarrow> cr_status r = ''ended''" for call t db r
    by (auto simp: update_status_def find_call_def row_simps)
  have clean: "ws_cleanup we t st = (s', es') \<Longrightarrow> ws_active_call s' = None \<and>
      (\<forall>call peer. ws_active_call st = Some (call, peer) \<longrightarrow> es' = relay we peer (RelayCallHangup call (we_user_id we)) \<and>
        (\<forall>r. find_call (ws_db s') call = Some r \<longrightarrow> cr_status r = ''ended''))" for t st s' es'
    using ended by (auto simp: ws_cleanup_def split: option.splits prod.splits)
  show ?thesis using assms(1,3,4)
  proof (induction xs arbitrary: s s' replies es closed)
    case Nil
    then show ?case using assms(2) clean by (auto split: prod.splits)
  next
    case (Cons y xs)
    let ?s = "interfere (in_others y) s"
    obtain s1 rs1 es1 k where step: "ws_step we (in_arm y) (in_fresh_id y) (in_now y) (in_sendable y) ?s = (s1, rs1, es1, k)"
      by (metis prod_cases4)
    then have keep: "ws_last_heartbeat s1 = ws_last_heartbeat s" "ws_active_call s1 = ws_active_call s" "es1 = []"
      using silent_step [OF step] Cons.prems(1) by simp_all
    show ?case
    proof (cases k)
      case Break
      then show ?thesis using Cons.prems(3) step clean keep by (auto split: prod.splits)
    next
      case Continue
      obtain s2 rs2 es2 c2 where rest: "run_ws_session we (xs @ x # ys) s1 = ((s2, rs2, es2), c2)" by (metis prod.collapse)
      have eqs: "s' = s2" "es = es2" "closed = c2"
        using Cons.prems(3) step Continue rest keep by auto
      show ?thesis using Cons.IH [OF _ _ rest] Cons.prems(1,2) keep unfolding eqs by simp
    qed
  qed
qed

theorem silent_client_dropped_witness:
  "case run_ws_session sample_ws [sample_input (RedisPayload ''news'') 5, sample_input HeartbeatTick 60000001]
     (sample_ws_state\<lparr>ws_active_call := Some (7, 3)\<rparr>) of ((s', replies, es), closed) \<Rightarrow>
     closed \<and> ws_active_call s' = None \<and> es = relay sample_ws 3 (RelayCallHangup 7 2)"
proof -
  let ?s = "sample_ws_state\<lparr>ws_active_call := Some (7, 3)\<rparr>"
  let ?x = "sample_input HeartbeatTick 60000001"
  obtain s' replies es closed
    where r: "run_ws_session sample_ws ([sample_input (RedisPayload ''news'') 5] @ ?x # []) ?s = ((s', replies, es), closed)"
    by (metis prod.collapse)
  have u: "we_user_id sample_ws = 2" by (simp add: sample_ws_def)
  have "closed \<and> ws_active_call s' = None \<and> es = relay sample_ws 3 (RelayCallHangup 7 2)"
    using silent_client_dropped [OF _ _ _ r]
    by (simp add: sample_input_def shows_life_def CLIENT_TIMEOUT_def second_us_def sample_ws_state_def u)
  then show ?thesis using r by simp
qed

section \<open>The stashed offer\<close>

lemma get_call_offer_stranger:
  assumes "claims_user_id ex auth = Inr u" "find_call db i = Some r" "u \<noteq> cr_callee_id r"
  shows "get_call_offer ex R auth i t db st = (Inl Forbidden, st)"
  using assms by (auto simp: get_call_offer_def guard_err_def)

lemma get_call_offer_callee:
  assumes "claims_user_id ex auth = Inr (cr_callee_id r)" "find_call db i = Some r" "rd_connect R st = None"
    and "rd_get_del R t (call_offer_key (ex_show_uuid ex) i) st = (Inr x, st')"
  shows "get_call_offer ex R auth i t db st =
    (case x of Some s \<Rightarrow> if s \<noteq> [] then Inr (i, s) else Inl NotFound | None \<Rightarrow> Inl NotFound, st')"
  using assms by (simp add: get_call_offer_def)

lemma call_offer_stashes:
  assumes "call_offer we callee kind sdp i now True s = (s', replies, es, k)" "replies \<noteq> []" "we_publish_conn we"
    and "fst (rd_set_ex (we_redis we) now (call_offer_key (we_show_uuid we) i) sdp CALL_OFFER_TTL (ws_redis s)) = Inr ()"
  shows "\<exists>r. find_call (ws_db s') i = Some r \<and> cr_callee_id r = callee"
    "rd_set_ex (we_redis we) now (call_offer_key (we_show_uuid we) i) sdp CALL_OFFER_TTL (ws_redis s) = (Inr (), ws_redis s')"
proof -
  obtain rec db where c: "create_call i (we_user_id we) callee kind now (ws_db s) = Inr (rec, db)"
    using assms(1,2) by (auto simp: call_offer_def split: sum.splits)
  note cc = create_call_cases [OF c]
  have id: "cr_id rec = i" by (simp add: cc(1))
  have st: "ws_db s' = db" "ws_redis s' = snd (rd_set_ex (we_redis we) now (call_offer_key (we_show_uuid we) i)
      sdp CALL_OFFER_TTL (ws_redis s))"
    using assms(1,3) c by (auto simp: call_offer_def Let_def id)
  show "\<exists>r. find_call (ws_db s') i = Some r \<and> cr_callee_id r = callee"
    using cc(4) unfolding st(1) cc(2) by (auto simp: find_call_def row_simps cc(1))
  show "rd_set_ex (we_redis we) now (call_offer_key (we_show_uuid we) i) sdp CALL_OFFER_TTL (ws_redis s) = (Inr (), ws_redis s')"
    using assms(4) unfolding st(2) by (metis prod.collapse)
qed

text \<open>
  A stashed offer reaches the callee, within a minute, once. After a call offer that Redis has
  stored, the callee's first fetch returns the offer of that call if it comes within sixty
  seconds and is not found later; every further fetch is not found; anyone else is refused and
  leaves the offer in place.
\<close>

theorem call_offer_fetched_once:
  assumes "redis_laws R" "we_redis we = R" "we_publish_conn we" "we_show_uuid we = ex_show_uuid ex"
    and "call_offer we callee kind sdp i now True s = (s', replies, es, k)" "replies \<noteq> []" "sdp \<noteq> []"
    and "fst (rd_set_ex R now (call_offer_key (ex_show_uuid ex) i) sdp CALL_OFFER_TTL (ws_redis s)) = Inr ()"
    and "claims_user_id ex auth = Inr callee" "now \<le> t" "rd_connect R (ws_redis s') = None"
    and "rd_get_del R t (call_offer_key (ex_show_uuid ex) i) (ws_redis s') = (Inr x, r1)"
  shows "get_call_offer ex R auth i t (ws_db s') (ws_redis s') =
      (if t < now + 60 * second_us then Inr (i, sdp) else Inl NotFound, r1) \<and>
    (\<forall>t' y r2. t \<le> t' \<longrightarrow> rd_connect R r1 = None \<longrightarrow>
       rd_get_del R t' (call_offer_key (ex_show_uuid ex) i) r1 = (Inr y, r2) \<longrightarrow>
       get_call_offer ex R auth i t' (ws_db s') r1 = (Inl NotFound, r2)) \<and>
    (\<forall>auth' u t'. claims_user_id ex auth' = Inr u \<longrightarrow> u \<noteq> callee \<longrightarrow>
       get_call_offer ex R auth' i t' (ws_db s') (ws_redis s') = (Inl Forbidden, ws_redis s'))"
proof -
  note st = call_offer_stashes [OF assms(5,6,3), unfolded assms(2,4), OF assms(8)]
  obtain r where r: "find_call (ws_db s') i = Some r" "cr_callee_id r = callee" using st(1) by blast
  have auth: "claims_user_id ex auth = Inr (cr_callee_id r)" using assms(9) r(2) by simp
  have x: "x = (if t < now + 60 * second_us then Some sdp else None)"
    using redis_seen_after_set [OF assms(1) st(2) assms(10) seen_get_del [OF assms(12)]] by (simp add: CALL_OFFER_TTL_def)
  have first: "get_call_offer ex R auth i t (ws_db s') (ws_redis s') =
      (if t < now + 60 * second_us then Inr (i, sdp) else Inl NotFound, r1)"
    using get_call_offer_callee [OF auth r(1) assms(11,12)] assms(7) x by simp
  have again: "get_call_offer ex R auth i t' (ws_db s') r1 = (Inl NotFound, r2)"
    if "t \<le> t'" "rd_connect R r1 = None" "rd_get_del R t' (call_offer_key (ex_show_uuid ex) i) r1 = (Inr y, r2)" for t' y r2
    using get_call_offer_callee [OF auth r(1) that(2,3)]
      redis_seen_after_get_del [OF assms(1,12) that(1) seen_get_del [OF that(3)]] by simp
  have other: "get_call_offer ex R auth' i t' (ws_db s') (ws_redis s') = (Inl Forbidden, ws_redis s')"
    if "claims_user_id ex auth' = Inr u" "u \<noteq> callee" for auth' u t'
    using get_call_offer_stranger [OF that(1) r(1)] that(2) r(2) by simp
  show ?thesis by (intro conjI allI impI first; rule again other)
qed

theorem call_offer_fetched_once_witness:
  "let as = (\<lambda>u. \<lparr>cl_sub = u, cl_role = ''user'', cl_iat = 0, cl_exp = 0\<rparr>);
       ex = sample_externals; we = sample_ws\<lparr>we_show_uuid := ex_show_uuid ex\<rparr>;
       (s, replies, es, k) = call_offer we 3 ''voice'' ''sdp'' 7 5 True sample_ws_state
   in fst (get_call_offer ex sample_redis (as ''3'') 7 9 (ws_db s) (ws_redis s)) = Inr (7, ''sdp'') \<and>
      fst (get_call_offer ex sample_redis (as ''2'') 7 9 (ws_db s) (ws_redis s)) = Inl Forbidden"
proof -
  let ?as = "\<lambda>u. \<lparr>cl_sub = u, cl_role = ''user'', cl_iat = 0, cl_exp = 0\<rparr>"
  let ?we = "sample_ws\<lparr>we_show_uuid := ex_show_uuid sample_externals\<rparr>"
  obtain s replies es k where c: "call_offer ?we 3 ''voice'' ''sdp'' 7 5 True sample_ws_state = (s, replies, es, k)"
    by (metis prod_cases4)
  have "fst (snd (call_offer ?we 3 ''voice'' ''sdp'' 7 5 True sample_ws_state)) \<noteq> []" by code_simp
  then have ne: "replies \<noteq> []" using c by simp
  have ids: "claims_user_id sample_externals (?as ''3'') = Inr 3" "claims_user_id sample_externals (?as ''2'') = Inr 2"
    by code_simp+
  obtain x r1 where g: "rd_get_del sample_redis 9 (call_offer_key (ex_show_uuid sample_externals) 7) (ws_redis s) = (Inr x, r1)"
    by (simp add: sample_redis_def)
  have "we_redis ?we = sample_redis" "we_publish_conn ?we" "we_show_uuid ?we = ex_show_uuid sample_externals"
    by (simp_all add: sample_ws_def)
  from call_offer_fetched_once [OF sample_redis_laws this c ne _ _ ids(1) _ _ g]
  show ?thesis using c ids(2) by (simp add: Let_def sample_redis_def second_us_def)
qed

section \<open>What the signalling does not check\<close>

text \<open>
  The state of a call is not consulted: after a hang-up a participant can answer the call, and
  the record is then an answered call that has ended. The party who calls can answer too.
\<close>

lemma answer_after_hangup:
  assumes "find_call db c = Some r"
  shows "\<exists>r'. find_call (update_status c ''answered'' t (update_status c ''ended'' t' db)) c = Some r' \<and>
    cr_status r' = ''answered'' \<and> cr_ended_at r' = Some t'"
  using assms by (auto simp: find_call_def update_status_def row_simps)

text \<open>
  The receiver of a signal is the client's choice: a party to any call can send call signals to
  any account, whether or not it takes part in the call.
\<close>

lemma signal_to_anyone:
  assumes "is_call_participant (ws_db s) c (we_user_id we)" "we_publish_conn we"
  shows "handle_event we (ClIceCandidate c peer candidate mid idx) i now sendable s =
    (s, [], [Publish (user_channel (we_show_uuid we) peer) (RelayIceCandidate c (we_user_id we) candidate mid idx)], Continue)"
  using assms by (simp add: signal_defs relay_def)

end
