(* ===== verification/Actions.thy ===== *)
theory Actions
  imports Server_Io
begin

text \<open>
  Request handlers that run several statements without a transaction. An action takes the
  database and returns its result, the database it leaves behind (also after an error) and the
  effects it has issued. \<open>statement\<close> runs one atomic step, \<open>check\<close> a test that touches nothing.
\<close>

type_synonym 'a action = "db \<Rightarrow> 'a result \<times> db \<times> effect list"

definition seq :: "'a action \<Rightarrow> ('a \<Rightarrow> 'b action) \<Rightarrow> 'b action" where
  "seq m f db =
    (case m db of
       (Inl e, db, es) \<Rightarrow> (Inl e, db, es)
     | (Inr x, db, es) \<Rightarrow> (case f x db of (r, db, es') \<Rightarrow> (r, db, es @ es')))"

definition done_with :: "'a \<Rightarrow> 'a action" where
  "done_with x db = (Inr x, db, [])"

definition check :: "'a result \<Rightarrow> 'a action" where
  "check r db = (r, db, [])"

definition query :: "(db \<Rightarrow> 'a result) \<Rightarrow> 'a action" where
  "query f db = (f db, db, [])"

definition statement :: "(db \<Rightarrow> ('a \<times> db) result) \<Rightarrow> 'a action" where
  "statement f db = (case f db of Inl e \<Rightarrow> (Inl e, db, []) | Inr (x, db') \<Rightarrow> (Inr x, db', []))"

definition execute :: "(db \<Rightarrow> db result) \<Rightarrow> unit action" where
  "execute f db = (case f db of Inl e \<Rightarrow> (Inl e, db, []) | Inr db' \<Rightarrow> (Inr (), db', []))"

definition emit :: "effect list \<Rightarrow> unit action" where
  "emit es db = (Inr (), db, es)"

text \<open>A step that is itself a sequence of statements without effects.\<close>

definition run_db :: "(db \<Rightarrow> 'a result \<times> db) \<Rightarrow> 'a action" where
  "run_db f db = (case f db of (r, db') \<Rightarrow> (r, db', []))"

named_theorems action_simps "evaluation of actions"

lemma seq_steps [action_simps]:
  "seq (done_with x) f db = f x db"
  "seq (check (Inr x)) f db = f x db"
  "seq (check (Inl e)) f db = (Inl e, db, [])"
  by (simp_all add: seq_def done_with_def check_def)

lemma seq_seq [action_simps]: "seq (seq m f) g = seq m (\<lambda>x. seq (f x) g)"
  by (rule ext) (simp add: seq_def split: prod.splits sum.splits)

lemma seq_query [action_simps]:
  "seq (query g) f db = (case g db of Inl e \<Rightarrow> (Inl e, db, []) | Inr x \<Rightarrow> f x db)"
  by (simp add: seq_def query_def split: sum.splits)

lemma seq_statement [action_simps]:
  "seq (statement g) f db = (case g db of Inl e \<Rightarrow> (Inl e, db, []) | Inr (x, db') \<Rightarrow> f x db')"
  by (simp add: seq_def statement_def split: sum.splits prod.splits)

lemma seq_execute [action_simps]:
  "seq (execute g) f db = (case g db of Inl e \<Rightarrow> (Inl e, db, []) | Inr db' \<Rightarrow> f () db')"
  by (simp add: seq_def execute_def split: sum.splits)

lemma seq_run_db [action_simps]:
  "seq (run_db g) f db = (case g db of (Inl e, db') \<Rightarrow> (Inl e, db', []) | (Inr x, db') \<Rightarrow> f x db')"
  by (simp add: seq_def run_db_def split: sum.splits prod.splits)

lemma seq_emit [action_simps]:
  "seq (emit es) f db = (case f () db of (r, db', es') \<Rightarrow> (r, db', es @ es'))"
  by (simp add: seq_def emit_def)

lemma seq_Inr:
  "seq m f db = (Inr y, db', es) \<longleftrightarrow>
    (\<exists>x db1 es1 es2. m db = (Inr x, db1, es1) \<and> f x db1 = (Inr y, db', es2) \<and> es = es1 @ es2)"
  by (auto simp: seq_def split: prod.splits sum.splits)

lemma seq_Inl:
  "seq m f db = (Inl e, db', es) \<longleftrightarrow> m db = (Inl e, db', es) \<or>
    (\<exists>x db1 es1 es2. m db = (Inr x, db1, es1) \<and> f x db1 = (Inl e, db', es2) \<and> es = es1 @ es2)"
  by (auto simp: seq_def split: prod.splits sum.splits)

lemma atomic_Inr [action_simps]:
  "done_with x db = (Inr y, db', es) \<longleftrightarrow> y = x \<and> db' = db \<and> es = []"
  "check r db = (Inr y, db', es) \<longleftrightarrow> r = Inr y \<and> db' = db \<and> es = []"
  "query f db = (Inr y, db', es) \<longleftrightarrow> f db = Inr y \<and> db' = db \<and> es = []"
  "statement g db = (Inr y, db', es) \<longleftrightarrow> g db = Inr (y, db') \<and> es = []"
  "execute h db = (Inr u, db', es) \<longleftrightarrow> h db = Inr db' \<and> es = []"
  "emit fs db = (Inr u, db', es) \<longleftrightarrow> db' = db \<and> es = fs"
  "run_db k db = (Inr y, db', es) \<longleftrightarrow> k db = (Inr y, db') \<and> es = []"
  by (auto simp: run_db_def done_with_def check_def query_def statement_def execute_def emit_def split: sum.splits prod.splits)

text \<open>A property of the database that every step keeps is kept by the sequence, errors included.\<close>

definition keeps :: "(db \<Rightarrow> bool) \<Rightarrow> 'a action \<Rightarrow> bool" where
  "keeps P m \<longleftrightarrow> (\<forall>db. P db \<longrightarrow> P (fst (snd (m db))))"

lemma keeps_seq: "keeps P m \<Longrightarrow> (\<And>x. keeps P (f x)) \<Longrightarrow> keeps P (seq m f)"
  unfolding keeps_def seq_def by (auto split: prod.splits sum.splits) (metis fst_conv snd_conv)+

lemma keeps_atomic [simp]:
  "keeps P (done_with x)" "keeps P (check r)" "keeps P (query g)" "keeps P (emit es)"
  by (auto simp: keeps_def done_with_def check_def query_def emit_def)

lemma keeps_statement: "(\<And>db x db'. P db \<Longrightarrow> f db = Inr (x, db') \<Longrightarrow> P db') \<Longrightarrow> keeps P (statement f)"
  by (auto simp: keeps_def statement_def split: sum.splits prod.splits)

lemma keeps_run_db: "(\<And>db r db'. P db \<Longrightarrow> f db = (r, db') \<Longrightarrow> P db') \<Longrightarrow> keeps P (run_db f)"
  by (auto simp: keeps_def run_db_def split: prod.splits)

lemma keeps_execute: "(\<And>db db'. P db \<Longrightarrow> f db = Inr db' \<Longrightarrow> P db') \<Longrightarrow> keeps P (execute f)"
  by (auto simp: keeps_def execute_def split: sum.splits)

end
