(* ===== verification/Sticker_Service.thy ===== *)
theory Sticker_Service
  imports Actions Contribution
begin

text \<open>
  Stickers: the service (src/src/services/sticker_service.rs) and its handlers
  (src/src/routes/stickers.rs). The base64 decoder is an argument. The source chains two calls
  of diesel's \<open>order\<close>; the second replaces the first, so the lists are ordered by time alone.
\<close>

section \<open>The service\<close>

definition ALLOWED_MIME_TYPES :: "string list" where
  "ALLOWED_MIME_TYPES = [''image/png'', ''image/webp'', ''image/gif'', ''image/jpeg'']"

definition MAX_STICKER_SIZE_BYTES :: nat where "MAX_STICKER_SIZE_BYTES = 256 * 1024"
definition MAX_STICKERS_PER_USER :: int where "MAX_STICKERS_PER_USER = 120"
definition MAX_TOTAL_BYTES_PER_USER :: int where "MAX_TOTAL_BYTES_PER_USER = 8 * 1024 * 1024"

definition TAB_NAME :: string where "TAB_NAME = ''__tab__''"

record upload_sticker_input =
  us_group_name :: string
  us_name :: string
  us_mime_type :: string
  us_content_base64 :: string
  us_group_author :: "string option"

definition stickers_of :: "db \<Rightarrow> uuid \<Rightarrow> sticker list" where
  "stickers_of db u = filter (\<lambda>s. st_uploader_id s = u) (stickers db)"

definition used_bytes :: "db \<Rightarrow> uuid \<Rightarrow> int" where
  "used_bytes db u = sum_list (map st_size_bytes (stickers_of db u))"

definition check_upload :: "(string \<Rightarrow> string option) \<Rightarrow> upload_sticker_input \<Rightarrow> (string \<times> string \<times> string) result" where
  "check_upload decode input =
    (let name = trim (us_name input); group_name = trim (us_group_name input)
     in if name = [] \<or> utf8_len name > 80
        then Inl (BadRequest ''name is required and must be <= 80 chars'')
        else if group_name = [] \<or> utf8_len group_name > 40
        then Inl (BadRequest ''group_name is required and must be <= 40 chars'')
        else if us_mime_type input \<notin> set ALLOWED_MIME_TYPES
        then Inl (BadRequest ''mime_type must be one of image/png,image/webp,image/gif,image/jpeg'')
        else case decode (trim (us_content_base64 input)) of
               None \<Rightarrow> Inl (BadRequest ''content_base64 must be valid base64'')
             | Some decoded \<Rightarrow>
                if decoded = [] \<or> length decoded > MAX_STICKER_SIZE_BYTES
                then Inl (BadRequest (''sticker size must be between 1 and '' @ show_nat MAX_STICKER_SIZE_BYTES @ '' bytes''))
                else Inr (name, group_name, decoded))"

definition upload_sticker_conn ::
  "(string \<Rightarrow> string option) \<Rightarrow> uuid \<Rightarrow> uuid \<Rightarrow> string \<Rightarrow> upload_sticker_input \<Rightarrow> instant \<Rightarrow> db \<Rightarrow>
     (sticker \<times> db) result" where
  "upload_sticker_conn decode fresh_id uploader_id uploader_role input now db =
     and_then (check_upload decode input) (\<lambda>(name, group_name, decoded).
     if int (length (stickers_of db uploader_id)) \<ge> MAX_STICKERS_PER_USER
     then Inl (BadRequest (''sticker quota exceeded ('' @ show_nat (nat MAX_STICKERS_PER_USER) @ '' per user)''))
     else if used_bytes db uploader_id + int (length decoded) > MAX_TOTAL_BYTES_PER_USER
     then Inl (BadRequest (''storage quota exceeded ('' @ show_nat (nat MAX_TOTAL_BYTES_PER_USER) @ '' bytes per user)''))
     else
       let entity = \<lparr>st_id = fresh_id, st_uploader_id = uploader_id, st_group_name = group_name, st_name = name,
             st_mime_type = us_mime_type input, st_content_base64 = trim (us_content_base64 input),
             st_size_bytes = int (length decoded),
             st_status = (if uploader_role = ''admin'' then ''active'' else ''pending''),
             st_created_at = now, st_updated_at = now,
             st_group_author = (if name = TAB_NAME then trimmed_nonempty (us_group_author input) else None)\<rparr>
       in if exists_row (\<lambda>s. st_id s = fresh_id) (stickers db) then Inl (Database UniqueViolation)
          else if \<not> user_exists db uploader_id then Inl (Database ForeignKeyViolation)
          else Inr (entity, db\<lparr>stickers := insert_row entity (stickers db)\<rparr>))"

definition rename_sticker_group :: "string \<Rightarrow> string \<Rightarrow> instant \<Rightarrow> db \<Rightarrow> (int \<times> db) result" where
  "rename_sticker_group old_name new_name now db =
    (let old_name = trim old_name; new_name = trim new_name
     in if old_name = [] \<or> new_name = [] then Inl (BadRequest ''old_name and new_name are required'')
        else if utf8_len new_name > 40 then Inl (BadRequest ''new_name must be <= 40 chars'')
        else
          let P = (\<lambda>s. st_group_name s = old_name); changed = count_rows P (stickers db)
          in if changed = 0 then Inl NotFound
             else Inr (changed, db\<lparr>stickers := update_rows P
                 (\<lambda>s. s\<lparr>st_group_name := new_name, st_updated_at := now\<rparr>) (stickers db)\<rparr>))"

text \<open>
  The views of a sticker: the list leaves out the image, the detail only the time of the last change.
\<close>

record sticker_list_item =
  sli_id :: uuid
  sli_uploader_id :: uuid
  sli_group_name :: string
  sli_name :: string
  sli_mime_type :: string
  sli_size_bytes :: int
  sli_status :: string
  sli_created_at :: instant
  sli_group_author :: "string option"

record sticker_detail =
  sde_id :: uuid
  sde_uploader_id :: uuid
  sde_group_name :: string
  sde_name :: string
  sde_mime_type :: string
  sde_size_bytes :: int
  sde_status :: string
  sde_content_base64 :: string
  sde_created_at :: instant
  sde_group_author :: "string option"

definition sticker_list_item_of :: "sticker \<Rightarrow> sticker_list_item" where
  "sticker_list_item_of s = \<lparr>sli_id = st_id s, sli_uploader_id = st_uploader_id s,
     sli_group_name = st_group_name s, sli_name = st_name s, sli_mime_type = st_mime_type s,
     sli_size_bytes = st_size_bytes s, sli_status = st_status s, sli_created_at = st_created_at s,
     sli_group_author = st_group_author s\<rparr>"

definition sticker_detail_of :: "sticker \<Rightarrow> sticker_detail" where
  "sticker_detail_of s = \<lparr>sde_id = st_id s, sde_uploader_id = st_uploader_id s,
     sde_group_name = st_group_name s, sde_name = st_name s, sde_mime_type = st_mime_type s,
     sde_size_bytes = st_size_bytes s, sde_status = st_status s, sde_content_base64 = st_content_base64 s,
     sde_created_at = st_created_at s, sde_group_author = st_group_author s\<rparr>"

definition visible_stickers :: "db \<Rightarrow> uuid \<Rightarrow> string \<Rightarrow> sticker list" where
  "visible_stickers db requester_id requester_role =
     sort_key (\<lambda>s. - st_created_at s)
       (if requester_role = ''admin'' then stickers db
        else filter (\<lambda>s. st_status s = ''active'' \<or> st_uploader_id s = requester_id) (stickers db))"

definition list_stickers :: "db \<Rightarrow> uuid \<Rightarrow> string \<Rightarrow> sticker_list_item list" where
  "list_stickers db requester_id requester_role =
     map sticker_list_item_of (visible_stickers db requester_id requester_role)"

definition get_sticker :: "db \<Rightarrow> uuid \<Rightarrow> string \<Rightarrow> uuid \<Rightarrow> sticker_detail result" where
  "get_sticker db requester_id requester_role sticker_id =
     and_then (ok_or NotFound (find_row st_id (stickers db) sticker_id)) (\<lambda>s.
     if requester_role = ''admin'' \<or> st_status s = ''active'' \<or> st_uploader_id s = requester_id
     then Inr (sticker_detail_of s) else Inl Forbidden)"

definition update_group_author :: "string \<Rightarrow> string option \<Rightarrow> instant \<Rightarrow> db \<Rightarrow> db result" where
  "update_group_author group_name author now db =
    (let group_name = trim group_name
     in if group_name = [] then Inl (BadRequest ''group_name is required'')
        else
          let P = (\<lambda>s. st_group_name s = group_name \<and> st_name s = TAB_NAME)
          in if count_rows P (stickers db) = 0 then Inl NotFound
             else Inr (db\<lparr>stickers := update_rows P
                 (\<lambda>s. s\<lparr>st_group_author := trimmed_nonempty author, st_updated_at := now\<rparr>) (stickers db)\<rparr>))"

record sticker_group_public =
  sgp_name :: string
  sgp_author :: "string option"
  sgp_tab_sticker_id :: "uuid option"
  sgp_total :: nat

text \<open>One sticker joins its group, or opens it.\<close>

definition into_group :: "sticker \<Rightarrow> sticker_group_public \<Rightarrow> sticker_group_public" where
  "into_group s g =
    (if st_name s = TAB_NAME then g\<lparr>sgp_tab_sticker_id := Some (st_id s), sgp_author := st_group_author s\<rparr>
     else g\<lparr>sgp_total := sgp_total g + 1\<rparr>)"

fun add_to_groups :: "sticker_group_public list \<Rightarrow> sticker \<Rightarrow> sticker_group_public list" where
  "add_to_groups [] s =
    [into_group s \<lparr>sgp_name = st_group_name s, sgp_author = None, sgp_tab_sticker_id = None, sgp_total = 0\<rparr>]"
| "add_to_groups (g # gs) s =
    (if sgp_name g = st_group_name s then into_group s g # gs else g # add_to_groups gs s)"

definition list_sticker_groups :: "db \<Rightarrow> sticker_group_public list" where
  "list_sticker_groups db =
    filter (\<lambda>g. sgp_tab_sticker_id g \<noteq> None)
      (foldl add_to_groups []
        (sort_key st_created_at (filter (\<lambda>s. st_status s = ''active'') (stickers db))))"

definition moderate_sticker :: "uuid \<Rightarrow> string \<Rightarrow> instant \<Rightarrow> db \<Rightarrow> (sticker \<times> db) result" where
  "moderate_sticker sticker_id action now db =
    (if action \<noteq> ''approve'' \<and> action \<noteq> ''reject''
     then Inl (BadRequest ''action must be one of: approve,reject'')
     else
       let status = (if action = ''approve'' then ''active'' else ''rejected'');
           f = (\<lambda>s. s\<lparr>st_status := status, st_updated_at := now\<rparr>)
       in and_then (ok_or NotFound (find_row st_id (stickers db) sticker_id)) (\<lambda>s.
          Inr (f s, db\<lparr>stickers := update_row st_id sticker_id f (stickers db)\<rparr>)))"

section \<open>Handlers\<close>

datatype upload_response =
    Created sticker
  | StickerTrustLimited int guild_snapshot "string list"
  | StickerTrustBlocked guild_snapshot "string list"

definition sticker_upload_allowed_mime_types :: "guild_snapshot \<Rightarrow> string list" where
  "sticker_upload_allowed_mime_types guild =
     filter (\<lambda>m. m \<in> set (sn_allowed_attachment_types guild)) ALLOWED_MIME_TYPES"

definition audit_limited :: "int \<Rightarrow> guild_snapshot \<Rightarrow> string \<Rightarrow> json" where
  "audit_limited retry_after_seconds guild mime_type =
     JObj [(''retry_after_seconds'', JInt retry_after_seconds), (''level'', JInt (int (sn_level guild))),
       (''rank'', JStr (sn_rank guild)),
       (''daily_attachment_send_limit'', json_opt_int (sn_daily_attachment_send_limit guild)),
       (''daily_attachment_sends_sent'', JInt (sn_daily_attachment_sends_sent guild)), (''mime_type'', JStr mime_type)]"

definition audit_blocked :: "guild_snapshot \<Rightarrow> string \<Rightarrow> json" where
  "audit_blocked guild mime_type =
     JObj [(''level'', JInt (int (sn_level guild))), (''rank'', JStr (sn_rank guild)), (''mime_type'', JStr mime_type),
       (''allowed_mime_types'', JArr (map JStr (sticker_upload_allowed_mime_types guild)))]"

definition audit_uploaded :: "sticker \<Rightarrow> json" where
  "audit_uploaded s = JObj [(''group_name'', JStr (st_group_name s)), (''mime_type'', JStr (st_mime_type s)),
     (''size_bytes'', JInt (st_size_bytes s)), (''status'', JStr (st_status s))]"

definition upload ::
  "externals \<Rightarrow> (string \<Rightarrow> guild_policy_config option) \<Rightarrow> (string \<Rightarrow> string option) \<Rightarrow> claims \<Rightarrow>
     upload_sticker_input \<Rightarrow> uuid \<Rightarrow> instant \<Rightarrow> upload_response action" where
  "upload ex dec decode auth body fresh_id now =
     seq (check (claims_user_id ex auth)) (\<lambda>requester_id.
     seq (if cl_role auth = ''admin''
          then seq (statement (upload_sticker_conn decode fresh_id requester_id (cl_role auth) body now))
                 (\<lambda>s. done_with (Completed s))
          else statement (run_attachment_action_with_guild dec (ex_show_uuid ex) requester_id (us_mime_type body)
                 (upload_sticker_conn decode fresh_id requester_id (cl_role auth) body now) now)) (\<lambda>outcome.
     case outcome of
       AttachmentLimited guild retry_after_seconds \<Rightarrow>
         seq (execute (append_audit_log (Some requester_id) ''guild.blocked_action.attachment_daily_limit'' None
               (audit_limited retry_after_seconds guild (us_mime_type body)) now)) (\<lambda>_.
         done_with (StickerTrustLimited retry_after_seconds guild (sticker_upload_allowed_mime_types guild)))
     | UnsupportedMime guild \<Rightarrow>
         seq (execute (append_audit_log (Some requester_id) ''guild.blocked_action.attachment_type_not_allowed'' None
               (audit_blocked guild (us_mime_type body)) now)) (\<lambda>_.
         done_with (StickerTrustBlocked guild (sticker_upload_allowed_mime_types guild)))
     | Completed created \<Rightarrow>
         seq (execute (append_audit_log (Some requester_id) ''sticker.upload'' (Some (ex_show_uuid ex (st_id created)))
               (audit_uploaded created) now)) (\<lambda>_.
         done_with (Created created))))"

definition list_stickers_handler :: "externals \<Rightarrow> claims \<Rightarrow> db \<Rightarrow> sticker_list_item list result" where
  "list_stickers_handler ex auth db =
     and_then (claims_user_id ex auth) (\<lambda>requester_id. Inr (list_stickers db requester_id (cl_role auth)))"

definition get_sticker_by_id :: "externals \<Rightarrow> claims \<Rightarrow> uuid \<Rightarrow> db \<Rightarrow> sticker_detail result" where
  "get_sticker_by_id ex auth sticker_id db =
     and_then (claims_user_id ex auth) (\<lambda>requester_id. get_sticker db requester_id (cl_role auth) sticker_id)"

definition audit_score :: "(uuid \<Rightarrow> string) \<Rightarrow> contribution_event_outcome \<Rightarrow> (string \<times> json) list" where
  "audit_score show_uuid score =
     [(''score_event_id'', json_opt_str (map_option (\<lambda>e. show_uuid (gse_id e)) (oc_event score))),
      (''score_delta_applied'', JInt (oc_applied_delta score)),
      (''contribution_score'', JInt (oc_contribution_score score)), (''derived_rank'', JStr (oc_derived_rank score)),
      (''score_duplicate'', JBool (oc_duplicate score)),
      (''score_suppressed_reason'', json_opt_str (oc_suppressed_reason score))]"

definition moderate ::
  "externals \<Rightarrow> (string \<Rightarrow> guild_policy_config option) \<Rightarrow> claims \<Rightarrow> uuid \<Rightarrow> string \<Rightarrow> uuid \<Rightarrow> instant \<Rightarrow> sticker action" where
  "moderate ex dec admin sticker_id action fresh_id now =
     seq (check (claims_user_id ex admin)) (\<lambda>admin_user_id.
     seq (statement (moderate_sticker sticker_id (trim action) now)) (\<lambda>updated.
     seq (statement (award_validated_moderation_action dec fresh_id admin_user_id
           EVENT_VALIDATED_MODERATION_STICKER_REVIEW (Some (ex_show_uuid ex sticker_id))
           (JObj [(''action'', JStr (trim action)), (''sticker_id'', JStr (ex_show_uuid ex sticker_id)),
              (''uploader_id'', JStr (ex_show_uuid ex (st_uploader_id updated)))]) now)) (\<lambda>score.
     seq (execute (append_audit_log (Some admin_user_id) ''sticker.moderate'' (Some (ex_show_uuid ex sticker_id))
           (JObj ([(''action'', JStr action), (''status'', JStr (st_status updated))] @
              audit_score (ex_show_uuid ex) score)) now)) (\<lambda>_.
     done_with updated))))"

definition update_group_author_handler ::
  "externals \<Rightarrow> claims \<Rightarrow> string \<Rightarrow> string option \<Rightarrow> instant \<Rightarrow> unit action" where
  "update_group_author_handler ex admin group_name author now =
     seq (check (claims_user_id ex admin)) (\<lambda>admin_user_id.
     seq (execute (update_group_author group_name author now)) (\<lambda>_.
     execute (append_audit_log (Some admin_user_id) ''sticker.update_group_author'' None
       (JObj [(''group_name'', JStr group_name), (''author'', json_opt_str author)]) now)))"

definition rename_group :: "externals \<Rightarrow> claims \<Rightarrow> string \<Rightarrow> string \<Rightarrow> instant \<Rightarrow> int action" where
  "rename_group ex admin old_name new_name now =
     seq (check (claims_user_id ex admin)) (\<lambda>admin_user_id.
     seq (statement (rename_sticker_group old_name new_name now)) (\<lambda>affected.
     seq (execute (append_audit_log (Some admin_user_id) ''sticker.rename_group'' None
           (JObj [(''old_name'', JStr old_name), (''new_name'', JStr new_name), (''affected_stickers'', JInt affected)]) now)) (\<lambda>_.
     done_with affected)))"

end
