(* ===== verification/Sticker_Properties.thy ===== *)
theory Sticker_Properties
  imports Sticker_Service Contribution_Properties
begin

text \<open>
  Properties of stickers: the handlers keep the sticker table within its quotas and formats, what
  is listed is what can be opened, and the public list of groups is exact.
\<close>

section \<open>What guild bookkeeping leaves alone\<close>

definition guild_core :: "db \<Rightarrow> db" where
  "guild_core db = db\<lparr>guild_stats := [], admin_audit_logs := [], guild_score_events := [], daily_action_counters := []\<rparr>"

lemma core_guild_core: "core db' = core db \<Longrightarrow> guild_core db' = guild_core db"
  by (cases db; cases db'; simp add: core_def guild_core_def)

lemma guild_coreD:
  assumes "guild_core db' = guild_core db"
  shows "users db' = users db" "stickers db' = stickers db" "messages db' = messages db"
  using assms by (cases db; cases db'; simp add: guild_core_def)+

lemma record_contribution_event_core:
  assumes "record_contribution_event dec eid uid g ty d ref meta opts now db = Inr (oc, db')"
  shows "guild_core db' = guild_core db"
proof -
  let ?p = "load_guild_policy_conn dec db"
  from assms obtain r0 db0 r1 db1 where e: "ensure_user_guild_stats ?p uid now db = Inr (r0, db0)"
    and s: "sync_derived_state ?p r0 now db0 = Inr (r1, db1)"
    and b: "apply_contribution_event ?p r1 eid uid g (trim ty) d
       (normalize_reference_id ref) meta opts now db1 = Inr (oc, db')"
    by (auto elim: record_contribution_event_cases)
  have c1: "core db1 = core db" by (rule stats_written_core [OF ensure_sync_spec(3) [OF e s]])
  show ?thesis using b
  proof (cases rule: apply_contribution_event_cases)
    case replay
    then show ?thesis using core_guild_core [OF c1] by simp
  next
    case (fresh checked db2 reason ev)
    obtain a r where c: "checked = (a, r)" by fastforce
    have "core db2 = core db"
      using granter_checks_spec(1) [OF fresh(2) [unfolded c]] c1 by (simp add: only_stats_of_def)
    then show ?thesis using core_guild_core [of db2 db] fresh(4-) by (auto simp: guild_core_def)
  qed
qed

lemma append_audit_log_core: "append_audit_log a b c d now db = Inr db' \<Longrightarrow> guild_core db' = guild_core db"
  by (auto simp: append_audit_log_def guild_core_def split: if_splits option.splits)

lemma increment_daily_counter_core: "increment_daily_counter uid a t now db = Inr db' \<Longrightarrow> guild_core db' = guild_core db"
  by (auto simp: increment_daily_counter_def guild_core_def split: if_splits)

section \<open>The table\<close>

definition sticker_row_ok :: "sticker \<Rightarrow> bool" where
  "sticker_row_ok s \<longleftrightarrow> st_name s \<noteq> [] \<and> utf8_len (st_name s) \<le> 80 \<and>
     st_group_name s \<noteq> [] \<and> utf8_len (st_group_name s) \<le> 40 \<and> st_mime_type s \<in> set ALLOWED_MIME_TYPES \<and>
     0 < st_size_bytes s \<and> st_size_bytes s \<le> int MAX_STICKER_SIZE_BYTES \<and>
     st_status s \<in> {''active'', ''pending'', ''rejected''} \<and> (st_group_author s \<noteq> None \<longrightarrow> st_name s = TAB_NAME)"

definition stickers_ok :: "db \<Rightarrow> bool" where
  "stickers_ok db \<longleftrightarrow> distinct_key st_id (stickers db) \<and>
     (\<forall>s \<in> set (stickers db). sticker_row_ok s \<and> user_exists db (st_uploader_id s)) \<and>
     (\<forall>u. int (length (stickers_of db u)) \<le> MAX_STICKERS_PER_USER \<and> used_bytes db u \<le> MAX_TOTAL_BYTES_PER_USER)"

lemma stickers_ok_core: "guild_core db' = guild_core db \<Longrightarrow> stickers_ok db' = stickers_ok db"
  using guild_coreD [of db' db]
  by (simp add: stickers_ok_def stickers_of_def used_bytes_def user_exists_def find_user_def)

lemma upload_sticker_conn_cases:
  assumes "upload_sticker_conn decode i u role input now db = Inr (s, db')"
  shows "db' = db\<lparr>stickers := insert_row s (stickers db)\<rparr>" "st_id s = i" "st_uploader_id s = u"
    "sticker_row_ok s" "find_row st_id (stickers db) i = None" "user_exists db u"
    "int (length (stickers_of db u)) < MAX_STICKERS_PER_USER"
    "used_bytes db u + st_size_bytes s \<le> MAX_TOTAL_BYTES_PER_USER"
    "st_status s = (if role = ''admin'' then ''active'' else ''pending'')" "st_created_at s = now"
  using assms by (auto simp: upload_sticker_conn_def check_upload_def Let_def result_simps sticker_row_ok_def
      find_row_None split: if_splits option.splits)

lemma stickers_of_insert:
  "stickers_of (db\<lparr>stickers := insert_row s (stickers db)\<rparr>) u =
     (if st_uploader_id s = u then stickers_of db u @ [s] else stickers_of db u)"
  by (simp add: stickers_of_def insert_row_def)

lemma upload_sticker_conn_ok:
  assumes "stickers_ok db" "upload_sticker_conn decode i u role input now db = Inr (s, db')"
  shows "stickers_ok db'"
proof -
  note c = upload_sticker_conn_cases [OF assms(2)]
  have ue: "user_exists (db\<lparr>stickers := rs\<rparr>) k = user_exists db k" for rs k
    by (simp add: user_exists_def find_user_def)
  show ?thesis using assms(1) c(2-8) unfolding stickers_ok_def c(1) used_bytes_def stickers_of_insert
    by (auto simp: row_simps ue)
qed

text \<open>An update that keeps ids, uploaders and sizes, and well-formed rows well-formed.\<close>

lemma update_stickers_ok:
  assumes "stickers_ok db"
    and f: "\<And>s. st_id (f s) = st_id s \<and> st_uploader_id (f s) = st_uploader_id s \<and> st_size_bytes (f s) = st_size_bytes s"
    and ok: "\<And>s. P s \<Longrightarrow> sticker_row_ok s \<Longrightarrow> sticker_row_ok (f s)"
  shows "stickers_ok (db\<lparr>stickers := update_rows P f (stickers db)\<rparr>)"
proof -
  let ?g = "\<lambda>s. if P s then f s else s"
  let ?db = "db\<lparr>stickers := update_rows P f (stickers db)\<rparr>"
  have of_u: "stickers_of ?db u = map ?g (stickers_of db u)" for u
    using f by (auto simp: stickers_of_def update_rows_def filter_map o_def intro!: arg_cong [where f = "map ?g"] filter_cong)
  have sizes: "map st_size_bytes (map ?g xs) = map st_size_bytes xs" for xs using f by auto
  have bytes: "used_bytes ?db u = used_bytes db u" for u by (simp only: used_bytes_def of_u sizes)
  have len: "length (stickers_of ?db u) = length (stickers_of db u)" for u by (simp add: of_u)
  have "distinct_key st_id (stickers ?db)" using assms(1) f by (simp add: stickers_ok_def row_simps)
  moreover have "\<forall>s \<in> set (stickers ?db). sticker_row_ok s \<and> user_exists ?db (st_uploader_id s)"
    using assms(1) f ok by (auto simp: stickers_ok_def set_update_rows user_exists_def find_user_def)
  ultimately show ?thesis using assms(1) unfolding stickers_ok_def bytes len by simp
qed

lemma rename_sticker_group_ok:
  "stickers_ok db \<Longrightarrow> rename_sticker_group a b now db = Inr (n, db') \<Longrightarrow> stickers_ok db'"
  by (auto simp: rename_sticker_group_def Let_def sticker_row_ok_def intro!: update_stickers_ok split: if_splits)

lemma update_group_author_ok:
  "stickers_ok db \<Longrightarrow> update_group_author g a now db = Inr db' \<Longrightarrow> stickers_ok db'"
  by (auto simp: update_group_author_def Let_def sticker_row_ok_def intro!: update_stickers_ok split: if_splits)

lemma moderate_sticker_ok:
  "stickers_ok db \<Longrightarrow> moderate_sticker i a now db = Inr (s, db') \<Longrightarrow> stickers_ok db'"
  by (auto simp: moderate_sticker_def Let_def result_simps update_row_def sticker_row_ok_def
      intro!: update_stickers_ok split: if_splits)

lemma attachment_upload_ok:
  assumes "stickers_ok db"
    and "run_attachment_action_with_guild dec sh u mime (upload_sticker_conn decode i u role input now) now db = Inr (r, db')"
  shows "stickers_ok db'"
proof -
  obtain p st db1 where g: "guild_activity dec sh u (date_naive now) now db = Inr ((p, st), db1)"
    using assms(2) by (auto simp: run_attachment_action_with_guild_def result_simps Let_def)
  have "guild_core db1 = guild_core db"
    by (rule core_guild_core [OF stats_written_core [OF guild_activity_spec(3) [OF g]]])
  then have ok1: "stickers_ok db1" using assms(1) stickers_ok_core by blast
  consider "db' = db1" | s db2 where "upload_sticker_conn decode i u role input now db1 = Inr (s, db2)"
      "increment_daily_counter u ACTION_ATTACHMENT_SEND (date_naive now) now db2 = Inr db'"
    using assms(2) g by (auto simp: run_attachment_action_with_guild_def result_simps Let_def split: if_splits)
  then show ?thesis
  proof cases
    case 1
    then show ?thesis using ok1 by simp
  next
    case 2
    then show ?thesis using upload_sticker_conn_ok [OF ok1] increment_daily_counter_core stickers_ok_core by blast
  qed
qed

lemma keeps_audit: "keeps stickers_ok (execute (append_audit_log a b c d now))"
  by (rule keeps_execute) (use append_audit_log_core stickers_ok_core in blast)

lemma upload_keeps: "keeps stickers_ok (upload ex dec decode auth body i now)"
proof -
  have "keeps stickers_ok (statement (upload_sticker_conn decode i u role body now))" for u role
    by (rule keeps_statement) (rule upload_sticker_conn_ok)
  moreover have "keeps stickers_ok (statement (run_attachment_action_with_guild dec sh u mime
      (upload_sticker_conn decode i u role body now) now))" for sh u mime role
    by (rule keeps_statement) (rule attachment_upload_ok)
  ultimately show ?thesis
    unfolding upload_def by (auto intro!: keeps_seq keeps_audit split: attachment_action_result.splits)
qed

lemma moderate_keeps: "keeps stickers_ok (moderate ex dec admin i action j now)"
proof -
  have "keeps stickers_ok (statement (moderate_sticker i a now))" for a
    by (rule keeps_statement) (rule moderate_sticker_ok)
  moreover have "keeps stickers_ok (statement (award_validated_moderation_action dec j u ty ref meta now))" for u ty ref meta
    by (rule keeps_statement)
      (use record_contribution_event_core stickers_ok_core in \<open>unfold award_validated_moderation_action_def, blast\<close>)
  ultimately show ?thesis unfolding moderate_def by (auto intro!: keeps_seq keeps_audit)
qed

lemma group_handlers_keep:
  "keeps stickers_ok (update_group_author_handler ex admin g a now)" "keeps stickers_ok (rename_group ex admin old new now)"
  unfolding update_group_author_handler_def rename_group_def
  by (auto intro!: keeps_seq keeps_audit keeps_execute keeps_statement
      intro: update_group_author_ok rename_sticker_group_ok)

text \<open>The requests on stickers, in any order, by anyone, failed ones included.\<close>

inductive sticker_step :: "db \<Rightarrow> db \<Rightarrow> bool" where
  upload: "upload ex dec decode auth body i now db = (r, db', es) \<Longrightarrow> sticker_step db db'"
| moderate: "moderate ex dec admin i action j now db = (r, db', es) \<Longrightarrow> sticker_step db db'"
| author: "update_group_author_handler ex admin g a now db = (r, db', es) \<Longrightarrow> sticker_step db db'"
| rename: "rename_group ex admin old new now db = (r, db', es) \<Longrightarrow> sticker_step db db'"

lemma keepsD: "keeps P m \<Longrightarrow> m db = (r, db', es) \<Longrightarrow> P db \<Longrightarrow> P db'"
  by (metis fst_conv keeps_def snd_conv)

interpretation stickers: machine "\<lambda>db. stickers db = []" sticker_step stickers_ok
proof
  show "stickers_ok db" if "stickers db = []" for db
    using that by (simp add: stickers_ok_def stickers_of_def used_bytes_def distinct_key_def
        MAX_STICKERS_PER_USER_def MAX_TOTAL_BYTES_PER_USER_def)
  show "stickers_ok db'" if "stickers_ok db" "sticker_step db db'" for db db'
    using that(2,1)
    by cases (use keepsD upload_keeps moderate_keeps group_handlers_keep in metis)+
qed

text \<open>
  [C29] Quotas hold in every reachable state. Starting from no stickers, after any sequence of
  uploads, reviews and changes of groups, no account has more than 120 stickers or more than
  8 MiB of them, no sticker is empty or larger than 256 KiB, every sticker has an allowed type, a
  valid name, group and status, and only the tab sticker of a group names an author.
\<close>

theorem sticker_quotas_hold:
  assumes "stickers db = []" "sticker_step\<^sup>*\<^sup>* db db'"
  shows "(\<forall>u. int (length (stickers_of db' u)) \<le> 120 \<and> used_bytes db' u \<le> 8388608) \<and>
    (\<forall>s \<in> set (stickers db'). sticker_row_ok s) \<and> distinct_key st_id (stickers db')"
  using stickers.inv_reachable [OF assms]
  by (simp add: stickers_ok_def MAX_STICKERS_PER_USER_def MAX_TOTAL_BYTES_PER_USER_def)

definition sample_sticker :: upload_sticker_input where
  "sample_sticker = \<lparr>us_group_name = ''cats'', us_name = ''__tab__'', us_mime_type = ''image/png'',
     us_content_base64 = ''abc'', us_group_author = Some '' ann ''\<rparr>"

definition sample_upload :: "upload_response result \<times> db \<times> effect list" where
  "sample_upload = upload sample_externals (\<lambda>_. None) Some
     \<lparr>cl_sub = ''3'', cl_role = ''admin'', cl_iat = 0, cl_exp = 0\<rparr> sample_sticker 9 5 sample_server"

lemma sample_upload_accepted: "is_ok (upload_sticker_conn Some 9 3 ''admin'' sample_sticker 5 sample_server)"
proof -
  have "trim ''cats'' = ''cats''" "trim ''__tab__'' = ''__tab__''" "trim ''abc'' = ''abc''" "utf8_len ''cats'' = 4"
    "utf8_len ''__tab__'' = 7" "''image/png'' \<in> set ALLOWED_MIME_TYPES" "user_exists sample_server 3" by code_simp+
  moreover have "stickers sample_server = []" by (simp add: sample_server_def empty_db_def)
  ultimately show ?thesis
    by (simp add: upload_sticker_conn_def check_upload_def sample_sticker_def MAX_STICKER_SIZE_BYTES_def
        MAX_STICKERS_PER_USER_def MAX_TOTAL_BYTES_PER_USER_def stickers_of_def used_bytes_def Let_def)
qed

theorem sticker_quotas_hold_witness:
  "case sample_upload of (_, db', _) \<Rightarrow>
     length (stickers db') = 1 \<and> (\<forall>s \<in> set (stickers db'). sticker_row_ok s) \<and> (\<forall>u. used_bytes db' u \<le> 8388608)"
proof -
  obtain r db' es where u: "sample_upload = (r, db', es)" by (metis prod_cases3)
  obtain s db1 where c: "upload_sticker_conn Some 9 3 ''admin'' sample_sticker 5 sample_server = Inr (s, db1)"
    using sample_upload_accepted by (auto simp: is_ok_iff)
  have id: "claims_user_id sample_externals \<lparr>cl_sub = ''3'', cl_role = ''admin'', cl_iat = 0, cl_exp = 0\<rparr> = Inr 3"
    by code_simp
  have "stickers db' = stickers db1"
    using u c id by (auto simp: sample_upload_def upload_def action_simps append_audit_log_def done_with_def
        split: if_splits option.splits)
  then have "length (stickers db') = 1"
    using upload_sticker_conn_cases(1) [OF c] by (simp add: insert_row_def sample_server_def empty_db_def)
  moreover have "sticker_step sample_server db'"
    using u unfolding sample_upload_def by (rule sticker_step.upload)
  moreover have "stickers sample_server = []" by (simp add: sample_server_def empty_db_def)
  ultimately show ?thesis using sticker_quotas_hold [OF _ r_into_rtranclp] by (simp add: u)
qed

section \<open>Visibility\<close>

text \<open>
  What is listed is what can be opened: the list shown to an account holds, newest first, the
  stickers that the account may fetch by id and no others, each with the data of its detail
  except the image.
\<close>

definition item_of_detail :: "sticker_detail \<Rightarrow> sticker_list_item" where
  "item_of_detail d = \<lparr>sli_id = sde_id d, sli_uploader_id = sde_uploader_id d, sli_group_name = sde_group_name d,
     sli_name = sde_name d, sli_mime_type = sde_mime_type d, sli_size_bytes = sde_size_bytes d,
     sli_status = sde_status d, sli_created_at = sde_created_at d, sli_group_author = sde_group_author d\<rparr>"

lemma item_of_detail_of [simp]: "item_of_detail (sticker_detail_of s) = sticker_list_item_of s"
  by (simp add: item_of_detail_def sticker_detail_of_def sticker_list_item_of_def)

theorem listed_stickers_openable:
  assumes "distinct_key st_id (stickers db)"
  shows "set (list_stickers db u role) = {item_of_detail d |i d. get_sticker db u role i = Inr d} \<and>
    sorted (map (\<lambda>s. - sli_created_at s) (list_stickers db u role))"
proof -
  have row: "find_row st_id (stickers db) i = Some s \<longleftrightarrow> s \<in> set (stickers db) \<and> st_id s = i" for i s
    using find_row_Some find_row_distinct [OF assms] by metis
  have "set (list_stickers db u role) = {item_of_detail d |i d. get_sticker db u role i = Inr d}"
    by (auto simp: list_stickers_def visible_stickers_def get_sticker_def result_simps ok_or_eq row image_iff
        split: if_splits) (metis item_of_detail_of)+
  moreover have "map (\<lambda>s. - sli_created_at s) (list_stickers db u role) =
      map (\<lambda>s. - st_created_at s) (visible_stickers db u role)"
    by (simp add: list_stickers_def sticker_list_item_of_def comp_def)
  ultimately show ?thesis by (simp add: visible_stickers_def)
qed

section \<open>Public groups\<close>

text \<open>
  The reference: the groups in the order of their oldest public sticker, each with the newest
  public tab sticker, its author and the number of public stickers that are not tabs.
\<close>

definition group_summary :: "sticker list \<Rightarrow> string \<Rightarrow> sticker_group_public" where
  "group_summary xs g =
    (let tabs = filter (\<lambda>s. st_group_name s = g \<and> st_name s = TAB_NAME) xs
     in \<lparr>sgp_name = g, sgp_author = (if tabs = [] then None else st_group_author (last tabs)),
         sgp_tab_sticker_id = (if tabs = [] then None else Some (st_id (last tabs))),
         sgp_total = length (filter (\<lambda>s. st_group_name s = g \<and> st_name s \<noteq> TAB_NAME) xs)\<rparr>)"

definition groups_by_age :: "sticker list \<Rightarrow> string list" where
  "groups_by_age xs = rev (remdups (rev (map st_group_name xs)))"

lemma add_to_groups_map:
  assumes "distinct gs" "\<And>g. sgp_name (F g) = g"
  shows "add_to_groups (map F gs) s =
    (if st_group_name s \<in> set gs then map (\<lambda>g. if g = st_group_name s then into_group s (F g) else F g) gs
     else map F gs @ add_to_groups [] s)"
  using assms(1) by (induction gs) (auto simp: assms(2) intro!: map_cong)

lemma group_summary_snoc:
  "group_summary (xs @ [s]) g = (if g = st_group_name s then into_group s (group_summary xs g) else group_summary xs g)"
  by (auto simp: group_summary_def into_group_def Let_def)

lemma group_summary_new:
  "g \<notin> st_group_name ` set xs \<Longrightarrow>
     group_summary xs g = \<lparr>sgp_name = g, sgp_author = None, sgp_tab_sticker_id = None, sgp_total = 0\<rparr>"
  by (auto simp: group_summary_def Let_def filter_empty_conv)

lemma foldl_groups: "foldl add_to_groups [] xs = map (group_summary xs) (groups_by_age xs)"
proof (induction xs rule: rev_induct)
  case (snoc s xs)
  let ?g = "st_group_name s"
  have d: "distinct (groups_by_age xs)" and mem: "set (groups_by_age xs) = st_group_name ` set xs"
    by (simp_all add: groups_by_age_def)
  have name: "sgp_name (group_summary xs g) = g" for g by (simp add: group_summary_def Let_def)
  have age: "groups_by_age (xs @ [s]) = (if ?g \<in> set (groups_by_age xs) then groups_by_age xs else groups_by_age xs @ [?g])"
    by (simp add: groups_by_age_def)
  have fold: "foldl add_to_groups [] (xs @ [s]) = add_to_groups (map (group_summary xs) (groups_by_age xs)) s"
    using snoc by simp
  show ?case
  proof (cases "?g \<in> set (groups_by_age xs)")
    case True
    then show ?thesis unfolding fold add_to_groups_map [OF d name] age
      by (auto simp: group_summary_snoc intro!: map_cong)
  next
    case False
    then have "map (group_summary (xs @ [s])) (groups_by_age xs) = map (group_summary xs) (groups_by_age xs)"
      by (auto simp: group_summary_snoc intro!: map_cong)
    moreover have "group_summary (xs @ [s]) ?g = into_group s (group_summary xs ?g)" by (simp add: group_summary_snoc)
    ultimately show ?thesis
      using False mem unfolding fold add_to_groups_map [OF d name] age by (simp add: group_summary_new)
  qed
qed (simp add: groups_by_age_def)

text \<open>
  The public list of groups equals its reference: the groups that have a public tab sticker, by
  the age of their oldest public sticker, each once, with the newest tab, the author given there
  and the exact number of public stickers beside the tabs. Stickers that wait for review or were
  rejected do not show.
\<close>

theorem sticker_groups_exact:
  "list_sticker_groups db =
    (let public = sort_key st_created_at (filter (\<lambda>s. st_status s = ''active'') (stickers db))
     in filter (\<lambda>g. sgp_tab_sticker_id g \<noteq> None) (map (group_summary public) (groups_by_age public)))"
  by (simp add: list_sticker_groups_def foldl_groups Let_def)

end
