(* ===== verification/Chat_Routes.thy ===== *)
theory Chat_Routes
  imports Actions Federation_Routes Message_Service Room_Service
begin

text \<open>
  The handlers of direct messages (src/src/routes/messages.rs) and rooms
  (src/src/routes/rooms.rs). They run several statements without a transaction, publish to the
  channels of Redis and hand notifications to the push service; these are the effects. Publishing
  is best effort in the code, so an effect is an attempt. \<open>dec\<close> decodes the stored guild policy.
\<close>

section \<open>Names of servers\<close>

definition instance_host :: "url_parser \<Rightarrow> string \<Rightarrow> string" where
  "instance_host parse_url instance_domain =
    (case parse_url instance_domain of
       Inr u \<Rightarrow> (case url_host u of
           Some host \<Rightarrow> to_lowercase host
         | None \<Rightarrow> to_lowercase (hd (split_on CHR '':'' instance_domain)))
     | Inl _ \<Rightarrow> to_lowercase (hd (split_on CHR '':'' instance_domain)))"

definition normalize_server_url :: "url_parser \<Rightarrow> string \<Rightarrow> url result" where
  "normalize_server_url parse_url raw =
    (case parse_url (trim raw) of
       Inl e \<Rightarrow> Inl (BadRequest (''Invalid recipient_server_url: '' @ e))
     | Inr parsed \<Rightarrow>
         if url_host parsed = None then Inl (BadRequest ''recipient_server_url must include host'')
         else Inr parsed)"

definition host_or_empty :: "url \<Rightarrow> string" where
  "host_or_empty u = (case url_host u of Some h \<Rightarrow> h | None \<Rightarrow> [])"

definition canonical_server_url :: "url \<Rightarrow> string" where
  "canonical_server_url u =
    (case url_port u of
       Some port \<Rightarrow> url_scheme u @ ''://'' @ host_or_empty u @ '':'' @ show_nat port
     | None \<Rightarrow> url_scheme u @ ''://'' @ host_or_empty u)"

definition parse_local_uuid :: "externals \<Rightarrow> string \<Rightarrow> uuid result" where
  "parse_local_uuid ex raw =
     ok_or (BadRequest ''recipient_id must be a UUID for local chats'') (ex_parse_uuid ex (trim raw))"

section \<open>Direct messages\<close>

definition publish_new_message_event :: "externals \<Rightarrow> uuid \<Rightarrow> uuid \<Rightarrow> message \<Rightarrow> effect list" where
  "publish_new_message_event ex sender_id recipient_id message =
     [Publish (user_channel (ex_show_uuid ex) recipient_id) (NewMessage message),
      Publish (user_channel (ex_show_uuid ex) sender_id) (NewMessage message)]"

definition dispatch_push_for_message :: "message \<Rightarrow> effect list" where
  "dispatch_push_for_message m = [PushMessage (m_recipient_id m) (m_sender_id m) (m_id m) (m_content m)]"

record send_message_request =
  sm_recipient_id :: string
  sm_recipient_server_url :: "string option"
  sm_content :: string

record resolve_contact_response =
  rc_partner_id :: uuid
  rc_recipient_id :: string
  rc_recipient_server_url :: string
  rc_display_handle :: string

datatype 'a limited_response = Ok 'a | LimitExceeded guild_snapshot int

definition resolve_contact ::
  "externals \<Rightarrow> fed_externals \<Rightarrow> (string \<Rightarrow> guild_policy_config option) \<Rightarrow> config \<Rightarrow> claims \<Rightarrow> string \<Rightarrow> string \<Rightarrow>
     uuid \<Rightarrow> instant \<Rightarrow> resolve_contact_response limited_response action" where
  "resolve_contact ex fx dec cf auth recipient recipient_server_url fresh_id now =
     seq (check (claims_user_id ex auth)) (\<lambda>user_id.
     seq (statement (resolve_contact_with_guild dec (ex_show_uuid ex) user_id now)) (\<lambda>outcome.
     case outcome of
       ContactLimited guild retry_after_seconds \<Rightarrow> done_with (LimitExceeded guild retry_after_seconds)
     | Allowed \<Rightarrow>
       let recipient_id = to_lowercase (trim recipient)
       in seq (check (guard_err (recipient_id \<noteq> []) (BadRequest ''recipient_id cannot be empty''))) (\<lambda>_.
          seq (check (normalize_server_url (fx_parse_url fx) recipient_server_url)) (\<lambda>server_url.
          let canonical = canonical_server_url server_url;
              target_host = to_lowercase (host_or_empty server_url)
          in if target_host = instance_host (fx_parse_url fx) (cf_instance_domain cf)
             then
               seq (check (parse_local_uuid ex recipient_id)) (\<lambda>local_id.
               seq (query (\<lambda>db. ensure_direct_message_allowed db user_id local_id now)) (\<lambda>_.
               seq (query (\<lambda>db. ok_or NotFound (find_user db local_id))) (\<lambda>user.
               done_with (Ok \<lparr>rc_partner_id = u_id user, rc_recipient_id = recipient_id,
                 rc_recipient_server_url = canonical, rc_display_handle = u_username user\<rparr>))))
             else
               seq (statement (ensure_federated_shadow_user (ex_sha256_hex ex) (parse_host (fx_parse_url fx))
                     fresh_id recipient_id canonical now)) (\<lambda>shadow.
               done_with (Ok \<lparr>rc_partner_id = u_id shadow, rc_recipient_id = recipient_id,
                 rc_recipient_server_url = canonical, rc_display_handle = recipient_id @ ''@'' @ target_host\<rparr>))))))"

text \<open>The account that a request names: local by its id, or the shadow of a remote user.\<close>

definition explicit_remote_target :: "fed_externals \<Rightarrow> string option \<Rightarrow> (string \<times> string) option result" where
  "explicit_remote_target fx server_url =
    (case server_url of
       Some raw \<Rightarrow>
         if trim raw \<noteq> []
         then and_then (normalize_server_url (fx_parse_url fx) raw) (\<lambda>parsed.
              Inr (Some (canonical_server_url parsed, to_lowercase (host_or_empty parsed))))
         else Inr None
     | None \<Rightarrow> Inr None)"

definition find_local_recipient :: "externals \<Rightarrow> string \<Rightarrow> user action" where
  "find_local_recipient ex recipient_id_raw =
     seq (check (parse_local_uuid ex recipient_id_raw)) (\<lambda>local_id.
     query (\<lambda>db. ok_or NotFound (find_user db local_id)))"

definition recipient_user ::
  "externals \<Rightarrow> fed_externals \<Rightarrow> config \<Rightarrow> (string \<times> string) option \<Rightarrow> string \<Rightarrow> uuid \<Rightarrow> instant \<Rightarrow> user action" where
  "recipient_user ex fx cf target recipient_id_raw fresh_id now =
    (case target of
       Some (remote_server_url, remote_host) \<Rightarrow>
         if remote_host = instance_host (fx_parse_url fx) (cf_instance_domain cf)
         then find_local_recipient ex recipient_id_raw
         else statement (ensure_federated_shadow_user (ex_sha256_hex ex) (parse_host (fx_parse_url fx))
                fresh_id recipient_id_raw remote_server_url now)
     | None \<Rightarrow> find_local_recipient ex recipient_id_raw)"

definition audit_message_limit :: "int \<Rightarrow> guild_snapshot \<Rightarrow> json" where
  "audit_message_limit retry_after_seconds guild =
     JObj [(''retry_after_seconds'', JInt retry_after_seconds), (''level'', JInt (int (sn_level guild))),
       (''rank'', JStr (sn_rank guild)),
       (''daily_outbound_messages_limit'', json_opt_int (sn_daily_outbound_messages_limit guild)),
       (''daily_outbound_messages_sent'', JInt (sn_daily_outbound_messages_sent guild))]"

text \<open>What follows a stored message: the events, then the delivery or the notification.\<close>

definition after_sent ::
  "externals \<Rightarrow> fed_externals \<Rightarrow> (app_error \<Rightarrow> string) \<Rightarrow> config \<Rightarrow> uuid \<Rightarrow> user \<Rightarrow> string option \<Rightarrow>
     send_fresh \<Rightarrow> instant \<Rightarrow> message \<Rightarrow> message limited_response action" where
  "after_sent ex fx cause cf sender_id recipient server_url fresh now message =
     seq (emit (publish_new_message_event ex sender_id (u_id recipient) message)) (\<lambda>_.
     case federated_identity_for_user recipient of
       Some target \<Rightarrow>
         seq (run_db (deliver_direct_message_to_remote fx cause cf sender_id (fi_remote_user_id target)
               (case trimmed_nonempty server_url of
                  Some url \<Rightarrow> url | None \<Rightarrow> ''https://'' @ fi_remote_host target)
               (m_content message) fresh now)) (\<lambda>_.
         done_with (Ok message))
     | None \<Rightarrow>
         seq (emit (dispatch_push_for_message message)) (\<lambda>_. done_with (Ok message)))"

definition post_message ::
  "externals \<Rightarrow> fed_externals \<Rightarrow> (string \<Rightarrow> guild_policy_config option) \<Rightarrow> (app_error \<Rightarrow> string) \<Rightarrow> config \<Rightarrow> claims \<Rightarrow>
     send_message_request \<Rightarrow> uuid \<Rightarrow> uuid \<Rightarrow> send_fresh \<Rightarrow> instant \<Rightarrow> message limited_response action" where
  "post_message ex fx dec cause cf auth body shadow_id message_id fresh now =
     seq (check (claims_user_id ex auth)) (\<lambda>sender_id.
     seq (check (guard_err (trim (sm_content body) \<noteq> []) (BadRequest ''Message content cannot be empty''))) (\<lambda>_.
     seq (check (explicit_remote_target fx (sm_recipient_server_url body))) (\<lambda>target.
     let recipient_id_raw = to_lowercase (trim (sm_recipient_id body)) in
     seq (check (guard_err (recipient_id_raw \<noteq> []) (BadRequest ''recipient_id cannot be empty''))) (\<lambda>_.
     seq (recipient_user ex fx cf target recipient_id_raw shadow_id now) (\<lambda>recipient.
     seq (query (\<lambda>db. ensure_direct_message_allowed db sender_id (u_id recipient) now)) (\<lambda>_.
     seq (statement (send_message_with_guild dec (ex_show_uuid ex) message_id sender_id (u_id recipient)
           (trim (sm_content body)) now)) (\<lambda>outcome.
     case outcome of
       SendLimited guild retry_after_seconds \<Rightarrow>
         seq (execute (append_audit_log (Some sender_id) ''guild.blocked_action.outbound_message_limit''
               (Some (ex_show_uuid ex (u_id recipient))) (audit_message_limit retry_after_seconds guild) now)) (\<lambda>_.
         done_with (LimitExceeded guild retry_after_seconds))
     | Sent message \<Rightarrow>
         after_sent ex fx cause cf sender_id recipient (sm_recipient_server_url body) fresh now message)))))))"

definition unread_counts_handler :: "externals \<Rightarrow> claims \<Rightarrow> db \<Rightarrow> (uuid \<rightharpoonup> int) result" where
  "unread_counts_handler ex auth db = and_then (claims_user_id ex auth) (\<lambda>viewer_id. Inr (unread_counts db viewer_id))"

text \<open>\<open>limit\<close> is the \<open>u8\<close> of the query.\<close>

definition get_conversation_handler ::
  "externals \<Rightarrow> claims \<Rightarrow> uuid \<Rightarrow> uuid option \<Rightarrow> nat option \<Rightarrow> db \<Rightarrow> message list result" where
  "get_conversation_handler ex auth partner_id before limit db =
     and_then (claims_user_id ex auth) (\<lambda>viewer_id.
     get_conversation db viewer_id partner_id before (case limit of Some n \<Rightarrow> n | None \<Rightarrow> 50))"

definition mark_read_handler ::
  "externals \<Rightarrow> (string \<Rightarrow> guild_policy_config option) \<Rightarrow> claims \<Rightarrow> uuid \<Rightarrow> instant \<Rightarrow> int action" where
  "mark_read_handler ex dec auth partner_id now =
     seq (check (claims_user_id ex auth)) (\<lambda>viewer_id.
     seq (statement (\<lambda>db. Inr (mark_read viewer_id partner_id now db))) (\<lambda>count.
     seq (execute (record_human_activity dec (ex_show_uuid ex) viewer_id (date_naive now) now)) (\<lambda>_.
     done_with count)))"

section \<open>Rooms\<close>

definition publish_new_room_message_event :: "externals \<Rightarrow> uuid \<Rightarrow> uuid list \<Rightarrow> room_message \<Rightarrow> effect list" where
  "publish_new_room_message_event ex room_id member_ids message =
     map (\<lambda>m. Publish (user_channel (ex_show_uuid ex) m) (NewRoomMessage room_id message)) member_ids"

definition publish_room_membership_changed_event :: "externals \<Rightarrow> uuid \<Rightarrow> uuid list \<Rightarrow> effect list" where
  "publish_room_membership_changed_event ex room_id member_ids =
     map (\<lambda>m. Publish (user_channel (ex_show_uuid ex) m) (RoomMembershipChanged room_id)) member_ids"

definition dispatch_push_for_room_message :: "uuid list \<Rightarrow> uuid \<Rightarrow> uuid \<Rightarrow> string \<Rightarrow> effect list" where
  "dispatch_push_for_room_message room_member_ids sender_id message_id content =
     map (\<lambda>m. PushMessage m sender_id message_id content) (filter (\<lambda>m. m \<noteq> sender_id) room_member_ids)"

definition note_activity :: "externals \<Rightarrow> (string \<Rightarrow> guild_policy_config option) \<Rightarrow> uuid \<Rightarrow> instant \<Rightarrow> unit action" where
  "note_activity ex dec user_id now = execute (record_human_activity dec (ex_show_uuid ex) user_id (date_naive now) now)"

definition create_room_handler ::
  "externals \<Rightarrow> (string \<Rightarrow> guild_policy_config option) \<Rightarrow> claims \<Rightarrow> string \<Rightarrow> uuid list \<Rightarrow> uuid \<Rightarrow> instant \<Rightarrow> room_detail action" where
  "create_room_handler ex dec auth name member_ids fresh_id now =
     seq (check (claims_user_id ex auth)) (\<lambda>user_id.
     seq (statement (create_room fresh_id user_id name member_ids now)) (\<lambda>room.
     seq (note_activity ex dec user_id now) (\<lambda>_. done_with room)))"

definition list_rooms_handler :: "externals \<Rightarrow> claims \<Rightarrow> db \<Rightarrow> room_summary list result" where
  "list_rooms_handler ex auth db = and_then (claims_user_id ex auth) (\<lambda>user_id. Inr (list_rooms db user_id))"

definition get_room_handler :: "externals \<Rightarrow> claims \<Rightarrow> uuid \<Rightarrow> db \<Rightarrow> room_detail result" where
  "get_room_handler ex auth room_id db = and_then (claims_user_id ex auth) (\<lambda>user_id. get_room db room_id user_id)"

definition update_room :: "externals \<Rightarrow> claims \<Rightarrow> uuid \<Rightarrow> string \<Rightarrow> instant \<Rightarrow> room_detail action" where
  "update_room ex auth room_id name now =
     seq (check (claims_user_id ex auth)) (\<lambda>user_id. statement (rename_room room_id user_id name now))"

definition add_room_members_handler ::
  "externals \<Rightarrow> (string \<Rightarrow> guild_policy_config option) \<Rightarrow> claims \<Rightarrow> uuid \<Rightarrow> uuid list \<Rightarrow> instant \<Rightarrow> room_detail action" where
  "add_room_members_handler ex dec auth room_id member_ids now =
     seq (check (claims_user_id ex auth)) (\<lambda>user_id.
     seq (statement (add_room_members room_id user_id member_ids now)) (\<lambda>room.
     seq (query (\<lambda>db. list_room_member_ids db room_id user_id)) (\<lambda>room_member_ids.
     seq (emit (publish_room_membership_changed_event ex room_id room_member_ids)) (\<lambda>_.
     seq (note_activity ex dec user_id now) (\<lambda>_. done_with room)))))"

definition remove_room_member_handler ::
  "externals \<Rightarrow> (string \<Rightarrow> guild_policy_config option) \<Rightarrow> claims \<Rightarrow> uuid \<Rightarrow> uuid \<Rightarrow> instant \<Rightarrow> room_detail action" where
  "remove_room_member_handler ex dec auth room_id member_id now =
     seq (check (claims_user_id ex auth)) (\<lambda>user_id.
     seq (statement (remove_room_member room_id user_id member_id now)) (\<lambda>room.
     seq (query (\<lambda>db. list_room_member_ids db room_id user_id)) (\<lambda>ids.
     seq (emit (publish_room_membership_changed_event ex room_id (btree_set (member_id # ids)))) (\<lambda>_.
     seq (note_activity ex dec user_id now) (\<lambda>_. done_with room)))))"

definition get_room_messages_handler ::
  "externals \<Rightarrow> claims \<Rightarrow> uuid \<Rightarrow> uuid option \<Rightarrow> nat option \<Rightarrow> db \<Rightarrow> room_message list result" where
  "get_room_messages_handler ex auth room_id before limit db =
     and_then (claims_user_id ex auth) (\<lambda>user_id.
     get_room_messages db room_id user_id before (case limit of Some n \<Rightarrow> n | None \<Rightarrow> 50))"

definition post_room_message ::
  "externals \<Rightarrow> (string \<Rightarrow> guild_policy_config option) \<Rightarrow> claims \<Rightarrow> uuid \<Rightarrow> string \<Rightarrow> uuid \<Rightarrow> instant \<Rightarrow> room_message action" where
  "post_room_message ex dec auth room_id body fresh_id now =
     seq (check (claims_user_id ex auth)) (\<lambda>sender_id.
     let content = trim body in
     seq (check (guard_err (content \<noteq> []) (BadRequest ''Message content cannot be empty''))) (\<lambda>_.
     seq (statement (send_room_message fresh_id room_id sender_id content now)) (\<lambda>message.
     seq (query (\<lambda>db. list_room_member_ids db room_id sender_id)) (\<lambda>room_member_ids.
     seq (query (\<lambda>db. Inr (filter (\<lambda>m. \<not> is_block_active_between db sender_id m) room_member_ids))) (\<lambda>visible_member_ids.
     seq (emit (publish_new_room_message_event ex room_id visible_member_ids message)) (\<lambda>_.
     seq (emit (dispatch_push_for_room_message visible_member_ids sender_id (rmsg_id message) content)) (\<lambda>_.
     seq (note_activity ex dec sender_id now) (\<lambda>_. done_with message))))))))"

definition mark_room_read_handler ::
  "externals \<Rightarrow> (string \<Rightarrow> guild_policy_config option) \<Rightarrow> claims \<Rightarrow> uuid \<Rightarrow> instant \<Rightarrow> int action" where
  "mark_room_read_handler ex dec auth room_id now =
     seq (check (claims_user_id ex auth)) (\<lambda>user_id.
     seq (statement (mark_room_read room_id user_id now)) (\<lambda>count.
     seq (note_activity ex dec user_id now) (\<lambda>_. done_with count)))"

definition leave_room_handler :: "externals \<Rightarrow> claims \<Rightarrow> uuid \<Rightarrow> unit action" where
  "leave_room_handler ex auth room_id =
     seq (check (claims_user_id ex auth)) (\<lambda>user_id. execute (leave_room room_id user_id))"

definition delete_room_handler :: "externals \<Rightarrow> claims \<Rightarrow> uuid \<Rightarrow> unit action" where
  "delete_room_handler ex auth room_id =
     seq (check (claims_user_id ex auth)) (\<lambda>user_id. execute (delete_room room_id user_id))"

end
