(* ===== verification/Chat_Properties.thy ===== *)
theory Chat_Properties
  imports Chat_Routes Guild_Properties Room_Properties Delivery_Properties
begin

text \<open>
  Properties of the message and room handlers: what the guards of moderation mean for the whole
  request, who is told about a message, and what a failed delivery leaves behind.
\<close>

section \<open>What the steps leave alone\<close>

lemma shadow_frame:
  assumes "ensure_federated_shadow_user h p i rid url now db = Inr (u, db')"
  shows "messages db' = messages db" "user_blocks db' = user_blocks db" "federation_deliveries db' = federation_deliveries db"
  using assms
  by (auto simp: ensure_federated_shadow_user_def Let_def result_simps insert_user_def update_user_def
      split: option.splits sum.splits app_error.splits db_error.splits if_splits)

text \<open>
  The account that a request addresses: the local account of the id it gives, or the account that
  stands for the remote user it names on the remote server it names.
\<close>

definition addressed_to :: "externals \<Rightarrow> fed_externals \<Rightarrow> config \<Rightarrow> send_message_request \<Rightarrow> user \<Rightarrow> bool" where
  "addressed_to ex fx cf body rcp \<longleftrightarrow>
    (let rid = to_lowercase (trim (sm_recipient_id body)); is_local = ex_parse_uuid ex (trim rid) = Some (u_id rcp)
     in case explicit_remote_target fx (sm_recipient_server_url body) of
          Inl _ \<Rightarrow> False
        | Inr None \<Rightarrow> is_local
        | Inr (Some (url, host)) \<Rightarrow>
            if host = instance_host (fx_parse_url fx) (cf_instance_domain cf) then is_local
            else \<exists>name h. normalize_remote_user_id rid = Inr name \<and>
              normalize_remote_host (parse_host (fx_parse_url fx)) url = Inr h \<and> u_username rcp = name @ ''@'' @ h)"

lemma find_local_recipient_cases:
  assumes "find_local_recipient ex rid db = (r, db', es)"
  shows "db' = db" "es = []" "r = Inr u \<Longrightarrow> ex_parse_uuid ex (trim rid) = Some (u_id u) \<and> u \<in> set (users db)"
  using assms
  by (auto simp: find_local_recipient_def parse_local_uuid_def seq_def check_def query_def result_simps find_user_def
      dest: find_row_Some split: option.splits prod.splits sum.splits)

lemma shadow_recipient:
  assumes "ensure_federated_shadow_user h p i rid url now db = Inr (u, db')"
  shows "u \<in> set (users db') \<and> (\<exists>name host. normalize_remote_user_id rid = Inr name \<and>
    normalize_remote_host p url = Inr host \<and> u_username u = name @ ''@'' @ host)"
  by (rule ensure_shadow_cases [OF assms]) (auto simp: find_by_username_def dest: find_row_Some)

lemma recipient_user_frame:
  assumes "recipient_user ex fx cf target rid i now db = (r, db', es)"
  shows "messages db' = messages db" "user_blocks db' = user_blocks db" "es = []"
    "federation_deliveries db' = federation_deliveries db"
proof -
  have "messages db' = messages db \<and> user_blocks db' = user_blocks db \<and> es = [] \<and> federation_deliveries db' = federation_deliveries db"
    using assms shadow_frame [of "ex_sha256_hex ex" "parse_host (fx_parse_url fx)" i rid _ now db]
      find_local_recipient_cases(1,2) [of ex rid db r db' es]
    by (auto simp: recipient_user_def statement_def split: option.splits prod.splits if_splits sum.splits)
  then show "messages db' = messages db" "user_blocks db' = user_blocks db" "es = []"
    "federation_deliveries db' = federation_deliveries db" by auto
qed

lemma recipient_user_addressed:
  assumes "recipient_user ex fx cf target (to_lowercase (trim (sm_recipient_id body))) i now db = (Inr rcp, db', es)"
    and "explicit_remote_target fx (sm_recipient_server_url body) = Inr target"
  shows "addressed_to ex fx cf body rcp \<and> rcp \<in> set (users db')"
proof -
  let ?rid = "to_lowercase (trim (sm_recipient_id body))"
  consider "find_local_recipient ex ?rid db = (Inr rcp, db', es)"
      "case target of None \<Rightarrow> True | Some (_, host) \<Rightarrow> host = instance_host (fx_parse_url fx) (cf_instance_domain cf)"
    | url host where "target = Some (url, host)" "host \<noteq> instance_host (fx_parse_url fx) (cf_instance_domain cf)"
      "ensure_federated_shadow_user (ex_sha256_hex ex) (parse_host (fx_parse_url fx)) i ?rid url now db = Inr (rcp, db')"
    using assms(1) by (auto simp: recipient_user_def statement_def split: option.splits prod.splits if_splits sum.splits)
  then show ?thesis
  proof cases
    case 1
    then show ?thesis using find_local_recipient_cases(1) [OF 1(1)] find_local_recipient_cases(3) [OF 1(1) refl] assms(2)
      by (auto simp: addressed_to_def Let_def split: option.splits)
  next
    case 2
    then show ?thesis using shadow_recipient [OF 2(3)] assms(2) by (simp add: addressed_to_def Let_def)
  qed
qed

text \<open>The delivery of a message writes only keys and deliveries of the federation.\<close>

definition fed_core :: "db \<Rightarrow> db" where
  "fed_core db = db\<lparr>federation_actor_keys := [], federation_deliveries := []\<rparr>"

lemma fed_coreD:
  assumes "fed_core db' = fed_core db"
  shows "users db' = users db" "messages db' = messages db"
  using assms by (cases db; cases db'; simp add: fed_core_def)+

lemma fed_core_frame: "fed_core db' = fed_core db \<Longrightarrow> messages db' = messages db \<and> users db' = users db"
  using fed_coreD by blast

lemma fed_core_steps:
  "upsert_delivery_pending i a s d now db = Inr (x, db') \<Longrightarrow> fed_core db' = fed_core db"
  "mark_delivery_success k now db = Inr db' \<Longrightarrow> fed_core db' = fed_core db"
  "mark_delivery_failure k m n now db = Inr db' \<Longrightarrow> fed_core db' = fed_core db"
  "ensure_actor_key_material fx cf s i g now db = Inr (y, db') \<Longrightarrow> fed_core db' = fed_core db"
  by (auto simp: fed_core_def upsert_delivery_pending_def mark_delivery_success_def mark_delivery_failure_def
      ensure_actor_key_material_def ensure_actor_key_def update_delivery_def Let_def result_simps
      split: if_splits option.splits)

text \<open>The rows of the deliveries that a delivery leaves go where rows went before, or to its inbox.\<close>

lemma upsert_delivery_destinations:
  assumes "upsert_delivery_pending i a s dest now db = Inr (x, db')"
  shows "fd_destination ` set (federation_deliveries db') \<subseteq> insert dest (fd_destination ` set (federation_deliveries db))"
  using assms
  by (auto simp: upsert_delivery_pending_def Let_def result_simps upsert_row_def insert_row_def update_row_def
      set_update_rows split: if_splits option.splits)

lemma update_delivery_destinations:
  "(\<And>d. fd_destination (f d) = fd_destination d) \<Longrightarrow>
    fd_destination ` set (federation_deliveries (update_delivery k f now db)) = fd_destination ` set (federation_deliveries db)"
  by (simp add: update_delivery_def update_row_def image_key_update_rows)

lemma mark_delivery_destinations:
  assumes "mark_delivery_success k now db = Inr db' \<or> mark_delivery_failure k m n now db = Inr db'"
  shows "fd_destination ` set (federation_deliveries db') = fd_destination ` set (federation_deliveries db)"
proof -
  have "\<exists>f. db' = update_delivery k f now db \<and> (\<forall>d. fd_destination (f d) = fd_destination d)"
    using assms
    by (auto simp: mark_delivery_success_def mark_delivery_failure_def Let_def result_simps
        split: if_splits option.splits intro!: exI conjI refl)
  then show ?thesis using update_delivery_destinations by metis
qed

lemma key_material_deliveries:
  "ensure_actor_key_material fx cf s i g now db = Inr (y, db') \<Longrightarrow> federation_deliveries db' = federation_deliveries db"
  by (auto simp: ensure_actor_key_material_def ensure_actor_key_def Let_def result_simps split: if_splits option.splits)

lemma deliver_frame:
  assumes "deliver_direct_message_to_remote fx cause cf s rid url content fresh now db = (r, db')"
  shows "fed_core db' = fed_core db \<and> (\<forall>d \<in> set (federation_deliveries db').
    fd_destination d \<in> fd_destination ` set (federation_deliveries db) \<or> build_remote_inbox_url fx url rid = Inr (fd_destination d))"
proof
  show "fed_core db' = fed_core db" using assms
    by (auto simp: deliver_direct_message_to_remote_def Let_def result_simps and_then_def
        split: sum.splits prod.splits if_splits
        dest!: fed_core_steps)
  consider "federation_deliveries db' = federation_deliveries db"
    | dest y db1 x i a n db2 where "build_remote_inbox_url fx url rid = Inr dest"
      "ensure_actor_key_material fx cf n (sd_key_id fresh) (sd_generated fresh) now db = Inr (y, db1)"
      "upsert_delivery_pending i a n dest now db1 = Inr (x, db2)"
      "db' = db2 \<or> mark_delivery_success (fd_id x) now db2 = Inr db' \<or> (\<exists>m k. mark_delivery_failure (fd_id x) m k now db2 = Inr db')"
    using assms key_material_deliveries [of fx cf _ "sd_key_id fresh" "sd_generated fresh" now db]
    by (auto simp: deliver_direct_message_to_remote_def Let_def result_simps and_then_def
        split: sum.splits prod.splits if_splits) metis+
  then show "\<forall>d \<in> set (federation_deliveries db').
    fd_destination d \<in> fd_destination ` set (federation_deliveries db) \<or> build_remote_inbox_url fx url rid = Inr (fd_destination d)"
  proof cases
    case 2
    have "fd_destination ` set (federation_deliveries db') = fd_destination ` set (federation_deliveries db2)"
      using 2(4) mark_delivery_destinations by metis
    then have "fd_destination ` set (federation_deliveries db') \<subseteq> insert dest (fd_destination ` set (federation_deliveries db))"
      using upsert_delivery_destinations [OF 2(3)] key_material_deliveries [OF 2(2)] by simp
    then show ?thesis using 2(1) by blast
  qed simp
qed

lemma core_deliveries: "core db' = core db \<Longrightarrow> federation_deliveries db' = federation_deliveries db"
  by (cases db; cases db') (simp add: core_def)

lemma send_stores:
  assumes "send_message_with_guild dec sh mid s rcp body now db = Inr (Sent m, db')"
  shows "messages db' = messages db @ [m]" "users db' = users db" "m = new_message mid s rcp body now"
    "federation_deliveries db' = federation_deliveries db"
proof -
  obtain p st d d1 where g: "guild_activity dec sh s (date_naive now) now db = Inr ((p, st), d)"
    and ins: "insert_message_conn mid s rcp body now d = Inr (m, d1)"
    and inc: "increment_daily_counter s ACTION_OUTBOUND_MESSAGE (date_naive now) now d1 = Inr db'"
    using assms by (auto simp: send_message_with_guild_def Let_def result_simps split: if_splits)
  note core = core_eqD(1,5) [OF stats_written_core [OF guild_activity_spec(3) [OF g]]]
  have "d1 = d\<lparr>messages := insert_row m (messages d)\<rparr>" "m = new_message mid s rcp body now"
    using ins by (auto simp: insert_message_conn_def Let_def split: if_splits)
  then show "messages db' = messages db @ [m]" "users db' = users db" "m = new_message mid s rcp body now"
    "federation_deliveries db' = federation_deliveries db"
    using core increment_daily_counter_spec(2,3) [OF inc] inc
      core_deliveries [OF stats_written_core [OF guild_activity_spec(3) [OF g]]]
    by (auto simp: insert_row_def increment_daily_counter_def split: if_splits)
qed

lemma send_limited_stores_nothing:
  assumes "send_message_with_guild dec sh mid s rcp body now db = Inr (SendLimited sn t, db')"
  shows "messages db' = messages db"
proof -
  obtain p st where g: "guild_activity dec sh s (date_naive now) now db = Inr ((p, st), db')"
    using assms by (auto simp: send_message_with_guild_def Let_def result_simps split: if_splits)
  show ?thesis by (rule core_eqD(5) [OF stats_written_core [OF guild_activity_spec(3) [OF g]]])
qed

lemma audit_frame: "append_audit_log a b c d now db = Inr db' \<Longrightarrow> messages db' = messages db \<and> users db' = users db"
  by (auto simp: append_audit_log_def split: if_splits option.splits)

lemma direct_message_guard:
  assumes "ensure_direct_message_allowed db s r now = Inr ()"
  shows "\<not> is_block_active_between db s r" "\<exists>u \<in> set (users db). u_id u = s \<and> \<not> yellow_card_active u now"
  using assms find_row_Some [of u_id "users db" s]
  by (auto simp: ensure_direct_message_allowed_def result_simps ensure_no_yellow_card_def ensure_no_block_between_def
      find_user_def)

section \<open>Direct messages\<close>

text \<open>
  Who is told of a message, and what: both parties get the message itself on their channels, and
  the devices of a local recipient are notified of it, with its sender and its text.
\<close>

definition told_of :: "externals \<Rightarrow> user \<Rightarrow> message \<Rightarrow> effect list \<Rightarrow> bool" where
  "told_of ex rcp m es \<longleftrightarrow>
     es = [Publish (user_channel (ex_show_uuid ex) (u_id rcp)) (NewMessage m),
           Publish (user_channel (ex_show_uuid ex) (m_sender_id m)) (NewMessage m)] @
       (if federated_identity_for_user rcp = None
        then [PushMessage (u_id rcp) (m_sender_id m) (m_id m) (m_content m)] else [])"

text \<open>
  Where a message is delivered to: nowhere for a local recipient, and otherwise to the inbox of the
  remote user on the server that the request names, or on the contact's own server.
\<close>

definition delivered_to :: "fed_externals \<Rightarrow> send_message_request \<Rightarrow> user \<Rightarrow> db \<Rightarrow> db \<Rightarrow> bool" where
  "delivered_to fx body rcp db db' \<longleftrightarrow>
    (case federated_identity_for_user rcp of
       None \<Rightarrow> federation_deliveries db' = federation_deliveries db
     | Some target \<Rightarrow> \<forall>d \<in> set (federation_deliveries db').
         fd_destination d \<in> fd_destination ` set (federation_deliveries db) \<or>
         build_remote_inbox_url fx (case trimmed_nonempty (sm_recipient_server_url body) of
             Some url \<Rightarrow> url | None \<Rightarrow> ''https://'' @ fi_remote_host target) (fi_remote_user_id target) = Inr (fd_destination d))"

lemma after_sent_frame:
  assumes "after_sent ex fx cause cf s rcp (sm_recipient_server_url body) fresh now m db = (r, db', es)"
    and "m_sender_id m = s" "m_recipient_id m = u_id rcp"
  shows "messages db' = messages db" "users db' = users db" "told_of ex rcp m es" "delivered_to fx body rcp db db'"
proof -
  have "messages db' = messages db \<and> users db' = users db \<and> told_of ex rcp m es \<and> delivered_to fx body rcp db db'"
  proof (cases "federated_identity_for_user rcp")
    case None
    then show ?thesis using assms
      by (auto simp: after_sent_def action_simps done_with_def told_of_def delivered_to_def
          publish_new_message_event_def dispatch_push_for_message_def)
  next
    case (Some target)
    obtain x db1 where d: "deliver_direct_message_to_remote fx cause cf s (fi_remote_user_id target)
        (case trimmed_nonempty (sm_recipient_server_url body) of Some url \<Rightarrow> url | None \<Rightarrow> ''https://'' @ fi_remote_host target)
        (m_content m) fresh now db = (x, db1)" by force
    have "db' = db1" "es = publish_new_message_event ex s (u_id rcp) m"
      using assms(1) Some d by (auto simp: after_sent_def action_simps done_with_def split: sum.splits)
    then show ?thesis using deliver_frame [OF d] fed_core_frame [of db1 db] Some assms(2)
      by (simp add: told_of_def delivered_to_def publish_new_message_event_def)
  qed
  then show "messages db' = messages db" "users db' = users db" "told_of ex rcp m es" "delivered_to fx body rcp db db'"
    by auto
qed

lemma post_message_cases:
  assumes "post_message ex fx dec cause cf auth body sid mid fresh now db = (r, db', es)"
  obtains "messages db' = messages db" "es = []"
  | sender target rcp db1 m db2 where "claims_user_id ex auth = Inr sender" "trim (sm_content body) \<noteq> []"
      "explicit_remote_target fx (sm_recipient_server_url body) = Inr target"
      "recipient_user ex fx cf target (to_lowercase (trim (sm_recipient_id body))) sid now db = (Inr rcp, db1, [])"
      "ensure_direct_message_allowed db1 sender (u_id rcp) now = Inr ()"
      "send_message_with_guild dec (ex_show_uuid ex) mid sender (u_id rcp) (trim (sm_content body)) now db1 = Inr (Sent m, db2)"
      "after_sent ex fx cause cf sender rcp (sm_recipient_server_url body) fresh now m db2 = (r, db', es)"
proof (cases "is_ok (claims_user_id ex auth) \<and> trim (sm_content body) \<noteq> [] \<and>
    is_ok (explicit_remote_target fx (sm_recipient_server_url body)) \<and> to_lowercase (trim (sm_recipient_id body)) \<noteq> []")
  case False
  then have "messages db' = messages db" "es = []"
    using assms by (cases "claims_user_id ex auth"; cases "explicit_remote_target fx (sm_recipient_server_url body)";
        auto simp: post_message_def action_simps guard_err_def split: if_splits)+
  then show thesis by (rule that(1))
next
  case pre: True
  then obtain sender target where ok: "claims_user_id ex auth = Inr sender"
      "explicit_remote_target fx (sm_recipient_server_url body) = Inr target" by (auto simp: is_ok_iff)
  obtain r1 db1 es1 where rcp: "recipient_user ex fx cf target (to_lowercase (trim (sm_recipient_id body))) sid now db = (r1, db1, es1)"
    by (metis prod_cases3)
  note fr = recipient_user_frame [OF rcp]
  have req: "(case r1 of Inl e \<Rightarrow> (Inl e, db1, []) | Inr x \<Rightarrow>
      seq (query (\<lambda>db. ensure_direct_message_allowed db sender (u_id x) now)) (\<lambda>_.
      seq (statement (send_message_with_guild dec (ex_show_uuid ex) mid sender (u_id x) (trim (sm_content body)) now)) (\<lambda>outcome.
      case outcome of
        SendLimited guild t \<Rightarrow>
          seq (execute (append_audit_log (Some sender) ''guild.blocked_action.outbound_message_limit''
               (Some (ex_show_uuid ex (u_id x))) (audit_message_limit t guild) now)) (\<lambda>_. done_with (LimitExceeded guild t))
      | Sent message \<Rightarrow> after_sent ex fx cause cf sender x (sm_recipient_server_url body) fresh now message)) db1) = (r, db', es)"
    using assms pre ok rcp fr(3)
    by (auto simp: post_message_def action_simps guard_err_def Let_def seq_def [of "recipient_user _ _ _ _ _ _ _"]
        split: sum.splits prod.splits)
  show thesis
  proof (cases "\<exists>x m db2. r1 = Inr x \<and> ensure_direct_message_allowed db1 sender (u_id x) now = Inr () \<and>
      send_message_with_guild dec (ex_show_uuid ex) mid sender (u_id x) (trim (sm_content body)) now db1 = Inr (Sent m, db2)")
    case True
    then obtain x m db2 where g: "r1 = Inr x" "ensure_direct_message_allowed db1 sender (u_id x) now = Inr ()"
      "send_message_with_guild dec (ex_show_uuid ex) mid sender (u_id x) (trim (sm_content body)) now db1 = Inr (Sent m, db2)"
      by blast
    have "after_sent ex fx cause cf sender x (sm_recipient_server_url body) fresh now m db2 = (r, db', es)"
      using req g by (simp add: action_simps)
    then show thesis using that(2) [OF ok(1) _ ok(2) _ g(2,3)] pre rcp fr(3) g(1) by blast
  next
    case False
    then have "messages db' = messages db1 \<and> es = []"
      using req by (auto simp: action_simps done_with_def dest!: send_limited_stores_nothing audit_frame
          split: sum.splits prod.splits send_message_result.splits)
    then show thesis using that(1) fr(1) by simp
  qed
qed

text \<open>
  [C7] The request to send a message, whatever comes of it: either nothing is stored and nobody is
  told, or exactly one message is appended; it is from the account that sent the request to the
  account that the request addresses, its text is the trimmed, non-empty content, no block is
  active between the parties and the sender has no active yellow card; the message is published
  to the channels of exactly the two parties, and if the recipient is local exactly its devices
  are notified of this message; and a delivery is recorded only for a remote recipient and only
  to its inbox on the server that the request names or on its own.
\<close>

theorem post_message_guarded:
  assumes "post_message ex fx dec cause cf auth body sid mid fresh now db = (r, db', es)"
  shows "messages db' = messages db \<and> es = [] \<or>
    (\<exists>m rcp. messages db' = messages db @ [m] \<and> claims_user_id ex auth = Inr (m_sender_id m) \<and>
       rcp \<in> set (users db') \<and> addressed_to ex fx cf body rcp \<and> m_recipient_id m = u_id rcp \<and>
       m_content m = trim (sm_content body) \<and> m_content m \<noteq> [] \<and> m_id m = mid \<and>
       \<not> is_block_active_between db (m_sender_id m) (m_recipient_id m) \<and>
       (\<exists>u \<in> set (users db'). u_id u = m_sender_id m \<and> \<not> yellow_card_active u now) \<and>
       told_of ex rcp m es \<and> delivered_to fx body rcp db db')"
proof -
  show ?thesis using assms
  proof (cases rule: post_message_cases)
    case (2 sender target rcp db1 m db2)
    note st = send_stores [OF 2(6)]
    have m: "m_sender_id m = sender" "m_recipient_id m = u_id rcp" "m_content m = trim (sm_content body)" "m_id m = mid"
      by (simp_all add: st(3) new_message_def)
    note af = after_sent_frame [OF 2(7) m(1,2)]
    note fr = recipient_user_frame [OF 2(4)]
    have "\<not> is_block_active_between db sender (u_id rcp)"
      using direct_message_guard(1) [OF 2(5)] fr(2) by (simp add: is_block_active_between_def)
    moreover have "\<exists>u \<in> set (users db'). u_id u = sender \<and> \<not> yellow_card_active u now"
      using direct_message_guard(2) [OF 2(5)] st(2) af(2) by simp
    moreover have "messages db' = messages db @ [m]" using af(1) st(1) fr(1) by simp
    moreover have "rcp \<in> set (users db')" "addressed_to ex fx cf body rcp"
      using recipient_user_addressed [OF 2(4,3)] st(2) af(2) by simp_all
    moreover have "delivered_to fx body rcp db db'" using af(4) st(4) fr(4) by (simp add: delivered_to_def split: option.splits)
    ultimately show ?thesis using 2(1,2) m af(3) by auto
  qed auto
qed

section \<open>Rooms\<close>

text \<open>The accounts that a message of a sender reaches: members without an active block.\<close>

definition reach :: "db \<Rightarrow> uuid \<Rightarrow> uuid \<Rightarrow> uuid set" where
  "reach db room sender = {u. \<exists>m \<in> set (room_members db). rm_room_id m = room \<and> rm_user_id m = u \<and>
     \<not> is_block_active_between db sender u}"

definition member_ids :: "db \<Rightarrow> uuid \<Rightarrow> uuid list" where
  "member_ids db room = map rm_user_id (filter (\<lambda>m. rm_room_id m = room) (room_members db))"

lemma reach_member_ids: "reach db room s = {u \<in> set (member_ids db room). \<not> is_block_active_between db s u}"
  by (auto simp: reach_def member_ids_def)

lemma member_ids_keys:
  "map member_key (room_members db') = map member_key (room_members db) \<Longrightarrow> member_ids db' room = member_ids db room"
proof -
  have ids: "member_ids d room = map snd (filter (\<lambda>k. fst k = room) (map member_key (room_members d)))" for d
    by (simp add: member_ids_def filter_map o_def member_key_def)
  show "map member_key (room_members db') = map member_key (room_members db) \<Longrightarrow> ?thesis" unfolding ids by simp
qed

lemma send_room_message_frame:
  assumes "send_room_message mid room s body now db = Inr (m, db')"
  shows "room_messages db' = room_messages db @ [m]" "rmsg_sender_id m = s \<and> rmsg_content m = trim body" "rmsg_id m = mid" "rmsg_room_id m = room"
    "user_blocks db' = user_blocks db" "s \<in> set (member_ids db room)"
    "list_room_member_ids db' room s = Inr (member_ids db room)"
proof -
  have ok: "\<exists>r. find_room db room = Some r" "find_member db room s \<noteq> None"
    and db': "db' = set_last_read room s now (touch_room room now (db\<lparr>room_messages := insert_row m (room_messages db)\<rparr>))"
    and m: "rmsg_sender_id m = s \<and> rmsg_content m = trim body" "rmsg_id m = mid" "rmsg_room_id m = room"
    using assms by (auto simp: send_room_message_def Let_def result_simps ensure_room_member_conn_def split: if_splits)
  show "room_messages db' = room_messages db @ [m]" "rmsg_sender_id m = s \<and> rmsg_content m = trim body" "rmsg_id m = mid" "rmsg_room_id m = room"
    "user_blocks db' = user_blocks db"
    using m by (simp_all add: db' set_last_read_def touch_room_def insert_row_def)
  show "s \<in> set (member_ids db room)"
    using ok(2) find_row_Some [of member_key "room_members db" "(room, s)"]
    by (force simp: member_ids_def member_key_def image_iff)
  have key: "member_key (x\<lparr>rm_last_read_at := Some now\<rparr>) = member_key x" for x by (simp add: member_key_def)
  have keys: "map member_key (room_members db') = map member_key (room_members db)"
    by (simp add: db' set_last_read_def touch_room_def update_row_def map_key_update_rows key)
  have "find_room db' room \<noteq> None" "find_member db' room s \<noteq> None"
    using ok key by (auto simp: db' set_last_read_def touch_room_def row_simps)
  then show "list_room_member_ids db' room s = Inr (member_ids db room)"
    using member_ids_keys [OF keys] by (auto simp: list_room_member_ids_def ensure_room_member_conn_def member_ids_def)
qed

text \<open>
  [C24] The request to post to a room, whatever comes of it: either nothing is stored and nobody is
  told, or exactly one message of the requesting member with the trimmed, non-empty text is
  appended; this message is published to the channels of exactly those members with whom the
  sender has no active block, and exactly their devices, the sender's own apart, are notified of
  it.
\<close>

theorem room_message_reaches_members:
  assumes "post_room_message ex dec auth room body mid now db = (r, db', es)"
  shows "room_messages db' = room_messages db \<and> es = [] \<or>
    (\<exists>m s. claims_user_id ex auth = Inr s \<and> s \<in> set (member_ids db room) \<and>
       room_messages db' = room_messages db @ [m] \<and> rmsg_sender_id m = s \<and> rmsg_room_id m = room \<and>
       rmsg_id m = mid \<and> rmsg_content m = trim body \<and> rmsg_content m \<noteq> [] \<and>
       (\<exists>us. set us = reach db room s \<and>
          es = map (\<lambda>u. Publish (user_channel (ex_show_uuid ex) u) (NewRoomMessage room m)) us @
            map (\<lambda>u. PushMessage u s (rmsg_id m) (rmsg_content m)) (filter (\<lambda>u. u \<noteq> s) us)))"
proof (cases "\<exists>s m db1. claims_user_id ex auth = Inr s \<and> trim body \<noteq> [] \<and>
    send_room_message mid room s (trim body) now db = Inr (m, db1)")
  case False
  then have "room_messages db' = room_messages db \<and> es = []"
    using assms by (cases "claims_user_id ex auth")
      (auto simp: post_room_message_def action_simps guard_err_def Let_def split: if_splits sum.splits)
  then show ?thesis ..
next
  case True
  then obtain s m db1 where c: "claims_user_id ex auth = Inr s" "trim body \<noteq> []"
    "send_room_message mid room s (trim body) now db = Inr (m, db1)" by blast
  note f = send_room_message_frame [OF c(3)]
  let ?ids = "filter (\<lambda>u. \<not> is_block_active_between db s u) (member_ids db room)"
  have blocks: "is_block_active_between db1 = is_block_active_between db"
    using f(5) by (simp add: is_block_active_between_def fun_eq_iff)
  have es: "es = publish_new_room_message_event ex room ?ids m @ dispatch_push_for_room_message ?ids s (rmsg_id m) (trim body)"
    and act: "db' = db1 \<or> record_human_activity dec (ex_show_uuid ex) s (date_naive now) now db1 = Inr db'"
    using assms c f(7) by (auto simp: post_room_message_def action_simps note_activity_def blocks done_with_def Let_def
        split: sum.splits prod.splits)
  have "set ?ids = reach db room s" by (auto simp: reach_member_ids)
  then have told: "\<exists>us. set us = reach db room s \<and>
      es = map (\<lambda>u. Publish (user_channel (ex_show_uuid ex) u) (NewRoomMessage room m)) us @
        map (\<lambda>u. PushMessage u s (rmsg_id m) (rmsg_content m)) (filter (\<lambda>u. u \<noteq> s) us)"
    using f(2) by (intro exI [of _ ?ids] conjI)
      (simp_all add: es publish_new_room_message_event_def dispatch_push_for_room_message_def)
  have "room_messages db' = room_messages db1"
    using act core_eqD(10) [OF stats_written_core [OF guild_activity_spec(3)]]
    by (auto simp: record_human_activity_def result_simps)
  then have "room_messages db' = room_messages db @ [m]" using f(1) by simp
  then show ?thesis
    by (intro disjI2 exI [of _ m] exI [of _ s] conjI told) (use c(1,2) f(2-4,6) in simp_all)
qed

section \<open>Examples\<close>

definition as_user :: "string \<Rightarrow> claims" where
  "as_user sub = \<lparr>cl_sub = sub, cl_role = ''user'', cl_iat = 0, cl_exp = 0\<rparr>"

definition sample_delivery :: "nat \<Rightarrow> send_fresh" where
  "sample_delivery status = \<lparr>sd_key_id = 9, sd_generated = Some ''k'', sd_activity_token = ''t'', sd_object_token = ''o'',
     sd_round = (\<lambda>i. (30 + i, \<lambda>_. Inr status))\<rparr>"

definition sample_post :: "string option \<Rightarrow> string \<Rightarrow> nat \<Rightarrow> message limited_response result \<times> db \<times> effect list" where
  "sample_post server recipient status = post_message sample_externals (sample_fed sample_activity) (\<lambda>_. None) (\<lambda>_. []) sample_config
     (as_user ''2'') \<lparr>sm_recipient_id = recipient, sm_recipient_server_url = server, sm_content = '' hello ''\<rparr>
     40 50 (sample_delivery status) 0 sample_server"

theorem post_message_guarded_witness:
  "case sample_post None ''3'' 200 of (r, db', es) \<Rightarrow> \<exists>m rcp. messages db' = [m] \<and> m_sender_id m = 2 \<and>
     m_content m = ''hello'' \<and> u_id rcp = 3 \<and> told_of sample_externals rcp m es"
proof -
  obtain r db' es where p: "sample_post None ''3'' 200 = (r, db', es)" by (metis prod_cases3)
  have "case sample_post None ''3'' 200 of (_, db', _) \<Rightarrow> messages db' \<noteq> []" by code_simp
  then have ne: "messages db' \<noteq> []" using p by simp
  let ?body = "\<lparr>sm_recipient_id = ''3'', sm_recipient_server_url = None, sm_content = '' hello ''\<rparr>"
  have facts: "messages sample_server = []" "claims_user_id sample_externals (as_user ''2'') = Inr 2"
    "trim '' hello '' = ''hello''" "ex_parse_uuid sample_externals (trim (to_lowercase (trim ''3''))) = Some 3" by code_simp+
  have "addressed_to sample_externals (sample_fed sample_activity) sample_config ?body rcp \<Longrightarrow> u_id rcp = 3" for rcp
    using facts(4) by (simp add: addressed_to_def explicit_remote_target_def Let_def)
  then show ?thesis
    using post_message_guarded [OF p [unfolded sample_post_def]] ne facts p by auto
qed

text \<open>
  A message whose remote server refuses it stays: the sender gets an error, while the message is
  stored and both channels have been told of it, so that sending it again stores it twice.
\<close>

lemma refused_message_stays:
  "case sample_post (Some ''https://b.org'') ''bob'' 500 of (r, db', es) \<Rightarrow>
     (\<exists>e. r = Inl e) \<and> length (messages db') = 1 \<and> length es = 2"
proof -
  have "case sample_post (Some ''https://b.org'') ''bob'' 500 of (r, db', es) \<Rightarrow>
     \<not> is_ok r \<and> length (messages db') = 1 \<and> length es = 2" by code_simp
  then show ?thesis by (auto simp: is_ok_def split: sum.splits)
qed

definition sample_room_server :: db where
  "sample_room_server = sample_server\<lparr>
     rooms := [\<lparr>r_id = 6, r_name = ''r'', r_created_by = 2, r_created_at = 0, r_updated_at = 0\<rparr>],
     room_members := map (\<lambda>u. \<lparr>rm_room_id = 6, rm_user_id = u, rm_role = ''member'', rm_joined_at = 0,
       rm_last_read_at = None\<rparr>) [2, 3]\<rparr>"

theorem room_message_reaches_members_witness:
  "case post_room_message sample_externals (\<lambda>_. None) (as_user ''2'') 6 ''hello'' 50 0 sample_room_server of (r, db', es) \<Rightarrow>
     \<exists>m. room_messages db' = [m] \<and> rmsg_content m = ''hello'' \<and> Publish (user_channel show_nat 3) (NewRoomMessage 6 m) \<in> set es \<and>
       PushMessage 3 2 50 ''hello'' \<in> set es"
proof -
  let ?p = "post_room_message sample_externals (\<lambda>_. None) (as_user ''2'') 6 ''hello'' 50 0 sample_room_server"
  obtain r db' es where p: "?p = (r, db', es)" by (metis prod_cases3)
  have "case ?p of (_, db', _) \<Rightarrow> room_messages db' \<noteq> []" by code_simp
  then have ne: "room_messages db' \<noteq> room_messages sample_room_server"
    using p by (simp add: sample_room_server_def sample_server_def empty_db_def)
  have facts: "claims_user_id sample_externals (as_user ''2'') = Inr 2" "trim ''hello'' = ''hello''"
    "room_messages sample_room_server = []" "ex_show_uuid sample_externals = show_nat"
    by (code_simp, code_simp, simp_all add: sample_externals_def sample_room_server_def sample_server_def empty_db_def)
  have "reach sample_room_server 6 2 = {2, 3}"
    by (auto simp: reach_def sample_room_server_def sample_server_def empty_db_def is_block_active_between_def)
  then show ?thesis using room_message_reaches_members [OF p] ne p facts by (auto simp: image_iff)
qed

end
