(* ===== verification/Account_Routes.thy ===== *)
theory Account_Routes
  imports Actions Federation_Routes Message_Service
begin

text \<open>
  The handlers of an account's own affairs: the profile (src/src/routes/profile.rs), safety
  (src/src/routes/safety.rs), the encrypted backup (src/src/services/backup_service.rs and
  src/src/routes/backup.rs) and the news of the server (src/src/services/server_news_service.rs
  and src/src/routes/planet_news.rs). The base64 decoder and the decoder of the guild policy are
  arguments.
\<close>

section \<open>Profile\<close>

definition DESCRIPTION_MAX_WORDS :: nat where "DESCRIPTION_MAX_WORDS = 100"
definition AVATAR_MAX_BYTES :: nat where "AVATAR_MAX_BYTES = 256 * 1024"
definition USERNAME_MIN_LEN :: nat where "USERNAME_MIN_LEN = 2"
definition USERNAME_MAX_LEN :: nat where "USERNAME_MAX_LEN = 32"

record update_profile_request =
  up_username :: "string option"
  up_avatar_base64 :: "string option option"
  up_description :: "string option option"
  up_message_public_key :: "string option option"

record user_profile_public =
  upp_id :: uuid
  upp_username :: string
  upp_avatar_base64 :: "string option"
  upp_description :: "string option"
  upp_message_public_key :: "string option"
  upp_safety :: "user_safety_state_public option"
  upp_guild :: "guild_snapshot option"

definition profile_of :: "user \<Rightarrow> user_profile_public" where
  "profile_of u = \<lparr>upp_id = u_id u, upp_username = u_username u, upp_avatar_base64 = u_avatar_base64 u,
     upp_description = u_description u, upp_message_public_key = u_message_public_key u,
     upp_safety = None, upp_guild = None\<rparr>"

definition is_valid_profile_username :: "string \<Rightarrow> bool" where
  "is_valid_profile_username value \<longleftrightarrow>
     USERNAME_MIN_LEN \<le> length value \<and> length value \<le> USERNAME_MAX_LEN \<and> list_all (\<lambda>c. \<not> is_control c) value"

definition is_valid_description :: "string \<Rightarrow> bool" where
  "is_valid_description value \<longleftrightarrow> length (split_whitespace value) \<le> DESCRIPTION_MAX_WORDS"

definition validate_avatar_base64 :: "(string \<Rightarrow> string option) \<Rightarrow> string \<Rightarrow> unit result" where
  "validate_avatar_base64 decode avatar =
     and_then (ok_or (BadRequest ''avatar_base64 must be valid base64'') (decode (trim avatar))) (\<lambda>decoded.
     guard_err (length decoded \<le> AVATAR_MAX_BYTES) (BadRequest ''avatar image must be <= 256KB''))"

definition validate_message_public_key :: "(string \<Rightarrow> string option) \<Rightarrow> string \<Rightarrow> unit result" where
  "validate_message_public_key decode key =
     and_then (ok_or (BadRequest ''message_public_key must be valid base64'') (decode (trim key))) (\<lambda>decoded.
     guard_err (length decoded = 32) (BadRequest ''message_public_key must decode to 32 bytes''))"

definition profile_me ::
  "externals \<Rightarrow> (string \<Rightarrow> guild_policy_config option) \<Rightarrow> claims \<Rightarrow> instant \<Rightarrow> user_profile_public action" where
  "profile_me ex dec auth now =
     seq (check (claims_user_id ex auth)) (\<lambda>user_id.
     seq (query (\<lambda>db. ok_or Unauthorized (find_user db user_id))) (\<lambda>user.
     seq (statement (get_guild_snapshot dec (u_id user) (date_naive now) now)) (\<lambda>guild.
     done_with ((profile_of user)\<lparr>upp_safety := Some (safety_state_for_user user), upp_guild := Some guild\<rparr>))))"

definition next_username :: "update_profile_request \<Rightarrow> string option result" where
  "next_username body =
    (case trimmed_nonempty (up_username body) of
       None \<Rightarrow> Inr None
     | Some username \<Rightarrow>
         if \<not> is_valid_profile_username username
         then Inl (BadRequest ''username must be 2-32 characters and may include UTF-8 letters, symbols, and spaces'')
         else and_then (ensure_text_is_allowed ''username'' username) (\<lambda>_. Inr (Some username)))"

definition next_description :: "update_profile_request \<Rightarrow> string option option result" where
  "next_description body =
    (case up_description body of
       Some (Some raw) \<Rightarrow>
         let trimmed = trim raw
         in if trimmed = [] then Inr (Some None)
            else if \<not> is_valid_description trimmed then Inl (BadRequest ''description must be 100 words or less'')
            else and_then (ensure_text_is_allowed ''description'' trimmed) (\<lambda>_. Inr (Some (Some trimmed)))
     | Some None \<Rightarrow> Inr (Some None)
     | None \<Rightarrow> Inr None)"

definition check_given :: "(string \<Rightarrow> unit result) \<Rightarrow> string option option \<Rightarrow> unit result" where
  "check_given f v = (case v of Some (Some s) \<Rightarrow> f s | _ \<Rightarrow> Inr ())"

definition update_me ::
  "externals \<Rightarrow> (string \<Rightarrow> string option) \<Rightarrow> claims \<Rightarrow> update_profile_request \<Rightarrow> instant \<Rightarrow> user_profile_public action" where
  "update_me ex decode auth body now =
     seq (check (next_username body)) (\<lambda>username.
     seq (check (next_description body)) (\<lambda>description.
     seq (check (check_given (validate_avatar_base64 decode) (up_avatar_base64 body))) (\<lambda>_.
     seq (check (check_given (validate_message_public_key decode) (up_message_public_key body))) (\<lambda>_.
     seq (check (claims_user_id ex auth)) (\<lambda>user_id.
     seq (statement (update_profile user_id username (up_avatar_base64 body) description (up_message_public_key body) now)) (\<lambda>updated.
     done_with ((profile_of updated)\<lparr>upp_safety := Some (safety_state_for_user updated)\<rparr>)))))))"

text \<open>The snapshot is best effort: an error leaves the guild out of the answer.\<close>

definition get_user_profile ::
  "externals \<Rightarrow> (string \<Rightarrow> guild_policy_config option) \<Rightarrow> claims \<Rightarrow> uuid \<Rightarrow> instant \<Rightarrow>
     (user_profile_public \<times> (nat \<times> string) option) action" where
  "get_user_profile ex dec auth user_id now =
     seq (check (claims_user_id ex auth)) (\<lambda>viewer_id.
     seq (query (\<lambda>db. guard_err (\<not> is_block_active_between db viewer_id user_id) NotFound)) (\<lambda>_.
     seq (query (\<lambda>db. ok_or NotFound (find_user db user_id))) (\<lambda>user db.
     case get_guild_snapshot dec (u_id user) (date_naive now) now db of
       Inr (snapshot, db) \<Rightarrow> (Inr (profile_of user, Some (sn_level snapshot, sn_rank snapshot)), db, [])
     | Inl _ \<Rightarrow> (Inr (profile_of user, None), db, []))))"

definition delete_me :: "externals \<Rightarrow> claims \<Rightarrow> instant \<Rightarrow> unit action" where
  "delete_me ex auth now = seq (check (claims_user_id ex auth)) (\<lambda>user_id. execute (delete_user user_id now))"

section \<open>Safety\<close>

definition accept_terms_handler :: "externals \<Rightarrow> claims \<Rightarrow> int \<Rightarrow> instant \<Rightarrow> user_safety_state_public action" where
  "accept_terms_handler ex auth version now =
     seq (check (claims_user_id ex auth)) (\<lambda>user_id. statement (record_terms_acceptance user_id version now))"

definition create_report_handler :: "externals \<Rightarrow> claims \<Rightarrow> report_input \<Rightarrow> uuid \<Rightarrow> instant \<Rightarrow> moderation_report action" where
  "create_report_handler ex auth body fresh_id now =
     seq (check (claims_user_id ex auth)) (\<lambda>reporter.
     seq (statement (create_report (ex_parse_uuid ex) fresh_id reporter body now)) (\<lambda>report.
     seq (execute (append_audit_log (Some reporter) ''safety.report.create'' (Some (ex_show_uuid ex (mr_id report)))
           (JObj [(''reported_user_id'', JStr (ex_show_uuid ex (mr_reported_user_id report))),
              (''content_kind'', JStr (mr_content_kind report)), (''source'', JStr (mr_source report)),
              (''reason_code'', JStr (mr_reason_code report))]) now)) (\<lambda>_.
     done_with report)))"

definition list_blocks :: "externals \<Rightarrow> claims \<Rightarrow> db \<Rightarrow> blocked_user_view list result" where
  "list_blocks ex auth db = and_then (claims_user_id ex auth) (\<lambda>user_id. Inr (list_blocked_users db user_id))"

definition block_user_handler ::
  "externals \<Rightarrow> claims \<Rightarrow> uuid \<Rightarrow> string option \<Rightarrow> string option \<Rightarrow> uuid \<Rightarrow> instant \<Rightarrow> blocked_user_view action" where
  "block_user_handler ex auth user_id reason_code reporter_note fresh_id now =
     seq (check (claims_user_id ex auth)) (\<lambda>blocker.
     seq (statement (block_user (ex_parse_uuid ex) fresh_id blocker user_id reason_code reporter_note now)) (\<lambda>blocked.
     seq (execute (append_audit_log (Some blocker) ''safety.block.create'' (Some (ex_show_uuid ex user_id))
           (JObj [(''reason_code'', json_opt_str reason_code), (''reporter_note'', json_opt_str reporter_note)]) now)) (\<lambda>_.
     done_with blocked)))"

definition unblock_user_handler :: "externals \<Rightarrow> claims \<Rightarrow> uuid \<Rightarrow> instant \<Rightarrow> unit action" where
  "unblock_user_handler ex auth user_id now =
     seq (check (claims_user_id ex auth)) (\<lambda>blocker.
     seq (execute (\<lambda>db. Inr (unblock_user blocker user_id db))) (\<lambda>_.
     execute (append_audit_log (Some blocker) ''safety.block.remove'' (Some (ex_show_uuid ex user_id)) (JObj []) now)))"

section \<open>Encrypted backup\<close>

definition upsert_backup :: "uuid \<Rightarrow> string \<Rightarrow> instant \<Rightarrow> db \<Rightarrow> (encrypted_backup \<times> db) result" where
  "upsert_backup owner_id encrypted_payload now db =
    (if \<not> user_exists db owner_id then Inl (Database ForeignKeyViolation)
     else
       let db' = db\<lparr>encrypted_backups := upsert_row eb_user_id
             \<lparr>eb_user_id = owner_id, eb_encrypted_blob = encrypted_payload, eb_created_at = now, eb_updated_at = now\<rparr>
             (\<lambda>b. b\<lparr>eb_encrypted_blob := encrypted_payload, eb_updated_at := now\<rparr>) (encrypted_backups db)\<rparr>
       in and_then (ok_or (Database RowNotFound) (find_row eb_user_id (encrypted_backups db') owner_id)) (\<lambda>b. Inr (b, db')))"

definition get_backup :: "db \<Rightarrow> uuid \<Rightarrow> encrypted_backup option" where
  "get_backup db owner_id = find_row eb_user_id (encrypted_backups db) owner_id"

definition delete_backup :: "uuid \<Rightarrow> db \<Rightarrow> int \<times> db" where
  "delete_backup owner_id db =
    (count_rows (\<lambda>b. eb_user_id b = owner_id) (encrypted_backups db),
     db\<lparr>encrypted_backups := delete_rows (\<lambda>b. eb_user_id b = owner_id) (encrypted_backups db)\<rparr>)"

definition upsert_backup_handler :: "externals \<Rightarrow> claims \<Rightarrow> string \<Rightarrow> instant \<Rightarrow> (string \<times> instant) action" where
  "upsert_backup_handler ex auth blob now =
     seq (check (claims_user_id ex auth)) (\<lambda>user_id.
     seq (check (guard_err (trim blob \<noteq> []) (BadRequest ''encrypted_blob cannot be empty''))) (\<lambda>_.
     seq (statement (upsert_backup user_id (trim blob) now)) (\<lambda>backup.
     done_with (eb_encrypted_blob backup, eb_updated_at backup))))"

definition get_backup_handler :: "externals \<Rightarrow> claims \<Rightarrow> (string \<times> instant) action" where
  "get_backup_handler ex auth =
     seq (check (claims_user_id ex auth)) (\<lambda>user_id.
     query (\<lambda>db. and_then (ok_or NotFound (get_backup db user_id)) (\<lambda>b. Inr (eb_encrypted_blob b, eb_updated_at b))))"

definition delete_backup_handler :: "externals \<Rightarrow> claims \<Rightarrow> unit action" where
  "delete_backup_handler ex auth =
     seq (check (claims_user_id ex auth)) (\<lambda>user_id. execute (\<lambda>db. Inr (snd (delete_backup user_id db))))"

section \<open>News\<close>

definition MAX_TITLE_CHARS :: nat where "MAX_TITLE_CHARS = 120"
definition MAX_SUMMARY_CHARS :: nat where "MAX_SUMMARY_CHARS = 280"
definition MAX_MARKDOWN_CHARS :: nat where "MAX_MARKDOWN_CHARS = 20000"

definition normalize_news :: "string \<Rightarrow> string option \<Rightarrow> string \<Rightarrow> (string \<times> string option \<times> string) result" where
  "normalize_news title summary markdown_content =
    (let normalized_title = trim title; normalized_markdown = trim markdown_content;
         normalized_summary = trimmed_nonempty summary
     in if normalized_title = [] then Inl (BadRequest ''title cannot be empty'')
        else if length normalized_title > MAX_TITLE_CHARS
        then Inl (BadRequest (''title must be <= '' @ show_nat MAX_TITLE_CHARS @ '' characters''))
        else if normalized_markdown = [] then Inl (BadRequest ''markdown_content cannot be empty'')
        else if length normalized_markdown > MAX_MARKDOWN_CHARS
        then Inl (BadRequest (''markdown_content must be <= '' @ show_nat MAX_MARKDOWN_CHARS @ '' characters''))
        else if (case normalized_summary of Some v \<Rightarrow> length v > MAX_SUMMARY_CHARS | None \<Rightarrow> False)
        then Inl (BadRequest (''summary must be <= '' @ show_nat MAX_SUMMARY_CHARS @ '' characters''))
        else Inr (normalized_title, normalized_summary, normalized_markdown))"

definition create_news ::
  "uuid \<Rightarrow> uuid \<Rightarrow> string \<Rightarrow> string option \<Rightarrow> string \<Rightarrow> instant \<Rightarrow> db \<Rightarrow> (server_news_item \<times> db) result" where
  "create_news fresh_id admin_user_id title summary markdown_content now db =
     and_then (normalize_news title summary markdown_content) (\<lambda>(title, summary, markdown).
     if exists_row (\<lambda>n. sn_id n = fresh_id) (server_news db) then Inl (Database UniqueViolation)
     else if \<not> user_exists db admin_user_id then Inl (Database ForeignKeyViolation)
     else
       let item = \<lparr>sn_id = fresh_id, sn_title = title, sn_summary = summary, sn_markdown_content = markdown,
             sn_created_by = Some admin_user_id, sn_published_at = now, sn_updated_at = now\<rparr>
       in Inr (item, db\<lparr>server_news := insert_row item (server_news db)\<rparr>))"

definition list_news :: "db \<Rightarrow> int \<Rightarrow> server_news_item list" where
  "list_news db limit = take (nat (clamp 1 100 limit)) (sort_key (\<lambda>n. - sn_published_at n) (server_news db))"

definition get_news_by_id :: "db \<Rightarrow> uuid \<Rightarrow> server_news_item option" where
  "get_news_by_id db news_id = find_row sn_id (server_news db) news_id"

definition update_news ::
  "uuid \<Rightarrow> string \<Rightarrow> string option \<Rightarrow> string \<Rightarrow> instant \<Rightarrow> db \<Rightarrow> (server_news_item \<times> db) result" where
  "update_news news_id title summary markdown_content now db =
     and_then (normalize_news title summary markdown_content) (\<lambda>(title, summary, markdown).
     let f = (\<lambda>n. n\<lparr>sn_title := title, sn_summary := summary, sn_markdown_content := markdown, sn_updated_at := now\<rparr>)
     in and_then (ok_or NotFound (get_news_by_id db news_id)) (\<lambda>n.
        Inr (f n, db\<lparr>server_news := update_row sn_id news_id f (server_news db)\<rparr>)))"

definition delete_news :: "uuid \<Rightarrow> db \<Rightarrow> (server_news_item \<times> db) result" where
  "delete_news news_id db =
     and_then (ok_or NotFound (get_news_by_id db news_id)) (\<lambda>n.
     Inr (n, db\<lparr>server_news := delete_rows (\<lambda>n. sn_id n = news_id) (server_news db)\<rparr>))"

text \<open>The public views of an item: everything but its author, in the list and alone.\<close>

record planet_news =
  pn_id :: uuid
  pn_title :: string
  pn_summary :: "string option"
  pn_markdown_content :: string
  pn_published_at :: instant
  pn_updated_at :: instant

definition to_list_item :: "server_news_item \<Rightarrow> planet_news" where
  "to_list_item n = \<lparr>pn_id = sn_id n, pn_title = sn_title n, pn_summary = sn_summary n,
     pn_markdown_content = sn_markdown_content n, pn_published_at = sn_published_at n, pn_updated_at = sn_updated_at n\<rparr>"

definition to_detail :: "server_news_item \<Rightarrow> planet_news" where
  "to_detail n = \<lparr>pn_id = sn_id n, pn_title = sn_title n, pn_summary = sn_summary n,
     pn_markdown_content = sn_markdown_content n, pn_published_at = sn_published_at n, pn_updated_at = sn_updated_at n\<rparr>"

definition list_news_handler :: "int option \<Rightarrow> db \<Rightarrow> planet_news list" where
  "list_news_handler limit db = map to_list_item (list_news db (case limit of Some n \<Rightarrow> n | None \<Rightarrow> 30))"

definition get_news_detail :: "uuid \<Rightarrow> db \<Rightarrow> planet_news result" where
  "get_news_detail news_id db =
     and_then (ok_or NotFound (get_news_by_id db news_id)) (\<lambda>n. Inr (to_detail n))"

end
