(* ===== verification/Public_Routes.thy ===== *)
theory Public_Routes
  imports Push_Service Chat_Routes
begin

text \<open>
  What the server shows without an account: health and planet image (src/src/routes/health.rs),
  the ALTCHA challenge (src/src/routes/altcha.rs), the country of the instance
  (src/src/services/geoip_service.rs), and the push relay that other servers call
  (src/src/routes/push_relay.rs).

  DNS, the parser of addresses, the country database, the ALTCHA library and base64 are
  arguments. The connection pool is an argument where the code tests it.
\<close>

section \<open>Country of the instance\<close>

datatype ip_addr = V4 nat nat nat nat | V6 nat

text \<open>
  \<open>is_loopback\<close>, \<open>is_private\<close>, \<open>is_link_local\<close> of an IPv4 address by its four bytes; an IPv6 address
  is its number, the loopback is 1.
\<close>

fun is_local_ip :: "ip_addr \<Rightarrow> bool" where
  "is_local_ip (V4 a b c d) \<longleftrightarrow> a = 127 \<or>
     (a = 10 \<or> a = 172 \<and> 16 \<le> b \<and> b \<le> 31 \<or> a = 192 \<and> b = 168) \<or> a = 169 \<and> b = 254"
| "is_local_ip (V6 n) \<longleftrightarrow> n = 1"

definition is_v4 :: "ip_addr \<Rightarrow> bool" where
  "is_v4 ip = (case ip of V4 _ _ _ _ \<Rightarrow> True | V6 _ \<Rightarrow> False)"

record planet_geo_info =
  geo_country_code :: "string option"
  geo_country_name :: "string option"

definition no_geo :: planet_geo_info where
  "no_geo = \<lparr>geo_country_code = None, geo_country_name = None\<rparr>"

definition normalize_host :: "url_parser \<Rightarrow> string \<Rightarrow> string" where
  "normalize_host parse_url instance_domain =
    (case parse_url instance_domain of
       Inr u \<Rightarrow> (case url_host u of Some host \<Rightarrow> host | None \<Rightarrow> trim (hd (split_on CHR '':'' instance_domain)))
     | Inl _ \<Rightarrow> trim (hd (split_on CHR '':'' instance_domain)))"

definition resolve_host_ips ::
  "(string \<Rightarrow> ip_addr option) \<Rightarrow> (string \<Rightarrow> ip_addr list option) \<Rightarrow> string \<Rightarrow> ip_addr list" where
  "resolve_host_ips parse_ip lookup host =
    (if host = [] then []
     else case parse_ip host of
            Some ip \<Rightarrow> [ip]
          | None \<Rightarrow>
             let ips = (case lookup host of Some ips \<Rightarrow> ips | None \<Rightarrow> [])
             in remdups_adj (filter is_v4 ips @ filter (\<lambda>ip. \<not> is_v4 ip) ips))"

text \<open>The loop of \<open>detect\<close>; \<open>upper\<close> is \<open>to_uppercase\<close>, \<open>country\<close> the lookup in the database.\<close>

fun detect_loop ::
  "(string \<Rightarrow> string) \<Rightarrow> (ip_addr \<Rightarrow> (string option \<times> string option) option) \<Rightarrow> ip_addr list \<Rightarrow> planet_geo_info" where
  "detect_loop upper country [] = no_geo"
| "detect_loop upper country (ip # ips) =
    (if is_local_ip ip then detect_loop upper country ips
     else case country ip of
            None \<Rightarrow> detect_loop upper country ips
          | Some (country_code, name) \<Rightarrow>
              if country_code \<noteq> None \<or> name \<noteq> None
              then \<lparr>geo_country_code = map_option upper country_code, geo_country_name = name\<rparr>
              else detect_loop upper country ips)"

text \<open>\<open>reader\<close> is \<open>None\<close> when the database file cannot be opened.\<close>

definition detect ::
  "url_parser \<Rightarrow> (string \<Rightarrow> ip_addr option) \<Rightarrow> (string \<Rightarrow> ip_addr list option) \<Rightarrow> (string \<Rightarrow> string) \<Rightarrow>
     (ip_addr \<Rightarrow> (string option \<times> string option) option) option \<Rightarrow> string \<Rightarrow> planet_geo_info" where
  "detect parse_url parse_ip lookup upper reader instance_domain =
    (let ips = resolve_host_ips parse_ip lookup (normalize_host parse_url instance_domain)
     in if ips = [] then no_geo
        else case reader of None \<Rightarrow> no_geo | Some country \<Rightarrow> detect_loop upper country ips)"

section \<open>Health\<close>

record liveness_response =
  lr_version :: string
  lr_instance_name :: string
  lr_instance_domain :: string
  lr_instance_description :: "string option"
  lr_instance_image_url :: "string option"
  lr_member_count :: nat
  lr_linked_planets :: "string list"
  lr_country_code :: "string option"
  lr_country_name :: "string option"
  lr_server_created_at :: "instant option"
  lr_registration_requires_approval :: bool

definition nonblank :: "string option \<Rightarrow> string option" where
  "nonblank v = (case v of Some s \<Rightarrow> if trim s = [] then None else Some s | None \<Rightarrow> None)"

definition liveness ::
  "string \<Rightarrow> (string \<Rightarrow> string list option) \<Rightarrow> config \<Rightarrow> planet_geo_info \<Rightarrow> db option \<Rightarrow> liveness_response" where
  "liveness version dec_list cf geo pool =
    (case pool of
       None \<Rightarrow>
         \<lparr>lr_version = version, lr_instance_name = cf_instance_name cf, lr_instance_domain = cf_instance_domain cf,
          lr_instance_description = None, lr_instance_image_url = None, lr_member_count = 0, lr_linked_planets = [],
          lr_country_code = geo_country_code geo, lr_country_name = geo_country_name geo,
          lr_server_created_at = None, lr_registration_requires_approval = False\<rparr>
     | Some db \<Rightarrow>
         \<lparr>lr_version = version,
          lr_instance_name = (case nonblank (setting_value db SETTING_PLANET_NAME) of
             Some name \<Rightarrow> name | None \<Rightarrow> cf_instance_name cf),
          lr_instance_domain = cf_instance_domain cf,
          lr_instance_description = nonblank (setting_value db SETTING_PLANET_DESCRIPTION),
          lr_instance_image_url =
            (if nonblank (setting_value db SETTING_PLANET_IMAGE_BASE64) \<noteq> None then Some ''/planet-image'' else None),
          lr_member_count = length (users db), lr_linked_planets = read_linked_planets dec_list db,
          lr_country_code = geo_country_code geo, lr_country_name = geo_country_name geo,
          lr_server_created_at = (if users db = [] then None else Some (Min (u_created_at ` set (users db)))),
          lr_registration_requires_approval = is_approval_required db\<rparr>)"

definition parse_image_data_url :: "string \<Rightarrow> (string \<times> string) option" where
  "parse_image_data_url raw =
    (let trimmed = trim raw
     in case strip_prefix ''data:image/jpeg;base64,'' trimmed of
          Some value \<Rightarrow> Some (''image/jpeg'', value)
        | None \<Rightarrow> (case strip_prefix ''data:image/png;base64,'' trimmed of
            Some value \<Rightarrow> Some (''image/png'', value)
          | None \<Rightarrow> (case strip_prefix ''data:image/webp;base64,'' trimmed of
              Some value \<Rightarrow> Some (''image/webp'', value)
            | None \<Rightarrow> None)))"

text \<open>\<open>None\<close> is the answer 404.\<close>

definition planet_image :: "(string \<Rightarrow> string option) \<Rightarrow> db \<Rightarrow> (string \<times> string) option" where
  "planet_image decode db =
     Option.bind (nonblank (setting_value db SETTING_PLANET_IMAGE_BASE64)) (\<lambda>image_setting.
     Option.bind (parse_image_data_url image_setting) (\<lambda>(content_type, payload).
     Option.bind (decode payload) (\<lambda>bytes. Some (content_type, bytes))))"

text \<open>The status of the readiness probe; an error of the pool or of the probe query is its text.\<close>

definition readiness :: "string + (string + unit) \<Rightarrow> nat \<times> string \<times> string option" where
  "readiness pool =
    (case pool of
       Inr (Inr _) \<Rightarrow> (200, ''ready'', None)
     | Inr (Inl e) \<Rightarrow> (503, ''not_ready'', Some e)
     | Inl e \<Rightarrow> (503, ''not_ready'', Some e))"

section \<open>The ALTCHA challenge\<close>

definition ALTCHA_MAX_NUMBER :: nat where "ALTCHA_MAX_NUMBER = 250000"

record altcha_challenge =
  alt_algorithm :: string
  alt_challenge :: string
  alt_salt :: string
  alt_signature :: string

text \<open>\<open>create_challenge key max_number expires\<close> is the library.\<close>

definition get_altcha_challenge ::
  "(string \<Rightarrow> nat \<Rightarrow> instant \<Rightarrow> string + altcha_challenge) \<Rightarrow> config \<Rightarrow> instant \<Rightarrow> (altcha_challenge \<times> nat) result" where
  "get_altcha_challenge create_challenge cf now =
    (case cf_altcha_hmac_key cf of
       None \<Rightarrow> Inl NotFound
     | Some hmac_key \<Rightarrow>
        (case create_challenge hmac_key ALTCHA_MAX_NUMBER (now + minutes 5) of
           Inl e \<Rightarrow> Inl (Internal (''Failed to generate altcha challenge: '' @ e))
         | Inr challenge \<Rightarrow> Inr (challenge, ALTCHA_MAX_NUMBER)))"

section \<open>The push relay\<close>

record relay_payload =
  rp_event :: string
  rp_recipient_id :: "uuid option"
  rp_sender_id :: "uuid option"
  rp_message_id :: "uuid option"
  rp_message_preview :: "string option"
  rp_caller_id :: "uuid option"
  rp_caller_display_name :: "string option"
  rp_call_id :: "uuid option"
  rp_call_type :: "string option"
  rp_targets :: "push_target list"

definition or_nil :: "uuid option \<Rightarrow> uuid" where
  "or_nil i = (case i of Some k \<Rightarrow> k | None \<Rightarrow> 0)"

definition or_text :: "string \<Rightarrow> string option \<Rightarrow> string" where
  "or_text d v = (case v of Some s \<Rightarrow> s | None \<Rightarrow> d)"

definition relay_tokens :: "(push_target \<Rightarrow> bool) \<Rightarrow> relay_payload \<Rightarrow> string list" where
  "relay_tokens P body =
     map (\<lambda>t. trim (pt_token t)) (filter (\<lambda>t. is_ios t \<and> P t \<and> trim (pt_token t) \<noteq> []) (rp_targets body))"

definition incoming_call_webhook ::
  "push_env \<Rightarrow> config \<Rightarrow> relay_payload \<Rightarrow> instant \<Rightarrow> unit result \<times> push_request list" where
  "incoming_call_webhook px cf body now =
    (let voip_tokens = relay_tokens (\<lambda>t. pt_token_kind t = ''voip'') body;
         default_tokens = relay_tokens (\<lambda>t. pt_token_kind t \<noteq> ''voip'') body;
         call_type = or_text ''voice'' (rp_call_type body);
         text_of = display_error (px_debug px)
     in if voip_tokens = [] \<and> default_tokens = [] then (Inr (), [])
        else case parse_apns_config px cf of
               None \<Rightarrow> (Inl (Internal ''Relay APNs config is missing''), [])
             | Some ac \<Rightarrow>
                (case (if voip_tokens = [] then (Inr (), [])
                       else send_voip_call_push_to_tokens px ac voip_tokens (or_nil (rp_recipient_id body))
                         (or_nil (rp_caller_id body)) (or_text [] (rp_caller_display_name body))
                         (or_nil (rp_call_id body)) call_type now,
                       if default_tokens = [] then (Inr (), [])
                       else send_call_alert_to_tokens px ac default_tokens (or_nil (rp_recipient_id body))
                         (or_nil (rp_caller_id body)) (or_nil (rp_call_id body)) call_type now) of
                   ((r1, sent1), (r2, sent2)) \<Rightarrow>
                     (case (case r1 of Inl e \<Rightarrow> [text_of e] | Inr _ \<Rightarrow> []) @ (case r2 of Inl e \<Rightarrow> [text_of e] | Inr _ \<Rightarrow> []) of
                        [] \<Rightarrow> Inr ()
                      | errors \<Rightarrow> Inl (Internal (join ''; '' errors)), sent1 @ sent2)))"

text \<open>The header is its readable value, if it is present; the answer of success is 204.\<close>

definition relay_webhook ::
  "push_env \<Rightarrow> config \<Rightarrow> string option \<Rightarrow> relay_payload \<Rightarrow> instant \<Rightarrow> unit result \<times> push_request list" where
  "relay_webhook px cf secret_header body now =
    (if (case cf_push_relay_shared_secret cf of
           Some expected \<Rightarrow> or_text [] secret_header \<noteq> expected | None \<Rightarrow> False)
     then (Inl Unauthorized, [])
     else if trim (rp_event body) = ''incoming_call'' then incoming_call_webhook px cf body now
     else if trim (rp_event body) \<noteq> ''new_message'' then (Inr (), [])
     else
       let ios_tokens = relay_tokens (\<lambda>_. True) body
       in if ios_tokens = [] then (Inr (), [])
          else case parse_apns_config px cf of
                 None \<Rightarrow> (Inl (Internal ''Relay APNs config is missing''), [])
               | Some ac \<Rightarrow>
                   send_alert_to_tokens px ac ios_tokens (or_nil (rp_recipient_id body)) (or_nil (rp_sender_id body))
                     (or_nil (rp_message_id body)) (or_text ''You have a new message'' (rp_message_preview body)) now)"

end
