(* ===== verification/Route_Properties.thy ===== *)
theory Route_Properties
  imports Account_Routes Public_Routes Push_Properties User_Properties Chat_Properties
begin

text \<open>
  Properties of the account and public handlers: a profile update is validated and touches one
  account, backups round-trip and are private, a block hides the profile, news keep their
  limits, and the push relay serves only callers that know its secret.
\<close>

section \<open>Profile\<close>

text \<open>
  A block hides the profile, in both directions, exactly like an account that does not exist.
\<close>

theorem blocked_profile_hidden:
  assumes "claims_user_id ex auth = Inr viewer" "is_block_active_between db viewer u \<or> find_user db u = None"
  shows "get_user_profile ex dec auth u now db = (Inl NotFound, db, [])"
  using assms by (auto simp: get_user_profile_def action_simps guard_err_def)

definition profile_ok :: "(string \<Rightarrow> string option) \<Rightarrow> user \<Rightarrow> user \<Rightarrow> bool" where
  "profile_ok decode old new \<longleftrightarrow>
    (u_username new = u_username old \<or> is_valid_profile_username (u_username new) \<and>
       trim (u_username new) = u_username new \<and> detect_blocked_term (u_username new) = None) \<and>
    (u_description new = u_description old \<or> (case u_description new of None \<Rightarrow> True
       | Some d \<Rightarrow> d \<noteq> [] \<and> length (split_whitespace d) \<le> 100 \<and> detect_blocked_term d = None)) \<and>
    (u_avatar_base64 new = u_avatar_base64 old \<or> (case u_avatar_base64 new of None \<Rightarrow> True
       | Some a \<Rightarrow> \<exists>bytes. decode (trim a) = Some bytes \<and> length bytes \<le> 262144)) \<and>
    (u_message_public_key new = u_message_public_key old \<or> (case u_message_public_key new of None \<Rightarrow> True
       | Some k \<Rightarrow> \<exists>bytes. decode (trim k) = Some bytes \<and> length bytes = 32))"

lemma next_username_ok:
  assumes "next_username body = Inr (Some n)"
  shows "is_valid_profile_username n \<and> trim n = n \<and> detect_blocked_term n = None"
  using assms by (auto simp: next_username_def trimmed_nonempty_def ensure_text_is_allowed_def result_simps
      split: option.splits if_splits)

lemma next_description_ok:
  assumes "next_description body = Inr (Some (Some d))"
  shows "d \<noteq> [] \<and> length (split_whitespace d) \<le> 100 \<and> detect_blocked_term d = None"
  using assms by (auto simp: next_description_def ensure_text_is_allowed_def result_simps Let_def is_valid_description_def
      DESCRIPTION_MAX_WORDS_def split: option.splits if_splits)

lemma check_given_ok: "check_given f (Some (Some v)) = Inr () \<Longrightarrow> f v = Inr ()"
  by (simp add: check_given_def)

text \<open>
  A profile update that succeeds changes the requesting account only, and every changed field is
  valid: a name of 2 to 32 characters without controls or surrounding spaces and a description
  of at most 100 words, both without a blocked term, an avatar that decodes to at most 256 KiB and
  a key that decodes to 32 bytes.
\<close>

theorem profile_update_validated:
  assumes "update_me ex decode auth body now db = (Inr p, db', es)"
  shows "\<exists>uid old new. claims_user_id ex auth = Inr uid \<and> find_user db uid = Some old \<and> find_user db' uid = Some new \<and>
    profile_ok decode old new \<and> (\<forall>k. k \<noteq> uid \<longrightarrow> find_user db' k = find_user db k) \<and> (\<exists>us. db' = db\<lparr>users := us\<rparr>)"
proof -
  obtain name desc uid new where checks: "next_username body = Inr name" "next_description body = Inr desc"
      "check_given (validate_avatar_base64 decode) (up_avatar_base64 body) = Inr ()"
      "check_given (validate_message_public_key decode) (up_message_public_key body) = Inr ()"
    and uid: "claims_user_id ex auth = Inr uid"
    and upd: "update_profile uid name (up_avatar_base64 body) desc (up_message_public_key body) now db = Inr (new, db')"
    using assms by (auto simp: update_me_def seq_Inr atomic_Inr)
  obtain old where old: "find_user db uid = Some old"
    and db': "db' = update_user uid (\<lambda>u. u\<lparr>u_username := (case name of None \<Rightarrow> u_username old | Some v \<Rightarrow> v),
        u_avatar_base64 := (case up_avatar_base64 body of None \<Rightarrow> u_avatar_base64 old | Some v \<Rightarrow> v),
        u_description := (case desc of None \<Rightarrow> u_description old | Some v \<Rightarrow> v),
        u_message_public_key := (case up_message_public_key body of None \<Rightarrow> u_message_public_key old | Some v \<Rightarrow> v)\<rparr>) now db"
    and new: "find_user db' uid = Some new"
    using upd by (auto simp: update_profile_def Let_def result_simps split: if_splits)
  have avatar: "\<exists>bytes. decode (trim a) = Some bytes \<and> length bytes \<le> 262144" if "up_avatar_base64 body = Some (Some a)" for a
    using checks(3) that by (auto simp: check_given_def validate_avatar_base64_def result_simps AVATAR_MAX_BYTES_def)
  have key: "\<exists>bytes. decode (trim a) = Some bytes \<and> length bytes = 32" if "up_message_public_key body = Some (Some a)" for a
    using checks(4) that by (auto simp: check_given_def validate_message_public_key_def result_simps)
  have find: "find_user db' k = (if k = uid then map_option (\<lambda>u. u\<lparr>u_username := (case name of None \<Rightarrow> u_username old | Some v \<Rightarrow> v),
        u_avatar_base64 := (case up_avatar_base64 body of None \<Rightarrow> u_avatar_base64 old | Some v \<Rightarrow> v),
        u_description := (case desc of None \<Rightarrow> u_description old | Some v \<Rightarrow> v),
        u_message_public_key := (case up_message_public_key body of None \<Rightarrow> u_message_public_key old | Some v \<Rightarrow> v),
        u_updated_at := now\<rparr>) (find_user db k) else find_user db k)" for k
    unfolding db' update_user_def find_user_def by (simp add: row_simps)
  have fields: "u_username new = (case name of None \<Rightarrow> u_username old | Some v \<Rightarrow> v)"
      "u_avatar_base64 new = (case up_avatar_base64 body of None \<Rightarrow> u_avatar_base64 old | Some v \<Rightarrow> v)"
      "u_description new = (case desc of None \<Rightarrow> u_description old | Some v \<Rightarrow> v)"
      "u_message_public_key new = (case up_message_public_key body of None \<Rightarrow> u_message_public_key old | Some v \<Rightarrow> v)"
    using new old find [of uid] by auto
  have "profile_ok decode old new"
    unfolding profile_ok_def fields
    using next_username_ok [of body] next_description_ok [of body] checks(1,2) avatar key
    by (intro conjI; simp split: option.split)
  then show ?thesis using uid old new find by (auto simp: db' update_user_def)
qed

section \<open>Backups\<close>

interpretation backup_table: keyed_store eb_user_id "find_row eb_user_id" insert_row "update_row eb_user_id"
    "upsert_row eb_user_id" "\<lambda>k. delete_rows (\<lambda>r. eb_user_id r = k)" "distinct_key eb_user_id"
  by (rule keyed_store_rows)

text \<open>
  A backup comes back as it was stored, to its owner only: after a successful upload the owner
  reads exactly the trimmed blob and the time of the upload, every other account reads what it
  read before, and after a deletion the owner finds nothing.
\<close>

theorem backup_roundtrip:
  assumes "upsert_backup_handler ex auth blob now db = (Inr answer, db', es)" "claims_user_id ex auth = Inr owner"
  shows "get_backup_handler ex auth db' = (Inr (trim blob, now), db', []) \<and> answer = (trim blob, now) \<and>
    (\<forall>auth' u. claims_user_id ex auth' = Inr u \<longrightarrow> u \<noteq> owner \<longrightarrow>
       fst (get_backup_handler ex auth' db') = fst (get_backup_handler ex auth' db)) \<and>
    (case delete_backup_handler ex auth db' of (_, db'', _) \<Rightarrow> fst (get_backup_handler ex auth db'') = Inl NotFound)"
proof -
  let ?new = "\<lparr>eb_user_id = owner, eb_encrypted_blob = trim blob, eb_created_at = now, eb_updated_at = now\<rparr>"
  let ?f = "\<lambda>b. b\<lparr>eb_encrypted_blob := trim blob, eb_updated_at := now\<rparr>"
  obtain b where row: "find_row eb_user_id (encrypted_backups db') owner = Some b" "answer = (eb_encrypted_blob b, eb_updated_at b)"
    and rows: "encrypted_backups db' = upsert_row eb_user_id ?new ?f (encrypted_backups db)"
    using assms by (auto simp: upsert_backup_handler_def seq_Inr atomic_Inr upsert_backup_def Let_def result_simps split: if_splits)
  have look: "find_row eb_user_id (encrypted_backups db') k =
      (if k = owner then Some (case find_row eb_user_id (encrypted_backups db) k of None \<Rightarrow> ?new | Some c \<Rightarrow> ?f c)
       else find_row eb_user_id (encrypted_backups db) k)" for k
    using backup_table.lookup_upsert [of ?f ?new "encrypted_backups db" k] rows by simp
  have b: "eb_encrypted_blob b = trim blob" "eb_updated_at b = now"
    using row(1) look [of owner] by (auto split: option.splits)
  have get: "get_backup_handler ex a d = (case claims_user_id ex a of Inl e \<Rightarrow> (Inl e, d, []) | Inr u \<Rightarrow>
      (and_then (ok_or NotFound (find_row eb_user_id (encrypted_backups d) u))
        (\<lambda>b. Inr (eb_encrypted_blob b, eb_updated_at b)), d, []))" for a d
    by (simp add: get_backup_handler_def seq_def check_def query_def get_backup_def split: sum.splits)
  have del: "delete_backup_handler ex auth db' = (Inr (), db'\<lparr>encrypted_backups :=
      delete_rows (\<lambda>b. eb_user_id b = owner) (encrypted_backups db')\<rparr>, [])"
    using assms(2) by (simp add: delete_backup_handler_def action_simps execute_def delete_backup_def)
  show ?thesis using row b look assms(2) unfolding get del by (auto simp: row_simps)
qed

section \<open>The push relay\<close>

text \<open>
  The relay speaks to Apple only for callers that know its secret, where one is configured, only
  for the two known events, and only for tokens of iOS targets in the request.
\<close>

theorem relay_webhook_guarded:
  assumes "relay_webhook px cf header body now = (r, sent)" "sent \<noteq> []"
  shows "(\<forall>secret. cf_push_relay_shared_secret cf = Some secret \<longrightarrow> or_text [] header = secret) \<and>
    trim (rp_event body) \<in> {''new_message'', ''incoming_call''} \<and>
    (\<forall>q \<in> set sent. \<exists>t \<in> set (rp_targets body). is_ios t \<and> (\<exists>ac. pr_url q = apns_url ac (trim (pt_token t))))"
proof -
  define T where "T P = map (\<lambda>t. t\<lparr>pt_token := trim (pt_token t)\<rparr>)
      (filter (\<lambda>t. is_ios t \<and> P t \<and> trim (pt_token t) \<noteq> []) (rp_targets body))" for P
  have tokens: "relay_tokens P body = map pt_token (T P)" for P by (simp add: relay_tokens_def T_def)
  have ask: "\<exists>t \<in> set (rp_targets body). is_ios t \<and> (\<exists>ac. pr_url q = apns_url ac (trim (pt_token t)))"
    if "\<exists>t \<in> set (T P). asks_apple_for t q" for P q
    using that by (auto simp: T_def asks_apple_for_def)
  have voip: "\<exists>t \<in> set (T P). asks_apple_for t q"
    if "q \<in> set (snd (send_voip_call_push_to_tokens px ac (map pt_token (T P)) u v n c k now))" for P q ac u v n c k
    using send_voip_sent(1) [OF surjective_pairing] that by blast
  have alert: "\<exists>t \<in> set (T P). asks_apple_for t q"
    if "q \<in> set (snd (send_call_alert_to_tokens px ac (map pt_token (T P)) u v c k now))" for P q ac u v c k
    using send_call_alert_sent(1) [OF surjective_pairing] that by blast
  have call: "\<exists>P. \<exists>t \<in> set (T P). asks_apple_for t q"
    if "q \<in> set (snd (incoming_call_webhook px cf body now))" for q
    using that unfolding incoming_call_webhook_def tokens Let_def
    by (simp add: case_prod_unfold split: if_splits option.splits) (blast dest: voip alert)+
  have "\<forall>q \<in> set sent. \<exists>P. \<exists>t \<in> set (T P). asks_apple_for t q"
    using assms(1) call unfolding relay_webhook_def tokens Let_def
    by (simp split: if_splits option.splits) (force dest: send_alert_sent(1))+
  then have "\<forall>q \<in> set sent. \<exists>t \<in> set (rp_targets body). is_ios t \<and> (\<exists>ac. pr_url q = apns_url ac (trim (pt_token t)))"
    using ask by blast
  moreover have "(\<forall>secret. cf_push_relay_shared_secret cf = Some secret \<longrightarrow> or_text [] header = secret) \<and>
      trim (rp_event body) \<in> {''new_message'', ''incoming_call''}"
    using assms by (auto simp: relay_webhook_def split: if_splits option.splits)
  ultimately show ?thesis by blast
qed

section \<open>Examples\<close>

definition sample_profile_update :: "user_profile_public result \<times> db \<times> effect list" where
  "sample_profile_update = update_me sample_externals Some (as_user ''2'')
     \<lparr>up_username = Some '' Ann B '', up_avatar_base64 = None, up_description = Some (Some ''hello''),
      up_message_public_key = None\<rparr> 5 sample_server"

theorem profile_update_validated_witness:
  "case sample_profile_update of (_, db', _) \<Rightarrow>
     (\<exists>old new. find_user sample_server 2 = Some old \<and> find_user db' 2 = Some new \<and> profile_ok Some old new) \<and>
     find_user db' 3 = find_user sample_server 3"
proof -
  have "is_ok (fst sample_profile_update)" by code_simp
  then obtain p db' es where h: "sample_profile_update = (Inr p, db', es)"
    unfolding is_ok_iff by (metis prod_cases3 fst_conv)
  have "claims_user_id sample_externals (as_user ''2'') = Inr 2" by code_simp
  then obtain old new where "find_user sample_server 2 = Some old" "find_user db' 2 = Some new" "profile_ok Some old new"
      "find_user db' 3 = find_user sample_server 3"
    using profile_update_validated [OF h [unfolded sample_profile_update_def]] by auto
  then show ?thesis by (simp add: h)
qed

theorem backup_roundtrip_witness:
  "case upsert_backup_handler sample_externals (as_user ''2'') '' blob '' 5 sample_server of (_, db', _) \<Rightarrow>
     get_backup_handler sample_externals (as_user ''2'') db' = (Inr (''blob'', 5), db', [])"
proof -
  let ?r = "upsert_backup_handler sample_externals (as_user ''2'') '' blob '' 5 sample_server"
  have "is_ok (fst ?r)" by code_simp
  then obtain a db' es where h: "?r = (Inr a, db', es)" unfolding is_ok_iff by (metis prod_cases3 fst_conv)
  have "claims_user_id sample_externals (as_user ''2'') = Inr 2" "trim '' blob '' = ''blob''" by code_simp+
  then show ?thesis using backup_roundtrip [OF h] h by simp
qed

definition sample_relay_config :: config where
  "sample_relay_config = sample_config\<lparr>cf_push_relay_shared_secret := Some ''s'', cf_apns_team_id := Some ''t'',
     cf_apns_key_id := Some ''k'', cf_apns_bundle_id := Some ''b'', cf_apns_private_key_p8 := Some ''p''\<rparr>"

definition sample_push_env :: push_env where
  "sample_push_env = \<lparr>px_post = \<lambda>_. Inr (200, []), px_parse_json = \<lambda>_. None, px_decode = Inr, px_from_utf8 = Inr,
     px_from_ec_pem = Inr, px_encode_es256 = \<lambda>_ _ _ _. Inr ''jwt'', px_show_status = \<lambda>_. [],
     px_debug = \<lambda>_. [], px_debug_transport = \<lambda>_. [], px_show_uuid = \<lambda>_. []\<rparr>"

definition sample_relay_body :: relay_payload where
  "sample_relay_body = \<lparr>rp_event = ''new_message'', rp_recipient_id = None, rp_sender_id = None, rp_message_id = None,
     rp_message_preview = None, rp_caller_id = None, rp_caller_display_name = None, rp_call_id = None, rp_call_type = None,
     rp_targets = [\<lparr>pt_platform = ''ios'', pt_token = '' a '', pt_token_kind = ''default''\<rparr>,
       \<lparr>pt_platform = ''android'', pt_token = ''b'', pt_token_kind = ''default''\<rparr>]\<rparr>"

theorem relay_webhook_guarded_witness:
  "\<exists>q ac. snd (relay_webhook sample_push_env sample_relay_config (Some ''s'') sample_relay_body 0) = [q] \<and>
     pr_url q = apns_url ac ''a''"
proof -
  obtain r sent where h: "relay_webhook sample_push_env sample_relay_config (Some ''s'') sample_relay_body 0 = (r, sent)"
    by fastforce
  have t: "relay_tokens (\<lambda>_. True) sample_relay_body = [''a'']" "trim (rp_event sample_relay_body) = ''new_message''"
    "parse_apns_config sample_push_env sample_relay_config \<noteq> None" by code_simp+
  then obtain ac where ac: "parse_apns_config sample_push_env sample_relay_config = Some ac" by blast
  have jwt: "make_apns_jwt sample_push_env ac 0 = Inr ''jwt''" by (simp add: make_apns_jwt_def sample_push_env_def)
  have secret: "cf_push_relay_shared_secret sample_relay_config = Some ''s''" "px_post sample_push_env q = Inr (200, [])" for q
    by (simp_all add: sample_relay_config_def sample_push_env_def)
  have one: "length sent = 1"
    using h by (auto simp: relay_webhook_def t ac secret or_text_def Let_def send_alert_to_tokens_def apns_send_def jwt is_success_def)
  have ios: "is_ios \<lparr>pt_platform = ''android'', pt_token = ''b'', pt_token_kind = ''default''\<rparr> = False" "trim '' a '' = ''a''"
    by code_simp+
  from one obtain q where q: "sent = [q]" by (cases sent) auto
  then have "\<exists>t \<in> set (rp_targets sample_relay_body). is_ios t \<and> (\<exists>ac. pr_url q = apns_url ac (trim (pt_token t)))"
    using relay_webhook_guarded [OF h] by simp
  then show ?thesis using h q ios by (auto simp: sample_relay_body_def)
qed

end
