(* ===== verification/Planet_Image.thy ===== *)
theory Planet_Image
  imports Federation_Routes "HOL-Library.Word"
begin

text \<open>
  The compression of the planet image (the first part of src/src/routes/admin.rs). An uploaded
  data URL is decoded, scaled down, laid on white and encoded as JPEG with falling quality until it
  fits. The image library is the record \<open>image_lib\<close>; sizes, channels and the blending keep
  the widths of the code.
\<close>

section \<open>The image library\<close>

datatype image_format = Png | Jpeg | WebP

datatype filter_type = Lanczos3 | Triangle

type_synonym rgba = "8 word \<times> 8 word \<times> 8 word \<times> 8 word"
type_synonym rgb = "8 word \<times> 8 word \<times> 8 word"

text \<open>A buffer of RGB pixels, row by row.\<close>

record rgb_image =
  ri_width :: "32 word"
  ri_height :: "32 word"
  ri_pixels :: "rgb list"

text \<open>
  \<open>load_from_memory_with_format\<close>, the size and the pixels (\<open>to_rgba8\<close>) of an image, \<open>resize\<close> and
  the JPEG encoder with its quality.
\<close>

record 'i image_lib =
  il_load :: "image_format \<Rightarrow> string \<Rightarrow> 'i option"
  il_width :: "'i \<Rightarrow> 32 word"
  il_height :: "'i \<Rightarrow> 32 word"
  il_pixel :: "'i \<Rightarrow> nat \<Rightarrow> nat \<Rightarrow> rgba"
  il_resize :: "32 word \<Rightarrow> 32 word \<Rightarrow> filter_type \<Rightarrow> 'i \<Rightarrow> 'i"
  il_encode :: "nat \<Rightarrow> rgb_image \<Rightarrow> string option"

section \<open>Operations\<close>

definition MAX_INPUT_IMAGE_BYTES :: nat where "MAX_INPUT_IMAGE_BYTES = 20 * 1024 * 1024"
definition MAX_INPUT_IMAGE_ENCODED_CHARS :: nat where "MAX_INPUT_IMAGE_ENCODED_CHARS = 28000000"
definition MAX_OUTPUT_IMAGE_BYTES :: nat where "MAX_OUTPUT_IMAGE_BYTES = 512 * 1024"
definition MAX_OUTPUT_DIMENSION :: "32 word" where "MAX_OUTPUT_DIMENSION = 1024"
definition MIN_OUTPUT_DIMENSION :: "32 word" where "MIN_OUTPUT_DIMENSION = 128"

definition parse_supported_image_data_url :: "string \<Rightarrow> (image_format \<times> string) result" where
  "parse_supported_image_data_url data_url =
    (case strip_prefix ''data:image/png;base64,'' data_url of
       Some payload \<Rightarrow> Inr (Png, payload)
     | None \<Rightarrow> (case strip_prefix ''data:image/jpeg;base64,'' data_url of
         Some payload \<Rightarrow> Inr (Jpeg, payload)
       | None \<Rightarrow> (case strip_prefix ''data:image/webp;base64,'' data_url of
           Some payload \<Rightarrow> Inr (WebP, payload)
         | None \<Rightarrow> Inl (BadRequest ''planet_image_base64 must be a data URL (png/jpeg/webp)''))))"

text \<open>One channel laid on white, in the 16 bits of the code and cut to 8 bits.\<close>

definition blend_channel :: "8 word \<Rightarrow> 8 word \<Rightarrow> 8 word" where
  "blend_channel px a =
    (let alpha = ucast a :: 16 word;
         inv_alpha = (if alpha \<le> 255 then 255 - alpha else 0)
     in ucast ((ucast px * alpha + 255 * inv_alpha) div 255))"

definition flatten_with_white_background :: "'i image_lib \<Rightarrow> 'i \<Rightarrow> rgb_image" where
  "flatten_with_white_background lib img =
     \<lparr>ri_width = il_width lib img, ri_height = il_height lib img,
      ri_pixels = concat (map (\<lambda>y. map (\<lambda>x. case il_pixel lib img x y of (r, g, b, a) \<Rightarrow>
          (blend_channel r a, blend_channel g a, blend_channel b a))
        [0 ..< unat (il_width lib img)]) [0 ..< unat (il_height lib img)])\<rparr>"

definition encode_jpeg_bytes :: "'i image_lib \<Rightarrow> 'i \<Rightarrow> nat \<Rightarrow> string result" where
  "encode_jpeg_bytes lib img quality =
     ok_or (BadRequest ''planet_image_base64 could not be encoded'')
       (il_encode lib quality (flatten_with_white_background lib img))"

definition quality_steps :: "nat list" where "quality_steps = [85, 75, 65, 55, 45]"

text \<open>
  The inner loop: \<open>Inl\<close> is an encoding that fits, \<open>Inr\<close> the best one so far.
\<close>

fun try_qualities ::
  "'i image_lib \<Rightarrow> 'i \<Rightarrow> nat list \<Rightarrow> string option \<Rightarrow> (string + string option) result" where
  "try_qualities lib working [] best = Inr (Inr best)"
| "try_qualities lib working (quality # qs) best =
     and_then (encode_jpeg_bytes lib working quality) (\<lambda>encoded.
     if length encoded \<le> MAX_OUTPUT_IMAGE_BYTES then Inr (Inl encoded)
     else try_qualities lib working qs
       (case best of
          Some existing \<Rightarrow> if length existing \<le> length encoded then best else Some encoded
        | None \<Rightarrow> Some encoded))"

definition next_dimension :: "32 word \<Rightarrow> 32 word" where
  "next_dimension d = max (d * 3 div 4) MIN_OUTPUT_DIMENSION"

text \<open>The outer loop with the rounds that are left.\<close>

fun compress_rounds ::
  "'i image_lib \<Rightarrow> nat \<Rightarrow> 'i \<Rightarrow> string option \<Rightarrow> (string + string option) result" where
  "compress_rounds lib 0 working best = Inr (Inr best)"
| "compress_rounds lib (Suc n) working best =
     and_then (try_qualities lib working quality_steps best) (\<lambda>r.
     case r of
       Inl encoded \<Rightarrow> Inr (Inl encoded)
     | Inr best \<Rightarrow>
         let next_width = next_dimension (il_width lib working);
             next_height = next_dimension (il_height lib working)
         in if next_width = il_width lib working \<and> next_height = il_height lib working
            then Inr (Inr best)
            else compress_rounds lib n (il_resize lib next_width next_height Triangle working) best)"

definition fit_dimensions :: "'i image_lib \<Rightarrow> 'i \<Rightarrow> 'i" where
  "fit_dimensions lib img =
    (if max (il_width lib img) (il_height lib img) > MAX_OUTPUT_DIMENSION
     then il_resize lib MAX_OUTPUT_DIMENSION MAX_OUTPUT_DIMENSION Lanczos3 img else img)"

definition compress_planet_image_to_data_url :: "fed_externals \<Rightarrow> 'i image_lib \<Rightarrow> string \<Rightarrow> string result" where
  "compress_planet_image_to_data_url fx lib data_url =
    (let trimmed = trim data_url
     in if utf8_len trimmed > MAX_INPUT_IMAGE_ENCODED_CHARS
        then Inl (BadRequest ''planet_image_base64 is too large (max 20MB)'')
        else
          and_then (parse_supported_image_data_url trimmed) (\<lambda>(source_format, base64_payload).
          and_then (case fx_unbase64 fx base64_payload of
              Inl _ \<Rightarrow> Inl (BadRequest ''planet_image_base64 is not valid base64'') | Inr bytes \<Rightarrow> Inr bytes) (\<lambda>decoded.
          if length decoded > MAX_INPUT_IMAGE_BYTES
          then Inl (BadRequest ''planet_image_base64 decoded payload must be <= 20MB'')
          else
            and_then (ok_or (BadRequest ''planet_image_base64 could not be decoded as an image'')
              (il_load lib source_format decoded)) (\<lambda>decoded_image.
            and_then (compress_rounds lib 4 (fit_dimensions lib decoded_image) None) (\<lambda>r.
            case r of
              Inl encoded \<Rightarrow> Inr (''data:image/jpeg;base64,'' @ fx_base64 fx encoded)
            | Inr best \<Rightarrow>
                and_then (ok_or (BadRequest ''planet_image_base64 could not be compressed'') best) (\<lambda>fallback.
                Inr (''data:image/jpeg;base64,'' @ fx_base64 fx fallback)))))))"

section \<open>Blending\<close>

text \<open>
  The 16 bits are enough and the cut to 8 bits loses nothing: a blended channel is the exact
  quotient, it is white for a transparent pixel and unchanged for an opaque one, and it lies
  between the channel and white.
\<close>

lemma blend_channel_exact:
  "unat (blend_channel px a) = (unat px * unat a + 255 * (255 - unat a)) div 255"
proof -
  let ?p = "unat px" and ?a = "unat a"
  have le: "?p \<le> 255" "?a \<le> 255" using unsigned_less [of px, where ?'a = nat] unsigned_less [of a, where ?'a = nat] by simp_all
  have cast: "unat (ucast px :: 16 word) = ?p" "unat (ucast a :: 16 word) = ?a"
    by (simp_all add: unsigned_ucast_eq take_bit_nat_eq_self le order.strict_trans1 [OF le(1)] order.strict_trans1 [OF le(2)])
  have sum: "?p * ?a + 255 * (255 - ?a) \<le> 65025"
  proof -
    have "?p * ?a \<le> 255 * ?a" using le by simp
    then have "?p * ?a + 255 * (255 - ?a) \<le> 255 * ?a + 255 * (255 - ?a)" by simp
    also have "\<dots> = 65025" using le by (simp add: diff_mult_distrib2)
    finally show ?thesis .
  qed
  have inv: "(ucast a :: 16 word) \<le> 255" using le cast by (simp add: word_le_nat_alt)
  have inv': "unat (255 - ucast a :: 16 word) = 255 - ?a"
    using inv cast by (simp add: unat_sub)
  have "unat (ucast px * ucast a :: 16 word) = ?p * ?a"
    using sum cast by (subst unat_mult_lem [THEN iffD1]) simp_all
  moreover have "unat (255 * (255 - ucast a) :: 16 word) = 255 * (255 - ?a)"
    using sum inv' by (subst unat_mult_lem [THEN iffD1]) simp_all
  ultimately have "unat (ucast px * ucast a + 255 * (255 - ucast a) :: 16 word) = ?p * ?a + 255 * (255 - ?a)"
    using sum by (subst unat_add_lem [THEN iffD1]) simp_all
  then have q: "unat ((ucast px * ucast a + 255 * (255 - ucast a)) div 255 :: 16 word) = (?p * ?a + 255 * (255 - ?a)) div 255"
    by (simp add: unat_div)
  moreover have "(?p * ?a + 255 * (255 - ?a)) div 255 < 256" using sum by linarith
  ultimately show ?thesis
    using inv by (simp add: blend_channel_def Let_def unsigned_ucast_eq take_bit_nat_eq_self)
qed

section \<open>The loops against their specification\<close>

text \<open>
  The images that the loop works on, and all encodings it would try: an attempt fails when the
  encoder does. The loops run through the attempts, stop at the first encoding that fits or at the
  first failure, and otherwise keep the first of the shortest.
\<close>

fun versions :: "'i image_lib \<Rightarrow> nat \<Rightarrow> 'i \<Rightarrow> 'i list" where
  "versions lib 0 img = []"
| "versions lib (Suc n) img = img #
    (let w = next_dimension (il_width lib img); h = next_dimension (il_height lib img)
     in if w = il_width lib img \<and> h = il_height lib img then []
        else versions lib n (il_resize lib w h Triangle img))"

definition attempts :: "'i image_lib \<Rightarrow> nat \<Rightarrow> 'i \<Rightarrow> string result list" where
  "attempts lib n img = concat (map (\<lambda>v. map (encode_jpeg_bytes lib v) quality_steps) (versions lib n img))"

abbreviation fits :: "string \<Rightarrow> bool" where
  "fits e \<equiv> length e \<le> MAX_OUTPUT_IMAGE_BYTES"

definition keep_shorter :: "string option \<Rightarrow> string \<Rightarrow> string option" where
  "keep_shorter best e =
    (case best of Some b \<Rightarrow> if length b \<le> length e then best else Some e | None \<Rightarrow> Some e)"

fun run_attempts :: "string result list \<Rightarrow> string option \<Rightarrow> (string + string option) result" where
  "run_attempts [] best = Inr (Inr best)"
| "run_attempts (Inl err # as) best = Inl err"
| "run_attempts (Inr e # as) best = (if fits e then Inr (Inl e) else run_attempts as (keep_shorter best e))"

lemma run_attempts_append:
  "run_attempts (as @ bs) best = and_then (run_attempts as best) (\<lambda>r. case r of Inl e \<Rightarrow> Inr (Inl e) | Inr b \<Rightarrow> run_attempts bs b)"
  by (induction as best rule: run_attempts.induct) (auto simp: and_then_def)

lemma try_qualities_run: "try_qualities lib img qs best = run_attempts (map (encode_jpeg_bytes lib img) qs) best"
proof (induction qs arbitrary: best)
  case (Cons q qs)
  then show ?case by (cases "encode_jpeg_bytes lib img q") (auto simp: keep_shorter_def and_then_def)
qed simp

lemma compress_rounds_run: "compress_rounds lib n img best = run_attempts (attempts lib n img) best"
proof (induction n arbitrary: img best)
  case (Suc n)
  then show ?case
    by (auto simp: attempts_def Let_def run_attempts_append try_qualities_run and_then_def intro!: arg_cong2 [where f = and_then]
        split: sum.splits)
qed (simp add: attempts_def)

text \<open>
  A successful run made a first part of the attempts, none of which failed: up to the first
  encoding that fits, which it takes, or all of them, when none fits.
\<close>

lemma run_attempts_ok:
  "run_attempts as best = Inr x \<Longrightarrow> \<exists>tried rest. as = map Inr tried @ rest \<and>
     (\<exists>e init. tried = init @ [e] \<and> fits e \<and> (\<forall>y \<in> set init. \<not> fits y) \<and> x = Inl e \<or>
      rest = [] \<and> (\<forall>y \<in> set tried. \<not> fits y) \<and> x = Inr (foldl keep_shorter best tried))"
proof (induction as best rule: run_attempts.induct)
  case (3 e as best)
  show ?case
  proof (cases "fits e")
    case True
    then show ?thesis using 3(2) by (intro exI [of _ "[e]"] exI [of _ as]) auto
  next
    case False
    then obtain tried rest where t: "as = map Inr tried @ rest"
      "\<exists>d init. tried = init @ [d] \<and> fits d \<and> (\<forall>y \<in> set init. \<not> fits y) \<and> x = Inl d \<or>
       rest = [] \<and> (\<forall>y \<in> set tried. \<not> fits y) \<and> x = Inr (foldl keep_shorter (keep_shorter best e) tried)"
      using 3 by auto
    then show ?thesis using False
      by (intro exI [of _ "e # tried"] exI [of _ rest]) (fastforce simp: Cons_eq_append_conv)
  qed
qed auto

lemma arg_min_list_append1:
  "es \<noteq> [] \<Longrightarrow> arg_min_list f (es @ [x]) = (if f (arg_min_list f es) \<le> (f x :: nat) then arg_min_list f es else x)"
proof (induction es rule: induct_list012)
  case (3 a b es)
  then show ?case by (auto simp: Let_def)
qed auto

lemma foldl_keep_shorter:
  "foldl keep_shorter None es = (if es = [] then None else Some (arg_min_list length es))"
  by (induction es rule: rev_induct) (auto simp: keep_shorter_def arg_min_list_append1)

lemma attempts_nonempty: "attempts lib (Suc n) img \<noteq> []"
  by (simp add: attempts_def quality_steps_def)

lemma versions_bound: "length (versions lib n img) \<le> n"
  by (induction n arbitrary: img) (auto simp: Let_def)

lemma attempts_bound: "length (attempts lib n img) \<le> 5 * n"
  using versions_bound [of lib n img]
  by (simp add: attempts_def length_concat comp_def quality_steps_def sum_list_triv)

text \<open>
  What is chosen among the attempts: the first that fits, all earlier ones being too long, or the
  shortest of all, when all succeed and none fits.
\<close>

definition chosen :: "string result list \<Rightarrow> string \<Rightarrow> bool" where
  "chosen as e \<longleftrightarrow>
    (\<exists>init rest. as = map Inr init @ Inr e # rest \<and> fits e \<and> (\<forall>y \<in> set init. \<not> fits y)) \<or>
    (\<exists>es. as = map Inr es \<and> es \<noteq> [] \<and> (\<forall>y \<in> set es. \<not> fits y) \<and> e = arg_min_list length es)"

text \<open>The picture that a data URL carries, decoded by the image library in the declared format.\<close>

definition picture_of :: "fed_externals \<Rightarrow> 'i image_lib \<Rightarrow> string \<Rightarrow> 'i option" where
  "picture_of fx lib data_url =
    (case parse_supported_image_data_url (trim data_url) of
       Inl _ \<Rightarrow> None
     | Inr (source_format, payload) \<Rightarrow>
         (case fx_unbase64 fx payload of Inl _ \<Rightarrow> None | Inr bytes \<Rightarrow> il_load lib source_format bytes))"

text \<open>The compressed image is the data URL of the chosen encoding of the picture.\<close>

lemma compress_result:
  assumes "compress_planet_image_to_data_url fx lib data_url = Inr url"
  obtains img e where "picture_of fx lib data_url = Some img"
    "chosen (attempts lib 4 (fit_dimensions lib img)) e" "url = ''data:image/jpeg;base64,'' @ fx_base64 fx e"
proof -
  obtain fmt payload bytes where bytes: "fx_unbase64 fx payload = Inr bytes"
    and r: "parse_supported_image_data_url (trim data_url) = Inr (fmt, payload)"
    using assms(1) unfolding compress_planet_image_to_data_url_def Let_def
    by (cases "parse_supported_image_data_url (trim data_url)";
        cases "fx_unbase64 fx (snd (projr (parse_supported_image_data_url (trim data_url))))")
      (auto simp: result_simps split: if_splits prod.splits)
  note run = assms(1) [unfolded compress_planet_image_to_data_url_def Let_def, simplified bytes r]
  obtain img where img: "il_load lib fmt bytes = Some img"
    using run bytes by (cases "il_load lib fmt bytes") (simp_all split: if_splits)
  let ?as = "attempts lib 4 (fit_dimensions lib img)"
  obtain x where x: "compress_rounds lib 4 (fit_dimensions lib img) None = Inr x"
    using run bytes img by (cases "compress_rounds lib 4 (fit_dimensions lib img) None") (simp_all split: if_splits)
  obtain e where x': "x = Inl e \<or> x = Inr (Some e)" and url: "url = ''data:image/jpeg;base64,'' @ fx_base64 fx e"
    using run bytes img x by (cases x) (auto simp: result_simps split: if_splits)
  have ne: "?as \<noteq> []" using attempts_nonempty [of lib 3 "fit_dimensions lib img"] by (simp add: eval_nat_numeral)
  obtain tried rest where t: "?as = map Inr tried @ rest"
    "(\<exists>d init. tried = init @ [d] \<and> fits d \<and> (\<forall>y \<in> set init. \<not> fits y) \<and> x = Inl d) \<or>
      rest = [] \<and> (\<forall>y \<in> set tried. \<not> fits y) \<and> x = Inr (foldl keep_shorter None tried)"
    using run_attempts_ok [OF x [unfolded compress_rounds_run]] by blast
  from t(2) have "chosen ?as e"
  proof (elim disjE exE conjE)
    fix d init assume "tried = init @ [d]" "fits d" "\<forall>y \<in> set init. \<not> fits y" "x = Inl d"
    then have "?as = map Inr init @ Inr e # rest \<and> fits e \<and> (\<forall>y \<in> set init. \<not> fits y)" using t(1) x' by auto
    then show ?thesis unfolding chosen_def by blast
  qed (use t(1) x' ne in \<open>auto simp: chosen_def foldl_keep_shorter split: if_splits\<close>)
  moreover have "picture_of fx lib data_url = Some img" by (simp add: picture_of_def r bytes img)
  ultimately show thesis using that url by blast
qed

end
