(* ===== verification/Admin_Routes.thy ===== *)
theory Admin_Routes
  imports Planet_Image Account_Routes Sticker_Service Auth_Middleware
begin

text \<open>
  The administration handlers (src/src/routes/admin.rs): each takes the claims that the extractor
  \<open>AdminUser\<close> has accepted. A handler that changes something runs its statements one by one and ends
  with an entry of the audit log; \<open>handle_admin\<close> composes the extractor with the table of routes.

  The encoders of serde and chrono are the record \<open>admin_codec\<close>.
\<close>

record admin_codec =
  ac_enc_policy :: "guild_policy_config \<Rightarrow> string option"
  ac_dec_policy :: "string \<Rightarrow> guild_policy_config option"
  ac_enc_list :: "string list \<Rightarrow> string + string"
  ac_dec_list :: "string \<Rightarrow> string list option"
  ac_show_instant :: "instant \<Rightarrow> string"
  ac_show_day :: "day \<Rightarrow> string"

section \<open>Requests and views\<close>

record update_config_request =
  uc_max_users :: "nat option"
  uc_notification_webhook_url :: "string option"
  uc_planet_name :: "string option"
  uc_planet_description :: "string option"
  uc_planet_image_base64 :: "string option"
  uc_linked_planets :: "string list option"
  uc_require_approval :: "bool option"

record agent_token_created_view =
  atc_id :: uuid
  atc_name :: string
  atc_token :: string
  atc_token_prefix :: string
  atc_created_at :: instant
  atc_expires_at :: "instant option"

record agent_token_view =
  atv_id :: uuid
  atv_name :: string
  atv_token_prefix :: string
  atv_created_at :: instant
  atv_expires_at :: "instant option"
  atv_last_used_at :: "instant option"
  atv_revoked_at :: "instant option"

definition to_agent_token_view :: "agent_token \<Rightarrow> agent_token_view" where
  "to_agent_token_view t = \<lparr>atv_id = ag_id t, atv_name = ag_name t, atv_token_prefix = ag_token_prefix t,
     atv_created_at = ag_created_at t, atv_expires_at = ag_expires_at t, atv_last_used_at = ag_last_used_at t,
     atv_revoked_at = ag_revoked_at t\<rparr>"

record admin_server_news_view =
  asn_id :: uuid
  asn_title :: string
  asn_summary :: "string option"
  asn_markdown_content :: string
  asn_created_by :: "uuid option"
  asn_published_at :: instant
  asn_updated_at :: instant

definition to_admin_server_news_view :: "server_news_item \<Rightarrow> admin_server_news_view" where
  "to_admin_server_news_view n = \<lparr>asn_id = sn_id n, asn_title = sn_title n, asn_summary = sn_summary n,
     asn_markdown_content = sn_markdown_content n, asn_created_by = sn_created_by n,
     asn_published_at = sn_published_at n, asn_updated_at = sn_updated_at n\<rparr>"

record score_clawback_request =
  cb_delta :: int
  cb_reason :: string
  cb_reference_id :: "string option"

section \<open>Accounts\<close>

abbreviation audit :: "externals \<Rightarrow> claims \<Rightarrow> string \<Rightarrow> string option \<Rightarrow> json \<Rightarrow> instant \<Rightarrow> unit action" where
  "audit ex admin action target details now \<equiv>
     seq (check (claims_user_id ex admin)) (\<lambda>admin_id. execute (append_audit_log (Some admin_id) action target details now))"

definition approve_user_handler :: "externals \<Rightarrow> claims \<Rightarrow> uuid \<Rightarrow> instant \<Rightarrow> unit action" where
  "approve_user_handler ex admin user_id now =
     seq (execute (approve_user user_id now)) (\<lambda>_.
     audit ex admin ''user.approve'' (Some (ex_show_uuid ex user_id)) (JObj [(''is_approved'', JBool True)]) now)"

definition reject_user_handler :: "externals \<Rightarrow> claims \<Rightarrow> uuid \<Rightarrow> instant \<Rightarrow> unit action" where
  "reject_user_handler ex admin user_id now =
     seq (execute (reject_user user_id now)) (\<lambda>_.
     audit ex admin ''user.reject'' (Some (ex_show_uuid ex user_id)) (JObj [(''rejected'', JBool True)]) now)"

definition suspend_user :: "externals \<Rightarrow> admin_codec \<Rightarrow> claims \<Rightarrow> uuid \<Rightarrow> uuid \<Rightarrow> instant \<Rightarrow> unit action" where
  "suspend_user ex ac admin user_id fresh_id now =
     seq (check (claims_user_id ex admin)) (\<lambda>admin_user_id.
     seq (execute (set_user_active user_id False now)) (\<lambda>_.
     seq (statement (award_validated_moderation_action (ac_dec_policy ac) fresh_id admin_user_id
           EVENT_VALIDATED_MODERATION_USER_SUSPEND (Some (ex_show_uuid ex user_id))
           (JObj [(''target_user_id'', JStr (ex_show_uuid ex user_id)), (''action'', JStr ''suspend'')]) now)) (\<lambda>score.
     execute (append_audit_log (Some admin_user_id) ''user.suspend'' (Some (ex_show_uuid ex user_id))
       (JObj ((''is_active'', JBool False) # audit_score (ex_show_uuid ex) score)) now))))"

definition activate_user :: "externals \<Rightarrow> claims \<Rightarrow> uuid \<Rightarrow> instant \<Rightarrow> unit action" where
  "activate_user ex admin user_id now =
     seq (execute (set_user_active user_id True now)) (\<lambda>_.
     audit ex admin ''user.activate'' (Some (ex_show_uuid ex user_id)) (JObj [(''is_active'', JBool True)]) now)"

definition issue_yellow_card_handler :: "externals \<Rightarrow> claims \<Rightarrow> uuid \<Rightarrow> instant \<Rightarrow> unit action" where
  "issue_yellow_card_handler ex admin user_id now =
     seq (execute (issue_yellow_card user_id 3 now)) (\<lambda>_.
     audit ex admin ''user.yellow_card'' (Some (ex_show_uuid ex user_id)) (JObj [(''duration_days'', JInt 3)]) now)"

definition clear_yellow_card_handler :: "externals \<Rightarrow> claims \<Rightarrow> uuid \<Rightarrow> instant \<Rightarrow> unit action" where
  "clear_yellow_card_handler ex admin user_id now =
     seq (execute (clear_yellow_card user_id now)) (\<lambda>_.
     audit ex admin ''user.yellow_card_cleared'' (Some (ex_show_uuid ex user_id)) (JObj []) now)"

section \<open>News\<close>

definition list_server_news :: "int option \<Rightarrow> db \<Rightarrow> admin_server_news_view list" where
  "list_server_news limit db =
     map to_admin_server_news_view (list_news db (case limit of Some n \<Rightarrow> n | None \<Rightarrow> 50))"

definition news_details :: "server_news_item \<Rightarrow> json" where
  "news_details n = JObj [(''title'', JStr (sn_title n)),
     (''summary_set'', JBool (case sn_summary n of Some v \<Rightarrow> trim v \<noteq> [] | None \<Rightarrow> False)),
     (''markdown_len'', JInt (int (utf8_len (sn_markdown_content n))))]"

definition create_server_news ::
  "externals \<Rightarrow> claims \<Rightarrow> string \<Rightarrow> string option \<Rightarrow> string \<Rightarrow> uuid \<Rightarrow> instant \<Rightarrow> admin_server_news_view action" where
  "create_server_news ex admin title summary markdown_content fresh_id now =
     seq (check (claims_user_id ex admin)) (\<lambda>admin_user_id.
     seq (statement (create_news fresh_id admin_user_id title summary markdown_content now)) (\<lambda>created.
     seq (execute (append_audit_log (Some admin_user_id) ''server_news.create'' (Some (ex_show_uuid ex (sn_id created)))
           (news_details created) now)) (\<lambda>_.
     done_with (to_admin_server_news_view created))))"

definition update_server_news ::
  "externals \<Rightarrow> claims \<Rightarrow> uuid \<Rightarrow> string \<Rightarrow> string option \<Rightarrow> string \<Rightarrow> instant \<Rightarrow> admin_server_news_view action" where
  "update_server_news ex admin news_id title summary markdown_content now =
     seq (check (claims_user_id ex admin)) (\<lambda>admin_user_id.
     seq (statement (update_news news_id title summary markdown_content now)) (\<lambda>updated.
     seq (execute (append_audit_log (Some admin_user_id) ''server_news.update'' (Some (ex_show_uuid ex (sn_id updated)))
           (news_details updated) now)) (\<lambda>_.
     done_with (to_admin_server_news_view updated))))"

definition delete_server_news :: "externals \<Rightarrow> claims \<Rightarrow> uuid \<Rightarrow> instant \<Rightarrow> unit action" where
  "delete_server_news ex admin news_id now =
     seq (check (claims_user_id ex admin)) (\<lambda>admin_user_id.
     seq (statement (delete_news news_id)) (\<lambda>deleted.
     execute (append_audit_log (Some admin_user_id) ''server_news.delete'' (Some (ex_show_uuid ex (sn_id deleted)))
       (JObj [(''title'', JStr (sn_title deleted))]) now)))"

section \<open>Agent tokens\<close>

definition create_agent_token_handler ::
  "externals \<Rightarrow> admin_codec \<Rightarrow> claims \<Rightarrow> string \<Rightarrow> int option \<Rightarrow> uuid \<times> string \<Rightarrow> instant \<Rightarrow>
     agent_token_created_view action" where
  "create_agent_token_handler ex ac admin name expires_in_days fresh now =
     seq (check (claims_user_id ex admin)) (\<lambda>admin_user_id.
     seq (statement (create_agent_token ex admin_user_id name expires_in_days fresh now)) (\<lambda>(created, raw_token).
     seq (execute (append_audit_log (Some admin_user_id) ''agent_token.create'' (Some (ex_show_uuid ex (ag_id created)))
           (JObj [(''name'', JStr (ag_name created)), (''token_prefix'', JStr (ag_token_prefix created)),
              (''expires_at'', json_opt_str (map_option (ac_show_instant ac) (ag_expires_at created)))]) now)) (\<lambda>_.
     done_with \<lparr>atc_id = ag_id created, atc_name = ag_name created, atc_token = raw_token,
       atc_token_prefix = ag_token_prefix created, atc_created_at = ag_created_at created,
       atc_expires_at = ag_expires_at created\<rparr>)))"

definition list_agent_tokens_handler :: "db \<Rightarrow> agent_token_view list" where
  "list_agent_tokens_handler db = map to_agent_token_view (list_agent_tokens db)"

definition revoke_agent_token_handler :: "externals \<Rightarrow> claims \<Rightarrow> uuid \<Rightarrow> instant \<Rightarrow> unit action" where
  "revoke_agent_token_handler ex admin token_id now =
     seq (check (claims_user_id ex admin)) (\<lambda>admin_user_id.
     seq (execute (\<lambda>db. Inr (revoke_agent_token token_id now db))) (\<lambda>_.
     execute (append_audit_log (Some admin_user_id) ''agent_token.revoke'' (Some (ex_show_uuid ex token_id)) (JObj []) now)))"

section \<open>Settings\<close>

abbreviation put_setting :: "string \<Rightarrow> string \<Rightarrow> instant \<Rightarrow> unit action" where
  "put_setting key v now \<equiv> execute (\<lambda>db. Inr (set_setting key v now db))"

abbreviation drop_setting :: "string \<Rightarrow> unit action" where
  "drop_setting key \<equiv> execute (\<lambda>db. Inr (clear_setting key db))"

definition write_max_users :: "nat option \<Rightarrow> instant \<Rightarrow> unit action" where
  "write_max_users v now =
    (case v of
       Some max_users \<Rightarrow>
         if max_users = 0 then check (Inl (BadRequest ''max_users must be greater than 0''))
         else put_setting SETTING_MAX_USERS (show_nat max_users) now
     | None \<Rightarrow> drop_setting SETTING_MAX_USERS)"

text \<open>An absent or blank text clears the setting; another text is stored as \<open>f\<close> makes it.\<close>

definition write_text :: "string \<Rightarrow> (string \<Rightarrow> string result) \<Rightarrow> string option \<Rightarrow> instant \<Rightarrow> unit action" where
  "write_text key f v now =
    (case v of
       Some raw \<Rightarrow>
         if trim raw = [] then drop_setting key
         else seq (check (f (trim raw))) (\<lambda>v. put_setting key v now)
     | None \<Rightarrow> drop_setting key)"

definition webhook_url :: "url_parser \<Rightarrow> string \<Rightarrow> string result" where
  "webhook_url parse_url trimmed =
    (case parse_url trimmed of
       Inl _ \<Rightarrow> Inl (BadRequest ''notification_webhook_url must be a valid URL'')
     | Inr parsed \<Rightarrow>
         if url_scheme parsed \<noteq> ''https'' then Inl (BadRequest ''notification_webhook_url must use https'')
         else Inr trimmed)"

fun normalize_linked_planets :: "url_parser \<Rightarrow> string list \<Rightarrow> string list result" where
  "normalize_linked_planets parse_url [] = Inr []"
| "normalize_linked_planets parse_url (raw # raws) =
    (let trimmed = trim_end_slashes (trim raw)
     in if trimmed = [] then normalize_linked_planets parse_url raws
        else case parse_url trimmed of
          Inl _ \<Rightarrow> Inl (BadRequest ''linked_planets must contain valid URLs'')
        | Inr parsed \<Rightarrow>
            if url_scheme parsed \<noteq> ''https'' \<and> url_scheme parsed \<noteq> ''http''
            then Inl (BadRequest ''linked_planets URLs must use http or https'')
            else and_then (normalize_linked_planets parse_url raws) (\<lambda>rest. Inr (trimmed # rest)))"

text \<open>Returns the normalized list, for the audit log.\<close>

definition write_linked_planets ::
  "fed_externals \<Rightarrow> admin_codec \<Rightarrow> string list option \<Rightarrow> instant \<Rightarrow> string list action" where
  "write_linked_planets fx ac v now =
    (case v of
       Some linked_planets \<Rightarrow>
         seq (check (and_then (normalize_linked_planets (fx_parse_url fx) linked_planets) (\<lambda>l. Inr (btree_set l)))) (\<lambda>l.
         if l = [] then seq (drop_setting SETTING_LINKED_PLANETS) (\<lambda>_. done_with l)
         else
           seq (check (case ac_enc_list ac l of
               Inl e \<Rightarrow> Inl (Internal (''JSON encode: '' @ e)) | Inr encoded \<Rightarrow> Inr encoded)) (\<lambda>encoded.
           seq (put_setting SETTING_LINKED_PLANETS encoded now) (\<lambda>_. done_with l)))
     | None \<Rightarrow> seq (drop_setting SETTING_LINKED_PLANETS) (\<lambda>_. done_with []))"

definition write_require_approval :: "bool option \<Rightarrow> instant \<Rightarrow> unit action" where
  "write_require_approval v now =
    (case v of
       Some True \<Rightarrow> put_setting SETTING_REQUIRE_APPROVAL ''true'' now
     | Some False \<Rightarrow> drop_setting SETTING_REQUIRE_APPROVAL
     | None \<Rightarrow> done_with ())"

definition given_text :: "string option \<Rightarrow> json" where
  "given_text v = JBool (case v of Some s \<Rightarrow> trim s \<noteq> [] | None \<Rightarrow> False)"

definition config_details :: "update_config_request \<Rightarrow> string list \<Rightarrow> json" where
  "config_details body linked =
     JObj [(''max_users'', json_opt_int (map_option int (uc_max_users body))),
       (''notification_webhook_url_set'', given_text (uc_notification_webhook_url body)),
       (''planet_name_set'', given_text (uc_planet_name body)),
       (''planet_description_set'', given_text (uc_planet_description body)),
       (''planet_image_set'', given_text (uc_planet_image_base64 body)),
       (''linked_planets_count'', JInt (int (length linked)))]"

definition get_config :: "admin_codec \<Rightarrow> config \<Rightarrow> db \<Rightarrow> admin_config_view" where
  "get_config ac cf db = read_admin_config (ac_dec_list ac) (cf_max_users cf) db"

definition update_config ::
  "externals \<Rightarrow> fed_externals \<Rightarrow> 'i image_lib \<Rightarrow> admin_codec \<Rightarrow> config \<Rightarrow> claims \<Rightarrow> update_config_request \<Rightarrow> instant \<Rightarrow>
     admin_config_view action" where
  "update_config ex fx lib ac cf admin body now =
     seq (write_max_users (uc_max_users body) now) (\<lambda>_.
     seq (write_text SETTING_WEBHOOK_URL (webhook_url (fx_parse_url fx)) (uc_notification_webhook_url body) now) (\<lambda>_.
     seq (write_text SETTING_PLANET_NAME Inr (uc_planet_name body) now) (\<lambda>_.
     seq (write_text SETTING_PLANET_DESCRIPTION Inr (uc_planet_description body) now) (\<lambda>_.
     seq (write_text SETTING_PLANET_IMAGE_BASE64 (compress_planet_image_to_data_url fx lib) (uc_planet_image_base64 body) now) (\<lambda>_.
     seq (write_linked_planets fx ac (uc_linked_planets body) now) (\<lambda>linked.
     seq (write_require_approval (uc_require_approval body) now) (\<lambda>_.
     seq (audit ex admin ''config.update'' None (config_details body linked) now) (\<lambda>_.
     query (\<lambda>db. Inr (read_admin_config (ac_dec_list ac) (cf_max_users cf) db))))))))))"

section \<open>Guild policy and penalties\<close>

definition update_guild_policy ::
  "externals \<Rightarrow> admin_codec \<Rightarrow> claims \<Rightarrow> guild_policy_config \<Rightarrow> instant \<Rightarrow> guild_policy_config action" where
  "update_guild_policy ex ac admin body now =
     seq (statement (save_guild_policy (ac_enc_policy ac) body now)) (\<lambda>policy.
     seq (audit ex admin ''guild_policy.update'' None
       (JObj [(''enforcement_enabled'', JBool (ge_enabled (gp_enforcement policy))),
          (''outbound_messages_enabled'', JBool (ge_outbound_messages_enabled (gp_enforcement policy))),
          (''friend_adds_enabled'', JBool (ge_friend_adds_enabled (gp_enforcement policy))),
          (''attachment_sends_enabled'', JBool (ge_attachment_sends_enabled (gp_enforcement policy))),
          (''levels'', JInt (int (length (gp_level_policies policy)))),
          (''ranks'', JInt (int (length (gp_rank_policies policy)))),
          (''safe_attachment_types'', JInt (int (length (gp_safe_attachment_types policy)))),
          (''community_upvote_daily_cap'', JInt (gp_community_upvote_daily_cap policy))]) now) (\<lambda>_.
     done_with policy))"

definition prune_guild_history_handler ::
  "externals \<Rightarrow> admin_codec \<Rightarrow> claims \<Rightarrow> instant \<Rightarrow> guild_history_prune_result action" where
  "prune_guild_history_handler ex ac admin now =
     seq (statement (\<lambda>db. Inr (prune_guild_history (ac_dec_policy ac) now db))) (\<lambda>r.
     seq (audit ex admin ''guild_history.prune'' None
       (JObj [(''daily_counter_retention_days'', JInt (pr_daily_counter_retention_days r)),
          (''score_event_retention_days'', JInt (pr_score_event_retention_days r)),
          (''pruned_before_day'', JStr (ac_show_day ac (pr_pruned_before_day r))),
          (''pruned_before_timestamp'', JStr (ac_show_instant ac (pr_pruned_before_timestamp r))),
          (''daily_action_counters_deleted'', JInt (pr_daily_action_counters_deleted r)),
          (''guild_score_events_deleted'', JInt (pr_guild_score_events_deleted r))]) now) (\<lambda>_.
     done_with r))"

definition clawback_score ::
  "externals \<Rightarrow> admin_codec \<Rightarrow> claims \<Rightarrow> uuid \<Rightarrow> score_clawback_request \<Rightarrow> uuid \<Rightarrow> instant \<Rightarrow>
     contribution_event_outcome action" where
  "clawback_score ex ac admin user_id body fresh_id now =
     seq (check (guard_err (cb_delta body \<le> 0)
           (BadRequest ''delta must be zero or negative for a score clawback''))) (\<lambda>_.
     seq (check (claims_user_id ex admin)) (\<lambda>admin_id.
     seq (statement (clawback_contribution_score (ac_dec_policy ac) fresh_id user_id (cb_delta body) (cb_reference_id body)
           (JObj [(''reason'', JStr (cb_reason body)), (''admin_user_id'', JStr (ex_show_uuid ex admin_id))]) now)) (\<lambda>outcome.
     seq (execute (append_audit_log (Some admin_id) ''guild.admin.clawback_score'' (Some (ex_show_uuid ex user_id))
           (JObj [(''delta'', JInt (cb_delta body)), (''reason'', JStr (cb_reason body)),
              (''reference_id'', json_opt_str (cb_reference_id body)),
              (''applied_delta'', JInt (oc_applied_delta outcome))]) now)) (\<lambda>_.
     done_with outcome))))"

definition freeze_progression :: "externals \<Rightarrow> claims \<Rightarrow> uuid \<Rightarrow> string \<Rightarrow> instant \<Rightarrow> unit action" where
  "freeze_progression ex admin user_id reason now =
     seq (check (claims_user_id ex admin)) (\<lambda>admin_id.
     run_db (freeze_guild_progression (ex_show_uuid ex) (Some admin_id) user_id reason now))"

definition unfreeze_progression :: "externals \<Rightarrow> claims \<Rightarrow> uuid \<Rightarrow> string \<Rightarrow> instant \<Rightarrow> unit action" where
  "unfreeze_progression ex admin user_id reason now =
     seq (check (claims_user_id ex admin)) (\<lambda>admin_id.
     run_db (unfreeze_guild_progression (ex_show_uuid ex) admin_id user_id reason now))"

definition report_metadata :: "externals \<Rightarrow> uuid \<Rightarrow> uuid \<Rightarrow> json" where
  "report_metadata ex user_id admin_id =
     JObj [(''reported_user_id'', JStr (ex_show_uuid ex user_id)), (''admin_user_id'', JStr (ex_show_uuid ex admin_id))]"

definition report_details :: "externals \<Rightarrow> uuid \<Rightarrow> string option \<Rightarrow> contribution_event_outcome \<Rightarrow> json" where
  "report_details ex reporter reference outcome =
     JObj [(''reporter_user_id'', JStr (ex_show_uuid ex reporter)), (''reference_id'', json_opt_str reference),
       (''applied_delta'', JInt (oc_applied_delta outcome))]"

definition verify_abuse_report ::
  "externals \<Rightarrow> admin_codec \<Rightarrow> claims \<Rightarrow> uuid \<Rightarrow> uuid \<Rightarrow> string option \<Rightarrow> uuid \<Rightarrow> instant \<Rightarrow>
     contribution_event_outcome action" where
  "verify_abuse_report ex ac admin user_id reporter reference fresh_id now =
     seq (check (claims_user_id ex admin)) (\<lambda>admin_id.
     seq (statement (award_verified_abuse_report (ac_dec_policy ac) fresh_id reporter reference
           (report_metadata ex user_id admin_id) now)) (\<lambda>outcome.
     seq (execute (append_audit_log (Some admin_id) ''guild.admin.verified_abuse_report'' (Some (ex_show_uuid ex user_id))
           (report_details ex reporter reference outcome) now)) (\<lambda>_.
     done_with outcome)))"

definition dismiss_abuse_report ::
  "externals \<Rightarrow> admin_codec \<Rightarrow> claims \<Rightarrow> uuid \<Rightarrow> uuid \<Rightarrow> string option \<Rightarrow> uuid \<Rightarrow> instant \<Rightarrow>
     contribution_event_outcome action" where
  "dismiss_abuse_report ex ac admin user_id reporter reference fresh_id now =
     seq (check (claims_user_id ex admin)) (\<lambda>admin_id.
     seq (statement (penalize_false_report (ac_dec_policy ac) fresh_id reporter reference
           (report_metadata ex user_id admin_id) now)) (\<lambda>outcome.
     seq (execute (append_audit_log (Some admin_id) ''guild.admin.dismissed_false_report'' (Some (ex_show_uuid ex user_id))
           (report_details ex reporter reference outcome) now)) (\<lambda>_.
     done_with outcome)))"

section \<open>Moderation reports\<close>

definition list_moderation_reports ::
  "externals \<Rightarrow> string option \<Rightarrow> int option \<Rightarrow> db \<Rightarrow> admin_moderation_report_view list result" where
  "list_moderation_reports ex status limit db =
     and_then (parse_status_filter status) (\<lambda>flt.
     Inr (list_reports (ex_show_uuid ex) flt (case limit of Some n \<Rightarrow> n | None \<Rightarrow> 100) db))"

definition resolve_moderation_report ::
  "externals \<Rightarrow> claims \<Rightarrow> uuid \<Rightarrow> string \<Rightarrow> string option \<Rightarrow> instant \<Rightarrow> admin_moderation_report_view action" where
  "resolve_moderation_report ex admin report_id resolution_action resolution_notes now =
     seq (check (claims_user_id ex admin)) (\<lambda>admin_user_id.
     seq (statement (resolve_report (ex_parse_uuid ex) (ex_show_uuid ex) report_id admin_user_id resolution_action
           resolution_notes now)) (\<lambda>view.
     seq (execute (let report = rv_report view in
           append_audit_log (Some admin_user_id) ''moderation.report.resolve'' (Some (ex_show_uuid ex (mr_id report)))
           (JObj [(''resolution_action'', json_opt_str (mr_resolution_action report)),
              (''resolution_notes'', json_opt_str (mr_resolution_notes report)),
              (''reported_user_id'', JStr (ex_show_uuid ex (mr_reported_user_id report))),
              (''status'', JStr (mr_status report))]) now)) (\<lambda>_.
     done_with view)))"

section \<open>Reading\<close>

definition or_limit :: "int \<Rightarrow> int option \<Rightarrow> int" where
  "or_limit d v = (case v of Some n \<Rightarrow> n | None \<Rightarrow> d)"

definition overview :: "db \<Rightarrow> admin_overview" where
  "overview db = admin_overview_of db"

definition list_users_handler :: "instant \<Rightarrow> string option \<Rightarrow> string option \<Rightarrow> db \<Rightarrow> admin_user_view list result" where
  "list_users_handler now q automation_review_state db = list_users now db q automation_review_state"

definition audit_logs :: "int option \<Rightarrow> db \<Rightarrow> admin_audit_log list" where
  "audit_logs limit db = list_audit_logs db (or_limit 50 limit)"

definition guild_review_users :: "instant \<Rightarrow> string option \<Rightarrow> int option \<Rightarrow> db \<Rightarrow> admin_user_view list result" where
  "guild_review_users now automation_review_state limit db =
     list_guild_review_users now db automation_review_state (or_limit 50 limit)"

definition guild_score_events_handler ::
  "uuid option \<Rightarrow> string option \<Rightarrow> int option \<Rightarrow> db \<Rightarrow> guild_score_event list" where
  "guild_score_events_handler user_id event_type limit db = list_guild_score_events db user_id event_type (or_limit 50 limit)"

definition guild_blocked_actions :: "int option \<Rightarrow> db \<Rightarrow> admin_blocked_action_count list" where
  "guild_blocked_actions limit db = list_guild_blocked_action_counts db (or_limit 10 limit)"

definition guild_review_metrics_handler :: "db \<Rightarrow> admin_trust_review_metrics" where
  "guild_review_metrics_handler db = guild_review_metrics db"

definition get_guild_policy :: "admin_codec \<Rightarrow> db \<Rightarrow> guild_policy_config" where
  "get_guild_policy ac db = load_guild_policy_conn (ac_dec_policy ac) db"

section \<open>The table of routes\<close>

text \<open>
  One constructor per line of \<open>configure\<close>, with the parameters of the path and the query and the
  body. \<open>web::Path\<close>, \<open>web::Query\<close> and \<open>web::Json\<close> have parsed them.
\<close>

datatype (plugins only: code) admin_request =
    Overview
  | ListUsers "string option" "string option"
  | ListModerationReports "string option" "int option"
  | ResolveModerationReport uuid string "string option"
  | ApproveUser uuid
  | RejectUser uuid
  | SuspendUser uuid
  | ActivateUser uuid
  | ListServerNews "int option"
  | CreateServerNews string "string option" string
  | UpdateServerNews uuid string "string option" string
  | DeleteServerNews uuid
  | ListAgentTokens
  | CreateAgentToken string "int option"
  | RevokeAgentToken uuid
  | GetConfig
  | UpdateConfig update_config_request
  | GetGuildPolicy
  | UpdateGuildPolicy guild_policy_config
  | PruneGuildHistory
  | GuildReviewUsers "string option" "int option"
  | GuildReviewMetrics
  | GuildScoreEvents "uuid option" "string option" "int option"
  | GuildBlockedActions "int option"
  | AuditLogs "int option"
  | ClawbackScore uuid score_clawback_request
  | FreezeProgression uuid string
  | UnfreezeProgression uuid string
  | VerifyAbuseReport uuid uuid "string option"
  | DismissAbuseReport uuid uuid "string option"
  | IssueYellowCard uuid
  | ClearYellowCard uuid

datatype (plugins only: code) admin_response =
    OverviewBody admin_overview
  | UsersBody "admin_user_view list"
  | ReportsBody "admin_moderation_report_view list"
  | ReportBody admin_moderation_report_view
  | StatusBody string
  | FrozenBody bool
  | NewsListBody "admin_server_news_view list"
  | NewsBody admin_server_news_view
  | TokensBody "agent_token_view list"
  | TokenBody agent_token_created_view
  | ConfigBody admin_config_view
  | PolicyBody guild_policy_config
  | PruneBody guild_history_prune_result
  | MetricsBody admin_trust_review_metrics
  | EventsBody "guild_score_event list"
  | CountsBody "admin_blocked_action_count list"
  | AuditBody "admin_audit_log list"
  | OutcomeBody contribution_event_outcome

abbreviation answer :: "('a \<Rightarrow> admin_response) \<Rightarrow> 'a action \<Rightarrow> admin_response action" where
  "answer f m \<equiv> seq m (\<lambda>x. done_with (f x))"

abbreviation read_only :: "(db \<Rightarrow> admin_response) \<Rightarrow> admin_response action" where
  "read_only f \<equiv> query (\<lambda>db. Inr (f db))"

text \<open>The libraries and the two random values of a request.\<close>

record 'i admin_env =
  ad_ex :: externals
  ad_fx :: fed_externals
  ad_lib :: "'i image_lib"
  ad_codec :: admin_codec
  ad_config :: config
  ad_fresh_id :: uuid
  ad_fresh_token :: string

definition route :: "'i admin_env \<Rightarrow> claims \<Rightarrow> instant \<Rightarrow> admin_request \<Rightarrow> admin_response action" where
  "route av admin now req =
    (case req of
       Overview \<Rightarrow> read_only (\<lambda>db. OverviewBody (overview db))
     | ListUsers q state \<Rightarrow> query (\<lambda>db. and_then (list_users_handler now q state db) (\<lambda>us. Inr (UsersBody us)))
     | ListModerationReports status limit \<Rightarrow> query (\<lambda>db. and_then (list_moderation_reports (ad_ex av) status limit db) (\<lambda>rs. Inr (ReportsBody rs)))
     | ResolveModerationReport k act notes \<Rightarrow> answer ReportBody (resolve_moderation_report (ad_ex av) admin k act notes now)
     | ApproveUser k \<Rightarrow> answer (\<lambda>_. StatusBody ''approved'') (approve_user_handler (ad_ex av) admin k now)
     | RejectUser k \<Rightarrow> answer (\<lambda>_. StatusBody ''rejected'') (reject_user_handler (ad_ex av) admin k now)
     | SuspendUser k \<Rightarrow> answer (\<lambda>_. StatusBody ''suspended'') (suspend_user (ad_ex av) (ad_codec av) admin k (ad_fresh_id av) now)
     | ActivateUser k \<Rightarrow> answer (\<lambda>_. StatusBody ''active'') (activate_user (ad_ex av) admin k now)
     | ListServerNews limit \<Rightarrow> read_only (\<lambda>db. NewsListBody (list_server_news limit db))
     | CreateServerNews title summary markdown \<Rightarrow> answer NewsBody (create_server_news (ad_ex av) admin title summary markdown (ad_fresh_id av) now)
     | UpdateServerNews k title summary markdown \<Rightarrow> answer NewsBody (update_server_news (ad_ex av) admin k title summary markdown now)
     | DeleteServerNews k \<Rightarrow> answer (\<lambda>_. StatusBody ''deleted'') (delete_server_news (ad_ex av) admin k now)
     | ListAgentTokens \<Rightarrow> read_only (\<lambda>db. TokensBody (list_agent_tokens_handler db))
     | CreateAgentToken name expires \<Rightarrow> answer TokenBody
     (create_agent_token_handler (ad_ex av) (ad_codec av) admin name expires (ad_fresh_id av, ad_fresh_token av) now)
     | RevokeAgentToken k \<Rightarrow> answer (\<lambda>_. StatusBody ''revoked'') (revoke_agent_token_handler (ad_ex av) admin k now)
     | GetConfig \<Rightarrow> read_only (\<lambda>db. ConfigBody (get_config (ad_codec av) (ad_config av) db))
     | UpdateConfig body \<Rightarrow> answer ConfigBody
     (update_config (ad_ex av) (ad_fx av) (ad_lib av) (ad_codec av) (ad_config av) admin body now)
     | GetGuildPolicy \<Rightarrow> read_only (\<lambda>db. PolicyBody (get_guild_policy (ad_codec av) db))
     | UpdateGuildPolicy body \<Rightarrow> answer PolicyBody (update_guild_policy (ad_ex av) (ad_codec av) admin body now)
     | PruneGuildHistory \<Rightarrow> answer PruneBody (prune_guild_history_handler (ad_ex av) (ad_codec av) admin now)
     | GuildReviewUsers state limit \<Rightarrow> query (\<lambda>db. and_then (guild_review_users now state limit db) (\<lambda>us. Inr (UsersBody us)))
     | GuildReviewMetrics \<Rightarrow> read_only (\<lambda>db. MetricsBody (guild_review_metrics_handler db))
     | GuildScoreEvents k event_type limit \<Rightarrow> read_only (\<lambda>db. EventsBody (guild_score_events_handler k event_type limit db))
     | GuildBlockedActions limit \<Rightarrow> read_only (\<lambda>db. CountsBody (guild_blocked_actions limit db))
     | AuditLogs limit \<Rightarrow> read_only (\<lambda>db. AuditBody (audit_logs limit db))
     | ClawbackScore k body \<Rightarrow> answer OutcomeBody (clawback_score (ad_ex av) (ad_codec av) admin k body (ad_fresh_id av) now)
     | FreezeProgression k reason \<Rightarrow> answer (\<lambda>_. FrozenBody True) (freeze_progression (ad_ex av) admin k reason now)
     | UnfreezeProgression k reason \<Rightarrow> answer (\<lambda>_. FrozenBody False) (unfreeze_progression (ad_ex av) admin k reason now)
     | VerifyAbuseReport k reporter reference \<Rightarrow> answer OutcomeBody (verify_abuse_report (ad_ex av) (ad_codec av) admin k reporter reference (ad_fresh_id av) now)
     | DismissAbuseReport k reporter reference \<Rightarrow> answer OutcomeBody (dismiss_abuse_report (ad_ex av) (ad_codec av) admin k reporter reference (ad_fresh_id av) now)
     | IssueYellowCard k \<Rightarrow> answer (\<lambda>_. StatusBody ''yellow_card_issued'') (issue_yellow_card_handler (ad_ex av) admin k now)
     | ClearYellowCard k \<Rightarrow> answer (\<lambda>_. StatusBody ''yellow_card_cleared'') (clear_yellow_card_handler (ad_ex av) admin k now))"

definition handle_admin ::
  "'i admin_env \<Rightarrow> string option \<Rightarrow> admin_request \<Rightarrow> instant \<Rightarrow> admin_response action" where
  "handle_admin av header req now =
     seq (run_db (admin_user (ad_ex av) (ad_config av) header now)) (\<lambda>admin. route av admin now req)"

end
