(* ===== verification/Admin_Properties.thy ===== *)
theory Admin_Properties
  imports Admin_Routes Route_Properties Federation_Properties
begin

text \<open>
  Properties of the administration handlers: every change is audited under the administrator who made it,
  the settings that are written are the settings that are read, and the planet image that is
  uploaded is the one that is served.
\<close>

section \<open>The audit log\<close>

text \<open>What a request leaves in the audit log, if it changes anything.\<close>

definition audit_of :: "'i admin_env \<Rightarrow> admin_request \<Rightarrow> (string \<times> string option) option" where
  "audit_of av req =
    (let on = (\<lambda>action k. Some (action, Some (ex_show_uuid (ad_ex av) k)))
     in case req of
          ResolveModerationReport k _ _ \<Rightarrow> on ''moderation.report.resolve'' k
        | ApproveUser k \<Rightarrow> on ''user.approve'' k
        | RejectUser k \<Rightarrow> on ''user.reject'' k
        | SuspendUser k \<Rightarrow> on ''user.suspend'' k
        | ActivateUser k \<Rightarrow> on ''user.activate'' k
        | CreateServerNews _ _ _ \<Rightarrow> on ''server_news.create'' (ad_fresh_id av)
        | UpdateServerNews k _ _ _ \<Rightarrow> on ''server_news.update'' k
        | DeleteServerNews k \<Rightarrow> on ''server_news.delete'' k
        | CreateAgentToken _ _ \<Rightarrow> on ''agent_token.create'' (ad_fresh_id av)
        | RevokeAgentToken k \<Rightarrow> on ''agent_token.revoke'' k
        | UpdateConfig _ \<Rightarrow> Some (''config.update'', None)
        | UpdateGuildPolicy _ \<Rightarrow> Some (''guild_policy.update'', None)
        | PruneGuildHistory \<Rightarrow> Some (''guild_history.prune'', None)
        | ClawbackScore k _ \<Rightarrow> on ''guild.admin.clawback_score'' k
        | FreezeProgression k _ \<Rightarrow> on ''guild.admin.freeze_guild_progression'' k
        | UnfreezeProgression k _ \<Rightarrow> on ''guild.admin.unfreeze_guild_progression'' k
        | VerifyAbuseReport k _ _ \<Rightarrow> on ''guild.admin.verified_abuse_report'' k
        | DismissAbuseReport k _ _ \<Rightarrow> on ''guild.admin.dismissed_false_report'' k
        | IssueYellowCard k \<Rightarrow> on ''user.yellow_card'' k
        | ClearYellowCard k \<Rightarrow> on ''user.yellow_card_cleared'' k
        | _ \<Rightarrow> None)"

text \<open>The last entry of the log is of this actor, action, target and time.\<close>

definition audited :: "uuid \<Rightarrow> string \<Rightarrow> string option \<Rightarrow> instant \<Rightarrow> db \<Rightarrow> bool" where
  "audited actor action target now db \<longleftrightarrow> (\<exists>details before. admin_audit_logs db =
     insert_row \<lparr>aal_actor_user_id = Some actor, aal_action = action, aal_target = target, aal_details = details,
       aal_created_at = now\<rparr> before)"

lemma append_audit_log_audited:
  "append_audit_log (Some a) action target details now db = Inr db' \<Longrightarrow> audited a action target now db'"
  by (auto simp: append_audit_log_def audited_def split: if_splits; intro exI; rule refl)

lemma resolve_report_id:
  "resolve_report p s k a act notes now db = Inr (view, db') \<Longrightarrow> mr_id (rv_report view) = k"
  by (auto simp: resolve_report_def resolve_report_conn_def result_simps reports_to_admin_views_def resolved_row_def
      dest!: find_row_Some split: if_splits)

lemma news_ids:
  "create_news k a t su m now db = Inr (n, db') \<Longrightarrow> sn_id n = k"
  "update_news k t su m now db = Inr (n, db') \<Longrightarrow> sn_id n = k"
  "delete_news k db = Inr (n, db') \<Longrightarrow> sn_id n = k"
  by (auto simp: create_news_def update_news_def delete_news_def get_news_by_id_def result_simps Let_def
      dest!: find_row_Some split: if_splits)

lemma create_agent_token_id:
  "create_agent_token ex a name d fresh now db = Inr ((t, raw), db') \<Longrightarrow> ag_id t = fst fresh"
  by (auto simp: create_agent_token_def result_simps Let_def case_prod_unfold split: if_splits)

lemma freeze_audited:
  "freeze_guild_progression s (Some a) k reason now db = (Inr u, db') \<Longrightarrow>
     audited a ''guild.admin.freeze_guild_progression'' (Some (s k)) now db'"
  "unfreeze_guild_progression s a k reason now db = (Inr u, db') \<Longrightarrow>
     audited a ''guild.admin.unfreeze_guild_progression'' (Some (s k)) now db'"
  by (auto simp: freeze_guild_progression_def unfreeze_guild_progression_def Let_def split: sum.splits
      dest: append_audit_log_audited)

lemmas handler_defs = approve_user_handler_def reject_user_handler_def suspend_user_def activate_user_def
  issue_yellow_card_handler_def clear_yellow_card_handler_def create_server_news_def update_server_news_def
  delete_server_news_def create_agent_token_handler_def revoke_agent_token_handler_def update_guild_policy_def
  prune_guild_history_handler_def clawback_score_def freeze_progression_def unfreeze_progression_def
  verify_abuse_report_def dismiss_abuse_report_def resolve_moderation_report_def

lemmas handler_facts = append_audit_log_audited resolve_report_id news_ids create_agent_token_id freeze_audited

lemma update_config_audited:
  assumes "update_config ex fx lib ac cf admin body now db = (Inr v, db', es)"
  shows "\<exists>uid. claims_user_id ex admin = Inr uid \<and> audited uid ''config.update'' None now db'"
  using assms by (auto simp: update_config_def seq_Inr atomic_Inr dest: append_audit_log_audited)

lemma admin_user_role:
  assumes "admin_user ex cf header now db = (Inr admin, db0)"
  shows "cl_role admin = ''admin'' \<and> (\<exists>ts. db0 = db\<lparr>agent_tokens := ts\<rparr>)"
proof -
  have same: "\<exists>ts. db = db\<lparr>agent_tokens := ts\<rparr>" by (rule exI [of _ "agent_tokens db"]) simp
  have tokens: "verify_agent_token ex t now db = (x, d) \<Longrightarrow> \<exists>ts. d = db\<lparr>agent_tokens := ts\<rparr>" for t x d
    using same by (auto simp: verify_agent_token_def split: option.splits if_splits)
  show ?thesis
    using assms tokens same
    by (auto simp: admin_user_def extract_admin_auth_def claims_new_def result_simps
        split: sum.splits option.splits prod.splits admin_auth.splits if_splits)
qed

lemma route_audited:
  assumes "route av admin now req db = (Inr resp, db', es)"
  shows "case audit_of av req of None \<Rightarrow> db' = db
    | Some (action, target) \<Rightarrow> \<exists>uid. claims_user_id (ad_ex av) admin = Inr uid \<and> audited uid action target now db'"
  using assms
  by (cases req;
     auto simp: route_def audit_of_def handler_defs seq_Inr atomic_Inr Let_def result_simps
      dest: handler_facts update_config_audited;
     metis append_audit_log_audited news_ids(1) create_agent_token_id fst_conv)

text \<open>
  [C10] A request to an administration route succeeds only for a caller that the extractor accepts, with the role
  admin. A request that reads leaves the database alone (apart from the time of last use of an agent
  token), and every other one ends with an entry of the audit log under the account of the caller,
  with the action and the target of the request and its time.
\<close>

theorem admin_requests_audited:
  assumes "handle_admin av header req now db = (Inr resp, db', es)"
  shows "\<exists>admin db0. admin_user (ad_ex av) (ad_config av) header now db = (Inr admin, db0) \<and>
    cl_role admin = ''admin'' \<and> (\<exists>ts. db0 = db\<lparr>agent_tokens := ts\<rparr>) \<and>
    (case audit_of av req of None \<Rightarrow> db' = db0
     | Some (action, target) \<Rightarrow> \<exists>uid. claims_user_id (ad_ex av) admin = Inr uid \<and> audited uid action target now db')"
proof -
  obtain admin db0 es' where a: "admin_user (ad_ex av) (ad_config av) header now db = (Inr admin, db0)"
    and r: "route av admin now req db0 = (Inr resp, db', es')"
    using assms by (auto simp: handle_admin_def seq_Inr atomic_Inr)
  show ?thesis using route_audited [OF r] a admin_user_role [OF a] by blast
qed

section \<open>Settings\<close>

lemma setting_value_set [simp]:
  "setting_value (set_setting k v now db) = (setting_value db)(k \<mapsto> v)"
proof
  fix key
  have "find_row as_key (admin_settings (set_setting k v now db)) key =
      (if key = k then Some (case find_row as_key (admin_settings db) key of
          None \<Rightarrow> \<lparr>as_key = k, as_value = v, as_updated_at = now\<rparr> | Some s \<Rightarrow> s\<lparr>as_value := v, as_updated_at := now\<rparr>)
       else find_row as_key (admin_settings db) key)"
    using setting_table.lookup_upsert [of "\<lambda>s. s\<lparr>as_value := v, as_updated_at := now\<rparr>"
        "\<lparr>as_key = k, as_value = v, as_updated_at = now\<rparr>" "admin_settings db" key]
    by (simp add: set_setting_def)
  then show "setting_value (set_setting k v now db) key = ((setting_value db)(k \<mapsto> v)) key"
    by (simp add: setting_value_def get_setting_def split: option.splits)
qed

lemma setting_value_clear [simp]: "setting_value (clear_setting k db) = (setting_value db)(k := None)"
  by (rule ext) (simp add: setting_value_def get_setting_def clear_setting_def row_simps)

lemma load_guild_policy_conn_value:
  "load_guild_policy_conn dec db = (case setting_value db SETTING_TRUST_POLICY of
     None \<Rightarrow> default_guild_policy
   | Some s \<Rightarrow> (case dec s of None \<Rightarrow> default_guild_policy
       | Some p \<Rightarrow> (case normalize_guild_policy p of Inl _ \<Rightarrow> default_guild_policy | Inr q \<Rightarrow> q)))"
  by (simp add: load_guild_policy_conn_def setting_value_def get_setting_def split: option.split)

text \<open>A step that changes one setting and nothing else.\<close>

definition writes :: "string \<Rightarrow> string option \<Rightarrow> db \<Rightarrow> db \<Rightarrow> bool" where
  "writes key v db db' \<longleftrightarrow> (\<exists>ss. db' = db\<lparr>admin_settings := ss\<rparr>) \<and> setting_value db' = (setting_value db)(key := v)"

lemma writes_setting: "writes k (Some v) db (set_setting k v now db)" "writes k None db (clear_setting k db)"
  by (auto simp: writes_def) (auto simp: set_setting_def clear_setting_def)

lemma writes_same: "v = setting_value db k \<Longrightarrow> writes k v db db"
  by (auto simp: writes_def intro!: exI [of _ "admin_settings db"])

lemma write_max_users_writes:
  "write_max_users v now db = (Inr u, db', es) \<Longrightarrow> writes SETTING_MAX_USERS (map_option show_nat v) db db' \<and> v \<noteq> Some 0"
  by (auto simp: write_max_users_def atomic_Inr writes_setting split: option.splits if_splits)

lemma write_text_writes:
  assumes "write_text key f v now db = (Inr u, db', es)"
  shows "\<exists>w. writes key w db db' \<and>
    (case trimmed_nonempty v of None \<Rightarrow> w = None | Some s \<Rightarrow> \<exists>x. f s = Inr x \<and> w = Some x)"
  using assms by (auto simp: write_text_def trimmed_nonempty_def seq_Inr atomic_Inr
      intro: writes_setting split: option.splits if_splits)

lemma write_text_same:
  assumes "write_text key f v now db = (Inr u, db', es)" "\<And>s x. f s = Inr x \<Longrightarrow> x = s"
  shows "writes key (trimmed_nonempty v) db db'"
  using write_text_writes [OF assms(1)] by (auto dest: assms(2) split: option.splits)

lemma write_linked_planets_writes:
  assumes "write_linked_planets fx ac v now db = (Inr l, db', es)"
  shows "\<exists>w. writes SETTING_LINKED_PLANETS w db db' \<and> (if l = [] then w = None else \<exists>s. ac_enc_list ac l = Inr s \<and> w = Some s) \<and>
    (case v of None \<Rightarrow> l = [] | Some raws \<Rightarrow> \<exists>urls. normalize_linked_planets (fx_parse_url fx) raws = Inr urls \<and> l = btree_set urls)"
  using assms by (auto simp: write_linked_planets_def seq_Inr atomic_Inr result_simps
      intro: writes_setting split: option.splits if_splits sum.splits)

lemma write_require_approval_writes:
  assumes "write_require_approval v now db = (Inr u, db', es)"
  shows "writes SETTING_REQUIRE_APPROVAL
    (case v of None \<Rightarrow> setting_value db SETTING_REQUIRE_APPROVAL | Some True \<Rightarrow> Some ''true'' | Some False \<Rightarrow> None) db db'"
  using assms by (auto simp: write_require_approval_def atomic_Inr writes_same
      intro: writes_setting split: option.splits bool.splits)

lemma webhook_url_same: "webhook_url p s = Inr x \<Longrightarrow> x = s"
  by (auto simp: webhook_url_def split: sum.splits if_splits)

lemma setting_keys_distinct:
  "distinct [SETTING_MAX_USERS, SETTING_WEBHOOK_URL, SETTING_PLANET_NAME, SETTING_PLANET_DESCRIPTION,
     SETTING_PLANET_IMAGE_BASE64, SETTING_LINKED_PLANETS, SETTING_REQUIRE_APPROVAL]"
  by (simp add: SETTING_MAX_USERS_def SETTING_WEBHOOK_URL_def SETTING_PLANET_NAME_def SETTING_PLANET_DESCRIPTION_def
      SETTING_PLANET_IMAGE_BASE64_def SETTING_LINKED_PLANETS_def SETTING_REQUIRE_APPROVAL_def)

text \<open>What an update stores under each key, and that it stores nothing else.\<close>

lemma update_config_settings:
  assumes "update_config ex fx lib ac cf admin body now db = (Inr v, db', es)"
  obtains webhook image linked where
    "v = get_config ac cf db'" "\<exists>ss ls. db' = db\<lparr>admin_settings := ss, admin_audit_logs := ls\<rparr>"
    "setting_value db' = (setting_value db)(
       SETTING_MAX_USERS := map_option show_nat (uc_max_users body),
       SETTING_WEBHOOK_URL := trimmed_nonempty (uc_notification_webhook_url body),
       SETTING_PLANET_NAME := trimmed_nonempty (uc_planet_name body),
       SETTING_PLANET_DESCRIPTION := trimmed_nonempty (uc_planet_description body),
       SETTING_PLANET_IMAGE_BASE64 := image, SETTING_LINKED_PLANETS := linked,
       SETTING_REQUIRE_APPROVAL := (case uc_require_approval body of
         None \<Rightarrow> setting_value db SETTING_REQUIRE_APPROVAL | Some True \<Rightarrow> Some ''true'' | Some False \<Rightarrow> None))"
    "case trimmed_nonempty (uc_planet_image_base64 body) of None \<Rightarrow> image = None
     | Some s \<Rightarrow> \<exists>x. compress_planet_image_to_data_url fx lib s = Inr x \<and> image = Some x"
    "\<exists>l. (if l = [] then linked = None else \<exists>s. ac_enc_list ac l = Inr s \<and> linked = Some s) \<and>
      (case uc_linked_planets body of None \<Rightarrow> l = []
       | Some raws \<Rightarrow> \<exists>urls. normalize_linked_planets (fx_parse_url fx) raws = Inr urls \<and> l = btree_set urls)"
proof -
  obtain db1 db2 db3 db4 db5 l db6 db7 u
    where w1: "\<exists>es. write_max_users (uc_max_users body) now db = (Inr (), db1, es)"
    and w2: "\<exists>es. write_text SETTING_WEBHOOK_URL (webhook_url (fx_parse_url fx)) (uc_notification_webhook_url body) now db1 = (Inr (), db2, es)"
    and w3: "\<exists>es. write_text SETTING_PLANET_NAME Inr (uc_planet_name body) now db2 = (Inr (), db3, es)"
    and w4: "\<exists>es. write_text SETTING_PLANET_DESCRIPTION Inr (uc_planet_description body) now db3 = (Inr (), db4, es)"
    and w5: "\<exists>es. write_text SETTING_PLANET_IMAGE_BASE64 (compress_planet_image_to_data_url fx lib) (uc_planet_image_base64 body) now db4 = (Inr (), db5, es)"
    and w6: "\<exists>es. write_linked_planets fx ac (uc_linked_planets body) now db5 = (Inr l, db6, es)"
    and w7: "\<exists>es. write_require_approval (uc_require_approval body) now db6 = (Inr (), db7, es)"
    and w8: "append_audit_log (Some u) ''config.update'' None (config_details body l) now db7 = Inr db'"
    and v: "v = get_config ac cf db'"
    using assms by (auto simp: update_config_def seq_Inr atomic_Inr get_config_def)
  have s1: "writes SETTING_MAX_USERS (map_option show_nat (uc_max_users body)) db db1"
    using w1 write_max_users_writes by blast
  have s2: "writes SETTING_WEBHOOK_URL (trimmed_nonempty (uc_notification_webhook_url body)) db1 db2"
    using w2 by (auto intro: write_text_same webhook_url_same)
  have s3: "writes SETTING_PLANET_NAME (trimmed_nonempty (uc_planet_name body)) db2 db3"
    using w3 by (auto intro: write_text_same)
  have s4: "writes SETTING_PLANET_DESCRIPTION (trimmed_nonempty (uc_planet_description body)) db3 db4"
    using w4 by (auto intro: write_text_same)
  obtain image where s5: "writes SETTING_PLANET_IMAGE_BASE64 image db4 db5"
    and image: "case trimmed_nonempty (uc_planet_image_base64 body) of None \<Rightarrow> image = None
     | Some s \<Rightarrow> \<exists>x. compress_planet_image_to_data_url fx lib s = Inr x \<and> image = Some x"
    using w5 write_text_writes by blast
  obtain linked where s6: "writes SETTING_LINKED_PLANETS linked db5 db6"
    and linked: "if l = [] then linked = None else \<exists>s. ac_enc_list ac l = Inr s \<and> linked = Some s"
      "case uc_linked_planets body of None \<Rightarrow> l = []
       | Some raws \<Rightarrow> \<exists>urls. normalize_linked_planets (fx_parse_url fx) raws = Inr urls \<and> l = btree_set urls"
    using w6 write_linked_planets_writes by blast
  have s7: "writes SETTING_REQUIRE_APPROVAL (case uc_require_approval body of
      None \<Rightarrow> setting_value db6 SETTING_REQUIRE_APPROVAL | Some True \<Rightarrow> Some ''true'' | Some False \<Rightarrow> None) db6 db7"
    using w7 write_require_approval_writes by blast
  have s8: "\<exists>ls. db' = db7\<lparr>admin_audit_logs := ls\<rparr>" using w8 by (auto simp: append_audit_log_def split: if_splits)
  then have s8': "setting_value db' = setting_value db7" by (auto simp: setting_value_def get_setting_def)
  have kept: "setting_value db6 SETTING_REQUIRE_APPROVAL = setting_value db SETTING_REQUIRE_APPROVAL"
    using s1 s2 s3 s4 s5 s6 setting_keys_distinct by (auto simp: writes_def)
  show thesis
  proof (rule that [OF v _ _ image])
    show "\<exists>ss ls. db' = db\<lparr>admin_settings := ss, admin_audit_logs := ls\<rparr>"
      using s1 s2 s3 s4 s5 s6 s7 s8 unfolding writes_def by fastforce
    show "\<exists>l. (if l = [] then linked = None else \<exists>s. ac_enc_list ac l = Inr s \<and> linked = Some s) \<and>
      (case uc_linked_planets body of None \<Rightarrow> l = []
       | Some raws \<Rightarrow> \<exists>urls. normalize_linked_planets (fx_parse_url fx) raws = Inr urls \<and> l = btree_set urls)"
      using linked by blast
  qed (use s1 s2 s3 s4 s5 s6 s7 [unfolded kept] s8' in \<open>simp add: writes_def\<close>)
qed

text \<open>
  [C19] The settings that an administrator sends are the settings that everyone reads: after a successful update
  \<open>GET /config\<close> answers the normalized request, an absent field is cleared (the approval flag alone
  keeps its value), other settings such as the guild policy keep theirs, and nothing but the settings
  and the audit log has changed.
\<close>

theorem config_update_roundtrip:
  assumes run: "update_config ex fx lib ac cf admin body now db = (Inr view, db', es)"
    and law: "\<And>l s. ac_enc_list ac l = Inr s \<Longrightarrow> ac_dec_list ac s = Some l"
    and u32: "\<And>n. uc_max_users body = Some n \<Longrightarrow> n < 2 ^ 32"
  shows "view = get_config ac cf db' \<and>
    acv_max_users_override view = uc_max_users body \<and>
    acv_effective_max_users view = (case uc_max_users body of Some n \<Rightarrow> Some n | None \<Rightarrow> cf_max_users cf) \<and>
    acv_notification_webhook_url view = trimmed_nonempty (uc_notification_webhook_url body) \<and>
    acv_planet_name view = trimmed_nonempty (uc_planet_name body) \<and>
    acv_planet_description view = trimmed_nonempty (uc_planet_description body) \<and>
    (acv_planet_image_base64 view = None \<longleftrightarrow> trimmed_nonempty (uc_planet_image_base64 body) = None) \<and>
    (\<exists>urls. normalize_linked_planets (fx_parse_url fx) (case uc_linked_planets body of None \<Rightarrow> [] | Some l \<Rightarrow> l) = Inr urls \<and>
      acv_linked_planets view = filter (\<lambda>x. x \<noteq> []) (map (\<lambda>x. trim_end_slashes (trim x)) (btree_set urls))) \<and>
    acv_require_approval view = (case uc_require_approval body of Some b \<Rightarrow> b | None \<Rightarrow> is_approval_required db) \<and>
    load_guild_policy_conn dec db' = load_guild_policy_conn dec db \<and>
    (\<exists>ss ls. db' = db\<lparr>admin_settings := ss, admin_audit_logs := ls\<rparr>)"
proof -
  obtain image linked where view: "view = get_config ac cf db'"
    and frame: "\<exists>ss ls. db' = db\<lparr>admin_settings := ss, admin_audit_logs := ls\<rparr>"
    and sv: "setting_value db' = (setting_value db)(
       SETTING_MAX_USERS := map_option show_nat (uc_max_users body),
       SETTING_WEBHOOK_URL := trimmed_nonempty (uc_notification_webhook_url body),
       SETTING_PLANET_NAME := trimmed_nonempty (uc_planet_name body),
       SETTING_PLANET_DESCRIPTION := trimmed_nonempty (uc_planet_description body),
       SETTING_PLANET_IMAGE_BASE64 := image, SETTING_LINKED_PLANETS := linked,
       SETTING_REQUIRE_APPROVAL := (case uc_require_approval body of
         None \<Rightarrow> setting_value db SETTING_REQUIRE_APPROVAL | Some True \<Rightarrow> Some ''true'' | Some False \<Rightarrow> None))"
    and image: "case trimmed_nonempty (uc_planet_image_base64 body) of None \<Rightarrow> image = None
     | Some s \<Rightarrow> \<exists>x. compress_planet_image_to_data_url fx lib s = Inr x \<and> image = Some x"
    and linked: "\<exists>l. (if l = [] then linked = None else \<exists>s. ac_enc_list ac l = Inr s \<and> linked = Some s) \<and>
      (case uc_linked_planets body of None \<Rightarrow> l = []
       | Some raws \<Rightarrow> \<exists>urls. normalize_linked_planets (fx_parse_url fx) raws = Inr urls \<and> l = btree_set urls)"
    using run by (rule update_config_settings)
  have at: "setting_value db' SETTING_MAX_USERS = map_option show_nat (uc_max_users body)"
      "setting_value db' SETTING_WEBHOOK_URL = trimmed_nonempty (uc_notification_webhook_url body)"
      "setting_value db' SETTING_PLANET_NAME = trimmed_nonempty (uc_planet_name body)"
      "setting_value db' SETTING_PLANET_DESCRIPTION = trimmed_nonempty (uc_planet_description body)"
      "setting_value db' SETTING_PLANET_IMAGE_BASE64 = image" "setting_value db' SETTING_LINKED_PLANETS = linked"
      "setting_value db' SETTING_REQUIRE_APPROVAL = (case uc_require_approval body of
         None \<Rightarrow> setting_value db SETTING_REQUIRE_APPROVAL | Some True \<Rightarrow> Some ''true'' | Some False \<Rightarrow> None)"
    unfolding sv using setting_keys_distinct by simp_all
  have max: "max_users_override db' = uc_max_users body"
    using u32 by (cases "uc_max_users body") (simp_all add: max_users_override_def at parse_show_nat)
  have urls: "\<exists>urls. normalize_linked_planets (fx_parse_url fx) (case uc_linked_planets body of None \<Rightarrow> [] | Some l \<Rightarrow> l) = Inr urls \<and>
      read_linked_planets (ac_dec_list ac) db' = filter (\<lambda>x. x \<noteq> []) (map (\<lambda>x. trim_end_slashes (trim x)) (btree_set urls))"
    using linked law by (cases "uc_linked_planets body")
      (auto simp: read_linked_planets_def at btree_set_def split: if_splits)
  have policy: "load_guild_policy_conn dec db' = load_guild_policy_conn dec db"
  proof -
    have "SETTING_TRUST_POLICY \<notin> {SETTING_MAX_USERS, SETTING_WEBHOOK_URL, SETTING_PLANET_NAME, SETTING_PLANET_DESCRIPTION,
        SETTING_PLANET_IMAGE_BASE64, SETTING_LINKED_PLANETS, SETTING_REQUIRE_APPROVAL}"
      by (simp add: SETTING_TRUST_POLICY_def SETTING_MAX_USERS_def SETTING_WEBHOOK_URL_def SETTING_PLANET_NAME_def
          SETTING_PLANET_DESCRIPTION_def SETTING_PLANET_IMAGE_BASE64_def SETTING_LINKED_PLANETS_def SETTING_REQUIRE_APPROVAL_def)
    then have "setting_value db' SETTING_TRUST_POLICY = setting_value db SETTING_TRUST_POLICY" unfolding sv by simp
    then show ?thesis unfolding load_guild_policy_conn_value by simp
  qed
  show ?thesis
    using frame policy urls image max
    by (auto simp: view get_config_def read_admin_config_def at is_approval_required_def
        split: option.splits bool.splits)
qed

section \<open>The planet image\<close>

lemma trim_same: "s \<noteq> [] \<Longrightarrow> \<not> is_whitespace (hd s) \<Longrightarrow> \<not> is_whitespace (last s) \<Longrightarrow> trim s = s"
proof -
  have stop: "t \<noteq> [] \<Longrightarrow> \<not> is_whitespace (hd t) \<Longrightarrow> dropWhile is_whitespace t = t" for t by (cases t) auto
  assume "s \<noteq> []" "\<not> is_whitespace (hd s)" "\<not> is_whitespace (last s)"
  then show ?thesis using stop [of s] stop [of "rev s"] by (simp add: trim_def hd_rev)
qed

lemma base64_char_visible: "base64_char c \<Longrightarrow> \<not> is_whitespace c"
  by (auto simp: base64_char_def is_ascii_alphanumeric_def is_whitespace_def)

lemma data_url_trim:
  assumes "list_all base64_char t"
  shows "trim (''data:image/jpeg;base64,'' @ t) = ''data:image/jpeg;base64,'' @ t"
proof (rule trim_same)
  have "\<not> is_whitespace (last t)" if "t \<noteq> []"
    using assms that base64_char_visible [of "last t"] by (simp add: list_all_iff)
  then show "\<not> is_whitespace (last (''data:image/jpeg;base64,'' @ t))"
    by (cases "t = []") (simp_all add: is_whitespace_def)
qed (simp_all add: is_whitespace_def)

text \<open>
  [C20] The image that is uploaded is the image that is served: after a successful update whose image
  field is not blank, that field decodes to a picture, and the public route answers as JPEG an
  encoding of this very picture, scaled into 1024 by 1024 and laid on white: among at most 20
  attempts (five qualities at each of at most four sizes) the first that fits into 512 KiB, or
  the shortest when all succeed and none fits. The health answer then announces the image.
\<close>

theorem planet_image_served:
  assumes run: "update_config ex fx lib ac cf admin body now db = (Inr view, db', es)"
    and given: "trimmed_nonempty (uc_planet_image_base64 body) = Some uploaded"
    and base64: "base64_law fx"
  shows "\<exists>img e. picture_of fx lib uploaded = Some img \<and>
    chosen (attempts lib 4 (fit_dimensions lib img)) e \<and> length (attempts lib 4 (fit_dimensions lib img)) \<le> 20 \<and>
    planet_image (\<lambda>s. case fx_unbase64 fx s of Inr b \<Rightarrow> Some b | Inl _ \<Rightarrow> None) db' = Some (''image/jpeg'', e) \<and>
    lr_instance_image_url (liveness version dec_list cf geo (Some db')) = Some ''/planet-image''"
proof -
  obtain url where url: "compress_planet_image_to_data_url fx lib uploaded = Inr url"
      "setting_value db' SETTING_PLANET_IMAGE_BASE64 = Some url"
  proof (rule update_config_settings [OF run])
    fix webhook image linked
    assume "setting_value db' = (setting_value db)(
       SETTING_MAX_USERS := map_option show_nat (uc_max_users body),
       SETTING_WEBHOOK_URL := trimmed_nonempty (uc_notification_webhook_url body),
       SETTING_PLANET_NAME := trimmed_nonempty (uc_planet_name body),
       SETTING_PLANET_DESCRIPTION := trimmed_nonempty (uc_planet_description body),
       SETTING_PLANET_IMAGE_BASE64 := image, SETTING_LINKED_PLANETS := linked,
       SETTING_REQUIRE_APPROVAL := (case uc_require_approval body of
         None \<Rightarrow> setting_value db SETTING_REQUIRE_APPROVAL | Some True \<Rightarrow> Some ''true'' | Some False \<Rightarrow> None))"
      "case trimmed_nonempty (uc_planet_image_base64 body) of None \<Rightarrow> image = None
       | Some s \<Rightarrow> \<exists>x. compress_planet_image_to_data_url fx lib s = Inr x \<and> image = Some x"
    then show ?thesis using given that setting_keys_distinct by (auto split: option.splits)
  qed
  obtain img e where img: "picture_of fx lib uploaded = Some img"
    and e: "chosen (attempts lib 4 (fit_dimensions lib img)) e"
    and eq: "url = ''data:image/jpeg;base64,'' @ fx_base64 fx e"
    using url(1) by (rule compress_result)
  have trimmed: "trim url = url"
    unfolding eq using base64 by (intro data_url_trim) (simp add: base64_law_def)
  then have nonblank: "nonblank (setting_value db' SETTING_PLANET_IMAGE_BASE64) = Some url"
    using url(2) by (simp add: nonblank_def eq)
  have "parse_image_data_url url = Some (''image/jpeg'', fx_base64 fx e)"
    unfolding parse_image_data_url_def Let_def trimmed unfolding eq
    by (simp add: strip_prefix_def is_prefix_def)
  then have "planet_image (\<lambda>s. case fx_unbase64 fx s of Inr b \<Rightarrow> Some b | Inl _ \<Rightarrow> None) db' = Some (''image/jpeg'', e)"
    using base64 by (simp add: planet_image_def nonblank base64_law_def)
  then show ?thesis using img e nonblank attempts_bound [of lib 4 "fit_dimensions lib img"]
    by (auto simp: liveness_def)
qed

section \<open>Examples\<close>

definition sample_lib :: "unit image_lib" where
  "sample_lib = \<lparr>il_load = \<lambda>_ _. Some (), il_width = \<lambda>_. 1, il_height = \<lambda>_. 1, il_pixel = \<lambda>_ _ _. (0, 0, 0, 0),
     il_resize = \<lambda>_ _ _ i. i, il_encode = \<lambda>_ _. Some ''jpeg''\<rparr>"

definition sample_admin_codec :: admin_codec where
  "sample_admin_codec = \<lparr>ac_enc_policy = \<lambda>_. None, ac_dec_policy = \<lambda>_. None,
     ac_enc_list = \<lambda>l. case l of [u] \<Rightarrow> Inr u | _ \<Rightarrow> Inl ''unsupported'', ac_dec_list = \<lambda>s. Some [s],
     ac_show_instant = \<lambda>_. [], ac_show_day = \<lambda>_. []\<rparr>"

definition sample_admin_env :: "unit admin_env" where
  "sample_admin_env = \<lparr>ad_ex = sample_externals, ad_fx = sample_fed sample_activity, ad_lib = sample_lib,
     ad_codec = sample_admin_codec, ad_config = sample_config, ad_fresh_id = 9, ad_fresh_token = ''t''\<rparr>"

definition as_admin :: "string \<Rightarrow> claims" where
  "as_admin sub = \<lparr>cl_sub = sub, cl_role = ''admin'', cl_iat = 0, cl_exp = 0\<rparr>"

definition sample_config_request :: update_config_request where
  "sample_config_request = \<lparr>uc_max_users = None, uc_notification_webhook_url = None, uc_planet_name = Some '' Earth '',
     uc_planet_description = None, uc_planet_image_base64 = None, uc_linked_planets = Some [''https://b.org/'', ''https://b.org''],
     uc_require_approval = Some True\<rparr>"

definition sample_update :: "update_config_request \<Rightarrow> admin_config_view result \<times> db \<times> effect list" where
  "sample_update body = update_config sample_externals (sample_fed sample_activity) sample_lib sample_admin_codec sample_config
     (as_admin ''3'') body 0 sample_server"

theorem admin_requests_audited_witness:
  "case handle_admin sample_admin_env (Some ''Bearer 3|admin'') (IssueYellowCard 2) 7 sample_server of
     (_, db', _) \<Rightarrow> audited 3 ''user.yellow_card'' (Some ''2'') 7 db'"
proof -
  let ?h = "handle_admin sample_admin_env (Some ''Bearer 3|admin'') (IssueYellowCard 2) 7 sample_server"
  have "?h = seq (run_db (admin_user sample_externals sample_config (Some ''Bearer 3|admin'') 7))
      (\<lambda>admin. answer (\<lambda>_. StatusBody ''yellow_card_issued'') (issue_yellow_card_handler sample_externals admin 2 7)) sample_server"
    by (simp add: handle_admin_def route_def sample_admin_env_def)
  also have "is_ok (fst \<dots>)" by code_simp
  finally have "is_ok (fst ?h)" .
  then obtain resp db' es where h: "?h = (Inr resp, db', es)"
    unfolding is_ok_iff by (metis prod_cases3 fst_conv)
  have a: "fst (admin_user sample_externals sample_config (Some ''Bearer 3|admin'') 7 sample_server) = Inr (as_admin ''3'')"
    "claims_user_id sample_externals (as_admin ''3'') = Inr 3" by code_simp+
  have two: "ex_show_uuid sample_externals 2 = ''2''" by code_simp
  show ?thesis using admin_requests_audited [OF h] a two h
    by (auto simp: sample_admin_env_def audit_of_def)
qed

theorem config_update_roundtrip_witness:
  "case sample_update sample_config_request of (_, db', _) \<Rightarrow>
     let view = get_config sample_admin_codec sample_config db' in
     acv_max_users_override view = None \<and> acv_planet_name view = Some ''Earth'' \<and> acv_require_approval view"
proof -
  have "is_ok (fst (sample_update sample_config_request))" by code_simp
  then obtain view db' es where h: "sample_update sample_config_request = (Inr view, db', es)"
    unfolding is_ok_iff by (metis prod_cases3 fst_conv)
  have earth: "trimmed_nonempty (Some '' Earth '') = Some ''Earth''" by code_simp
  have law: "ac_enc_list sample_admin_codec l = Inr s \<Longrightarrow> ac_dec_list sample_admin_codec s = Some l" for l s
    by (auto simp: sample_admin_codec_def split: list.splits)
  show ?thesis
    using config_update_roundtrip [OF h [unfolded sample_update_def] law, where dec = "\<lambda>_. None"] h earth
    by (auto simp: sample_config_request_def Let_def simp del: normalize_linked_planets.simps)
qed

definition sample_image_request :: update_config_request where
  "sample_image_request = \<lparr>uc_max_users = None, uc_notification_webhook_url = None, uc_planet_name = None,
     uc_planet_description = None, uc_planet_image_base64 = Some ''data:image/png;base64,'', uc_linked_planets = None,
     uc_require_approval = None\<rparr>"

lemma sample_image_compressed:
  "is_ok (compress_planet_image_to_data_url (sample_fed j) sample_lib ''data:image/png;base64,'')"
proof -
  have start: "trim ''data:image/png;base64,'' = ''data:image/png;base64,''"
    "parse_supported_image_data_url ''data:image/png;base64,'' = Inr (Png, [])"
    "from_two_letters [] = []" "utf8_len ''data:image/png;base64,'' = 22" by code_simp+
  have "try_qualities sample_lib i quality_steps b = Inr (Inl ''jpeg'')" for i b
    by (simp add: quality_steps_def encode_jpeg_bytes_def sample_lib_def MAX_OUTPUT_IMAGE_BYTES_def)
  then have "compress_rounds sample_lib 4 i b = Inr (Inl ''jpeg'')" for i b by (simp add: eval_nat_numeral)
  moreover have "il_load sample_lib f x = Some ()" for f x by (simp add: sample_lib_def)
  moreover have "fx_unbase64 (sample_fed j) s = Inr (from_two_letters s)" for s by (simp add: sample_fed_def)
  ultimately show ?thesis
    by (simp add: compress_planet_image_to_data_url_def start MAX_INPUT_IMAGE_ENCODED_CHARS_def MAX_INPUT_IMAGE_BYTES_def is_ok_def)
qed

theorem planet_image_served_witness:
  "\<exists>db'. planet_image (\<lambda>s. Some (from_two_letters s)) db' = Some (''image/jpeg'', ''jpeg'') \<and>
     (\<exists>view es. sample_update sample_image_request = (Inr view, db', es))"
proof -
  let ?body = sample_image_request
  obtain url where url: "compress_planet_image_to_data_url (sample_fed sample_activity) sample_lib ''data:image/png;base64,'' = Inr url"
    using sample_image_compressed unfolding is_ok_iff by blast
  have t: "trim ''data:image/png;base64,'' = ''data:image/png;base64,''"
    "claims_user_id sample_externals (as_admin ''3'') = Inr 3" by code_simp+
  have "is_ok (fst (sample_update ?body))"
    by (simp add: sample_update_def sample_image_request_def update_config_def write_max_users_def write_text_def
        write_linked_planets_def write_require_approval_def action_simps url t append_audit_log_def query_def
        set_setting_def clear_setting_def user_exists_def find_user_def find_row_def sample_server_def sample_account_def sample_user_def empty_db_def is_ok_def)
  then obtain view db' es where h: "sample_update ?body = (Inr view, db', es)"
    unfolding is_ok_iff by (metis prod_cases3 fst_conv)
  have given: "trimmed_nonempty (uc_planet_image_base64 ?body) = Some ''data:image/png;base64,''" by code_simp
  have all: "y = Inr ''jpeg''" if "y \<in> set (attempts sample_lib 4 i)" for y i
    using that by (auto simp: attempts_def encode_jpeg_bytes_def sample_lib_def split: if_splits)
  have best: "e = ''jpeg''" if c: "chosen (attempts sample_lib 4 i) e" for e i
  proof -
    have fits: "fits ''jpeg''" by (simp add: MAX_OUTPUT_IMAGE_BYTES_def)
    have "Inr e \<in> set (attempts sample_lib 4 i)"
      using c unfolding chosen_def
    proof (elim disjE exE conjE)
      fix es assume es: "attempts sample_lib 4 i = map Inr es" "es \<noteq> []" "\<forall>y \<in> set es. \<not> fits y"
      then have first: "hd es \<in> set es" by simp
      then have "hd es = ''jpeg''" using all [of "Inr (hd es)" i] es(1) by simp
      then show ?thesis using es(3) fits first by auto
    qed simp
    then show ?thesis using all by blast
  qed
  have decode: "fx_unbase64 (sample_fed sample_activity) = (\<lambda>s. Inr (from_two_letters s))" by (simp add: sample_fed_def)
  obtain img e where "chosen (attempts sample_lib 4 (fit_dimensions sample_lib img)) e"
      "planet_image (\<lambda>s. Some (from_two_letters s)) db' = Some (''image/jpeg'', e)"
    using planet_image_served [OF h [unfolded sample_update_def] given sample_fed_laws(1)]
    unfolding decode sum.case by blast
  then show ?thesis using best h by auto
qed

text \<open>
  An update is not atomic: the request below is refused for its webhook, but the limit of users is
  already stored, and no entry of the audit log says so.
\<close>

lemma refused_update_stays:
  "case sample_update (sample_config_request\<lparr>uc_max_users := Some 5, uc_notification_webhook_url := Some ''http://b.org''\<rparr>) of
     (r, db', _) \<Rightarrow> \<not> is_ok r \<and> setting_value db' SETTING_MAX_USERS = Some ''5'' \<and> admin_audit_logs db' = []"
  by code_simp

text \<open>
  The rejection of a registration deletes any account, also one that is approved and active. An
  administrator who rejects the own account is told that the request failed, because the audit
  entry names an account that is gone; it is deleted all the same.
\<close>

lemma rejection_deletes_anyone:
  "u_is_approved (the (find_user sample_server 2)) \<and> u_is_active (the (find_user sample_server 2)) \<and>
   (case reject_user_handler sample_externals (as_admin ''3'') 2 7 sample_server of
      (r, db', _) \<Rightarrow> is_ok r \<and> find_user db' 2 = None) \<and>
   (case reject_user_handler sample_externals (as_admin ''3'') 3 7 sample_server of
      (r, db', _) \<Rightarrow> r = Inl (Database ForeignKeyViolation) \<and> find_user db' 3 = None \<and> admin_audit_logs db' = [])"
  by code_simp

end
