(* ===== verification/Router.thy ===== *)
theory Router
  imports Auth_Middleware
begin

text \<open>
  The routes of the server: the \<open>App\<close> that src/src/main.rs builds and the functions \<open>configure\<close> of
  src/src/routes. A handler is its name with the extractor of its signature. The router of
  actix-web and the rate limiters are arguments of \<open>dispatch\<close>. What the code relies on of the router
  is the interface \<open>documented_router\<close>: a registered route is a resource of its own, guarded by its
  method; a request goes to the first resource or scope that matches it; a scope takes every path
  under its prefix, also one that none of its resources match, which is then not found. The rate
  limiter of a scope is asked before the extractor runs.
\<close>

section \<open>Resources and scopes\<close>

datatype http_method = Get | Post | Put | Patch | Delete | Method string

text \<open>The pattern of a path: a literal segment or a parameter \<open>{name}\<close>, which takes one non-empty segment.\<close>

datatype segment = Lit string | Param string

text \<open>What the signature of a handler extracts: nothing, \<open>AuthUser\<close> or \<open>AdminUser\<close>.\<close>

datatype access = Anyone | Account | Administrator

datatype governor = Auth_Governor | Api_Governor | Inbox_Governor

record resource =
  rs_path :: string
  rs_method :: http_method
  rs_handler :: string
  rs_access :: access

datatype service = Resource resource | Scope string "governor option" "resource list"

definition web_route :: "string \<Rightarrow> http_method \<Rightarrow> string \<Rightarrow> access \<Rightarrow> resource" where
  "web_route path m handler a = \<lparr>rs_path = path, rs_method = m, rs_handler = handler, rs_access = a\<rparr>"

definition path_segments :: "string \<Rightarrow> string list" where
  "path_segments path = (if path = [] then [] else split_on CHR ''/'' (tl path))"

definition segment_of :: "string \<Rightarrow> segment" where
  "segment_of s = (if is_prefix ''{'' s then Param (butlast (tl s)) else Lit s)"

definition pattern :: "string \<Rightarrow> segment list" where
  "pattern path = map segment_of (path_segments path)"

section \<open>The documented matching\<close>

type_synonym params = "(string \<times> string) list"

fun match_exact :: "segment list \<Rightarrow> string list \<Rightarrow> params option" where
  "match_exact [] [] = Some []"
| "match_exact (Lit a # ps) (s # ss) = (if s = a then match_exact ps ss else None)"
| "match_exact (Param n # ps) (s # ss) =
     (if s = [] then None else map_option ((#) (n, s)) (match_exact ps ss))"
| "match_exact _ _ = None"

fun strip_segments :: "string list \<Rightarrow> string list \<Rightarrow> string list option" where
  "strip_segments [] ss = Some ss"
| "strip_segments (p # ps) (s # ss) = (if p = s then strip_segments ps ss else None)"
| "strip_segments (p # ps) [] = None"

definition resource_match :: "http_method \<Rightarrow> resource \<Rightarrow> string list \<Rightarrow> params option" where
  "resource_match m r ss = (if rs_method r = m then match_exact (pattern (rs_path r)) ss else None)"

fun first_resource :: "http_method \<Rightarrow> resource list \<Rightarrow> string list \<Rightarrow> (resource \<times> params) option" where
  "first_resource m [] ss = None"
| "first_resource m (r # rs) ss =
     (case resource_match m r ss of Some a \<Rightarrow> Some (r, a) | None \<Rightarrow> first_resource m rs ss)"

datatype routed = Routed "governor option" resource params | Unrouted "governor option"

fun route_services :: "http_method \<Rightarrow> service list \<Rightarrow> string list \<Rightarrow> routed" where
  "route_services m [] ss = Unrouted None"
| "route_services m (Resource r # rest) ss =
     (case resource_match m r ss of
        Some a \<Rightarrow> Routed None r a
      | None \<Rightarrow> route_services m rest ss)"
| "route_services m (Scope prefix g rs # rest) ss =
     (case strip_segments (path_segments prefix) ss of
        Some inner \<Rightarrow>
          (case first_resource m rs inner of Some (r, a) \<Rightarrow> Routed g r a | None \<Rightarrow> Unrouted g)
      | None \<Rightarrow> route_services m rest ss)"

locale documented_router =
  fixes route :: "http_method \<Rightarrow> service list \<Rightarrow> string \<Rightarrow> routed"
  assumes first_match: "route m ss path = route_services m ss (path_segments path)"

interpretation reference_router: documented_router "\<lambda>m ss path. route_services m ss (path_segments path)"
  by unfold_locales simp

section \<open>The tables of the modules\<close>

definition configure_public :: "resource list" where
  "configure_public =
    [web_route ''/.well-known/webfinger'' Get ''federation::webfinger'' Anyone,
     web_route ''/users/{username}'' Get ''federation::actor_profile'' Anyone,
     web_route ''/users/{username}/outbox'' Get ''federation::outbox'' Anyone,
     web_route ''/federation/send'' Post ''federation::send_to_remote'' Account,
     web_route ''/federation/retry-due'' Post ''federation::retry_due_deliveries'' Administrator]"

definition auth_configure :: "resource list" where
  "auth_configure =
    [web_route ''/setup-status'' Get ''auth::setup_status'' Anyone,
     web_route ''/setup-admin'' Post ''auth::setup_admin'' Anyone,
     web_route ''/register'' Post ''auth::register'' Anyone,
     web_route ''/login'' Post ''auth::login'' Anyone,
     web_route ''/device-login'' Post ''auth::device_login'' Anyone,
     web_route ''/qr-login/session'' Post ''auth::create_qr_login_session'' Anyone,
     web_route ''/qr-login/session/{session_id}'' Get ''auth::poll_qr_login_session'' Anyone,
     web_route ''/qr-login/approve'' Post ''auth::approve_qr_login'' Account,
     web_route ''/me'' Get ''auth::me'' Account,
     web_route ''/refresh'' Post ''auth::refresh'' Anyone,
     web_route ''/logout'' Post ''auth::logout'' Anyone,
     web_route ''/forgot-password'' Post ''auth::forgot_password'' Anyone,
     web_route ''/reset-password'' Get ''auth::reset_password_form'' Anyone,
     web_route ''/reset-password'' Post ''auth::reset_password'' Anyone]"

definition messages_configure :: "resource list" where
  "messages_configure =
    [web_route [] Post ''messages::send_message'' Account,
     web_route ''/resolve-contact'' Post ''messages::resolve_contact'' Account,
     web_route ''/unread-counts'' Get ''messages::unread_counts'' Account,
     web_route ''/{partner_id}'' Get ''messages::get_conversation'' Account,
     web_route ''/{partner_id}/read'' Post ''messages::mark_read'' Account]"

definition rooms_configure :: "resource list" where
  "rooms_configure =
    [web_route [] Post ''rooms::create_room'' Account,
     web_route [] Get ''rooms::list_rooms'' Account,
     web_route ''/{room_id}'' Get ''rooms::get_room'' Account,
     web_route ''/{room_id}'' Patch ''rooms::update_room'' Account,
     web_route ''/{room_id}'' Delete ''rooms::delete_room'' Account,
     web_route ''/{room_id}/members'' Post ''rooms::add_room_members'' Account,
     web_route ''/{room_id}/members/{member_id}'' Delete ''rooms::remove_room_member'' Account,
     web_route ''/{room_id}/messages'' Get ''rooms::get_room_messages'' Account,
     web_route ''/{room_id}/messages'' Post ''rooms::send_room_message'' Account,
     web_route ''/{room_id}/read'' Post ''rooms::mark_room_read'' Account,
     web_route ''/{room_id}/leave'' Post ''rooms::leave_room'' Account]"

definition backup_configure :: "resource list" where
  "backup_configure =
    [web_route [] Put ''backup::upsert_backup'' Account,
     web_route [] Get ''backup::get_backup'' Account,
     web_route [] Delete ''backup::delete_backup'' Account]"

definition admin_configure :: "resource list" where
  "admin_configure =
    [web_route ''/overview'' Get ''admin::overview'' Administrator,
     web_route ''/users'' Get ''admin::list_users'' Administrator,
     web_route ''/moderation/reports'' Get ''admin::list_moderation_reports'' Administrator,
     web_route ''/moderation/reports/{report_id}/resolve'' Post ''admin::resolve_moderation_report'' Administrator,
     web_route ''/users/{user_id}/approve'' Post ''admin::approve_user'' Administrator,
     web_route ''/users/{user_id}/reject'' Post ''admin::reject_user'' Administrator,
     web_route ''/users/{user_id}/suspend'' Post ''admin::suspend_user'' Administrator,
     web_route ''/users/{user_id}/activate'' Post ''admin::activate_user'' Administrator,
     web_route ''/server-news'' Get ''admin::list_server_news'' Administrator,
     web_route ''/server-news'' Post ''admin::create_server_news'' Administrator,
     web_route ''/server-news/{news_id}'' Put ''admin::update_server_news'' Administrator,
     web_route ''/server-news/{news_id}'' Delete ''admin::delete_server_news'' Administrator,
     web_route ''/agent-tokens'' Get ''admin::list_agent_tokens'' Administrator,
     web_route ''/agent-tokens'' Post ''admin::create_agent_token'' Administrator,
     web_route ''/agent-tokens/{token_id}'' Delete ''admin::revoke_agent_token'' Administrator,
     web_route ''/config'' Get ''admin::get_config'' Administrator,
     web_route ''/config'' Put ''admin::update_config'' Administrator,
     web_route ''/guild-policy'' Get ''admin::get_guild_policy'' Administrator,
     web_route ''/guild-policy'' Put ''admin::update_guild_policy'' Administrator,
     web_route ''/guild-policy/prune-history'' Post ''admin::prune_guild_history'' Administrator,
     web_route ''/guild-review-users'' Get ''admin::guild_review_users'' Administrator,
     web_route ''/guild-review-metrics'' Get ''admin::guild_review_metrics'' Administrator,
     web_route ''/guild-score-events'' Get ''admin::guild_score_events'' Administrator,
     web_route ''/guild-blocked-actions'' Get ''admin::guild_blocked_actions'' Administrator,
     web_route ''/audit-logs'' Get ''admin::audit_logs'' Administrator,
     web_route ''/users/{user_id}/guild/clawback-score'' Post ''admin::clawback_score'' Administrator,
     web_route ''/users/{user_id}/guild/freeze'' Post ''admin::freeze_progression'' Administrator,
     web_route ''/users/{user_id}/guild/unfreeze'' Post ''admin::unfreeze_progression'' Administrator,
     web_route ''/users/{user_id}/guild/verify-report'' Post ''admin::verify_abuse_report'' Administrator,
     web_route ''/users/{user_id}/guild/dismiss-report'' Post ''admin::dismiss_abuse_report'' Administrator,
     web_route ''/users/{user_id}/yellow-card'' Post ''admin::issue_yellow_card'' Administrator,
     web_route ''/users/{user_id}/yellow-card'' Delete ''admin::clear_yellow_card'' Administrator]"

definition stickers_configure :: "resource list" where
  "stickers_configure =
    [web_route ''/groups'' Get ''stickers::list_groups_public'' Anyone,
     web_route ''/upload'' Post ''stickers::upload'' Account,
     web_route ''/list'' Get ''stickers::list'' Account,
     web_route ''/groups/rename'' Patch ''stickers::rename_group'' Administrator,
     web_route ''/groups/author'' Patch ''stickers::update_group_author'' Administrator,
     web_route ''/{id}'' Get ''stickers::get_by_id'' Account,
     web_route ''/{id}/moderate'' Post ''stickers::moderate'' Administrator]"

definition planet_news_configure :: "resource list" where
  "planet_news_configure =
    [web_route [] Get ''planet_news::list_news'' Account,
     web_route ''/{news_id}'' Get ''planet_news::get_news_detail'' Account]"

definition profile_configure :: "resource list" where
  "profile_configure =
    [web_route ''/me'' Get ''profile::me'' Account,
     web_route ''/me'' Patch ''profile::update_me'' Account,
     web_route ''/me'' Delete ''profile::delete_me'' Account,
     web_route ''/{user_id}'' Get ''profile::get_user'' Account]"

definition safety_configure :: "resource list" where
  "safety_configure =
    [web_route ''/accept-terms'' Post ''safety::accept_terms'' Account,
     web_route ''/reports'' Post ''safety::create_report'' Account,
     web_route ''/blocks'' Get ''safety::list_blocks'' Account,
     web_route ''/blocks'' Post ''safety::block_user'' Account,
     web_route ''/blocks/{user_id}'' Delete ''safety::unblock_user'' Account]"

definition push_configure :: "resource list" where
  "push_configure =
    [web_route ''/token'' Post ''push::register'' Account,
     web_route ''/token'' Delete ''push::unregister'' Account]"

definition push_relay_configure :: "resource list" where
  "push_relay_configure =
    [web_route ''/webhook'' Post ''push_relay::webhook'' Anyone]"

definition calls_configure :: "resource list" where
  "calls_configure =
    [web_route [] Get ''calls::call_history'' Account,
     web_route ''/ice-servers'' Get ''calls::ice_servers'' Account,
     web_route ''/offer/{call_id}'' Get ''calls::get_call_offer'' Account]"

definition ws_configure :: "resource list" where
  "ws_configure =
    [web_route [] Get ''ws::ws_handler'' Anyone]"

definition configure_inbox :: "resource list" where
  "configure_inbox =
    [web_route ''/users/{username}/inbox'' Post ''federation::inbox'' Anyone]"

section \<open>The application\<close>

definition app :: "service list" where
  "app =
    [Resource (web_route ''/health'' Get ''health::liveness'' Anyone),
     Resource (web_route ''/planet-image'' Get ''health::planet_image'' Anyone),
     Resource (web_route ''/ready'' Get ''health::readiness'' Anyone)]
    @ map Resource configure_public @
    [Scope ''/auth'' (Some Auth_Governor)
       (web_route ''/altcha'' Get ''altcha::get_altcha_challenge'' Anyone # auth_configure),
     Scope ''/api/messages'' (Some Api_Governor) messages_configure,
     Scope ''/api/rooms'' (Some Api_Governor) rooms_configure,
     Scope ''/api/backup'' (Some Api_Governor) backup_configure,
     Scope ''/api/admin'' (Some Api_Governor) admin_configure,
     Scope ''/api/stickers'' (Some Api_Governor) stickers_configure,
     Scope ''/api/planet-news'' (Some Api_Governor) planet_news_configure,
     Scope ''/api/profile'' (Some Api_Governor) profile_configure,
     Scope ''/api/safety'' (Some Api_Governor) safety_configure,
     Scope ''/api/push'' (Some Api_Governor) push_configure,
     Scope ''/v1/push'' (Some Api_Governor) push_relay_configure,
     Scope ''/api/calls'' (Some Api_Governor) calls_configure,
     Scope ''/ws'' None ws_configure,
     Scope [] (Some Inbox_Governor) configure_inbox]"

text \<open>
  What becomes of a request. The limiter answers whether the client may proceed; the extractor of
  the handler's signature then accepts or refuses the Authorization header.
\<close>

datatype outcome =
    Not_Routed
  | Too_Many_Requests
  | Refused app_error
  | Handled resource params "claims option"

definition run_extractor :: "externals \<Rightarrow> config \<Rightarrow> access \<Rightarrow> string option \<Rightarrow> instant \<Rightarrow> db \<Rightarrow>
    claims option result \<times> db" where
  "run_extractor ex cf a header now db =
    (case a of
       Anyone \<Rightarrow> (Inr None, db)
     | Account \<Rightarrow> (and_then (auth_user ex cf header now db) (\<lambda>c. Inr (Some c)), db)
     | Administrator \<Rightarrow>
         (case admin_user ex cf header now db of (r, db') \<Rightarrow> (and_then r (\<lambda>c. Inr (Some c)), db')))"

definition permits :: "(governor \<Rightarrow> bool) \<Rightarrow> governor option \<Rightarrow> bool" where
  "permits limiter g = (case g of None \<Rightarrow> True | Some k \<Rightarrow> limiter k)"

definition dispatch ::
  "(http_method \<Rightarrow> service list \<Rightarrow> string \<Rightarrow> routed) \<Rightarrow> (governor \<Rightarrow> bool) \<Rightarrow> externals \<Rightarrow> config \<Rightarrow>
     http_method \<Rightarrow> string \<Rightarrow> string option \<Rightarrow> instant \<Rightarrow> db \<Rightarrow> outcome \<times> db" where
  "dispatch route limiter ex cf m path header now db =
    (case route m app path of
       Unrouted g \<Rightarrow> (if permits limiter g then Not_Routed else Too_Many_Requests, db)
     | Routed g r a \<Rightarrow>
         if \<not> permits limiter g then (Too_Many_Requests, db)
         else (case run_extractor ex cf (rs_access r) header now db of
             (Inl e, db') \<Rightarrow> (Refused e, db')
           | (Inr c, db') \<Rightarrow> (Handled r a c, db')))"

end
