(* ===== verification/Router_Properties.thy ===== *)
theory Router_Properties
  imports Router Middleware_Properties
begin

text \<open>
  The route table: a request only reaches a declared handler, every declared handler is reached by
  the requests written for it, and the extractors and rate limiters that stand in front of the
  paths under /api. Shadowing is a decidable condition on the table (\<open>unshadowed_services\<close>),
  evaluated once for \<open>app\<close>.
\<close>

section \<open>The table as a flat list\<close>

text \<open>Every handler with the rate limiter and the whole pattern under which it is registered.\<close>

fun endpoints :: "service list \<Rightarrow> (governor option \<times> segment list \<times> resource) list" where
  "endpoints [] = []"
| "endpoints (Resource r # ss) = (None, pattern (rs_path r), r) # endpoints ss"
| "endpoints (Scope prefix g rs # ss) =
     map (\<lambda>r. (g, map Lit (path_segments prefix) @ pattern (rs_path r), r)) rs @ endpoints ss"

lemma endpoints_append [simp]: "endpoints (ss @ ts) = endpoints ss @ endpoints ts"
  by (induction ss rule: endpoints.induct) simp_all

lemma match_exact_Nil [simp]:
  "match_exact [] ss = Some a \<longleftrightarrow> ss = [] \<and> a = []"
  "match_exact (p # ps) [] = None"
  by (cases ss; auto) (cases p; simp)

lemma match_exact_Lit:
  "match_exact (map Lit ps @ qs) ss = Some a \<longleftrightarrow>
     (\<exists>rest. strip_segments ps ss = Some rest \<and> match_exact qs rest = Some a)"
  by (induction ps ss rule: strip_segments.induct) auto

lemma first_resource_Some:
  "first_resource m rs ss = Some (r, a) \<Longrightarrow>
     r \<in> set rs \<and> rs_method r = m \<and> match_exact (pattern (rs_path r)) ss = Some a"
  by (induction rs) (auto simp: resource_match_def split: option.splits if_splits)

lemma routed_endpoint:
  "route_services m ss segs = Routed g r a \<Longrightarrow>
     \<exists>pat. (g, pat, r) \<in> set (endpoints ss) \<and> rs_method r = m \<and> match_exact pat segs = Some a"
proof (induction ss rule: endpoints.induct)
  case (2 r' ss)
  then show ?case by (auto simp: resource_match_def split: option.splits if_splits)
next
  case (3 prefix g' rs ss)
  show ?case
  proof (cases "strip_segments (path_segments prefix) segs")
    case None
    with 3 show ?thesis by auto
  next
    case (Some inner)
    with 3(2) have "first_resource m rs inner = Some (r, a)" "g' = g"
      by (auto split: option.splits prod.splits)
    with first_resource_Some [OF this(1)] Some show ?thesis
      by (auto simp: match_exact_Lit)
  qed
qed simp

section \<open>Shadowing\<close>

text \<open>
  Whether some path matches both patterns, where the parameters of the second take no value of
  \<open>res\<close>; and the same for the prefix of a scope.
\<close>

fun overlap :: "string list \<Rightarrow> segment list \<Rightarrow> segment list \<Rightarrow> bool" where
  "overlap res [] [] \<longleftrightarrow> True"
| "overlap res (Lit a # ps) (Lit b # qs) \<longleftrightarrow> a = b \<and> overlap res ps qs"
| "overlap res (Lit a # ps) (Param n # qs) \<longleftrightarrow> a \<notin> set res \<and> overlap res ps qs"
| "overlap res (Param n # ps) (_ # qs) \<longleftrightarrow> overlap res ps qs"
| "overlap res _ _ \<longleftrightarrow> False"

fun prefix_overlap :: "string list \<Rightarrow> string list \<Rightarrow> segment list \<Rightarrow> bool" where
  "prefix_overlap res [] qs \<longleftrightarrow> True"
| "prefix_overlap res (a # ps) (Lit b # qs) \<longleftrightarrow> a = b \<and> prefix_overlap res ps qs"
| "prefix_overlap res (a # ps) (Param n # qs) \<longleftrightarrow> a \<notin> set res \<and> prefix_overlap res ps qs"
| "prefix_overlap res (a # ps) [] \<longleftrightarrow> False"

lemma overlap_match:
  assumes "match_exact q ss = Some b" "snd ` set b \<inter> set res = {}" "match_exact p ss = Some a"
  shows "overlap res p q"
  using assms
proof (induction res p q arbitrary: ss a b rule: overlap.induct)
  case (2 res x ps y qs)
  then show ?case by (cases ss) (auto split: if_splits)
next
  case (3 res x ps n qs)
  then show ?case by (cases ss) (auto split: if_splits)
next
  case (4 res n ps y qs)
  then show ?case by (cases ss; cases y) (auto split: if_splits)
qed auto

lemma prefix_overlap_match:
  assumes "match_exact q ss = Some b" "snd ` set b \<inter> set res = {}" "strip_segments p ss = Some rest"
  shows "prefix_overlap res p q"
  using assms
proof (induction res p q arbitrary: ss b rest rule: prefix_overlap.induct)
  case (2 res a ps y qs)
  then show ?case by (cases ss) (auto split: if_splits)
next
  case (3 res a ps n qs)
  then show ?case by (cases ss) (auto split: if_splits)
next
  case (4 res a ps)
  then show ?case by (cases ss) auto
qed simp

text \<open>The table with its patterns parsed: the prefix of a scope, and methods with patterns.\<close>

type_synonym signature = "http_method \<times> segment list"

definition signature :: "resource \<Rightarrow> signature" where
  "signature r = (rs_method r, pattern (rs_path r))"

fun table :: "service list \<Rightarrow> (string list option \<times> signature list) list" where
  "table [] = []"
| "table (Resource r # ss) = (None, [signature r]) # table ss"
| "table (Scope prefix g rs # ss) = (Some (path_segments prefix), map signature rs) # table ss"

fun whole :: "string list option \<times> signature list \<Rightarrow> signature list" where
  "whole (None, sigs) = sigs"
| "whole (Some ps, sigs) = map (\<lambda>(m, pat). (m, map Lit ps @ pat)) sigs"

definition apart :: "string list \<Rightarrow> signature \<Rightarrow> signature \<Rightarrow> bool" where
  "apart res x y \<longleftrightarrow> fst x \<noteq> fst y \<or> \<not> overlap res (snd x) (snd y)"

fun unshadowed_resources :: "string list \<Rightarrow> signature list \<Rightarrow> bool" where
  "unshadowed_resources res [] \<longleftrightarrow> True"
| "unshadowed_resources res (x # xs) \<longleftrightarrow> list_all (apart res x) xs \<and> unshadowed_resources res xs"

fun unshadowed_services :: "string list \<Rightarrow> (string list option \<times> signature list) list \<Rightarrow> bool" where
  "unshadowed_services res [] \<longleftrightarrow> True"
| "unshadowed_services res ((pre, sigs) # ts) \<longleftrightarrow>
     unshadowed_resources res sigs \<and>
     list_all (\<lambda>y. case pre of
         None \<Rightarrow> list_all (\<lambda>x. apart res x y) sigs
       | Some ps \<Rightarrow> \<not> prefix_overlap res ps (snd y)) (concat (map whole ts)) \<and>
     unshadowed_services res ts"

lemma endpoints_table:
  "(g, pat, r) \<in> set (endpoints ss) \<Longrightarrow> (rs_method r, pat) \<in> set (concat (map whole (table ss)))"
  by (induction ss rule: endpoints.induct) (auto simp: signature_def image_iff)

lemma apart_resource:
  assumes "apart res (signature r') (rs_method r, pat)" "match_exact pat ss = Some a"
    and "snd ` set a \<inter> set res = {}"
  shows "resource_match (rs_method r) r' ss = None"
  using assms overlap_match [OF assms(2,3), of "pattern (rs_path r')"]
  by (cases "match_exact (pattern (rs_path r')) ss") (auto simp: resource_match_def apart_def signature_def)

lemma first_resource_reached:
  assumes "unshadowed_resources res (map signature rs)" "r \<in> set rs"
    and match: "match_exact (pattern (rs_path r)) ss = Some a" and free: "snd ` set a \<inter> set res = {}"
  shows "first_resource (rs_method r) rs ss = Some (r, a)"
  using assms(1,2)
proof (induction rs)
  case (Cons r' rs)
  show ?case
  proof (cases "r' = r")
    case True
    then show ?thesis using match by (simp add: resource_match_def)
  next
    case False
    then have r: "r \<in> set rs" using Cons.prems(2) by auto
    with Cons.prems(1) have "apart res (signature r') (rs_method r, pattern (rs_path r))"
      by (auto simp: list_all_iff signature_def)
    from apart_resource [OF this match free] show ?thesis using Cons.IH r Cons.prems(1) by simp
  qed
qed simp

lemma endpoint_routed:
  assumes "unshadowed_services res (table ss)" "(g, pat, r) \<in> set (endpoints ss)"
    and match: "match_exact pat segs = Some a" and free: "snd ` set a \<inter> set res = {}"
  shows "route_services (rs_method r) ss segs = Routed g r a"
  using assms(1,2)
proof (induction ss rule: endpoints.induct)
  case (2 r' ss)
  show ?case
  proof (cases "(g, pat, r) \<in> set (endpoints ss)")
    case True
    from 2(2) endpoints_table [OF True] have "apart res (signature r') (rs_method r, pat)"
      unfolding table.simps unshadowed_services.simps list_all_iff by auto
    from apart_resource [OF this match free] show ?thesis using 2 True by simp
  next
    case False
    then show ?thesis using 2(3) match by (simp add: resource_match_def)
  qed
next
  case (3 prefix g' rs ss)
  show ?case
  proof (cases "(g, pat, r) \<in> set (endpoints ss)")
    case True
    from 3(2) endpoints_table [OF True] have "\<not> prefix_overlap res (path_segments prefix) pat"
      unfolding table.simps unshadowed_services.simps list_all_iff by fastforce
    then have "strip_segments (path_segments prefix) segs = None"
      using prefix_overlap_match [OF match free] by (metis not_Some_eq)
    then show ?thesis using 3 True by simp
  next
    case False
    then have "g = g'" "r \<in> set rs" "pat = map Lit (path_segments prefix) @ pattern (rs_path r)"
      using 3(3) by auto
    moreover from this match obtain inner where
      "strip_segments (path_segments prefix) segs = Some inner"
      "match_exact (pattern (rs_path r)) inner = Some a"
      by (auto simp: match_exact_Lit)
    ultimately show ?thesis
      using first_resource_reached [OF _ _ _ free, of rs r inner] 3(2) by simp
  qed
qed simp

section \<open>Requests that are written for a handler\<close>

text \<open>The path of a pattern with values for its parameters, and the values that a literal route takes.\<close>

fun fill :: "segment list \<Rightarrow> string list \<Rightarrow> string list" where
  "fill (Lit a # ps) vs = a # fill ps vs"
| "fill (Param n # ps) (v # vs) = v # fill ps vs"
| "fill _ _ = []"

fun param_names :: "segment list \<Rightarrow> string list" where
  "param_names [] = []"
| "param_names (Lit a # ps) = param_names ps"
| "param_names (Param n # ps) = n # param_names ps"

definition print_path :: "string list \<Rightarrow> string" where
  "print_path ss = concat (map ((#) CHR ''/'') ss)"

definition reserved :: "string list" where
  "reserved = [''unread-counts'', ''me'', ''groups'', ''list'']"

lemma path_segments_print_path:
  assumes "ss \<noteq> []" "\<forall>s \<in> set ss. CHR ''/'' \<notin> set s"
  shows "path_segments (print_path ss) = ss"
proof -
  have "split_on CHR ''/'' (s @ print_path ss) = s # ss"
    if "CHR ''/'' \<notin> set s" "\<forall>s \<in> set ss. CHR ''/'' \<notin> set s" for s ss
    using that by (induction ss arbitrary: s) (simp_all add: print_path_def split_on_id split_on_append)
  with assms show ?thesis by (cases ss) (auto simp: path_segments_def print_path_def)
qed

lemma match_exact_fill:
  assumes "length vs = length (param_names pat)" "[] \<notin> set vs"
  shows "match_exact pat (fill pat vs) = Some (zip (param_names pat) vs)"
  using assms by (induction pat vs rule: fill.induct) auto

lemma fill_slash_free:
  assumes "\<forall>v \<in> set vs. CHR ''/'' \<notin> set v" "\<forall>a. Lit a \<in> set pat \<longrightarrow> CHR ''/'' \<notin> set a"
  shows "\<forall>s \<in> set (fill pat vs). CHR ''/'' \<notin> set s"
  using assms by (induction pat vs rule: fill.induct) auto

definition well_formed_pattern :: "segment list \<Rightarrow> bool" where
  "well_formed_pattern pat \<longleftrightarrow> pat \<noteq> [] \<and>
     list_all (\<lambda>s. case s of Lit a \<Rightarrow> CHR ''/'' \<notin> set a | Param _ \<Rightarrow> True) pat"

lemma app_unshadowed: "unshadowed_services reserved (table app)"
  by code_simp

lemma app_well_formed: "list_all (\<lambda>(g, pat, r). well_formed_pattern pat) (endpoints app)"
  by code_simp

lemma routed_to_endpoint:
  assumes actix: "documented_router route" and r: "(g, pat, r) \<in> set (endpoints app)"
    and len: "length vs = length (param_names pat)"
    and vs: "\<forall>v \<in> set vs. v \<noteq> [] \<and> CHR ''/'' \<notin> set v \<and> v \<notin> set reserved"
  shows "route (rs_method r) app (print_path (fill pat vs)) = Routed g r (zip (param_names pat) vs)"
proof -
  have wf: "well_formed_pattern pat" using app_well_formed r by (auto simp: list_all_iff)
  then have lits: "\<forall>a. Lit a \<in> set pat \<longrightarrow> CHR ''/'' \<notin> set a"
    by (fastforce simp: well_formed_pattern_def list_all_iff)
  have "match_exact pat (fill pat vs) = Some (zip (param_names pat) vs)"
    using match_exact_fill [OF len] vs by blast
  moreover have "snd ` set (zip (param_names pat) vs) \<inter> set reserved = {}"
    using vs by (auto dest: set_zip_rightD)
  moreover have "fill pat vs \<noteq> []"
    using wf len by (cases "(pat, vs)" rule: fill.cases) (auto simp: well_formed_pattern_def)
  then have "path_segments (print_path (fill pat vs)) = fill pat vs"
    using path_segments_print_path fill_slash_free lits vs by blast
  ultimately show ?thesis
    using endpoint_routed [OF app_unshadowed r] documented_router.first_match [OF actix] by simp
qed

text \<open>
  [C26] Every handler that the server registers is reached: a request with the handler's method, whose
  path is the registered pattern with non-empty values without a slash for the parameters, is
  given to this handler with these values and to no other, behind the rate limiter of its scope.
  The four words that a literal route of a neighbour takes are no values of a parameter.
\<close>

theorem routes_reachable:
  assumes actix: "documented_router route" and r: "(g, pat, r) \<in> set (endpoints app)"
    and len: "length vs = length (param_names pat)"
    and vs: "\<forall>v \<in> set vs. v \<noteq> [] \<and> CHR ''/'' \<notin> set v \<and> v \<notin> set reserved"
  shows "route (rs_method r) app (print_path (fill pat vs)) = Routed g r (zip (param_names pat) vs)"
  by (rule routed_to_endpoint [OF assms])

theorem routes_reachable_witness:
  "route_services Post app (path_segments ''/users/ann/inbox'') =
     Routed (Some Inbox_Governor) (web_route ''/users/{username}/inbox'' Post ''federation::inbox'' Anyone)
       [(''username'', ''ann'')]"
proof -
  let ?r = "web_route ''/users/{username}/inbox'' Post ''federation::inbox'' Anyone"
  have p: "pattern (rs_path ?r) = [Lit ''users'', Param ''username'', Lit ''inbox'']" by code_simp
  then have "(Some Inbox_Governor, [Lit ''users'', Param ''username'', Lit ''inbox''], ?r) \<in> set (endpoints app)"
    by (simp add: app_def configure_inbox_def path_segments_def)
  from routes_reachable [OF reference_router.documented_router_axioms this, of "[''ann'']"] show ?thesis
    by (simp add: reserved_def print_path_def web_route_def)
qed

section \<open>What stands in front of the paths under /api\<close>

definition under :: "string list \<Rightarrow> string \<Rightarrow> bool" where
  "under prefix path \<longleftrightarrow> strip_segments prefix (path_segments path) \<noteq> None"

text \<open>A pattern that can match a path under the prefix.\<close>

fun may_match :: "string list \<Rightarrow> segment list \<Rightarrow> bool" where
  "may_match [] pat \<longleftrightarrow> True"
| "may_match (a # ps) (Lit b # pat) \<longleftrightarrow> a = b \<and> may_match ps pat"
| "may_match (a # ps) (Param n # pat) \<longleftrightarrow> may_match ps pat"
| "may_match (a # ps) [] \<longleftrightarrow> False"

lemma may_match_under:
  "match_exact pat ss = Some b \<Longrightarrow> strip_segments ps ss \<noteq> None \<Longrightarrow> may_match ps pat"
proof (induction ps pat arbitrary: ss b rule: may_match.induct)
  case (2 a ps c pat)
  then show ?case by (cases ss) (auto split: if_splits)
next
  case (3 a ps n pat)
  then show ?case by (cases ss) (auto split: if_splits)
next
  case (4 a ps)
  then show ?case by (cases ss) auto
qed simp

lemma api_table:
  "list_all (\<lambda>(g, pat, r). may_match [''api''] pat \<longrightarrow> g = Some Api_Governor \<and>
     (rs_access r = Anyone \<longrightarrow> rs_handler r = ''stickers::list_groups_public'')) (endpoints app)"
  by code_simp

lemma api_admin_table:
  "list_all (\<lambda>(g, pat, r). may_match [''api'', ''admin''] pat \<longrightarrow> rs_access r = Administrator) (endpoints app)"
  by code_simp

lemma under_admin_api: "under [''api'', ''admin''] path \<Longrightarrow> under [''api''] path"
  by (cases "path_segments path") (auto simp: under_def split: if_splits)

definition active_account :: "externals \<Rightarrow> db \<Rightarrow> claims \<Rightarrow> bool" where
  "active_account ex db c \<longleftrightarrow>
     (\<exists>uid u. ex_parse_uuid ex (cl_sub c) = Some uid \<and> find_user db uid = Some u \<and> u_is_active u)"

lemma auth_user_active: "auth_user ex cf header now db = Inr c \<Longrightarrow> active_account ex db c"
  using auth_user_exact [of ex cf header now db c] by (auto simp: active_account_def)

lemma admin_user_active:
  assumes "fst (admin_user ex cf header now db) = Inr c"
    and "\<And>k. find_user db k \<noteq> None \<Longrightarrow> ex_parse_uuid ex (ex_show_uuid ex k) = Some k"
  shows "active_account ex db c \<and> cl_role c = ''admin''"
proof -
  obtain a db' where a: "extract_admin_auth ex cf header now db = (Inr a, db')"
    using assms(1) by (auto simp: admin_user_def split: prod.splits sum.splits)
  show ?thesis
  proof (cases a)
    case (Jwt claims)
    with a have "db' = db" by (auto simp: extract_admin_auth_def split: sum.splits option.splits if_splits prod.splits)
    with Jwt a assms(1) show ?thesis
      by (auto simp: admin_user_def active_account_def and_then_eq_Inr unauthorized_unless_uuid_eq
          split: option.splits if_splits)
  next
    case (AgentToken claims)
    with a obtain token t u where
      t: "verify_agent_token ex token now db = (Some t, db')"
        "find_user db' (ag_created_by t) = Some u" "u_is_active u" "u_role u = ''admin''"
        "claims = claims_new ex (ag_created_by t) (u_role u) (timestamp now) (timestamp now + 300)"
      by (auto simp: extract_admin_auth_def split: sum.splits option.splits if_splits prod.splits)
    have "find_user db (ag_created_by t) = Some u"
      using t(1,2) verify_agent_token_cases(2) [of ex token now db] by (simp add: find_user_def)
    with t(3-5) AgentToken a assms show ?thesis
      by (auto simp: admin_user_def active_account_def claims_new_def)
  qed
qed

lemma extracted_account:
  assumes "run_extractor ex cf a header now db = (Inr c, db')" "a \<noteq> Anyone"
    and "\<And>k. find_user db k \<noteq> None \<Longrightarrow> ex_parse_uuid ex (ex_show_uuid ex k) = Some k"
  shows "\<exists>claims. c = Some claims \<and> active_account ex db claims \<and>
    (a = Administrator \<longrightarrow> cl_role claims = ''admin'')"
  using assms(1,2) admin_user_active [OF _ assms(3), of cf header now db]
  by (cases a) (auto simp: run_extractor_def and_then_eq_Inr dest: auth_user_active split: prod.splits)

text \<open>
  [C9] The paths under /api are closed: whatever the method, the path and the headers, when a request to
  such a path reaches a handler, the rate limiter of the API has admitted the client, and the
  request carries the credentials of an account that exists and is active; under /api/admin the
  credentials are an administrator's. The list of sticker groups is the only public handler there.
  The router matches as documented, and the identifiers of the accounts can be read back from print.
\<close>

theorem api_requests_authenticated:
  assumes actix: "documented_router route"
    and run: "dispatch route limiter ex cf m path header now db = (Handled r a c, db')"
    and "under [''api''] path" "rs_handler r \<noteq> ''stickers::list_groups_public''"
    and uuids: "\<And>k. find_user db k \<noteq> None \<Longrightarrow> ex_parse_uuid ex (ex_show_uuid ex k) = Some k"
  shows "limiter Api_Governor \<and> (\<exists>claims. c = Some claims \<and> active_account ex db claims \<and>
     (under [''api'', ''admin''] path \<longrightarrow> cl_role claims = ''admin''))"
proof -
  from run obtain g where g: "route m app path = Routed g r a" "permits limiter g"
    and x: "run_extractor ex cf (rs_access r) header now db = (Inr c, db')"
    by (auto simp: dispatch_def split: routed.splits if_splits prod.splits sum.splits)
  from routed_endpoint [OF g(1) [unfolded documented_router.first_match [OF actix]]] obtain pat where
    pat: "(g, pat, r) \<in> set (endpoints app)" "match_exact pat (path_segments path) = Some a" by blast
  have api: "g = Some Api_Governor \<and> rs_access r \<noteq> Anyone"
    using api_table pat may_match_under [OF pat(2)] assms(3,4) by (fastforce simp: under_def list_all_iff)
  have admin: "under [''api'', ''admin''] path \<Longrightarrow> rs_access r = Administrator"
    using api_admin_table pat may_match_under [OF pat(2)] by (fastforce simp: under_def list_all_iff)
  have "limiter Api_Governor" using api g(2) by (simp add: permits_def)
  with extracted_account [OF x _ uuids] api admin show ?thesis by blast
qed

theorem api_requests_authenticated_witness:
  "case dispatch (\<lambda>m ss path. route_services m ss (path_segments path)) (\<lambda>g. g = Api_Governor)
       sample_externals sample_config Get ''/api/admin/overview'' (Some ''Bearer 3|admin'') 7 sample_server of
     (Handled r a c, _) \<Rightarrow> rs_handler r = ''admin::overview'' \<and>
        (\<exists>claims. c = Some claims \<and> active_account sample_externals sample_server claims \<and>
           cl_role claims = ''admin'')
   | _ \<Rightarrow> False"
proof -
  let ?d = "dispatch (\<lambda>m ss path. route_services m ss (path_segments path)) (\<lambda>g. g = Api_Governor)
       sample_externals sample_config Get ''/api/admin/overview'' (Some ''Bearer 3|admin'') 7 sample_server"
  have "case fst ?d of Handled r a c \<Rightarrow> rs_handler r = ''admin::overview'' | _ \<Rightarrow> False" by code_simp
  then obtain r a c db' where d: "?d = (Handled r a c, db')" "rs_handler r = ''admin::overview''"
    by (cases ?d) (auto split: outcome.splits)
  have u: "ex_parse_uuid sample_externals (ex_show_uuid sample_externals k) = Some k"
    if "find_user sample_server k \<noteq> None" for k
  proof -
    from that have "k = 2 \<or> k = 3"
      by (auto simp: sample_server_def find_user_def find_row_def sample_account_def sample_user_def split: if_splits)
    moreover have "ex_parse_uuid sample_externals (ex_show_uuid sample_externals 2) = Some 2"
      "ex_parse_uuid sample_externals (ex_show_uuid sample_externals 3) = Some 3" by code_simp+
    ultimately show ?thesis by blast
  qed
  have "under [''api''] ''/api/admin/overview''" "under [''api'', ''admin''] ''/api/admin/overview''"
    by code_simp+
  then show ?thesis
    using api_requests_authenticated [OF reference_router.documented_router_axioms d(1) _ _ u] d by auto
qed

end
