(* ===== verification/Admin_Dispatch.thy ===== *)
theory Admin_Dispatch
  imports Admin_Routes Router_Properties
begin

text \<open>
  The administration requests of Admin\_Routes on the wire: every one of them is the target of a
  registered route behind the administrator's extractor, with its identifier as the parameter of the
  path, and every registered administration route is one of them.
\<close>

text \<open>The handler of a request and the parameters of its path; the handlers with their numbers of parameters.\<close>

definition admin_target :: "(uuid \<Rightarrow> string) \<Rightarrow> admin_request \<Rightarrow> string \<times> string list" where
  "admin_target show_uuid req =
    (case req of
       Overview \<Rightarrow> (''admin::overview'', [])
     | ListUsers _ _ \<Rightarrow> (''admin::list_users'', [])
     | ListModerationReports _ _ \<Rightarrow> (''admin::list_moderation_reports'', [])
     | ResolveModerationReport k _ _ \<Rightarrow> (''admin::resolve_moderation_report'', [show_uuid k])
     | ApproveUser k \<Rightarrow> (''admin::approve_user'', [show_uuid k])
     | RejectUser k \<Rightarrow> (''admin::reject_user'', [show_uuid k])
     | SuspendUser k \<Rightarrow> (''admin::suspend_user'', [show_uuid k])
     | ActivateUser k \<Rightarrow> (''admin::activate_user'', [show_uuid k])
     | ListServerNews _ \<Rightarrow> (''admin::list_server_news'', [])
     | CreateServerNews _ _ _ \<Rightarrow> (''admin::create_server_news'', [])
     | UpdateServerNews k _ _ _ \<Rightarrow> (''admin::update_server_news'', [show_uuid k])
     | DeleteServerNews k \<Rightarrow> (''admin::delete_server_news'', [show_uuid k])
     | ListAgentTokens \<Rightarrow> (''admin::list_agent_tokens'', [])
     | CreateAgentToken _ _ \<Rightarrow> (''admin::create_agent_token'', [])
     | RevokeAgentToken k \<Rightarrow> (''admin::revoke_agent_token'', [show_uuid k])
     | GetConfig \<Rightarrow> (''admin::get_config'', [])
     | UpdateConfig _ \<Rightarrow> (''admin::update_config'', [])
     | GetGuildPolicy \<Rightarrow> (''admin::get_guild_policy'', [])
     | UpdateGuildPolicy _ \<Rightarrow> (''admin::update_guild_policy'', [])
     | PruneGuildHistory \<Rightarrow> (''admin::prune_guild_history'', [])
     | GuildReviewUsers _ _ \<Rightarrow> (''admin::guild_review_users'', [])
     | GuildReviewMetrics \<Rightarrow> (''admin::guild_review_metrics'', [])
     | GuildScoreEvents _ _ _ \<Rightarrow> (''admin::guild_score_events'', [])
     | GuildBlockedActions _ \<Rightarrow> (''admin::guild_blocked_actions'', [])
     | AuditLogs _ \<Rightarrow> (''admin::audit_logs'', [])
     | ClawbackScore k _ \<Rightarrow> (''admin::clawback_score'', [show_uuid k])
     | FreezeProgression k _ \<Rightarrow> (''admin::freeze_progression'', [show_uuid k])
     | UnfreezeProgression k _ \<Rightarrow> (''admin::unfreeze_progression'', [show_uuid k])
     | VerifyAbuseReport k _ _ \<Rightarrow> (''admin::verify_abuse_report'', [show_uuid k])
     | DismissAbuseReport k _ _ \<Rightarrow> (''admin::dismiss_abuse_report'', [show_uuid k])
     | IssueYellowCard k \<Rightarrow> (''admin::issue_yellow_card'', [show_uuid k])
     | ClearYellowCard k \<Rightarrow> (''admin::clear_yellow_card'', [show_uuid k]))"

definition admin_table :: "(string \<times> nat) list" where
  "admin_table =
    [(''admin::overview'', 0),
     (''admin::list_users'', 0),
     (''admin::list_moderation_reports'', 0),
     (''admin::resolve_moderation_report'', 1),
     (''admin::approve_user'', 1),
     (''admin::reject_user'', 1),
     (''admin::suspend_user'', 1),
     (''admin::activate_user'', 1),
     (''admin::list_server_news'', 0),
     (''admin::create_server_news'', 0),
     (''admin::update_server_news'', 1),
     (''admin::delete_server_news'', 1),
     (''admin::list_agent_tokens'', 0),
     (''admin::create_agent_token'', 0),
     (''admin::revoke_agent_token'', 1),
     (''admin::get_config'', 0),
     (''admin::update_config'', 0),
     (''admin::get_guild_policy'', 0),
     (''admin::update_guild_policy'', 0),
     (''admin::prune_guild_history'', 0),
     (''admin::guild_review_users'', 0),
     (''admin::guild_review_metrics'', 0),
     (''admin::guild_score_events'', 0),
     (''admin::guild_blocked_actions'', 0),
     (''admin::audit_logs'', 0),
     (''admin::clawback_score'', 1),
     (''admin::freeze_progression'', 1),
     (''admin::unfreeze_progression'', 1),
     (''admin::verify_abuse_report'', 1),
     (''admin::dismiss_abuse_report'', 1),
     (''admin::issue_yellow_card'', 1),
     (''admin::clear_yellow_card'', 1)]"

lemma admin_table_registered:
  "list_all2 (\<lambda>r (h, n). rs_handler r = h \<and> rs_access r = Administrator \<and>
     length (param_names (pattern (rs_path r))) = n) admin_configure admin_table"
  by code_simp

lemma list_all2_ex:
  assumes "list_all2 P xs ys"
  shows "y \<in> set ys \<Longrightarrow> \<exists>x \<in> set xs. P x y" "x \<in> set xs \<Longrightarrow> \<exists>y \<in> set ys. P x y"
  using assms by (induction rule: list_all2_induct) auto

lemma admin_target_in_table:
  "(fst (admin_target show_uuid req), length (snd (admin_target show_uuid req))) \<in> set admin_table"
  by (cases req) (simp_all add: admin_target_def admin_table_def)

lemma endpoints_scope:
  "Scope prefix g rs \<in> set ss \<Longrightarrow> r \<in> set rs \<Longrightarrow>
     (g, map Lit (path_segments prefix) @ pattern (rs_path r), r) \<in> set (endpoints ss)"
  by (induction ss rule: endpoints.induct) auto

lemma param_names_Lit [simp]: "param_names (map Lit ps @ qs) = param_names qs"
  by (induction ps) simp_all

text \<open>
  Every administration request can be sent: the path of its handler with its identifier is routed to
  this handler, behind the rate limiter of the API and the administrator's extractor.
\<close>

theorem admin_requests_routed:
  assumes "documented_router actix"
    and "\<And>k. show_uuid k \<noteq> [] \<and> CHR ''/'' \<notin> set (show_uuid k) \<and> show_uuid k \<notin> set reserved"
  shows "\<exists>pat r. (Some Api_Governor, pat, r) \<in> set (endpoints app) \<and>
     rs_handler r = fst (admin_target show_uuid req) \<and> rs_access r = Administrator \<and>
     actix (rs_method r) app (print_path (fill pat (snd (admin_target show_uuid req)))) =
       Routed (Some Api_Governor) r (zip (param_names pat) (snd (admin_target show_uuid req)))"
proof -
  let ?t = "admin_target show_uuid req"
  obtain r where r: "r \<in> set admin_configure" "rs_handler r = fst ?t" "rs_access r = Administrator"
      "length (param_names (pattern (rs_path r))) = length (snd ?t)"
    using list_all2_ex(1) [OF admin_table_registered admin_target_in_table [of show_uuid req]] by auto
  let ?pat = "map Lit (path_segments ''/api/admin'') @ pattern (rs_path r)"
  have "Scope ''/api/admin'' (Some Api_Governor) admin_configure \<in> set app" by (simp add: app_def)
  then have "(Some Api_Governor, ?pat, r) \<in> set (endpoints app)" using r(1) by (rule endpoints_scope)
  moreover have "\<forall>v \<in> set (snd ?t). v \<noteq> [] \<and> CHR ''/'' \<notin> set v \<and> v \<notin> set reserved"
    using assms(2) by (cases req) (simp_all add: admin_target_def)
  moreover have "length (snd ?t) = length (param_names ?pat)" using r(4) by simp
  ultimately show ?thesis
    using routed_to_endpoint [OF assms(1), of "Some Api_Governor" ?pat r "snd ?t"] r(2,3) by blast
qed

text \<open>And every registered administration route is one of these requests.\<close>

definition admin_examples ::
  "update_config_request \<Rightarrow> guild_policy_config \<Rightarrow> score_clawback_request \<Rightarrow> admin_request list" where
  "admin_examples b p c =
    [Overview,
     ListUsers None None,
     ListModerationReports None None,
     ResolveModerationReport 0 [] None,
     ApproveUser 0,
     RejectUser 0,
     SuspendUser 0,
     ActivateUser 0,
     ListServerNews None,
     CreateServerNews [] None [],
     UpdateServerNews 0 [] None [],
     DeleteServerNews 0,
     ListAgentTokens,
     CreateAgentToken [] None,
     RevokeAgentToken 0,
     GetConfig,
     UpdateConfig b,
     GetGuildPolicy,
     UpdateGuildPolicy p,
     PruneGuildHistory,
     GuildReviewUsers None None,
     GuildReviewMetrics,
     GuildScoreEvents None None None,
     GuildBlockedActions None,
     AuditLogs None,
     ClawbackScore 0 c,
     FreezeProgression 0 [],
     UnfreezeProgression 0 [],
     VerifyAbuseReport 0 0 None,
     DismissAbuseReport 0 0 None,
     IssueYellowCard 0,
     ClearYellowCard 0]"

lemma admin_examples_cover: "map (\<lambda>req. fst (admin_target show_uuid req)) (admin_examples b p c) = map fst admin_table"
  by (simp add: admin_examples_def admin_target_def admin_table_def)

lemma admin_table_complete:
  assumes "r \<in> set admin_configure"
  shows "\<exists>req. rs_handler r = fst (admin_target show_uuid req)"
proof -
  obtain h n where "(h, n) \<in> set admin_table" "rs_handler r = h"
    using list_all2_ex(2) [OF admin_table_registered assms] by auto
  then have "rs_handler r \<in> set (map fst admin_table)" by force
  then have "rs_handler r \<in> set (map (\<lambda>req. fst (admin_target show_uuid req)) (admin_examples b p c))" for b p c
    by (simp only: admin_examples_cover)
  then show ?thesis by force
qed

end
