(* ===== verification/Startup.thy ===== *)
theory Startup
  imports Auth Moderation_Service
begin

text \<open>
  The start of the process (\<open>main\<close> of src/src/main.rs, src/src/db.rs) and the task that it leaves
  running (\<open>spawn_daily_automatic_review\<close> of src/src/services/moderation\_service.rs). Every
  \<open>expect\<close> of \<open>main\<close> is an error with its message: the process ends and serves nothing. The
  libraries that are asked on the way (the connection pool, the migrations, the URL check of the
  Redis client, the rate limiter's builder, the random generator, the socket) are the fields of
  \<open>boot_env\<close>.
\<close>

section \<open>The start\<close>

record boot_env =
  bo_build_pool :: "string \<Rightarrow> bool"
  bo_run_migrations :: "db \<Rightarrow> db option"
  bo_random_bytes :: "nat list option"
  bo_redis_url_ok :: "string \<Rightarrow> bool"
  bo_governor_ok :: "nat \<Rightarrow> nat \<Rightarrow> bool"
  bo_bind :: "string \<Rightarrow> nat \<Rightarrow> bool"

text \<open>The running server: its configuration, its tables, its memory and the address it has printed.\<close>

record server =
  sv_config :: config
  sv_db :: db
  sv_memory :: auth_memory
  sv_announced :: "string option"

definition expect :: "string \<Rightarrow> bool \<Rightarrow> string + unit" where
  "expect message ok = (if ok then Inr () else Inl message)"

text \<open>\<open>log_host_spec\<close>: the suggested number of users for the host, and whether the configured one exceeds it.\<close>

definition log_host_spec :: "nat \<Rightarrow> nat \<Rightarrow> config \<Rightarrow> nat \<times> bool" where
  "log_host_spec cpu_count total_memory cf =
    (let total_mem_mb = total_memory div 1024 div 1024;
         suggested_max = suggest_max_users cpu_count total_mem_mb
     in (suggested_max, case cf_max_users cf of None \<Rightarrow> False | Some m \<Rightarrow> m > suggested_max))"

text \<open>The step of \<open>initialize_first_admin_setup_link\<close> that draws and prints the one-time address.\<close>

definition announce_setup_link ::
  "boot_env \<Rightarrow> config \<Rightarrow> db \<Rightarrow> auth_memory \<Rightarrow> string + auth_memory \<times> string option" where
  "announce_setup_link bo cf db mem =
    (if admin_count db > 0 then Inr (initialize_first_admin_setup_link [] db mem, None)
     else case bo_random_bytes bo of
         None \<Rightarrow> Inl ''Failed to initialize one-time admin setup URL''
       | Some raw \<Rightarrow> Inr (initialize_first_admin_setup_link raw db mem,
            Some (setup_url cf (random_setup_token raw))))"

definition start_server :: "boot_env \<Rightarrow> (string \<Rightarrow> string option) \<Rightarrow> db \<Rightarrow> string + server" where
  "start_server bo env db =
     and_then (from_env env) (\<lambda>cf.
     and_then (validate_security_defaults cf) (\<lambda>_.
     and_then (expect ''Failed to create database connection pool'' (bo_build_pool bo (cf_database_url cf))) (\<lambda>_.
     and_then (ok_or ''Failed to run database migrations'' (bo_run_migrations bo db)) (\<lambda>db.
     and_then (announce_setup_link bo cf db empty_memory) (\<lambda>(mem, url).
     and_then (expect ''Invalid Redis URL'' (bo_redis_url_ok bo (cf_redis_url cf))) (\<lambda>_.
     and_then (expect ''Invalid auth governor config'' (bo_governor_ok bo 5 10)) (\<lambda>_.
     and_then (expect ''Invalid API governor config'' (bo_governor_ok bo 60 100)) (\<lambda>_.
     and_then (expect ''Invalid federation inbox governor config''
        (bo_governor_ok bo (cf_federation_inbox_rps cf) (cf_federation_inbox_burst cf))) (\<lambda>_.
     and_then (expect ''bind'' (bo_bind bo (cf_server_host cf) (cf_server_port cf))) (\<lambda>_.
     Inr \<lparr>sv_config = cf, sv_db = db, sv_memory = mem, sv_announced = url\<rparr>))))))))))"

section \<open>The nightly task\<close>

text \<open>
  One round of the loop: the error of a failed pass is only logged. The timer fires at once and
  then every 300 seconds; the process starts with no day recorded.
\<close>

definition review_round :: "(string \<Rightarrow> uuid option) \<Rightarrow> instant \<Rightarrow> day option \<times> db \<Rightarrow> day option \<times> db" where
  "review_round parse_uuid now s = snd (maybe_run_daily_automatic_review parse_uuid now s)"

definition tick_times :: "instant \<Rightarrow> nat \<Rightarrow> instant list" where
  "tick_times started n = map (\<lambda>k. started + int k * (300 * second_us)) [0..<n]"

fun review_rounds :: "(string \<Rightarrow> uuid option) \<Rightarrow> instant list \<Rightarrow> day option \<times> db \<Rightarrow> day option \<times> db" where
  "review_rounds parse_uuid [] s = s"
| "review_rounds parse_uuid (t # ts) s = review_rounds parse_uuid ts (review_round parse_uuid t s)"

definition spawn_daily_automatic_review ::
  "(string \<Rightarrow> uuid option) \<Rightarrow> instant \<Rightarrow> nat \<Rightarrow> db \<Rightarrow> day option \<times> db" where
  "spawn_daily_automatic_review parse_uuid started rounds db =
     review_rounds parse_uuid (tick_times started rounds) (None, db)"

end
