(* ===== verification/Startup_Properties.thy ===== *)
theory Startup_Properties
  imports Startup Account_Properties Moderation_Properties
begin

text \<open>
  The start of the server and its nightly task: a server that runs has a secure configuration, the
  printed address lets exactly its holder create the first administrator, and no overdue report
  stays open for more than a day of the timer.
\<close>

section \<open>Reports over time\<close>

text \<open>In every step of the server a report stays as it is or is closed.\<close>

definition reports_follow :: "db \<Rightarrow> db \<Rightarrow> bool" where
  "reports_follow db db' \<longleftrightarrow> (\<forall>k r. find_row mr_id (moderation_reports db) k = Some r \<longrightarrow>
     find_row mr_id (moderation_reports db') k = Some r \<or> closed_in k db')"

lemma reports_follow_same: "moderation_reports db' = moderation_reports db \<Longrightarrow> reports_follow db db'"
  by (simp add: reports_follow_def)

lemma reports_follow_trans:
  "reports_follow a b \<Longrightarrow> reports_follow b c \<Longrightarrow> reports_follow a c"
  unfolding reports_follow_def closed_in_def by (fastforce split: option.splits)

lemma reports_follow_closed: "reports_follow db db' \<Longrightarrow> closed_in k db \<Longrightarrow> closed_in k db'"
  unfolding reports_follow_def closed_in_def by (fastforce split: option.splits)

lemma create_follows:
  assumes "create_report_conn pu rid reporter inp now db = Inr (r, db')"
  shows "reports_follow db db'"
proof -
  have "find_row mr_id (moderation_reports db') k = Some q"
    if "find_row mr_id (moderation_reports db) k = Some q" for k q
    using create_report_conn_eq [OF assms] that by (auto simp: row_simps find_row_None split: option.splits)
  then show ?thesis by (simp add: reports_follow_def)
qed

lemma resolve_follows:
  assumes "resolve_report_conn pu r reviewer action notes now db = Inr (r', db')"
  shows "reports_follow db db'"
  using resolve_report_conn_spec(1) [OF assms]
  by (auto simp: reports_follow_def closed_in_def report_table.lookup_modify)

lemma review_pass_closes:
  assumes "reports_inv pu db"
  obtains n db' where "run_automatic_review_pass pu now db = Inr (n, db')" "reports_inv pu db'"
    "reports_follow db db'" "\<forall>r \<in> set (overdue_reports now db). closed_in (mr_id r) db'"
proof -
  let ?rs = "overdue_reports now db"
  have found: "find_row mr_id (moderation_reports db) (mr_id r) = Some r" if "r \<in> set ?rs" for r
    using that assms by (auto simp: overdue_reports_def reports_inv_def intro: find_row_distinct)
  with assms have "\<forall>r \<in> set ?rs. report_row_ok pu db r \<and> find_row mr_id (moderation_reports db) (mr_id r) \<noteq> None"
    by (auto simp: reports_inv_def)
  from resolve_all_spec [OF assms this, of ?rs now] obtain db' where
    d: "resolve_all pu ?rs ?rs now db = Inr db'" "reports_inv pu db'"
      "\<forall>r \<in> set ?rs. closed_in (mr_id r) db'"
      "\<forall>k. k \<notin> mr_id ` set ?rs \<longrightarrow>
        find_row mr_id (moderation_reports db') k = find_row mr_id (moderation_reports db) k"
    by blast
  have "reports_follow db db'" using d(3,4) unfolding reports_follow_def by (metis imageE)
  with that d show thesis by (simp add: run_automatic_review_pass_def Let_def)
qed

lemma review_round_follows:
  assumes "reports_inv pu (snd s)"
  shows "reports_inv pu (snd (review_round pu now s)) \<and> reports_follow (snd s) (snd (review_round pu now s))"
proof -
  obtain last_run db where s: "s = (last_run, db)" by fastforce
  obtain n db' where "run_automatic_review_pass pu now db = Inr (n, db')" "reports_inv pu db'"
    "reports_follow db db'"
    by (rule review_pass_closes [of pu db now]) (use assms s in auto)
  then show ?thesis
    using assms by (simp add: s review_round_def maybe_run_daily_automatic_review_def reports_follow_same)
qed

lemma moderation_step_follows:
  assumes "reports_inv pu db" "moderation_step pu db db'"
  shows "reports_follow db db'"
  using assms(2)
proof cases
  case create
  then show ?thesis by (simp add: create_report_def create_follows)
next
  case (block rid a b reason remark now v)
  have "reports_follow db (d\<lparr>user_blocks := bs\<rparr>) = reports_follow db d" for d bs
    by (simp add: reports_follow_def closed_in_def)
  then show ?thesis
    using block by (auto simp: block_user_def Let_def result_simps reports_follow_same
        dest: create_follows split: if_splits)
next
  case (unblock a b)
  then show ?thesis by (simp add: unblock_user_def reports_follow_same)
next
  case resolve
  then show ?thesis by (auto simp: resolve_report_def result_simps dest: resolve_follows split: if_splits)
next
  case (tick now last_run res last_run')
  then show ?thesis
    using review_round_follows [of pu "(last_run, db)" now] assms(1) by (simp add: review_round_def)
next
  case (accept_terms uid version now st)
  then show ?thesis
    by (auto simp: record_terms_acceptance_def record_terms_acceptance_conn_def Let_def result_simps
        update_user_def intro!: reports_follow_same split: if_splits)
qed

section \<open>The nightly task between the requests\<close>

text \<open>
  The server at work: the rounds of the task come in the order of the given times, and between
  them the requests to the moderation service run in any number and order.
\<close>

inductive serving :: "(string \<Rightarrow> uuid option) \<Rightarrow> instant list \<Rightarrow> day option \<times> db \<Rightarrow> day option \<times> db \<Rightarrow> bool"
  for pu where
  idle: "serving pu [] s s"
| request: "moderation_step pu db db1 \<Longrightarrow> serving pu ts (last_run, db1) s' \<Longrightarrow> serving pu ts (last_run, db) s'"
| round: "serving pu ts (review_round pu t s) s' \<Longrightarrow> serving pu (t # ts) s s'"

lemma serving_rounds: "serving pu ts s (review_rounds pu ts s)"
proof (induction ts arbitrary: s)
  case (Cons t ts)
  then show ?case by (simp add: serving.round)
qed (simp add: serving.idle)

lemma serving_follows:
  "serving pu ts s s' \<Longrightarrow> reports_inv pu (snd s) \<Longrightarrow> reports_inv pu (snd s') \<and> reports_follow (snd s) (snd s')"
proof (induction rule: serving.induct)
  case (idle s)
  then show ?case by (simp add: reports_follow_same)
next
  case (request db db1 ts last_run s')
  then have "reports_inv pu db1" "reports_follow db db1"
    using moderation_step_inv moderation_step_follows by simp_all
  with request.IH show ?case by (auto intro: reports_follow_trans)
next
  case (round ts t s s')
  note one = review_round_follows [OF round.prems, of t]
  from round.IH [OF conjunct1 [OF one]] show ?case
    by (blast intro: reports_follow_trans [OF conjunct2 [OF one]])
qed

text \<open>A round in the review hour of a new day closes every overdue report.\<close>

definition due_round :: "day option \<Rightarrow> instant \<Rightarrow> bool" where
  "due_round last_run t \<longleftrightarrow> hour_of t = 2 \<and> last_run \<noteq> Some (date_naive t)"

lemma review_round_skipped: "\<not> due_round (fst s) t \<Longrightarrow> review_round pu t s = s"
  by (cases s) (auto simp: due_round_def review_round_def maybe_run_daily_automatic_review_def)

lemma review_round_run:
  assumes "due_round (fst s) t" "reports_inv pu (snd s)"
    and "find_row mr_id (moderation_reports (snd s)) k = Some r" "mr_review_due_at r \<le> t"
  shows "closed_in k (snd (review_round pu t s))"
proof -
  obtain n db' where d: "run_automatic_review_pass pu t (snd s) = Inr (n, db')" "reports_follow (snd s) db'"
      "\<forall>r \<in> set (overdue_reports t (snd s)). closed_in (mr_id r) db'"
    by (rule review_pass_closes [OF assms(2), of t]) auto
  have round: "snd (review_round pu t s) = db'"
    using assms(1) d(1)
    by (cases s) (auto simp: due_round_def review_round_def maybe_run_daily_automatic_review_def)
  have k: "r \<in> set (moderation_reports (snd s))" "mr_id r = k" using find_row_Some [OF assms(3)] by auto
  show ?thesis
  proof (cases "mr_status r = REPORT_STATUS_OPEN")
    case True
    with k assms(4) d(3) show ?thesis by (auto simp: round overdue_reports_def)
  next
    case False
    with assms(3) have "closed_in k (snd s)" by (simp add: closed_in_def)
    with d(2) show ?thesis by (simp add: round reports_follow_closed)
  qed
qed

lemma serving_settles:
  assumes "serving pu ts s s'" "reports_inv pu (snd s)"
    and "find_row mr_id (moderation_reports (snd s)) k = Some r" "\<forall>t \<in> set ts. mr_review_due_at r \<le> t"
    and "t \<in> set ts" "due_round (fst s) t"
  shows "closed_in k (snd s')"
  using assms
proof (induction rule: serving.induct)
  case (request db db1 ts last_run s')
  have inv: "reports_inv pu db1" "reports_follow db db1"
    using request.hyps(1) request.prems(1) moderation_step_inv moderation_step_follows by auto
  show ?case
  proof (cases "closed_in k db1")
    case True
    with serving_follows [OF request.hyps(2)] inv show ?thesis by (auto intro: reports_follow_closed)
  next
    case False
    with inv(2) request.prems(2) have "find_row mr_id (moderation_reports db1) k = Some r"
      by (auto simp: reports_follow_def)
    with request.IH inv request.prems show ?thesis by simp
  qed
next
  case (round ts t0 s s')
  show ?case
  proof (cases "due_round (fst s) t0")
    case True
    with review_round_run round.prems have "closed_in k (snd (review_round pu t0 s))" by simp
    with serving_follows [OF round.hyps] review_round_follows [OF round.prems(1)] show ?thesis
      by (blast intro: reports_follow_closed)
  next
    case False
    with round review_round_skipped [OF False] show ?thesis by auto
  qed
qed simp

lemma serving_last_run:
  "serving pu ts s s' \<Longrightarrow> fst s' = fst s \<or> (\<exists>t \<in> set ts. hour_of t = 2 \<and> fst s' = Some (date_naive t))"
proof (induction rule: serving.induct)
  case (round ts t s s')
  have "fst (review_round pu t s) = fst s \<or> hour_of t = 2 \<and> fst (review_round pu t s) = Some (date_naive t)"
    by (cases s) (auto simp: review_round_def maybe_run_daily_automatic_review_def split: sum.splits)
  with round.IH show ?case by auto
qed auto

section \<open>The timer meets the review hour every day\<close>

lemma ceiling_step:
  fixes x q :: int
  assumes "0 < q" "0 \<le> x"
  obtains j where "0 \<le> j" "x \<le> j * q" "j * q < x + q"
proof
  let ?j = "(x + q - 1) div q"
  show "0 \<le> ?j" using assms by (simp add: pos_imp_zdiv_nonneg_iff)
  have "?j * q + (x + q - 1) mod q = x + q - 1" by simp
  moreover have "0 \<le> (x + q - 1) mod q" "(x + q - 1) mod q < q" using assms by simp_all
  ultimately show "x \<le> ?j * q" "?j * q < x + q" by linarith+
qed

lemma clock_of:
  assumes "t = d * 86400000000 + y" "7200000000 \<le> y" "y < 10800000000"
  shows "hour_of t = 2" "date_naive t = d"
  using assms by (simp_all add: hour_of_def date_naive_def)

lemma tick_meets_review_hour:
  assumes "\<And>d. last_run = Some d \<Longrightarrow> \<exists>t0 < t. hour_of t0 = 2 \<and> date_naive t0 = d"
  shows "\<exists>u \<in> set (tick_times t 289). due_round last_run u"
proof -
  define d y where "d = date_naive t" and "y = t mod 86400000000"
  have t: "t = d * 86400000000 + y" and y: "0 \<le> y" "y < 86400000000"
    by (simp_all add: d_def y_def date_naive_def)
  have tick: "t + j * 300000000 \<in> set (tick_times t 289)" if "0 \<le> j" "j \<le> 288" for j
    unfolding tick_times_def second_us_def set_map
    by (rule image_eqI [of _ _ "nat j"]) (use that in auto)
  have old: "e \<le> d \<and> (y < 7200000000 \<longrightarrow> e \<noteq> d)" if last: "last_run = Some e" for e
  proof -
    obtain t0 where e: "t0 < t" "hour_of t0 = 2" "date_naive t0 = e" using assms [OF last] by blast
    have "t0 = e * 86400000000 + t0 mod 86400000000" using e(3) by (auto simp: date_naive_def)
    moreover have "7200000000 \<le> t0 mod 86400000000" using e(2) by (simp add: hour_of_def)
    ultimately show ?thesis using e(1) t y by auto
  qed
  have due: "due_round last_run u" if "u = e * 86400000000 + z" "7200000000 \<le> z" "z < 10800000000"
      "last_run \<noteq> Some e" for u e z
    using clock_of [OF that(1-3)] that(4) by (simp add: due_round_def)
  have wait: "\<exists>u \<in> set (tick_times t 289). due_round last_run u"
    if e: "last_run \<noteq> Some e" "y \<le> x" "x - y \<le> 82800000000" "t + (x - y) = e * 86400000000 + 7200000000" for x e
  proof -
    obtain j where j: "0 \<le> j" "x - y \<le> j * 300000000" "j * 300000000 < x - y + 300000000"
      using ceiling_step [of 300000000 "x - y"] e(2) by auto
    have "t + j * 300000000 = e * 86400000000 + (j * 300000000 - (x - y) + 7200000000)" using e(4) by linarith
    from due [OF this] have "due_round last_run (t + j * 300000000)" using e(1) j by simp
    moreover have "j \<le> 288" using j e(3) by linarith
    ultimately show ?thesis using tick j(1) by blast
  qed
  consider "y < 7200000000" | "7200000000 \<le> y" "y < 10800000000" | "10800000000 \<le> y" by linarith
  then show ?thesis
  proof cases
    case 1
    then show ?thesis using wait [of d 7200000000] old t y by fastforce
  next
    case 2
    have "last_run \<noteq> Some (d + 1)" using old by fastforce
    moreover have "t + 288 * 300000000 = (d + 1) * 86400000000 + y" using t by simp
    ultimately have "due_round last_run (t + 288 * 300000000)" using due 2 by blast
    with tick [of 288] show ?thesis by auto
  next
    case 3
    have "last_run \<noteq> Some (d + 1)" using old by fastforce
    then show ?thesis using wait [of "d + 1" 93600000000] 3 t y by simp
  qed
qed

text \<open>
  [C16] Reports are settled within a day: from the start of the process on, with any requests to the
  moderation service between the rounds, a report whose review is due at some round of the timer
  is closed after the 289 rounds of the next 24 hours at the latest.
\<close>

theorem reports_settled_within_a_day:
  assumes "reports_inv pu db0" "serving pu (tick_times started k) (None, db0) (last_run, db)"
    and r: "r \<in> set (moderation_reports db)"
    and "now = started + int k * (300 * second_us)" "mr_review_due_at r \<le> now"
    and "serving pu (tick_times now 289) (last_run, db) (last_run', db')"
  shows "closed_in (mr_id r) db'"
proof -
  have inv: "reports_inv pu db" using serving_follows [OF assms(2)] assms(1) by simp
  then have found: "find_row mr_id (moderation_reports db) (mr_id r) = Some r"
    using r by (auto simp: reports_inv_def intro: find_row_distinct)
  have "\<exists>t < now. hour_of t = 2 \<and> date_naive t = d" if "last_run = Some d" for d
  proof -
    from serving_last_run [OF assms(2)] that obtain t where
      t: "t \<in> set (tick_times started k)" "hour_of t = 2" "date_naive t = d" by auto
    then have "t < now" using assms(4) by (auto simp: tick_times_def second_us_def)
    with t show ?thesis by blast
  qed
  then obtain u where "u \<in> set (tick_times now 289)" "due_round last_run u"
    using tick_meets_review_hour [of last_run now] by blast
  moreover have "\<forall>t \<in> set (tick_times now 289). mr_review_due_at r \<le> t"
    using assms(5) by (auto simp: tick_times_def second_us_def)
  ultimately show ?thesis using serving_settles [OF assms(6), of "mr_id r" r u] inv found by simp
qed

theorem reports_settled_within_a_day_witness:
  "let db = sample_db\<lparr>moderation_reports := [sample_report]\<rparr>
   in closed_in 80 (snd (spawn_daily_automatic_review (\<lambda>_. None) 10 289 db))"
proof -
  let ?db = "sample_db\<lparr>moderation_reports := [sample_report]\<rparr>"
  let ?s = "review_rounds (\<lambda>_. None) (tick_times 10 289) (None, ?db)"
  have s: "serving (\<lambda>_. None) (tick_times 10 289) (None, ?db) (fst ?s, snd ?s)"
    using serving_rounds [of "\<lambda>_. None" "tick_times 10 289" "(None, ?db)"] by simp
  have i: "serving (\<lambda>_. None) (tick_times 10 0) (None, ?db) (None, ?db)"
    by (simp add: tick_times_def serving.idle)
  have "closed_in (mr_id sample_report) (snd ?s)"
    by (rule reports_settled_within_a_day [OF sample_reports_inv i _ _ _ s])
      (simp_all add: sample_report_def)
  then show ?thesis by (simp add: spawn_daily_automatic_review_def sample_report_def)
qed

section \<open>The start\<close>

lemma start_server_eq:
  "start_server bo env db = Inr sv \<longleftrightarrow>
    (\<exists>cf db1 mem url. from_env env = Inr cf \<and> validate_security_defaults cf = Inr () \<and>
       bo_build_pool bo (cf_database_url cf) \<and> bo_run_migrations bo db = Some db1 \<and>
       announce_setup_link bo cf db1 empty_memory = Inr (mem, url) \<and> bo_redis_url_ok bo (cf_redis_url cf) \<and>
       bo_governor_ok bo 5 10 \<and> bo_governor_ok bo 60 100 \<and>
       bo_governor_ok bo (cf_federation_inbox_rps cf) (cf_federation_inbox_burst cf) \<and>
       bo_bind bo (cf_server_host cf) (cf_server_port cf) \<and>
       sv = \<lparr>sv_config = cf, sv_db = db1, sv_memory = mem, sv_announced = url\<rparr>)"
  unfolding start_server_def and_then_eq_Inr expect_def ok_or_eq if_Inl_eq_Inr by auto

text \<open>
  A server that runs in production has HTTPS enforced, a signing secret of at least 32 bytes that
  is not the default one, and a public domain; the address it prints is then an HTTPS address.
\<close>

theorem started_server_secure:
  assumes "start_server bo env db = Inr sv" "eq_ignore_ascii_case (cf_app_env (sv_config sv)) ''production''"
  shows "from_env env = Inr (sv_config sv) \<and> cf_enforce_https (sv_config sv) \<and>
    32 \<le> utf8_len (cf_jwt_secret (sv_config sv)) \<and> \<not> contains (cf_jwt_secret (sv_config sv)) ''change-me'' \<and>
    \<not> eq_ignore_ascii_case (cf_instance_domain (sv_config sv)) ''localhost'' \<and>
    (\<forall>url. sv_announced sv = Some url \<longrightarrow> is_prefix ''https://'' url)"
proof -
  obtain db1 mem where s: "from_env env = Inr (sv_config sv)" "validate_security_defaults (sv_config sv) = Inr ()"
    "announce_setup_link bo (sv_config sv) db1 empty_memory = Inr (mem, sv_announced sv)"
    using assms(1) by (auto simp: start_server_eq)
  have v: "cf_enforce_https (sv_config sv)" "32 \<le> utf8_len (cf_jwt_secret (sv_config sv))"
    "\<not> contains (cf_jwt_secret (sv_config sv)) ''change-me''"
    "\<not> eq_ignore_ascii_case (cf_instance_domain (sv_config sv)) ''localhost''"
    using s(2) assms(2) by (auto simp: validate_security_defaults_def split: if_splits)
  have "is_prefix ''https://'' url" if "sv_announced sv = Some url" for url
    using s(3) that v(1)
    by (auto simp: announce_setup_link_def setup_url_def is_prefix_def split: if_splits option.splits)
  with s(1) v show ?thesis by blast
qed

text \<open>The suggestion is at least ten and fits its 32 bits, and a configured cap within it is not warned about.\<close>

lemma host_spec_bounds:
  assumes "log_host_spec cpu_count total_memory cf = (suggested, warned)"
  shows "10 \<le> suggested" "suggested < 2 ^ 32" "warned \<Longrightarrow> \<exists>m. cf_max_users cf = Some m \<and> suggested < m"
proof -
  have s: "suggested = suggest_max_users cpu_count (total_memory div 1024 div 1024)"
    using assms by (simp add: log_host_spec_def Let_def)
  show "10 \<le> suggested" by (simp add: s suggest_max_users_def Let_def)
  show "suggested < 2 ^ 32" unfolding s suggest_max_users_def Let_def by (simp add: min_less_iff_disj)
  show "warned \<Longrightarrow> \<exists>m. cf_max_users cf = Some m \<and> suggested < m"
    using assms by (auto simp: log_host_spec_def Let_def split: option.splits)
qed

lemma setup_token_chars_visible: "c \<in> set (setup_token_chars idx raw) \<Longrightarrow> \<not> is_whitespace c"
proof (induction idx raw rule: setup_token_chars.induct)
  case (2 idx b raw)
  have "list_all (\<lambda>c. \<not> is_whitespace c) (CHR ''-'' # SETUP_ALPHABET)" by code_simp
  moreover have "SETUP_ALPHABET ! (b mod length SETUP_ALPHABET) \<in> set SETUP_ALPHABET"
    by (intro nth_mem mod_less_divisor) (simp add: SETUP_ALPHABET_def)
  ultimately show ?case using 2 by (auto simp: list_all_iff split: if_splits)
qed simp

lemma trim_setup_token: "trim (random_setup_token raw) = random_setup_token raw"
proof -
  have stop: "dropWhile is_whitespace s = s" if "\<forall>c \<in> set s. \<not> is_whitespace c" for s
    using that by (cases s) auto
  have "\<forall>c \<in> set (random_setup_token raw). \<not> is_whitespace c"
    using setup_token_chars_visible by (auto simp: random_setup_token_def)
  then show ?thesis
    using stop [of "random_setup_token raw"] stop [of "rev (random_setup_token raw)"] by (simp add: trim_def)
qed

lemma setup_token_nonempty: "raw \<noteq> [] \<Longrightarrow> random_setup_token raw \<noteq> []"
  by (cases raw) (auto simp: random_setup_token_def)

text \<open>The rows that the first administrator must not collide with.\<close>

definition setup_acceptable :: "externals \<Rightarrow> setup_admin_request \<Rightarrow> nat \<Rightarrow> uuid \<Rightarrow> db \<Rightarrow> bool" where
  "setup_acceptable ex body salt i db \<longleftrightarrow>
     trim (sa_email body) \<noteq> [] \<and> utf8_len (sa_password body) \<ge> 8 \<and>
     is_valid_username (trim (sa_username body)) \<and> is_ok (hash_password ex salt (sa_password body)) \<and>
     (\<forall>u \<in> set (users db). u_id u \<noteq> i \<and> u_username u \<noteq> trim (sa_username body) \<and>
        u_email u \<noteq> to_lowercase (trim (sa_email body)))"

lemma setup_acceptable_names:
  "setup_acceptable ex body salt i db \<Longrightarrow> trim (sa_username body) \<noteq> [] \<and> to_lowercase (trim (sa_email body)) \<noteq> []"
  by (auto simp: setup_acceptable_def is_valid_username_def to_lowercase_def)

lemma setup_admin_accepts:
  assumes "setup_acceptable ex body salt i db" "admin_count db = 0"
    and "admin_setup_token mem = Some token" "sa_setup_token body = Some token" "trim token = token" "token \<noteq> []"
  shows "\<exists>u db'. setup_admin ex body salt i now (mem, db) = (Inr u, (clear_setup_token mem, db')) \<and>
     admin_count db' = 1 \<and> length (users db') = length (users db) + 1"
proof -
  obtain pw where pw: "hash_password ex salt (sa_password body) = Inr pw"
    using assms(1) by (auto simp: setup_acceptable_def is_ok_iff)
  let ?n = "\<lparr>nu_id = i, nu_username = trim (sa_username body), nu_email = to_lowercase (trim (sa_email body)),
      nu_password_hash = pw, nu_role = ''admin'', nu_device_auth_pubkey = None, nu_is_approved = True\<rparr>"
  have "\<not> exists_row (user_key_clash (user_of_new ?n now)) (users db)"
    using assms(1) by (auto simp: exists_row_def user_key_clash_def user_of_new_def setup_acceptable_def list_ex_iff)
  then have c: "create_user ?n None now db =
      Inr (user_of_new ?n now, db\<lparr>users := users db @ [user_of_new ?n now]\<rparr>)"
    by (simp add: create_user_def insert_user_def insert_row_def Let_def)
  note setup_acceptable_names [OF assms(1)]
  moreover have "admin_count (db\<lparr>users := users db @ [user_of_new ?n now]\<rparr>) = 1"
    using assms(2) by (simp add: admin_count_def count_rows_def user_of_new_def)
  ultimately show ?thesis
    using assms pw c by (simp add: setup_admin_def is_setup_token_valid_def setup_acceptable_def)
qed

text \<open>
  [C34] The first administrator is created with the address that the server prints at its start and in
  no other way: on a server without an administrator every acceptable request with the printed
  token succeeds, whatever the time and the identifier drawn, and with any other token it is
  refused and changes nothing. When the process is started again after that, it prints no address
  and no token is valid.
\<close>

theorem first_admin_bootstrap:
  assumes start: "start_server bo env db = Inr sv" and none: "admin_count (sv_db sv) = 0"
    and raw: "bo_random_bytes bo = Some raw" "length raw = 24"
    and body: "setup_acceptable ex body salt i (sv_db sv)"
  defines "token \<equiv> random_setup_token raw"
  shows "sv_announced sv = Some (setup_url (sv_config sv) token) \<and>
    (case setup_admin ex (body\<lparr>sa_setup_token := Some token\<rparr>) salt i now (sv_memory sv, sv_db sv) of
       (Inr u, (mem', db')) \<Rightarrow> admin_count db' = 1 \<and> admin_setup_token mem' = None \<and>
         (\<forall>bo' env' sv'. start_server bo' env' db' = Inr sv' \<longrightarrow> bo_run_migrations bo' db' = Some db' \<longrightarrow>
            sv_announced sv' = None \<and> (\<forall>t. \<not> is_setup_token_valid t (sv_memory sv')))
     | _ \<Rightarrow> False) \<and>
    (\<forall>t. trim t \<noteq> token \<longrightarrow>
       setup_admin ex (body\<lparr>sa_setup_token := Some t\<rparr>) salt i now (sv_memory sv, sv_db sv) =
         (Inl Forbidden, (sv_memory sv, sv_db sv)))"
proof -
  have sv: "admin_setup_token (sv_memory sv) = Some token" "sv_announced sv = Some (setup_url (sv_config sv) token)"
    using start none raw
    by (auto simp: start_server_eq announce_setup_link_def initialize_first_admin_setup_link_def
        set_setup_token_def token_def)
  have tok: "trim token = token" "token \<noteq> []"
    using raw(2) setup_token_nonempty [of raw] trim_setup_token [of raw] by (fastforce simp: token_def)+
  have ok: "setup_acceptable ex (body\<lparr>sa_setup_token := t\<rparr>) salt i (sv_db sv)" for t
    using body by (simp add: setup_acceptable_def)
  obtain u db' where u: "setup_admin ex (body\<lparr>sa_setup_token := Some token\<rparr>) salt i now (sv_memory sv, sv_db sv)
      = (Inr u, (clear_setup_token (sv_memory sv), db'))" "admin_count db' = 1"
    using setup_admin_accepts [OF ok none sv(1) _ tok] by fastforce
  have again: "sv_announced sv' = None \<and> (\<forall>t. \<not> is_setup_token_valid t (sv_memory sv'))"
    if "start_server bo' env' db' = Inr sv'" "bo_run_migrations bo' db' = Some db'" for bo' env' sv'
    using that u(2)
    by (auto simp: start_server_eq announce_setup_link_def initialize_first_admin_setup_link_def
        clear_setup_token_def set_setup_token_def is_setup_token_valid_def)
  have "setup_admin ex (body\<lparr>sa_setup_token := Some t\<rparr>) salt i now (sv_memory sv, sv_db sv) =
       (Inl Forbidden, (sv_memory sv, sv_db sv))" if "trim t \<noteq> token" for t
    using that none sv(1) body setup_acceptable_names [OF body]
    by (simp add: setup_admin_def setup_acceptable_def is_setup_token_valid_def)
  with sv(2) u again show ?thesis by (simp add: clear_setup_token_def set_setup_token_def)
qed

definition sample_environment :: "string \<Rightarrow> string option" where
  "sample_environment = map_of [(''DATABASE_URL'', ''postgres://db''), (''REDIS_URL'', ''redis://r''),
     (''JWT_SECRET'', ''secret''), (''ADMIN_EMAIL'', ''a@x'')]"

definition sample_boot :: boot_env where
  "sample_boot = \<lparr>bo_build_pool = (\<lambda>_. True), bo_run_migrations = Some, bo_random_bytes = Some [0..<24],
     bo_redis_url_ok = (\<lambda>_. True), bo_governor_ok = (\<lambda>rps burst. 0 < rps \<and> 0 < burst),
     bo_bind = (\<lambda>_ _. True)\<rparr>"

lemma sample_numbers:
  "parse_unsigned 64 ''3600'' = Some 3600" "parse_unsigned 64 ''2592000'' = Some 2592000"
  "parse_unsigned 16 ''8080'' = Some 8080" "parse_signed 64 ''300'' = Some 300"
  "parse_signed 32 ''5'' = Some 5" "parse_unsigned 64 ''20'' = Some 20" "parse_unsigned 32 ''40'' = Some 40"
  by (simp_all add: parse_unsigned_def parse_signed_def is_digit_def digits_value_def)

lemma sample_from_env:
  obtains cf where "from_env sample_environment = Inr cf" "cf_app_env cf = ''development''"
    "cf_federation_inbox_rps cf = 20" "cf_federation_inbox_burst cf = 40"
proof -
  have "parse_push_delivery_mode ''relay'' = Inr Relay" by code_simp
  with that show thesis
    by (simp add: from_env_def required_def number_def var_or_def sample_environment_def ok_or_def sample_numbers)
qed

lemma sample_start:
  obtains sv where "start_server sample_boot sample_environment empty_db = Inr sv" "sv_db sv = empty_db"
proof -
  obtain cf where cf: "from_env sample_environment = Inr cf" "cf_app_env cf = ''development''"
    "cf_federation_inbox_rps cf = 20" "cf_federation_inbox_burst cf = 40"
    by (rule sample_from_env)
  have "\<not> eq_ignore_ascii_case ''development'' ''production''" by code_simp
  with cf(2) have "validate_security_defaults cf = Inr ()" by (simp add: validate_security_defaults_def)
  moreover have "admin_count empty_db = 0" by code_simp
  ultimately show thesis
    using that cf by (simp add: start_server_def expect_def sample_boot_def ok_or_def announce_setup_link_def)
qed

definition sample_setup :: setup_admin_request where
  "sample_setup = \<lparr>sa_username = ''root'', sa_email = ''r@x.org'', sa_password = ''password'', sa_setup_token = None\<rparr>"

theorem first_admin_bootstrap_witness:
  "\<exists>sv. start_server sample_boot sample_environment empty_db = Inr sv \<and>
     sv_announced sv = Some (setup_url (sv_config sv) (random_setup_token [0..<24])) \<and>
     is_ok (fst (setup_admin sample_externals
       (sample_setup\<lparr>sa_setup_token := Some (random_setup_token [0..<24])\<rparr>) 0 9 7 (sv_memory sv, sv_db sv)))"
proof -
  obtain sv where sv: "start_server sample_boot sample_environment empty_db = Inr sv" "sv_db sv = empty_db"
    by (rule sample_start)
  have "admin_count (sv_db sv) = 0" unfolding sv(2) by code_simp
  moreover have "bo_random_bytes sample_boot = Some [0..<24]" by (simp add: sample_boot_def)
  moreover have "setup_acceptable sample_externals sample_setup 0 9 (sv_db sv)"
    unfolding sv(2) by code_simp
  ultimately show ?thesis
    using first_admin_bootstrap [OF sv(1), of "[0..<24]" sample_externals sample_setup 0 9 7] sv(1)
    by (auto simp: is_ok_iff split: prod.splits sum.splits)
qed

end
