(* ===== verification/Ws_Events.thy ===== *)
theory Ws_Events
  imports Ws_Session
begin

text \<open>
  The wire format of a WebSocket (src/src/ws/session.rs, src/src/services/redis\_pubsub.rs): the JSON
  of the events for the client, of the payloads that the handlers put on a Redis channel, and the
  reading of the client's events. The printing of identifiers, times and JSON and the reading of
  identifiers are the fields of \<open>wire\<close>. The order of the fields of an object is the declared one;
  \<open>json!\<close> sorts them, which no reader sees.
\<close>

record wire =
  wi_show_uuid :: "uuid \<Rightarrow> string"
  wi_parse_uuid :: "string \<Rightarrow> uuid option"
  wi_show_time :: "instant \<Rightarrow> string"
  wi_to_string :: "json \<Rightarrow> string"

abbreviation uuid_json :: "wire \<Rightarrow> uuid \<Rightarrow> json" where
  "uuid_json w i \<equiv> JStr (wi_show_uuid w i)"

definition tagged :: "string \<Rightarrow> (string \<times> json) list \<Rightarrow> json" where
  "tagged tag fs = JObj ((''type'', JStr tag) # fs)"

section \<open>Events for the client\<close>

text \<open>\<open>ServerEvent\<close>: tagged by the variant in snake case.\<close>

definition server_event_json :: "wire \<Rightarrow> server_event \<Rightarrow> json" where
  "server_event_json w e =
    (case e of
       SvPong \<Rightarrow> tagged ''pong'' []
     | SvError message \<Rightarrow> tagged ''error'' [(''message'', JStr message)]
     | SvCallCreated call callee \<Rightarrow>
         tagged ''call_created'' [(''call_id'', uuid_json w call), (''callee_id'', uuid_json w callee)]
     | SvIncomingCall call caller call_type sdp \<Rightarrow>
         tagged ''incoming_call'' [(''call_id'', uuid_json w call), (''caller_id'', uuid_json w caller),
           (''call_type'', JStr call_type), (''sdp_offer'', JStr sdp)]
     | SvCallAnswered call callee sdp \<Rightarrow>
         tagged ''call_answered'' [(''call_id'', uuid_json w call), (''callee_id'', uuid_json w callee),
           (''sdp_answer'', JStr sdp)]
     | SvCallRejected call callee \<Rightarrow>
         tagged ''call_rejected'' [(''call_id'', uuid_json w call), (''callee_id'', uuid_json w callee)]
     | SvCallHangup call from_user \<Rightarrow>
         tagged ''call_hangup'' [(''call_id'', uuid_json w call), (''from_user_id'', uuid_json w from_user)]
     | SvIceCandidate call from_user candidate mid index \<Rightarrow>
         tagged ''ice_candidate'' [(''call_id'', uuid_json w call), (''from_user_id'', uuid_json w from_user),
           (''candidate'', JStr candidate), (''sdp_mid'', json_opt_str mid),
           (''sdp_mline_index'', json_opt_int (map_option int index))])"

section \<open>Payloads on the channels\<close>

definition message_json :: "wire \<Rightarrow> message \<Rightarrow> json" where
  "message_json w m =
     JObj [(''id'', uuid_json w (m_id m)), (''sender_id'', uuid_json w (m_sender_id m)),
       (''recipient_id'', uuid_json w (m_recipient_id m)), (''content'', JStr (m_content m)),
       (''delivered_at'', json_opt_str (map_option (wi_show_time w) (m_delivered_at m))),
       (''read_at'', json_opt_str (map_option (wi_show_time w) (m_read_at m))),
       (''deleted_at'', json_opt_str (map_option (wi_show_time w) (m_deleted_at m))),
       (''created_at'', JStr (wi_show_time w (m_created_at m)))]"

definition room_message_json :: "wire \<Rightarrow> room_message \<Rightarrow> json" where
  "room_message_json w m =
     JObj [(''id'', uuid_json w (rmsg_id m)), (''room_id'', uuid_json w (rmsg_room_id m)),
       (''sender_id'', uuid_json w (rmsg_sender_id m)), (''content'', JStr (rmsg_content m)),
       (''deleted_at'', json_opt_str (map_option (wi_show_time w) (rmsg_deleted_at m))),
       (''created_at'', JStr (wi_show_time w (rmsg_created_at m)))]"

definition typing_event_json :: "wire \<Rightarrow> uuid \<Rightarrow> uuid \<Rightarrow> bool \<Rightarrow> json" where
  "typing_event_json w sender recipient is_typing =
     tagged ''typing'' [(''sender_id'', uuid_json w sender), (''recipient_id'', uuid_json w recipient),
       (''is_typing'', JBool is_typing)]"

definition relay_incoming_call_json :: "wire \<Rightarrow> uuid \<Rightarrow> uuid \<Rightarrow> string \<Rightarrow> string \<Rightarrow> json" where
  "relay_incoming_call_json w call caller call_type sdp =
     tagged ''incoming_call'' [(''call_id'', uuid_json w call), (''caller_id'', uuid_json w caller),
       (''call_type'', JStr call_type), (''sdp_offer'', JStr sdp)]"

definition relay_call_answer_json :: "wire \<Rightarrow> uuid \<Rightarrow> uuid \<Rightarrow> string \<Rightarrow> json" where
  "relay_call_answer_json w call callee sdp =
     tagged ''call_answered'' [(''call_id'', uuid_json w call), (''callee_id'', uuid_json w callee),
       (''sdp_answer'', JStr sdp)]"

definition relay_call_reject_json :: "wire \<Rightarrow> uuid \<Rightarrow> uuid \<Rightarrow> json" where
  "relay_call_reject_json w call callee =
     tagged ''call_rejected'' [(''call_id'', uuid_json w call), (''callee_id'', uuid_json w callee)]"

definition relay_call_hangup_json :: "wire \<Rightarrow> uuid \<Rightarrow> uuid \<Rightarrow> json" where
  "relay_call_hangup_json w call from_user =
     tagged ''call_hangup'' [(''call_id'', uuid_json w call), (''from_user_id'', uuid_json w from_user)]"

definition relay_ice_candidate_json ::
  "wire \<Rightarrow> uuid \<Rightarrow> uuid \<Rightarrow> string \<Rightarrow> string option \<Rightarrow> nat option \<Rightarrow> json" where
  "relay_ice_candidate_json w call from_user candidate mid index =
     tagged ''ice_candidate'' [(''call_id'', uuid_json w call), (''from_user_id'', uuid_json w from_user),
       (''candidate'', JStr candidate), (''sdp_mid'', json_opt_str mid),
       (''sdp_mline_index'', json_opt_int (map_option int index))]"

definition new_message_json :: "wire \<Rightarrow> message \<Rightarrow> json" where
  "new_message_json w m = tagged ''new_message'' [(''message'', message_json w m)]"

definition new_room_message_json :: "wire \<Rightarrow> uuid \<Rightarrow> room_message \<Rightarrow> json" where
  "new_room_message_json w room m =
     tagged ''new_room_message'' [(''room_id'', uuid_json w room), (''message'', room_message_json w m)]"

definition room_membership_changed_json :: "wire \<Rightarrow> uuid \<Rightarrow> json" where
  "room_membership_changed_json w room = tagged ''room_membership_changed'' [(''room_id'', uuid_json w room)]"

definition event_json :: "wire \<Rightarrow> event \<Rightarrow> json" where
  "event_json w e =
    (case e of
       NewMessage m \<Rightarrow> new_message_json w m
     | NewRoomMessage room m \<Rightarrow> new_room_message_json w room m
     | RoomMembershipChanged room \<Rightarrow> room_membership_changed_json w room
     | Typing sender recipient is_typing \<Rightarrow> typing_event_json w sender recipient is_typing
     | RelayIncomingCall call caller call_type sdp \<Rightarrow> relay_incoming_call_json w call caller call_type sdp
     | RelayCallAnswer call callee sdp \<Rightarrow> relay_call_answer_json w call callee sdp
     | RelayCallReject call callee \<Rightarrow> relay_call_reject_json w call callee
     | RelayCallHangup call from_user \<Rightarrow> relay_call_hangup_json w call from_user
     | RelayIceCandidate call from_user candidate mid index \<Rightarrow>
         relay_ice_candidate_json w call from_user candidate mid index)"

text \<open>
  \<open>publish\<close> puts the JSON text of an event on a channel; a subscriber of the channel gets the texts
  in the order in which they were published.
\<close>

definition publish_payload :: "wire \<Rightarrow> event \<Rightarrow> string" where
  "publish_payload w e = wi_to_string w (event_json w e)"

text \<open>\<open>publish_to_user\<close> of src/src/ws/broker.rs: a fresh connection, then one payload on the user's channel.\<close>

definition publish_to_user :: "wire \<Rightarrow> bool \<Rightarrow> uuid \<Rightarrow> event \<Rightarrow> string + effect list" where
  "publish_to_user w connected user_id e =
    (if connected then Inr [Publish (user_channel (wi_show_uuid w) user_id) e] else Inl ''Redis connection error'')"

fun channel_events :: "string \<Rightarrow> effect list \<Rightarrow> event list" where
  "channel_events c [] = []"
| "channel_events c (Publish c' e # es) = (if c' = c then e # channel_events c es else channel_events c es)"
| "channel_events c (_ # es) = channel_events c es"

section \<open>Events of the client\<close>

text \<open>
  The reading of an object as \<open>ClientEvent\<close>: the tag and every known field at most once, unknown
  fields are skipped, an absent or null optional field is \<open>None\<close>.
\<close>

definition field :: "string \<Rightarrow> (string \<times> json) list \<Rightarrow> json option option" where
  "field k m = (case filter (\<lambda>p. fst p = k) m of [] \<Rightarrow> Some None | [p] \<Rightarrow> Some (Some (snd p)) | _ \<Rightarrow> None)"

definition needed :: "(json \<Rightarrow> 'a option) \<Rightarrow> string \<Rightarrow> (string \<times> json) list \<Rightarrow> 'a option" where
  "needed read k m = (case field k m of Some (Some v) \<Rightarrow> read v | _ \<Rightarrow> None)"

definition optional :: "(json \<Rightarrow> 'a option) \<Rightarrow> string \<Rightarrow> (string \<times> json) list \<Rightarrow> 'a option option" where
  "optional read k m =
    (case field k m of
       None \<Rightarrow> None
     | Some None \<Rightarrow> Some None
     | Some (Some v) \<Rightarrow> if v = JNull then Some None else map_option Some (read v))"

definition read_uuid :: "wire \<Rightarrow> json \<Rightarrow> uuid option" where
  "read_uuid w v = Option.bind (json_as_str v) (wi_parse_uuid w)"

definition read_bool :: "json \<Rightarrow> bool option" where
  "read_bool v = (case v of JBool b \<Rightarrow> Some b | _ \<Rightarrow> None)"

definition read_u32 :: "json \<Rightarrow> nat option" where
  "read_u32 v = (case v of JInt i \<Rightarrow> if 0 \<le> i \<and> i < 2 ^ 32 then Some (nat i) else None | _ \<Rightarrow> None)"

definition client_event_of_object :: "wire \<Rightarrow> (string \<times> json) list \<Rightarrow> client_event option" where
  "client_event_of_object w m =
    Option.bind (needed json_as_str ''type'' m) (\<lambda>tag.
     if tag = ''ping'' then Some ClPing
     else if tag = ''typing'' then
       Option.bind (needed (read_uuid w) ''partner_id'' m) (\<lambda>partner.
       Option.bind (needed read_bool ''is_typing'' m) (\<lambda>b. Some (ClTyping partner b)))
     else if tag = ''call_offer'' then
       Option.bind (needed (read_uuid w) ''callee_id'' m) (\<lambda>callee.
       Option.bind (needed json_as_str ''call_type'' m) (\<lambda>call_type.
       Option.bind (needed json_as_str ''sdp_offer'' m) (\<lambda>sdp. Some (ClCallOffer callee call_type sdp))))
     else if tag = ''call_answer'' then
       Option.bind (needed (read_uuid w) ''call_id'' m) (\<lambda>call.
       Option.bind (needed (read_uuid w) ''caller_id'' m) (\<lambda>caller.
       Option.bind (needed json_as_str ''sdp_answer'' m) (\<lambda>sdp. Some (ClCallAnswer call caller sdp))))
     else if tag = ''call_reject'' then
       Option.bind (needed (read_uuid w) ''call_id'' m) (\<lambda>call.
       Option.bind (needed (read_uuid w) ''caller_id'' m) (\<lambda>caller. Some (ClCallReject call caller)))
     else if tag = ''call_hangup'' then
       Option.bind (needed (read_uuid w) ''call_id'' m) (\<lambda>call.
       Option.bind (needed (read_uuid w) ''peer_id'' m) (\<lambda>peer. Some (ClCallHangup call peer)))
     else if tag = ''ice_candidate'' then
       Option.bind (needed (read_uuid w) ''call_id'' m) (\<lambda>call.
       Option.bind (needed (read_uuid w) ''peer_id'' m) (\<lambda>peer.
       Option.bind (needed json_as_str ''candidate'' m) (\<lambda>candidate.
       Option.bind (optional json_as_str ''sdp_mid'' m) (\<lambda>mid.
       Option.bind (optional read_u32 ''sdp_mline_index'' m) (\<lambda>index.
       Some (ClIceCandidate call peer candidate mid index))))))
     else None)"

end
