(* ===== verification/Ws_Event_Properties.thy ===== *)
theory Ws_Event_Properties
  imports Ws_Events Call_Properties "HOL-Library.Sublist"
begin

text \<open>
  The wire format: the relayed payloads are the events for the client, a client's event is read
  back from its JSON, and what one session publishes for a user is what the sessions of that user
  send to their clients.
\<close>

section \<open>Relayed payloads are events for the client\<close>

fun client_view :: "event \<Rightarrow> server_event option" where
  "client_view (RelayIncomingCall call caller call_type sdp) = Some (SvIncomingCall call caller call_type sdp)"
| "client_view (RelayCallAnswer call callee sdp) = Some (SvCallAnswered call callee sdp)"
| "client_view (RelayCallReject call callee) = Some (SvCallRejected call callee)"
| "client_view (RelayCallHangup call from_user) = Some (SvCallHangup call from_user)"
| "client_view (RelayIceCandidate call from_user candidate mid index) =
     Some (SvIceCandidate call from_user candidate mid index)"
| "client_view _ = None"

lemmas relay_json_defs = relay_incoming_call_json_def relay_call_answer_json_def relay_call_reject_json_def
  relay_call_hangup_json_def relay_ice_candidate_json_def

lemma relay_is_server_event:
  "client_view e = Some ev \<Longrightarrow> event_json w e = server_event_json w ev"
  by (cases e rule: client_view.cases) (auto simp: event_json_def server_event_json_def relay_json_defs)

text \<open>The user whom an event names as its author.\<close>

fun event_author :: "server_event \<Rightarrow> uuid option" where
  "event_author (SvIncomingCall _ caller _ _) = Some caller"
| "event_author (SvCallAnswered _ callee _) = Some callee"
| "event_author (SvCallRejected _ callee) = Some callee"
| "event_author (SvCallHangup _ from_user) = Some from_user"
| "event_author (SvIceCandidate _ from_user _ _ _) = Some from_user"
| "event_author _ = None"

lemma signed_event_view:
  assumes "signed_event u e"
  shows "(\<exists>ev. client_view e = Some ev \<and> event_author ev = Some u) \<or> (\<exists>p b. e = Typing u p b)"
  using assms by (cases e) auto

section \<open>A session forwards its channel\<close>

fun sent_payloads :: "reply list \<Rightarrow> string list" where
  "sent_payloads [] = []"
| "sent_payloads (SendPayload p # rs) = p # sent_payloads rs"
| "sent_payloads (_ # rs) = sent_payloads rs"

fun received :: "'r ws_input list \<Rightarrow> string list" where
  "received [] = []"
| "received (x # xs) = (case in_arm x of RedisPayload p \<Rightarrow> p # received xs | _ \<Rightarrow> received xs)"

lemma sent_payloads_append [simp]: "sent_payloads (rs @ qs) = sent_payloads rs @ sent_payloads qs"
  by (induction rs rule: sent_payloads.induct) simp_all

lemma handle_event_sends_none:
  "handle_event we ev i now sendable s = (s', replies, es, k) \<Longrightarrow> sent_payloads replies = []"
  by (cases ev) (auto simp: signal_defs call_offer_def Let_def split: if_splits sum.splits prod.splits)

lemma ws_step_sends:
  assumes "ws_step we a i now sendable s = (s', replies, es, k)"
  shows "sent_payloads replies = (case a of RedisPayload p \<Rightarrow> [p] | _ \<Rightarrow> [])"
  using assms
  by (cases "(we, a, i, now, sendable, s)" rule: ws_step.cases)
    (auto simp: Let_def handle_event_sends_none split: option.splits)

lemma session_forwards:
  assumes "run_ws_session we xs s = ((s', replies, es), closed)"
  shows "prefix (sent_payloads replies) (received xs) \<and> (\<not> closed \<longrightarrow> sent_payloads replies = received xs)"
  using assms
proof (induction xs arbitrary: s s' replies es closed)
  case (Cons x xs)
  obtain s1 rs1 es1 k where step: "ws_step we (in_arm x) (in_fresh_id x) (in_now x) (in_sendable x)
      (interfere (in_others x) s) = (s1, rs1, es1, k)"
    by (metis prod_cases4)
  note one = ws_step_sends [OF step]
  show ?case
  proof (cases k)
    case Break
    obtain s2 es2 where "ws_cleanup we (in_now x) s1 = (s2, es2)" by force
    with Cons.prems step Break have "replies = rs1" "closed" by auto
    then show ?thesis using one by (auto split: arm.splits)
  next
    case Continue
    obtain s2 rs2 es2 c2 where rest: "run_ws_session we xs s1 = ((s2, rs2, es2), c2)" by (metis prod.collapse)
    with Cons.prems step Continue have "replies = rs1 @ rs2" "closed = c2" by auto
    then show ?thesis using one Cons.IH [OF rest] by (auto split: arm.splits)
  qed
qed simp

section \<open>From one socket to another\<close>

lemma channel_events_signed:
  "list_all (signed_effect u) es \<Longrightarrow> list_all (signed_event u) (channel_events c es)"
  by (induction c es rule: channel_events.induct) auto

text \<open>
  [C25] Call signals and typing notices go from one socket to another: when the session of one user
  has relayed its events and the session of another receives, among whatever else happens to it,
  the payloads that were published on its channel, then its client is sent exactly these texts in
  this order. Each of them is a typing notice of the first user or the JSON text of a server
  event that names the first user as its author, whatever the first client sent.
\<close>

theorem signals_arrive:
  assumes run: "run_ws_session we xs s = ((s', replies, es), closed)" "ws_active_call s = None"
    and others: "\<forall>x \<in> set xs. keeps_calls (we_user_id we) (in_others x)"
    and peer: "run_ws_session we2 ys t = ((t', replies2, es2), False)"
    and channel: "received ys = map (publish_payload w) (channel_events (user_channel (wi_show_uuid w) (we_user_id we2)) es)"
  shows "\<exists>evs. sent_payloads replies2 = map (publish_payload w) evs \<and>
     evs = channel_events (user_channel (wi_show_uuid w) (we_user_id we2)) es \<and>
     (\<forall>e \<in> set evs. (\<exists>p b. e = Typing (we_user_id we) p b) \<or>
        (\<exists>ev. publish_payload w e = wi_to_string w (server_event_json w ev) \<and> event_author ev = Some (we_user_id we)))"
proof -
  have "list_all (signed_effect (we_user_id we)) es"
    using run_ws_session_ok [OF run(1) _ others subset_refl] run(2) by (simp add: session_ok_def)
  then have "\<forall>e \<in> set (channel_events (user_channel (wi_show_uuid w) (we_user_id we2)) es). signed_event (we_user_id we) e"
    using channel_events_signed by (fastforce simp: list_all_iff)
  moreover have "(\<exists>p b. e = Typing u p b) \<or>
      (\<exists>ev. publish_payload w e = wi_to_string w (server_event_json w ev) \<and> event_author ev = Some u)"
    if "signed_event u e" for e u
    using signed_event_view [OF that] relay_is_server_event [of e _ w] by (auto simp: publish_payload_def)
  ultimately show ?thesis using session_forwards [OF peer] channel by simp
qed

text \<open>Example: ann calls bob; the socket of bob announces the call.\<close>

definition sample_wire :: wire where
  "sample_wire = \<lparr>wi_show_uuid = show_nat, wi_parse_uuid = parse_unsigned 8, wi_show_time = (\<lambda>t. ''t''),
     wi_to_string = (\<lambda>j. case json_get ''type'' j of Some (JStr t) \<Rightarrow> t | _ \<Rightarrow> [])\<rparr>"

theorem signals_arrive_witness:
  "case run_ws_session sample_ws [sample_input (ClientFrame (TextFrame ''call'')) 5] sample_ws_state of
     ((s', replies, es), closed) \<Rightarrow>
       (\<exists>e. channel_events ''ws:user:3'' es = [e] \<and> publish_payload sample_wire e = ''incoming_call'' \<and>
         (\<exists>ev. publish_payload sample_wire e = wi_to_string sample_wire (server_event_json sample_wire ev) \<and>
            event_author ev = Some 2))"
proof -
  let ?xs = "[sample_input (ClientFrame (TextFrame ''call'')) 5]"
  let ?bob = "sample_ws\<lparr>we_user_id := 3\<rparr>"
  let ?ys = "[sample_input (RedisPayload ''incoming_call'') 6]"
  obtain s' replies es closed where r: "run_ws_session sample_ws ?xs sample_ws_state = ((s', replies, es), closed)"
    by (metis prod.collapse)
  obtain t' rs2 es2 c2 where b: "run_ws_session ?bob ?ys sample_ws_state = ((t', rs2, es2), c2)"
    by (metis prod.collapse)
  have "\<not> snd (run_ws_session ?bob ?ys sample_ws_state)" by code_simp
  then have c2: "c2 = False" using b by simp
  have ch: "user_channel (wi_show_uuid sample_wire) (we_user_id ?bob) = ''ws:user:3''" by code_simp
  have "case run_ws_session sample_ws ?xs sample_ws_state of ((_, _, es), _) \<Rightarrow>
      channel_events ''ws:user:3'' es = [RelayIncomingCall 7 2 ''voice'' ''sdp'']"
    by code_simp
  then have es: "channel_events ''ws:user:3'' es = [RelayIncomingCall 7 2 ''voice'' ''sdp'']" using r by simp
  have p: "publish_payload sample_wire (RelayIncomingCall 7 2 ''voice'' ''sdp'') = ''incoming_call''" by code_simp
  have "received ?ys = map (publish_payload sample_wire)
      (channel_events (user_channel (wi_show_uuid sample_wire) (we_user_id ?bob)) es)"
    unfolding ch es by (simp add: p sample_input_def)
  from signals_arrive [OF r _ _ b [unfolded c2] this] show ?thesis
    unfolding ch es using r es p by (simp add: sample_ws_state_def sample_ws_def)
qed

section \<open>Reading the events of a client\<close>

text \<open>The object that a client writes for an event.\<close>

definition client_event_object :: "wire \<Rightarrow> client_event \<Rightarrow> (string \<times> json) list" where
  "client_event_object w e =
    (case e of
       ClPing \<Rightarrow> [(''type'', JStr ''ping'')]
     | ClTyping partner b \<Rightarrow> [(''type'', JStr ''typing''), (''partner_id'', uuid_json w partner), (''is_typing'', JBool b)]
     | ClCallOffer callee call_type sdp \<Rightarrow>
         [(''type'', JStr ''call_offer''), (''callee_id'', uuid_json w callee), (''call_type'', JStr call_type),
          (''sdp_offer'', JStr sdp)]
     | ClCallAnswer call caller sdp \<Rightarrow>
         [(''type'', JStr ''call_answer''), (''call_id'', uuid_json w call), (''caller_id'', uuid_json w caller),
          (''sdp_answer'', JStr sdp)]
     | ClCallReject call caller \<Rightarrow>
         [(''type'', JStr ''call_reject''), (''call_id'', uuid_json w call), (''caller_id'', uuid_json w caller)]
     | ClCallHangup call peer \<Rightarrow>
         [(''type'', JStr ''call_hangup''), (''call_id'', uuid_json w call), (''peer_id'', uuid_json w peer)]
     | ClIceCandidate call peer candidate mid index \<Rightarrow>
         [(''type'', JStr ''ice_candidate''), (''call_id'', uuid_json w call), (''peer_id'', uuid_json w peer),
          (''candidate'', JStr candidate), (''sdp_mid'', json_opt_str mid),
          (''sdp_mline_index'', json_opt_int (map_option int index))])"

fun index_fits :: "client_event \<Rightarrow> bool" where
  "index_fits (ClIceCandidate _ _ _ _ index) \<longleftrightarrow> (\<forall>i. index = Some i \<longrightarrow> i < 2 ^ 32)"
| "index_fits _ \<longleftrightarrow> True"

lemma filter_key_empty: "filter (\<lambda>p. fst p = k) m = [] \<longleftrightarrow> k \<notin> fst ` set m"
  by (force simp: filter_empty_conv)

lemma field_Cons: "field k ((k', v) # m) =
    (if k' = k then (if k \<in> fst ` set m then None else Some (Some v)) else field k m)"
  using filter_key_empty [of k m] by (auto simp: field_def split: list.splits)

lemma field_append: "k \<notin> fst ` set m' \<Longrightarrow> field k (m @ m') = field k m"
  using filter_key_empty [of k m'] by (simp add: field_def)

text \<open>
  Every event that a client writes is read back as this event, and fields that the server does
  not know are skipped.
\<close>

theorem client_event_roundtrip:
  assumes "\<And>i. wi_parse_uuid w (wi_show_uuid w i) = Some i" "index_fits e"
    and "fst ` set extra \<inter> {''type'', ''partner_id'', ''is_typing'', ''callee_id'', ''call_type'', ''sdp_offer'',
      ''call_id'', ''caller_id'', ''sdp_answer'', ''peer_id'', ''candidate'', ''sdp_mid'', ''sdp_mline_index''} = {}"
  shows "client_event_of_object w (client_event_object w e @ extra) = Some e"
proof -
  have f: "field k (m @ extra) = field k m" if "k \<in> {''type'', ''partner_id'', ''is_typing'', ''callee_id'',
      ''call_type'', ''sdp_offer'', ''call_id'', ''caller_id'', ''sdp_answer'', ''peer_id'', ''candidate'', ''sdp_mid'',
      ''sdp_mline_index''}" for k m
    using assms(3) that by (intro field_append) blast
  show ?thesis
    using assms(1,2)
    by (cases e) (simp_all add: client_event_of_object_def client_event_object_def needed_def optional_def f
      field_Cons read_uuid_def read_bool_def read_u32_def json_opt_str_def json_opt_int_def del: append_Cons
      split: option.splits)
qed

end
