(* ===== verification/Sql_Schema.thy ===== *)
theory Sql_Schema
  imports Sync_Prelude
begin

text \<open>
  The catalogue of the database as the Rust code declares it (src/src/schema.rs): the columns, types
  and primary keys of every table, the joins and the tables that may appear in one query.
\<close>

datatype sql_type = Uuid | Text | Timestamptz | Date | Int4 | Bool | Jsonb

record column =
  co_name :: string
  co_type :: sql_type
  co_nullable :: bool
  co_references :: "(string \<times> string) option"

record sql_table =
  tb_name :: string
  tb_key :: "string list"
  tb_columns :: "column list"

definition col :: "string \<Rightarrow> sql_type \<Rightarrow> column" where
  "col n t = \<lparr>co_name = n, co_type = t, co_nullable = False, co_references = None\<rparr>"

definition opt :: "string \<Rightarrow> sql_type \<Rightarrow> column" where
  "opt n t = \<lparr>co_name = n, co_type = t, co_nullable = True, co_references = None\<rparr>"

definition sql_table_of :: "string \<Rightarrow> string list \<Rightarrow> column list \<Rightarrow> sql_table" where
  "sql_table_of n k cs = \<lparr>tb_name = n, tb_key = k, tb_columns = cs\<rparr>"

section \<open>The tables\<close>

definition admin_settings_table :: sql_table where
  "admin_settings_table = sql_table_of ''admin_settings'' [''key'']
    [col ''key'' Text,
     col ''value'' Text,
     col ''updated_at'' Timestamptz]"

definition daily_action_counters_table :: sql_table where
  "daily_action_counters_table = sql_table_of ''daily_action_counters'' [''user_id'', ''action_key'', ''day_bucket'']
    [col ''user_id'' Uuid,
     col ''action_key'' Text,
     col ''day_bucket'' Date,
     col ''count'' Int4,
     col ''updated_at'' Timestamptz]"

definition server_news_table :: sql_table where
  "server_news_table = sql_table_of ''server_news'' [''id'']
    [col ''id'' Uuid,
     col ''title'' Text,
     opt ''summary'' Text,
     col ''markdown_content'' Text,
     opt ''created_by'' Uuid,
     col ''published_at'' Timestamptz,
     col ''updated_at'' Timestamptz]"

definition encrypted_backups_table :: sql_table where
  "encrypted_backups_table = sql_table_of ''encrypted_backups'' [''user_id'']
    [col ''user_id'' Uuid,
     col ''encrypted_blob'' Text,
     col ''created_at'' Timestamptz,
     col ''updated_at'' Timestamptz]"

definition stickers_table :: sql_table where
  "stickers_table = sql_table_of ''stickers'' [''id'']
    [col ''id'' Uuid,
     col ''uploader_id'' Uuid,
     col ''group_name'' Text,
     col ''name'' Text,
     col ''mime_type'' Text,
     col ''content_base64'' Text,
     col ''size_bytes'' Int4,
     col ''status'' Text,
     col ''created_at'' Timestamptz,
     col ''updated_at'' Timestamptz,
     opt ''group_author'' Text]"

definition admin_audit_logs_table :: sql_table where
  "admin_audit_logs_table = sql_table_of ''admin_audit_logs'' [''id'']
    [col ''id'' Uuid,
     opt ''actor_user_id'' Uuid,
     col ''action'' Text,
     opt ''target'' Text,
     col ''details'' Jsonb,
     col ''created_at'' Timestamptz]"

definition user_guild_stats_table :: sql_table where
  "user_guild_stats_table = sql_table_of ''user_guild_stats'' [''user_id'']
    [col ''user_id'' Uuid,
     col ''active_days'' Int4,
     col ''contribution_score'' Int4,
     col ''derived_level'' Int4,
     col ''derived_rank'' Text,
     opt ''last_active_day'' Date,
     opt ''last_human_activity_at'' Timestamptz,
     col ''suspicious_activity_streak'' Int4,
     col ''automation_review_state'' Text,
     col ''created_at'' Timestamptz,
     col ''updated_at'' Timestamptz]"

definition guild_score_events_table :: sql_table where
  "guild_score_events_table = sql_table_of ''guild_score_events'' [''id'']
    [col ''id'' Uuid,
     col ''user_id'' Uuid,
     opt ''granter_user_id'' Uuid,
     col ''event_type'' Text,
     col ''delta'' Int4,
     opt ''reference_id'' Text,
     col ''metadata'' Jsonb,
     col ''created_at'' Timestamptz]"

definition users_table :: sql_table where
  "users_table = sql_table_of ''users'' [''id'']
    [col ''id'' Uuid,
     col ''username'' Text,
     col ''email'' Text,
     col ''password_hash'' Text,
     opt ''avatar_base64'' Text,
     opt ''description'' Text,
     opt ''message_public_key'' Text,
     col ''role'' Text,
     col ''is_active'' Bool,
     col ''created_at'' Timestamptz,
     col ''updated_at'' Timestamptz,
     opt ''last_seen_at'' Timestamptz,
     opt ''device_auth_pubkey'' Text,
     col ''is_approved'' Bool,
     opt ''ugc_terms_accepted_at'' Timestamptz,
     col ''ugc_terms_version'' Int4,
     opt ''dm_restricted_until'' Timestamptz,
     col ''safety_warning_count'' Int4,
     opt ''yellow_card_expires_at'' Timestamptz]"

definition refresh_tokens_table :: sql_table where
  "refresh_tokens_table = sql_table_of ''refresh_tokens'' [''id'']
    [col ''id'' Uuid,
     col ''user_id'' Uuid,
     col ''token_hash'' Text,
     col ''family'' Uuid,
     col ''revoked'' Bool,
     col ''issued_at'' Timestamptz,
     col ''expires_at'' Timestamptz]"

definition messages_table :: sql_table where
  "messages_table = sql_table_of ''messages'' [''id'']
    [col ''id'' Uuid,
     col ''sender_id'' Uuid,
     col ''recipient_id'' Uuid,
     col ''content'' Text,
     opt ''delivered_at'' Timestamptz,
     opt ''read_at'' Timestamptz,
     opt ''deleted_at'' Timestamptz,
     col ''created_at'' Timestamptz]"

definition rooms_table :: sql_table where
  "rooms_table = sql_table_of ''rooms'' [''id'']
    [col ''id'' Uuid,
     col ''name'' Text,
     col ''created_by'' Uuid,
     col ''created_at'' Timestamptz,
     col ''updated_at'' Timestamptz]"

definition room_members_table :: sql_table where
  "room_members_table = sql_table_of ''room_members'' [''room_id'', ''user_id'']
    [col ''room_id'' Uuid,
     col ''user_id'' Uuid,
     col ''role'' Text,
     col ''joined_at'' Timestamptz,
     opt ''last_read_at'' Timestamptz]"

definition room_messages_table :: sql_table where
  "room_messages_table = sql_table_of ''room_messages'' [''id'']
    [col ''id'' Uuid,
     col ''room_id'' Uuid,
     col ''sender_id'' Uuid,
     col ''content'' Text,
     opt ''deleted_at'' Timestamptz,
     col ''created_at'' Timestamptz]"

definition moderation_reports_table :: sql_table where
  "moderation_reports_table = sql_table_of ''moderation_reports'' [''id'']
    [col ''id'' Uuid,
     col ''reporter_user_id'' Uuid,
     col ''reported_user_id'' Uuid,
     col ''source'' Text,
     col ''content_kind'' Text,
     opt ''content_id'' Text,
     col ''reason_code'' Text,
     opt ''reporter_note'' Text,
     opt ''content_excerpt'' Text,
     col ''status'' Text,
     opt ''resolution_action'' Text,
     opt ''resolution_notes'' Text,
     col ''metadata'' Jsonb,
     col ''review_due_at'' Timestamptz,
     opt ''reviewed_by_user_id'' Uuid,
     opt ''reviewed_at'' Timestamptz,
     col ''created_at'' Timestamptz,
     col ''updated_at'' Timestamptz]"

definition user_blocks_table :: sql_table where
  "user_blocks_table = sql_table_of ''user_blocks'' [''blocker_user_id'', ''blocked_user_id'']
    [col ''blocker_user_id'' Uuid,
     col ''blocked_user_id'' Uuid,
     opt ''report_id'' Uuid,
     opt ''reason_code'' Text,
     opt ''reporter_note'' Text,
     col ''created_at'' Timestamptz]"

definition device_push_tokens_table :: sql_table where
  "device_push_tokens_table = sql_table_of ''device_push_tokens'' [''id'']
    [col ''id'' Uuid,
     col ''user_id'' Uuid,
     col ''platform'' Text,
     col ''token'' Text,
     col ''created_at'' Timestamptz,
     col ''updated_at'' Timestamptz,
     opt ''last_seen_at'' Timestamptz,
     col ''token_kind'' Text]"

definition federation_actor_keys_table :: sql_table where
  "federation_actor_keys_table = sql_table_of ''federation_actor_keys'' [''id'']
    [col ''id'' Uuid,
     col ''actor_username'' Text,
     col ''key_id'' Text,
     col ''public_key_pem'' Text,
     col ''private_key_pkcs8'' Text,
     col ''created_at'' Timestamptz]"

definition federation_inbox_activities_table :: sql_table where
  "federation_inbox_activities_table = sql_table_of ''federation_inbox_activities'' [''id'']
    [col ''id'' Uuid,
     col ''activity_id'' Text,
     col ''actor'' Text,
     col ''recipient_username'' Text,
     col ''activity_type'' Text,
     col ''payload'' Jsonb,
     col ''received_at'' Timestamptz]"

definition federation_deliveries_table :: sql_table where
  "federation_deliveries_table = sql_table_of ''federation_deliveries'' [''id'']
    [col ''id'' Uuid,
     col ''activity_id'' Text,
     col ''sender_username'' Text,
     col ''destination'' Text,
     col ''status'' Text,
     col ''attempts'' Int4,
     opt ''last_error'' Text,
     opt ''next_attempt_at'' Timestamptz,
     opt ''delivered_at'' Timestamptz,
     col ''created_at'' Timestamptz,
     col ''updated_at'' Timestamptz]"

definition federation_remote_messages_table :: sql_table where
  "federation_remote_messages_table = sql_table_of ''federation_remote_messages'' [''id'']
    [col ''id'' Uuid,
     col ''activity_id'' Text,
     opt ''object_id'' Text,
     col ''actor'' Text,
     col ''recipient_username'' Text,
     col ''content'' Text,
     col ''received_at'' Timestamptz]"

definition call_records_table :: sql_table where
  "call_records_table = sql_table_of ''call_records'' [''id'']
    [col ''id'' Uuid,
     col ''caller_id'' Uuid,
     col ''callee_id'' Uuid,
     col ''call_type'' Text,
     col ''status'' Text,
     col ''started_at'' Timestamptz,
     opt ''answered_at'' Timestamptz,
     opt ''ended_at'' Timestamptz]"

definition agent_tokens_table :: sql_table where
  "agent_tokens_table = sql_table_of ''agent_tokens'' [''id'']
    [col ''id'' Uuid,
     col ''name'' Text,
     col ''token_hash'' Text,
     col ''token_prefix'' Text,
     col ''created_by'' Uuid,
     col ''created_at'' Timestamptz,
     opt ''expires_at'' Timestamptz,
     opt ''last_used_at'' Timestamptz,
     opt ''revoked_at'' Timestamptz]"

definition schema_tables :: "sql_table list" where
  "schema_tables =
    [admin_settings_table,
     daily_action_counters_table,
     server_news_table,
     encrypted_backups_table,
     stickers_table,
     admin_audit_logs_table,
     user_guild_stats_table,
     guild_score_events_table,
     users_table,
     refresh_tokens_table,
     messages_table,
     rooms_table,
     room_members_table,
     room_messages_table,
     moderation_reports_table,
     user_blocks_table,
     device_push_tokens_table,
     federation_actor_keys_table,
     federation_inbox_activities_table,
     federation_deliveries_table,
     federation_remote_messages_table,
     call_records_table,
     agent_tokens_table]"

definition joinables :: "(string \<times> string \<times> string) list" where
  "joinables =
    [(''refresh_tokens'', ''users'', ''user_id''),
     (''messages'', ''users'', ''sender_id''),
     (''rooms'', ''users'', ''created_by''),
     (''room_members'', ''rooms'', ''room_id''),
     (''room_members'', ''users'', ''user_id''),
     (''room_messages'', ''rooms'', ''room_id''),
     (''room_messages'', ''users'', ''sender_id''),
     (''admin_audit_logs'', ''users'', ''actor_user_id''),
     (''daily_action_counters'', ''users'', ''user_id''),
     (''stickers'', ''users'', ''uploader_id''),
     (''device_push_tokens'', ''users'', ''user_id''),
     (''encrypted_backups'', ''users'', ''user_id''),
     (''server_news'', ''users'', ''created_by''),
     (''guild_score_events'', ''users'', ''user_id''),
     (''user_guild_stats'', ''users'', ''user_id''),
     (''agent_tokens'', ''users'', ''created_by'')]"

definition same_query :: "string list" where
  "same_query =
    [''admin_settings'',
     ''admin_audit_logs'',
     ''agent_tokens'',
     ''call_records'',
     ''daily_action_counters'',
     ''guild_score_events'',
     ''users'',
     ''user_guild_stats'',
     ''encrypted_backups'',
     ''device_push_tokens'',
     ''refresh_tokens'',
     ''messages'',
     ''rooms'',
     ''room_members'',
     ''room_messages'',
     ''moderation_reports'',
     ''user_blocks'',
     ''federation_actor_keys'',
     ''federation_inbox_activities'',
     ''federation_deliveries'',
     ''federation_remote_messages'',
     ''stickers'',
     ''server_news'']"

end
