(* ===== verification/Migrations.thy ===== *)
theory Migrations
  imports Sql_Schema
begin

text \<open>
  The migrations of src/migrations as operations on a catalogue: tables and columns with their
  types, nullability, primary keys and references. Indexes, triggers, defaults and checks do not
  show in src/src/schema.rs and are left out. A statement that the server rejects is \<open>None\<close>: the
  migration is rolled back and the start fails.
\<close>

section \<open>Statements\<close>

definition ref :: "string \<Rightarrow> sql_type \<Rightarrow> string \<Rightarrow> string \<Rightarrow> column" where
  "ref n t tab c = \<lparr>co_name = n, co_type = t, co_nullable = False, co_references = Some (tab, c)\<rparr>"

definition opt_ref :: "string \<Rightarrow> sql_type \<Rightarrow> string \<Rightarrow> string \<Rightarrow> column" where
  "opt_ref n t tab c = \<lparr>co_name = n, co_type = t, co_nullable = True, co_references = Some (tab, c)\<rparr>"

text \<open>
  The first argument of the first, second and fourth statement is the presence of \<open>IF NOT EXISTS\<close>
  or \<open>IF EXISTS\<close>; tables are always dropped with \<open>IF EXISTS\<close>. The blocks that rename tables test
  both names first.
\<close>

datatype ddl =
    Create_Table bool string "string list" "column list"
  | Add_Column bool string column
  | Drop_Table string
  | Drop_Column bool string string
  | Rename_If_Free string string

type_synonym catalogue = "sql_table list"

definition lookup_table :: "catalogue \<Rightarrow> string \<Rightarrow> sql_table option" where
  "lookup_table cat n = List.find (\<lambda>t. tb_name t = n) cat"

definition has_column :: "sql_table \<Rightarrow> string \<Rightarrow> bool" where
  "has_column t c = list_ex (\<lambda>x. co_name x = c) (tb_columns t)"

definition reference_ok :: "catalogue \<Rightarrow> column \<Rightarrow> bool" where
  "reference_ok cat c =
    (case co_references c of
       None \<Rightarrow> True
     | Some (n, k) \<Rightarrow> (case lookup_table cat n of None \<Rightarrow> False | Some t \<Rightarrow> has_column t k))"

text \<open>Whether another table refers to the table, or to a column of it.\<close>

definition referred :: "catalogue \<Rightarrow> string \<Rightarrow> (string \<Rightarrow> bool) \<Rightarrow> bool" where
  "referred cat n column =
     list_ex (\<lambda>t. tb_name t \<noteq> n \<and> list_ex (\<lambda>c. case co_references c of
        None \<Rightarrow> False | Some (m, k) \<Rightarrow> m = n \<and> column k) (tb_columns t)) cat"

definition on_table :: "string \<Rightarrow> (sql_table \<Rightarrow> sql_table) \<Rightarrow> catalogue \<Rightarrow> catalogue" where
  "on_table n f cat = map (\<lambda>t. if tb_name t = n then f t else t) cat"

definition rename_reference :: "string \<Rightarrow> string \<Rightarrow> sql_table \<Rightarrow> sql_table" where
  "rename_reference a b t = t\<lparr>tb_columns := map (\<lambda>c. c\<lparr>co_references :=
     map_option (\<lambda>(n, k). (if n = a then b else n, k)) (co_references c)\<rparr>) (tb_columns t)\<rparr>"

definition apply_ddl :: "ddl \<Rightarrow> catalogue \<Rightarrow> catalogue option" where
  "apply_ddl s cat =
    (case s of
       Create_Table unless n key cs \<Rightarrow>
         if lookup_table cat n \<noteq> None then (if unless then Some cat else None)
         else if list_all (reference_ok cat) cs then Some (cat @ [sql_table_of n key cs]) else None
     | Add_Column unless n c \<Rightarrow>
         (case lookup_table cat n of
            None \<Rightarrow> None
          | Some t \<Rightarrow>
              if has_column t (co_name c) then (if unless then Some cat else None)
              else if reference_ok cat c then Some (on_table n (\<lambda>t. t\<lparr>tb_columns := tb_columns t @ [c]\<rparr>) cat)
              else None)
     | Drop_Table n \<Rightarrow>
         if lookup_table cat n = None then Some cat
         else if referred cat n (\<lambda>_. True) then None
         else Some (filter (\<lambda>t. tb_name t \<noteq> n) cat)
     | Drop_Column unless n c \<Rightarrow>
         (case lookup_table cat n of
            None \<Rightarrow> None
          | Some t \<Rightarrow>
              if \<not> has_column t c then (if unless then Some cat else None)
              else if referred cat n (\<lambda>k. k = c) then None
              else Some (on_table n (\<lambda>t. t\<lparr>tb_columns := filter (\<lambda>x. co_name x \<noteq> c) (tb_columns t)\<rparr>) cat))
     | Rename_If_Free a b \<Rightarrow>
         if lookup_table cat a \<noteq> None \<and> lookup_table cat b = None
         then Some (map (rename_reference a b) (on_table a (\<lambda>t. t\<lparr>tb_name := b\<rparr>) cat))
         else Some cat)"

fun apply_all :: "ddl list \<Rightarrow> catalogue \<Rightarrow> catalogue option" where
  "apply_all [] cat = Some cat"
| "apply_all (s # ss) cat = Option.bind (apply_ddl s cat) (apply_all ss)"

record migration =
  mg_version :: string
  mg_up :: "ddl list"
  mg_down :: "ddl list"

section \<open>The migrations in the order of their versions\<close>

definition migration_initial_schema :: migration where
  "migration_initial_schema =
    \<lparr>mg_version = ''2026-03-02-000001'',
     mg_up = [Create_Table False ''users'' [''id'']
       [col ''id'' Uuid,
        col ''username'' Text,
        col ''email'' Text,
        col ''password_hash'' Text,
        col ''role'' Text,
        col ''is_active'' Bool,
        col ''created_at'' Timestamptz,
        col ''updated_at'' Timestamptz]],
     mg_down = [Drop_Table ''users'']\<rparr>"

definition migration_refresh_tokens :: migration where
  "migration_refresh_tokens =
    \<lparr>mg_version = ''2026-03-02-000002'',
     mg_up = [Create_Table False ''refresh_tokens'' [''id'']
       [col ''id'' Uuid,
        ref ''user_id'' Uuid ''users'' ''id'',
        col ''token_hash'' Text,
        col ''family'' Uuid,
        col ''revoked'' Bool,
        col ''issued_at'' Timestamptz,
        col ''expires_at'' Timestamptz]],
     mg_down = [Drop_Table ''refresh_tokens'']\<rparr>"

definition migration_messages :: migration where
  "migration_messages =
    \<lparr>mg_version = ''2026-03-02-000003'',
     mg_up = [Create_Table False ''messages'' [''id'']
       [col ''id'' Uuid,
        ref ''sender_id'' Uuid ''users'' ''id'',
        ref ''recipient_id'' Uuid ''users'' ''id'',
        col ''content'' Text,
        opt ''delivered_at'' Timestamptz,
        opt ''read_at'' Timestamptz,
        opt ''deleted_at'' Timestamptz,
        col ''created_at'' Timestamptz]],
     mg_down = [Drop_Table ''messages'']\<rparr>"

definition migration_users_last_seen_at :: migration where
  "migration_users_last_seen_at =
    \<lparr>mg_version = ''2026-03-02-000004'',
     mg_up = [Add_Column False ''users'' (opt ''last_seen_at'' Timestamptz)],
     mg_down = [Drop_Column True ''users'' ''last_seen_at'']\<rparr>"

definition migration_federation :: migration where
  "migration_federation =
    \<lparr>mg_version = ''2026-03-02-000005'',
     mg_up = [Create_Table False ''federation_actor_keys'' [''id'']
       [col ''id'' Uuid,
        ref ''actor_username'' Text ''users'' ''username'',
        col ''key_id'' Text,
        col ''public_key_pem'' Text,
        col ''private_key_pkcs8'' Text,
        col ''created_at'' Timestamptz],
       Create_Table False ''federation_inbox_activities'' [''id'']
       [col ''id'' Uuid,
        col ''activity_id'' Text,
        col ''actor'' Text,
        ref ''recipient_username'' Text ''users'' ''username'',
        col ''activity_type'' Text,
        col ''payload'' Jsonb,
        col ''received_at'' Timestamptz],
       Create_Table False ''federation_deliveries'' [''id'']
       [col ''id'' Uuid,
        col ''activity_id'' Text,
        ref ''sender_username'' Text ''users'' ''username'',
        col ''destination'' Text,
        col ''status'' Text,
        col ''attempts'' Int4,
        opt ''last_error'' Text,
        opt ''next_attempt_at'' Timestamptz,
        opt ''delivered_at'' Timestamptz,
        col ''created_at'' Timestamptz,
        col ''updated_at'' Timestamptz],
       Create_Table False ''federation_remote_messages'' [''id'']
       [col ''id'' Uuid,
        ref ''activity_id'' Text ''federation_inbox_activities'' ''activity_id'',
        opt ''object_id'' Text,
        col ''actor'' Text,
        ref ''recipient_username'' Text ''users'' ''username'',
        col ''content'' Text,
        col ''received_at'' Timestamptz]],
     mg_down = [Drop_Table ''federation_deliveries'',
       Drop_Table ''federation_remote_messages'',
       Drop_Table ''federation_inbox_activities'',
       Drop_Table ''federation_actor_keys'']\<rparr>"

definition migration_admin_dashboard :: migration where
  "migration_admin_dashboard =
    \<lparr>mg_version = ''2026-03-02-000006'',
     mg_up = [Create_Table False ''admin_settings'' [''key'']
       [col ''key'' Text,
        col ''value'' Text,
        col ''updated_at'' Timestamptz],
       Create_Table False ''admin_audit_logs'' [''id'']
       [col ''id'' Uuid,
        opt_ref ''actor_user_id'' Uuid ''users'' ''id'',
        col ''action'' Text,
        opt ''target'' Text,
        col ''details'' Jsonb,
        col ''created_at'' Timestamptz]],
     mg_down = [Drop_Table ''admin_audit_logs'',
       Drop_Table ''admin_settings'']\<rparr>"

definition migration_stickers :: migration where
  "migration_stickers =
    \<lparr>mg_version = ''2026-03-02-000007'',
     mg_up = [Create_Table True ''stickers'' [''id'']
       [col ''id'' Uuid,
        ref ''uploader_id'' Uuid ''users'' ''id'',
        col ''name'' Text,
        col ''mime_type'' Text,
        col ''content_base64'' Text,
        col ''size_bytes'' Int4,
        col ''status'' Text,
        col ''created_at'' Timestamptz,
        col ''updated_at'' Timestamptz]],
     mg_down = [Drop_Table ''stickers'']\<rparr>"

definition migration_user_profile_fields :: migration where
  "migration_user_profile_fields =
    \<lparr>mg_version = ''2026-03-02-000008'',
     mg_up = [Add_Column False ''users'' (opt ''avatar_base64'' Text)],
     mg_down = [Drop_Column True ''users'' ''avatar_base64'']\<rparr>"

definition migration_device_push_tokens :: migration where
  "migration_device_push_tokens =
    \<lparr>mg_version = ''2026-03-03-000009'',
     mg_up = [Create_Table True ''device_push_tokens'' [''id'']
       [col ''id'' Uuid,
        ref ''user_id'' Uuid ''users'' ''id'',
        col ''platform'' Text,
        col ''token'' Text,
        col ''created_at'' Timestamptz,
        col ''updated_at'' Timestamptz,
        opt ''last_seen_at'' Timestamptz]],
     mg_down = [Drop_Table ''device_push_tokens'']\<rparr>"

definition migration_encrypted_backups :: migration where
  "migration_encrypted_backups =
    \<lparr>mg_version = ''2026-03-04-000010'',
     mg_up = [Create_Table True ''encrypted_backups'' [''user_id'']
       [ref ''user_id'' Uuid ''users'' ''id'',
        col ''encrypted_blob'' Text,
        col ''created_at'' Timestamptz,
        col ''updated_at'' Timestamptz]],
     mg_down = [Drop_Table ''encrypted_backups'']\<rparr>"

definition migration_user_message_public_key :: migration where
  "migration_user_message_public_key =
    \<lparr>mg_version = ''2026-03-04-000011'',
     mg_up = [Add_Column True ''users'' (opt ''message_public_key'' Text)],
     mg_down = [Drop_Column True ''users'' ''message_public_key'']\<rparr>"

definition migration_server_news :: migration where
  "migration_server_news =
    \<lparr>mg_version = ''2026-03-04-000012'',
     mg_up = [Create_Table False ''server_news'' [''id'']
       [col ''id'' Uuid,
        col ''title'' Text,
        opt ''summary'' Text,
        col ''markdown_content'' Text,
        opt_ref ''created_by'' Uuid ''users'' ''id'',
        col ''published_at'' Timestamptz,
        col ''updated_at'' Timestamptz]],
     mg_down = [Drop_Table ''server_news'']\<rparr>"

definition migration_sticker_groups :: migration where
  "migration_sticker_groups =
    \<lparr>mg_version = ''2026-03-04-000013'',
     mg_up = [Add_Column False ''stickers'' (col ''group_name'' Text)],
     mg_down = [Drop_Column True ''stickers'' ''group_name'']\<rparr>"

definition migration_device_auth_pubkey :: migration where
  "migration_device_auth_pubkey =
    \<lparr>mg_version = ''2026-03-04-000014'',
     mg_up = [Add_Column False ''users'' (opt ''device_auth_pubkey'' Text)],
     mg_down = [Drop_Column True ''users'' ''device_auth_pubkey'']\<rparr>"

definition migration_require_approval :: migration where
  "migration_require_approval =
    \<lparr>mg_version = ''2026-03-06-000015'',
     mg_up = [Add_Column False ''users'' (col ''is_approved'' Bool)],
     mg_down = [Drop_Column True ''users'' ''is_approved'']\<rparr>"

definition migration_guild_foundation :: migration where
  "migration_guild_foundation =
    \<lparr>mg_version = ''2026-03-07-000016'',
     mg_up = [Create_Table False ''user_guild_stats'' [''user_id'']
       [ref ''user_id'' Uuid ''users'' ''id'',
        col ''active_days'' Int4,
        col ''contribution_score'' Int4,
        opt ''last_active_day'' Date,
        col ''automation_review_state'' Text,
        col ''created_at'' Timestamptz,
        col ''updated_at'' Timestamptz],
       Create_Table False ''daily_action_counters'' [''user_id'', ''action_key'', ''day_bucket'']
       [ref ''user_id'' Uuid ''users'' ''id'',
        col ''action_key'' Text,
        col ''day_bucket'' Date,
        col ''count'' Int4,
        col ''updated_at'' Timestamptz]],
     mg_down = [Drop_Table ''daily_action_counters'',
       Drop_Table ''user_guild_stats'']\<rparr>"

definition migration_guild_phase2_extensions :: migration where
  "migration_guild_phase2_extensions =
    \<lparr>mg_version = ''2026-03-07-000017'',
     mg_up = [Add_Column False ''user_guild_stats'' (col ''derived_level'' Int4),
       Add_Column False ''user_guild_stats'' (col ''derived_rank'' Text),
       Create_Table False ''guild_score_events'' [''id'']
       [col ''id'' Uuid,
        ref ''user_id'' Uuid ''users'' ''id'',
        opt_ref ''granter_user_id'' Uuid ''users'' ''id'',
        col ''event_type'' Text,
        col ''delta'' Int4,
        opt ''reference_id'' Text,
        col ''metadata'' Jsonb,
        col ''created_at'' Timestamptz]],
     mg_down = [Drop_Table ''guild_score_events'',
       Drop_Column True ''user_guild_stats'' ''derived_rank'',
       Drop_Column True ''user_guild_stats'' ''derived_level'']\<rparr>"

definition migration_guild_activity_heuristics :: migration where
  "migration_guild_activity_heuristics =
    \<lparr>mg_version = ''2026-03-07-000018'',
     mg_up = [Add_Column False ''user_guild_stats'' (opt ''last_human_activity_at'' Timestamptz),
       Add_Column False ''user_guild_stats'' (col ''suspicious_activity_streak'' Int4)],
     mg_down = [Drop_Column False ''user_guild_stats'' ''suspicious_activity_streak'',
       Drop_Column False ''user_guild_stats'' ''last_human_activity_at'']\<rparr>"

definition migration_rooms :: migration where
  "migration_rooms =
    \<lparr>mg_version = ''2026-03-08-000012'',
     mg_up = [Create_Table False ''rooms'' [''id'']
       [col ''id'' Uuid,
        col ''name'' Text,
        ref ''created_by'' Uuid ''users'' ''id'',
        col ''created_at'' Timestamptz,
        col ''updated_at'' Timestamptz],
       Create_Table False ''room_members'' [''room_id'', ''user_id'']
       [ref ''room_id'' Uuid ''rooms'' ''id'',
        ref ''user_id'' Uuid ''users'' ''id'',
        col ''role'' Text,
        col ''joined_at'' Timestamptz,
        opt ''last_read_at'' Timestamptz],
       Create_Table False ''room_messages'' [''id'']
       [col ''id'' Uuid,
        ref ''room_id'' Uuid ''rooms'' ''id'',
        ref ''sender_id'' Uuid ''users'' ''id'',
        col ''content'' Text,
        col ''created_at'' Timestamptz]],
     mg_down = [Drop_Table ''room_messages'',
       Drop_Table ''room_members'',
       Drop_Table ''rooms'']\<rparr>"

definition migration_rename_trust_to_guild :: migration where
  "migration_rename_trust_to_guild =
    \<lparr>mg_version = ''2026-03-09-000019'',
     mg_up = [Rename_If_Free ''user_trust_stats'' ''user_guild_stats'',
       Rename_If_Free ''trust_score_events'' ''guild_score_events''],
     mg_down = [Rename_If_Free ''user_guild_stats'' ''user_trust_stats'',
       Rename_If_Free ''guild_score_events'' ''trust_score_events'']\<rparr>"

definition migration_user_profile_description :: migration where
  "migration_user_profile_description =
    \<lparr>mg_version = ''2026-03-12-000020'',
     mg_up = [Add_Column False ''users'' (opt ''description'' Text)],
     mg_down = [Drop_Column False ''users'' ''description'']\<rparr>"

definition migration_sticker_group_author :: migration where
  "migration_sticker_group_author =
    \<lparr>mg_version = ''2026-03-18-000021'',
     mg_up = [Add_Column False ''stickers'' (opt ''group_author'' Text)],
     mg_down = [Drop_Column False ''stickers'' ''group_author'']\<rparr>"

definition migration_ugc_safety_moderation :: migration where
  "migration_ugc_safety_moderation =
    \<lparr>mg_version = ''2026-04-02-000022'',
     mg_up = [Add_Column False ''users'' (opt ''ugc_terms_accepted_at'' Timestamptz),
       Add_Column False ''users'' (col ''ugc_terms_version'' Int4),
       Add_Column False ''room_messages'' (opt ''deleted_at'' Timestamptz),
       Create_Table False ''moderation_reports'' [''id'']
       [col ''id'' Uuid,
        ref ''reporter_user_id'' Uuid ''users'' ''id'',
        ref ''reported_user_id'' Uuid ''users'' ''id'',
        col ''source'' Text,
        col ''content_kind'' Text,
        opt ''content_id'' Text,
        col ''reason_code'' Text,
        opt ''reporter_note'' Text,
        opt ''content_excerpt'' Text,
        col ''status'' Text,
        opt ''resolution_action'' Text,
        opt ''resolution_notes'' Text,
        col ''metadata'' Jsonb,
        col ''review_due_at'' Timestamptz,
        opt_ref ''reviewed_by_user_id'' Uuid ''users'' ''id'',
        opt ''reviewed_at'' Timestamptz,
        col ''created_at'' Timestamptz,
        col ''updated_at'' Timestamptz],
       Create_Table False ''user_blocks'' [''blocker_user_id'', ''blocked_user_id'']
       [ref ''blocker_user_id'' Uuid ''users'' ''id'',
        ref ''blocked_user_id'' Uuid ''users'' ''id'',
        opt_ref ''report_id'' Uuid ''moderation_reports'' ''id'',
        opt ''reason_code'' Text,
        opt ''reporter_note'' Text,
        col ''created_at'' Timestamptz]],
     mg_down = [Drop_Table ''user_blocks'',
       Drop_Table ''moderation_reports'',
       Drop_Column True ''room_messages'' ''deleted_at'',
       Drop_Column True ''users'' ''ugc_terms_version'',
       Drop_Column True ''users'' ''ugc_terms_accepted_at'']\<rparr>"

definition migration_safety_dm_restrictions :: migration where
  "migration_safety_dm_restrictions =
    \<lparr>mg_version = ''2026-04-02-000023'',
     mg_up = [Add_Column False ''users'' (opt ''dm_restricted_until'' Timestamptz),
       Add_Column False ''users'' (col ''safety_warning_count'' Int4)],
     mg_down = [Drop_Column True ''users'' ''safety_warning_count'',
       Drop_Column True ''users'' ''dm_restricted_until'']\<rparr>"

definition migration_yellow_card :: migration where
  "migration_yellow_card =
    \<lparr>mg_version = ''2026-04-03-000024'',
     mg_up = [Add_Column False ''users'' (opt ''yellow_card_expires_at'' Timestamptz)],
     mg_down = [Drop_Column False ''users'' ''yellow_card_expires_at'']\<rparr>"

definition migration_call_records :: migration where
  "migration_call_records =
    \<lparr>mg_version = ''2026-04-27-000025'',
     mg_up = [Create_Table False ''call_records'' [''id'']
       [col ''id'' Uuid,
        ref ''caller_id'' Uuid ''users'' ''id'',
        ref ''callee_id'' Uuid ''users'' ''id'',
        col ''call_type'' Text,
        col ''status'' Text,
        col ''started_at'' Timestamptz,
        opt ''answered_at'' Timestamptz,
        opt ''ended_at'' Timestamptz]],
     mg_down = [Drop_Table ''call_records'']\<rparr>"

definition migration_device_push_token_kind :: migration where
  "migration_device_push_token_kind =
    \<lparr>mg_version = ''2026-08-14-000026'',
     mg_up = [Add_Column False ''device_push_tokens'' (col ''token_kind'' Text)],
     mg_down = [Drop_Column True ''device_push_tokens'' ''token_kind'']\<rparr>"

definition migration_agent_tokens :: migration where
  "migration_agent_tokens =
    \<lparr>mg_version = ''2026-08-15-000026'',
     mg_up = [Create_Table False ''agent_tokens'' [''id'']
       [col ''id'' Uuid,
        col ''name'' Text,
        col ''token_hash'' Text,
        col ''token_prefix'' Text,
        ref ''created_by'' Uuid ''users'' ''id'',
        col ''created_at'' Timestamptz,
        opt ''expires_at'' Timestamptz,
        opt ''last_used_at'' Timestamptz,
        opt ''revoked_at'' Timestamptz]],
     mg_down = [Drop_Table ''agent_tokens'']\<rparr>"

definition migrations :: "migration list" where
  "migrations =
    [migration_initial_schema,
     migration_refresh_tokens,
     migration_messages,
     migration_users_last_seen_at,
     migration_federation,
     migration_admin_dashboard,
     migration_stickers,
     migration_user_profile_fields,
     migration_device_push_tokens,
     migration_encrypted_backups,
     migration_user_message_public_key,
     migration_server_news,
     migration_sticker_groups,
     migration_device_auth_pubkey,
     migration_require_approval,
     migration_guild_foundation,
     migration_guild_phase2_extensions,
     migration_guild_activity_heuristics,
     migration_rooms,
     migration_rename_trust_to_guild,
     migration_user_profile_description,
     migration_sticker_group_author,
     migration_ugc_safety_moderation,
     migration_safety_dm_restrictions,
     migration_yellow_card,
     migration_call_records,
     migration_device_push_token_kind,
     migration_agent_tokens]"

fun migrate :: "migration list \<Rightarrow> catalogue \<Rightarrow> catalogue option" where
  "migrate [] cat = Some cat"
| "migrate (m # ms) cat = Option.bind (apply_all (mg_up m) cat) (migrate ms)"

text \<open>\<open>diesel migration revert --all\<close>: the down scripts, the newest first.\<close>

fun revert :: "migration list \<Rightarrow> catalogue \<Rightarrow> catalogue option" where
  "revert [] cat = Some cat"
| "revert (m # ms) cat = Option.bind (apply_all (mg_down m) cat) (revert ms)"

end
