(* ===== verification/Migration_Properties.thy ===== *)
theory Migration_Properties
  imports Migrations
begin

text \<open>
  The declared tables are those that the migrations build, and which migrations can be reverted.
\<close>

text \<open>Two tables with the same name, key and columns; references are not declared in schema.rs.\<close>

definition same_column :: "column \<Rightarrow> column \<Rightarrow> bool" where
  "same_column a b \<longleftrightarrow> co_name a = co_name b \<and> co_type a = co_type b \<and> co_nullable a = co_nullable b"

definition same_table :: "sql_table \<Rightarrow> sql_table \<Rightarrow> bool" where
  "same_table a b \<longleftrightarrow> tb_name a = tb_name b \<and> tb_key a = tb_key b \<and>
     length (tb_columns a) = length (tb_columns b) \<and>
     list_all (\<lambda>x. list_ex (same_column x) (tb_columns b)) (tb_columns a)"

definition same_catalogue :: "catalogue \<Rightarrow> catalogue \<Rightarrow> bool" where
  "same_catalogue a b \<longleftrightarrow> length a = length b \<and> list_all (\<lambda>t. list_ex (same_table t) b) a"

text \<open>A join is declared along a foreign key.\<close>

definition foreign_key :: "catalogue \<Rightarrow> string \<times> string \<times> string \<Rightarrow> bool" where
  "foreign_key cat j =
    (case j of (child, parent, c) \<Rightarrow>
       (case lookup_table cat child of
          None \<Rightarrow> False
        | Some t \<Rightarrow> list_ex (\<lambda>x. co_name x = c \<and> co_references x = Some (parent, ''id'')) (tb_columns t)))"


section \<open>Reverting\<close>

lemma lookup_None: "lookup_table cat n = None \<longleftrightarrow> n \<notin> tb_name ` set cat"
  by (auto simp: lookup_table_def find_None_iff)

lemma renamed_names:
  "tb_name ` set (map (rename_reference a b) (on_table a (\<lambda>t. t\<lparr>tb_name := b\<rparr>) cat)) =
     (\<lambda>n. if n = a then b else n) ` tb_name ` set cat"
proof -
  have "tb_name (rename_reference a b (if tb_name t = a then t\<lparr>tb_name := b\<rparr> else t)) =
      (if tb_name t = a then b else tb_name t)" for t
    by (simp add: rename_reference_def)
  then show ?thesis by (auto simp: on_table_def image_image image_iff)
qed

lemma drop_table_missing:
  "lookup_table cat n = None \<Longrightarrow> apply_ddl (Drop_Table m) cat = Some cat' \<Longrightarrow> lookup_table cat' n = None"
  by (auto simp: apply_ddl_def lookup_None split: if_splits)

lemma drop_tables_missing:
  "list_all (\<lambda>s. \<exists>m. s = Drop_Table m) ss \<Longrightarrow> lookup_table cat n = None \<Longrightarrow> apply_all ss cat = Some cat' \<Longrightarrow>
     lookup_table cat' n = None"
  by (induction ss arbitrary: cat) (auto simp: bind_eq_Some_conv dest: drop_table_missing)

lemma rename_missing:
  assumes "lookup_table cat n = None" "b \<noteq> n"
  obtains cat' where "apply_ddl (Rename_If_Free a b) cat = Some cat'" "lookup_table cat' n = None"
proof (cases "lookup_table cat a \<noteq> None \<and> lookup_table cat b = None")
  case True
  have "n \<notin> (\<lambda>x. if x = a then b else x) ` tb_name ` set cat"
    using assms by (auto simp: lookup_None)
  then show ?thesis using True that renamed_names [of a b cat] by (simp add: apply_ddl_def lookup_None del: set_map)
next
  case False
  with that assms(1) show ?thesis by (auto simp: apply_ddl_def)
qed

text \<open>
  The migration that renames the trust tables cannot be reverted on a database that was created
  with the guild names: going up it changes nothing there, going down it renames the table all the
  same, and the next older migration of that table, which does not test for it, then fails.
\<close>

theorem rename_not_reverted:
  assumes "lookup_table cat ''user_guild_stats'' \<noteq> None" "lookup_table cat ''user_trust_stats'' = None"
    and "lookup_table cat ''trust_score_events'' = None"
  shows "apply_all (mg_up migration_rename_trust_to_guild) cat = Some cat \<and>
    revert [migration_rename_trust_to_guild, migration_rooms, migration_guild_activity_heuristics] cat = None"
proof -
  have up: "apply_all (mg_up migration_rename_trust_to_guild) cat = Some cat"
    using assms by (simp add: migration_rename_trust_to_guild_def apply_ddl_def)
  let ?c1 = "map (rename_reference ''user_guild_stats'' ''user_trust_stats'')
      (on_table ''user_guild_stats'' (\<lambda>t. t\<lparr>tb_name := ''user_trust_stats''\<rparr>) cat)"
  have c1: "apply_ddl (Rename_If_Free ''user_guild_stats'' ''user_trust_stats'') cat = Some ?c1"
    using assms by (simp add: apply_ddl_def)
  have "lookup_table ?c1 ''user_guild_stats'' = None"
    unfolding lookup_None renamed_names by auto
  then obtain c2 where c2: "apply_ddl (Rename_If_Free ''guild_score_events'' ''trust_score_events'') ?c1 = Some c2"
    and "lookup_table c2 ''user_guild_stats'' = None"
    by (rule rename_missing [of ?c1 "''user_guild_stats''" "''trust_score_events''" "''guild_score_events''"]) simp
  have "apply_all (mg_down migration_guild_activity_heuristics) c3 = None"
    if "apply_all (mg_down migration_rooms) c2 = Some c3" for c3
    using drop_tables_missing [OF _ \<open>lookup_table c2 _ = None\<close> that]
    by (simp add: migration_rooms_def migration_guild_activity_heuristics_def apply_ddl_def)
  then have "revert [migration_rooms, migration_guild_activity_heuristics] c2 = None"
    by (cases "apply_all (mg_down migration_rooms) c2") simp_all
  then show ?thesis using up c1 c2 by (simp add: migration_rename_trust_to_guild_def)
qed

end
