(* ===== verification/Spec2Isabelle.thy ===== *)
theory Spec2Isabelle
  imports Contribution_Properties Moderation_Properties Room_Properties Account_Properties
    Session_Properties Middleware_Properties Inbox_Properties Delivery_Properties
    Push_Properties Call_Properties Sticker_Properties Chat_Properties Auth_Redis_Properties Route_Properties Admin_Properties
    Router_Properties Admin_Dispatch Startup_Properties Ws_Event_Properties Migration_Properties
begin

text \<open>
  Verification of Sync-Server, the federated chat server under src/src (Rust, actix-web,
  diesel on PostgreSQL, Redis).

  \<^bold>\<open>Parts of the program and where they are modelled.\<close>

  \<^item> Sync\_Prelude: errors and their HTTP status (src/src/errors.rs), results, 32-bit
    arithmetic, text on Latin-1, decimal numbers, time, tables as lists of rows; the interfaces
    \<open>keyed_store\<close> (a table with a primary key) and \<open>machine\<close> (a step relation with an invariant).
  \<^item> Schema: one record per table (src/src/models, src/src/schema.rs) and the record \<open>db\<close> of
    all tables, with the constraints of src/migrations.
  \<^item> Server\_Config: the configuration read from the environment (src/src/config.rs).
  \<^item> Guild\_Policy, Guild\_Service, Contribution: levels, ranks, daily quotas, the automation
    review and the contribution ledger (src/src/services/guild\_service.rs).
  \<^item> Moderation\_Service: terms, text filter, blocks, reports, the nightly review, the guard on
    direct messages (src/src/services/moderation\_service.rs).
  \<^item> Keyset, Message\_Service: newest-first pagination; direct messages
    (src/src/services/message\_service.rs).
  \<^item> Room\_Service: group rooms (src/src/services/room\_service.rs).
  \<^item> User\_Service: accounts and federated contacts (src/src/services/user\_service.rs).
  \<^item> Admin\_Service: settings, dashboard, account actions, audit statistics
    (src/src/services/admin\_service.rs).
  \<^item> Auth: claims, tokens, passwords, registration, first administrator, logins, refresh and
    logout (src/src/auth, src/src/routes/auth.rs); Auth\_Middleware: the request extractors and
    agent tokens (src/src/auth/middleware.rs, src/src/services/agent\_token\_service.rs);
    Redis\_Store, Auth\_Redis: QR logins and forgotten passwords with their records in Redis and the
    mail (src/src/routes/auth.rs, src/src/services/email\_service.rs).
  \<^item> Federation\_Service, Federation\_Routes: actors, signatures, the inbox, deliveries and their
    retries (src/src/services/federation\_service.rs, src/src/routes/federation.rs).
  \<^item> Server\_Io: channels, published events and pushes as effects
    (src/src/services/redis\_pubsub.rs); Actions: handlers that run several statements without a
    transaction, as a monad of results, databases and effects.
  \<^item> Chat\_Routes: the handlers of messages and rooms (src/src/routes/messages.rs, rooms.rs).
  \<^item> Push\_Service: device tokens, APNs requests, dispatch (src/src/services/push\_token\_service.rs,
    apns\_service.rs, push\_dispatch\_service.rs, src/src/routes/push.rs).
  \<^item> Call\_Service, Ws\_Session: calls and the session loop of a WebSocket
    (src/src/services/call\_service.rs, src/src/routes/calls.rs, ws.rs, src/src/ws/session.rs).
  \<^item> Sticker\_Service: stickers and their handlers (src/src/services/sticker\_service.rs,
    src/src/routes/stickers.rs).
  \<^item> Account\_Routes: profile, safety, backups and news (src/src/routes/profile.rs, safety.rs,
    backup.rs, planet\_news.rs and the two services below them); Public\_Routes: health, planet
    image, ALTCHA, country, push relay (src/src/routes/health.rs, altcha.rs, push\_relay.rs,
    src/src/services/geoip\_service.rs).
  \<^item> Planet\_Image, Admin\_Routes: the administration handlers, the compression of the planet image
    and the table of routes behind the extractor (src/src/routes/admin.rs).
  \<^item> Router: every registered route with its scope, rate limiter and extractor, and the passage of a
    request through them (\<open>App\<close> in src/src/main.rs, the functions \<open>configure\<close> of src/src/routes);
    the interface \<open>documented_router\<close> is what the code relies on of actix-web.
  \<^item> Startup: the sequence of \<open>main\<close> with every way to fail and the nightly task (src/src/main.rs,
    src/src/db.rs, \<open>spawn_daily_automatic_review\<close> of src/src/services/moderation\_service.rs).
  \<^item> Ws\_Events: the JSON of the WebSocket and of the Redis channels (src/src/ws/session.rs, broker.rs,
    src/src/services/redis\_pubsub.rs).
  \<^item> Sql\_Schema, Migrations: the declared tables (src/src/schema.rs) and the scripts that build them
    (src/migrations).

  The theories whose names end in Properties (and Guild\_Invariants and Admin\_Dispatch) hold the lemmas.

  \<^bold>\<open>How the parts interact.\<close> A request is given to the first route that matches it, passes the
  rate limiter of its scope and the extractor of its handler. A handler takes the claims that the extractor has accepted, calls the
  services on the database, and issues effects: events on the Redis channels of users, which the
  WebSocket sessions relay, and notifications, which Push\_Service sends. Sending a message calls
  moderation (the guard), the guild (the quota), messages (the row) and federation (the delivery);
  the administration writes the settings that registration, the guild and the public routes read.

  \<^bold>\<open>How the code is translated.\<close> A function of the source is a definition of the same name. A
  function that runs in one transaction, or in one statement, takes the database and returns
  an error or the value with the new database; a function that runs several statements without
  a transaction returns the result and the database it leaves behind in every case. The
  current time, fresh UUIDs and random tokens are arguments; one request sees one instant.
  Third-party code (UUID text, JSON codecs, SHA-256, JWT, bcrypt, ALTCHA, URL parsing, Ed25519,
  Redis, the network, the image codecs) is a parameter; what a property relies on of it is a named
  hypothesis (\<open>redis_laws\<close>, \<open>base64_law\<close>, \<open>ed25519_law\<close> and others). Constraint violations of the database are the errors \<open>Database ...\<close>; a lost
  connection is not modelled. Integers of 32 bits wrap around as in a release build
  (\<open>wrap_i32\<close>); columns refuse values out of range. Text is restricted to the code points up to
  U+00FF, on which trimming, case folding and the character classes are those of Rust. The two
  token lifetimes of the configuration are taken to be small enough for the sums with the
  clock not to overflow 64 bits. All recursive functions are total; no fuel is used, except that the four rounds
  of the image compression are the bound of the loop in the code. A WebSocket session is a run over a
  finite list of inputs, with the writes of other requests in between.

  \<^bold>\<open>What is shown.\<close> Guild: the reachable rows stay consistent with the policy, activity refines an
  abstract counter of days, quotas and vote caps are exact. Moderation: the filter, the guard
  and the nightly review are exact and complete, and no due report stays open for more than a day. Messages and rooms: pages show every message
  once, counters are exact, the room tables stay consistent, outsiders are refused. Accounts:
  keys stay unique, deletion leaves no trace and no dangling reference, the rate of new
  accounts is bounded, the first administrator is set up once, with the printed address only. Sessions: the handlers refine a
  machine on the token table with one live token per family; tokens work once, replay and
  logout end the session; the race of two concurrent refreshes is shown. Extractors: the exact
  conditions of access, the life of agent tokens. QR logins and reset links are handed over once.
  Federation: what one server sends another accepts, the inbox is authenticated and applies an
  activity once, deliveries stay sound and settle. Handlers: a message is stored only past its
  guards and told to exactly the right accounts; a WebSocket session acts for its own user only and
  ends its call, and what it relays arrives at the other socket as an event of the client; a push reaches every device it should and no other; sticker quotas hold; profile
  updates are validated; backups round-trip; the relay is guarded. Administration: every change is
  audited under the administrator, settings round-trip, the uploaded planet image is the one served,
  and its blending never leaves its 16 bits.

  Routing: every registered handler is reached by its requests, and nothing under /api but the list of
  sticker groups is reached without the credentials of an active account. Database: the tables that
  the code declares are those that the migrations build; one migration cannot be reverted.

  \<^bold>\<open>Not modelled.\<close> The parsing of request bodies by actix and serde (the events of a WebSocket
  apart), what the rate limiters count, CORS, logging, the probing of the hardware, the connection
  pool, the fixed markup of the reset pages, the deployment files, and the dashboard, which is a client.
\<close>

end
